(* ===== verification/Prelude.thy ===== *)
theory Prelude
  imports Main "HOL-Library.Sublist" "HOL-Library.Char_ord"
begin

text \<open>
  Shared vocabulary of the development: Go strings as byte lists with the parts of package
  \<open>strings\<close> the sources call, instants and durations as nanosecond counts, results as sums,
  error-propagating iteration, and tables as lists of rows with the lemmas every store operation
  needs.

  A Go \<open>string\<close> is a sequence of bytes, and so is a HOL \<open>string\<close>: one \<open>char\<close> is one byte.
  Text beyond ASCII is held in its UTF-8 encoding, as Go holds it.
\<close>

named_theorems trim_simps \<open>facts about trimming and splitting byte strings\<close>
named_theorems result_simps \<open>inversion of error-propagating code\<close>
named_theorems table_simps \<open>reading a table after an update of its rows\<close>

section \<open>Results: a Go pair (value, error)\<close>

fun bindE :: "'e + 'a \<Rightarrow> ('a \<Rightarrow> 'e + 'b) \<Rightarrow> 'e + 'b" where
  "bindE (Inl e) f = Inl e"
| "bindE (Inr x) f = f x"

fun is_ok :: "'e + 'a \<Rightarrow> bool" where
  "is_ok (Inl e) = False"
| "is_ok (Inr x) = True"

definition guardE :: "bool \<Rightarrow> 'e \<Rightarrow> 'e + unit" where
  "guardE ok e = (if ok then Inr () else Inl e)"

text \<open>A \<open>for\<close> loop over a slice that returns on the first error, threading a state.\<close>

fun foldE :: "('x \<Rightarrow> 's \<Rightarrow> 'e + 's) \<Rightarrow> 'x list \<Rightarrow> 's \<Rightarrow> 'e + 's" where
  "foldE f [] s = Inr s"
| "foldE f (x # xs) s = bindE (f x s) (foldE f xs)"

lemma bindE_Inr [result_simps]: "bindE m f = Inr y \<longleftrightarrow> (\<exists>x. m = Inr x \<and> f x = Inr y)"
  by (cases m) auto

lemma bindE_Inl [result_simps]:
  "bindE m f = Inl e \<longleftrightarrow> m = Inl e \<or> (\<exists>x. m = Inr x \<and> f x = Inl e)"
  by (cases m) auto

lemma guardE_Inr [result_simps]: "guardE b e = Inr u \<longleftrightarrow> b"
  by (simp add: guardE_def)

lemma guardE_Inl [result_simps]: "guardE b e = Inl e' \<longleftrightarrow> \<not> b \<and> e' = e"
  by (auto simp: guardE_def)

lemma is_ok_iff: "is_ok r \<longleftrightarrow> (\<exists>x. r = Inr x)"
  by (cases r) auto

lemma foldE_append: "foldE f (xs @ ys) s = bindE (foldE f xs s) (foldE f ys)"
proof (induction xs arbitrary: s)
  case Nil
  then show ?case by simp
next
  case (Cons x xs)
  then show ?case by (cases "f x s") simp_all
qed

text \<open>What every iteration keeps holds of the loop's result.\<close>

lemma foldE_invariant:
  assumes "foldE f xs s = Inr s'" and "P s"
    and step: "\<And>x t t'. x \<in> set xs \<Longrightarrow> P t \<Longrightarrow> f x t = Inr t' \<Longrightarrow> P t'"
  shows "P s'"
  using assms
proof (induction xs arbitrary: s)
  case Nil
  then show ?case by simp
next
  case (Cons x xs)
  from Cons.prems(1) obtain t where t: "f x s = Inr t" "foldE f xs t = Inr s'"
    by (auto simp: result_simps)
  have "P t" by (rule Cons.prems(3) [OF _ Cons.prems(2) t(1)]) simp
  show ?case
    by (rule Cons.IH [OF t(2) \<open>P t\<close>]) (rule Cons.prems(3), simp_all)
qed

text \<open>Each element of a finished loop was processed in some state.\<close>

lemma foldE_visits:
  assumes "foldE f xs s = Inr s'" and "x \<in> set xs"
  shows "\<exists>t t'. f x t = Inr t'"
  using assms
proof (induction xs arbitrary: s)
  case Nil
  then show ?case by simp
next
  case (Cons y ys)
  then show ?case by (auto simp: result_simps)
qed

section \<open>Byte strings\<close>

definition is_digit :: "char \<Rightarrow> bool" where
  "is_digit c \<longleftrightarrow> CHR ''0'' \<le> c \<and> c \<le> CHR ''9''"

definition is_word_char :: "char \<Rightarrow> bool" where
  "is_word_char c \<longleftrightarrow> is_digit c \<or> CHR ''A'' \<le> c \<and> c \<le> CHR ''Z'' \<or>
     CHR ''a'' \<le> c \<and> c \<le> CHR ''z'' \<or> c = CHR ''_''"

text \<open>The UTF-8 encodings of the code points Go's \<open>unicode.IsSpace\<close> accepts.\<close>

definition space_runes :: "string list" where
  "space_runes =
     [[CHR 0x09], [CHR 0x0A], [CHR 0x0B], [CHR 0x0C], [CHR 0x0D], [CHR 0x20],
      [CHR 0xC2, CHR 0x85], [CHR 0xC2, CHR 0xA0], [CHR 0xE1, CHR 0x9A, CHR 0x80],
      [CHR 0xE2, CHR 0x80, CHR 0x80], [CHR 0xE2, CHR 0x80, CHR 0x81],
      [CHR 0xE2, CHR 0x80, CHR 0x82], [CHR 0xE2, CHR 0x80, CHR 0x83],
      [CHR 0xE2, CHR 0x80, CHR 0x84], [CHR 0xE2, CHR 0x80, CHR 0x85],
      [CHR 0xE2, CHR 0x80, CHR 0x86], [CHR 0xE2, CHR 0x80, CHR 0x87],
      [CHR 0xE2, CHR 0x80, CHR 0x88], [CHR 0xE2, CHR 0x80, CHR 0x89],
      [CHR 0xE2, CHR 0x80, CHR 0x8A], [CHR 0xE2, CHR 0x80, CHR 0xA8],
      [CHR 0xE2, CHR 0x80, CHR 0xA9], [CHR 0xE2, CHR 0x80, CHR 0xAF],
      [CHR 0xE2, CHR 0x81, CHR 0x9F], [CHR 0xE3, CHR 0x80, CHR 0x80]]"

text \<open>How many bytes of white space a string starts with: the first rune only, 0 if none.\<close>

definition space_prefix :: "string \<Rightarrow> nat" where
  "space_prefix s = (case find (\<lambda>w. prefix w s) space_runes of None \<Rightarrow> 0 | Some w \<Rightarrow> length w)"

definition space_suffix :: "string \<Rightarrow> nat" where
  "space_suffix s = (case find (\<lambda>w. suffix w s) space_runes of None \<Rightarrow> 0 | Some w \<Rightarrow> length w)"

lemma space_prefix_le: "space_prefix s \<le> length s"
  by (auto simp: space_prefix_def find_Some_iff split: option.splits dest: prefix_length_le)

lemma space_suffix_le: "space_suffix s \<le> length s"
  by (auto simp: space_suffix_def find_Some_iff split: option.splits dest: suffix_length_le)

lemma space_prefix_Nil [simp]: "space_prefix [] = 0"
  using space_prefix_le [of "[]"] by simp

lemma space_suffix_Nil [simp]: "space_suffix [] = 0"
  using space_suffix_le [of "[]"] by simp

function trim_left :: "string \<Rightarrow> string" where
  "trim_left s = (if space_prefix s = 0 then s else trim_left (drop (space_prefix s) s))"
  by pat_completeness auto
termination
proof (relation "measure length")
  show "wf (measure (length :: string \<Rightarrow> nat))" by simp
  fix s :: string
  assume "space_prefix s \<noteq> 0"
  then have "s \<noteq> []" by auto
  with \<open>space_prefix s \<noteq> 0\<close> show "(drop (space_prefix s) s, s) \<in> measure length"
    by (cases s) simp_all
qed

function trim_right :: "string \<Rightarrow> string" where
  "trim_right s =
     (if space_suffix s = 0 then s else trim_right (take (length s - space_suffix s) s))"
  by pat_completeness auto
termination
proof (relation "measure length")
  show "wf (measure (length :: string \<Rightarrow> nat))" by simp
  fix s :: string
  assume "space_suffix s \<noteq> 0"
  then have "s \<noteq> []" by auto
  with \<open>space_suffix s \<noteq> 0\<close> show "(take (length s - space_suffix s) s, s) \<in> measure length"
    by (cases s) simp_all
qed

declare trim_left.simps [simp del] trim_right.simps [simp del]

text \<open>\<open>strings.TrimSpace\<close>.\<close>

definition trim_space :: "string \<Rightarrow> string" where
  "trim_space s = trim_right (trim_left s)"

lemma trim_left_Nil [simp, trim_simps]: "trim_left [] = []"
  by (simp add: trim_left.simps)

lemma trim_right_Nil [simp, trim_simps]: "trim_right [] = []"
  by (simp add: trim_right.simps)

lemma trim_space_Nil [simp, trim_simps]: "trim_space [] = []"
  by (simp add: trim_space_def)

lemma trim_left_suffix: "suffix (trim_left s) s"
proof (induction s rule: trim_left.induct)
  case (1 s)
  then show ?case
    by (subst trim_left.simps) (auto intro: suffix_order.trans suffix_drop)
qed

lemma trim_right_prefix: "prefix (trim_right s) s"
proof (induction s rule: trim_right.induct)
  case (1 s)
  then show ?case
    by (subst trim_right.simps) (auto intro: prefix_order.trans take_is_prefix)
qed

lemma set_trim_space: "set (trim_space s) \<subseteq> set s"
  unfolding trim_space_def
  by (meson trim_left_suffix trim_right_prefix set_mono_prefix set_mono_suffix subset_trans)

text \<open>\<open>strings.Contains\<close>, \<open>strings.ContainsAny\<close> and \<open>strings.Count\<close>-like scans.\<close>

fun contains_str :: "string \<Rightarrow> string \<Rightarrow> bool" where
  "contains_str [] n \<longleftrightarrow> n = []"
| "contains_str (c # s) n \<longleftrightarrow> prefix n (c # s) \<or> contains_str s n"

lemma contains_str_iff: "contains_str s n \<longleftrightarrow> sublist n s"
proof (induction s)
  case Nil
  then show ?case by auto
next
  case (Cons c s)
  then show ?case by (auto simp: sublist_Cons_right)
qed

definition contains_any :: "string \<Rightarrow> string \<Rightarrow> bool" where
  "contains_any s cs \<longleftrightarrow> list_ex (\<lambda>c. c \<in> set cs) s"

text \<open>\<open>strings.Split\<close> on a one-byte separator and \<open>strings.Join\<close>.\<close>

fun split_on :: "char \<Rightarrow> string \<Rightarrow> string list" where
  "split_on d [] = [[]]"
| "split_on d (c # s) =
     (if c = d then [] # split_on d s
      else (case split_on d s of [] \<Rightarrow> [[c]] | p # ps \<Rightarrow> (c # p) # ps))"

fun join_str :: "string \<Rightarrow> string list \<Rightarrow> string" where
  "join_str sep [] = []"
| "join_str sep [x] = x"
| "join_str sep (x # y # xs) = x @ sep @ join_str sep (y # xs)"

lemma split_on_nonempty [simp]: "split_on d s \<noteq> []"
  by (induction s) (auto split: list.splits)

lemma join_split_on: "join_str [d] (split_on d s) = s"
proof (induction s)
  case Nil
  then show ?case by simp
next
  case (Cons c s)
  obtain p ps where s: "split_on d s = p # ps"
    using split_on_nonempty [of d s] by (cases "split_on d s") auto
  with Cons.IH show ?case by (cases ps) auto
qed

lemma split_on_no_sep: "p \<in> set (split_on d s) \<Longrightarrow> d \<notin> set p"
proof (induction s arbitrary: p)
  case Nil
  then show ?case by simp
next
  case (Cons c s)
  obtain q qs where s: "split_on d s = q # qs"
    using split_on_nonempty [of d s] by (cases "split_on d s") auto
  then show ?case using Cons by (auto split: if_splits)
qed

text \<open>\<open>strings.ReplaceAll\<close> for a non-empty pattern.\<close>

function replace_all :: "string \<Rightarrow> string \<Rightarrow> string \<Rightarrow> string" where
  "replace_all old new s =
     (if old = [] \<or> s = [] then s
      else if prefix old s then new @ replace_all old new (drop (length old) s)
      else hd s # replace_all old new (tl s))"
  by pat_completeness auto
termination
  by (relation "measure (\<lambda>(old, new, s). length s)") (auto simp: neq_Nil_conv)

declare replace_all.simps [simp del]

text \<open>\<open>strings.Fields\<close>: the maximal runs of non-space.\<close>

fun flush_field :: "string \<Rightarrow> string list" where
  "flush_field [] = []"
| "flush_field (c # s) = [c # s]"

function fields_from :: "string \<Rightarrow> string \<Rightarrow> string list" where
  "fields_from acc s =
     (if s = [] then flush_field acc
      else if space_prefix s = 0 then fields_from (acc @ [hd s]) (tl s)
      else flush_field acc @ fields_from [] (drop (space_prefix s) s))"
  by pat_completeness auto
termination
  by (relation "measure (\<lambda>(acc, s). length s)") (auto simp: neq_Nil_conv)

declare fields_from.simps [simp del]

definition fields :: "string \<Rightarrow> string list" where
  "fields s = fields_from [] s"

text \<open>A decimal numeral (\<open>strconv.Itoa\<close>).\<close>

definition digit_char :: "nat \<Rightarrow> char" where
  "digit_char n = char_of (48 + n)"

fun nat_text :: "nat \<Rightarrow> string" where
  "nat_text n = (if n < 10 then [digit_char n] else nat_text (n div 10) @ [digit_char (n mod 10)])"

declare nat_text.simps [simp del]

definition int_text :: "int \<Rightarrow> string" where
  "int_text i = (if i < 0 then ''-'' @ nat_text (nat (- i)) else nat_text (nat i))"

section \<open>Instants and durations\<close>

text \<open>
  A \<open>time.Time\<close> is the number of nanoseconds since the Unix epoch, a \<open>time.Duration\<close> a number
  of nanoseconds. \<open>time.Time{}\<close>, the zero value, is midnight on 1 January of year 1.
\<close>

type_synonym gotime = int
type_synonym duration = int

definition seconds :: "int \<Rightarrow> duration" where
  "seconds n = n * 1000000000"

definition zero_time :: gotime where
  "zero_time = - 62135596800 * 1000000000"

text \<open>\<open>Weekday()\<close> (Sunday is 0) and minutes since midnight, both in UTC.\<close>

definition weekday_of :: "gotime \<Rightarrow> int" where
  "weekday_of t = (t div seconds 86400 + 4) mod 7"

definition minute_of_day :: "gotime \<Rightarrow> int" where
  "minute_of_day t = (t mod seconds 86400) div seconds 60"

text \<open>Go's \<open>%\<close>: the remainder takes the sign of the dividend.\<close>

definition go_rem :: "int \<Rightarrow> int \<Rightarrow> int" where
  "go_rem a b = sgn a * (\<bar>a\<bar> mod \<bar>b\<bar>)"

lemma go_rem_nonneg [simp]: "0 \<le> a \<Longrightarrow> 0 < b \<Longrightarrow> go_rem a b = a mod b"
  by (cases "a = 0") (simp_all add: go_rem_def)

text \<open>\<open>t.Truncate(time.Minute)\<close>.\<close>

definition truncate_minute :: "gotime \<Rightarrow> gotime" where
  "truncate_minute t = t - t mod seconds 60"

lemma weekday_of_range: "0 \<le> weekday_of t" "weekday_of t < 7"
  by (simp_all add: weekday_of_def)

lemma minute_of_day_range: "0 \<le> minute_of_day t" "minute_of_day t < 1440"
  by (auto simp: minute_of_day_def seconds_def div_less_iff_less_mult
      pos_imp_zdiv_nonneg_iff intro: order.strict_trans2 [OF pos_mod_bound])

section \<open>Tables\<close>

text \<open>A UUID is an opaque number; its text is compared as that number is.\<close>

type_synonym uuid = nat

text \<open>\<open>UnixMilli\<close>: the database keeps whole milliseconds.\<close>

definition db_time :: "gotime \<Rightarrow> gotime" where
  "db_time t = t - t mod 1000000"

lemma db_time_div: "db_time t = 1000000 * (t div 1000000)"
  by (simp add: db_time_def minus_mod_eq_mult_div)

lemma db_time_mono: "s \<le> t \<Longrightarrow> db_time s \<le> db_time t"
  by (simp add: db_time_div zdiv_mono1)

text \<open>
  A database table is the list of its rows. A statement \<open>UPDATE t SET .. WHERE p\<close> maps the rows
  that satisfy \<open>p\<close>, \<open>DELETE\<close> filters, \<open>INSERT\<close> appends, and \<open>SELECT .. WHERE key = k\<close> on a
  unique key is \<open>find_by\<close>.
\<close>

definition find_by :: "('r \<Rightarrow> 'k) \<Rightarrow> 'k \<Rightarrow> 'r list \<Rightarrow> 'r option" where
  "find_by key k rows = find (\<lambda>r. key r = k) rows"

definition update_where :: "('r \<Rightarrow> bool) \<Rightarrow> ('r \<Rightarrow> 'r) \<Rightarrow> 'r list \<Rightarrow> 'r list" where
  "update_where p f rows = map (\<lambda>r. if p r then f r else r) rows"

text \<open>\<open>RowsAffected\<close> of such an update.\<close>

definition affected :: "('r \<Rightarrow> bool) \<Rightarrow> 'r list \<Rightarrow> nat" where
  "affected p rows = length (filter p rows)"

lemma find_by_Some: "find_by key k rows = Some r \<Longrightarrow> r \<in> set rows \<and> key r = k"
  by (auto simp: find_by_def find_Some_iff)

lemma find_by_None: "find_by key k rows = None \<longleftrightarrow> k \<notin> key ` set rows"
  by (auto simp: find_by_def find_None_iff)

lemma find_by_unique:
  "distinct (map key rows) \<Longrightarrow> r \<in> set rows \<Longrightarrow> find_by key (key r) rows = Some r"
  by (induction rows) (auto simp: find_by_def)

lemma find_by_append:
  "find_by key k (xs @ ys) = (case find_by key k xs of None \<Rightarrow> find_by key k ys | Some r \<Rightarrow> Some r)"
  by (induction xs) (auto simp: find_by_def)

lemma update_where_Nil [simp]: "update_where p f [] = []"
  by (simp add: update_where_def)

lemma set_update_where [table_simps]:
  "set (update_where p f rows) = (\<lambda>r. if p r then f r else r) ` set rows"
  by (simp add: update_where_def)

lemma length_update_where [simp]: "length (update_where p f rows) = length rows"
  by (simp add: update_where_def)

lemma update_where_none [simp]:
  "(\<And>r. r \<in> set rows \<Longrightarrow> \<not> p r) \<Longrightarrow> update_where p f rows = rows"
  by (simp add: update_where_def map_idI)

text \<open>
  The contract every \<open>UPDATE\<close> of the stores obeys: the new row keeps the primary key. From it
  alone, reading a row after the update and the uniqueness of the keys follow.
\<close>

locale keyed_update =
  fixes key :: "'r \<Rightarrow> 'k" and upd :: "'r \<Rightarrow> 'r"
  assumes key_kept: "key (upd r) = key r"
begin

lemma keys_kept: "map key (update_where p upd rows) = map key rows"
  by (induction rows) (auto simp: update_where_def key_kept)

lemma distinct_kept: "distinct (map key rows) \<Longrightarrow> distinct (map key (update_where p upd rows))"
  by (simp add: keys_kept)

lemma lookup_after:
  "find_by key k (update_where p upd rows)
     = map_option (\<lambda>r. if p r then upd r else r) (find_by key k rows)"
  by (induction rows) (auto simp: find_by_def update_where_def key_kept)

end

end
