(* ===== verification/Automation_Domain.thy ===== *)
theory Automation_Domain
  imports Prelude
begin

text \<open>
  The channel-neutral automation rules of \<open>backend/automation/automation.go\<close>: the modes, the
  debounce wait and its deadline, and the recurring weekly windows with their wrap past midnight
  and past the end of the week.
\<close>

section \<open>Modes and waits\<close>

datatype mode = ModeOff | ModeSuggestions | ModeScheduledAuto

definition mode_text :: "mode \<Rightarrow> string" where
  "mode_text m = (case m of ModeOff \<Rightarrow> ''off'' | ModeSuggestions \<Rightarrow> ''suggestions''
     | ModeScheduledAuto \<Rightarrow> ''scheduled_auto'')"

definition default_mode :: mode where
  "default_mode = ModeSuggestions"

definition valid_mode :: "string \<Rightarrow> bool" where
  "valid_mode s \<longleftrightarrow> s = mode_text ModeOff \<or> s = mode_text ModeSuggestions
     \<or> s = mode_text ModeScheduledAuto"

datatype automation_error =
    WaitOutOfRange int
  | BadWeekday int
  | BadStartMinute int
  | BadEndMinute int
  | EmptyWindow

definition min_wait_seconds :: int where "min_wait_seconds = 0"
definition max_wait_seconds :: int where "max_wait_seconds = 60"

definition validate_wait_override :: "int option \<Rightarrow> automation_error + unit" where
  "validate_wait_override s = (case s of
     None \<Rightarrow> Inr ()
   | Some n \<Rightarrow>
       if n < min_wait_seconds \<or> n > max_wait_seconds then Inl (WaitOutOfRange n) else Inr ())"

definition effective_wait_seconds :: "int \<Rightarrow> int option \<Rightarrow> int" where
  "effective_wait_seconds system_default override =
     (case override of Some n \<Rightarrow> n | None \<Rightarrow> system_default)"

definition deadline :: "gotime \<Rightarrow> int \<Rightarrow> gotime" where
  "deadline last_message_at wait_seconds = last_message_at + seconds wait_seconds"

section \<open>Recurring windows\<close>

record window =
  weekday :: int
  start_minute :: int
  end_minute :: int

definition validate_window :: "window \<Rightarrow> automation_error + unit" where
  "validate_window w =
     (if weekday w < 0 \<or> weekday w > 6 then Inl (BadWeekday (weekday w))
      else if start_minute w < 0 \<or> start_minute w > 1439 then Inl (BadStartMinute (start_minute w))
      else if end_minute w < 1 \<or> end_minute w > 1440 then Inl (BadEndMinute (end_minute w))
      else if end_minute w = start_minute w then Inl EmptyWindow
      else Inr ())"

definition window_contains :: "window \<Rightarrow> gotime \<Rightarrow> bool" where
  "window_contains w t =
     (let minute = minute_of_day t; wd = weekday_of t in
      if end_minute w > start_minute w
      then wd = weekday w \<and> minute \<ge> start_minute w \<and> minute < end_minute w
      else if wd = weekday w \<and> minute \<ge> start_minute w then True
      else let next_day = go_rem (weekday w + 1) 7 in wd = next_day \<and> minute < end_minute w)"

fun in_schedule :: "window list \<Rightarrow> gotime \<Rightarrow> bool" where
  "in_schedule [] t = False"
| "in_schedule (w # ws) t = (if window_contains w t then True else in_schedule ws t)"

section \<open>What a window means: an arc of the weekly circle\<close>

text \<open>
  The specification a window is read against: the week is a circle of 10080 minutes, a window is
  the arc that starts at its weekday and start minute and has its length.
\<close>

definition week_minute :: "gotime \<Rightarrow> int" where
  "week_minute t = weekday_of t * 1440 + minute_of_day t"

definition window_length :: "window \<Rightarrow> int" where
  "window_length w =
     (if end_minute w > start_minute w then end_minute w - start_minute w
      else end_minute w + 1440 - start_minute w)"

definition on_arc :: "window \<Rightarrow> gotime \<Rightarrow> bool" where
  "on_arc w t \<longleftrightarrow>
     (week_minute t - (weekday w * 1440 + start_minute w)) mod 10080 < window_length w"

lemma in_schedule_iff: "in_schedule ws t \<longleftrightarrow> (\<exists>w\<in>set ws. window_contains w t)"
  by (induction ws) auto

lemma valid_window_iff [result_simps]:
  "validate_window w = Inr () \<longleftrightarrow>
     0 \<le> weekday w \<and> weekday w \<le> 6 \<and> 0 \<le> start_minute w \<and> start_minute w \<le> 1439 \<and>
     1 \<le> end_minute w \<and> end_minute w \<le> 1440 \<and> end_minute w \<noteq> start_minute w"
  by (auto simp: validate_window_def)

lemma mod_signed_range:
  "- n \<le> x \<Longrightarrow> x < n \<Longrightarrow> x mod n = (if x < 0 then x + n else x)" for x n :: int
  using mod_pos_pos_trivial [of "x + n" n] by (cases "x < 0") simp_all

lemma arc_arith:
  fixes d w m s e x :: int
  assumes "0 \<le> w" "w \<le> 6" "0 \<le> s" "s \<le> 1439" "1 \<le> e" "e \<le> 1440" "e \<noteq> s"
    and "0 \<le> d" "d \<le> 6" "0 \<le> m" "m \<le> 1439"
    and x: "x = d * 1440 + m - (w * 1440 + s)"
  shows "(if s < e then d = w \<and> s \<le> m \<and> m < e
          else if d = w \<and> s \<le> m then True
          else d = (if w = 6 then 0 else w + 1) \<and> m < e)
     \<longleftrightarrow> (if x < 0 then x + 10080 else x) < (if s < e then e - s else e + 1440 - s)"
proof (cases "d = w")
  case True
  then show ?thesis using assms by auto
next
  case False
  then consider "d < w" "w = 6" "d = 0" | "d < w" "w \<noteq> 6 \<or> d \<noteq> 0" | "d = w + 1" | "d > w + 1"
    using assms(1) by force
  then show ?thesis
  proof cases
    case 1
    then show ?thesis using assms by auto
  next
    case 2
    then have "w - d \<le> 5" using assms by auto
    with 2 show ?thesis using assms by auto
  next
    case 3
    then show ?thesis using assms by auto
  next
    case 4
    then show ?thesis using assms by auto
  qed
qed

lemma weekday_next: "0 \<le> weekday w \<Longrightarrow> weekday w \<le> 6 \<Longrightarrow>
    go_rem (weekday w + 1) 7 = (if weekday w = 6 then 0 else weekday w + 1)"
  by auto

text \<open>The schedule only looks at the minute of the week, so it repeats every week.\<close>

lemma window_contains_cong:
  "weekday_of t = weekday_of u \<Longrightarrow> minute_of_day t = minute_of_day u \<Longrightarrow>
    window_contains w t = window_contains w u"
  by (simp add: window_contains_def)

lemma in_schedule_cong:
  "weekday_of t = weekday_of u \<Longrightarrow> minute_of_day t = minute_of_day u \<Longrightarrow>
    in_schedule ws t = in_schedule ws u"
  by (simp add: in_schedule_iff window_contains_cong [of t u])

text \<open>
  For a window that passes validation, the wrap-around test of \<open>Contains\<close> decides exactly
  whether the instant lies on the window's arc of the week, overnight and over the Saturday to
  Sunday boundary included.
\<close>

theorem window_contains_is_arc:
  assumes "validate_window w = Inr ()"
  shows "window_contains w t \<longleftrightarrow> on_arc w t"
proof -
  let ?d = "weekday_of t" and ?m = "minute_of_day t"
  let ?x = "week_minute t - (weekday w * 1440 + start_minute w)"
  have v: "0 \<le> weekday w" "weekday w \<le> 6" "0 \<le> start_minute w" "start_minute w \<le> 1439"
    "1 \<le> end_minute w" "end_minute w \<le> 1440" "end_minute w \<noteq> start_minute w"
    using assms by (simp_all add: valid_window_iff)
  have d: "0 \<le> ?d" "?d \<le> 6" and m: "0 \<le> ?m" "?m \<le> 1439"
    using weekday_of_range [of t] minute_of_day_range [of t] by simp_all
  have x: "?x mod 10080 = (if ?x < 0 then ?x + 10080 else ?x)"
    by (rule mod_signed_range) (use v d m in \<open>simp_all add: week_minute_def\<close>)
  show ?thesis
    unfolding on_arc_def x window_length_def window_contains_def Let_def weekday_next [OF v(1,2)]
    by (rule arc_arith [OF v d m]) (simp add: week_minute_def)
qed

theorem window_contains_is_arc_witness:
  "let w = \<lparr>weekday = 6, start_minute = 1320, end_minute = 120\<rparr>; t = seconds 259200 in
     validate_window w = Inr () \<and> window_contains w t \<and> on_arc w t"
proof -
  let ?w = "\<lparr>weekday = 6, start_minute = 1320, end_minute = 120\<rparr>"
  have v: "validate_window ?w = Inr ()" by (simp add: validate_window_def)
  have "window_contains ?w (seconds 259200)"
    by (simp add: window_contains_def weekday_of_def minute_of_day_def seconds_def)
  with v window_contains_is_arc [OF v, of "seconds 259200"] show ?thesis by (simp add: Let_def)
qed

end
