(* ===== verification/Campaign_Domain.thy ===== *)
theory Campaign_Domain
  imports Automation_Domain
begin

text \<open>
  The campaign vocabulary of \<open>backend/campaign\<close>: the lifecycle of a campaign and of a recipient
  (\<open>campaign.go\<close>), the retry ladder (\<open>retry.go\<close>) and the input validation (\<open>validate.go\<close>).
\<close>

section \<open>The campaign lifecycle\<close>

datatype status =
    StatusDraft | StatusScheduled | StatusRunning | StatusPaused
  | StatusCompleted | StatusFailed | StatusCancelled

definition all_statuses :: "status list" where
  "all_statuses = [StatusDraft, StatusScheduled, StatusRunning, StatusPaused, StatusCompleted,
     StatusFailed, StatusCancelled]"

fun status_text :: "status \<Rightarrow> string" where
  "status_text StatusDraft = ''draft''"
| "status_text StatusScheduled = ''scheduled''"
| "status_text StatusRunning = ''running''"
| "status_text StatusPaused = ''paused''"
| "status_text StatusCompleted = ''completed''"
| "status_text StatusFailed = ''failed''"
| "status_text StatusCancelled = ''cancelled''"

definition valid_status :: "string \<Rightarrow> bool" where
  "valid_status s \<longleftrightarrow> s \<in> set (map status_text all_statuses)"

definition is_terminal :: "status \<Rightarrow> bool" where
  "is_terminal s \<longleftrightarrow> s = StatusCompleted \<or> s = StatusFailed \<or> s = StatusCancelled"

fun can_transition :: "status \<Rightarrow> status \<Rightarrow> bool" where
  "can_transition StatusDraft t \<longleftrightarrow>
     t = StatusScheduled \<or> t = StatusRunning \<or> t = StatusCancelled"
| "can_transition StatusScheduled t \<longleftrightarrow> t = StatusRunning \<or> t = StatusCancelled"
| "can_transition StatusRunning t \<longleftrightarrow>
     t = StatusPaused \<or> t = StatusCancelled \<or> t = StatusCompleted \<or> t = StatusFailed"
| "can_transition StatusPaused t \<longleftrightarrow> t = StatusRunning \<or> t = StatusCancelled"
| "can_transition _ t \<longleftrightarrow> False"

definition can_edit_content :: "int \<Rightarrow> bool" where
  "can_edit_content sent_count \<longleftrightarrow> sent_count = 0"

definition can_edit_pacing :: "status \<Rightarrow> bool" where
  "can_edit_pacing s \<longleftrightarrow> s = StatusDraft \<or> s = StatusScheduled \<or> s = StatusPaused"

text \<open>A campaign's life as a step relation and the statuses one can reach from another.\<close>

inductive lifecycle :: "status \<Rightarrow> status \<Rightarrow> bool" where
  here: "lifecycle s s"
| move: "lifecycle s t \<Longrightarrow> can_transition t u \<Longrightarrow> lifecycle s u"

inductive_cases from_terminal: "lifecycle s t"

lemma terminal_iff_stuck: "is_terminal s \<longleftrightarrow> (\<forall>t. \<not> can_transition s t)"
  by (cases s) (auto simp: is_terminal_def)

lemma no_self_transition [simp]: "\<not> can_transition s s"
  by (cases s) auto

lemma draft_never_entered [simp]: "\<not> can_transition s StatusDraft"
  by (cases s) auto

lemma lifecycle_terminal: "lifecycle s t \<Longrightarrow> is_terminal s \<Longrightarrow> t = s"
  by (induction rule: lifecycle.induct) (auto simp: terminal_iff_stuck)

lemma lifecycle_trans: "lifecycle t u \<Longrightarrow> lifecycle s t \<Longrightarrow> lifecycle s u"
  by (induction rule: lifecycle.induct) (auto intro: lifecycle.intros)

text \<open>
  The campaign lifecycle is as documented: a status is terminal exactly when no transition
  leaves it, a terminal campaign keeps its status for ever, a draft is never entered again, and
  a campaign that has left \<open>draft\<close> and \<open>scheduled\<close> for \<open>running\<close> can afterwards only ever be
  running, paused or terminal, with pause the only edge that can be undone.
\<close>

theorem lifecycle_shape:
  "(is_terminal s \<longleftrightarrow> (\<forall>t. \<not> can_transition s t))
   \<and> (is_terminal s \<longrightarrow> lifecycle s t \<longrightarrow> t = s)
   \<and> (lifecycle s StatusDraft \<longleftrightarrow> s = StatusDraft)
   \<and> (lifecycle StatusRunning t \<longrightarrow> t = StatusRunning \<or> t = StatusPaused \<or> is_terminal t)
   \<and> (can_transition s t \<and> can_transition t s \<longleftrightarrow> {s, t} = {StatusRunning, StatusPaused})"
proof (intro conjI)
  show "is_terminal s \<longleftrightarrow> (\<forall>t. \<not> can_transition s t)" by (rule terminal_iff_stuck)
  show "is_terminal s \<longrightarrow> lifecycle s t \<longrightarrow> t = s" by (blast dest: lifecycle_terminal)
  show "lifecycle s StatusDraft \<longleftrightarrow> s = StatusDraft"
    by (auto elim: from_terminal intro: lifecycle.here)
  have "lifecycle r t \<Longrightarrow> r = StatusRunning \<Longrightarrow>
      t = StatusRunning \<or> t = StatusPaused \<or> is_terminal t" for r
    by (induction rule: lifecycle.induct) (auto simp: is_terminal_def)
  then show "lifecycle StatusRunning t \<longrightarrow> t = StatusRunning \<or> t = StatusPaused \<or> is_terminal t"
    by blast
  show "can_transition s t \<and> can_transition t s \<longleftrightarrow> {s, t} = {StatusRunning, StatusPaused}"
    by (cases s; cases t) (auto simp: doubleton_eq_iff)
qed

text \<open>The hypotheses inside \<open>lifecycle_shape\<close> hold of a cancelled and of a running campaign.\<close>

theorem lifecycle_shape_witness:
  "is_terminal StatusCancelled \<and> lifecycle StatusRunning StatusPaused
   \<and> {t. lifecycle StatusCancelled t} = {StatusCancelled}"
proof -
  have run: "lifecycle StatusRunning StatusPaused"
    by (rule lifecycle.move [OF lifecycle.here]) simp
  have c: "is_terminal StatusCancelled" by (simp add: is_terminal_def)
  have "lifecycle StatusCancelled t \<longleftrightarrow> t = StatusCancelled" for t
    using lifecycle_shape [of StatusCancelled t] c lifecycle.here by blast
  with c run show ?thesis by blast
qed

section \<open>Recipients\<close>

datatype recipient_status =
    RecipientPending | RecipientSending | RecipientSent | RecipientFailed | RecipientSkipped

fun recipient_status_text :: "recipient_status \<Rightarrow> string" where
  "recipient_status_text RecipientPending = ''pending''"
| "recipient_status_text RecipientSending = ''sending''"
| "recipient_status_text RecipientSent = ''sent''"
| "recipient_status_text RecipientFailed = ''failed''"
| "recipient_status_text RecipientSkipped = ''skipped''"

definition valid_recipient_status :: "string \<Rightarrow> bool" where
  "valid_recipient_status s \<longleftrightarrow> s \<in> set (map recipient_status_text
     [RecipientPending, RecipientSending, RecipientSent, RecipientFailed, RecipientSkipped])"

definition is_recipient_terminal :: "recipient_status \<Rightarrow> bool" where
  "is_recipient_terminal s \<longleftrightarrow> s = RecipientSent \<or> s = RecipientFailed \<or> s = RecipientSkipped"

section \<open>Channels\<close>

definition ChannelWhatsApp :: string where "ChannelWhatsApp = ''whatsapp''"
definition ChannelSimulator :: string where "ChannelSimulator = ''simulator''"
definition ChannelTelegram :: string where "ChannelTelegram = ''telegram''"
definition ChannelInstagram :: string where "ChannelInstagram = ''instagram''"
definition ChannelMessenger :: string where "ChannelMessenger = ''messenger''"
definition ChannelWhatsAppCloud :: string where "ChannelWhatsAppCloud = ''whatsapp_cloud''"

definition default_country_code :: string where "default_country_code = ''7''"

definition cold_send_capable :: "string \<Rightarrow> bool" where
  "cold_send_capable channel \<longleftrightarrow> channel = ChannelWhatsApp \<or> channel = ChannelSimulator"

section \<open>The retry ladder\<close>

definition minutes :: "int \<Rightarrow> duration" where
  "minutes n = seconds (60 * n)"

definition transient_backoff :: "duration list" where
  "transient_backoff = [minutes 1, minutes 5, minutes 25]"

definition next_retry :: "int \<Rightarrow> duration option" where
  "next_retry attempt =
     (if attempt < 1 \<or> attempt > int (length transient_backoff) then None
      else Some (transient_backoff ! nat (attempt - 1)))"

lemma next_retry_None: "next_retry n = None \<longleftrightarrow> n < 1 \<or> n > 3"
  by (simp add: next_retry_def transient_backoff_def)

lemma next_retry_Some: "next_retry n = Some d \<Longrightarrow> 0 < d \<and> 1 \<le> n \<and> n \<le> 3"
proof -
  assume *: "next_retry n = Some d"
  then have "1 \<le> n" "n \<le> 3" using next_retry_None [of n] by (auto simp: not_less)
  then consider "n = 1" | "n = 2" | "n = 3" by fastforce
  then show ?thesis using *
    by cases (auto simp: next_retry_def transient_backoff_def minutes_def seconds_def)
qed

section \<open>Validation\<close>

record tier =
  window_seconds :: int
  max_sends :: int

datatype campaign_error =
    NameRequired
  | BodyRequired
  | CountryRequired
  | CountryTooLong string
  | CountryNotDigits string
  | IntervalOutOfRange int
  | NegativeJitter int
  | JitterExceedsInterval int int
  | TierWindowOutOfRange int
  | TierMaxOutOfRange int
  | AtTier nat campaign_error
  | DuplicateTierWindow nat int

definition min_interval_bound :: int where "min_interval_bound = 1"
definition max_interval_bound :: int where "max_interval_bound = 3600"
definition min_tier_window :: int where "min_tier_window = 60"
definition max_tier_window :: int where "max_tier_window = 7 * 24 * 3600"
definition min_tier_max_sends :: int where "min_tier_max_sends = 1"
definition max_tier_max_sends :: int where "max_tier_max_sends = 100000"

lemmas bound_defs = min_interval_bound_def max_interval_bound_def min_tier_window_def
  max_tier_window_def min_tier_max_sends_def max_tier_max_sends_def

definition validate_name :: "string \<Rightarrow> campaign_error + unit" where
  "validate_name name = (if trim_space name = '''' then Inl NameRequired else Inr ())"

definition validate_message_body :: "string \<Rightarrow> campaign_error + unit" where
  "validate_message_body body = (if trim_space body = '''' then Inl BodyRequired else Inr ())"

definition validate_country_code :: "string \<Rightarrow> campaign_error + unit" where
  "validate_country_code code =
     (if code = '''' then Inl CountryRequired
      else if length code > 3 then Inl (CountryTooLong code)
      else if list_ex (\<lambda>r. r < CHR ''0'' \<or> r > CHR ''9'') code then Inl (CountryNotDigits code)
      else Inr ())"

definition validate_pace :: "int \<Rightarrow> int \<Rightarrow> campaign_error + unit" where
  "validate_pace min_interval jitter =
     (if min_interval < min_interval_bound \<or> min_interval > max_interval_bound
      then Inl (IntervalOutOfRange min_interval)
      else if jitter < 0 then Inl (NegativeJitter jitter)
      else if jitter > min_interval then Inl (JitterExceedsInterval jitter min_interval)
      else Inr ())"

definition validate_tier :: "tier \<Rightarrow> campaign_error + unit" where
  "validate_tier t =
     (if window_seconds t < min_tier_window \<or> window_seconds t > max_tier_window
      then Inl (TierWindowOutOfRange (window_seconds t))
      else if max_sends t < min_tier_max_sends \<or> max_sends t > max_tier_max_sends
      then Inl (TierMaxOutOfRange (max_sends t))
      else Inr ())"

fun validate_tiers_from :: "nat \<Rightarrow> int list \<Rightarrow> tier list \<Rightarrow> campaign_error + unit" where
  "validate_tiers_from i seen [] = Inr ()"
| "validate_tiers_from i seen (t # ts) =
     (case validate_tier t of
        Inl e \<Rightarrow> Inl (AtTier i e)
      | Inr _ \<Rightarrow>
          if window_seconds t \<in> set seen then Inl (DuplicateTierWindow i (window_seconds t))
          else validate_tiers_from (Suc i) (window_seconds t # seen) ts)"

definition validate_tiers :: "tier list \<Rightarrow> campaign_error + unit" where
  "validate_tiers ts = validate_tiers_from 0 [] ts"

lemma validate_tier_ok: "validate_tier t = Inr () \<longleftrightarrow>
    60 \<le> window_seconds t \<and> window_seconds t \<le> 604800 \<and> 1 \<le> max_sends t \<and> max_sends t \<le> 100000"
  by (auto simp: validate_tier_def bound_defs)

lemma validate_tiers_from_ok:
  "validate_tiers_from i seen ts = Inr () \<longleftrightarrow>
     (\<forall>t\<in>set ts. validate_tier t = Inr ()) \<and> distinct (map window_seconds ts)
     \<and> set seen \<inter> window_seconds ` set ts = {}"
proof (induction ts arbitrary: i seen)
  case Nil
  then show ?case by simp
next
  case (Cons t ts)
  then show ?case by (auto split: sum.splits)
qed

text \<open>
  A tier set is accepted exactly when every tier has a window between one minute and the
  seven days the send ledger is kept, allows between 1 and 100000 sends, and no two tiers share
  a window.
\<close>

theorem validate_tiers_iff:
  "validate_tiers ts = Inr () \<longleftrightarrow>
     (\<forall>t\<in>set ts. 60 \<le> window_seconds t \<and> window_seconds t \<le> 7 * 24 * 3600
        \<and> 1 \<le> max_sends t \<and> max_sends t \<le> 100000)
     \<and> distinct (map window_seconds ts)"
  by (simp add: validate_tiers_def validate_tiers_from_ok validate_tier_ok)

theorem validate_tiers_iff_witness:
  "validate_tiers [\<lparr>window_seconds = 3600, max_sends = 5\<rparr>] = Inr ()
   \<and> validate_tiers [\<lparr>window_seconds = 30, max_sends = 5\<rparr>] \<noteq> Inr ()"
  by (subst (1 2) validate_tiers_iff) simp

lemma validate_pace_ok: "validate_pace i j = Inr () \<longleftrightarrow> 1 \<le> i \<and> i \<le> 3600 \<and> 0 \<le> j \<and> j \<le> i"
  by (auto simp: validate_pace_def bound_defs)

end
