(* ===== verification/Campaign_Recipients.thy ===== *)
theory Campaign_Recipients
  imports Campaign_Domain
begin

text \<open>
  The recipient list parser of \<open>backend/campaign/recipients.go\<close>: splitting pasted text into rows
  and columns, recognising a header, normalising identities and bucketing rows.
\<close>

section \<open>Rows and columns\<close>

datatype preview_status = PreviewValid | PreviewInvalid | PreviewDuplicate

datatype reason =
    NoReason
  | DuplicateOfEarlierRow
  | NoPhoneNumber
  | TelegramUsername
  | NotATelegramId
  | NotAPhoneNumber
  | Unreachable string

record parsed_recipient =
  raw_cell :: string
  display_name :: string
  attributes :: "string \<Rightarrow> string option"
  normalized_identity :: string
  preview :: preview_status
  row_reason :: reason

record parse_result =
  rows :: "parsed_recipient list"
  valid_count :: int
  invalid_count :: int
  duplicate_count :: int

definition empty_result :: parse_result where
  "empty_result = \<lparr>rows = [], valid_count = 0, invalid_count = 0, duplicate_count = 0\<rparr>"

definition total :: "parse_result \<Rightarrow> nat" where
  "total r = length (rows r)"

definition phone_header_names :: "string list" where
  "phone_header_names = [''phone'', ''phone_number'', ''number'', ''tel'', ''telephone'', ''mobile'',
     ''msisdn'', ''destination'', ''recipient'', ''contact'', ''chat_id'']"

definition name_header_names :: "string list" where
  "name_header_names = [''name'', ''full_name'', ''fullname'', ''display_name'']"

definition header_digit_threshold :: nat where "header_digit_threshold = 3"

definition split_non_empty :: "string \<Rightarrow> char \<Rightarrow> string list" where
  "split_non_empty s sep = filter (\<lambda>part. part \<noteq> '''') (map trim_space (split_on sep s))"

definition separators_in_order :: "char list" where
  "separators_in_order = [CHR '','', CHR '';'', CHR 0x09]"

text \<open>The first of comma, semicolon and tab that occurs; \<open>None\<close> is the source's empty string.\<close>

definition detect_delimiter :: "string \<Rightarrow> char option" where
  "detect_delimiter first_row = find (\<lambda>sep. sep \<in> set first_row) separators_in_order"

definition split_rows :: "string \<Rightarrow> string list" where
  "split_rows raw0 =
     (let raw1 = replace_all [CHR 0x0D, CHR 0x0A] [CHR 0x0A] raw0;
          raw = replace_all [CHR 0x0D] [CHR 0x0A] raw1 in
      if CHR 0x0A \<in> set raw then split_non_empty raw (CHR 0x0A)
      else case find (\<lambda>sep. sep \<in> set raw) separators_in_order of
             Some sep \<Rightarrow> split_non_empty raw sep
           | None \<Rightarrow> split_non_empty raw (CHR 0x0A))"

definition split_columns :: "string \<Rightarrow> char option \<Rightarrow> string list" where
  "split_columns row delim =
     (case delim of None \<Rightarrow> [trim_space row] | Some d \<Rightarrow> map trim_space (split_on d row))"

definition count_digits :: "string \<Rightarrow> nat" where
  "count_digits s = length (filter is_digit s)"

text \<open>The header, when the first row is one, and the data rows.\<close>

definition detect_header :: "string list list \<Rightarrow> string list option \<times> string list list" where
  "detect_header table =
     (if length table < 2 then (None, table)
      else if list_ex (\<lambda>cell. count_digits cell \<ge> header_digit_threshold) (hd table)
      then (None, table)
      else (Some (hd table), tl table))"

text \<open>
  \<open>strings.ToLower\<close> as far as a lookup among ASCII keys can tell: beside the ASCII capitals only
  U+212A (Kelvin sign) and U+0130 (I with dot) have an ASCII lower case; everything else that is
  not ASCII stays so and equals no key.
\<close>

fun lower_key :: "string \<Rightarrow> string" where
  "lower_key [] = []"
| "lower_key (c # s) =
     (if CHR ''A'' \<le> c \<and> c \<le> CHR ''Z'' then char_of (of_char c + 32 :: nat) # lower_key s
      else if c = CHR 0xE2 \<and> prefix [CHR 0x84, CHR 0xAA] s then CHR ''k'' # lower_key (drop 2 s)
      else if c = CHR 0xC4 \<and> prefix [CHR 0xB0] s then CHR ''i'' # lower_key (drop 1 s)
      else c # lower_key s)"

definition column_with_most_digits :: "string list list \<Rightarrow> int" where
  "column_with_most_digits data =
     (case data of
        [] \<Rightarrow> 0
      | row # _ \<Rightarrow>
          fst (fold (\<lambda>(i, cell) (best, best_digits).
                 if int (count_digits cell) > best_digits then (int i, int (count_digits cell))
                 else (best, best_digits)) (enumerate 0 row) (0, -1)))"

definition header_key :: "string \<Rightarrow> string" where
  "header_key h = lower_key (trim_space h)"

text \<open>The first column whose header is one of \<open>names\<close>, -1 if there is none.\<close>

definition header_column :: "string list \<Rightarrow> string list \<Rightarrow> int" where
  "header_column names header =
     (case find (\<lambda>(i, h). header_key h \<in> set names) (enumerate 0 header) of
        Some (i, _) \<Rightarrow> int i
      | None \<Rightarrow> -1)"

definition positional_key :: "nat \<Rightarrow> string" where
  "positional_key i = ''col'' @ nat_text (i + 1)"

text \<open>
  Identity column, name column (-1 when there is none) and the attribute columns with their keys.
  The source keeps the latter in a Go map from index to key; here it is listed by index.
\<close>

definition resolve_columns ::
  "string list option \<Rightarrow> string list list \<Rightarrow> int \<times> int \<times> (nat \<times> string) list" where
  "resolve_columns header data =
     (case header of
        Some hs \<Rightarrow>
          let phone0 = header_column phone_header_names hs;
              name_col = header_column name_header_names hs;
              phone_col = (if phone0 = -1 then column_with_most_digits data else phone0);
              attr_cols = map (\<lambda>(i, h). (i, if trim_space h = '''' then positional_key i else trim_space h))
                (filter (\<lambda>(i, h). int i \<noteq> phone_col \<and> int i \<noteq> name_col) (enumerate 0 hs)) in
          (phone_col, name_col, attr_cols)
      | None \<Rightarrow>
          let width = fold (\<lambda>row w. if length row > w then length row else w) data 0 in
          if width = 2 then (0, 1, [])
          else (0, -1, map (\<lambda>i. (i, positional_key i)) [1..<width]))"

definition cell_at :: "string list \<Rightarrow> int \<Rightarrow> string" where
  "cell_at cols i =
     (if i < 0 \<or> i \<ge> int (length cols) then '''' else trim_space (cols ! nat i))"

section \<open>Identities\<close>

definition min_phone_digits :: nat where "min_phone_digits = 7"
definition max_phone_digits :: nat where "max_phone_digits = 15"

definition digits_only :: "string \<Rightarrow> string" where
  "digits_only s = filter is_digit s"

definition normalize_phone :: "string \<Rightarrow> string \<Rightarrow> string option" where
  "normalize_phone raw default_country =
     (let digits = digits_only raw in
      if length digits = 11 \<and> prefix ''8'' digits then Some (default_country @ drop 1 digits)
      else if prefix default_country digits \<and> length digits = length default_country + 10
      then Some digits
      else if length digits = 10 then Some (default_country @ digits)
      else if length digits \<ge> min_phone_digits \<and> length digits \<le> max_phone_digits
      then Some digits
      else None)"

definition normalize_telegram_chat_id :: "string \<Rightarrow> string option" where
  "normalize_telegram_chat_id raw =
     (let s = trim_space raw;
          neg = prefix ''-'' s;
          digits = (if neg then drop 1 s else s) in
      if digits = '''' then None
      else if list_ex (\<lambda>r. r < CHR ''0'' \<or> r > CHR ''9'') digits then None
      else if neg then Some (''-'' @ digits)
      else Some digits)"

section \<open>Parsing a row and a list\<close>

text \<open>
  \<open>range attrCols\<close> visits a Go map in no fixed order. \<open>attr_cols\<close> here is the sequence in which
  the runtime happens to visit it.
\<close>

definition row_attributes :: "string list \<Rightarrow> (nat \<times> string) list \<Rightarrow> string \<Rightarrow> string option" where
  "row_attributes cols attr_cols =
     fold (\<lambda>(i, key) m. let v = cell_at cols (int i) in if v \<noteq> '''' then m(key \<mapsto> v) else m)
       attr_cols Map.empty"

definition parse_row ::
  "string list \<Rightarrow> int \<Rightarrow> int \<Rightarrow> (nat \<times> string) list \<Rightarrow> string \<Rightarrow> string \<Rightarrow> parsed_recipient" where
  "parse_row cols phone_col name_col attr_cols channel default_country =
     (let raw = cell_at cols phone_col;
          row = \<lparr>raw_cell = raw,
                 display_name = (if name_col \<ge> 0 then cell_at cols name_col else ''''),
                 attributes = (if length attr_cols > 0 then row_attributes cols attr_cols else Map.empty),
                 normalized_identity = '''', preview = PreviewInvalid, row_reason = NoReason\<rparr> in
      if raw = '''' then row\<lparr>row_reason := NoPhoneNumber\<rparr>
      else if channel = ChannelTelegram then
        (case normalize_telegram_chat_id raw of
           None \<Rightarrow> row\<lparr>row_reason := (if prefix ''@'' raw then TelegramUsername else NotATelegramId)\<rparr>
         | Some ident \<Rightarrow> row\<lparr>normalized_identity := ident, preview := PreviewValid\<rparr>)
      else
        (case normalize_phone raw default_country of
           None \<Rightarrow> row\<lparr>row_reason := NotAPhoneNumber\<rparr>
         | Some ident \<Rightarrow> row\<lparr>normalized_identity := ident, preview := PreviewValid\<rparr>))"

text \<open>The body of \<open>ParseRecipients\<close>' loop: deduplicate, count, append.\<close>

definition bucket_row ::
  "parsed_recipient \<Rightarrow> string list \<times> parse_result \<Rightarrow> string list \<times> parse_result" where
  "bucket_row row acc =
     (case acc of (seen, out) \<Rightarrow>
        let (row', seen') =
              (if preview row = PreviewValid then
                 if normalized_identity row \<in> set seen
                 then (row\<lparr>preview := PreviewDuplicate, row_reason := DuplicateOfEarlierRow\<rparr>, seen)
                 else (row, normalized_identity row # seen)
               else (row, seen));
            out' = (case preview row' of
                      PreviewValid \<Rightarrow> out\<lparr>valid_count := valid_count out + 1\<rparr>
                    | PreviewDuplicate \<Rightarrow> out\<lparr>duplicate_count := duplicate_count out + 1\<rparr>
                    | PreviewInvalid \<Rightarrow> out\<lparr>invalid_count := invalid_count out + 1\<rparr>) in
        (seen', out'\<lparr>rows := rows out' @ [row']\<rparr>))"

text \<open>\<open>iter\<close> is the order in which the Go runtime visits the map of attribute columns.\<close>

definition parse_recipients ::
  "((nat \<times> string) list \<Rightarrow> (nat \<times> string) list) \<Rightarrow> string \<Rightarrow> string \<Rightarrow> string \<Rightarrow> parse_result" where
  "parse_recipients iter raw channel default_country =
     (let lines = split_rows raw in
      if length lines = 0 then empty_result
      else
        let delim = detect_delimiter (hd lines);
            table = map (\<lambda>r. split_columns r delim) lines;
            (header, data) = detect_header table;
            (phone_col, name_col, attr_cols) = resolve_columns header data in
        snd (fold (\<lambda>cols. bucket_row
               (parse_row cols phone_col name_col (iter attr_cols) channel default_country))
             data ([], empty_result)))"

definition demote_step :: "string set \<Rightarrow> string \<Rightarrow> parsed_recipient \<Rightarrow> parse_result \<Rightarrow> parse_result" where
  "demote_step unreachable why row out =
     (if preview row = PreviewValid \<and> normalized_identity row \<in> unreachable
      then out\<lparr>valid_count := valid_count out - 1, invalid_count := invalid_count out + 1,
               rows := rows out @ [row\<lparr>preview := PreviewInvalid, row_reason := Unreachable why\<rparr>]\<rparr>
      else out\<lparr>rows := rows out @ [row]\<rparr>)"

definition apply_unreachable :: "parse_result \<Rightarrow> string set \<Rightarrow> string \<Rightarrow> parse_result" where
  "apply_unreachable result unreachable why =
     (if unreachable = {} then result
      else fold (demote_step unreachable why) (rows result) (result\<lparr>rows := []\<rparr>))"

section \<open>What the buckets mean\<close>

definition count_preview :: "preview_status \<Rightarrow> parsed_recipient list \<Rightarrow> int" where
  "count_preview st rs = int (length (filter (\<lambda>r. preview r = st) rs))"

definition valid_identities :: "parsed_recipient list \<Rightarrow> string list" where
  "valid_identities rs = map normalized_identity (filter (\<lambda>r. preview r = PreviewValid) rs)"

definition counts_ok :: "parse_result \<Rightarrow> bool" where
  "counts_ok r \<longleftrightarrow>
     valid_count r = count_preview PreviewValid (rows r) \<and>
     invalid_count r = count_preview PreviewInvalid (rows r) \<and>
     duplicate_count r = count_preview PreviewDuplicate (rows r)"

text \<open>A duplicate repeats the identity of a valid row before it.\<close>

definition duplicates_ok :: "parsed_recipient list \<Rightarrow> bool" where
  "duplicates_ok rs \<longleftrightarrow>
     (\<forall>i < length rs. preview (rs ! i) = PreviewDuplicate \<longrightarrow>
        normalized_identity (rs ! i) \<in> set (valid_identities (take i rs)))"

definition buckets_ok :: "parse_result \<Rightarrow> bool" where
  "buckets_ok r \<longleftrightarrow> counts_ok r \<and> distinct (valid_identities (rows r)) \<and> duplicates_ok (rows r)"

lemma count_preview_snoc [simp]:
  "count_preview st (rs @ [r]) = count_preview st rs + (if preview r = st then 1 else 0)"
  by (simp add: count_preview_def)

lemma valid_identities_snoc [simp]:
  "valid_identities (rs @ [r])
     = valid_identities rs @ (if preview r = PreviewValid then [normalized_identity r] else [])"
  by (simp add: valid_identities_def)

lemma duplicates_ok_snoc [simp]:
  "duplicates_ok (rs @ [r]) \<longleftrightarrow> duplicates_ok rs \<and>
     (preview r = PreviewDuplicate \<longrightarrow> normalized_identity r \<in> set (valid_identities rs))"
  by (auto simp: duplicates_ok_def nth_append less_Suc_eq)

lemma buckets_ok_empty: "buckets_ok empty_result"
  by (simp add: buckets_ok_def empty_result_def counts_ok_def count_preview_def
      valid_identities_def duplicates_ok_def)

definition bucket_inv :: "string list \<times> parse_result \<Rightarrow> bool" where
  "bucket_inv acc \<longleftrightarrow> buckets_ok (snd acc) \<and> set (fst acc) = set (valid_identities (rows (snd acc)))"

lemma bucket_row_inv:
  assumes "preview row \<noteq> PreviewDuplicate" and "bucket_inv acc"
  shows "bucket_inv (bucket_row row acc)"
  using assms
  by (cases acc; cases "preview row")
    (auto simp: bucket_inv_def bucket_row_def buckets_ok_def counts_ok_def Let_def)

lemma parse_row_not_duplicate:
  "preview (parse_row cols p n attrs ch cc) \<noteq> PreviewDuplicate"
  by (simp add: parse_row_def Let_def split: option.split)

lemma bucket_fold_inv:
  "bucket_inv acc \<Longrightarrow>
     bucket_inv (fold (\<lambda>cols. bucket_row (parse_row cols p n attrs ch cc)) data acc)"
  by (induction data arbitrary: acc) (simp_all add: bucket_row_inv parse_row_not_duplicate)

lemma parse_recipients_ok: "buckets_ok (parse_recipients iter raw channel cc)"
proof -
  have init: "bucket_inv ([], empty_result)"
    by (simp add: bucket_inv_def buckets_ok_empty) (simp add: empty_result_def valid_identities_def)
  show ?thesis
    using bucket_fold_inv [OF init]
    by (auto simp: parse_recipients_def Let_def bucket_inv_def buckets_ok_empty split: prod.split)
qed

lemma count_preview_total:
  "count_preview PreviewValid rs + count_preview PreviewInvalid rs
     + count_preview PreviewDuplicate rs = int (length rs)"
proof (induction rs)
  case (Cons r rs)
  then show ?case by (cases "preview r") (simp_all add: count_preview_def)
qed (simp add: count_preview_def)

text \<open>
  whatever is pasted, the preview's three counters are the sizes of the three buckets, so they
  add up to the number of rows; no identity is valid twice; and every row called a duplicate has
  an earlier valid row with the same normalized identity.
\<close>

theorem parse_recipients_buckets:
  "counts_ok (parse_recipients iter raw channel cc) \<and>
   valid_count (parse_recipients iter raw channel cc) + invalid_count (parse_recipients iter raw channel cc)
     + duplicate_count (parse_recipients iter raw channel cc)
     = int (total (parse_recipients iter raw channel cc)) \<and>
   distinct (valid_identities (rows (parse_recipients iter raw channel cc))) \<and>
   duplicates_ok (rows (parse_recipients iter raw channel cc))"
  using parse_recipients_ok [of iter raw channel cc]
    count_preview_total [of "rows (parse_recipients iter raw channel cc)"]
  by (simp add: buckets_ok_def counts_ok_def total_def)

text \<open>Demoting unreachable rows.\<close>

definition demote :: "string set \<Rightarrow> string \<Rightarrow> parsed_recipient \<Rightarrow> parsed_recipient" where
  "demote unreachable why row =
     (if preview row = PreviewValid \<and> normalized_identity row \<in> unreachable
      then row\<lparr>preview := PreviewInvalid, row_reason := Unreachable why\<rparr> else row)"

lemma demote_step_rows: "rows (demote_step u why row out) = rows out @ [demote u why row]"
  by (simp add: demote_step_def demote_def)

lemma demote_fold_rows: "rows (fold (demote_step u why) rs acc) = rows acc @ map (demote u why) rs"
  by (induction rs arbitrary: acc) (simp_all add: demote_step_rows)

lemma counts_ok_rows_cong:
  "counts_ok (demote_step u why row acc\<lparr>rows := rows acc @ demote u why row # rs\<rparr>)
     \<longleftrightarrow> counts_ok (acc\<lparr>rows := rows acc @ row # rs\<rparr>)"
  by (cases "preview row")
    (auto simp: counts_ok_def count_preview_def demote_step_def demote_def)

lemma demote_fold_counts:
  "counts_ok (acc\<lparr>rows := rows acc @ rs\<rparr>) \<Longrightarrow> counts_ok (fold (demote_step u why) rs acc)"
proof (induction rs arbitrary: acc)
  case (Cons r rs)
  then have "counts_ok (demote_step u why r acc\<lparr>rows := rows acc @ demote u why r # rs\<rparr>)"
    by (simp add: counts_ok_rows_cong)
  then show ?case using Cons.IH [of "demote_step u why r acc"] by (simp add: demote_step_rows)
qed simp

text \<open>
  Applying a reachability check to a consistent preview demotes exactly the valid rows whose
  identity was found unreachable, leaves every other row as it was, keeps the counters equal to
  the bucket sizes, and leaves no valid row with an unreachable identity.
\<close>

theorem apply_unreachable_exact:
  assumes "counts_ok r"
  shows "rows (apply_unreachable r unreachable why) = map (demote unreachable why) (rows r)
     \<and> counts_ok (apply_unreachable r unreachable why)
     \<and> set (valid_identities (rows (apply_unreachable r unreachable why)))
         = set (valid_identities (rows r)) - unreachable"
proof -
  have "rows (apply_unreachable r unreachable why) = map (demote unreachable why) (rows r)
     \<and> counts_ok (apply_unreachable r unreachable why)"
  proof (cases "unreachable = {}")
    case True
    then have "demote unreachable why = (\<lambda>row. row)" by (simp add: demote_def fun_eq_iff)
    with True show ?thesis using assms by (simp add: apply_unreachable_def)
  next
    case False
    then show ?thesis using assms
      by (simp add: apply_unreachable_def demote_fold_rows demote_fold_counts)
  qed
  moreover have "set (valid_identities (map (demote unreachable why) rs))
      = set (valid_identities rs) - unreachable" for rs
    by (induction rs) (auto simp: valid_identities_def demote_def)
  ultimately show ?thesis by simp
qed

lemma apply_unreachable_exact_witness:
  "set (valid_identities (rows (apply_unreachable
       (parse_recipients id ''77011234567,77017654321'' ChannelWhatsApp ''7'')
       {''77017654321''} ''not registered'')))
     = set (valid_identities (rows (parse_recipients id ''77011234567,77017654321'' ChannelWhatsApp ''7'')))
         - {''77017654321''}"
  by (rule apply_unreachable_exact [THEN conjunct2, THEN conjunct2])
    (use parse_recipients_ok in \<open>simp add: buckets_ok_def\<close>)

section \<open>Canonical identities\<close>

lemma digits_only_id: "list_all is_digit s \<Longrightarrow> digits_only s = s"
  by (simp add: digits_only_def list_all_iff filter_id_conv)

lemma digits_only_twice: "digits_only (digits_only s) = digits_only s"
  by (simp add: digits_only_def)

lemma country_code_ok:
  "validate_country_code cc = Inr () \<longleftrightarrow> 1 \<le> length cc \<and> length cc \<le> 3 \<and> list_all is_digit cc"
proof -
  have "list_ex (\<lambda>r. r < CHR ''0'' \<or> r > CHR ''9'') s \<longleftrightarrow> \<not> list_all is_digit s" for s
    by (induction s) (auto simp: is_digit_def not_less)
  then show ?thesis by (cases cc) (simp_all add: validate_country_code_def not_less)
qed

lemma normalize_phone_digits:
  assumes "list_all is_digit cc" and "normalize_phone raw cc = Some d"
  shows "list_all is_digit d"
proof -
  have "list_all is_digit (digits_only raw)" by (simp add: digits_only_def list_all_iff)
  then have "list_all is_digit (drop 1 (digits_only raw))"
    by (auto simp: list_all_iff dest: in_set_dropD)
  with assms \<open>list_all is_digit (digits_only raw)\<close> show ?thesis
    by (auto simp: normalize_phone_def Let_def split: if_splits)
qed

text \<open>
  With a default country code the settings accept, a normalized number consists of digits
  only, is 7 to 15 digits long, and is canonical: normalizing it again gives the same number, so
  the identities two spellings of one number are deduplicated by are stable.
\<close>

theorem normalize_phone_canonical:
  assumes "validate_country_code cc = Inr ()" and "normalize_phone raw cc = Some d"
  shows "list_all is_digit d \<and> min_phone_digits \<le> length d \<and> length d \<le> max_phone_digits
     \<and> normalize_phone d cc = Some d"
proof -
  from assms(1) have cc: "1 \<le> length cc" "length cc \<le> 3" "list_all is_digit cc"
    by (simp_all add: country_code_ok)
  have digits: "list_all is_digit d" by (rule normalize_phone_digits [OF cc(3) assms(2)])
  have len: "min_phone_digits \<le> length d" "length d \<le> max_phone_digits"
    using assms(2) cc(1,2)
    by (auto simp: normalize_phone_def Let_def min_phone_digits_def max_phone_digits_def split: if_splits)
  have "normalize_phone d cc = Some d"
  proof (cases "prefix cc d \<and> length d = length cc + 10")
    case True
    then obtain e where e: "d = cc @ e" "length e = 10" by (auto simp: prefix_def)
    show ?thesis
    proof (cases "length d = 11 \<and> prefix ''8'' d")
      case True
      with e have "length cc = 1" by simp
      then obtain c where c: "cc = [c]" by (cases cc) auto
      have "digits_only (c # e) = c # e" using digits_only_id [OF digits] e c by simp
      with True e c show ?thesis by (simp add: normalize_phone_def)
    next
      case False
      then show ?thesis using True by (auto simp: normalize_phone_def digits_only_id [OF digits])
    qed
  next
    case False
    with assms(2) have "d = digits_only raw" "\<not> (length d = 11 \<and> prefix ''8'' d)" "length d \<noteq> 10"
      by (auto simp: normalize_phone_def Let_def split: if_splits)
    then show ?thesis using False assms(2) len
      by (auto simp: normalize_phone_def digits_only_twice)
  qed
  with digits len show ?thesis by simp
qed

lemma normalize_phone_canonical_witness:
  "normalize_phone ''77011234567'' ''7'' = Some ''77011234567''"
proof -
  have cc: "validate_country_code ''7'' = Inr ()" by (simp add: validate_country_code_def)
  have n: "normalize_phone ''8 (701) 123-45-67'' ''7'' = Some ''77011234567''" by code_simp
  show ?thesis using normalize_phone_canonical [OF cc n] by simp
qed

section \<open>The order of a map\<close>

text \<open>With distinct attribute keys the order in which the map is visited does not matter.\<close>

lemma row_attributes_apply:
  assumes "distinct (map snd xs)"
  shows "row_attributes cols xs k = Some v \<longleftrightarrow>
     v \<noteq> '''' \<and> (\<exists>i. (i, k) \<in> set xs \<and> v = cell_at cols (int i))"
  using assms
proof (induction xs rule: rev_induct)
  case Nil
  then show ?case by (simp add: row_attributes_def)
next
  case (snoc x xs)
  obtain i key where x: "x = (i, key)" by (cases x)
  with snoc.prems have "distinct (map snd xs)" "\<And>j. (j, key) \<notin> set xs" by force+
  with snoc.IH x show ?case
    by (auto simp: row_attributes_def Let_def split: if_splits)
qed

lemma row_attributes_order:
  assumes "distinct (map snd xs)" "distinct (map snd ys)" and "set ys = set xs"
  shows "row_attributes cols ys = row_attributes cols xs"
proof
  fix k
  have "row_attributes cols ys k = Some v \<longleftrightarrow> row_attributes cols xs k = Some v" for v
    using assms by (simp add: row_attributes_apply)
  then show "row_attributes cols ys k = row_attributes cols xs k"
    by (metis not_Some_eq)
qed

text \<open>
  Two columns with the same header text share one attribute key, and the value the row gets is
  that of whichever column the Go map iteration visits last: two orders, two results.
\<close>

theorem duplicate_headers_depend_on_order:
  "map (\<lambda>r. attributes r ''city'')
       (rows (parse_recipients id (''phone,city,city'' @ [CHR 0x0A] @ ''77011234567,Almaty,Astana'')
                ChannelWhatsApp ''7'')) = [Some ''Astana'']
   \<and> map (\<lambda>r. attributes r ''city'')
       (rows (parse_recipients rev (''phone,city,city'' @ [CHR 0x0A] @ ''77011234567,Almaty,Astana'')
                ChannelWhatsApp ''7'')) = [Some ''Almaty'']"
  by code_simp

end
