(* ===== verification/Campaign_Budget.thy ===== *)
theory Campaign_Budget
  imports Campaign_Domain
begin

text \<open>
  The sending budget of \<open>backend/campaign/budget.go\<close>: the simultaneous rolling-window tiers and
  the minimum interval (\<open>Budget\<close>), the quiet hours (\<open>WindowsOK\<close>) and the forward simulation
  that answers "when can the next message go out" (\<open>nextAllowedSlot\<close>, \<open>Estimate\<close>).
\<close>

section \<open>The decision for one candidate send\<close>

definition default_tiers :: "tier list" where
  "default_tiers =
     [\<lparr>window_seconds = 3600, max_sends = 5\<rparr>, \<lparr>window_seconds = 7200, max_sends = 8\<rparr>,
      \<lparr>window_seconds = 21600, max_sends = 20\<rparr>, \<lparr>window_seconds = 43200, max_sends = 35\<rparr>,
      \<lparr>window_seconds = 86400, max_sends = 50\<rparr>]"

definition default_min_interval_seconds :: int where "default_min_interval_seconds = 90"
definition default_jitter_seconds :: int where "default_jitter_seconds = 30"

definition default_tiers_for :: "string \<Rightarrow> tier list" where
  "default_tiers_for channel = default_tiers"

definition default_pacing_for :: "string \<Rightarrow> int \<times> int" where
  "default_pacing_for channel = (default_min_interval_seconds, default_jitter_seconds)"

record decision =
  allowed :: bool
  throttled_by :: int
  next_slot_at :: gotime

text \<open>\<open>sort.Search\<close>: binary search for the least index where a predicate holds.\<close>

function sort_search :: "(nat \<Rightarrow> bool) \<Rightarrow> nat \<Rightarrow> nat \<Rightarrow> nat" where
  "sort_search f i j =
     (if i < j
      then let h = (i + j) div 2 in if \<not> f h then sort_search f (h + 1) j else sort_search f i h
      else i)"
  by pat_completeness auto
termination
  by (relation "measure (\<lambda>(f, i, j). j - i)") auto

declare sort_search.simps [simp del]

text \<open>One iteration of \<open>Budget\<close>'s loop over the tiers, on its two running variables.\<close>

definition budget_tier ::
  "gotime list \<Rightarrow> gotime \<Rightarrow> tier \<Rightarrow> int \<times> gotime \<Rightarrow> int \<times> gotime" where
  "budget_tier attempts now t acc =
     (case acc of (throttled, next_slot) \<Rightarrow>
       if max_sends t \<le> 0 then (throttled, next_slot)
       else
         let window_start = now - seconds (window_seconds t);
             idx = sort_search (\<lambda>i. attempts ! i > window_start) 0 (length attempts);
             in_window = drop idx attempts in
         if int (length in_window) < max_sends t then (throttled, next_slot)
         else
           let throttled' = (if throttled = 0 then window_seconds t else throttled);
               frees_at = in_window ! nat (int (length in_window) - max_sends t)
                            + seconds (window_seconds t) in
           (throttled', if frees_at > next_slot then frees_at else next_slot))"

definition interval_ok :: "duration \<Rightarrow> gotime \<Rightarrow> gotime \<Rightarrow> bool" where
  "interval_ok min_interval last_send now \<longleftrightarrow>
     last_send = zero_time \<or> \<not> now < last_send + min_interval"

definition budget ::
  "tier list \<Rightarrow> gotime list \<Rightarrow> duration \<Rightarrow> gotime \<Rightarrow> gotime \<Rightarrow> decision" where
  "budget tiers attempts min_interval last_send now =
     (let ok = interval_ok min_interval last_send now;
          next0 = (if \<not> ok then (let at = last_send + min_interval in if at > now then at else now)
                   else now);
          (throttled, next_slot) = fold (budget_tier attempts now) tiers (0, next0) in
      \<lparr>allowed = ok \<and> throttled = 0, throttled_by = throttled, next_slot_at = next_slot\<rparr>)"

section \<open>When a tier lets the next send through\<close>

text \<open>The number of attempts inside a tier's window that ends at \<open>now\<close>.\<close>

definition used_in :: "gotime list \<Rightarrow> int \<Rightarrow> gotime \<Rightarrow> nat" where
  "used_in attempts w now = length (filter (\<lambda>a. a > now - seconds w) attempts)"

definition has_headroom :: "gotime list \<Rightarrow> gotime \<Rightarrow> tier \<Rightarrow> bool" where
  "has_headroom attempts now t \<longleftrightarrow>
     max_sends t \<le> 0 \<or> int (used_in attempts (window_seconds t) now) < max_sends t"

text \<open>
  The instant a tier opens up again: when the attempt that is \<open>max_sends\<close> from the end has left
  the window. A tier that never binds is open from the start.
\<close>

definition binds :: "gotime list \<Rightarrow> tier \<Rightarrow> bool" where
  "binds attempts t \<longleftrightarrow> 0 < max_sends t \<and> max_sends t \<le> int (length attempts)"

definition release_at :: "gotime list \<Rightarrow> tier \<Rightarrow> gotime" where
  "release_at attempts t =
     attempts ! nat (int (length attempts) - max_sends t) + seconds (window_seconds t)"

definition tier_blocks :: "gotime list \<Rightarrow> gotime \<Rightarrow> tier \<Rightarrow> bool" where
  "tier_blocks attempts now t \<longleftrightarrow> binds attempts t \<and> now < release_at attempts t"

lemma sort_search_spec:
  assumes mono: "\<And>a b. a \<le> b \<Longrightarrow> f a \<Longrightarrow> f b"
  shows "i \<le> j \<Longrightarrow> i \<le> sort_search f i j \<and> sort_search f i j \<le> j
    \<and> (\<forall>k. i \<le> k \<and> k < sort_search f i j \<longrightarrow> \<not> f k)
    \<and> (sort_search f i j < j \<longrightarrow> f (sort_search f i j))"
proof (induction "j - i" arbitrary: i j rule: less_induct)
  case less
  let ?h = "(i + j) div 2"
  show ?case
  proof (cases "i < j")
    case False
    with less.prems have "sort_search f i j = i" "i = j" by (simp_all add: sort_search.simps)
    then show ?thesis by auto
  next
    case True
    then have h: "i \<le> ?h" "?h < j" by auto
    show ?thesis
    proof (cases "f ?h")
      case True
      have eq: "sort_search f i j = sort_search f i ?h"
        using \<open>i < j\<close> True by (subst sort_search.simps) simp
      have IH: "i \<le> sort_search f i ?h \<and> sort_search f i ?h \<le> ?h
          \<and> (\<forall>k. i \<le> k \<and> k < sort_search f i ?h \<longrightarrow> \<not> f k)
          \<and> (sort_search f i ?h < ?h \<longrightarrow> f (sort_search f i ?h))"
        by (rule less.hyps) (use h in auto)
      have "f (sort_search f i ?h)"
        using IH True by (cases "sort_search f i ?h < ?h") auto
      with IH h show ?thesis unfolding eq by auto
    next
      case False
      have eq: "sort_search f i j = sort_search f (?h + 1) j"
        using \<open>i < j\<close> False by (subst sort_search.simps) simp
      have IH: "?h + 1 \<le> sort_search f (?h + 1) j \<and> sort_search f (?h + 1) j \<le> j
          \<and> (\<forall>k. ?h + 1 \<le> k \<and> k < sort_search f (?h + 1) j \<longrightarrow> \<not> f k)
          \<and> (sort_search f (?h + 1) j < j \<longrightarrow> f (sort_search f (?h + 1) j))"
        by (rule less.hyps) (use h in auto)
      have "\<not> f k" if "k \<le> ?h" for k using mono [OF that] False by blast
      then have below: "\<not> f k" if "k < sort_search f (?h + 1) j" for k
        using IH that by (cases "k \<le> ?h") auto
      with IH h show ?thesis unfolding eq by simp
    qed
  qed
qed

text \<open>On sorted timestamps the search cuts off exactly the attempts up to the bound.\<close>

lemma sort_search_after:
  fixes xs :: "gotime list"
  assumes "sorted xs"
  shows "sort_search (\<lambda>i. xs ! i > b) 0 (length xs) = length (takeWhile (\<lambda>a. a \<le> b) xs)"
proof -
  let ?f = "\<lambda>i. length xs \<le> i \<or> xs ! i > b"
  have cong: "j \<le> length xs \<Longrightarrow> sort_search (\<lambda>i. xs ! i > b) i j = sort_search ?f i j" for i j
  proof (induction "j - i" arbitrary: i j rule: less_induct)
    case less
    show ?case
    proof (cases "i < j")
      case False
      then show ?thesis by (simp add: sort_search.simps)
    next
      case True
      then have h: "(i + j) div 2 < j" "i \<le> (i + j) div 2" by auto
      then have "\<not> length xs \<le> (i + j) div 2" using less.prems by simp
      moreover have "sort_search (\<lambda>i. xs ! i > b) ((i + j) div 2 + 1) j
          = sort_search ?f ((i + j) div 2 + 1) j"
        by (rule less.hyps) (use h less.prems in auto)
      moreover have "sort_search (\<lambda>i. xs ! i > b) i ((i + j) div 2)
          = sort_search ?f i ((i + j) div 2)"
        by (rule less.hyps) (use h less.prems in auto)
      ultimately show ?thesis
        using True by (simp add: sort_search.simps [of _ i j] Let_def)
    qed
  qed
  have mono: "x \<le> y \<Longrightarrow> ?f x \<Longrightarrow> ?f y" for x y
    using assms by (auto simp: not_le dest: sorted_nth_mono [of xs x y])
  let ?r = "sort_search ?f 0 (length xs)"
  let ?t = "length (takeWhile (\<lambda>a. a \<le> b) xs)"
  have R: "0 \<le> ?r \<and> ?r \<le> length xs \<and> (\<forall>k. 0 \<le> k \<and> k < ?r \<longrightarrow> \<not> ?f k) \<and> (?r < length xs \<longrightarrow> ?f ?r)"
    by (rule sort_search_spec [of ?f]) (rule mono, assumption+, simp)
  have r: "?r \<le> length xs" "\<And>k. k < ?r \<Longrightarrow> \<not> ?f k" "?r < length xs \<Longrightarrow> ?f ?r"
    using R by blast+
  have "?t \<le> length xs" by (rule length_takeWhile_le)
  have below: "k < ?t \<Longrightarrow> xs ! k \<le> b" for k
    by (metis nth_mem set_takeWhileD takeWhile_nth)
  have at: "?t < length xs \<Longrightarrow> b < xs ! ?t"
    using nth_length_takeWhile [of "\<lambda>a. a \<le> b" xs] by simp
  have "?r = ?t"
  proof (rule antisym)
    show "?r \<le> ?t"
    proof (rule ccontr)
      assume "\<not> ?r \<le> ?t"
      then have t: "?t < ?r" by simp
      with r(1) have "?t < length xs" by linarith
      with at r(2) [OF t] show False by simp
    qed
    show "?t \<le> ?r"
    proof (rule ccontr)
      assume "\<not> ?t \<le> ?r"
      then have "?r < length xs" using \<open>?t \<le> length xs\<close> by simp
      then have "xs ! ?r > b" using r(3) by auto
      with below [of ?r] \<open>\<not> ?t \<le> ?r\<close> show False by simp
    qed
  qed
  then show ?thesis using cong [of "length xs" 0] by simp
qed

text \<open>With sorted attempts a tier blocks exactly when its window is full.\<close>

lemma used_in_eq:
  assumes "sorted xs"
  shows "used_in xs w now = length xs - length (takeWhile (\<lambda>a. a \<le> now - seconds w) xs)"
    and "filter (\<lambda>a. a > now - seconds w) xs
       = drop (length (takeWhile (\<lambda>a. a \<le> now - seconds w) xs)) xs"
proof -
  let ?b = "now - seconds w"
  have "filter (\<lambda>a. a > ?b) xs = dropWhile (\<lambda>a. a \<le> ?b) xs"
    using assms
  proof (induction xs)
    case (Cons x xs)
    then show ?case by (cases xs) (auto simp: filter_id_conv)
  qed simp
  then show *: "filter (\<lambda>a. a > ?b) xs = drop (length (takeWhile (\<lambda>a. a \<le> ?b) xs)) xs"
    by (simp add: dropWhile_eq_drop)
  show "used_in xs w now = length xs - length (takeWhile (\<lambda>a. a \<le> ?b) xs)"
    unfolding used_in_def * by simp
qed

lemma headroom_iff_released:
  assumes "sorted xs"
  shows "has_headroom xs now t \<longleftrightarrow> \<not> tier_blocks xs now t"
proof (cases "binds xs t")
  case False
  have "used_in xs (window_seconds t) now \<le> length xs" by (simp add: used_in_def)
  with False show ?thesis by (auto simp: binds_def has_headroom_def tier_blocks_def)
next
  case True
  let ?b = "now - seconds (window_seconds t)"
  let ?k = "nat (int (length xs) - max_sends t)"
  let ?n = "length (takeWhile (\<lambda>a. a \<le> ?b) xs)"
  have k: "?k < length xs" "int ?k = int (length xs) - max_sends t" "0 < max_sends t"
    using True by (auto simp: binds_def)
  have n: "?n \<le> length xs" by (rule length_takeWhile_le)
  have "has_headroom xs now t \<longleftrightarrow> int (length xs - ?n) < max_sends t"
    using k by (simp add: has_headroom_def used_in_eq [OF assms])
  also have "\<dots> \<longleftrightarrow> ?k < ?n" using k n by linarith
  also have "\<dots> \<longleftrightarrow> xs ! ?k \<le> ?b"
  proof
    assume "?k < ?n"
    then show "xs ! ?k \<le> ?b" by (metis nth_mem set_takeWhileD takeWhile_nth)
  next
    assume le: "xs ! ?k \<le> ?b"
    show "?k < ?n"
    proof (rule ccontr)
      assume "\<not> ?k < ?n"
      then have "?n < length xs" "?n \<le> ?k" using k(1) by linarith+
      then have "?n < length xs" "xs ! ?n \<le> xs ! ?k"
        using k(1) by (simp_all add: sorted_nth_mono [OF assms])
      then show False using nth_length_takeWhile [of "\<lambda>a. a \<le> ?b" xs] le by simp
    qed
  qed
  finally show ?thesis using True by (auto simp: tier_blocks_def release_at_def)
qed

lemma budget_tier_eq:
  assumes "sorted xs"
  shows "budget_tier xs now t (th, next) =
    (if tier_blocks xs now t
     then (if th = 0 then window_seconds t else th, max next (release_at xs t))
     else (th, next))"
proof -
  let ?b = "now - seconds (window_seconds t)"
  let ?n = "length (takeWhile (\<lambda>a. a \<le> ?b) xs)"
  have n: "?n \<le> length xs" by (rule length_takeWhile_le)
  have s: "sort_search (\<lambda>i. xs ! i > ?b) 0 (length xs) = ?n" by (rule sort_search_after [OF assms])
  have hd: "has_headroom xs now t \<longleftrightarrow> max_sends t \<le> 0 \<or> int (length xs - ?n) < max_sends t"
    by (simp add: has_headroom_def used_in_eq [OF assms])
  show ?thesis
  proof (cases "tier_blocks xs now t")
    case False
    then have "has_headroom xs now t" using headroom_iff_released [OF assms] by blast
    with False hd show ?thesis by (auto simp: budget_tier_def Let_def s)
  next
    case True
    then have full: "0 < max_sends t" "max_sends t \<le> int (length xs - ?n)"
      using headroom_iff_released [OF assms, of now t] hd by auto
    have "drop ?n xs ! nat (int (length xs - ?n) - max_sends t)
        = xs ! nat (int (length xs) - max_sends t)"
    proof -
      have "?n + nat (int (length xs - ?n) - max_sends t) = nat (int (length xs) - max_sends t)"
        using full n by linarith
      then show ?thesis using n by (simp add: nth_drop)
    qed
    with full True show ?thesis
      by (auto simp: budget_tier_def Let_def s release_at_def max_def)
  qed
qed

text \<open>The loop over the tiers: who blocked first, and the latest release of those that block.\<close>

lemma budget_fold:
  assumes "sorted xs" "\<forall>t\<in>set tiers. 0 < window_seconds t" "0 \<le> th"
    and "fold (budget_tier xs now) tiers (th, nxt) = (th', nxt')"
  shows "(th' = 0 \<longleftrightarrow> th = 0 \<and> (\<forall>t\<in>set tiers. \<not> tier_blocks xs now t))
    \<and> nxt \<le> nxt'
    \<and> (\<forall>t\<in>set tiers. tier_blocks xs now t \<longrightarrow> release_at xs t \<le> nxt')
    \<and> (nxt' = nxt \<or> (\<exists>t\<in>set tiers. tier_blocks xs now t \<and> nxt' = release_at xs t))"
  using assms(2-4)
proof (induction tiers arbitrary: th nxt)
  case Nil
  then show ?case by simp
next
  case (Cons t tiers)
  have pos: "0 < window_seconds t" "\<forall>t\<in>set tiers. 0 < window_seconds t"
    using Cons.prems(1) by auto
  show ?case
  proof (cases "tier_blocks xs now t")
    case False
    then have "fold (budget_tier xs now) tiers (th, nxt) = (th', nxt')"
      using Cons.prems(3) by (simp add: budget_tier_eq [OF assms(1)])
    from Cons.IH [OF pos(2) Cons.prems(2) this] False show ?thesis by auto
  next
    case True
    let ?th = "if th = 0 then window_seconds t else th" and ?nx = "max nxt (release_at xs t)"
    have th: "0 \<le> ?th" "?th \<noteq> 0" using pos(1) Cons.prems(2) by auto
    have "fold (budget_tier xs now) tiers (?th, ?nx) = (th', nxt')"
      using Cons.prems(3) True by (simp add: budget_tier_eq [OF assms(1)])
    from Cons.IH [OF pos(2) th(1) this] True th(2) show ?thesis
      by (auto simp: max_def split: if_splits)
  qed
qed

text \<open>The verdict and the next slot, in terms of the releases.\<close>

definition send_ok :: "tier list \<Rightarrow> gotime list \<Rightarrow> duration \<Rightarrow> gotime \<Rightarrow> gotime \<Rightarrow> bool" where
  "send_ok tiers attempts min_interval last_send now \<longleftrightarrow>
     interval_ok min_interval last_send now \<and> (\<forall>t\<in>set tiers. has_headroom attempts now t)"

definition next_or_now :: "duration \<Rightarrow> gotime \<Rightarrow> gotime \<Rightarrow> gotime" where
  "next_or_now min_interval last_send now =
     (if interval_ok min_interval last_send now then now else last_send + min_interval)"

lemma budget_verdict:
  assumes "sorted xs" "\<forall>t\<in>set tiers. 0 < window_seconds t"
  shows "allowed (budget tiers xs mi ls now) \<longleftrightarrow> send_ok tiers xs mi ls now"
    and "now \<le> next_slot_at (budget tiers xs mi ls now)"
    and "next_or_now mi ls now \<le> next_slot_at (budget tiers xs mi ls now)"
    and "\<forall>t\<in>set tiers. tier_blocks xs now t \<longrightarrow>
        release_at xs t \<le> next_slot_at (budget tiers xs mi ls now)"
    and "next_slot_at (budget tiers xs mi ls now) = next_or_now mi ls now \<or>
        (\<exists>t\<in>set tiers. tier_blocks xs now t \<and>
           next_slot_at (budget tiers xs mi ls now) = release_at xs t)"
proof -
  obtain th nx where f: "fold (budget_tier xs now) tiers (0, next_or_now mi ls now) = (th, nx)"
    by fastforce
  have b: "budget tiers xs mi ls now
      = \<lparr>allowed = interval_ok mi ls now \<and> th = 0, throttled_by = th, next_slot_at = nx\<rparr>"
    using f unfolding budget_def Let_def next_or_now_def
    by (auto simp: interval_ok_def split: if_splits)
  note F = budget_fold [OF assms order_refl f, THEN conjunct1]
    budget_fold [OF assms order_refl f, THEN conjunct2, THEN conjunct1]
    budget_fold [OF assms order_refl f, THEN conjunct2, THEN conjunct2, THEN conjunct1]
    budget_fold [OF assms order_refl f, THEN conjunct2, THEN conjunct2, THEN conjunct2]
  have now: "now \<le> next_or_now mi ls now" by (auto simp: next_or_now_def interval_ok_def)
  show "allowed (budget tiers xs mi ls now) \<longleftrightarrow> send_ok tiers xs mi ls now"
    by (auto simp: b send_ok_def F(1) headroom_iff_released [OF assms(1)])
  show "now \<le> next_slot_at (budget tiers xs mi ls now)" using now F(2) by (simp add: b)
  show "next_or_now mi ls now \<le> next_slot_at (budget tiers xs mi ls now)" using F(2) by (simp add: b)
  show "\<forall>t\<in>set tiers. tier_blocks xs now t \<longrightarrow>
      release_at xs t \<le> next_slot_at (budget tiers xs mi ls now)" using F(3) by (simp add: b)
  show "next_slot_at (budget tiers xs mi ls now) = next_or_now mi ls now \<or>
      (\<exists>t\<in>set tiers. tier_blocks xs now t \<and>
         next_slot_at (budget tiers xs mi ls now) = release_at xs t)" using F(4) by (simp add: b)
qed

lemma interval_ok_mono: "interval_ok mi ls t \<Longrightarrow> t \<le> u \<Longrightarrow> interval_ok mi ls u"
  by (auto simp: interval_ok_def)

lemma tier_blocks_mono: "tier_blocks xs u t \<Longrightarrow> now \<le> u \<Longrightarrow> tier_blocks xs now t"
  by (auto simp: tier_blocks_def)

lemma budget_exact:
  fixes mi ls now
  assumes "sorted attempts" and "\<forall>t\<in>set tiers. 0 < window_seconds t"
  defines "d \<equiv> \<lambda>t. budget tiers attempts mi ls t"
  shows "(allowed (d now) \<longleftrightarrow> send_ok tiers attempts mi ls now)
    \<and> now \<le> next_slot_at (d now)
    \<and> (allowed (d now) \<longleftrightarrow> next_slot_at (d now) = now)
    \<and> allowed (d (next_slot_at (d now)))
    \<and> (\<forall>t. now \<le> t \<and> t < next_slot_at (d now) \<longrightarrow> \<not> allowed (d t))"
proof -
  note V = budget_verdict [OF assms(1,2)]
  let ?n = "next_slot_at (d now)"
  have ok: "allowed (d t) \<longleftrightarrow>
      interval_ok mi ls t \<and> (\<forall>x\<in>set tiers. \<not> tier_blocks attempts t x)" for t
    by (simp add: d_def V(1) send_ok_def headroom_iff_released [OF assms(1)])
  have now: "now \<le> ?n" by (simp add: d_def V(2))
  have free: "allowed (d ?n)"
  proof -
    have "interval_ok mi ls ?n"
      using V(3) [of mi ls now] by (auto simp: d_def next_or_now_def interval_ok_def split: if_splits)
    moreover have "\<not> tier_blocks attempts ?n x" if x: "x \<in> set tiers" for x
    proof
      assume b: "tier_blocks attempts ?n x"
      then have "release_at attempts x \<le> ?n"
        using V(4) [of now mi ls] x tier_blocks_mono [OF b now] by (simp add: d_def)
      with b show False by (simp add: tier_blocks_def)
    qed
    ultimately show ?thesis using ok by blast
  qed
  have early: "\<not> allowed (d t)" if t: "now \<le> t" "t < ?n" for t
  proof -
    from V(5) [of mi ls now]
    consider "?n = next_or_now mi ls now"
      | x where "x \<in> set tiers" "tier_blocks attempts now x" "?n = release_at attempts x"
      by (auto simp: d_def)
    then show ?thesis
    proof cases
      case 1
      with t show ?thesis
        by (auto simp: ok next_or_now_def interval_ok_def split: if_splits)
    next
      case 2
      with t have "tier_blocks attempts t x" by (simp add: tier_blocks_def)
      with 2 ok show ?thesis by blast
    qed
  qed
  have "allowed (d now) \<longleftrightarrow> ?n = now"
    using free early [of now] now by (cases "?n = now") auto
  with now free early show ?thesis by (auto simp: d_def V(1))
qed

text \<open>
  C31: \<open>Budget\<close>'s next slot is exact. For sorted attempts and tiers with a positive window, the
  send is allowed if and only if the interval has elapsed and every tier has headroom; the next
  slot is never in the past and equals \<open>now\<close> exactly when the send is allowed; at the next slot
  the same send is allowed; and at every earlier instant from \<open>now\<close> on it is not.
\<close>

theorem budget_next_slot_exact:
  fixes mi ls now
  assumes "sorted attempts" and "\<forall>t\<in>set tiers. 0 < window_seconds t"
  defines "d \<equiv> \<lambda>t. budget tiers attempts mi ls t"
  shows "(allowed (d now) \<longleftrightarrow> send_ok tiers attempts mi ls now)
    \<and> now \<le> next_slot_at (d now)
    \<and> (allowed (d now) \<longleftrightarrow> next_slot_at (d now) = now)
    \<and> allowed (d (next_slot_at (d now)))
    \<and> (\<forall>t. now \<le> t \<and> t < next_slot_at (d now) \<longrightarrow> \<not> allowed (d t))"
  unfolding d_def by (rule budget_exact [OF assms(1,2)])

theorem budget_next_slot_exact_witness:
  "let d = budget [\<lparr>window_seconds = 60, max_sends = 2\<rparr>] [seconds 10, seconds 30] 0 zero_time in
     \<not> allowed (d (seconds 40)) \<and> next_slot_at (d (seconds 40)) = seconds 70
     \<and> allowed (d (seconds 70)) \<and> \<not> allowed (d (seconds 69))"
proof -
  let ?ts = "[\<lparr>window_seconds = 60, max_sends = 2\<rparr>]" and ?as = "[seconds 10, seconds 30]"
  have s: "sorted ?as" and w: "\<forall>t\<in>set ?ts. 0 < window_seconds t" by (simp_all add: seconds_def)
  have n: "next_slot_at (budget ?ts ?as 0 zero_time (seconds 40)) = seconds 70"
    by (simp add: budget_def budget_tier_def interval_ok_def sort_search.simps seconds_def
        zero_time_def Let_def)
  from budget_next_slot_exact [OF s w, where mi = 0 and ls = zero_time and now = "seconds 40"] n
  show ?thesis by (auto simp: Let_def seconds_def)
qed

end
