(* ===== verification/Campaign_Forecast.thy ===== *)
theory Campaign_Forecast
  imports Campaign_Budget
begin

text \<open>
  The second half of \<open>backend/campaign/budget.go\<close>: the quiet hours and the forward simulation.
  The search for the next slot is proved against an interface (\<open>slot_search\<close>): what the opening
  hours and the budget promise about the instants they name.
\<close>

section \<open>Quiet hours\<close>

definition windows_ok :: "window list \<Rightarrow> window list \<Rightarrow> gotime \<Rightarrow> bool" where
  "windows_ok account_windows campaign_windows now =
     (if length account_windows > 0 \<and> \<not> in_schedule account_windows now then False
      else if length campaign_windows > 0 \<and> \<not> in_schedule campaign_windows now then False
      else True)"

text \<open>The minute-by-minute scan of \<open>nextWindowOpen\<close>, over at most one week and one minute.\<close>

fun scan_minutes :: "(gotime \<Rightarrow> bool) \<Rightarrow> nat \<Rightarrow> gotime \<Rightarrow> gotime option" where
  "scan_minutes ok n t =
     (if n = 0 then None else if ok t then Some t else scan_minutes ok (n - 1) (t + minutes 1))"

declare scan_minutes.simps [simp del]

definition round_up_minute :: "gotime \<Rightarrow> gotime" where
  "round_up_minute from =
     (let t = truncate_minute from in if t < from then t + minutes 1 else t)"

definition next_window_open :: "window list \<Rightarrow> window list \<Rightarrow> gotime \<Rightarrow> gotime option" where
  "next_window_open account_windows campaign_windows from =
     scan_minutes (windows_ok account_windows campaign_windows) (7 * 24 * 60 + 1)
       (round_up_minute from)"

section \<open>The search for the next slot\<close>

definition max_simulation_iterations :: nat where
  "max_simulation_iterations = 100000"

text \<open>The loop of \<open>nextAllowedSlot\<close> over its three callees.\<close>

fun slot_loop ::
  "(gotime \<Rightarrow> bool) \<Rightarrow> (gotime \<Rightarrow> gotime option) \<Rightarrow> (gotime \<Rightarrow> decision) \<Rightarrow> nat \<Rightarrow> gotime
     \<Rightarrow> gotime option" where
  "slot_loop gate opens decide n cursor =
     (if n = 0 then None
      else if \<not> gate cursor then
        (case opens cursor of
           None \<Rightarrow> None
         | Some opened \<Rightarrow> slot_loop gate opens decide (n - 1) opened)
      else if allowed (decide cursor) then Some cursor
      else slot_loop gate opens decide (n - 1) (next_slot_at (decide cursor)))"

declare slot_loop.simps [simp del]

lemma slot_loop_open:
  "0 < n \<Longrightarrow> gate t \<Longrightarrow> slot_loop gate opens decide n t =
     (if allowed (decide t) then Some t else slot_loop gate opens decide (n - 1) (next_slot_at (decide t)))"
  by (subst slot_loop.simps) simp

lemma slot_loop_closed:
  "0 < n \<Longrightarrow> \<not> gate t \<Longrightarrow> slot_loop gate opens decide n t =
     (case opens t of None \<Rightarrow> None | Some u \<Rightarrow> slot_loop gate opens decide (n - 1) u)"
  by (subst slot_loop.simps) simp

definition next_allowed_slot ::
  "tier list \<Rightarrow> gotime list \<Rightarrow> duration \<Rightarrow> gotime \<Rightarrow> window list \<Rightarrow> window list \<Rightarrow> gotime
     \<Rightarrow> gotime option" where
  "next_allowed_slot tiers attempts min_interval last_send account_windows campaign_windows from =
     slot_loop (windows_ok account_windows campaign_windows)
       (next_window_open account_windows campaign_windows)
       (budget tiers attempts min_interval last_send)
       max_simulation_iterations from"

text \<open>\<open>time.Date(9999, 1, 1, 0, 0, 0, 0, time.UTC)\<close>.\<close>

definition far_future :: gotime where
  "far_future = seconds 253370764800"

definition max_window :: "tier list \<Rightarrow> int" where
  "max_window tiers = fold (\<lambda>t m. if window_seconds t > m then window_seconds t else m) tiers 0"

definition drop_expired :: "tier list \<Rightarrow> gotime list \<Rightarrow> gotime \<Rightarrow> gotime list" where
  "drop_expired tiers attempts cursor =
     (if max_window tiers > 0
      then dropWhile (\<lambda>a. \<not> a > cursor - seconds (max_window tiers)) attempts
      else attempts)"

fun estimate_loop ::
  "nat \<Rightarrow> tier list \<Rightarrow> gotime list \<Rightarrow> duration \<Rightarrow> gotime \<Rightarrow> window list \<Rightarrow> window list \<Rightarrow> gotime
     \<Rightarrow> gotime" where
  "estimate_loop remaining tiers attempts min_interval last_send aw cw cursor =
     (if remaining = 0 then last_send
      else case next_allowed_slot tiers attempts min_interval last_send aw cw cursor of
        None \<Rightarrow> far_future
      | Some slot \<Rightarrow>
          estimate_loop (remaining - 1) tiers (drop_expired tiers attempts slot @ [slot])
            min_interval slot aw cw slot)"

declare estimate_loop.simps [simp del]

definition estimate ::
  "int \<Rightarrow> gotime list \<Rightarrow> tier list \<Rightarrow> duration \<Rightarrow> window list \<Rightarrow> window list \<Rightarrow> gotime \<Rightarrow> gotime"
  where
  "estimate remaining prior tiers min_interval aw cw now =
     (if remaining \<le> 0 then now
      else estimate_loop (nat remaining) tiers prior min_interval
        (if length prior > 0 then last prior else zero_time) aw cw now)"

section \<open>The interface the search relies on\<close>

text \<open>
  \<open>gate\<close> says when sending is open, \<open>opens\<close> names the least opening instant after a closed one and
  \<open>None\<close> only when there is none, \<open>decide\<close> names the least allowed instant after a refused one, and what
  it allows stays allowed, because a history only ages. A configuration \<open>valid\<close> makes the promises hold.
\<close>

locale slot_search =
  fixes valid :: "'c \<Rightarrow> bool" and gate :: "'c \<Rightarrow> gotime \<Rightarrow> bool"
    and opens :: "'c \<Rightarrow> gotime \<Rightarrow> gotime option" and decide :: "'c \<Rightarrow> gotime \<Rightarrow> decision"
  assumes opens_Some: "valid c \<Longrightarrow> \<not> gate c t \<Longrightarrow> opens c t = Some u \<Longrightarrow>
      t \<le> u \<and> gate c u \<and> (\<forall>v. t \<le> v \<and> v < u \<longrightarrow> \<not> gate c v)"
    and opens_None: "valid c \<Longrightarrow> \<not> gate c t \<Longrightarrow> opens c t = None \<Longrightarrow> t \<le> v \<Longrightarrow> \<not> gate c v"
    and decide_next: "valid c \<Longrightarrow> \<not> allowed (decide c t) \<Longrightarrow>
      t < next_slot_at (decide c t)
      \<and> (\<forall>v. t \<le> v \<and> v < next_slot_at (decide c t) \<longrightarrow> \<not> allowed (decide c v))"
    and decide_lands: "valid c \<Longrightarrow> allowed (decide c (next_slot_at (decide c t)))"
    and decide_stays: "valid c \<Longrightarrow> allowed (decide c t) \<Longrightarrow> t \<le> v \<Longrightarrow> allowed (decide c v)"
begin

lemma search_Some:
  assumes "valid c" and "slot_loop (gate c) (opens c) (decide c) n t = Some u"
  shows "t \<le> u \<and> gate c u \<and> allowed (decide c u)
    \<and> (\<forall>v. t \<le> v \<and> v < u \<longrightarrow> \<not> (gate c v \<and> allowed (decide c v)))"
  using assms(2)
proof (induction n arbitrary: t)
  case 0
  then show ?case by (simp add: slot_loop.simps)
next
  case (Suc n)
  show ?case
  proof (cases "gate c t")
    case False
    then obtain o' where o': "opens c t = Some o'"
        "slot_loop (gate c) (opens c) (decide c) n o' = Some u"
      using Suc.prems by (subst (asm) slot_loop.simps) (auto split: option.splits)
    have "t \<le> o'" "\<And>v. t \<le> v \<Longrightarrow> v < o' \<Longrightarrow> \<not> gate c v"
      using opens_Some [OF assms(1) False o'(1)] by auto
    with Suc.IH [OF o'(2)] show ?thesis by (meson linorder_not_less order_trans)
  next
    case True
    show ?thesis
    proof (cases "allowed (decide c t)")
      case True
      with \<open>gate c t\<close> Suc.prems have "u = t" by (subst (asm) slot_loop.simps) simp
      with True \<open>gate c t\<close> show ?thesis by auto
    next
      case False
      let ?n = "next_slot_at (decide c t)"
      have s: "slot_loop (gate c) (opens c) (decide c) n ?n = Some u"
        using Suc.prems \<open>gate c t\<close> False by (subst (asm) slot_loop.simps) simp
      have "t < ?n" "\<And>v. t \<le> v \<Longrightarrow> v < ?n \<Longrightarrow> \<not> allowed (decide c v)"
        using decide_next [OF assms(1) False] by auto
      with Suc.IH [OF s] show ?thesis by (meson linorder_not_less order_trans less_imp_le)
    qed
  qed
qed

text \<open>
  How a search that finds nothing ends: the budget is refused at most once, the hours are closed at most
  twice, so four rounds are enough, and giving up means that there is no slot at all.
\<close>

lemma search_when_free:
  assumes "valid c" and free: "allowed (decide c t)" and n: "2 \<le> n"
    and none: "slot_loop (gate c) (opens c) (decide c) n t = None" and "t \<le> v"
  shows "\<not> (gate c v \<and> allowed (decide c v))"
proof -
  have closed: "\<not> gate c t"
    using n none free slot_loop_open [of n "gate c" t "opens c" "decide c"] by auto
  have "opens c t = None"
  proof (rule ccontr)
    assume "opens c t \<noteq> None"
    then obtain u where o: "opens c t = Some u" by blast
    then have u: "t \<le> u" "gate c u" using opens_Some [OF assms(1) closed] by auto
    then have "allowed (decide c u)" using decide_stays [OF assms(1) free] by blast
    with u(2) n have "slot_loop (gate c) (opens c) (decide c) (n - 1) u = Some u"
      using slot_loop_open [of "n - 1" "gate c" u "opens c" "decide c"] by simp
    then show False using none n o slot_loop_closed [of n "gate c" t "opens c" "decide c", OF _ closed] by simp
  qed
  with opens_None [OF assms(1) closed] assms(5) show ?thesis by blast
qed

lemma search_when_open:
  assumes "valid c" and g: "gate c t" and n: "3 \<le> n"
    and none: "slot_loop (gate c) (opens c) (decide c) n t = None" and "t \<le> v"
  shows "\<not> (gate c v \<and> allowed (decide c v))"
proof -
  let ?u = "next_slot_at (decide c t)"
  note unfolded = slot_loop_open [of n "gate c" t "opens c" "decide c", OF _ g]
  have refused: "\<not> allowed (decide c t)" using n none unfolded by auto
  have rest: "slot_loop (gate c) (opens c) (decide c) (n - 1) ?u = None" using n none unfolded refused by simp
  show ?thesis
  proof (cases "v < ?u")
    case True
    with decide_next [OF assms(1) refused] assms(5) show ?thesis by blast
  next
    case False
    then show ?thesis
      using search_when_free [OF assms(1) decide_lands [OF assms(1)] _ rest, of v] n by simp
  qed
qed

lemma search_none_open:
  assumes "valid c" and n: "4 \<le> n"
    and none: "slot_loop (gate c) (opens c) (decide c) n t = None" and "t \<le> v"
  shows "\<not> (gate c v \<and> allowed (decide c v))"
proof (cases "gate c t")
  case True
  then show ?thesis using search_when_open [OF assms(1) True _ none assms(4)] n by simp
next
  case closed: False
  note unfolded = slot_loop_closed [of n "gate c" t "opens c" "decide c", OF _ closed]
  show ?thesis
  proof (cases "opens c t")
    case None
    with opens_None [OF assms(1) closed] assms(4) show ?thesis by blast
  next
    case (Some u)
    have u: "gate c u" "t \<le> v \<Longrightarrow> v < u \<Longrightarrow> \<not> gate c v" using opens_Some [OF assms(1) closed Some] by auto
    have "slot_loop (gate c) (opens c) (decide c) (n - 1) u = None" using n none unfolded Some by simp
    with search_when_open [OF assms(1) u(1), of "n - 1" v] u(2) n assms(4) show ?thesis by (cases "v < u") auto
  qed
qed

end

section \<open>The opening hours keep the interface's promises\<close>

definition minute_index :: "gotime \<Rightarrow> int" where
  "minute_index t = t div seconds 60"

lemma minute_of_day_index: "minute_of_day t = minute_index t mod 1440"
proof -
  have "t mod (seconds 60 * 1440) = seconds 60 * (t div seconds 60 mod 1440) + t mod seconds 60"
    by (rule zmod_zmult2_eq) simp
  then have "t mod seconds 86400 = seconds 60 * (minute_index t mod 1440) + t mod seconds 60"
    by (simp add: seconds_def minute_index_def)
  then show ?thesis
    by (simp add: minute_of_day_def seconds_def)
qed

lemma weekday_of_index: "weekday_of t = (minute_index t div 1440 + 4) mod 7"
proof -
  have "t div (seconds 60 * 1440) = t div seconds 60 div 1440" by (rule zdiv_zmult2_eq) simp
  then show ?thesis by (simp add: weekday_of_def minute_index_def seconds_def)
qed

lemma windows_ok_index:
  assumes "minute_index t mod 10080 = minute_index u mod 10080"
  shows "windows_ok aw cw t = windows_ok aw cw u"
proof -
  let ?a = "minute_index t" and ?b = "minute_index u"
  have m: "?a mod 1440 = ?b mod 1440"
    using assms mod_mod_cancel [of 1440 10080 ?a] mod_mod_cancel [of 1440 10080 ?b] by simp
  have "?a mod (1440 * 7) = ?b mod (1440 * 7)" using assms by simp
  then have "1440 * (?a div 1440 mod 7) + ?a mod 1440 = 1440 * (?b div 1440 mod 7) + ?b mod 1440"
    by (simp only: zmod_zmult2_eq)
  then have "?a div 1440 mod 7 = ?b div 1440 mod 7" using m by simp
  then have "(?a div 1440 + 4) mod 7 = (?b div 1440 + 4) mod 7" by (metis mod_add_left_eq)
  then have w: "weekday_of t = weekday_of u" by (simp only: weekday_of_index)
  have "minute_of_day t = minute_of_day u" using m by (simp only: minute_of_day_index)
  then show ?thesis by (simp add: windows_ok_def in_schedule_cong [OF w])
qed

lemma scan_minutes_Some:
  "scan_minutes ok n t = Some u \<Longrightarrow>
    \<exists>k<n. u = t + int k * minutes 1 \<and> ok u \<and> (\<forall>j<k. \<not> ok (t + int j * minutes 1))"
proof (induction n arbitrary: t)
  case 0
  then show ?case by (simp add: scan_minutes.simps)
next
  case (Suc n)
  show ?case
  proof (cases "ok t")
    case True
    with Suc.prems have "u = t" by (simp add: scan_minutes.simps [of _ "Suc n"])
    with True show ?thesis by (intro exI [of _ 0]) simp
  next
    case False
    with Suc.prems have "scan_minutes ok n (t + minutes 1) = Some u"
      by (simp add: scan_minutes.simps [of _ "Suc n"])
    from Suc.IH [OF this] obtain k where k: "k < n" "u = t + minutes 1 + int k * minutes 1" "ok u"
      "\<forall>j<k. \<not> ok (t + minutes 1 + int j * minutes 1)" by blast
    have "\<not> ok (t + int j * minutes 1)" if "j < Suc k" for j
      using that False k(4) by (cases j) (auto simp: algebra_simps)
    with k show ?thesis by (intro exI [of _ "Suc k"]) (simp add: algebra_simps)
  qed
qed

lemma scan_minutes_None:
  "scan_minutes ok n t = None \<Longrightarrow> k < n \<Longrightarrow> \<not> ok (t + int k * minutes 1)"
proof (induction n arbitrary: t k)
  case 0
  then show ?case by simp
next
  case (Suc n)
  from Suc.prems(1) have t: "\<not> ok t" "scan_minutes ok n (t + minutes 1) = None"
    by (simp_all add: scan_minutes.simps [of _ "Suc n"] split: if_splits)
  show ?case
  proof (cases k)
    case 0
    with t show ?thesis by simp
  next
    case (Suc j)
    with Suc.IH [OF t(2), of j] Suc.prems(2) show ?thesis by (simp add: algebra_simps)
  qed
qed

lemma minutes_1: "minutes 1 = seconds 60"
  by (simp add: minutes_def)

lemma minute_index_add: "minute_index (t + k * minutes 1) = minute_index t + k"
  by (simp add: minute_index_def minutes_1 seconds_def)

text \<open>Rounding up to a minute: what lies between \<open>from\<close> and the rounded instant, and after it.\<close>

lemma round_up_minute:
  "from \<le> round_up_minute from"
  "minute_index (round_up_minute from) * seconds 60 = round_up_minute from"
  "from \<le> v \<Longrightarrow> v < round_up_minute from \<Longrightarrow> minute_index v = minute_index from"
proof -
  let ?s = "seconds 60"
  have s: "0 < ?s" by (simp add: seconds_def)
  have t: "truncate_minute from = minute_index from * ?s"
    by (simp add: truncate_minute_def minute_index_def minus_mod_eq_div_mult)
  have le: "truncate_minute from \<le> from" "from < truncate_minute from + ?s"
    using pos_mod_bound [OF s, of "from"] pos_mod_sign [OF s, of "from"]
    by (simp_all add: truncate_minute_def)
  have r: "round_up_minute from = truncate_minute from \<and> from = truncate_minute from
      \<or> round_up_minute from = truncate_minute from + ?s \<and> truncate_minute from < from"
    using le by (auto simp: round_up_minute_def Let_def minutes_1)
  then show "from \<le> round_up_minute from" using le by auto
  have "minute_index (truncate_minute from + ?s) = minute_index from + 1"
    "minute_index (truncate_minute from) = minute_index from"
    using s by (simp_all add: t minute_index_def)
  then show "minute_index (round_up_minute from) * ?s = round_up_minute from"
    using r t by (auto simp: algebra_simps)
  show "minute_index v = minute_index from" if "from \<le> v" "v < round_up_minute from"
  proof -
    have "minute_index from * ?s \<le> v" "v < (minute_index from + 1) * ?s"
      using that r le t by (auto simp: algebra_simps)
    then show ?thesis
      unfolding minute_index_def [of v]
      by (intro int_div_pos_eq [where r = "v - minute_index from * ?s"]) (auto simp: algebra_simps)
  qed
qed

lemma minute_index_mono: "t \<le> u \<Longrightarrow> minute_index t \<le> minute_index u"
  by (simp add: minute_index_def seconds_def zdiv_mono1)

lemma before_minute:
  assumes "minute_index t * seconds 60 = t" and "v < t + int k * minutes 1"
  shows "minute_index v < minute_index t + int k"
proof (rule ccontr)
  assume "\<not> ?thesis"
  then have "(minute_index t + int k) * seconds 60 \<le> minute_index v * seconds 60"
    by (intro mult_right_mono) (simp_all add: seconds_def)
  also have "\<dots> \<le> v"
    using pos_mod_sign [of "seconds 60" v] div_mult_mod_eq [of v "seconds 60"]
    by (simp add: minute_index_def seconds_def)
  finally show False using assms by (simp add: minutes_1 algebra_simps)
qed

lemma next_window_open_Some:
  assumes closed: "\<not> windows_ok aw cw t" and "next_window_open aw cw t = Some u"
  shows "t \<le> u \<and> windows_ok aw cw u \<and> (\<forall>v. t \<le> v \<and> v < u \<longrightarrow> \<not> windows_ok aw cw v)"
proof -
  let ?t = "round_up_minute t"
  from assms(2) obtain k where k: "u = ?t + int k * minutes 1" "windows_ok aw cw u"
      "\<And>j. j < k \<Longrightarrow> \<not> windows_ok aw cw (?t + int j * minutes 1)"
    unfolding next_window_open_def by (blast dest: scan_minutes_Some)
  have "\<not> windows_ok aw cw v" if v: "t \<le> v" "v < u" for v
  proof (cases "v < ?t")
    case True
    then have "minute_index v = minute_index t" using v round_up_minute(3) by blast
    then show ?thesis using closed windows_ok_index [of v t] by simp
  next
    case False
    let ?j = "nat (minute_index v - minute_index ?t)"
    have le: "minute_index ?t \<le> minute_index v" using False by (simp add: minute_index_mono)
    have "minute_index v < minute_index ?t + int k"
      using before_minute [OF round_up_minute(2)] v k(1) by blast
    then have "\<not> windows_ok aw cw (?t + int ?j * minutes 1)" using k(3) [of ?j] le by simp
    moreover have "minute_index (?t + int ?j * minutes 1) = minute_index v"
      using le by (simp add: minute_index_add)
    ultimately show ?thesis using windows_ok_index by metis
  qed
  moreover have "t \<le> u"
    using round_up_minute(1) [of t] by (simp add: k(1) minutes_1 seconds_def add_increasing2)
  ultimately show ?thesis using k(2) by blast
qed

lemma next_window_open_None:
  assumes closed: "\<not> windows_ok aw cw t" and "next_window_open aw cw t = None" and "t \<le> v"
  shows "\<not> windows_ok aw cw v"
proof (cases "v < round_up_minute t")
  case True
  then have "minute_index v = minute_index t" using assms(3) round_up_minute(3) by blast
  then show ?thesis using closed windows_ok_index [of v t] by simp
next
  case False
  let ?t = "round_up_minute t"
  let ?j = "nat ((minute_index v - minute_index ?t) mod 10080)"
  have "\<not> windows_ok aw cw (?t + int ?j * minutes 1)"
    by (rule scan_minutes_None [OF assms(2) [unfolded next_window_open_def]])
      (simp add: nat_less_iff)
  moreover have "minute_index (?t + int ?j * minutes 1) mod 10080 = minute_index v mod 10080"
    by (simp add: minute_index_add mod_add_right_eq)
  ultimately show ?thesis using windows_ok_index by metis
qed

text \<open>
  What the search is configured with: the tiers, the attempts so far, the interval, the last send
  and the two window sets. The promises hold for sorted attempts and positive tier windows.
\<close>

type_synonym slot_config =
  "tier list \<times> gotime list \<times> duration \<times> gotime \<times> window list \<times> window list"

definition config_valid :: "slot_config \<Rightarrow> bool" where
  "config_valid c = (case c of (tiers, attempts, mi, ls, aw, cw) \<Rightarrow>
     sorted attempts \<and> (\<forall>t\<in>set tiers. 0 < window_seconds t))"

definition config_gate :: "slot_config \<Rightarrow> gotime \<Rightarrow> bool" where
  "config_gate c = (case c of (tiers, attempts, mi, ls, aw, cw) \<Rightarrow> windows_ok aw cw)"

definition config_opens :: "slot_config \<Rightarrow> gotime \<Rightarrow> gotime option" where
  "config_opens c = (case c of (tiers, attempts, mi, ls, aw, cw) \<Rightarrow> next_window_open aw cw)"

definition config_decide :: "slot_config \<Rightarrow> gotime \<Rightarrow> decision" where
  "config_decide c = (case c of (tiers, attempts, mi, ls, aw, cw) \<Rightarrow> budget tiers attempts mi ls)"

lemmas config_defs = config_valid_def config_gate_def config_opens_def config_decide_def

lemma send_ok_stays:
  assumes "send_ok tiers attempts mi ls t" and "t \<le> v"
  shows "send_ok tiers attempts mi ls v"
proof -
  have "used_in attempts w v \<le> used_in attempts w t" for w
    unfolding used_in_def using assms(2) by (induction attempts) auto
  then have "int (used_in attempts w v) \<le> int (used_in attempts w t)" for w by simp
  then have "has_headroom attempts t x \<Longrightarrow> has_headroom attempts v x" for x
    unfolding has_headroom_def using order_le_less_trans by blast
  moreover have "interval_ok mi ls t \<Longrightarrow> interval_ok mi ls v" using assms(2) by (auto simp: interval_ok_def)
  ultimately show ?thesis using assms(1) by (simp add: send_ok_def)
qed

lemma budget_lands:
  assumes "sorted attempts" "\<forall>t\<in>set tiers. 0 < window_seconds t"
  shows "allowed (budget tiers attempts mi ls (next_slot_at (budget tiers attempts mi ls t)))"
  using budget_exact [OF assms, of mi ls t] by blast

lemma budget_progress:
  assumes "sorted attempts" "\<forall>t\<in>set tiers. 0 < window_seconds t"
    and "\<not> allowed (budget tiers attempts mi ls t)"
  shows "t < next_slot_at (budget tiers attempts mi ls t)
    \<and> (\<forall>v. t \<le> v \<and> v < next_slot_at (budget tiers attempts mi ls t)
         \<longrightarrow> \<not> allowed (budget tiers attempts mi ls v))"
  using budget_exact [OF assms(1,2), of mi ls t] assms(3) by auto

interpretation slots: slot_search config_valid config_gate config_opens config_decide
proof
  fix c t u
  assume "\<not> config_gate c t" "config_opens c t = Some u"
  then show "t \<le> u \<and> config_gate c u \<and> (\<forall>v. t \<le> v \<and> v < u \<longrightarrow> \<not> config_gate c v)"
    by (cases c) (auto simp: config_defs dest: next_window_open_Some)
next
  fix c t v
  assume "\<not> config_gate c t" "config_opens c t = None" "t \<le> v"
  then show "\<not> config_gate c v"
    by (cases c) (auto simp: config_defs dest: next_window_open_None)
next
  fix c t
  assume "config_valid c" "\<not> allowed (config_decide c t)"
  then show "t < next_slot_at (config_decide c t)
      \<and> (\<forall>v. t \<le> v \<and> v < next_slot_at (config_decide c t) \<longrightarrow> \<not> allowed (config_decide c v))"
    by (cases c) (auto simp: config_defs dest: budget_progress)
next
  fix c t
  assume "config_valid c"
  then show "allowed (config_decide c (next_slot_at (config_decide c t)))"
    by (cases c) (auto simp: config_defs intro: budget_lands)
next
  fix c t v
  assume "config_valid c" "allowed (config_decide c t)" "t \<le> v"
  then show "allowed (config_decide c v)"
    by (cases c) (auto simp: config_defs budget_verdict(1) intro: send_ok_stays)
qed

text \<open>
  C32: the search for the next slot is exact. The slot \<open>nextAllowedSlot\<close> finds is the earliest instant,
  from the start on, at which sending is open and the tiers and the interval allow a send; and it finds
  none only if there is no such instant at all: the bound on its rounds is never what ends it.
\<close>

theorem next_allowed_slot_earliest:
  assumes "sorted attempts" and "\<forall>t\<in>set tiers. 0 < window_seconds t"
  shows "case next_allowed_slot tiers attempts mi ls aw cw from of
      Some u \<Rightarrow> from \<le> u \<and> windows_ok aw cw u \<and> send_ok tiers attempts mi ls u
        \<and> (\<forall>v. from \<le> v \<and> v < u \<longrightarrow> \<not> (windows_ok aw cw v \<and> send_ok tiers attempts mi ls v))
    | None \<Rightarrow> \<forall>v. from \<le> v \<longrightarrow> \<not> (windows_ok aw cw v \<and> send_ok tiers attempts mi ls v)"
proof -
  let ?c = "(tiers, attempts, mi, ls, aw, cw)"
  have c: "config_valid ?c" using assms by (simp add: config_valid_def)
  show ?thesis
  proof (cases "next_allowed_slot tiers attempts mi ls aw cw from")
    case None
    with slots.search_none_open [OF c, of max_simulation_iterations "from"] show ?thesis
      by (simp add: config_defs next_allowed_slot_def budget_verdict(1) [OF assms] max_simulation_iterations_def)
  next
    case (Some u)
    with slots.search_Some [OF c, of max_simulation_iterations "from" u] show ?thesis
      by (simp add: config_defs next_allowed_slot_def budget_verdict(1) [OF assms])
  qed
qed

theorem next_allowed_slot_earliest_witness:
  "next_allowed_slot [\<lparr>window_seconds = 60, max_sends = 1\<rparr>] [seconds 10] 0 zero_time [] [] (seconds 20)
     = Some (seconds 70)
   \<and> \<not> send_ok [\<lparr>window_seconds = 60, max_sends = 1\<rparr>] [seconds 10] 0 zero_time (seconds 69)"
proof -
  let ?ts = "[\<lparr>window_seconds = 60, max_sends = 1\<rparr>]" and ?as = "[seconds 10]"
  have s: "sorted ?as" and w: "\<forall>t\<in>set ?ts. 0 < window_seconds t" by simp_all
  have e: "next_allowed_slot ?ts ?as 0 zero_time [] [] (seconds 20) = Some (seconds 70)"
    by (simp add: next_allowed_slot_def slot_loop.simps windows_ok_def budget_def budget_tier_def
        interval_ok_def sort_search.simps seconds_def zero_time_def Let_def
        max_simulation_iterations_def)
  note slot = next_allowed_slot_earliest [OF s w, where mi = 0 and ls = zero_time and aw = "[]" and cw = "[]",
      of "seconds 20", unfolded e option.case]
  show ?thesis
  proof (intro conjI notI)
    assume "send_ok ?ts ?as 0 zero_time (seconds 69)"
    with slot show False by (simp add: windows_ok_def seconds_def)
  qed (rule e)
qed

text \<open>
  When no window opens within the week that \<open>nextWindowOpen\<close> scans, none ever does: the
  quiet hours repeat weekly, so the bounded scan is complete.
\<close>

theorem no_window_ever_opens:
  assumes "\<not> windows_ok aw cw from" and "next_window_open aw cw from = None" and "from \<le> t"
  shows "\<not> windows_ok aw cw t"
  using assms by (rule next_window_open_None)

lemma scan_minutes_never: "(\<And>t. \<not> ok t) \<Longrightarrow> scan_minutes ok n t = None"
  by (induction n arbitrary: t) (simp_all add: scan_minutes.simps [of _ "Suc _"] scan_minutes.simps [of _ 0])

theorem no_window_ever_opens_witness:
  "let aw = [\<lparr>weekday = 1, start_minute = 0, end_minute = 1440\<rparr>];
       cw = [\<lparr>weekday = 2, start_minute = 0, end_minute = 1440\<rparr>] in
     next_window_open aw cw 0 = None \<and> \<not> windows_ok aw cw (seconds 999999)"
proof -
  let ?aw = "[\<lparr>weekday = 1, start_minute = 0, end_minute = 1440\<rparr>]"
  let ?cw = "[\<lparr>weekday = 2, start_minute = 0, end_minute = 1440\<rparr>]"
  have closed: "\<not> windows_ok ?aw ?cw t" for t
    by (simp add: windows_ok_def window_contains_def Let_def)
  have none: "next_window_open ?aw ?cw 0 = None"
    unfolding next_window_open_def by (rule scan_minutes_never) (rule closed)
  have "\<not> windows_ok ?aw ?cw (seconds 999999)"
    by (rule no_window_ever_opens [OF closed none]) (simp add: seconds_def)
  with none show ?thesis by (simp add: Let_def)
qed

section \<open>Pruning the simulated history changes nothing\<close>

text \<open>The simulation without \<open>Estimate\<close>'s pruning of attempts that have left every window.\<close>

fun estimate_ref ::
  "nat \<Rightarrow> tier list \<Rightarrow> gotime list \<Rightarrow> duration \<Rightarrow> gotime \<Rightarrow> window list \<Rightarrow> window list \<Rightarrow> gotime
     \<Rightarrow> gotime" where
  "estimate_ref 0 tiers attempts mi ls aw cw cursor = ls"
| "estimate_ref (Suc n) tiers attempts mi ls aw cw cursor =
     (case next_allowed_slot tiers attempts mi ls aw cw cursor of
        None \<Rightarrow> far_future
      | Some slot \<Rightarrow> estimate_ref n tiers (attempts @ [slot]) mi slot aw cw slot)"

text \<open>Two histories the tiers cannot tell apart from an instant on.\<close>

definition same_windows :: "tier list \<Rightarrow> gotime \<Rightarrow> gotime list \<Rightarrow> gotime list \<Rightarrow> bool" where
  "same_windows tiers from xs ys \<longleftrightarrow>
     (\<forall>t\<ge>from. \<forall>x\<in>set tiers. filter (\<lambda>a. a > t - seconds (window_seconds x)) xs
        = filter (\<lambda>a. a > t - seconds (window_seconds x)) ys)"

lemma budget_tier_filter:
  assumes "sorted xs"
  shows "budget_tier xs now t acc =
    (let win = filter (\<lambda>a. a > now - seconds (window_seconds t)) xs in
     if max_sends t \<le> 0 \<or> int (length win) < max_sends t then acc
     else (if fst acc = 0 then window_seconds t else fst acc,
           max (snd acc) (win ! nat (int (length win) - max_sends t) + seconds (window_seconds t))))"
  by (cases acc)
    (auto simp: budget_tier_def Let_def sort_search_after [OF assms] used_in_eq(2) [OF assms] max_def)

lemma budget_same_windows:
  assumes "same_windows tiers from xs ys" "from \<le> t" "sorted xs" "sorted ys"
  shows "budget tiers xs mi ls t = budget tiers ys mi ls t"
proof -
  have "fold (budget_tier xs t) tiers acc = fold (budget_tier ys t) tiers acc" for acc
    by (rule fold_cong)
      (use assms in \<open>auto simp: same_windows_def budget_tier_filter fun_eq_iff\<close>)
  then show ?thesis by (simp add: budget_def)
qed

lemma slot_loop_cong:
  assumes "\<And>v. from \<le> v \<Longrightarrow> decide v = decide' v"
    and "\<And>v u. from \<le> v \<Longrightarrow> \<not> gate v \<Longrightarrow> opens v = Some u \<Longrightarrow> from \<le> u"
    and "\<And>v. from \<le> v \<Longrightarrow> from \<le> next_slot_at (decide v)"
  shows "from \<le> t \<Longrightarrow> slot_loop gate opens decide n t = slot_loop gate opens decide' n t"
proof (induction n arbitrary: t)
  case 0
  then show ?case by (simp add: slot_loop.simps)
next
  case (Suc n)
  note eq = assms(1) [OF Suc.prems]
  show ?case
  proof (cases "gate t")
    case True
    have "slot_loop gate opens decide n (next_slot_at (decide t))
        = slot_loop gate opens decide' n (next_slot_at (decide t))"
      by (rule Suc.IH) (rule assms(3) [OF Suc.prems])
    with True eq show ?thesis
      by (simp add: slot_loop.simps [of _ _ _ "Suc n"])
  next
    case False
    then show ?thesis
      using Suc.IH assms(2) [OF Suc.prems False]
      by (auto simp: slot_loop.simps [of _ _ _ "Suc n"] split: option.splits)
  qed
qed

lemma next_allowed_slot_same_windows:
  assumes "same_windows tiers from xs ys" "sorted xs" "sorted ys"
    and "\<forall>t\<in>set tiers. 0 < window_seconds t"
  shows "next_allowed_slot tiers xs mi ls aw cw from = next_allowed_slot tiers ys mi ls aw cw from"
  unfolding next_allowed_slot_def
proof (rule slot_loop_cong [of "from"])
  fix v
  assume v: "from \<le> v"
  show "budget tiers xs mi ls v = budget tiers ys mi ls v"
    by (rule budget_same_windows [OF assms(1) v assms(2,3)])
  show "from \<le> next_slot_at (budget tiers xs mi ls v)"
    using budget_verdict(2) [OF assms(2,4), of v mi ls] v by simp
next
  fix v u
  assume "from \<le> v" "\<not> windows_ok aw cw v" "next_window_open aw cw v = Some u"
  then show "from \<le> u" by (auto dest: next_window_open_Some)
qed simp

lemma fold_max_ge:
  "m \<le> fold (\<lambda>t m. if window_seconds t > m then window_seconds t else m) ts m
   \<and> (\<forall>t\<in>set ts. window_seconds t
        \<le> fold (\<lambda>t m. if window_seconds t > m then window_seconds t else m) ts m)"
  for ts :: "tier list"
proof (induction ts arbitrary: m)
  case Nil
  then show ?case by simp
next
  case (Cons t ts)
  let ?m = "if window_seconds t > m then window_seconds t else m"
  have "m \<le> ?m" "window_seconds t \<le> ?m" by simp_all
  with Cons.IH [of ?m] show ?case by fastforce
qed

lemma max_window_ge: "t \<in> set tiers \<Longrightarrow> window_seconds t \<le> max_window tiers"
  using fold_max_ge [where ts = tiers and m = 0] by (simp add: max_window_def)

lemma drop_expired_same:
  assumes "same_windows tiers from xs ys" "from \<le> slot" "sorted xs"
  shows "same_windows tiers slot (drop_expired tiers xs slot @ [slot]) (ys @ [slot])"
proof -
  have "filter (\<lambda>a. a > t - seconds (window_seconds x)) (drop_expired tiers xs slot)
      = filter (\<lambda>a. a > t - seconds (window_seconds x)) xs"
    if "slot \<le> t" "x \<in> set tiers" for t x
  proof -
    have "seconds (window_seconds x) \<le> seconds (max_window tiers)"
      using max_window_ge [OF that(2)] by (simp add: seconds_def)
    then have b: "slot - seconds (max_window tiers) \<le> t - seconds (window_seconds x)"
      using that(1) by linarith
    have "filter (\<lambda>a. a > t - seconds (window_seconds x)) (dropWhile (\<lambda>a. \<not> a > slot - seconds (max_window tiers)) zs)
        = filter (\<lambda>a. a > t - seconds (window_seconds x)) zs" for zs
      using b by (induction zs) auto
    then show ?thesis by (simp add: drop_expired_def)
  qed
  then show ?thesis using assms(1,2) by (auto simp: same_windows_def)
qed

lemma drop_expired_sorted:
  assumes "sorted xs" "\<forall>a\<in>set xs. a \<le> slot"
  shows "sorted (drop_expired tiers xs slot @ [slot])"
    and "\<forall>a\<in>set (drop_expired tiers xs slot @ [slot]). a \<le> slot"
  using assms
  by (auto simp: drop_expired_def sorted_append sorted_dropWhile dest: set_dropWhileD)

text \<open>
  \<open>Estimate\<close>'s pruning is unobservable. With sorted past attempts and positive tier windows
  it projects the same completion time as the simulation that remembers every attempt.
\<close>

theorem estimate_pruning_exact:
  assumes "sorted prior" and "\<forall>a\<in>set prior. a \<le> now" and "\<forall>t\<in>set tiers. 0 < window_seconds t"
    and "0 < n"
  shows "estimate (int n) prior tiers mi aw cw now
    = estimate_ref n tiers prior mi (if prior = [] then zero_time else last prior) aw cw now"
proof -
  have "estimate_loop n tiers xs mi ls aw cw cur = estimate_ref n tiers ys mi ls aw cw cur"
    if "sorted xs" "sorted ys" "\<forall>a\<in>set xs. a \<le> cur" "\<forall>a\<in>set ys. a \<le> cur"
      "same_windows tiers cur xs ys" for xs ys ls cur
    using that
  proof (induction n arbitrary: xs ys ls cur)
    case 0
    then show ?case by (simp add: estimate_loop.simps)
  next
    case (Suc n)
    note eq = next_allowed_slot_same_windows [OF Suc.prems(5,1,2) assms(3)]
    show ?case
    proof (cases "next_allowed_slot tiers ys mi ls aw cw cur")
      case None
      with eq show ?thesis by (simp add: estimate_loop.simps [of "Suc n"])
    next
      case (Some slot)
      have "config_valid (tiers, ys, mi, ls, aw, cw)"
        using assms(3) Suc.prems(2) by (simp add: config_valid_def)
      from slots.search_Some [OF this, of max_simulation_iterations cur slot] Some
      have le: "cur \<le> slot" by (simp add: config_defs next_allowed_slot_def)
      have "estimate_loop n tiers (drop_expired tiers xs slot @ [slot]) mi slot aw cw slot
          = estimate_ref n tiers (ys @ [slot]) mi slot aw cw slot"
      proof (rule Suc.IH)
        show "sorted (drop_expired tiers xs slot @ [slot])"
          "\<forall>a\<in>set (drop_expired tiers xs slot @ [slot]). a \<le> slot"
          using drop_expired_sorted [OF Suc.prems(1), of slot] Suc.prems(3) le order_trans by blast+
        show "sorted (ys @ [slot])" "\<forall>a\<in>set (ys @ [slot]). a \<le> slot"
          using Suc.prems(2,4) le by (auto simp: sorted_append intro: order_trans)
        show "same_windows tiers slot (drop_expired tiers xs slot @ [slot]) (ys @ [slot])"
          by (rule drop_expired_same [OF Suc.prems(5) le Suc.prems(1)])
      qed
      with Some eq show ?thesis by (simp add: estimate_loop.simps [of "Suc n"])
    qed
  qed
  from this [OF assms(1,1,2,2)] assms(4) show ?thesis
    by (auto simp: estimate_def same_windows_def)
qed

theorem estimate_pruning_exact_witness:
  "estimate (int 1) [seconds 10] [\<lparr>window_seconds = 60, max_sends = 1\<rparr>] 0 [] [] (seconds 20) = seconds 70"
proof -
  have "estimate (int 1) [seconds 10] [\<lparr>window_seconds = 60, max_sends = 1\<rparr>] 0 [] [] (seconds 20)
     = estimate_ref 1 [\<lparr>window_seconds = 60, max_sends = 1\<rparr>] [seconds 10] 0
         (if [seconds 10] = [] then zero_time else last [seconds 10]) [] [] (seconds 20)"
    by (rule estimate_pruning_exact) (simp_all add: seconds_def)
  also have "\<dots> = seconds 70"
    by (simp add: next_allowed_slot_def slot_loop.simps windows_ok_def budget_def budget_tier_def
        interval_ok_def sort_search.simps seconds_def zero_time_def Let_def
        max_simulation_iterations_def)
  finally show ?thesis .
qed

end
