(* ===== verification/Campaign_Render.thy ===== *)
theory Campaign_Render
  imports Prelude
begin

text \<open>
  Message templates, \<open>backend/campaign/render.go\<close>: finding the \<open>{{name}}\<close> placeholders,
  substituting them, and dropping one neighbouring separator where a value is empty.
\<close>

section \<open>Placeholders\<close>

text \<open>The regular expression's \<open>\s\<close>.\<close>

definition re_space :: "char \<Rightarrow> bool" where
  "re_space c \<longleftrightarrow> c \<in> {CHR 0x09, CHR 0x0A, CHR 0x0C, CHR 0x0D, CHR 0x20}"

definition skip_re_space :: "string \<Rightarrow> string" where
  "skip_re_space s = dropWhile re_space s"

text \<open>
  A match of \<open>tokenRe\<close> at the start of a string: the captured name and the length of the match.
  The character classes of the expression are disjoint, so the greedy match is the only one.
\<close>

definition token_at :: "string \<Rightarrow> (string \<times> nat) option" where
  "token_at s =
     (if prefix ''{{'' s then
        let body = skip_re_space (drop 2 s);
            key = takeWhile is_word_char body;
            rest = skip_re_space (dropWhile is_word_char body) in
        if key \<noteq> '''' \<and> prefix ''}}'' rest
        then Some (key, length s - length (drop 2 rest)) else None
      else None)"

lemma token_at_length: "token_at s = Some (key, n) \<Longrightarrow> 4 \<le> n \<and> n \<le> length s"
proof -
  assume a: "token_at s = Some (key, n)"
  let ?body = "skip_re_space (drop 2 s)"
  let ?rest = "skip_re_space (dropWhile is_word_char ?body)"
  from a have s: "prefix ''{{'' s" and r: "prefix ''}}'' ?rest" and n: "n = length s - length (drop 2 ?rest)"
    by (auto simp: token_at_def Let_def split: if_splits)
  have "length ?rest \<le> length (drop 2 s)"
    unfolding skip_re_space_def by (meson length_dropWhile_le le_trans)
  moreover have "2 \<le> length s" "2 \<le> length ?rest"
    using prefix_length_le [OF s] prefix_length_le [OF r] by simp_all
  ultimately show ?thesis using n by (simp del: drop_drop; arith)
qed

text \<open>
  \<open>FindAllStringSubmatchIndex\<close>: the leftmost, non-overlapping matches, as (start, end, name).
\<close>

function matches_from :: "nat \<Rightarrow> string \<Rightarrow> (nat \<times> nat \<times> string) list" where
  "matches_from i s =
     (if s = [] then []
      else case token_at s of
             Some (key, n) \<Rightarrow> (i, i + n, key) # matches_from (i + n) (drop n s)
           | None \<Rightarrow> matches_from (Suc i) (tl s))"
  by pat_completeness auto
termination
  by (relation "measure (\<lambda>(i, s). length s)") (auto simp: neq_Nil_conv dest: token_at_length)

declare matches_from.simps [simp del]

definition find_all_tokens :: "string \<Rightarrow> (nat \<times> nat \<times> string) list" where
  "find_all_tokens tmpl = matches_from 0 tmpl"

text \<open>Comma, semicolon, and an em-dash between spaces.\<close>

definition separators :: "string list" where
  "separators = ['', '', ''; '', [CHR 0x20, CHR 0xE2, CHR 0x80, CHR 0x94, CHR 0x20]]"

fun collapse_spaces :: "string \<Rightarrow> string" where
  "collapse_spaces [] = []"
| "collapse_spaces [c] = [c]"
| "collapse_spaces (c # d # s) =
     (if c = CHR 0x20 \<and> d = CHR 0x20 then collapse_spaces (d # s)
      else c # collapse_spaces (d # s))"

definition slice :: "string \<Rightarrow> nat \<Rightarrow> nat \<Rightarrow> string" where
  "slice s i j = take (j - i) (drop i s)"

text \<open>\<open>vars[key]\<close> of a \<open>map[string]string\<close>: the empty string when the key is missing.\<close>

definition var_value :: "(string \<rightharpoonup> string) \<Rightarrow> string \<Rightarrow> string" where
  "var_value vars key = (case vars key of None \<Rightarrow> '''' | Some v \<Rightarrow> v)"

text \<open>The loop's body: what has been written so far and the offset \<open>last\<close> of the source, here \<open>pos\<close>.\<close>

definition render_step ::
  "string \<Rightarrow> (string \<rightharpoonup> string) \<Rightarrow> nat \<times> nat \<times> string \<Rightarrow> string \<times> nat \<Rightarrow> string \<times> nat" where
  "render_step tmpl vars m acc =
     (case m of (start, fin, key) \<Rightarrow> case acc of (b, pos) \<Rightarrow>
        let segment = slice tmpl pos start;
            val = trim_space (var_value vars key) in
        if val \<noteq> '''' then (b @ segment @ val, fin)
        else case find (\<lambda>sep. suffix sep segment) separators of
               Some sep \<Rightarrow> (b @ take (length segment - length sep) segment, fin)
             | None \<Rightarrow>
                 (case find (\<lambda>sep. prefix sep (drop fin tmpl)) separators of
                    Some sep \<Rightarrow> (b @ segment, fin + length sep)
                  | None \<Rightarrow> (b @ segment, fin)))"

definition render :: "string \<Rightarrow> (string \<rightharpoonup> string) \<Rightarrow> string" where
  "render tmpl vars =
     (let ms = find_all_tokens tmpl in
      if length ms = 0 then trim_space (collapse_spaces tmpl)
      else let (b, pos) = fold (render_step tmpl vars) ms ('''', 0) in
           trim_space (collapse_spaces (b @ drop pos tmpl)))"

text \<open>The names in order of first appearance.\<close>

definition extract_variables :: "string \<Rightarrow> string list" where
  "extract_variables tmpl =
     snd (fold (\<lambda>(_, _, key) (seen, out).
            if key \<notin> seen then (insert key seen, out @ [key]) else (seen, out))
          (find_all_tokens tmpl) ({}, []))"

section \<open>What rendering depends on\<close>

lemma extract_fold:
  assumes "distinct out" "seen = set out"
    and "r = fold (\<lambda>(_, _, key) (seen, out).
            if key \<notin> seen then (insert key seen, out @ [key]) else (seen, out)) ms (seen, out)"
  shows "distinct (snd r) \<and> set (snd r) = set out \<union> (\<lambda>(_, _, key). key) ` set ms"
  using assms
proof (induction ms arbitrary: seen out)
  case (Cons m ms)
  obtain i j key where m: "m = (i, j, key)" by (cases m)
  show ?case
  proof (cases "key \<in> set out")
    case True
    then show ?thesis using Cons.IH [of out seen] Cons.prems m by auto
  next
    case False
    then show ?thesis using Cons.IH [of "out @ [key]" "insert key seen"] Cons.prems m by auto
  qed
qed simp

lemma extract_variables_set:
  "distinct (extract_variables tmpl) \<and>
   set (extract_variables tmpl) = (\<lambda>(_, _, key). key) ` set (find_all_tokens tmpl)"
  using extract_fold [of "[]" "{}" _ "find_all_tokens tmpl", OF _ _ refl]
  by (simp add: extract_variables_def)

text \<open>
  The variable list the code caches for a template has no repetition and is complete: two
  sets of values that agree, up to surrounding white space, on the listed names render the same
  message, whatever else they contain.
\<close>

theorem render_needs_only_extracted:
  assumes "\<forall>key \<in> set (extract_variables tmpl).
      trim_space (var_value vars key) = trim_space (var_value vars' key)"
  shows "distinct (extract_variables tmpl) \<and> render tmpl vars = render tmpl vars'"
proof -
  have "fold (render_step tmpl vars) ms acc = fold (render_step tmpl vars') ms acc"
    if "set ms \<subseteq> set (find_all_tokens tmpl)" for ms acc
    using that
  proof (induction ms arbitrary: acc)
    case (Cons m ms)
    obtain i j key where m: "m = (i, j, key)" by (cases m)
    with Cons.prems have "key \<in> set (extract_variables tmpl)"
      by (force simp: extract_variables_set)
    with assms m have "render_step tmpl vars m acc = render_step tmpl vars' m acc"
      by (simp add: render_step_def)
    then show ?case using Cons by simp
  qed simp
  from this [of "find_all_tokens tmpl"] show ?thesis
    by (simp add: render_def extract_variables_set Let_def)
qed

lemma render_needs_only_extracted_witness:
  "extract_variables ''Hi, {{name}}!'' = [''name''] \<and>
   render ''Hi, {{name}}!'' [''name'' \<mapsto> '' Ann '', ''city'' \<mapsto> ''Almaty'']
     = render ''Hi, {{name}}!'' [''name'' \<mapsto> ''Ann'']"
proof -
  have v: "extract_variables ''Hi, {{name}}!'' = [''name'']" by code_simp
  have t: "trim_space '' Ann '' = trim_space ''Ann''" by code_simp
  show ?thesis using v t
      render_needs_only_extracted [of "''Hi, {{name}}!''"
        "[''name'' \<mapsto> '' Ann '', ''city'' \<mapsto> ''Almaty'']" "[''name'' \<mapsto> ''Ann'']"]
    by (simp add: var_value_def)
qed

section \<open>The shape of a rendered message\<close>

lemma collapse_hd: "collapse_spaces (c # s) = c # tl (collapse_spaces (c # s))"
  by (induction "c # s" arbitrary: c s rule: collapse_spaces.induct) auto

lemma collapse_no_double: "\<not> sublist ''  '' (collapse_spaces s)"
proof (induction s rule: collapse_spaces.induct)
  case (3 c d s)
  show ?case
  proof (cases "c = CHR 0x20 \<and> d = CHR 0x20")
    case True
    then show ?thesis using 3 by simp
  next
    case False
    obtain t where t: "collapse_spaces (d # s) = d # t" using collapse_hd [of d s] by blast
    show ?thesis using False 3 by (auto simp: sublist_Cons_right t)
  qed
qed (auto simp: sublist_Cons_right)

lemma trim_left_fixed: "space_prefix (trim_left s) = 0"
  by (induction s rule: trim_left.induct) (subst trim_left.simps, simp)

lemma trim_right_fixed: "space_suffix (trim_right s) = 0"
  by (induction s rule: trim_right.induct) (subst trim_right.simps, simp)

lemma space_prefix_0: "space_prefix s = 0 \<longleftrightarrow> (\<forall>w \<in> set space_runes. \<not> prefix w s)"
proof -
  have ne: "[] \<notin> set space_runes" by (simp add: space_runes_def)
  show ?thesis
  proof (cases "find (\<lambda>w. prefix w s) space_runes")
    case None
    moreover from None have "\<forall>w \<in> set space_runes. \<not> prefix w s"
      unfolding find_None_iff by blast
    ultimately show ?thesis by (simp add: space_prefix_def)
  next
    case (Some w)
    then have "w \<in> set space_runes" "prefix w s" by (auto simp: find_Some_iff)
    with Some ne show ?thesis by (auto simp: space_prefix_def)
  qed
qed

lemma space_prefix_mono: "prefix t s \<Longrightarrow> space_prefix s = 0 \<Longrightarrow> space_prefix t = 0"
  unfolding space_prefix_0 using prefix_order.trans by blast

lemma sublist_trim_space: "sublist (trim_space s) s"
  unfolding trim_space_def
  by (meson trim_left_suffix trim_right_prefix sublist_order.order.trans suffix_imp_sublist
      prefix_imp_sublist)

text \<open>
  A rendered message never contains two consecutive spaces and neither begins nor ends with
  white space, whatever the template and the values are.
\<close>

theorem render_is_tidy:
  "\<not> contains_str (render tmpl vars) ''  '' \<and>
   space_prefix (render tmpl vars) = 0 \<and> space_suffix (render tmpl vars) = 0"
proof -
  obtain s where s: "render tmpl vars = trim_space (collapse_spaces s)"
    by (cases "find_all_tokens tmpl = []";
        cases "fold (render_step tmpl vars) (find_all_tokens tmpl) ([], 0)")
      (simp_all add: render_def Let_def)
  have "\<not> sublist ''  '' (trim_space (collapse_spaces s))"
    using collapse_no_double sublist_trim_space sublist_order.order.trans by blast
  moreover have "space_prefix (trim_space t) = 0" "space_suffix (trim_space t) = 0" for t
    unfolding trim_space_def
    by (rule space_prefix_mono [OF trim_right_prefix trim_left_fixed], rule trim_right_fixed)
  ultimately show ?thesis by (simp add: s contains_str_iff)
qed

end
