(* ===== verification/Campaign_Store.thy ===== *)
theory Campaign_Store
  imports Campaign_Forecast Campaign_Render "HOL-Library.Product_Lexorder" "HOL-Library.Option_ord"
begin

text \<open>
  The campaign tables of \<open>backend/internal/store/campaigns.go\<close> and the operations that read and
  write them. A table is the list of its rows; a method is a function from the database to its
  result and the database it leaves, and a method that returns an error leaves the database as it
  was (its transaction rolls back). \<open>time.Now()\<close>, \<open>uuid.New()\<close> and \<open>rand.Intn\<close> are arguments.
  The \<open>CHECK\<close>, \<open>UNIQUE\<close> and \<open>REFERENCES .. ON DELETE CASCADE\<close> clauses of
  \<open>migrations/20261006000005_campaigns_automation.sql\<close> are part of the model.
\<close>

section \<open>Rows\<close>

text \<open>
  Variables, attributes and event details are columns of JSON text that \<open>json.Marshal\<close> wrote and
  \<open>json.Unmarshal\<close> reads back; the model keeps the value.
\<close>

record campaign =
  c_id :: uuid
  c_org :: uuid
  c_name :: string
  c_account :: uuid
  c_channel :: string
  c_status :: status
  c_body :: string
  c_variables :: "string list"
  c_interval :: "int option"
  c_jitter :: "int option"
  c_schedule :: "gotime option"
  c_started :: "gotime option"
  c_creator :: uuid
  c_created :: gotime
  c_updated :: gotime

record recipient =
  r_id :: uuid
  r_campaign :: uuid
  r_identity :: string
  r_raw :: string
  r_name :: string
  r_attributes :: "string \<Rightarrow> string option"
  r_status :: recipient_status
  r_reason :: string
  r_attempts :: int
  r_next :: "gotime option"
  r_chat :: "uuid option"
  r_message :: "uuid option"
  r_created :: gotime
  r_updated :: gotime

datatype outcome = OutcomeSent | OutcomeFailed
datatype origin = OriginCampaign | OriginManual | OriginAI

record log_row =
  l_id :: uuid
  l_account :: uuid
  l_campaign :: uuid
  l_recipient :: uuid
  l_at :: gotime
  l_outcome :: outcome
  l_origin :: origin

record event_row =
  e_id :: uuid
  e_campaign :: uuid
  e_event :: string
  e_actor :: "uuid option"
  e_detail :: "(string \<times> string) list"
  e_at :: gotime

record window_row =
  w_id :: uuid
  w_owner :: uuid
  w_window :: window

record account_settings =
  s_account :: uuid
  s_limit_mode :: string
  s_interval :: int
  s_jitter :: int
  s_paused :: bool
  s_updated :: gotime

record limit_row =
  k_account :: uuid
  k_tier :: tier

record db =
  campaigns :: "campaign list"
  recipients :: "recipient list"
  send_log :: "log_row list"
  events :: "event_row list"
  campaign_windows :: "window_row list"
  account_windows :: "window_row list"
  account_settings_rows :: "account_settings list"
  account_limits :: "limit_row list"
  last_event_stamp :: gotime

datatype store_error = ErrNotFound | ErrInvalidTransition | ErrCampaignHasSends | ErrConstraint

section \<open>The tables' CHECK constraints\<close>

definition channels :: "string list" where
  "channels = [ChannelWhatsApp, ChannelSimulator, ChannelTelegram, ChannelInstagram,
     ChannelMessenger, ChannelWhatsAppCloud]"

definition campaign_check :: "campaign \<Rightarrow> bool" where
  "campaign_check c \<longleftrightarrow> c_channel c \<in> set channels \<and>
     (case c_interval c of None \<Rightarrow> True | Some i \<Rightarrow> i > 0) \<and>
     (case c_jitter c of None \<Rightarrow> True | Some j \<Rightarrow> j \<ge> 0) \<and>
     (c_interval c = None) = (c_jitter c = None)"

definition window_check :: "window \<Rightarrow> bool" where
  "window_check w \<longleftrightarrow> 0 \<le> weekday w \<and> weekday w \<le> 6 \<and>
     0 \<le> start_minute w \<and> start_minute w \<le> 1439 \<and>
     1 \<le> end_minute w \<and> end_minute w \<le> 1440 \<and> end_minute w \<noteq> start_minute w"

definition settings_check :: "account_settings \<Rightarrow> bool" where
  "settings_check s \<longleftrightarrow> s_limit_mode s \<in> {''default'', ''custom''} \<and> s_interval s > 0 \<and> s_jitter s \<ge> 0"

definition tier_check :: "tier \<Rightarrow> bool" where
  "tier_check t \<longleftrightarrow> window_seconds t > 0 \<and> max_sends t > 0"

section \<open>Campaigns\<close>

definition campaign_by_id :: "db \<Rightarrow> uuid \<Rightarrow> store_error + campaign" where
  "campaign_by_id st i =
     (case find_by c_id i (campaigns st) of None \<Rightarrow> Inl ErrNotFound | Some c \<Rightarrow> Inr c)"

definition campaign_by_id_for_org :: "db \<Rightarrow> uuid \<Rightarrow> uuid \<Rightarrow> store_error + campaign" where
  "campaign_by_id_for_org st i org =
     (case find (\<lambda>c. c_id c = i \<and> c_org c = org) (campaigns st) of
        None \<Rightarrow> Inl ErrNotFound | Some c \<Rightarrow> Inr c)"

text \<open>The columns the statement does not name take their defaults.\<close>

definition create_campaign ::
  "campaign \<Rightarrow> uuid \<Rightarrow> gotime \<Rightarrow> db \<Rightarrow> store_error + campaign \<times> db" where
  "create_campaign c new_id now st =
     (let row = \<lparr>c_id = new_id, c_org = c_org c, c_name = c_name c, c_account = c_account c,
                 c_channel = c_channel c, c_status = StatusDraft, c_body = c_body c,
                 c_variables = extract_variables (c_body c), c_interval = None, c_jitter = None,
                 c_schedule = None, c_started = None, c_creator = c_creator c,
                 c_created = db_time now, c_updated = db_time now\<rparr> in
      if campaign_check row \<and> new_id \<notin> c_id ` set (campaigns st)
      then Inr (row, st\<lparr>campaigns := campaigns st @ [row]\<rparr>)
      else Inl ErrConstraint)"

definition delete_campaign :: "uuid \<Rightarrow> db \<Rightarrow> store_error + db" where
  "delete_campaign i st =
     (let sends = length (filter (\<lambda>l. l_campaign l = i) (send_log st)) in
      if sends > 0 then Inl ErrCampaignHasSends
      else if affected (\<lambda>c. c_id c = i) (campaigns st) = 0 then Inl ErrNotFound
      else
        let gone = r_id ` set (filter (\<lambda>r. r_campaign r = i) (recipients st)) in
        Inr (st\<lparr>campaigns := filter (\<lambda>c. c_id c \<noteq> i) (campaigns st),
                recipients := filter (\<lambda>r. r_campaign r \<noteq> i) (recipients st),
                campaign_windows := filter (\<lambda>w. w_owner w \<noteq> i) (campaign_windows st),
                events := filter (\<lambda>e. e_campaign e \<noteq> i) (events st),
                send_log := filter (\<lambda>l. l_campaign l \<noteq> i \<and> l_recipient l \<notin> gone) (send_log st)\<rparr>))"

definition list_campaigns_for_org :: "db \<Rightarrow> uuid \<Rightarrow> nat \<Rightarrow> nat \<Rightarrow> campaign list \<times> nat" where
  "list_campaigns_for_org st org lim off =
     (let mine = filter (\<lambda>c. c_org c = org) (campaigns st) in
      (take lim (drop off (sort_key (\<lambda>c. (- c_created c, c_id c)) mine)), length mine))"

record campaign_patch =
  p_name :: "string option"
  p_body :: "string option"
  p_account :: "uuid option"
  p_channel :: "string option"
  p_has_pace :: bool
  p_interval :: "int option"
  p_jitter :: "int option"
  p_has_schedule :: bool
  p_schedule :: "gotime option"
  p_has_windows :: bool
  p_windows :: "window list"

definition patch_opt :: "'a option \<Rightarrow> 'a \<Rightarrow> 'a" where
  "patch_opt new old = (case new of None \<Rightarrow> old | Some v \<Rightarrow> v)"

definition apply_patch :: "campaign_patch \<Rightarrow> gotime \<Rightarrow> campaign \<Rightarrow> campaign" where
  "apply_patch p now c = c\<lparr>
     c_name := patch_opt (p_name p) (c_name c),
     c_body := patch_opt (p_body p) (c_body c),
     c_variables := (case p_body p of None \<Rightarrow> c_variables c | Some b \<Rightarrow> extract_variables b),
     c_account := patch_opt (p_account p) (c_account c),
     c_channel := patch_opt (p_channel p) (c_channel c),
     c_interval := (if p_has_pace p then p_interval p else c_interval c),
     c_jitter := (if p_has_pace p then p_jitter p else c_jitter c),
     c_schedule := (if p_has_schedule p then map_option db_time (p_schedule p) else c_schedule c),
     c_updated := db_time now\<rparr>"

text \<open>\<open>fresh n\<close> is what the method's \<open>n\<close>-th call of \<open>uuid.New()\<close> returns.\<close>

definition window_rows :: "(nat \<Rightarrow> uuid) \<Rightarrow> uuid \<Rightarrow> window list \<Rightarrow> window_row list" where
  "window_rows fresh owner ws =
     map (\<lambda>(i, w). \<lparr>w_id = fresh i, w_owner = owner, w_window = w\<rparr>) (enumerate 0 ws)"

definition replace_campaign_windows ::
  "(nat \<Rightarrow> uuid) \<Rightarrow> uuid \<Rightarrow> window list \<Rightarrow> db \<Rightarrow> store_error + db" where
  "replace_campaign_windows fresh i ws st =
     (if list_all window_check ws
      then Inr (st\<lparr>campaign_windows :=
             filter (\<lambda>w. w_owner w \<noteq> i) (campaign_windows st) @ window_rows fresh i ws\<rparr>)
      else Inl ErrConstraint)"

definition update_campaign ::
  "(nat \<Rightarrow> uuid) \<Rightarrow> uuid \<Rightarrow> campaign_patch \<Rightarrow> gotime \<Rightarrow> db \<Rightarrow> store_error + campaign \<times> db" where
  "update_campaign fresh i p now st =
     (case find_by c_id i (campaigns st) of
        None \<Rightarrow> Inl ErrNotFound
      | Some c \<Rightarrow>
          let row = apply_patch p now c;
              st1 = st\<lparr>campaigns := update_where (\<lambda>c. c_id c = i) (apply_patch p now) (campaigns st)\<rparr> in
          if \<not> campaign_check row then Inl ErrConstraint
          else if p_has_windows p
          then bindE (replace_campaign_windows fresh i (p_windows p) st1) (\<lambda>st2. Inr (row, st2))
          else Inr (row, st1))"

section \<open>Events\<close>

text \<open>
  \<open>eventStamp\<close>: the current millisecond, or the one after the last stamp it gave out. The
  compare-and-swap makes the calls of concurrent goroutines a sequence of such steps.
\<close>

definition event_stamp :: "gotime \<Rightarrow> gotime \<Rightarrow> gotime" where
  "event_stamp now prev = (if db_time now \<le> prev then prev + 1000000 else db_time now)"

definition insert_campaign_event ::
  "uuid \<Rightarrow> uuid \<Rightarrow> string \<Rightarrow> uuid option \<Rightarrow> (string \<times> string) list \<Rightarrow> gotime \<Rightarrow> db \<Rightarrow> store_error + db" where
  "insert_campaign_event new_id i event actor detail now st =
     (let at = event_stamp now (last_event_stamp st) in
      if i \<notin> c_id ` set (campaigns st) then Inl ErrConstraint
      else Inr (st\<lparr>events := events st @
             [\<lparr>e_id = new_id, e_campaign = i, e_event = event, e_actor = actor, e_detail = detail,
               e_at = at\<rparr>], last_event_stamp := at\<rparr>))"

definition list_campaign_events :: "db \<Rightarrow> uuid \<Rightarrow> nat \<Rightarrow> nat \<Rightarrow> event_row list \<times> nat" where
  "list_campaign_events st i lim off =
     (let mine = filter (\<lambda>e. e_campaign e = i) (events st) in
      (take lim (drop off (sort_key (\<lambda>e. (- e_at e, e_id e)) mine)), length mine))"

definition set_status_row :: "status \<Rightarrow> gotime \<Rightarrow> campaign \<Rightarrow> campaign" where
  "set_status_row to now c =
     (let c' = c\<lparr>c_status := to, c_updated := db_time now\<rparr> in
      if to = StatusRunning
      then c'\<lparr>c_started := (case c_started c of None \<Rightarrow> Some (db_time now) | Some t \<Rightarrow> Some t)\<rparr>
      else c')"

definition set_campaign_status ::
  "uuid \<Rightarrow> uuid \<Rightarrow> status \<Rightarrow> uuid option \<Rightarrow> string \<Rightarrow> (string \<times> string) list \<Rightarrow> gotime \<Rightarrow> db
     \<Rightarrow> store_error + campaign \<times> db" where
  "set_campaign_status new_id i to actor event detail now st =
     (case find_by c_id i (campaigns st) of
        None \<Rightarrow> Inl ErrNotFound
      | Some c \<Rightarrow>
          if \<not> can_transition (c_status c) to then Inl ErrInvalidTransition
          else bindE (insert_campaign_event new_id i event actor detail now
                 (st\<lparr>campaigns := update_where (\<lambda>c. c_id c = i) (set_status_row to now) (campaigns st)\<rparr>))
               (\<lambda>st'. Inr (set_status_row to now c, st')))"

text \<open>\<open>SELECT id FROM campaigns WHERE account_id = .. AND status = 'running'\<close>, and the pauses.\<close>

definition running_on :: "db \<Rightarrow> uuid \<Rightarrow> uuid list" where
  "running_on st account =
     map c_id (filter (\<lambda>c. c_account c = account \<and> c_status c = StatusRunning) (campaigns st))"

definition pause_row :: "gotime \<Rightarrow> campaign \<Rightarrow> campaign" where
  "pause_row now c = c\<lparr>c_status := StatusPaused, c_updated := db_time now\<rparr>"

definition auto_pause_one ::
  "(nat \<Rightarrow> uuid) \<Rightarrow> string \<Rightarrow> gotime \<Rightarrow> nat \<times> uuid \<Rightarrow> db \<Rightarrow> store_error + db" where
  "auto_pause_one fresh why now p st =
     insert_campaign_event (fresh (fst p)) (snd p) ''auto_paused'' None [(''reason'', why)] now
       (st\<lparr>campaigns := update_where (\<lambda>c. c_id c = snd p) (pause_row now) (campaigns st)\<rparr>)"

definition auto_pause_campaigns_for_account ::
  "(nat \<Rightarrow> uuid) \<Rightarrow> uuid \<Rightarrow> string \<Rightarrow> gotime \<Rightarrow> db \<Rightarrow> store_error + nat \<times> db" where
  "auto_pause_campaigns_for_account fresh account why now st =
     (let ids = running_on st account in
      bindE (foldE (auto_pause_one fresh why now) (enumerate 0 ids) st) (\<lambda>st'. Inr (length ids, st')))"

definition list_running_campaign_accounts :: "db \<Rightarrow> uuid list" where
  "list_running_campaign_accounts st =
     remdups (map c_account (filter (\<lambda>c. c_status c = StatusRunning) (campaigns st)))"

definition running_campaign_ids :: "db \<Rightarrow> uuid list" where
  "running_campaign_ids st = map c_id (filter (\<lambda>c. c_status c = StatusRunning) (campaigns st))"

definition due_scheduled_campaigns :: "db \<Rightarrow> gotime \<Rightarrow> uuid list" where
  "due_scheduled_campaigns st now =
     map c_id (filter (\<lambda>c. c_status c = StatusScheduled \<and>
       (case c_schedule c of None \<Rightarrow> False | Some at \<Rightarrow> at \<le> db_time now)) (campaigns st))"

end
