(* ===== verification/Campaign_Roster.thy ===== *)
theory Campaign_Roster
  imports Campaign_Store
begin

text \<open>
  The recipients of a campaign and the pacing of an account, the second group of methods of
  \<open>backend/internal/store/campaigns.go\<close>: replacing, duplicating, retrying and suppressing
  recipients, the account's settings, tiers and windows, and the live sending budget.
\<close>

section \<open>Recipients\<close>

record recipient_input =
  i_identity :: string
  i_raw :: string
  i_name :: string
  i_attributes :: "string \<Rightarrow> string option"

text \<open>The identities in order of first appearance, each with its last row.\<close>

definition dedup_step ::
  "recipient_input \<Rightarrow> (string \<Rightarrow> recipient_input option) \<times> string list
     \<Rightarrow> (string \<Rightarrow> recipient_input option) \<times> string list" where
  "dedup_step r acc =
     (case acc of (deduped, order) \<Rightarrow>
        (deduped(i_identity r \<mapsto> r),
         if deduped (i_identity r) = None then order @ [i_identity r] else order))"

definition dedup_inputs ::
  "recipient_input list \<Rightarrow> (string \<Rightarrow> recipient_input option) \<times> string list" where
  "dedup_inputs rs = fold dedup_step rs (Map.empty, [])"

definition row_stamp :: "gotime \<Rightarrow> nat \<Rightarrow> gotime" where
  "row_stamp base i = base + int i * 1000000"

definition new_recipient ::
  "uuid \<Rightarrow> uuid \<Rightarrow> recipient_input \<Rightarrow> gotime \<Rightarrow> recipient" where
  "new_recipient i campaign inp at =
     \<lparr>r_id = i, r_campaign = campaign, r_identity = i_identity inp, r_raw = i_raw inp,
      r_name = i_name inp, r_attributes = i_attributes inp, r_status = RecipientPending,
      r_reason = '''', r_attempts = 0, r_next = None, r_chat = None, r_message = None,
      r_created = db_time at, r_updated = db_time at\<rparr>"

definition refresh_recipient :: "recipient_input \<Rightarrow> gotime \<Rightarrow> recipient \<Rightarrow> recipient" where
  "refresh_recipient inp at r = r\<lparr>r_raw := i_raw inp, r_name := i_name inp,
     r_attributes := i_attributes inp, r_updated := db_time at\<rparr>"

text \<open>\<open>INSERT .. ON CONFLICT (campaign_id, normalized_identity) DO UPDATE .. WHERE status = 'pending'\<close>.\<close>

definition upsert_recipient ::
  "uuid \<Rightarrow> uuid \<Rightarrow> recipient_input \<Rightarrow> gotime \<Rightarrow> recipient list \<Rightarrow> recipient list" where
  "upsert_recipient i campaign inp at rs =
     (if list_ex (\<lambda>r. r_campaign r = campaign \<and> r_identity r = i_identity inp) rs
      then update_where (\<lambda>r. r_campaign r = campaign \<and> r_identity r = i_identity inp
                              \<and> r_status r = RecipientPending) (refresh_recipient inp at) rs
      else rs @ [new_recipient i campaign inp at])"

text \<open>
  Deleting a recipient deletes, by the cascade of \<open>campaign_send_log.recipient_id\<close>, its rows of
  the send log.
\<close>

definition delete_recipients :: "(recipient \<Rightarrow> bool) \<Rightarrow> db \<Rightarrow> db" where
  "delete_recipients p st =
     (let gone = r_id ` set (filter p (recipients st)) in
      st\<lparr>recipients := filter (\<lambda>r. \<not> p r) (recipients st),
         send_log := filter (\<lambda>l. l_recipient l \<notin> gone) (send_log st)\<rparr>)"

definition stale_recipient ::
  "uuid \<Rightarrow> (string \<Rightarrow> recipient_input option) \<Rightarrow> recipient \<Rightarrow> bool" where
  "stale_recipient campaign deduped r \<longleftrightarrow>
     r_campaign r = campaign \<and> r_status r = RecipientPending \<and> deduped (r_identity r) = None"

definition upsert_all ::
  "(nat \<Rightarrow> uuid) \<Rightarrow> uuid \<Rightarrow> (string \<Rightarrow> recipient_input option) \<Rightarrow> gotime
     \<Rightarrow> (nat \<times> string) list \<Rightarrow> recipient list \<Rightarrow> recipient list" where
  "upsert_all fresh campaign deduped now =
     fold (\<lambda>(i, identity) rs. case deduped identity of
             None \<Rightarrow> rs
           | Some inp \<Rightarrow> upsert_recipient (fresh i) campaign inp (row_stamp now i) rs)"

definition replace_campaign_recipients ::
  "(nat \<Rightarrow> uuid) \<Rightarrow> uuid \<Rightarrow> recipient_input list \<Rightarrow> gotime \<Rightarrow> db \<Rightarrow> store_error + db" where
  "replace_campaign_recipients fresh campaign inputs now st =
     (let (deduped, order) = dedup_inputs inputs;
          st1 = delete_recipients (stale_recipient campaign deduped) st in
      if order \<noteq> [] \<and> campaign \<notin> c_id ` set (campaigns st) then Inl ErrConstraint
      else Inr (st1\<lparr>recipients :=
             upsert_all fresh campaign deduped now (enumerate 0 order) (recipients st1)\<rparr>))"

text \<open>
  \<open>delivery\<close> is the channel's message table, which the query joins for the delivery state of the
  recipient's message.
\<close>

definition list_campaign_recipients ::
  "(uuid \<Rightarrow> string option) \<Rightarrow> db \<Rightarrow> uuid \<Rightarrow> recipient_status option \<Rightarrow> nat \<Rightarrow> nat
     \<Rightarrow> (recipient \<times> string) list \<times> nat" where
  "list_campaign_recipients delivery st campaign want lim off =
     (let mine = filter (\<lambda>r. r_campaign r = campaign \<and> (want = None \<or> want = Some (r_status r)))
            (recipients st);
          state_of = (\<lambda>r. case r_message r of
                None \<Rightarrow> '''' | Some m \<Rightarrow> (case delivery m of None \<Rightarrow> '''' | Some s \<Rightarrow> s)) in
      (map (\<lambda>r. (r, state_of r)) (take lim (drop off (sort_key (\<lambda>r. (r_created r, r_id r)) mine))),
       length mine))"

definition campaign_recipient_counts :: "db \<Rightarrow> uuid \<Rightarrow> recipient_status \<Rightarrow> nat" where
  "campaign_recipient_counts st campaign s =
     affected (\<lambda>r. r_campaign r = campaign \<and> r_status r = s) (recipients st)"

definition retry_row :: "gotime \<Rightarrow> recipient \<Rightarrow> recipient" where
  "retry_row now r = r\<lparr>r_status := RecipientPending, r_reason := '''', r_attempts := 0, r_next := None,
     r_updated := db_time now\<rparr>"

text \<open>An empty list of ids selects every failed recipient of the campaign.\<close>

definition retry_selected :: "uuid \<Rightarrow> uuid list \<Rightarrow> recipient \<Rightarrow> bool" where
  "retry_selected campaign ids r \<longleftrightarrow>
     r_campaign r = campaign \<and> r_status r = RecipientFailed \<and> (ids = [] \<or> r_id r \<in> set ids)"

definition retry_failed_recipients :: "uuid \<Rightarrow> uuid list \<Rightarrow> gotime \<Rightarrow> db \<Rightarrow> nat \<times> db" where
  "retry_failed_recipients campaign ids now st =
     (affected (retry_selected campaign ids) (recipients st),
      st\<lparr>recipients := update_where (retry_selected campaign ids) (retry_row now) (recipients st)\<rparr>)"

definition skip_row :: "string \<Rightarrow> gotime \<Rightarrow> recipient \<Rightarrow> recipient" where
  "skip_row why now r =
     r\<lparr>r_status := RecipientSkipped, r_reason := why, r_updated := db_time now\<rparr>"

definition suppressed_by :: "db \<Rightarrow> uuid \<Rightarrow> string \<Rightarrow> recipient \<Rightarrow> bool" where
  "suppressed_by st account identity r \<longleftrightarrow>
     r_status r = RecipientPending \<and> r_identity r = identity \<and>
     r_campaign r \<in> set (running_on st account)"

definition suppress_pending_for_identity ::
  "uuid \<Rightarrow> string \<Rightarrow> string \<Rightarrow> gotime \<Rightarrow> db \<Rightarrow> nat \<times> db" where
  "suppress_pending_for_identity account identity why now st =
     (affected (suppressed_by st account identity) (recipients st),
      st\<lparr>recipients :=
           update_where (suppressed_by st account identity) (skip_row why now) (recipients st)\<rparr>)"

section \<open>Duplicating a campaign\<close>

definition copy_name :: "string \<Rightarrow> string" where
  "copy_name n = n @ '' (copy)''"

definition input_of :: "recipient \<Rightarrow> recipient_input" where
  "input_of r = \<lparr>i_identity = r_identity r, i_raw = r_raw r, i_name = r_name r,
     i_attributes = r_attributes r\<rparr>"

definition never_contacted :: "uuid \<Rightarrow> recipient list \<Rightarrow> recipient list" where
  "never_contacted campaign rs =
     sort_key (\<lambda>r. (r_created r, r_id r))
       (filter (\<lambda>r. r_campaign r = campaign \<and>
          (r_status r = RecipientPending \<or> r_status r = RecipientFailed)) rs)"

definition windows_of :: "uuid \<Rightarrow> window_row list \<Rightarrow> window list" where
  "windows_of owner ws = map w_window (filter (\<lambda>w. w_owner w = owner) ws)"

definition duplicate_campaign ::
  "(nat \<Rightarrow> uuid) \<Rightarrow> uuid \<Rightarrow> uuid \<Rightarrow> gotime \<Rightarrow> db \<Rightarrow> store_error + campaign \<times> db" where
  "duplicate_campaign fresh src_id actor now st =
     (case find_by c_id src_id (campaigns st) of
        None \<Rightarrow> Inl ErrNotFound
      | Some src \<Rightarrow>
          let row = src\<lparr>c_id := fresh 0, c_name := copy_name (c_name src), c_status := StatusDraft,
                        c_schedule := None, c_started := None, c_creator := actor,
                        c_created := db_time now, c_updated := db_time now\<rparr>;
              ws = windows_of src_id (campaign_windows st);
              copies = never_contacted src_id (recipients st);
              nw = length ws; nr = length copies in
          if \<not> campaign_check row \<or> fresh 0 \<in> c_id ` set (campaigns st) then Inl ErrConstraint
          else bindE (insert_campaign_event (fresh (1 + nw + nr)) (fresh 0) ''duplicated'' (Some actor)
                 [(''source_campaign_id'', nat_text src_id)] now
                 (st\<lparr>campaigns := campaigns st @ [row],
                     campaign_windows :=
                       campaign_windows st @ window_rows (\<lambda>i. fresh (1 + i)) (fresh 0) ws,
                     recipients := recipients st @
                       map (\<lambda>(i, r). new_recipient (fresh (1 + nw + i)) (fresh 0) (input_of r)
                              (row_stamp now i)) (enumerate 0 copies)\<rparr>))
               (\<lambda>st'. Inr (row, st')))"

section \<open>Pace, tiers and windows of an account\<close>

definition default_campaign_account_settings :: "uuid \<Rightarrow> string \<Rightarrow> account_settings" where
  "default_campaign_account_settings account channel =
     (let (interval, jitter) = default_pacing_for channel in
      \<lparr>s_account = account, s_limit_mode = ''default'', s_interval = interval, s_jitter = jitter,
       s_paused = False, s_updated = zero_time\<rparr>)"

definition campaign_account_settings :: "db \<Rightarrow> uuid \<Rightarrow> string \<Rightarrow> account_settings" where
  "campaign_account_settings st account channel =
     (case find_by s_account account (account_settings_rows st) of
        None \<Rightarrow> default_campaign_account_settings account channel
      | Some s \<Rightarrow> s)"

definition tiers_of :: "uuid \<Rightarrow> limit_row list \<Rightarrow> tier list" where
  "tiers_of account ls = map k_tier (filter (\<lambda>k. k_account k = account) ls)"

definition campaign_account_limits :: "db \<Rightarrow> uuid \<Rightarrow> string \<Rightarrow> tier list" where
  "campaign_account_limits st account channel =
     (let out = sort_key window_seconds (tiers_of account (account_limits st)) in
      if length out = 0 then default_tiers_for channel else out)"

record settings_input =
  in_limit_mode :: string
  in_interval :: int
  in_jitter :: int
  in_paused :: bool

definition settings_row :: "uuid \<Rightarrow> settings_input \<Rightarrow> gotime \<Rightarrow> account_settings" where
  "settings_row account s now =
     \<lparr>s_account = account, s_limit_mode = in_limit_mode s, s_interval = in_interval s,
      s_jitter = in_jitter s, s_paused = in_paused s, s_updated = db_time now\<rparr>"

text \<open>Settings, tiers and windows in one transaction, each a complete replacement.\<close>

definition set_campaign_account_limits ::
  "(nat \<Rightarrow> uuid) \<Rightarrow> uuid \<Rightarrow> settings_input \<Rightarrow> tier list \<Rightarrow> window list \<Rightarrow> gotime \<Rightarrow> db
     \<Rightarrow> store_error + (account_settings \<times> tier list \<times> window list) \<times> db" where
  "set_campaign_account_limits fresh account s tiers ws now st =
     (let row = settings_row account s now in
      if \<not> settings_check row then Inl ErrConstraint
      else if \<not> list_all tier_check tiers \<or> \<not> distinct (map window_seconds tiers) then Inl ErrConstraint
      else if \<not> list_all window_check ws then Inl ErrConstraint
      else Inr ((row, tiers, ws),
        st\<lparr>account_settings_rows :=
             (if list_ex (\<lambda>r. s_account r = account) (account_settings_rows st)
              then update_where (\<lambda>r. s_account r = account) (\<lambda>_. row) (account_settings_rows st)
              else account_settings_rows st @ [row]),
           account_limits := filter (\<lambda>k. k_account k \<noteq> account) (account_limits st)
             @ map (\<lambda>t. \<lparr>k_account = account, k_tier = t\<rparr>) tiers,
           account_windows := filter (\<lambda>w. w_owner w \<noteq> account) (account_windows st)
             @ window_rows fresh account ws\<rparr>))"

text \<open>The source dereferences \<open>jitter\<close> whenever \<open>interval\<close> is set: a null pointer would panic.\<close>

datatype pace = NoRow | NoOverride | Override int int | NilPanic

definition campaign_pace_override :: "db \<Rightarrow> uuid \<Rightarrow> pace" where
  "campaign_pace_override st i =
     (case find_by c_id i (campaigns st) of
        None \<Rightarrow> NoRow
      | Some c \<Rightarrow> (case (c_interval c, c_jitter c) of
            (None, _) \<Rightarrow> NoOverride
          | (Some iv, Some jt) \<Rightarrow> Override iv jt
          | (Some iv, None) \<Rightarrow> NilPanic))"

text \<open>\<open>draw\<close> is what \<open>rand.Intn(2*jitter+1)\<close> returns: \<open>0 \<le> draw \<le> 2*jitter\<close>.\<close>

definition jittered_seconds :: "int \<Rightarrow> int \<Rightarrow> int \<Rightarrow> int" where
  "jittered_seconds base jitter draw =
     (if jitter \<le> 0 then base
      else let delta = draw - jitter in
           if base + delta < 0 then 0 else base + delta)"

definition campaign_send_attempts ::
  "db \<Rightarrow> uuid \<Rightarrow> tier list \<Rightarrow> duration \<Rightarrow> gotime \<Rightarrow> gotime list" where
  "campaign_send_attempts st account tiers min_interval now =
     (let max_window_seconds = fold (\<lambda>t m. if window_seconds t > m then window_seconds t else m) tiers 0;
          lookback0 = seconds max_window_seconds;
          lookback = (if min_interval > lookback0 then min_interval else lookback0);
          cutoff = now - lookback in
      sort (map l_at (filter (\<lambda>l. l_account l = account \<and> l_origin l = OriginCampaign
                                   \<and> l_at l > db_time cutoff) (send_log st))))"

record budget_report =
  b_tiers :: "(tier \<times> nat) list"
  b_interval :: int
  b_jitter :: int
  b_paused :: bool
  b_allowed :: bool
  b_throttled_by :: int
  b_next_send :: gotime

definition tier_usage :: "gotime list \<Rightarrow> gotime \<Rightarrow> tier \<Rightarrow> nat" where
  "tier_usage attempts now t = length (filter (\<lambda>a. a > now - seconds (window_seconds t)) attempts)"

definition last_or_zero :: "gotime list \<Rightarrow> gotime" where
  "last_or_zero attempts = (if length attempts > 0 then last attempts else zero_time)"

definition sending_budget :: "db \<Rightarrow> uuid \<Rightarrow> string \<Rightarrow> gotime \<Rightarrow> budget_report" where
  "sending_budget st account channel now =
     (let settings = campaign_account_settings st account channel;
          tiers = campaign_account_limits st account channel;
          aw = windows_of account (account_windows st);
          base_interval = seconds (s_interval settings);
          attempts = campaign_send_attempts st account tiers base_interval now;
          decision = budget tiers attempts base_interval (last_or_zero attempts) now in
      \<lparr>b_tiers = map (\<lambda>t. (t, tier_usage attempts now t)) tiers,
       b_interval = s_interval settings, b_jitter = s_jitter settings, b_paused = s_paused settings,
       b_allowed = (\<not> s_paused settings \<and> allowed decision \<and> windows_ok aw [] now),
       b_throttled_by = throttled_by decision,
       b_next_send = estimate 1 attempts tiers base_interval aw [] now\<rparr>)"

end
