(* ===== verification/Campaign_Claim.thy ===== *)
theory Campaign_Claim
  imports Campaign_Roster
begin

text \<open>
  The at-most-once send path of \<open>backend/internal/store/campaigns.go\<close>: claiming the next
  recipient, finalizing an attempt, reconciling interrupted sends and pruning the send log, with
  what a claim guarantees.
\<close>

section \<open>Operations\<close>

record claim =
  cl_log :: uuid
  cl_recipient :: uuid
  cl_campaign :: uuid
  cl_account :: uuid
  cl_channel :: string
  cl_identity :: string
  cl_name :: string
  cl_attributes :: "string \<Rightarrow> string option"
  cl_body :: string
  cl_attempts :: int

datatype claim_result = Claimed claim | NothingToClaim | ClaimError | ClaimPanic

definition claim_batch :: nat where "claim_batch = 50"

definition account_paused :: "db \<Rightarrow> uuid \<Rightarrow> bool" where
  "account_paused st account =
     (case find_by s_account account (account_settings_rows st) of None \<Rightarrow> False | Some s \<Rightarrow> s_paused s)"

definition eligible :: "uuid \<Rightarrow> gotime \<Rightarrow> recipient \<times> campaign \<Rightarrow> bool" where
  "eligible account now p \<longleftrightarrow>
     (case p of (r, c) \<Rightarrow>
        c_id c = r_campaign r \<and> c_account c = account \<and> c_status c = StatusRunning \<and>
        r_status r = RecipientPending \<and>
        (case r_next r of None \<Rightarrow> True | Some at \<Rightarrow> at \<le> db_time now))"

text \<open>
  The join, ordered by start of the campaign and creation of the recipient. Rows with the same
  key, which SQL may return in any order, come in table order here.
\<close>

definition claim_candidates :: "db \<Rightarrow> uuid \<Rightarrow> gotime \<Rightarrow> (recipient \<times> campaign) list" where
  "claim_candidates st account now =
     take claim_batch (sort_key (\<lambda>(r, c). (c_started c, r_created r))
       (filter (eligible account now) (List.product (recipients st) (campaigns st))))"

definition first_open :: "db \<Rightarrow> uuid \<Rightarrow> gotime \<Rightarrow> (recipient \<times> campaign) list \<Rightarrow> (recipient \<times> campaign) option" where
  "first_open st account now cands =
     (let aw = windows_of account (account_windows st) in
      find (\<lambda>(r, c). windows_ok aw (windows_of (r_campaign r) (campaign_windows st)) now) cands)"

definition sending_row :: "gotime \<Rightarrow> recipient \<Rightarrow> recipient" where
  "sending_row now r = r\<lparr>r_status := RecipientSending, r_attempts := r_attempts r + 1,
     r_updated := db_time now\<rparr>"

definition claimable :: "uuid \<Rightarrow> recipient \<Rightarrow> bool" where
  "claimable i r \<longleftrightarrow> r_id r = i \<and> r_status r = RecipientPending"

text \<open>The base interval and jitter that govern the claim: the campaign's own pair, or the account's.\<close>

definition pace_for :: "db \<Rightarrow> uuid \<Rightarrow> recipient \<times> campaign \<Rightarrow> pace" where
  "pace_for st account p =
     (case campaign_pace_override st (r_campaign (fst p)) of
        NoOverride \<Rightarrow>
          (let s = campaign_account_settings st account (c_channel (snd p)) in
           Override (s_interval s) (s_jitter s))
      | q \<Rightarrow> q)"

text \<open>The verdict of \<open>Budget\<close> for the chosen candidate; the jitter draw is \<open>draw\<close>.\<close>

definition claim_decision ::
  "db \<Rightarrow> uuid \<Rightarrow> recipient \<times> campaign \<Rightarrow> int \<Rightarrow> int \<Rightarrow> int \<Rightarrow> gotime \<Rightarrow> decision" where
  "claim_decision st account p interval jitter draw now =
     (let tiers = campaign_account_limits st account (c_channel (snd p));
          min_interval = seconds (jittered_seconds interval jitter draw);
          lookback_floor = seconds (interval + jitter);
          attempts = campaign_send_attempts st account tiers lookback_floor now in
      budget tiers attempts min_interval (last_or_zero attempts) now)"

definition log_claim :: "uuid \<Rightarrow> uuid \<Rightarrow> recipient \<Rightarrow> gotime \<Rightarrow> log_row" where
  "log_claim log_id account r now =
     \<lparr>l_id = log_id, l_account = account, l_campaign = r_campaign r, l_recipient = r_id r,
      l_at = db_time now, l_outcome = OutcomeFailed, l_origin = OriginCampaign\<rparr>"

definition claim_of :: "uuid \<Rightarrow> uuid \<Rightarrow> recipient \<times> campaign \<Rightarrow> claim" where
  "claim_of log_id account p =
     (case p of (r, c) \<Rightarrow>
       \<lparr>cl_log = log_id, cl_recipient = r_id r, cl_campaign = r_campaign r, cl_account = account,
        cl_channel = c_channel c, cl_identity = r_identity r, cl_name = r_name r,
        cl_attributes = r_attributes r, cl_body = c_body c, cl_attempts = r_attempts r + 1\<rparr>)"

definition claim_next_recipient ::
  "uuid \<Rightarrow> int \<Rightarrow> uuid \<Rightarrow> gotime \<Rightarrow> db \<Rightarrow> claim_result \<times> db" where
  "claim_next_recipient log_id draw account now st =
     (if account_paused st account then (NothingToClaim, st)
      else
        let cands = claim_candidates st account now in
        if length cands = 0 then (NothingToClaim, st)
        else case first_open st account now cands of
          None \<Rightarrow> (NothingToClaim, st)
        | Some p \<Rightarrow>
            (case pace_for st account p of
               NilPanic \<Rightarrow> (ClaimPanic, st)
             | NoRow \<Rightarrow> (ClaimError, st)
             | NoOverride \<Rightarrow> (ClaimError, st)
             | Override interval jitter \<Rightarrow>
                 if \<not> allowed (claim_decision st account p interval jitter draw now)
                 then (NothingToClaim, st)
                 else if log_id \<in> l_id ` set (send_log st) then (ClaimError, st)
                 else
                   let st1 = st\<lparr>send_log := send_log st @ [log_claim log_id account (fst p) now]\<rparr>;
                       n = affected (claimable (r_id (fst p))) (recipients st1);
                       st2 = st1\<lparr>recipients :=
                               update_where (claimable (r_id (fst p))) (sending_row now) (recipients st1)\<rparr> in
                   if n = 0 then (NothingToClaim, st1)
                   else (Claimed (claim_of log_id account p), st2)))"

record finalize_params =
  f_log :: uuid
  f_recipient :: uuid
  f_status :: recipient_status
  f_reason :: string
  f_chat :: "uuid option"
  f_message :: "uuid option"
  f_next :: "gotime option"

definition coalesce :: "'a option \<Rightarrow> 'a option \<Rightarrow> 'a option" where
  "coalesce a b = (case a of None \<Rightarrow> b | Some v \<Rightarrow> Some v)"

definition finalize_row :: "finalize_params \<Rightarrow> gotime \<Rightarrow> recipient \<Rightarrow> recipient" where
  "finalize_row p now r = r\<lparr>r_status := f_status p, r_reason := f_reason p,
     r_chat := coalesce (f_chat p) (r_chat r), r_message := coalesce (f_message p) (r_message r),
     r_next := map_option db_time (f_next p), r_updated := db_time now\<rparr>"

definition log_sent :: "log_row \<Rightarrow> log_row" where
  "log_sent l = l\<lparr>l_outcome := OutcomeSent\<rparr>"

definition finalize_attempt :: "finalize_params \<Rightarrow> gotime \<Rightarrow> db \<Rightarrow> db" where
  "finalize_attempt p now st =
     (let st1 = (if f_status p = RecipientSent
                 then st\<lparr>send_log := update_where (\<lambda>l. l_id l = f_log p) log_sent (send_log st)\<rparr>
                 else st) in
      st1\<lparr>recipients := update_where (\<lambda>r. r_id r = f_recipient p) (finalize_row p now) (recipients st1)\<rparr>)"

definition interrupted_reason :: string where
  "interrupted_reason = ''interrupted '' @ [CHR 0xE2, CHR 0x80, CHR 0x94] @ '' delivery unknown''"

definition interrupt_row :: "gotime \<Rightarrow> recipient \<Rightarrow> recipient" where
  "interrupt_row now r = r\<lparr>r_status := RecipientFailed, r_reason := interrupted_reason,
     r_updated := db_time now\<rparr>"

definition reconcile_stuck_sending :: "gotime \<Rightarrow> db \<Rightarrow> nat \<times> db" where
  "reconcile_stuck_sending now st =
     (affected (\<lambda>r. r_status r = RecipientSending) (recipients st),
      st\<lparr>recipients :=
           update_where (\<lambda>r. r_status r = RecipientSending) (interrupt_row now) (recipients st)\<rparr>)"

definition prune_campaign_send_log :: "gotime \<Rightarrow> db \<Rightarrow> nat \<times> db" where
  "prune_campaign_send_log older_than st =
     (affected (\<lambda>l. l_at l < db_time older_than) (send_log st),
      st\<lparr>send_log := filter (\<lambda>l. \<not> l_at l < db_time older_than) (send_log st)\<rparr>)"

section \<open>Updates keep their keys\<close>

interpretation refresh_upd: keyed_update r_id "refresh_recipient inp at"
  by unfold_locales (simp add: refresh_recipient_def)

interpretation retry_upd: keyed_update r_id "retry_row now"
  by unfold_locales (simp add: retry_row_def)

interpretation skip_upd: keyed_update r_id "skip_row why now"
  by unfold_locales (simp add: skip_row_def)

interpretation sending_upd: keyed_update r_id "sending_row now"
  by unfold_locales (simp add: sending_row_def)

interpretation finalize_upd: keyed_update r_id "finalize_row p now"
  by unfold_locales (simp add: finalize_row_def)

interpretation interrupt_upd: keyed_update r_id "interrupt_row now"
  by unfold_locales (simp add: interrupt_row_def)

interpretation sent_upd: keyed_update l_id log_sent
  by unfold_locales (simp add: log_sent_def)

interpretation patch_upd: keyed_update c_id "apply_patch p now"
  by unfold_locales (simp add: apply_patch_def)

interpretation status_upd: keyed_update c_id "set_status_row to now"
  by unfold_locales (simp add: set_status_row_def Let_def)

interpretation pause_upd: keyed_update c_id "pause_row now"
  by unfold_locales (simp add: pause_row_def)

section \<open>Well-formed databases\<close>

text \<open>What the schema enforces: the \<open>CHECK\<close>s, the primary keys, and the unique recipient.\<close>

definition db_ok :: "db \<Rightarrow> bool" where
  "db_ok st \<longleftrightarrow>
     list_all campaign_check (campaigns st) \<and> distinct (map c_id (campaigns st)) \<and>
     distinct (map r_id (recipients st)) \<and>
     distinct (map (\<lambda>r. (r_campaign r, r_identity r)) (recipients st)) \<and>
     distinct (map l_id (send_log st)) \<and>
     list_all settings_check (account_settings_rows st) \<and>
     list_all (\<lambda>k. tier_check (k_tier k)) (account_limits st)"

text \<open>How many campaign sends of an account the send log holds after an instant.\<close>

definition ledger_after :: "db \<Rightarrow> uuid \<Rightarrow> gotime \<Rightarrow> log_row list" where
  "ledger_after st account t =
     filter (\<lambda>l. l_account l = account \<and> l_origin l = OriginCampaign \<and> l_at l > t) (send_log st)"

lemma limits_positive:
  assumes "list_all (\<lambda>k. tier_check (k_tier k)) (account_limits st)"
  shows "\<forall>t \<in> set (campaign_account_limits st a ch). 0 < window_seconds t \<and> 0 < max_sends t"
  using assms
  by (auto simp: campaign_account_limits_def tiers_of_def Let_def list_all_iff tier_check_def
      default_tiers_for_def default_tiers_def)

lemma db_time_le: "db_time t \<le> t"
  by (simp add: db_time_def)

lemma fold_window_max:
  "m \<le> fold (\<lambda>t m. if window_seconds t > m then window_seconds t else m) ts m \<and>
   (\<forall>t \<in> set ts. window_seconds t \<le> fold (\<lambda>t m. if window_seconds t > m then window_seconds t else m) ts m)"
proof (induction ts arbitrary: m)
  case (Cons t ts)
  show ?case
    using Cons.IH [of m] Cons.IH [of "window_seconds t"]
    by (cases "window_seconds t > m") (auto elim: order.trans)
qed simp

text \<open>The query's cutoff never hides an attempt that a tier's window or the interval can see.\<close>

lemma attempts_cover:
  assumes "t \<in> set tiers"
  shows "used_in (campaign_send_attempts st a tiers mi now) (window_seconds t) now
       = length (ledger_after st a (now - seconds (window_seconds t)))"
proof -
  let ?m = "fold (\<lambda>t m. if window_seconds t > m then window_seconds t else m) tiers 0"
  define span where "span = (if mi > seconds ?m then mi else seconds ?m)"
  have "window_seconds t \<le> ?m" using fold_window_max [of 0 tiers] assms by blast
  then have "seconds (window_seconds t) \<le> span" by (auto simp: span_def seconds_def)
  with db_time_le [of "now - span"]
  have cut: "\<And>x. x > now - seconds (window_seconds t) \<Longrightarrow> x > db_time (now - span)" by linarith
  have sorted_filter: "length (filter P (sort xs)) = length (filter P xs)" for P and xs :: "gotime list"
    by (metis filter_sort length_sort)
  show ?thesis
    by (auto simp: used_in_def campaign_send_attempts_def Let_def ledger_after_def
        span_def [symmetric] sorted_filter filter_map o_def conj_ac intro!: arg_cong [of _ _ length]
        filter_cong dest: cut)
qed

lemma attempts_sorted: "sorted (campaign_send_attempts st a tiers mi now)"
  by (simp add: campaign_send_attempts_def Let_def)

lemma attempts_recent:
  assumes "l \<in> set (send_log st)" "l_account l = a" "l_origin l = OriginCampaign"
    and "l_at l \<notin> set (campaign_send_attempts st a tiers mi now)"
  shows "l_at l + mi \<le> now"
proof -
  let ?m = "fold (\<lambda>t m. if window_seconds t > m then window_seconds t else m) tiers 0"
  define span where "span = (if mi > seconds ?m then mi else seconds ?m)"
  have "l_at l \<le> db_time (now - span)"
    using assms by (force simp: campaign_send_attempts_def Let_def span_def [symmetric])
  with db_time_le [of "now - span"] show ?thesis by (auto simp: span_def split: if_splits)
qed

lemma jittered_le:
  "0 \<le> jt \<Longrightarrow> draw \<le> 2 * jt \<Longrightarrow> 0 \<le> iv \<Longrightarrow> jittered_seconds iv jt draw \<le> iv + jt"
  by (auto simp: jittered_seconds_def Let_def)

section \<open>What a claim guarantees\<close>

text \<open>The shape of a successful claim.\<close>

lemma claim_next_Claimed:
  assumes "claim_next_recipient log_id draw a now st = (Claimed cl, st')"
  shows "\<exists>p iv jt. \<not> account_paused st a
     \<and> p \<in> set (claim_candidates st a now)
     \<and> first_open st a now (claim_candidates st a now) = Some p
     \<and> pace_for st a p = Override iv jt
     \<and> allowed (claim_decision st a p iv jt draw now)
     \<and> log_id \<notin> l_id ` set (send_log st)
     \<and> cl = claim_of log_id a p
     \<and> st' = st\<lparr>send_log := send_log st @ [log_claim log_id a (fst p) now],
                recipients := update_where (claimable (r_id (fst p))) (sending_row now) (recipients st)\<rparr>"
proof -
  from assms have np: "\<not> account_paused st a" and ne: "claim_candidates st a now \<noteq> []"
    by (auto simp: claim_next_recipient_def Let_def split: if_splits)
  obtain p where p: "first_open st a now (claim_candidates st a now) = Some p"
    using assms np ne by (auto simp: claim_next_recipient_def Let_def split: option.splits)
  obtain iv jt where q: "pace_for st a p = Override iv jt"
    using assms np ne p by (cases "pace_for st a p") (auto simp: claim_next_recipient_def Let_def)
  have mem: "p \<in> set (claim_candidates st a now)"
    using p by (auto simp: first_open_def Let_def find_Some_iff dest: nth_mem)
  show ?thesis
    by (rule exI [of _ p], rule exI [of _ iv], rule exI [of _ jt])
      (use assms np ne p q mem in \<open>auto simp: claim_next_recipient_def Let_def split: if_splits\<close>)
qed

lemma candidate_eligible:
  "p \<in> set (claim_candidates st a now) \<Longrightarrow>
     fst p \<in> set (recipients st) \<and> snd p \<in> set (campaigns st) \<and> eligible a now p"
  by (cases p) (auto simp: claim_candidates_def dest: in_set_takeD)

lemma decision_allowed:
  assumes "allowed (claim_decision st a p iv jt draw now)"
    and "list_all (\<lambda>k. tier_check (k_tier k)) (account_limits st)"
  shows "\<forall>t \<in> set (campaign_account_limits st a (c_channel (snd p))).
      int (length (ledger_after st a (now - seconds (window_seconds t)))) < max_sends t"
    and "\<lbrakk>l \<in> set (ledger_after st a zero_time); 0 \<le> jt; 0 \<le> iv; draw \<le> 2 * jt\<rbrakk>
      \<Longrightarrow> l_at l + seconds (jittered_seconds iv jt draw) \<le> now"
proof -
  define ts where "ts = campaign_account_limits st a (c_channel (snd p))"
  define as where "as = campaign_send_attempts st a ts (seconds (iv + jt)) now"
  have pos: "\<forall>t \<in> set ts. 0 < window_seconds t \<and> 0 < max_sends t"
    using limits_positive [OF assms(2)] by (simp add: ts_def)
  have ok: "send_ok ts as (seconds (jittered_seconds iv jt draw)) (last_or_zero as) now"
    using assms(1) budget_verdict(1) [of as ts] attempts_sorted pos
    by (simp add: claim_decision_def Let_def ts_def as_def)
  show "\<forall>t \<in> set (campaign_account_limits st a (c_channel (snd p))).
      int (length (ledger_after st a (now - seconds (window_seconds t)))) < max_sends t"
    using ok pos attempts_cover [of _ ts st a "seconds (iv + jt)" now]
    by (force simp: send_ok_def has_headroom_def ts_def [symmetric] as_def)
  assume l: "l \<in> set (ledger_after st a zero_time)" and j: "0 \<le> jt" "0 \<le> iv" "draw \<le> 2 * jt"
  have le: "seconds (jittered_seconds iv jt draw) \<le> seconds (iv + jt)"
    using jittered_le [OF j(1,3,2)] by (simp add: seconds_def)
  show "l_at l + seconds (jittered_seconds iv jt draw) \<le> now"
  proof (cases "l_at l \<in> set as")
    case True
    then have "as \<noteq> []" by auto
    moreover have "l_at l \<le> last as"
      using True attempts_sorted [of st a ts "seconds (iv + jt)" now] \<open>as \<noteq> []\<close>
      by (metis as_def in_set_conv_nth last_conv_nth diff_Suc_1 length_greater_0_conv
          less_Suc_eq_le Suc_pred diff_less sorted_nth_mono zero_less_one)
    ultimately show ?thesis using ok l
      by (auto simp: send_ok_def interval_ok_def last_or_zero_def ledger_after_def)
  next
    case False
    then show ?thesis
      using attempts_recent [of l st a ts "seconds (iv + jt)" now] l le
      by (simp add: as_def ledger_after_def)
  qed
qed

end
