(* ===== verification/Campaign_Runs.thy ===== *)
theory Campaign_Runs
  imports Campaign_Safety
begin

text \<open>
  Runs of the campaign subsystem: a step relation over the database, the sends in flight and what
  has been delivered so far, with a rule for each operation of \<open>store/campaigns.go\<close>, for the
  outcomes of a send, and for a crash followed by \<open>Scheduler.Start\<close>. Two invariants are proved
  by rule induction: the schema's constraints, and that a recipient is delivered to at most once
  beyond the retries an operator asked for.
\<close>

section \<open>The world and its steps\<close>

text \<open>
  \<open>inflight\<close> are the claims whose provider call has not come back. \<open>delivered\<close> lists the
  recipients a provider has accepted a message for, \<open>misreported\<close> those it accepted one for although
  the send came back with an error (\<open>outbound.Deliver\<close> returns the error of \<open>StampOutboundSent\<close>, and
  a provider can accept a message and lose the answer), \<open>retried\<close> those an operator has reset, and
  \<open>history\<close> every claim that was ever committed (log id, account, time); the program keeps none
  of the four.
\<close>

record world =
  world_db :: db
  inflight :: "claim list"
  delivered :: "uuid list"
  misreported :: "uuid list"
  retried :: "uuid list"
  history :: "(uuid \<times> uuid \<times> gotime) list"
  clock :: gotime

definition used_ids :: "world \<Rightarrow> uuid set" where
  "used_ids w = r_id ` set (recipients (world_db w)) \<union> r_campaign ` set (recipients (world_db w))
     \<union> l_recipient ` set (send_log (world_db w)) \<union> c_id ` set (campaigns (world_db w))
     \<union> cl_recipient ` set (inflight w) \<union> set (delivered w)"

text \<open>How often a recipient may have been sent to once more.\<close>

definition excused :: "world \<Rightarrow> uuid \<Rightarrow> nat" where
  "excused w i = count_list (retried w) i + count_list (misreported w) i"

text \<open>\<open>uuid.New()\<close> never repeats itself.\<close>

definition fresh_ids :: "world \<Rightarrow> (nat \<Rightarrow> uuid) \<Rightarrow> bool" where
  "fresh_ids w fresh \<longleftrightarrow> inj fresh \<and> (\<forall>i. fresh i \<notin> used_ids w)"

definition retried_by :: "uuid \<Rightarrow> uuid list \<Rightarrow> db \<Rightarrow> uuid list" where
  "retried_by campaign ids st = map r_id (filter (retry_selected campaign ids) (recipients st))"

inductive step :: "world \<Rightarrow> world \<Rightarrow> bool" where
  step_claim:
  "\<lbrakk>clock w \<le> now; log_id \<notin> fst ` set (history w);
    claim_next_recipient log_id draw a now (world_db w) = (Claimed cl, st)\<rbrakk> \<Longrightarrow>
   step w (w\<lparr>world_db := st, inflight := cl # inflight w,
             history := (log_id, a, db_time now) # history w, clock := now\<rparr>)"
| step_no_claim:
  "\<lbrakk>clock w \<le> now; log_id \<notin> fst ` set (history w);
    claim_next_recipient log_id draw a now (world_db w) = (res, st); claimed_id res = None\<rbrakk> \<Longrightarrow>
   step w (w\<lparr>world_db := st, clock := now\<rparr>)"
| step_sent:
  "\<lbrakk>clock w \<le> now; cl \<in> set (inflight w); f_log p = cl_log cl; f_recipient p = cl_recipient cl;
    f_status p = RecipientSent\<rbrakk> \<Longrightarrow>
   step w (w\<lparr>world_db := finalize_attempt p now (world_db w), inflight := remove1 cl (inflight w),
             delivered := cl_recipient cl # delivered w, clock := now\<rparr>)"
| step_send_failed:
  "\<lbrakk>clock w \<le> now; cl \<in> set (inflight w); f_log p = cl_log cl; f_recipient p = cl_recipient cl;
    f_status p = RecipientPending \<or> f_status p = RecipientFailed\<rbrakk> \<Longrightarrow>
   step w (w\<lparr>world_db := finalize_attempt p now (world_db w), inflight := remove1 cl (inflight w),
             delivered := (if got then [cl_recipient cl] else []) @ delivered w,
             misreported := (if got then [cl_recipient cl] else []) @ misreported w, clock := now\<rparr>)"
| step_finalize_lost:
  "\<lbrakk>clock w \<le> now; cl \<in> set (inflight w)\<rbrakk> \<Longrightarrow>
   step w (w\<lparr>inflight := remove1 cl (inflight w),
             delivered := (if ok then [cl_recipient cl] else []) @ delivered w, clock := now\<rparr>)"
| step_crash_and_start:
  "\<lbrakk>clock w \<le> now; subseq ds (map cl_recipient (inflight w))\<rbrakk> \<Longrightarrow>
   step w (w\<lparr>world_db := snd (reconcile_stuck_sending now (world_db w)), inflight := [],
             delivered := ds @ delivered w, clock := now\<rparr>)"
| step_retry:
  "\<lbrakk>clock w \<le> now\<rbrakk> \<Longrightarrow>
   step w (w\<lparr>world_db := snd (retry_failed_recipients campaign ids now (world_db w)),
             retried := retried_by campaign ids (world_db w) @ retried w, clock := now\<rparr>)"
| step_suppress:
  "\<lbrakk>clock w \<le> now\<rbrakk> \<Longrightarrow>
   step w (w\<lparr>world_db := snd (suppress_pending_for_identity a identity why now (world_db w)),
             clock := now\<rparr>)"
| step_replace:
  "\<lbrakk>clock w \<le> now; fresh_ids w fresh;
    replace_campaign_recipients fresh campaign inputs now (world_db w) = Inr st\<rbrakk> \<Longrightarrow>
   step w (w\<lparr>world_db := st, clock := now\<rparr>)"
| step_duplicate:
  "\<lbrakk>clock w \<le> now; fresh_ids w fresh;
    duplicate_campaign fresh src actor now (world_db w) = Inr (c, st)\<rbrakk> \<Longrightarrow>
   step w (w\<lparr>world_db := st, clock := now\<rparr>)"
| step_create:
  "\<lbrakk>clock w \<le> now; create_campaign c0 new_id now (world_db w) = Inr (c, st)\<rbrakk> \<Longrightarrow>
   step w (w\<lparr>world_db := st, clock := now\<rparr>)"
| step_delete:
  "\<lbrakk>clock w \<le> now; delete_campaign i (world_db w) = Inr st\<rbrakk> \<Longrightarrow>
   step w (w\<lparr>world_db := st, clock := now\<rparr>)"
| step_update:
  "\<lbrakk>clock w \<le> now; update_campaign fresh i patch now (world_db w) = Inr (c, st)\<rbrakk> \<Longrightarrow>
   step w (w\<lparr>world_db := st, clock := now\<rparr>)"
| step_status:
  "\<lbrakk>clock w \<le> now; set_campaign_status new_id i to actor event detail now (world_db w) = Inr (c, st)\<rbrakk> \<Longrightarrow>
   step w (w\<lparr>world_db := st, clock := now\<rparr>)"
| step_auto_pause:
  "\<lbrakk>clock w \<le> now; auto_pause_campaigns_for_account fresh a why now (world_db w) = Inr (n, st)\<rbrakk> \<Longrightarrow>
   step w (w\<lparr>world_db := st, clock := now\<rparr>)"
| step_limits:
  "\<lbrakk>clock w \<le> now; set_campaign_account_limits fresh a s tiers ws now (world_db w) = Inr (res, st)\<rbrakk> \<Longrightarrow>
   step w (w\<lparr>world_db := st, clock := now\<rparr>)"
| step_prune:
  "\<lbrakk>clock w \<le> now\<rbrakk> \<Longrightarrow>
   step w (w\<lparr>world_db := snd (prune_campaign_send_log (now - seconds max_tier_window) (world_db w)),
             clock := now\<rparr>)"

definition start_world :: "db \<Rightarrow> world" where
  "start_world st = \<lparr>world_db = st, inflight = [], delivered = [], misreported = [], retried = [], history = [],
     clock = zero_time\<rparr>"

section \<open>Recipient tables\<close>

definition recipients_ok :: "recipient list \<Rightarrow> bool" where
  "recipients_ok rs \<longleftrightarrow> distinct (map r_id rs) \<and> distinct (map (\<lambda>r. (r_campaign r, r_identity r)) rs)"

text \<open>The new table has the old rows, some skipped or gone, and new pending rows.\<close>

definition quiet :: "uuid set \<Rightarrow> recipient list \<Rightarrow> recipient list \<Rightarrow> bool" where
  "quiet used rs rs' \<longleftrightarrow>
     (\<forall>r' \<in> set rs'.
        (\<exists>r \<in> set rs. r_id r = r_id r' \<and> r_campaign r = r_campaign r' \<and>
           (r_status r' = r_status r \<or> r_status r = RecipientPending \<and> r_status r' = RecipientSkipped))
        \<or> r_status r' = RecipientPending \<and> r_id r' \<notin> used)"

lemma quiet_refl [simp]: "quiet used rs rs"
  by (auto simp: quiet_def)

lemma quiet_filter [simp]: "quiet used rs (filter p rs)"
  by (auto simp: quiet_def)

lemma map_key_update_where:
  "(\<And>r. key (f r) = key r) \<Longrightarrow> map key (update_where p f rs) = map key rs"
  by (induction rs) (auto simp: update_where_def)

lemma recipients_ok_update:
  "(\<And>r. r_id (f r) = r_id r \<and> r_campaign (f r) = r_campaign r \<and> r_identity (f r) = r_identity r)
     \<Longrightarrow> recipients_ok (update_where p f rs) \<longleftrightarrow> recipients_ok rs"
  by (simp add: recipients_ok_def map_key_update_where)

lemma recipients_ok_filter: "recipients_ok rs \<Longrightarrow> recipients_ok (filter p rs)"
  by (simp add: recipients_ok_def distinct_map_filter)

lemma upsert_ok:
  assumes "recipients_ok rs" and "i \<notin> r_id ` set rs"
  shows "recipients_ok (upsert_recipient i campaign inp at rs)"
proof (cases "list_ex (\<lambda>r. r_campaign r = campaign \<and> r_identity r = i_identity inp) rs")
  case True
  have "recipients_ok (update_where p (refresh_recipient inp at) rs)" for p
    using assms(1) by (subst recipients_ok_update) (simp_all add: refresh_recipient_def)
  with True show ?thesis by (simp add: upsert_recipient_def)
next
  case False
  then show ?thesis using assms
    by (auto simp: upsert_recipient_def recipients_ok_def new_recipient_def list_ex_iff)
qed

lemma upsert_rows:
  "r' \<in> set (upsert_recipient i campaign inp at rs) \<Longrightarrow>
     (\<exists>r \<in> set rs. r_id r = r_id r' \<and> r_campaign r = r_campaign r' \<and> r_status r' = r_status r)
     \<or> r_status r' = RecipientPending \<and> r_id r' = i"
  by (auto simp: upsert_recipient_def set_update_where refresh_recipient_def new_recipient_def
      split: if_splits)

lemma upsert_ids:
  "r_id ` set rs \<subseteq> r_id ` set (upsert_recipient i campaign inp at rs) \<and>
   r_id ` set (upsert_recipient i campaign inp at rs) \<subseteq> insert i (r_id ` set rs)"
proof (cases "list_ex (\<lambda>r. r_campaign r = campaign \<and> r_identity r = i_identity inp) rs")
  case True
  have "r_id ` set (update_where p (refresh_recipient inp at) rs) = r_id ` set rs" for p
    using arg_cong [OF refresh_upd.keys_kept, of set] by simp
  with True show ?thesis by (simp add: upsert_recipient_def subset_insertI)
qed (auto simp: upsert_recipient_def new_recipient_def)

text \<open>Old rows with their ids, campaigns and statuses, and new pending rows.\<close>

definition row_sig :: "recipient \<Rightarrow> uuid \<times> uuid \<times> recipient_status" where
  "row_sig r = (r_id r, r_campaign r, r_status r)"

definition grows_by :: "uuid set \<Rightarrow> recipient list \<Rightarrow> recipient list \<Rightarrow> bool" where
  "grows_by new rs rs' \<longleftrightarrow>
     row_sig ` set rs' \<subseteq> row_sig ` set rs \<union> new \<times> UNIV \<times> {RecipientPending}
     \<and> r_id ` set rs \<subseteq> r_id ` set rs'"

lemma grows_by_refl: "grows_by new rs rs"
  by (auto simp: grows_by_def)

lemma union_trans: "B \<subseteq> A \<union> N \<Longrightarrow> C \<subseteq> B \<union> N \<Longrightarrow> C \<subseteq> A \<union> N"
  by blast

lemma grows_by_trans: "grows_by new rs rs' \<Longrightarrow> grows_by new rs' rs'' \<Longrightarrow> grows_by new rs rs''"
  unfolding grows_by_def
  by (elim conjE, intro conjI) (erule union_trans, assumption, erule order.trans, assumption)

lemma grows_by_mono:
  assumes "grows_by new rs rs'" and "new \<subseteq> new'"
  shows "grows_by new' rs rs'"
proof -
  have "new \<times> UNIV \<times> {RecipientPending} \<subseteq> new' \<times> UNIV \<times> {RecipientPending}"
    using assms(2) by (intro Sigma_mono) auto
  with assms(1) show ?thesis
    unfolding grows_by_def by (elim conjE, intro conjI) (erule order.trans, rule Un_mono, simp_all)
qed

lemma grows_by_ids:
  assumes "grows_by new rs rs'"
  shows "r_id ` set rs' \<subseteq> r_id ` set rs \<union> new"
proof
  fix i assume "i \<in> r_id ` set rs'"
  then obtain r' where r': "r' \<in> set rs'" "i = r_id r'" by blast
  then have "row_sig r' \<in> row_sig ` set rs \<union> new \<times> UNIV \<times> {RecipientPending}"
    using assms unfolding grows_by_def by blast
  with r' show "i \<in> r_id ` set rs \<union> new" by (auto simp: row_sig_def)
qed

lemma grows_by_upsert:
  assumes "i \<in> new"
  shows "grows_by new rs (upsert_recipient i campaign inp at rs)"
proof -
  have "row_sig r' \<in> row_sig ` set rs \<union> new \<times> UNIV \<times> {RecipientPending}"
    if "r' \<in> set (upsert_recipient i campaign inp at rs)" for r'
    using upsert_rows [OF that]
  proof (elim disjE bexE conjE)
    fix r assume "r \<in> set rs" "r_id r = r_id r'" "r_campaign r = r_campaign r'" "r_status r' = r_status r"
    then have "row_sig r' = row_sig r" by (simp add: row_sig_def)
    then show ?thesis using \<open>r \<in> set rs\<close> by simp
  qed (simp add: row_sig_def assms)
  then show ?thesis unfolding grows_by_def
    by (intro conjI image_subsetI conjunct1 [OF upsert_ids])
qed

lemma upsert_all_ok:
  assumes "inj fresh" and "recipients_ok rs" and "\<forall>j\<ge>k. fresh j \<notin> r_id ` set rs"
  shows "recipients_ok (upsert_all fresh campaign deduped now (enumerate k order) rs) \<and>
     grows_by (range fresh) rs (upsert_all fresh campaign deduped now (enumerate k order) rs)"
  using assms(2,3)
proof (induction order arbitrary: k rs)
  case Nil
  then show ?case by (simp add: upsert_all_def grows_by_refl)
next
  case (Cons x xs)
  define rs1 where "rs1 = (case deduped x of None \<Rightarrow> rs
      | Some inp \<Rightarrow> upsert_recipient (fresh k) campaign inp (row_stamp now k) rs)"
  have ok1: "recipients_ok rs1" using Cons.prems by (auto simp: rs1_def upsert_ok split: option.split)
  have g1: "grows_by {fresh k} rs rs1"
    by (auto simp: rs1_def grows_by_refl grows_by_upsert split: option.split)
  have "fresh j \<notin> r_id ` set rs1" if "Suc k \<le> j" for j
  proof -
    have "fresh j \<noteq> fresh k" using assms(1) that by (simp add: inj_eq)
    moreover have "fresh j \<notin> r_id ` set rs" using Cons.prems(2) that by simp
    ultimately show ?thesis using subsetD [OF grows_by_ids [OF g1], of "fresh j"] by (metis UnE singletonD)
  qed
  then have rest: "recipients_ok (upsert_all fresh campaign deduped now (enumerate (Suc k) xs) rs1) \<and>
      grows_by (range fresh) rs1 (upsert_all fresh campaign deduped now (enumerate (Suc k) xs) rs1)"
    using Cons.IH [OF ok1] by simp
  have "grows_by (range fresh) rs rs1" by (rule grows_by_mono [OF g1]) blast
  from grows_by_trans [OF this conjunct2 [OF rest]] rest
  have "recipients_ok (upsert_all fresh campaign deduped now (enumerate (Suc k) xs) rs1) \<and>
      grows_by (range fresh) rs (upsert_all fresh campaign deduped now (enumerate (Suc k) xs) rs1)"
    by simp
  then show ?case by (simp add: upsert_all_def rs1_def)
qed

lemma grows_by_quiet:
  assumes "grows_by new rs rs'" and "new \<inter> used = {}"
  shows "quiet used rs rs'"
  unfolding quiet_def
proof
  fix r' assume "r' \<in> set rs'"
  then have "row_sig r' \<in> row_sig ` set rs \<union> new \<times> UNIV \<times> {RecipientPending}"
    using assms(1) unfolding grows_by_def by blast
  with assms(2) show "(\<exists>r \<in> set rs. r_id r = r_id r' \<and> r_campaign r = r_campaign r' \<and>
        (r_status r' = r_status r \<or> r_status r = RecipientPending \<and> r_status r' = RecipientSkipped))
      \<or> r_status r' = RecipientPending \<and> r_id r' \<notin> used"
    by (auto simp: row_sig_def)
qed

lemma quiet_sub: "quiet used rs1 rs' \<Longrightarrow> set rs1 \<subseteq> set rs \<Longrightarrow> quiet used rs rs'"
  unfolding quiet_def by blast

lemma replace_ok:
  assumes "fresh_ids w fresh" and "recipients_ok (recipients (world_db w))"
    and "replace_campaign_recipients fresh campaign inputs now (world_db w) = Inr st"
  shows "recipients_ok (recipients st) \<and> quiet (used_ids w) (recipients (world_db w)) (recipients st)
    \<and> (\<exists>deduped. st = delete_recipients (stale_recipient campaign deduped) (world_db w)
         \<lparr>recipients := recipients st\<rparr>
       \<and> r_id ` set (recipients st) \<subseteq>
           r_id ` set (filter (\<lambda>r. \<not> stale_recipient campaign deduped r) (recipients (world_db w)))
             \<union> range fresh)"
proof -
  obtain deduped order where d: "dedup_inputs inputs = (deduped, order)" by fastforce
  let ?rs = "filter (\<lambda>r. \<not> stale_recipient campaign deduped r) (recipients (world_db w))"
  from assms(3) d have st: "st = delete_recipients (stale_recipient campaign deduped) (world_db w)
      \<lparr>recipients := upsert_all fresh campaign deduped now (enumerate 0 order) ?rs\<rparr>"
    by (auto simp: replace_campaign_recipients_def delete_recipients_def Let_def split: if_splits)
  from assms(1) have fr: "inj fresh" "range fresh \<inter> used_ids w = {}" by (auto simp: fresh_ids_def)
  have ids: "\<forall>j\<ge>0. fresh j \<notin> r_id ` set ?rs"
    using assms(1) by (auto simp: fresh_ids_def used_ids_def)
  have U: "recipients_ok (recipients st) \<and> grows_by (range fresh) ?rs (recipients st)"
    using upsert_all_ok [OF fr(1) recipients_ok_filter [OF assms(2)] ids] by (simp add: st)
  have "quiet (used_ids w) (recipients (world_db w)) (recipients st)"
    by (rule quiet_sub [OF grows_by_quiet [OF conjunct2 [OF U] fr(2)]]) auto
  moreover have "r_id ` set (recipients st) \<subseteq> r_id ` set ?rs \<union> range fresh"
    by (rule grows_by_ids [OF conjunct2 [OF U]])
  moreover have "st = delete_recipients (stale_recipient campaign deduped) (world_db w)
      \<lparr>recipients := recipients st\<rparr>" by (simp add: st)
  ultimately show ?thesis using U by blast
qed

section \<open>What each operation leaves alone\<close>

definition campaigns_ok :: "campaign list \<Rightarrow> bool" where
  "campaigns_ok cs \<longleftrightarrow> list_all campaign_check cs \<and> distinct (map c_id cs)"

definition same_sends :: "db \<Rightarrow> db \<Rightarrow> bool" where
  "same_sends st st' \<longleftrightarrow> recipients st' = recipients st \<and> send_log st' = send_log st
     \<and> account_settings_rows st' = account_settings_rows st \<and> account_limits st' = account_limits st"

lemma campaigns_ok_update:
  assumes "campaigns_ok cs" and "\<And>c. c_id (f c) = c_id c"
    and "\<And>c. c \<in> set cs \<Longrightarrow> p c \<Longrightarrow> campaign_check (f c)"
  shows "campaigns_ok (update_where p f cs)"
  using assms by (auto simp: campaigns_ok_def list_all_iff set_update_where map_key_update_where)

lemma campaign_check_status [simp]: "campaign_check (set_status_row to now c) \<longleftrightarrow> campaign_check c"
  by (simp add: campaign_check_def set_status_row_def Let_def)

lemma campaign_check_pause [simp]: "campaign_check (pause_row now c) \<longleftrightarrow> campaign_check c"
  by (simp add: campaign_check_def pause_row_def)

lemma insert_event_same:
  "insert_campaign_event new_id i event actor detail now st = Inr st' \<Longrightarrow>
     same_sends st st' \<and> campaigns st' = campaigns st"
  by (auto simp: insert_campaign_event_def same_sends_def Let_def split: if_splits)

lemma create_same:
  "create_campaign c0 new_id now st = Inr (c, st') \<Longrightarrow> campaigns_ok (campaigns st) \<Longrightarrow>
     same_sends st st' \<and> campaigns_ok (campaigns st')"
  by (auto simp: create_campaign_def same_sends_def campaigns_ok_def Let_def split: if_splits)

lemma status_same:
  assumes "set_campaign_status new_id i to actor event detail now st = Inr (c, st')"
    and "campaigns_ok (campaigns st)"
  shows "same_sends st st' \<and> campaigns_ok (campaigns st')"
proof -
  obtain st1 where "insert_campaign_event new_id i event actor detail now
      (st\<lparr>campaigns := update_where (\<lambda>c. c_id c = i) (set_status_row to now) (campaigns st)\<rparr>) = Inr st1"
    and "st' = st1"
    using assms(1) by (auto simp: set_campaign_status_def result_simps split: option.splits if_splits)
  moreover have "campaigns_ok (update_where (\<lambda>c. c_id c = i) (set_status_row to now) (campaigns st))"
    by (rule campaigns_ok_update [OF assms(2) status_upd.key_kept])
      (use assms(2) in \<open>auto simp: campaigns_ok_def list_all_iff\<close>)
  ultimately show ?thesis by (auto simp: same_sends_def dest!: insert_event_same)
qed

lemma replace_windows_same:
  "replace_campaign_windows fresh i ws st = Inr st' \<Longrightarrow>
     same_sends st st' \<and> campaigns st' = campaigns st"
  by (auto simp: replace_campaign_windows_def same_sends_def split: if_splits)

lemma update_same:
  assumes "update_campaign fresh i p now st = Inr (c, st')" and "campaigns_ok (campaigns st)"
  shows "same_sends st st' \<and> campaigns_ok (campaigns st')"
proof -
  obtain c0 where c0: "find_by c_id i (campaigns st) = Some c0"
    using assms(1) by (auto simp: update_campaign_def split: option.splits)
  have chk: "campaign_check (apply_patch p now c0)"
    using assms(1) c0 by (auto simp: update_campaign_def Let_def split: if_splits)
  have only: "c = c0" if "c \<in> set (campaigns st)" "c_id c = i" for c
    using find_by_unique [of c_id "campaigns st" c] that c0 assms(2) by (simp add: campaigns_ok_def)
  have "campaigns_ok (update_where (\<lambda>c. c_id c = i) (apply_patch p now) (campaigns st))"
    by (rule campaigns_ok_update [OF assms(2) patch_upd.key_kept]) (use only chk in auto)
  moreover have "same_sends st st'
     \<and> campaigns st' = update_where (\<lambda>c. c_id c = i) (apply_patch p now) (campaigns st)"
    using assms(1) c0
    by (auto simp: update_campaign_def Let_def result_simps same_sends_def
        split: if_splits dest!: replace_windows_same)
  ultimately show ?thesis by simp
qed

lemma auto_pause_same:
  assumes "auto_pause_campaigns_for_account fresh a why now st = Inr (n, st')"
    and "campaigns_ok (campaigns st)"
  shows "same_sends st st' \<and> campaigns_ok (campaigns st')"
proof -
  let ?P = "\<lambda>s. same_sends st s \<and> campaigns_ok (campaigns s)"
  have f: "foldE (auto_pause_one fresh why now) (enumerate 0 (running_on st a)) st = Inr st'"
    using assms(1) by (auto simp: auto_pause_campaigns_for_account_def Let_def result_simps)
  show ?thesis
  proof (rule foldE_invariant [of _ _ _ _ ?P, OF f])
    show "?P st" using assms(2) by (simp add: same_sends_def)
    fix x t t' assume P: "?P t" and s: "auto_pause_one fresh why now x t = Inr t'"
    have "campaigns_ok (update_where (\<lambda>c. c_id c = snd x) (pause_row now) (campaigns t))"
      by (rule campaigns_ok_update [OF _ pause_upd.key_kept])
        (use P in \<open>auto simp: campaigns_ok_def list_all_iff\<close>)
    with P s show "?P t'"
      by (auto simp: auto_pause_one_def same_sends_def dest!: insert_event_same)
  qed
qed

lemma duplicate_result:
  assumes "duplicate_campaign fresh src actor now st = Inr (c, st')" and "campaigns_ok (campaigns st)"
  shows "campaigns_ok (campaigns st') \<and> send_log st' = send_log st
    \<and> account_settings_rows st' = account_settings_rows st \<and> account_limits st' = account_limits st
    \<and> (\<exists>k. recipients st' = recipients st @
         map (\<lambda>(i, r). new_recipient (fresh (k + i)) (fresh 0) (input_of r) (row_stamp now i))
             (enumerate 0 (never_contacted src (recipients st))) \<and> 0 < k)"
proof -
  obtain c0 where c0: "find_by c_id src (campaigns st) = Some c0"
    using assms(1) by (auto simp: duplicate_campaign_def split: option.splits)
  let ?k = "Suc (length (windows_of src (campaign_windows st)))"
  have "campaigns_ok (campaigns st') \<and> send_log st' = send_log st
    \<and> account_settings_rows st' = account_settings_rows st \<and> account_limits st' = account_limits st
    \<and> recipients st' = recipients st @
         map (\<lambda>(i, r). new_recipient (fresh (?k + i)) (fresh 0) (input_of r) (row_stamp now i))
             (enumerate 0 (never_contacted src (recipients st)))"
    using assms c0
    by (auto simp: duplicate_campaign_def Let_def result_simps campaigns_ok_def same_sends_def
        split: if_splits dest!: insert_event_same)
  then show ?thesis by (intro conjI exI [of _ ?k]) simp_all
qed

lemma recipients_ok_distinct:
  "distinct (map r_id rs) \<Longrightarrow> distinct (map r_identity rs) \<Longrightarrow> recipients_ok rs"
  by (auto simp: recipients_ok_def distinct_map inj_on_def)

lemma recipients_ok_append:
  assumes "recipients_ok rs" "recipients_ok new"
    and "r_id ` set new \<inter> used = {}" "r_campaign ` set new \<inter> used = {}"
    and "r_id ` set rs \<union> r_campaign ` set rs \<subseteq> used"
  shows "recipients_ok (rs @ new)"
proof -
  have "r_id ` set rs \<inter> r_id ` set new = {}" using assms(3,5) by blast
  moreover have "(\<lambda>r. (r_campaign r, r_identity r)) ` set rs
      \<inter> (\<lambda>r. (r_campaign r, r_identity r)) ` set new = {}"
    using assms(4,5) by auto
  ultimately show ?thesis using assms(1,2) by (simp add: recipients_ok_def)
qed

lemma duplicate_ok:
  assumes "fresh_ids w fresh" and "recipients_ok (recipients (world_db w))"
    and "recipients st' = recipients (world_db w) @
         map (\<lambda>(i, r). new_recipient (fresh (k + i)) (fresh 0) (input_of r) (row_stamp now i))
             (enumerate 0 (never_contacted src (recipients (world_db w))))" and "0 < k"
  shows "recipients_ok (recipients st') \<and> quiet (used_ids w) (recipients (world_db w)) (recipients st')"
proof -
  let ?rs = "recipients (world_db w)"
  let ?nc = "never_contacted src ?rs"
  let ?new = "map (\<lambda>(i, r). new_recipient (fresh (k + i)) (fresh 0) (input_of r) (row_stamp now i))
      (enumerate 0 ?nc)"
  from assms(1) have fr: "inj fresh" "\<And>i. fresh i \<notin> used_ids w" by (auto simp: fresh_ids_def)
  have ids: "map r_id ?new = map (\<lambda>i. fresh (k + i)) [0..<length ?nc]"
    by (rule nth_equalityI) (simp_all add: nth_enumerate_eq new_recipient_def)
  have idn: "map r_identity ?new = map r_identity ?nc"
    by (rule nth_equalityI) (simp_all add: nth_enumerate_eq new_recipient_def input_of_def)
  have dist: "distinct (map r_identity ?new)" if "distinct (map r_identity ?nc)"
    using that by (simp only: idn)
  have camp: "\<And>r. r \<in> set ?new \<Longrightarrow> r_campaign r = fresh 0 \<and> r_status r = RecipientPending"
    by (auto simp: new_recipient_def)
  have "distinct (map r_id ?new)"
    unfolding ids by (auto simp: distinct_map inj_on_def dest: injD [OF fr(1)])
  moreover have "distinct (map r_identity ?nc)"
  proof -
    have "distinct (map (\<lambda>r. (r_campaign r, r_identity r)) (filter (\<lambda>r. r_campaign r = src \<and>
        (r_status r = RecipientPending \<or> r_status r = RecipientFailed)) ?rs))"
      using assms(2) by (simp add: recipients_ok_def distinct_map_filter)
    then have "distinct (map r_identity (filter (\<lambda>r. r_campaign r = src \<and>
        (r_status r = RecipientPending \<or> r_status r = RecipientFailed)) ?rs))"
      by (auto simp: distinct_map inj_on_def)
    then show ?thesis by (auto simp: never_contacted_def distinct_map inj_on_def)
  qed
  ultimately have ok: "recipients_ok ?new" by (intro recipients_ok_distinct dist)
  have "r_id ` set ?new \<inter> used_ids w = {}"
    using fr(2) by (auto simp: new_recipient_def)
  moreover have "r_campaign ` set ?new \<inter> used_ids w = {}"
    using fr(2) camp by auto
  ultimately have "recipients_ok (?rs @ ?new)"
    by (intro recipients_ok_append [OF assms(2) ok, of "used_ids w"]) (auto simp: used_ids_def)
  moreover have "quiet (used_ids w) ?rs (?rs @ ?new)"
    unfolding quiet_def
  proof
    fix r assume r: "r \<in> set (?rs @ ?new)"
    show "(\<exists>q \<in> set ?rs. r_id q = r_id r \<and> r_campaign q = r_campaign r \<and>
          (r_status r = r_status q \<or> r_status q = RecipientPending \<and> r_status r = RecipientSkipped))
        \<or> r_status r = RecipientPending \<and> r_id r \<notin> used_ids w"
    proof (cases "r \<in> set ?rs")
      case False
      then have n: "r \<in> set ?new" using r by simp
      then have "r_id r \<notin> used_ids w" using fr(2) by (auto simp: new_recipient_def)
      then show ?thesis using camp [OF n] by simp
    qed blast
  qed
  ultimately show ?thesis by (simp add: assms(3))
qed

lemma claim_next_effect:
  assumes "claim_next_recipient log_id draw a now st = (Claimed cl, st')"
  shows "\<exists>p. p \<in> set (claim_candidates st a now) \<and> log_id \<notin> l_id ` set (send_log st)
     \<and> cl = claim_of log_id a p
     \<and> st' = st\<lparr>send_log := send_log st @ [log_claim log_id a (fst p) now],
                recipients := update_where (claimable (r_id (fst p))) (sending_row now) (recipients st)\<rparr>"
  using claim_next_Claimed [OF assms] by (elim exE conjE) (rule exI, intro conjI)

lemma no_claim_same:
  assumes "claim_next_recipient log_id draw a now st = (res, st')" and "claimed_id res = None"
  shows "st' = st"
proof (rule ccontr)
  assume "st' \<noteq> st"
  then obtain p where "\<not> account_paused st a" "claim_candidates st a now \<noteq> []"
    and p: "first_open st a now (claim_candidates st a now) = Some p"
    using assms(1) by (auto simp: claim_next_recipient_def Let_def split: option.splits if_splits)
  then have "p \<in> set (claim_candidates st a now)"
    by (auto simp: first_open_def Let_def find_Some_iff dest: nth_mem)
  then have "affected (claimable (r_id (fst p))) (recipients st) \<noteq> 0"
    by (auto simp: affected_def claimable_def eligible_def filter_empty_conv split: prod.splits
        dest!: candidate_eligible)
  with \<open>st' \<noteq> st\<close> assms \<open>\<not> account_paused st a\<close> \<open>claim_candidates st a now \<noteq> []\<close> p show False
    by (auto simp: claim_next_recipient_def Let_def split: pace.splits if_splits)
qed

section \<open>The schema's constraints are invariant\<close>

lemma db_ok_alt:
  "db_ok st \<longleftrightarrow> campaigns_ok (campaigns st) \<and> recipients_ok (recipients st)
     \<and> distinct (map l_id (send_log st)) \<and> list_all settings_check (account_settings_rows st)
     \<and> list_all (\<lambda>k. tier_check (k_tier k)) (account_limits st)"
  by (auto simp: db_ok_def campaigns_ok_def recipients_ok_def)

lemma db_ok_same_sends:
  "same_sends st st' \<Longrightarrow> campaigns_ok (campaigns st') \<Longrightarrow> db_ok st \<Longrightarrow> db_ok st'"
  by (simp add: db_ok_alt same_sends_def)

lemma db_ok_recipients:
  "db_ok st \<Longrightarrow> (\<And>r. r_id (f r) = r_id r \<and> r_campaign (f r) = r_campaign r \<and> r_identity (f r) = r_identity r)
     \<Longrightarrow> db_ok (st\<lparr>recipients := update_where p f (recipients st)\<rparr>)"
  by (simp add: db_ok_alt recipients_ok_def map_key_update_where)

lemma distinct_map_filter_log: "distinct (map l_id ls) \<Longrightarrow> distinct (map l_id (filter p ls))"
  by (rule distinct_map_filter)

lemma db_ok_log_sent: "db_ok st \<Longrightarrow> db_ok (st\<lparr>send_log := update_where p log_sent (send_log st)\<rparr>)"
  by (simp add: db_ok_alt sent_upd.keys_kept)

lemma finalize_keeps:
  "r_id (finalize_row p now r) = r_id r \<and> r_campaign (finalize_row p now r) = r_campaign r
     \<and> r_identity (finalize_row p now r) = r_identity r"
  by (simp add: finalize_row_def)

lemma db_ok_finalize: "db_ok st \<Longrightarrow> db_ok (finalize_attempt p now st)"
  unfolding finalize_attempt_def Let_def
  by (rule db_ok_recipients) (simp_all add: db_ok_log_sent finalize_keeps)

lemma db_ok_delete_campaign: "delete_campaign i st = Inr st' \<Longrightarrow> db_ok st \<Longrightarrow> db_ok st'"
  by (auto simp: delete_campaign_def Let_def db_ok_alt campaigns_ok_def recipients_ok_filter
      distinct_map_filter list_all_iff split: if_splits)

lemma db_ok_limits:
  assumes "set_campaign_account_limits fresh a s tiers ws now st = Inr (res, st')" and "db_ok st"
  shows "db_ok st'"
proof -
  have chk: "settings_check (settings_row a s now)" "list_all tier_check tiers"
    and st': "account_settings_rows st' = (if list_ex (\<lambda>r. s_account r = a) (account_settings_rows st)
         then update_where (\<lambda>r. s_account r = a) (\<lambda>_. settings_row a s now) (account_settings_rows st)
         else account_settings_rows st @ [settings_row a s now])"
      "account_limits st' = filter (\<lambda>k. k_account k \<noteq> a) (account_limits st)
         @ map (\<lambda>t. \<lparr>k_account = a, k_tier = t\<rparr>) tiers"
      "campaigns st' = campaigns st" "recipients st' = recipients st" "send_log st' = send_log st"
    using assms(1) by (auto simp: set_campaign_account_limits_def Let_def split: if_splits)
  have "list_all settings_check (account_settings_rows st')"
    using assms(2) chk(1) st'(1) by (auto simp: db_ok_def list_all_iff set_update_where)
  moreover have "list_all (\<lambda>k. tier_check (k_tier k)) (account_limits st')"
    using assms(2) chk(2) st'(2) by (auto simp: db_ok_def list_all_iff)
  ultimately show ?thesis using assms(2) by (simp add: db_ok_def st')
qed

lemma db_ok_claim:
  assumes "claim_next_recipient log_id draw a now st = (Claimed cl, st')" and "db_ok st"
  shows "db_ok st'"
proof -
  from claim_next_effect [OF assms(1)] obtain p where
    p: "p \<in> set (claim_candidates st a now) \<and> log_id \<notin> l_id ` set (send_log st)
     \<and> cl = claim_of log_id a p
     \<and> st' = st\<lparr>send_log := send_log st @ [log_claim log_id a (fst p) now],
                recipients := update_where (claimable (r_id (fst p))) (sending_row now) (recipients st)\<rparr>"
    by (rule exE)
  then have id: "log_id \<notin> l_id ` set (send_log st)"
    and st': "st' = st\<lparr>send_log := send_log st @ [log_claim log_id a (fst p) now],
       recipients := update_where (claimable (r_id (fst p))) (sending_row now) (recipients st)\<rparr>"
    by simp_all
  have "db_ok (st\<lparr>send_log := send_log st @ [log_claim log_id a (fst p) now]\<rparr>)"
    using assms(2) id by (simp add: db_ok_def log_claim_def)
  from db_ok_recipients [OF this, of "sending_row now" "claimable (r_id (fst p))"]
  show ?thesis by (simp add: st' sending_row_def)
qed

lemma step_db_ok: "step w w' \<Longrightarrow> db_ok (world_db w) \<Longrightarrow> db_ok (world_db w')"
proof (induction rule: step.induct)
  case (step_claim w now log_id draw a cl st)
  then show ?case by (auto intro: db_ok_claim)
next
  case (step_no_claim w now log_id draw a res st)
  then show ?case by (auto dest: no_claim_same)
next
  case (step_replace w now fresh campaign inputs st)
  have ok: "recipients_ok (recipients (world_db w))" using step_replace.prems by (simp add: db_ok_alt)
  from replace_ok [OF step_replace.hyps(2) ok step_replace.hyps(3)] obtain deduped where
    r: "recipients_ok (recipients st)" and
    st: "st = delete_recipients (stale_recipient campaign deduped) (world_db w)\<lparr>recipients := recipients st\<rparr>"
    by blast
  have "db_ok (delete_recipients (stale_recipient campaign deduped) (world_db w)\<lparr>recipients := recipients st\<rparr>)"
    using r step_replace.prems by (simp add: db_ok_alt delete_recipients_def Let_def distinct_map_filter)
  then have "db_ok st" using st by simp
  then show ?case by simp
next
  case (step_duplicate w now fresh src actor c st)
  have ok: "campaigns_ok (campaigns (world_db w))" "recipients_ok (recipients (world_db w))"
    using step_duplicate.prems by (simp_all add: db_ok_alt)
  from duplicate_result [OF step_duplicate.hyps(3) ok(1)] duplicate_ok [OF step_duplicate.hyps(2) ok(2)]
    step_duplicate.prems
  show ?case by (auto simp: db_ok_alt)
next
  case (step_crash_and_start w now ds)
  have "db_ok (world_db w\<lparr>recipients := update_where p (interrupt_row now) (recipients (world_db w))\<rparr>)" for p
    by (rule db_ok_recipients [OF step_crash_and_start.prems]) (simp add: interrupt_row_def)
  then show ?case by (simp add: reconcile_stuck_sending_def)
next
  case (step_retry w now campaign ids)
  have "db_ok (world_db w\<lparr>recipients := update_where p (retry_row now) (recipients (world_db w))\<rparr>)" for p
    by (rule db_ok_recipients [OF step_retry.prems]) (simp add: retry_row_def)
  then show ?case by (simp add: retry_failed_recipients_def)
next
  case (step_suppress w now a identity why)
  have "db_ok (world_db w\<lparr>recipients := update_where p (skip_row why now) (recipients (world_db w))\<rparr>)" for p
    by (rule db_ok_recipients [OF step_suppress.prems]) (simp add: skip_row_def)
  then show ?case by (simp add: suppress_pending_for_identity_def)
next
  case (step_create w now c0 new_id c st)
  then show ?case
    using create_same [OF step_create.hyps(2)] db_ok_same_sends by (auto simp: db_ok_alt)
next
  case (step_update w now fresh i patch c st)
  then show ?case
    using update_same [OF step_update.hyps(2)] db_ok_same_sends by (auto simp: db_ok_alt)
next
  case (step_status w now new_id i to actor event detail c st)
  then show ?case
    using status_same [OF step_status.hyps(2)] db_ok_same_sends by (auto simp: db_ok_alt)
next
  case (step_auto_pause w now fresh a why n st)
  then show ?case
    using auto_pause_same [OF step_auto_pause.hyps(2)] db_ok_same_sends by (auto simp: db_ok_alt)
next
  case (step_prune w now)
  then show ?case by (simp add: prune_campaign_send_log_def db_ok_alt distinct_map_filter)
qed (auto intro: db_ok_finalize db_ok_delete_campaign db_ok_limits)

section \<open>At most once\<close>

definition open_ids :: "world \<Rightarrow> uuid set" where
  "open_ids w = cl_recipient ` set (inflight w)
     \<union> r_id ` {r \<in> set (recipients (world_db w)). r_status r = RecipientPending}"

definition once_inv :: "world \<Rightarrow> bool" where
  "once_inv w \<longleftrightarrow> db_ok (world_db w)
     \<and> distinct (map cl_recipient (inflight w))
     \<and> (\<forall>cl \<in> set (inflight w). \<forall>r \<in> set (recipients (world_db w)).
          r_id r = cl_recipient cl \<longrightarrow> r_status r = RecipientSending)
     \<and> (\<forall>i. count_list (delivered w) i \<le> Suc (excused w i))
     \<and> (\<forall>i \<in> open_ids w. count_list (delivered w) i \<le> excused w i)"

declare excused_def [simp]

lemma once_quiet:
  assumes inv: "once_inv w" and ok: "db_ok st"
    and q: "quiet (used_ids w) (recipients (world_db w)) (recipients st)"
  shows "once_inv (w\<lparr>world_db := st, clock := now\<rparr>)"
proof -
  let ?rs = "recipients (world_db w)"
  have old: "(\<exists>r \<in> set ?rs. r_id r = r_id r' \<and> (r_status r' = r_status r \<or>
        r_status r = RecipientPending \<and> r_status r' = RecipientSkipped))
      \<or> r_status r' = RecipientPending \<and> r_id r' \<notin> used_ids w" if "r' \<in> set (recipients st)" for r'
    using q that unfolding quiet_def by blast
  have send: "r_status r' = RecipientSending"
    if c: "cl \<in> set (inflight w)" and r': "r' \<in> set (recipients st)" "r_id r' = cl_recipient cl" for cl r'
    using old [OF r'(1)]
  proof
    assume "r_status r' = RecipientPending \<and> r_id r' \<notin> used_ids w"
    with c r' show ?thesis by (auto simp: used_ids_def)
  next
    assume "\<exists>r \<in> set ?rs. r_id r = r_id r' \<and> (r_status r' = r_status r \<or>
        r_status r = RecipientPending \<and> r_status r' = RecipientSkipped)"
    then obtain r where "r \<in> set ?rs" "r_id r = cl_recipient cl" "r_status r' = r_status r \<or>
        r_status r = RecipientPending" using r'(2) by auto
    with inv c show ?thesis by (auto simp: once_inv_def)
  qed
  have open1: "count_list (delivered w) i \<le> excused w i"
    if i: "i \<in> open_ids (w\<lparr>world_db := st, clock := now\<rparr>)" for i
  proof (cases "i \<in> open_ids w")
    case True
    then show ?thesis using inv by (simp add: once_inv_def)
  next
    case False
    with i obtain r' where r': "r' \<in> set (recipients st)" "r_status r' = RecipientPending" "r_id r' = i"
      by (auto simp: open_ids_def)
    have "i \<notin> used_ids w"
    proof (rule ccontr)
      assume "\<not> i \<notin> used_ids w"
      with old [OF r'(1)] r' obtain r where "r \<in> set ?rs" "r_id r = i" "r_status r = RecipientPending"
        by auto
      with False show False by (auto simp: open_ids_def)
    qed
    then have "count_list (delivered w) i = 0" by (simp add: used_ids_def count_list_0_iff)
    then show ?thesis by simp
  qed
  show ?thesis using inv ok send open1 by (simp add: once_inv_def)
qed

text \<open>A claim that is settled, by \<open>FinalizeAttempt\<close> or not at all.\<close>

lemma once_settle:
  assumes inv: "once_inv w" and cl: "cl \<in> set (inflight w)"
    and ok: "db_ok st"
    and rows: "\<And>r'. r' \<in> set (recipients st) \<Longrightarrow> \<exists>r \<in> set (recipients (world_db w)).
        r_id r = r_id r' \<and> (r_status r' = r_status r \<or> r_id r = cl_recipient cl)"
    and ds: "ds = [] \<or> ds = [cl_recipient cl]" and ms: "ms = [] \<or> ms = ds"
    and once: "ds \<noteq> [] \<Longrightarrow> ms = [] \<Longrightarrow>
        \<forall>r' \<in> set (recipients st). r_id r' = cl_recipient cl \<longrightarrow> r_status r' \<noteq> RecipientPending"
  shows "once_inv (w\<lparr>world_db := st, inflight := remove1 cl (inflight w), delivered := ds @ delivered w,
           misreported := ms @ misreported w, clock := now\<rparr>)"
proof -
  let ?w = "w\<lparr>world_db := st, inflight := remove1 cl (inflight w), delivered := ds @ delivered w,
           misreported := ms @ misreported w, clock := now\<rparr>"
  let ?i = "cl_recipient cl"
  have dist: "distinct (map cl_recipient (inflight w))" using inv by (simp add: once_inv_def)
  have sub: "set (remove1 cl (inflight w)) \<subseteq> set (inflight w)" by (rule set_remove1_subset)
  have gone: "?i \<notin> cl_recipient ` set (remove1 cl (inflight w))"
    using dist cl by (auto simp: distinct_map inj_on_def)
  have dist': "distinct (map cl_recipient (remove1 cl (inflight w)))"
    using dist by (auto simp: distinct_map inj_on_def)
  have send: "r_status r' = RecipientSending"
    if c: "c \<in> set (remove1 cl (inflight w))" and r': "r' \<in> set (recipients st)" "r_id r' = cl_recipient c"
    for c r'
  proof -
    from rows [OF r'(1)] obtain r where r: "r \<in> set (recipients (world_db w))" "r_id r = r_id r'"
      "r_status r' = r_status r \<or> r_id r = ?i" by blast
    have "cl_recipient c \<noteq> ?i" using gone c by (metis imageI)
    with r r'(2) have "r_status r' = r_status r" by simp
    moreover have "r_status r = RecipientSending" using inv sub c r r'(2) by (auto simp: once_inv_def)
    ultimately show ?thesis by simp
  qed
  have now1: "count_list (delivered w) ?i \<le> excused w ?i"
    using inv cl by (auto simp: once_inv_def open_ids_def)
  have all: "count_list (delivered ?w) j \<le> Suc (excused ?w j)" for j
    using inv now1 ds ms by (cases "j = ?i") (auto simp: once_inv_def le_Suc_eq trans_le_add2)
  have open1: "count_list (delivered ?w) j \<le> excused ?w j" if j: "j \<in> open_ids ?w" for j
  proof (cases "j = ?i")
    case True
    with j gone obtain r' where "r' \<in> set (recipients st)" "r_id r' = ?i" "r_status r' = RecipientPending"
      by (auto simp: open_ids_def)
    with once have "ds = [] \<or> ms \<noteq> []" by blast
    with ds ms now1 True show ?thesis by auto
  next
    case False
    have "j \<in> open_ids w"
    proof (cases "j \<in> cl_recipient ` set (remove1 cl (inflight w))")
      case True
      then show ?thesis using sub by (auto simp: open_ids_def)
    next
      case False
      with j obtain r' where r': "r' \<in> set (recipients st)" "r_id r' = j" "r_status r' = RecipientPending"
        by (auto simp: open_ids_def)
      from rows [OF r'(1)] obtain r where "r \<in> set (recipients (world_db w))" "r_id r = j"
        "r_status r = RecipientPending" using r' \<open>j \<noteq> ?i\<close> by auto
      then show ?thesis by (auto simp: open_ids_def)
    qed
    then have "count_list (delivered w) j \<le> excused w j" using inv by (simp add: once_inv_def)
    then show ?thesis using ds ms False by auto
  qed
  show ?thesis using ok dist' send all open1 by (simp add: once_inv_def)
qed

lemma once_claim:
  assumes inv: "once_inv w" and c: "claim_next_recipient log_id draw a now (world_db w) = (Claimed cl, st)"
  shows "once_inv (w\<lparr>world_db := st, inflight := cl # inflight w,
           history := h, clock := now\<rparr>)"
proof -
  from claim_next_effect [OF c] obtain p where
    p: "p \<in> set (claim_candidates (world_db w) a now)" and clp: "cl = claim_of log_id a p"
    and st: "st = world_db w\<lparr>send_log := send_log (world_db w) @ [log_claim log_id a (fst p) now],
        recipients := update_where (claimable (r_id (fst p))) (sending_row now) (recipients (world_db w))\<rparr>"
    by blast
  obtain r where r: "fst p = r" "r \<in> set (recipients (world_db w))" "r_status r = RecipientPending"
    using candidate_eligible [OF p] by (auto simp: eligible_def split: prod.splits)
  have i: "cl_recipient cl = r_id r" using clp r(1) by (cases p) (simp add: claim_of_def)
  have op: "r_id r \<in> open_ids w" using r by (auto simp: open_ids_def)
  have ok: "db_ok st" by (rule db_ok_claim [OF c]) (use inv in \<open>simp add: once_inv_def\<close>)
  have fresh: "r_id r \<notin> cl_recipient ` set (inflight w)"
    using inv r by (force simp: once_inv_def)
  have ids: "distinct (map r_id (recipients (world_db w)))"
    using inv by (simp add: once_inv_def db_ok_def)
  have rows: "set (recipients st) = (\<lambda>q. if q = r then sending_row now q else q) ` set (recipients (world_db w))"
    using ids r by (auto simp: st set_update_where claimable_def distinct_map inj_on_def image_iff)
  have send: "r_status q = RecipientSending"
    if "c \<in> set (cl # inflight w)" "q \<in> set (recipients st)" "r_id q = cl_recipient c" for c q
  proof -
    from that(2) rows obtain q0 where q0: "q0 \<in> set (recipients (world_db w))"
      "q = (if q0 = r then sending_row now q0 else q0)" by blast
    show ?thesis
    proof (cases "q0 = r")
      case True
      then show ?thesis using q0 by (simp add: sending_row_def)
    next
      case False
      have "r_id q0 \<noteq> r_id r" using ids q0(1) r(2) False by (auto simp: distinct_map inj_on_def)
      with that i q0 False have "c \<in> set (inflight w)" by auto
      then show ?thesis using inv q0 False that(3) by (simp add: once_inv_def)
    qed
  qed
  have "open_ids (w\<lparr>world_db := st, inflight := cl # inflight w, history := h, clock := now\<rparr>) \<subseteq> open_ids w"
    using rows i op by (auto simp: open_ids_def sending_row_def split: if_splits)
  then show ?thesis using inv ok fresh i send by (auto simp: once_inv_def)
qed

lemma count_distinct: "distinct xs \<Longrightarrow> count_list xs j \<le> 1"
proof (induction xs)
  case (Cons x xs)
  then show ?case by (cases "x = j") (auto simp: count_list_0_iff)
qed simp

lemma subseq_sub: "subseq xs ys \<Longrightarrow> set xs \<subseteq> set ys \<and> (distinct ys \<longrightarrow> distinct xs)"
  by (induction rule: list_emb.induct) auto

lemma once_crash:
  assumes inv: "once_inv w" and ds: "subseq ds (map cl_recipient (inflight w))"
    and ok: "db_ok (snd (reconcile_stuck_sending now (world_db w)))"
  shows "once_inv (w\<lparr>world_db := snd (reconcile_stuck_sending now (world_db w)), inflight := [],
           delivered := ds @ delivered w, clock := now\<rparr>)"
proof -
  let ?w = "w\<lparr>world_db := snd (reconcile_stuck_sending now (world_db w)), inflight := [],
           delivered := ds @ delivered w, clock := now\<rparr>"
  have dd: "distinct ds" "set ds \<subseteq> cl_recipient ` set (inflight w)"
    using inv subseq_sub [OF ds] by (auto simp: once_inv_def)
  have c1: "count_list ds j \<le> 1" for j
    by (rule count_distinct [OF dd(1)])
  have in_open: "count_list (delivered w) j \<le> excused w j" if "j \<in> set ds" for j
    using inv that dd(2) by (auto simp: once_inv_def open_ids_def)
  have all: "count_list (delivered ?w) j \<le> Suc (excused ?w j)" for j
  proof (cases "j \<in> set ds")
    case True
    then show ?thesis using in_open [OF True] c1 [of j] by simp
  next
    case False
    then show ?thesis using inv by (simp add: once_inv_def count_list_0_iff)
  qed
  have open1: "count_list (delivered ?w) j \<le> excused ?w j" if j: "j \<in> open_ids ?w" for j
  proof -
    from j obtain r where r: "r \<in> set (recipients (world_db w))" "r_status r = RecipientPending" "r_id r = j"
      by (auto simp: open_ids_def reconcile_stuck_sending_def set_update_where interrupt_row_def split: if_splits)
    have "j \<notin> cl_recipient ` set (inflight w)"
      using inv r by (force simp: once_inv_def)
    then have "count_list ds j = 0" using dd(2) by (auto simp: count_list_0_iff)
    moreover have "j \<in> open_ids w" using r by (auto simp: open_ids_def)
    ultimately show ?thesis using inv by (simp add: once_inv_def)
  qed
  show ?thesis using ok all open1 by (simp add: once_inv_def)
qed

lemma once_retry:
  assumes inv: "once_inv w" and ok: "db_ok (snd (retry_failed_recipients campaign ids now (world_db w)))"
  shows "once_inv (w\<lparr>world_db := snd (retry_failed_recipients campaign ids now (world_db w)),
           retried := retried_by campaign ids (world_db w) @ retried w, clock := now\<rparr>)"
proof -
  let ?w = "w\<lparr>world_db := snd (retry_failed_recipients campaign ids now (world_db w)),
           retried := retried_by campaign ids (world_db w) @ retried w, clock := now\<rparr>"
  have send: "r_status q = RecipientSending" if "cl \<in> set (inflight w)" "q \<in> set (recipients (world_db ?w))"
      "r_id q = cl_recipient cl" for cl q
    using that inv
    by (auto simp: retry_failed_recipients_def set_update_where retry_row_def retry_selected_def once_inv_def
        split: if_splits)
  have open1: "count_list (delivered ?w) j \<le> excused ?w j" if j: "j \<in> open_ids ?w" for j
  proof (cases "j \<in> open_ids w")
    case True
    then show ?thesis using inv by (auto simp: once_inv_def intro: trans_le_add2)
  next
    case False
    with j obtain r where "r \<in> set (recipients (world_db w))" "retry_selected campaign ids r" "r_id r = j"
      by (auto simp: open_ids_def retry_failed_recipients_def set_update_where retry_row_def split: if_splits)
    then have "j \<in> set (retried_by campaign ids (world_db w))" by (auto simp: retried_by_def)
    then have "Suc 0 \<le> count_list (retried_by campaign ids (world_db w)) j"
      by (simp add: count_list_0_iff Suc_le_eq flip: neq0_conv)
    moreover have "count_list (delivered w) j \<le> Suc (excused w j)"
      using inv by (simp add: once_inv_def)
    ultimately show ?thesis by simp
  qed
  have all: "count_list (delivered ?w) i \<le> Suc (excused ?w i)" for i
  proof -
    have "count_list (delivered w) i \<le> Suc (excused w i)" using inv by (simp add: once_inv_def)
    also have "\<dots> \<le> Suc (excused ?w i)" by simp
    finally show ?thesis by simp
  qed
  show ?thesis using inv ok send all open1 by (simp add: once_inv_def)
qed

lemma quiet_step_suppress:
  "quiet used rs (update_where (suppressed_by st a identity) (skip_row why now) rs)"
  by (force simp: quiet_def set_update_where suppressed_by_def skip_row_def)

lemma delete_campaign_recipients:
  "delete_campaign i st = Inr st' \<Longrightarrow> recipients st' = filter (\<lambda>r. r_campaign r \<noteq> i) (recipients st)"
  by (auto simp: delete_campaign_def Let_def split: if_splits)

lemma finalize_rows:
  assumes "r' \<in> set (recipients (finalize_attempt p now st))"
  shows "\<exists>r \<in> set (recipients st). r_id r = r_id r' \<and> (r_status r' = r_status r \<or> r_id r = f_recipient p)"
    and "r_id r' = f_recipient p \<Longrightarrow> r_status r' = f_status p"
  using assms
  by (auto simp: finalize_attempt_def Let_def set_update_where finalize_row_def split: if_splits)

lemma step_once: "step w w' \<Longrightarrow> once_inv w \<Longrightarrow> once_inv w'"
proof -
  assume s: "step w w'" and inv: "once_inv w"
  have ok0: "db_ok (world_db w)" using inv by (simp add: once_inv_def)
  have ok: "db_ok (world_db w')" by (rule step_db_ok [OF s ok0])
  have rok: "recipients_ok (recipients (world_db w))" "campaigns_ok (campaigns (world_db w))"
    using ok0 by (simp_all add: db_ok_alt)
  note Q = once_quiet [OF inv]
  from s inv ok ok0 show ?thesis
  proof cases
    case (step_claim now log_id draw a cl st)
    then show ?thesis using once_claim [OF inv step_claim(4)] by simp
  next
    case (step_no_claim now log_id draw a res st)
    have "st = world_db w" by (rule no_claim_same [OF step_no_claim(4,5)])
    then show ?thesis using step_no_claim(1) Q [OF ok0 quiet_refl, of now] by simp
  next
    case (step_sent now cl p)
    then show ?thesis
      using once_settle [OF inv step_sent(3), of "finalize_attempt p now (world_db w)" "[cl_recipient cl]" "[]" now]
        ok finalize_rows [of _ p now "world_db w"] by auto
  next
    case (step_send_failed now cl p got)
    let ?ds = "if got then [cl_recipient cl] else []"
    have "once_inv (w\<lparr>world_db := finalize_attempt p now (world_db w), inflight := remove1 cl (inflight w),
        delivered := ?ds @ delivered w, misreported := ?ds @ misreported w, clock := now\<rparr>)"
      by (rule once_settle [OF inv step_send_failed(3)])
        (use step_send_failed ok finalize_rows [of _ p now "world_db w"] in auto)
    then show ?thesis unfolding step_send_failed(1) by simp
  next
    case (step_finalize_lost now cl sent)
    have np: "\<forall>r' \<in> set (recipients (world_db w)). r_id r' = cl_recipient cl \<longrightarrow> r_status r' \<noteq> RecipientPending"
      using inv step_finalize_lost(3) by (auto simp: once_inv_def)
    have "once_inv (w\<lparr>world_db := world_db w, inflight := remove1 cl (inflight w),
        delivered := (if sent then [cl_recipient cl] else []) @ delivered w,
        misreported := [] @ misreported w, clock := now\<rparr>)"
      by (rule once_settle [OF inv step_finalize_lost(3) ok0]) (use np in auto)
    then show ?thesis unfolding step_finalize_lost(1) by simp
  next
    case (step_crash_and_start now ds)
    then show ?thesis using once_crash [OF inv step_crash_and_start(3), of now] ok by simp
  next
    case (step_retry now campaign ids)
    then show ?thesis using once_retry [OF inv, of campaign ids now] ok by simp
  next
    case (step_suppress now a identity why)
    then show ?thesis using Q ok quiet_step_suppress by (simp add: suppress_pending_for_identity_def)
  next
    case (step_replace now fresh campaign inputs st)
    then show ?thesis using Q ok replace_ok [OF step_replace(3) rok(1) step_replace(4)] by auto
  next
    case (step_duplicate now fresh src actor c st)
    then show ?thesis
      using Q ok duplicate_result [OF step_duplicate(4) rok(2)] duplicate_ok [OF step_duplicate(3) rok(1)]
      by fastforce
  next
    case (step_create now c0 new_id c st)
    then show ?thesis using Q ok create_same [OF step_create(3) rok(2)] by (simp add: same_sends_def)
  next
    case (step_delete now i st)
    then show ?thesis using Q ok delete_campaign_recipients [OF step_delete(3)] by simp
  next
    case (step_update now fresh i patch c st)
    then show ?thesis using Q ok update_same [OF step_update(3) rok(2)] by (simp add: same_sends_def)
  next
    case (step_status now new_id i to actor event detail c st)
    then show ?thesis using Q ok status_same [OF step_status(3) rok(2)] by (simp add: same_sends_def)
  next
    case (step_auto_pause now fresh a why n st)
    then show ?thesis using Q ok auto_pause_same [OF step_auto_pause(3) rok(2)] by (simp add: same_sends_def)
  next
    case (step_limits now fresh a s tiers ws res st)
    moreover have "recipients st = recipients (world_db w)"
      using step_limits(3) by (auto simp: set_campaign_account_limits_def Let_def split: if_splits)
    ultimately show ?thesis using Q ok by simp
  next
    case (step_prune now)
    then show ?thesis using Q ok by (simp add: prune_campaign_send_log_def)
  qed
qed

lemma once_start: "db_ok st \<Longrightarrow> once_inv (start_world st)"
  by (simp add: once_inv_def start_world_def)

lemma once_reachable: "step\<^sup>*\<^sup>* w w' \<Longrightarrow> once_inv w \<Longrightarrow> once_inv w'"
  by (induction rule: rtranclp_induct) (blast intro: step_once)+

lemma claim_no_panic:
  assumes "db_ok st"
  shows "fst (claim_next_recipient log_id draw a now st) \<noteq> ClaimPanic"
proof (cases "first_open st a now (claim_candidates st a now)")
  case None
  then show ?thesis by (simp add: claim_next_recipient_def Let_def)
next
  case (Some p)
  then have "p \<in> set (claim_candidates st a now)"
    by (auto simp: first_open_def Let_def find_Some_iff dest: nth_mem)
  from pace_for_ok [OF assms this] obtain iv jt where "pace_for st a p = Override iv jt" by blast
  with Some show ?thesis by (simp add: claim_next_recipient_def Let_def)
qed

text \<open>
  C3: from a database that satisfies the schema, every sequence of campaign operations, sends,
  crashes and restarts leads to databases that satisfy it again: unique campaigns, recipients,
  identities within a campaign and log rows, pace overrides set in pairs, positive tiers. In
  particular the claim's dereference of the jitter override never meets a null pointer.
\<close>

theorem schema_is_invariant:
  assumes "db_ok st" and "step\<^sup>*\<^sup>* (start_world st) w"
  shows "db_ok (world_db w)
    \<and> fst (claim_next_recipient log_id draw a now (world_db w)) \<noteq> ClaimPanic"
proof -
  have "once_inv w" using once_reachable [OF assms(2) once_start [OF assms(1)]] .
  then have "db_ok (world_db w)" by (simp add: once_inv_def)
  with claim_no_panic show ?thesis by blast
qed

text \<open>A claim, and the claim followed by an accepted send.\<close>

definition sample_claim :: "claim_result \<times> db" where
  "sample_claim = claim_next_recipient 5 0 9 (seconds 100) one_pending"

lemma sample_run:
  obtains cl st where "sample_claim = (Claimed cl, st)" "cl_recipient cl = 2"
    and "step (start_world one_pending)
      ((start_world one_pending)\<lparr>world_db := st, inflight := [cl],
         history := [(5, 9, db_time (seconds 100))], clock := seconds 100\<rparr>)"
proof -
  obtain cl st where c: "sample_claim = (Claimed cl, st)" "cl_recipient cl = 2"
    using one_pending_claim by (cases sample_claim) (auto simp: sample_claim_def claimed_id_Some)
  have "step (start_world one_pending) ((start_world one_pending)\<lparr>world_db := st,
      inflight := cl # inflight (start_world one_pending),
      history := (5, 9, db_time (seconds 100)) # history (start_world one_pending), clock := seconds 100\<rparr>)"
    by (rule step_claim) (use c in \<open>auto simp: sample_claim_def start_world_def zero_time_def seconds_def\<close>)
  with c show thesis by (intro that) (simp_all add: start_world_def)
qed

lemma schema_is_invariant_witness:
  "\<exists>w. step\<^sup>*\<^sup>* (start_world one_pending) w \<and> inflight w \<noteq> [] \<and> db_ok (world_db w)"
proof -
  obtain cl st where "step (start_world one_pending)
      ((start_world one_pending)\<lparr>world_db := st, inflight := [cl],
         history := [(5, 9, db_time (seconds 100))], clock := seconds 100\<rparr>)"
    using sample_run by blast
  then have r: "step\<^sup>*\<^sup>* (start_world one_pending) ((start_world one_pending)\<lparr>world_db := st, inflight := [cl],
         history := [(5, 9, db_time (seconds 100))], clock := seconds 100\<rparr>)" by blast
  from schema_is_invariant [OF one_pending_ok r] r show ?thesis
    by (intro exI conjI) (assumption, simp_all)
qed

text \<open>
  C1: a recipient is sent to twice only for a stated reason. In every world that campaign
  operations, sends, lost outcomes and crashes with restarts can reach, a recipient has been
  delivered to at most once, plus once for each time an operator explicitly retried it, plus once for
  each of its sends that the provider accepted although the runner was told of an error; a crash, a
  restart or an outcome that could not be recorded adds nothing. At most one send per recipient is in
  flight, and while it is, its row says \<open>sending\<close>.
\<close>

theorem at_most_once:
  assumes "db_ok st" and "step\<^sup>*\<^sup>* (start_world st) w"
  shows "count_list (delivered w) i \<le> 1 + count_list (retried w) i + count_list (misreported w) i
    \<and> distinct (map cl_recipient (inflight w))
    \<and> (\<forall>cl \<in> set (inflight w). \<forall>r \<in> set (recipients (world_db w)).
         r_id r = cl_recipient cl \<longrightarrow> r_status r = RecipientSending)"
  using once_reachable [OF assms(2) once_start [OF assms(1)]] by (simp add: once_inv_def)

lemma at_most_once_witness:
  "\<exists>w. step\<^sup>*\<^sup>* (start_world one_pending) w \<and> delivered w = [2] \<and> retried w = [] \<and> misreported w = []
     \<and> count_list (delivered w) 2 \<le> 1"
proof -
  obtain cl st where cl: "cl_recipient cl = 2" and s: "step (start_world one_pending)
      ((start_world one_pending)\<lparr>world_db := st, inflight := [cl],
         history := [(5, 9, db_time (seconds 100))], clock := seconds 100\<rparr>)" (is "step _ ?w1")
    using sample_run by blast
  let ?p = "\<lparr>f_log = cl_log cl, f_recipient = 2, f_status = RecipientSent, f_reason = '''',
      f_chat = None, f_message = None, f_next = None\<rparr>"
  let ?w2 = "?w1\<lparr>world_db := finalize_attempt ?p (seconds 101) (world_db ?w1),
      inflight := remove1 cl (inflight ?w1), delivered := cl_recipient cl # delivered ?w1,
      clock := seconds 101\<rparr>"
  have "step ?w1 ?w2" by (rule step_sent) (simp_all add: cl seconds_def)
  with s have r: "step\<^sup>*\<^sup>* (start_world one_pending) ?w2" by (rule converse_rtranclp_into_rtranclp [OF _ r_into_rtranclp])
  have "delivered ?w2 = [2]" "retried ?w2 = []" "misreported ?w2 = []" by (simp_all add: cl start_world_def)
  with at_most_once [OF one_pending_ok r, of 2] r show ?thesis
    by (intro exI [of _ ?w2] conjI) simp_all
qed

end
