(* ===== verification/Campaign_Cap.thy ===== *)
theory Campaign_Cap
  imports Campaign_Runs
begin

text \<open>
  The rolling caps hold along every run: an account never makes more campaign sends than a tier
  allows inside any window of the tier's length, whatever the interleaving of operations, as long
  as the tier stays configured and no recipient with a logged attempt is deleted.
\<close>

section \<open>Histories and logs\<close>

definition sends_in :: "(uuid \<times> uuid \<times> gotime) list \<Rightarrow> uuid \<Rightarrow> gotime \<Rightarrow> gotime \<Rightarrow> (uuid \<times> uuid \<times> gotime) list" where
  "sends_in h a lo hi = filter (\<lambda>(i, b, at). b = a \<and> lo < at \<and> at \<le> hi) h"

text \<open>The steps the theorem speaks of.\<close>

definition tame_step :: "uuid \<Rightarrow> tier \<Rightarrow> world \<Rightarrow> world \<Rightarrow> bool" where
  "tame_step a t w w' \<longleftrightarrow> step w w'
     \<and> (\<forall>ch. t \<in> set (campaign_account_limits (world_db w) a ch))
     \<and> (\<forall>l \<in> set (send_log (world_db w)). l_recipient l \<in> r_id ` set (recipients (world_db w')))"

definition logged :: "db \<Rightarrow> uuid \<times> uuid \<times> gotime \<Rightarrow> bool" where
  "logged st p \<longleftrightarrow> (\<exists>l \<in> set (send_log st).
     (l_id l, l_account l, l_at l) = p \<and> l_origin l = OriginCampaign)"

definition cap_inv :: "uuid \<Rightarrow> tier \<Rightarrow> world \<Rightarrow> bool" where
  "cap_inv a t w \<longleftrightarrow> once_inv w
     \<and> distinct (map fst (history w))
     \<and> (\<forall>p \<in> set (history w). snd (snd p) \<le> db_time (clock w) \<and> snd (snd p) mod 1000000 = 0)
     \<and> (\<forall>p \<in> set (history w). snd (snd p) > clock w - seconds max_tier_window \<longrightarrow> logged (world_db w) p)
     \<and> (\<forall>x. int (length (sends_in (history w) a (x - seconds (window_seconds t)) x)) \<le> max_sends t)"

lemma logged_mono:
  "logged st p \<Longrightarrow> (\<And>l. l \<in> set (send_log st) \<Longrightarrow> l_at l = snd (snd p) \<Longrightarrow>
      \<exists>l' \<in> set (send_log st'). l_id l' = l_id l \<and> l_account l' = l_account l \<and> l_at l' = l_at l
        \<and> l_origin l' = l_origin l) \<Longrightarrow> logged st' p"
  unfolding logged_def by fastforce

lemma same_log: "send_log st' = send_log st \<Longrightarrow> logged st' p \<longleftrightarrow> logged st p"
  by (simp add: logged_def)

lemma mem_update_where: "x \<in> set xs \<Longrightarrow> (if p x then f x else x) \<in> set (update_where p f xs)"
  by (auto simp: set_update_where)

lemma finalize_log:
  assumes "logged st q"
  shows "logged (finalize_attempt p now st) q"
proof (rule logged_mono [OF assms])
  fix l assume l: "l \<in> set (send_log st)"
  define l' where "l' = (if f_status p = RecipientSent
      then (if l_id l = f_log p then log_sent l else l) else l)"
  have "l' \<in> set (send_log (finalize_attempt p now st))"
    using mem_update_where [OF l, of "\<lambda>l. l_id l = f_log p" log_sent] l
    by (simp add: l'_def finalize_attempt_def Let_def)
  moreover have "l_id l' = l_id l \<and> l_account l' = l_account l \<and> l_at l' = l_at l \<and> l_origin l' = l_origin l"
    by (simp add: l'_def log_sent_def)
  ultimately show "\<exists>l' \<in> set (send_log (finalize_attempt p now st)). l_id l' = l_id l \<and>
      l_account l' = l_account l \<and> l_at l' = l_at l \<and> l_origin l' = l_origin l" by blast
qed

lemma distinct_ids_part:
  assumes "distinct (map r_id rs)" and "r_id r = r_id r'" and "r \<in> set rs" "r' \<in> set rs"
  shows "r = r'"
  using assms by (auto simp: distinct_map inj_on_def)

text \<open>Every step keeps the recent log rows, provided no attempted recipient disappears.\<close>

lemma delete_keeps_log:
  assumes "delete_campaign i st = Inr st'" and "distinct (map r_id (recipients st))"
    and "\<forall>l \<in> set (send_log st). l_recipient l \<in> r_id ` set (recipients st')"
  shows "send_log st' = send_log st"
proof -
  from assms(1) have none: "\<forall>l \<in> set (send_log st). l_campaign l \<noteq> i"
    and rs: "recipients st' = filter (\<lambda>r. r_campaign r \<noteq> i) (recipients st)"
    and log: "send_log st' = filter (\<lambda>l. l_campaign l \<noteq> i \<and>
      l_recipient l \<notin> r_id ` set (filter (\<lambda>r. r_campaign r = i) (recipients st))) (send_log st)"
    by (auto simp: delete_campaign_def Let_def filter_empty_conv split: if_splits)
  have "l_recipient l \<notin> r_id ` set (filter (\<lambda>r. r_campaign r = i) (recipients st))"
    if "l \<in> set (send_log st)" for l
    using assms(3) that distinct_ids_part [OF assms(2)] by (fastforce simp: rs)
  with none show ?thesis by (simp add: log filter_id_conv)
qed

lemma replace_keeps_log:
  assumes "fresh_ids w fresh" and "recipients_ok (recipients (world_db w))"
    and "replace_campaign_recipients fresh campaign inputs now (world_db w) = Inr st"
    and "\<forall>l \<in> set (send_log (world_db w)). l_recipient l \<in> r_id ` set (recipients st)"
  shows "send_log st = send_log (world_db w)"
proof -
  let ?rs = "recipients (world_db w)"
  from replace_ok [OF assms(1,2,3)] obtain deduped where
    st: "st = delete_recipients (stale_recipient campaign deduped) (world_db w)\<lparr>recipients := recipients st\<rparr>"
    and ids: "r_id ` set (recipients st) \<subseteq>
      r_id ` set (filter (\<lambda>r. \<not> stale_recipient campaign deduped r) ?rs) \<union> range fresh"
    by blast
  have log: "send_log st = filter (\<lambda>l. l_recipient l \<notin>
      r_id ` set (filter (stale_recipient campaign deduped) ?rs)) (send_log (world_db w))"
    by (subst st) (simp add: delete_recipients_def Let_def)
  have dist: "distinct (map r_id ?rs)" using assms(2) by (simp add: recipients_ok_def)
  have "l_recipient l \<notin> r_id ` set (filter (stale_recipient campaign deduped) ?rs)"
    if l: "l \<in> set (send_log (world_db w))" for l
  proof
    assume "l_recipient l \<in> r_id ` set (filter (stale_recipient campaign deduped) ?rs)"
    then obtain r where r: "r \<in> set ?rs" "stale_recipient campaign deduped r" "l_recipient l = r_id r"
      by auto
    from assms(4) l have "l_recipient l \<in> r_id ` set (recipients st)" by blast
    with ids have "l_recipient l \<in> r_id ` set (filter (\<lambda>r. \<not> stale_recipient campaign deduped r) ?rs)
        \<or> l_recipient l \<in> range fresh" by blast
    then show False
    proof
      assume "l_recipient l \<in> range fresh"
      then obtain i where "fresh i = r_id r" using r(3) by auto
      moreover have "r_id r \<in> used_ids w" using r(1) by (simp add: used_ids_def)
      ultimately show False using assms(1) by (metis fresh_ids_def)
    next
      assume "l_recipient l \<in> r_id ` set (filter (\<lambda>r. \<not> stale_recipient campaign deduped r) ?rs)"
      then obtain q where "q \<in> set ?rs" "\<not> stale_recipient campaign deduped q" "r_id q = r_id r"
        using r(3) by auto
      with distinct_ids_part [OF dist] r show False by blast
    qed
  qed
  then show ?thesis by (simp add: log filter_id_conv)
qed

lemma prune_keeps_log:
  assumes "logged st p" and "snd (snd p) > now - seconds max_tier_window"
  shows "logged (snd (prune_campaign_send_log (now - seconds max_tier_window) st)) p"
proof (rule logged_mono [OF assms(1)])
  fix l assume l: "l \<in> set (send_log st)" "l_at l = snd (snd p)"
  have "\<not> l_at l < db_time (now - seconds max_tier_window)"
    using db_time_le [of "now - seconds max_tier_window"] assms(2) l(2) by simp
  with l(1) show "\<exists>l' \<in> set (send_log (snd (prune_campaign_send_log (now - seconds max_tier_window) st))).
      l_id l' = l_id l \<and> l_account l' = l_account l \<and> l_at l' = l_at l \<and> l_origin l' = l_origin l"
    by (auto simp: prune_campaign_send_log_def)
qed

lemma step_clock: "step w w' \<Longrightarrow> clock w \<le> clock w'"
  by (induction rule: step.induct) simp_all

lemma claim_log:
  assumes "claim_next_recipient log_id draw a now st = (Claimed cl, st')"
  obtains r where "send_log st' = send_log st @ [log_claim log_id a r now]"
proof -
  from claim_next_effect [OF assms] obtain p where
    "p \<in> set (claim_candidates st a now) \<and> log_id \<notin> l_id ` set (send_log st)
     \<and> cl = claim_of log_id a p
     \<and> st' = st\<lparr>send_log := send_log st @ [log_claim log_id a (fst p) now],
                recipients := update_where (claimable (r_id (fst p))) (sending_row now) (recipients st)\<rparr>"
    by (rule exE)
  then have "send_log st' = send_log st @ [log_claim log_id a (fst p) now]" by simp
  then show thesis by (rule that)
qed

lemma step_keeps_log:
  assumes t: "tame_step a t w w'" and inv: "once_inv w" and l: "logged (world_db w) p"
    and recent: "snd (snd p) > clock w' - seconds max_tier_window"
  shows "logged (world_db w') p"
proof -
  have s: "step w w'"
    and here: "\<forall>l \<in> set (send_log (world_db w)). l_recipient l \<in> r_id ` set (recipients (world_db w'))"
    using t by (simp_all add: tame_step_def)
  have ok0: "db_ok (world_db w)" using inv by (simp add: once_inv_def)
  have rok: "recipients_ok (recipients (world_db w))" "campaigns_ok (campaigns (world_db w))"
    "distinct (map r_id (recipients (world_db w)))"
    using ok0 by (simp_all add: db_ok_alt recipients_ok_def)
  from s l recent here show ?thesis
  proof cases
    case (step_claim now log_id draw b cl st)
    from claim_log [OF step_claim(4)] obtain r where
      r: "send_log st = send_log (world_db w) @ [log_claim log_id b r now]" .
    with l step_claim(1) show ?thesis by (auto simp: logged_def)
  next
    case (step_no_claim now log_id draw b res st)
    with l no_claim_same [OF step_no_claim(4,5)] show ?thesis by simp
  next
    case (step_sent now cl q)
    with l show ?thesis by (simp add: finalize_log)
  next
    case (step_send_failed now cl q)
    with l show ?thesis by (simp add: finalize_log)
  next
    case (step_replace now fresh campaign inputs st)
    with l here replace_keeps_log [OF step_replace(3) rok(1) step_replace(4)] show ?thesis
      by (simp add: logged_def)
  next
    case (step_duplicate now fresh src actor c st)
    with l duplicate_result [OF step_duplicate(4) rok(2)] show ?thesis by (simp add: logged_def)
  next
    case (step_create now c0 new_id c st)
    with l create_same [OF step_create(3) rok(2)] show ?thesis by (simp add: same_sends_def logged_def)
  next
    case (step_delete now i st)
    with l here delete_keeps_log [OF step_delete(3) rok(3)] show ?thesis by (simp add: logged_def)
  next
    case (step_update now fresh i patch c st)
    with l update_same [OF step_update(3) rok(2)] show ?thesis by (simp add: same_sends_def logged_def)
  next
    case (step_status now new_id i to actor event detail c st)
    with l status_same [OF step_status(3) rok(2)] show ?thesis by (simp add: same_sends_def logged_def)
  next
    case (step_auto_pause now fresh b why n st)
    with l auto_pause_same [OF step_auto_pause(3) rok(2)] show ?thesis by (simp add: same_sends_def logged_def)
  next
    case (step_limits now fresh b s tiers ws res st)
    moreover have "send_log st = send_log (world_db w)"
      using step_limits(3) by (auto simp: set_campaign_account_limits_def Let_def split: if_splits)
    ultimately show ?thesis using l by (simp add: logged_def)
  next
    case (step_prune now)
    with l recent show ?thesis by (simp add: prune_keeps_log)
  qed (simp_all add: logged_def reconcile_stuck_sending_def retry_failed_recipients_def
      suppress_pending_for_identity_def)
qed

section \<open>The cap\<close>

lemma seconds_ms: "seconds n mod 1000000 = 0"
  by (simp add: seconds_def)

text \<open>Two whole milliseconds that are not in order lie at least one apart.\<close>

lemma ms_gap:
  assumes "x mod 1000000 = 0" "lo mod 1000000 = 0" "lo < (x :: int)" "now < lo + d + 1000000"
  shows "now - d < x"
proof -
  obtain k m where "x = 1000000 * k" "lo = 1000000 * m"
    using assms(1,2) by (metis dvdE mod_0_imp_dvd)
  with assms(3) have "lo + 1000000 \<le> x" by simp
  with assms(4) show ?thesis by simp
qed

lemma db_time_near: "now < db_time now + 1000000"
  unfolding db_time_def using pos_mod_bound [of 1000000 now] by linarith

lemma db_time_ms: "db_time now mod 1000000 = 0"
  by (simp add: db_time_def minus_mod_eq_mult_div)

text \<open>Sends in a window that ends now are all in the log the claim has looked at.\<close>

lemma history_in_ledger:
  assumes inv: "cap_inv a t w" and now: "clock w \<le> now" and t: "window_seconds t \<le> max_tier_window"
    and x: "db_time now \<le> x"
  shows "length (sends_in (history w) a (x - seconds (window_seconds t)) x)
     \<le> length (ledger_after (world_db w) a (now - seconds (window_seconds t)))"
proof -
  let ?W = "seconds (window_seconds t)"
  let ?h = "sends_in (history w) a (x - ?W) x"
  let ?l = "ledger_after (world_db w) a (now - ?W)"
  have dist: "distinct (map fst ?h)"
    using inv by (simp add: cap_inv_def sends_in_def distinct_map_filter)
  have "fst p \<in> l_id ` set ?l" if p: "p \<in> set ?h" for p
  proof -
    obtain i b at where pp: "p = (i, b, at)" by (cases p) auto
    have h: "(i, a, at) \<in> set (history w)" "b = a" "x - ?W < at" using p pp by (auto simp: sends_in_def)
    have ms: "at mod 1000000 = 0" using inv h(1) by (force simp: cap_inv_def)
    have low: "db_time now - ?W < at" using h(3) x by simp
    have "now - ?W < at"
      by (rule ms_gap [OF ms _ low])
        (use db_time_near [of now] db_time_ms [of now] seconds_ms [of "window_seconds t"]
         in \<open>simp_all add: mod_diff_eq [symmetric]\<close>)
    moreover have "?W \<le> seconds max_tier_window" using t by (simp add: seconds_def)
    ultimately have "clock w - seconds max_tier_window < at" using now by linarith
    then have "logged (world_db w) (i, a, at)" using inv h(1) by (force simp: cap_inv_def)
    with \<open>now - ?W < at\<close> pp show ?thesis by (force simp: logged_def ledger_after_def)
  qed
  then have "fst ` set ?h \<subseteq> l_id ` set ?l" by blast
  then have "card (fst ` set ?h) \<le> card (l_id ` set ?l)" by (rule card_mono [rotated]) simp
  moreover have "card (fst ` set ?h) = length ?h"
    using dist by (metis distinct_card length_map list.set_map)
  moreover have "card (l_id ` set ?l) \<le> length ?l"
    by (meson card_image_le card_length finite_set le_trans)
  ultimately show ?thesis by simp
qed

lemma sends_in_Cons:
  "sends_in ((i, b, at) # h) a lo hi
     = (if b = a \<and> lo < at \<and> at \<le> hi then [(i, b, at)] else []) @ sends_in h a lo hi"
  by (simp add: sends_in_def)

lemma cap_claim:
  assumes inv: "cap_inv a t w" and now: "clock w \<le> now" and id: "log_id \<notin> fst ` set (history w)"
    and c: "claim_next_recipient log_id draw b now (world_db w) = (Claimed cl, st)"
    and t: "\<forall>ch. t \<in> set (campaign_account_limits (world_db w) a ch)"
    and tw: "window_seconds t \<le> max_tier_window"
    and old: "\<forall>p \<in> set (history w). snd (snd p) > now - seconds max_tier_window \<longrightarrow> logged st p"
    and once: "once_inv (w\<lparr>world_db := st, inflight := cl # inflight w,
             history := (log_id, b, db_time now) # history w, clock := now\<rparr>)"
  shows "cap_inv a t (w\<lparr>world_db := st, inflight := cl # inflight w,
             history := (log_id, b, db_time now) # history w, clock := now\<rparr>)"
proof -
  let ?W = "seconds (window_seconds t)"
  have ok: "db_ok (world_db w)" using inv by (simp add: cap_inv_def once_inv_def)
  have lim: "list_all (\<lambda>k. tier_check (k_tier k)) (account_limits (world_db w))"
    using ok by (simp add: db_ok_def)
  have cap: "int (length (sends_in ((log_id, b, db_time now) # history w) a (x - ?W) x)) \<le> max_sends t" for x
  proof (cases "b = a \<and> x - ?W < db_time now \<and> db_time now \<le> x")
    case False
    then have "sends_in ((log_id, b, db_time now) # history w) a (x - ?W) x
        = sends_in (history w) a (x - ?W) x" by (auto simp: sends_in_Cons)
    then show ?thesis using inv by (simp only: cap_inv_def)
  next
    case True
    from claim_next_Claimed [OF c] obtain p iv jt
      where "allowed (claim_decision (world_db w) b p iv jt draw now)" by blast
    from decision_allowed(1) [OF this lim] t True
    have "int (length (ledger_after (world_db w) a (now - ?W))) < max_sends t" by blast
    with history_in_ledger [OF inv now tw, of x] True show ?thesis by (simp add: sends_in_Cons)
  qed
  from claim_log [OF c] obtain r where
    log: "send_log st = send_log (world_db w) @ [log_claim log_id b r now]" .
  then have new: "logged st (log_id, b, db_time now)" by (simp add: logged_def log_claim_def)
  have past: "\<forall>p \<in> set (history w). snd (snd p) \<le> db_time now \<and> snd (snd p) mod 1000000 = 0"
    using inv db_time_mono [OF now] by (fastforce simp: cap_inv_def)
  show ?thesis using inv once id cap new old past
    by (simp add: cap_inv_def db_time_ms)
qed

lemma step_cap:
  assumes s: "tame_step a t w w'" and inv: "cap_inv a t w" and tw: "window_seconds t \<le> max_tier_window"
  shows "cap_inv a t w'"
proof -
  have st: "step w w'" and t: "\<forall>ch. t \<in> set (campaign_account_limits (world_db w) a ch)"
    using s by (simp_all add: tame_step_def)
  have once: "once_inv w" using inv by (simp add: cap_inv_def)
  have once': "once_inv w'" by (rule step_once [OF st once])
  have mono: "clock w \<le> clock w'" by (rule step_clock [OF st])
  have old: "\<forall>p \<in> set (history w). snd (snd p) > clock w' - seconds max_tier_window \<longrightarrow> logged (world_db w') p"
  proof (intro ballI impI)
    fix p assume p: "p \<in> set (history w)" "snd (snd p) > clock w' - seconds max_tier_window"
    then have "logged (world_db w) p" using inv mono by (force simp: cap_inv_def)
    then show "logged (world_db w') p" by (rule step_keeps_log [OF s once _ p(2)])
  qed
  have same: "cap_inv a t w'" if "history w' = history w"
  proof -
    have "\<forall>p \<in> set (history w). snd (snd p) \<le> db_time (clock w') \<and> snd (snd p) mod 1000000 = 0"
      using inv db_time_mono [OF mono] by (fastforce simp: cap_inv_def)
    then show ?thesis using inv once' old that by (simp add: cap_inv_def)
  qed
  from st show ?thesis
  proof cases
    case (step_claim now log_id draw b cl st)
    show ?thesis unfolding step_claim(1)
      by (rule cap_claim [OF inv step_claim(2-4) t tw])
        (use old once' step_claim(1) in simp_all)
  qed (rule same, simp)+
qed

text \<open>
  C2: rate limiting is safe. Take any run in which a tier of an account stays configured and no
  recipient with a logged attempt is deleted; campaigns may be created, changed, paused, resumed,
  duplicated and deleted, sends may fail, be retried, get lost in a crash, and old log rows are
  pruned all the while. Then in every window of the tier's length, ending at any instant, the
  account has made at most \<open>max_sends\<close> campaign sends.
\<close>

theorem rolling_cap_never_exceeded:
  assumes "db_ok st" and "0 \<le> max_sends t" and "window_seconds t \<le> max_tier_window"
    and "(tame_step a t)\<^sup>*\<^sup>* (start_world st) w"
  shows "int (length (sends_in (history w) a (x - seconds (window_seconds t)) x)) \<le> max_sends t"
proof -
  have start: "cap_inv a t (start_world st)"
    using once_start [OF assms(1)] assms(2) by (simp add: cap_inv_def start_world_def sends_in_def)
  from assms(4) have "cap_inv a t w"
    by (induction rule: rtranclp_induct) (use start step_cap assms(3) in blast)+
  then show ?thesis by (simp add: cap_inv_def)
qed

lemma rolling_cap_never_exceeded_witness:
  "\<exists>w. (tame_step 9 \<lparr>window_seconds = 3600, max_sends = 1\<rparr>)\<^sup>*\<^sup>* (start_world one_pending) w
     \<and> length (history w) = 1
     \<and> int (length (sends_in (history w) 9 (seconds 3600 - seconds 3600) (seconds 3600))) \<le> 1"
proof -
  let ?t = "\<lparr>window_seconds = 3600, max_sends = 1\<rparr>"
  obtain cl st where s: "step (start_world one_pending)
      ((start_world one_pending)\<lparr>world_db := st, inflight := [cl],
         history := [(5, 9, db_time (seconds 100))], clock := seconds 100\<rparr>)" (is "step _ ?w")
    using sample_run by blast
  have lim: "campaign_account_limits (world_db (start_world one_pending)) 9 ch = [?t]" for ch
    by (simp add: start_world_def one_pending_def sample_db_def campaign_account_limits_def
        tiers_of_def Let_def)
  have log: "send_log (world_db (start_world one_pending)) = []"
    by (simp add: start_world_def one_pending_def sample_db_def)
  from s lim log have "tame_step 9 ?t (start_world one_pending) ?w" by (simp add: tame_step_def)
  then have r: "(tame_step 9 ?t)\<^sup>*\<^sup>* (start_world one_pending) ?w" by blast
  have "int (length (sends_in (history ?w) 9 (seconds 3600 - seconds (window_seconds ?t)) (seconds 3600)))
      \<le> max_sends ?t"
    by (rule rolling_cap_never_exceeded [OF one_pending_ok _ _ r]) (simp_all add: max_tier_window_def)
  with r show ?thesis by (intro exI [of _ ?w]) simp
qed

end
