(* ===== verification/Outbound.thy ===== *)
theory Outbound
  imports Prelude
begin

text \<open>
  The delivery core of \<open>backend/internal/outbound/outbound.go\<close>: resolve the channel's sender, build the
  outbound message, call the provider, stamp the outcome. The sender registry, the blob store, the
  provider and the message tables are the record \<open>outbound_deps\<close>, a parameter, over a state \<open>'m\<close> of
  their own; the broadcasts and the logs are left out.
\<close>

text \<open>What \<open>errors.Is\<close> can find in an error, and its text.\<close>

datatype sentinel = OutsideServiceWindow | NoExistingChat | RecipientUnreachable | OtherError

type_synonym send_error = "sentinel \<times> string"

record send_task =
  sk_message :: uuid
  sk_account :: uuid
  sk_channel :: string
  sk_destination :: string
  sk_text :: string
  sk_media :: string
  sk_caption :: string

text \<open>\<open>blob.Meta\<close> as far as it is read: media type, mimetype and file name.\<close>

type_synonym blob_meta = "string \<times> string \<times> string"

record outbound_media =
  om_blob :: string
  om_caption :: string
  om_kind :: string
  om_mimetype :: string
  om_filename :: string

record outbound_message =
  ob_message :: uuid
  ob_account :: uuid
  ob_channel :: string
  ob_text :: string
  ob_to :: string
  ob_media :: "outbound_media option"

text \<open>
  \<open>provider_send\<close> answers with an error or with the provider's own id of the message it accepted;
  \<open>stamp_outbound_sent\<close> is the write of that id, with the error it may end with.
\<close>

record 'm outbound_deps =
  sender_missing :: "string \<Rightarrow> send_error option"
  blob_get :: "string \<Rightarrow> blob_meta option"
  provider_send :: "outbound_message \<Rightarrow> 'm \<Rightarrow> (send_error + string) \<times> 'm"
  stamp_outbound_sent :: "string \<Rightarrow> uuid \<Rightarrow> string \<Rightarrow> 'm \<Rightarrow> send_error option \<times> 'm"
  mark_failed :: "string \<Rightarrow> uuid \<Rightarrow> 'm \<Rightarrow> 'm"

definition media_of :: "('m, 'z) outbound_deps_scheme \<Rightarrow> send_task \<Rightarrow> outbound_media option" where
  "media_of d t =
     (if sk_media t = '''' then None
      else let media = \<lparr>om_blob = sk_media t, om_caption = sk_caption t, om_kind = '''',
                        om_mimetype = '''', om_filename = ''''\<rparr> in
        Some (case blob_get d (sk_media t) of
                None \<Rightarrow> media
              | Some (kind, mime, filename) \<Rightarrow>
                  media\<lparr>om_kind := kind, om_mimetype := mime, om_filename := filename\<rparr>))"

definition outbound_of :: "('m, 'z) outbound_deps_scheme \<Rightarrow> send_task \<Rightarrow> outbound_message" where
  "outbound_of d t = \<lparr>ob_message = sk_message t, ob_account = sk_account t, ob_channel = sk_channel t,
     ob_text = sk_text t, ob_to = sk_destination t, ob_media = media_of d t\<rparr>"

text \<open>
  The error \<open>Deliver\<close> returns, \<open>None\<close> being nil, and the id of the message the provider accepted, \<open>None\<close>
  being the zero result. Both are there when the provider accepted and the stamp failed.
\<close>

definition deliver ::
  "('m, 'z) outbound_deps_scheme \<Rightarrow> send_task \<Rightarrow> 'm \<Rightarrow> (send_error option \<times> string option) \<times> 'm" where
  "deliver d t m =
     (case sender_missing d (sk_channel t) of
        Some e \<Rightarrow> ((Some e, None), mark_failed d (sk_channel t) (sk_message t) m)
      | None \<Rightarrow>
          (case provider_send d (outbound_of d t) m of
             (Inl e, m1) \<Rightarrow> ((Some e, None), mark_failed d (sk_channel t) (sk_message t) m1)
           | (Inr i, m1) \<Rightarrow>
               (case stamp_outbound_sent d (sk_channel t) (sk_message t) i m1 of
                  (err, m2) \<Rightarrow> ((err, Some i), m2))))"

text \<open>
  No error means that the provider accepted; the converse fails exactly when it accepted and the
  stamp did not go through.
\<close>

lemma deliver_outcome:
  assumes "deliver d t m = ((err, sent), m')"
  obtains (rejected) e where "err = Some e" "sent = None"
  | (sent_it) i m1 where "sender_missing d (sk_channel t) = None"
      "provider_send d (outbound_of d t) m = (Inr i, m1)" "sent = Some i"
      "stamp_outbound_sent d (sk_channel t) (sk_message t) i m1 = (err, m')"
proof (cases "sender_missing d (sk_channel t)")
  case (Some e)
  with assms rejected [of e] show thesis by (simp add: deliver_def)
next
  case None
  with assms rejected sent_it show thesis by (auto simp: deliver_def split: prod.splits sum.splits)
qed

lemma nil_error_was_accepted: "deliver d t m = ((None, sent), m') \<Longrightarrow> sent \<noteq> None"
  by (erule deliver_outcome) simp_all

end
