(* ===== verification/Campaign_Runner.thy ===== *)
theory Campaign_Runner
  imports Campaign_Cap Outbound
begin

text \<open>
  The send cycle of \<open>backend/internal/campaign/runner.go\<close>: claim, render, resolve the chat,
  deliver, finalize, complete. The chat and message tables and the provider are the record \<open>services\<close>,
  a parameter, which extends the dependencies of \<open>Deliver\<close>; the campaign tables are the database of
  \<open>Campaign_Store\<close>. A cycle is several transactions on those tables, with other goroutines in between:
  \<open>other k\<close> is what they have committed when the cycle's transaction number \<open>k\<close> after the claim begins.
\<close>

section \<open>Services\<close>

record 'm services = "'m outbound_deps" +
  find_or_create_chat :: "uuid \<Rightarrow> string \<Rightarrow> string \<Rightarrow> 'm \<Rightarrow> (send_error + uuid \<times> bool) \<times> 'm"
  mark_chat_campaign_only :: "string \<Rightarrow> uuid \<Rightarrow> 'm \<Rightarrow> 'm"
  existing_chat_for_identity :: "uuid \<Rightarrow> string \<Rightarrow> 'm \<Rightarrow> send_error + uuid option"
  insert_campaign_outbound :: "string \<Rightarrow> uuid \<Rightarrow> uuid \<Rightarrow> string \<Rightarrow> string \<Rightarrow> 'm \<Rightarrow> (send_error + uuid) \<times> 'm"
  chat_by_id :: "uuid \<Rightarrow> 'm \<Rightarrow> send_error + string"

text \<open>A suffix makes a JID of a bare number (\<open>config.CanonicalJID\<close>).\<close>

definition no_existing_chat_text :: string where
  "no_existing_chat_text = ''campaign: no existing conversation found for this recipient''"

section \<open>One send\<close>

definition is_continuation :: "char \<Rightarrow> bool" where
  "is_continuation c \<longleftrightarrow> CHR 0x80 \<le> c \<and> c \<le> CHR 0xBF"

definition rune_count :: "string \<Rightarrow> nat" where
  "rune_count s = length (filter (\<lambda>c. \<not> is_continuation c) s)"

fun take_runes :: "nat \<Rightarrow> string \<Rightarrow> string" where
  "take_runes n [] = []"
| "take_runes n (c # s) =
     (if is_continuation c then c # take_runes n s
      else case n of 0 \<Rightarrow> [] | Suc k \<Rightarrow> c # take_runes k s)"

text \<open>The first 120 runes of a (valid UTF-8) text.\<close>

definition preview_text :: "string \<Rightarrow> string" where
  "preview_text text = (if rune_count text > 120 then take_runes 120 text else text)"

definition send_vars :: "claim \<Rightarrow> string \<Rightarrow> string option" where
  "send_vars cl = (cl_attributes cl)(''name'' \<mapsto> cl_name cl, ''phone'' \<mapsto> cl_identity cl)"

text \<open>\<open>jid\<close> is \<open>config.CanonicalJID\<close>.\<close>

definition resolve_chat ::
  "'m services \<Rightarrow> (string \<Rightarrow> string) \<Rightarrow> claim \<Rightarrow> 'm \<Rightarrow> (send_error + uuid \<times> bool) \<times> 'm" where
  "resolve_chat sv jid cl m =
     (if cold_send_capable (cl_channel cl) then
        (case find_or_create_chat sv (cl_account cl) (jid (cl_identity cl)) (cl_identity cl) m of
           (Inl e, m') \<Rightarrow> (Inl e, m')
         | (Inr (chat, created), m') \<Rightarrow>
             (Inr (chat, created),
              if created then mark_chat_campaign_only sv (cl_channel cl) chat m' else m'))
      else
        (case existing_chat_for_identity sv (cl_account cl) (cl_identity cl) m of
           Inl e \<Rightarrow> (Inl e, m)
         | Inr None \<Rightarrow> (Inl (NoExistingChat, no_existing_chat_text), m)
         | Inr (Some chat) \<Rightarrow> (Inr (chat, False), m)))"

text \<open>What \<open>finalize\<close> records for the error a send ended with, \<open>None\<close> being nil.\<close>

definition permanent :: "sentinel \<Rightarrow> bool" where
  "permanent s \<longleftrightarrow> s = OutsideServiceWindow \<or> s = NoExistingChat \<or> s = RecipientUnreachable"

definition finalize_decision ::
  "claim \<Rightarrow> send_error option \<Rightarrow> uuid option \<Rightarrow> uuid option \<Rightarrow> gotime \<Rightarrow> finalize_params" where
  "finalize_decision cl err chat msg now =
     (let p = \<lparr>f_log = cl_log cl, f_recipient = cl_recipient cl, f_status = RecipientSent,
               f_reason = '''', f_chat = chat, f_message = msg, f_next = None\<rparr> in
      case err of
        None \<Rightarrow> p
      | Some (s, text) \<Rightarrow>
          if permanent s then p\<lparr>f_status := RecipientFailed, f_reason := text\<rparr>
          else case next_retry (cl_attempts cl) of
            Some wait \<Rightarrow> p\<lparr>f_status := RecipientPending, f_reason := text, f_next := Some (now + wait)\<rparr>
          | None \<Rightarrow> p\<lparr>f_status := RecipientFailed, f_reason := ''max retries exceeded: '' @ text\<rparr>)"

text \<open>
  What a send ends with: its error, the chat and the message it got to, and the provider's id of the
  message if the provider accepted it.
\<close>

record send_outcome =
  so_error :: "send_error option"
  so_chat :: "uuid option"
  so_message :: "uuid option"
  so_sent :: "string option"

definition stopped :: "send_error \<Rightarrow> uuid option \<Rightarrow> uuid option \<Rightarrow> send_outcome" where
  "stopped e chat msg = \<lparr>so_error = Some e, so_chat = chat, so_message = msg, so_sent = None\<rparr>"

definition campaign_task :: "claim \<Rightarrow> uuid \<Rightarrow> string \<Rightarrow> string \<Rightarrow> send_task" where
  "campaign_task cl msg destination text =
     \<lparr>sk_message = msg, sk_account = cl_account cl, sk_channel = cl_channel cl,
      sk_destination = destination, sk_text = text, sk_media = '''', sk_caption = ''''\<rparr>"

definition attempt_send ::
  "'m services \<Rightarrow> (string \<Rightarrow> string) \<Rightarrow> claim \<Rightarrow> 'm \<Rightarrow> send_outcome \<times> 'm" where
  "attempt_send sv jid cl m =
     (case resolve_chat sv jid cl m of
        (Inl e, m1) \<Rightarrow> (stopped e None None, m1)
      | (Inr (chat, created), m1) \<Rightarrow>
          let text = render (cl_body cl) (send_vars cl) in
          (case insert_campaign_outbound sv (cl_channel cl) chat (cl_account cl) text (preview_text text) m1 of
             (Inl e, m2) \<Rightarrow> (stopped e (Some chat) None, m2)
           | (Inr msg, m2) \<Rightarrow>
               (case chat_by_id sv chat m2 of
                  Inl e \<Rightarrow> (stopped e (Some chat) (Some msg), m2)
                | Inr destination \<Rightarrow>
                    (case deliver sv (campaign_task cl msg destination text) m2 of
                       ((err, sent), m3) \<Rightarrow>
                         (\<lparr>so_error = err, so_chat = Some chat, so_message = Some msg, so_sent = sent\<rparr>, m3)))))"

text \<open>
  \<open>completeIfDone\<close>: nothing pending and nothing mid-send. The counts and the change of status are two
  transactions; \<open>meanwhile\<close> is what others commit between them.
\<close>

definition complete_if_done :: "uuid \<Rightarrow> uuid \<Rightarrow> gotime \<Rightarrow> (db \<Rightarrow> db) \<Rightarrow> db \<Rightarrow> db" where
  "complete_if_done event_id campaign now meanwhile st =
     (if campaign_recipient_counts st campaign RecipientPending > 0
         \<or> campaign_recipient_counts st campaign RecipientSending > 0 then meanwhile st
      else case set_campaign_status event_id campaign StatusCompleted None ''completed'' [] now (meanwhile st) of
             Inl e \<Rightarrow> meanwhile st
           | Inr (c, st') \<Rightarrow> st')"

text \<open>
  \<open>db_down\<close> says that the finalizing transaction fails; its rollback leaves the row as it was,
  and \<open>finalize\<close> returns before the completion check.
\<close>

definition finalize_send ::
  "bool \<Rightarrow> uuid \<Rightarrow> claim \<Rightarrow> send_outcome \<Rightarrow> gotime \<Rightarrow> gotime \<Rightarrow> (nat \<Rightarrow> db \<Rightarrow> db) \<Rightarrow> db \<Rightarrow> db" where
  "finalize_send db_down event_id cl out now later other st =
     (if db_down then st
      else complete_if_done event_id (cl_campaign cl) later (other 2)
             (other 1 (finalize_attempt
                (finalize_decision cl (so_error out) (so_chat out) (so_message out) now) now st)))"

definition send_claim ::
  "'m services \<Rightarrow> (string \<Rightarrow> string) \<Rightarrow> bool \<Rightarrow> uuid \<Rightarrow> gotime \<Rightarrow> gotime \<Rightarrow> (nat \<Rightarrow> db \<Rightarrow> db) \<Rightarrow> claim
     \<Rightarrow> db \<times> 'm \<Rightarrow> db \<times> 'm" where
  "send_claim sv jid db_down event_id now later other cl s =
     (case attempt_send sv jid cl (snd s) of
        (out, m') \<Rightarrow> (finalize_send db_down event_id cl out now later other (other 0 (fst s)), m'))"

text \<open>One claim-and-send cycle; the result says whether a recipient was claimed.\<close>

definition handle_account ::
  "'m services \<Rightarrow> (string \<Rightarrow> string) \<Rightarrow> bool \<Rightarrow> uuid \<Rightarrow> uuid \<Rightarrow> int \<Rightarrow> gotime \<Rightarrow> gotime \<Rightarrow> gotime
     \<Rightarrow> (nat \<Rightarrow> db \<Rightarrow> db) \<Rightarrow> uuid \<Rightarrow> db \<times> 'm \<Rightarrow> bool \<times> db \<times> 'm" where
  "handle_account sv jid db_down log_id event_id draw claim_now now later other account s =
     (case claim_next_recipient log_id draw account claim_now (fst s) of
        (Claimed cl, st) \<Rightarrow> (True, send_claim sv jid db_down event_id now later other cl (st, snd s))
      | (_, st) \<Rightarrow> (False, st, snd s))"

section \<open>Every transaction of a cycle is a step of the state machine\<close>

lemma finalize_decision_fields [simp]:
  "f_log (finalize_decision cl err chat msg now) = cl_log cl"
  "f_recipient (finalize_decision cl err chat msg now) = cl_recipient cl"
  by (auto simp: finalize_decision_def Let_def split: option.split prod.split)

lemma finalize_decision_status:
  "f_status (finalize_decision cl err chat msg now) =
     (case err of None \<Rightarrow> RecipientSent
      | Some (s, text) \<Rightarrow> if permanent s \<or> next_retry (cl_attempts cl) = None
                        then RecipientFailed else RecipientPending)"
  by (auto simp: finalize_decision_def Let_def split: option.split prod.split)

text \<open>A send without an error was accepted by the provider.\<close>

lemma attempt_without_error:
  assumes "attempt_send sv jid cl m = (out, m')" and "so_error out = None"
  shows "so_sent out \<noteq> None"
  using assms by (auto simp: attempt_send_def stopped_def Let_def split: prod.splits sum.splits
      dest: nil_error_was_accepted)

text \<open>The recipient whose provider has accepted a message, and whether the runner was told of an error.\<close>

definition accepted :: "send_outcome \<Rightarrow> claim \<Rightarrow> uuid list" where
  "accepted out cl = (if so_sent out = None then [] else [cl_recipient cl])"

definition accepted_unnoticed :: "send_outcome \<Rightarrow> claim \<Rightarrow> uuid list" where
  "accepted_unnoticed out cl = (if so_error out = None then [] else accepted out cl)"

text \<open>The world after a claim's outcome has been recorded, or lost.\<close>

definition settled_world :: "claim \<Rightarrow> send_outcome \<Rightarrow> bool \<Rightarrow> gotime \<Rightarrow> world \<Rightarrow> world" where
  "settled_world cl out db_down now w =
     w\<lparr>world_db := (if db_down then world_db w else finalize_attempt
          (finalize_decision cl (so_error out) (so_chat out) (so_message out) now) now (world_db w)),
       inflight := remove1 cl (inflight w), delivered := accepted out cl @ delivered w,
       misreported := (if db_down then [] else accepted_unnoticed out cl) @ misreported w, clock := now\<rparr>"

lemma settle_step:
  assumes "cl \<in> set (inflight w)" and "clock w \<le> now" and out: "so_error out = None \<Longrightarrow> so_sent out \<noteq> None"
  shows "step w (settled_world cl out db_down now w)"
proof -
  let ?p = "finalize_decision cl (so_error out) (so_chat out) (so_message out) now"
  have acc: "accepted out cl = (if so_sent out \<noteq> None then [cl_recipient cl] else [])"
    by (simp add: accepted_def)
  consider "db_down" | "\<not> db_down" "so_error out = None" | "\<not> db_down" "so_error out \<noteq> None" by blast
  then show ?thesis
  proof cases
    case 1
    from step_finalize_lost [OF assms(2,1), of "so_sent out \<noteq> None"] 1 show ?thesis
      by (simp add: settled_world_def acc)
  next
    case 2
    from step_sent [OF assms(2,1), of ?p] 2 out show ?thesis
      by (simp add: settled_world_def acc accepted_unnoticed_def finalize_decision_status)
  next
    case 3
    then obtain e where "so_error out = Some e" by blast
    with step_send_failed [OF assms(2,1), of ?p "so_sent out \<noteq> None"] 3 show ?thesis
      by (cases e) (simp add: settled_world_def acc accepted_unnoticed_def finalize_decision_status)
  qed
qed

lemma complete_step:
  assumes "clock w \<le> now" and "world_db w = meanwhile st"
  shows "\<exists>w'. (w' = w \<or> step w w') \<and> world_db w' = complete_if_done event_id campaign now meanwhile st
     \<and> inflight w' = inflight w \<and> delivered w' = delivered w"
proof (cases "complete_if_done event_id campaign now meanwhile st = meanwhile st")
  case True
  with assms(2) show ?thesis by (intro exI [of _ w]) simp
next
  case False
  then obtain c st' where "set_campaign_status event_id campaign StatusCompleted None ''completed'' [] now (meanwhile st)
      = Inr (c, st')" and "complete_if_done event_id campaign now meanwhile st = st'"
    by (auto simp: complete_if_done_def split: sum.splits if_splits)
  with step_status [of w now event_id campaign StatusCompleted None "''completed''" "[]" c st'] assms
  show ?thesis by (intro exI [of _ "w\<lparr>world_db := st', clock := now\<rparr>"]) simp
qed

text \<open>Other goroutines run, the process living on, so that the next transaction finds \<open>f\<close> of the database.\<close>

definition others_run :: "(db \<Rightarrow> db) \<Rightarrow> gotime \<Rightarrow> world \<Rightarrow> world \<Rightarrow> bool" where
  "others_run f now w w' \<longleftrightarrow> step\<^sup>*\<^sup>* w w' \<and> world_db w' = f (world_db w) \<and> clock w' \<le> now"

text \<open>
  C18: the runner implements the state machine, whatever runs beside it. A cycle that finds nothing to
  claim changes nothing. Otherwise its claim is one step of the machine. Let other goroutines run, as
  long as the process lives and the claim is therefore still in flight: recording the outcome of the
  send, or failing to, is one step of the machine again, taken on the database they left; it settles
  this claim and no other, and counts the recipient as delivered exactly when the provider accepted the
  message, whatever error the runner was told of. Let others run again: the completion of the campaign
  is one more step or none. The database of the last step is the one the code ends in, on every path,
  resolution failures, provider errors, failed stamps and a failing finalize included.
\<close>

theorem handle_account_refines:
  assumes "clock w \<le> claim_now" and "log_id \<notin> fst ` set (history w)"
    and cycle: "handle_account sv jid db_down log_id event_id draw claim_now now later other a (world_db w, m)
      = (claimed, final, m_end)"
  shows "((\<forall>cl st. claim_next_recipient log_id draw a claim_now (world_db w) \<noteq> (Claimed cl, st)) \<longrightarrow>
      (claimed, final, m_end) = (False, world_db w, m))
    \<and> (\<forall>cl st out m'. claim_next_recipient log_id draw a claim_now (world_db w) = (Claimed cl, st)
        \<and> attempt_send sv jid cl m = (out, m') \<longrightarrow>
      (\<exists>w1. step w w1 \<and> world_db w1 = st \<and> inflight w1 = cl # inflight w \<and> delivered w1 = delivered w
        \<and> clock w1 = claim_now
        \<and> (\<forall>w2. others_run (other 0) now w1 w2 \<and> cl \<in> set (inflight w2) \<longrightarrow>
            (\<exists>w3. step w2 w3 \<and> inflight w3 = remove1 cl (inflight w2)
              \<and> delivered w3 = accepted out cl @ delivered w2 \<and> retried w3 = retried w2 \<and> clock w3 = now
              \<and> (db_down \<longrightarrow> final = world_db w3)
              \<and> (\<forall>w4 w5. \<not> db_down \<and> others_run (other 1) later w3 w4 \<and> others_run (other 2) later w4 w5 \<longrightarrow>
                  (\<exists>w6. (w6 = w5 \<or> step w5 w6) \<and> final = world_db w6
                     \<and> inflight w6 = inflight w5 \<and> delivered w6 = delivered w5))))))"
proof (intro conjI impI allI; (elim conjE)?)
  assume none: "\<forall>cl st. claim_next_recipient log_id draw a claim_now (world_db w) \<noteq> (Claimed cl, st)"
  obtain res st where r: "claim_next_recipient log_id draw a claim_now (world_db w) = (res, st)" by fastforce
  with none have "claimed_id res = None" by (cases res) auto
  with r none show "(claimed, final, m_end) = (False, world_db w, m)"
    by (cases res) (use cycle in \<open>auto simp: handle_account_def dest: no_claim_same\<close>)
next
  fix cl st out m'
  assume c: "claim_next_recipient log_id draw a claim_now (world_db w) = (Claimed cl, st)"
    and send: "attempt_send sv jid cl m = (out, m')"
  let ?fin = "\<lambda>d. finalize_attempt (finalize_decision cl (so_error out) (so_chat out) (so_message out) now) now d"
  let ?w1 = "w\<lparr>world_db := st, inflight := cl # inflight w,
      history := (log_id, a, db_time claim_now) # history w, clock := claim_now\<rparr>"
  have end_db: "final = finalize_send db_down event_id cl out now later other (other 0 st)"
    using cycle by (simp add: handle_account_def c send_claim_def send)
  have settle: "\<exists>w3. step w2 w3 \<and> inflight w3 = remove1 cl (inflight w2)
      \<and> delivered w3 = accepted out cl @ delivered w2 \<and> retried w3 = retried w2 \<and> clock w3 = now
      \<and> (db_down \<longrightarrow> final = world_db w3)
      \<and> (\<forall>w4 w5. \<not> db_down \<and> others_run (other 1) later w3 w4 \<and> others_run (other 2) later w4 w5 \<longrightarrow>
          (\<exists>w6. (w6 = w5 \<or> step w5 w6) \<and> final = world_db w6
             \<and> inflight w6 = inflight w5 \<and> delivered w6 = delivered w5))"
    if w2: "others_run (other 0) now ?w1 w2" "cl \<in> set (inflight w2)" for w2
  proof (rule exI [of _ "settled_world cl out db_down now w2"], intro conjI impI allI; (elim conjE)?)
    have db: "world_db w2 = other 0 st" "clock w2 \<le> now" using w2(1) by (simp_all add: others_run_def)
    show "step w2 (settled_world cl out db_down now w2)"
      by (rule settle_step [OF w2(2) db(2) attempt_without_error [OF send]])
    show "db_down \<Longrightarrow> final = world_db (settled_world cl out db_down now w2)"
      by (simp add: end_db db settled_world_def finalize_send_def)
    fix w4 w5
    assume up: "\<not> db_down" and w4: "others_run (other 1) later (settled_world cl out db_down now w2) w4"
      and w5: "others_run (other 2) later w4 w5"
    have "world_db w5 = other 2 (other 1 (?fin (other 0 st)))" "clock w5 \<le> later"
      using w4 w5 up db by (simp_all add: others_run_def settled_world_def)
    from complete_step [where meanwhile = "other 2", OF this(2,1), of event_id "cl_campaign cl"] up
    show "\<exists>w6. (w6 = w5 \<or> step w5 w6) \<and> final = world_db w6
        \<and> inflight w6 = inflight w5 \<and> delivered w6 = delivered w5"
      by (simp add: end_db finalize_send_def eq_commute)
  qed (simp_all add: settled_world_def)
  show "\<exists>w1. step w w1 \<and> world_db w1 = st \<and> inflight w1 = cl # inflight w \<and> delivered w1 = delivered w
        \<and> clock w1 = claim_now
      \<and> (\<forall>w2. others_run (other 0) now w1 w2 \<and> cl \<in> set (inflight w2) \<longrightarrow>
          (\<exists>w3. step w2 w3 \<and> inflight w3 = remove1 cl (inflight w2)
            \<and> delivered w3 = accepted out cl @ delivered w2 \<and> retried w3 = retried w2 \<and> clock w3 = now
            \<and> (db_down \<longrightarrow> final = world_db w3)
            \<and> (\<forall>w4 w5. \<not> db_down \<and> others_run (other 1) later w3 w4 \<and> others_run (other 2) later w4 w5 \<longrightarrow>
                (\<exists>w6. (w6 = w5 \<or> step w5 w6) \<and> final = world_db w6
                   \<and> inflight w6 = inflight w5 \<and> delivered w6 = delivered w5))))"
    by (rule exI [of _ ?w1], intro conjI, rule step_claim [OF assms(1,2) c]) (use settle in simp_all)
qed

text \<open>Services that work, over the list of accepted messages, but for the stamp if \<open>bad\<close>.\<close>

definition sample_services :: "bool \<Rightarrow> outbound_message list services" where
  "sample_services bad = \<lparr>sender_missing = (\<lambda>_. None), blob_get = (\<lambda>_. None),
     provider_send = (\<lambda>msg m. (Inr ''wamid'', msg # m)),
     stamp_outbound_sent = (\<lambda>_ _ _ m. (if bad then Some (OtherError, ''database is locked'') else None, m)),
     mark_failed = (\<lambda>_ _ m. m),
     find_or_create_chat = (\<lambda>_ _ _ m. (Inr (7, True), m)),
     mark_chat_campaign_only = (\<lambda>_ _ m. m),
     existing_chat_for_identity = (\<lambda>_ _ _. Inr (Some 7)),
     insert_campaign_outbound = (\<lambda>_ _ _ _ _ m. (Inr 8, m)),
     chat_by_id = (\<lambda>_ _. Inr ''77010000000@s.whatsapp.net'')\<rparr>"

lemma sample_attempt:
  "\<exists>out m'. attempt_send (sample_services False) jid cl [] = (out, m') \<and> so_error out = None \<and> so_sent out \<noteq> None"
  by (simp add: attempt_send_def resolve_chat_def deliver_def sample_services_def Let_def)

text \<open>While the provider call is out, another contact of the account asks for no more messages.\<close>

definition sample_others :: "nat \<Rightarrow> db \<Rightarrow> db" where
  "sample_others k d = (if k = 0 then snd (suppress_pending_for_identity 9 ''77020000000'' ''replied'' (seconds 100) d) else d)"

lemma handle_account_refines_witness:
  "\<exists>w'. step\<^sup>*\<^sup>* (start_world one_pending) w' \<and> delivered w' = [2] \<and> inflight w' = []
     \<and> world_db w' = fst (snd (handle_account (sample_services False) id False 5 6 0 (seconds 100)
         (seconds 101) (seconds 102) sample_others 9 (one_pending, [])))"
proof -
  let ?w0 = "start_world one_pending"
  obtain cl st where cl: "claim_next_recipient 5 0 9 (seconds 100) one_pending = (Claimed cl, st)" "cl_recipient cl = 2"
    using sample_run by (metis sample_claim_def)
  obtain out m' where out: "attempt_send (sample_services False) id cl [] = (out, m')" "so_sent out \<noteq> None"
    using sample_attempt by blast
  obtain claimed final m_end where cyc: "handle_account (sample_services False) id False 5 6 0 (seconds 100)
      (seconds 101) (seconds 102) sample_others 9 (one_pending, []) = (claimed, final, m_end)"
    by (metis prod_cases3)
  have w0: "world_db ?w0 = one_pending" "inflight ?w0 = []" "delivered ?w0 = []" "clock ?w0 \<le> seconds 100"
    "5 \<notin> fst ` set (history ?w0)"
    by (simp_all add: start_world_def zero_time_def seconds_def)
  note refined = handle_account_refines [OF w0(4,5), unfolded w0(1), OF cyc, THEN conjunct2, rule_format, OF conjI, OF cl(1) out(1)]
  then obtain w1 where w1: "step ?w0 w1" "world_db w1 = st" "inflight w1 = [cl]" "delivered w1 = []" "clock w1 = seconds 100"
    and rest: "\<And>w2. others_run (sample_others 0) (seconds 101) w1 w2 \<and> cl \<in> set (inflight w2) \<Longrightarrow>
      \<exists>w3. step w2 w3 \<and> inflight w3 = remove1 cl (inflight w2) \<and> delivered w3 = accepted out cl @ delivered w2
        \<and> retried w3 = retried w2 \<and> clock w3 = seconds 101 \<and> (False \<longrightarrow> final = world_db w3)
        \<and> (\<forall>w4 w5. \<not> False \<and> others_run (sample_others 1) (seconds 102) w3 w4
              \<and> others_run (sample_others 2) (seconds 102) w4 w5 \<longrightarrow>
            (\<exists>w6. (w6 = w5 \<or> step w5 w6) \<and> final = world_db w6 \<and> inflight w6 = inflight w5 \<and> delivered w6 = delivered w5))"
    unfolding w0(2,3) by blast
  let ?w2 = "w1\<lparr>world_db := sample_others 0 st, clock := seconds 100\<rparr>"
  have "step w1 ?w2"
    using step_suppress [of w1 "seconds 100" 9 "''77020000000''" "''replied''"] w1 by (simp add: sample_others_def)
  then have w2: "others_run (sample_others 0) (seconds 101) w1 ?w2" "step\<^sup>*\<^sup>* ?w0 ?w2"
    using w1 by (auto simp: others_run_def seconds_def intro: converse_rtranclp_into_rtranclp)
  have "cl \<in> set (inflight ?w2)" by (simp add: w1)
  from rest [OF conjI [OF w2(1) this]] obtain w3 where s3: "step ?w2 w3" "inflight w3 = remove1 cl (inflight ?w2)"
      "delivered w3 = accepted out cl @ delivered ?w2" "clock w3 = seconds 101"
    and fin: "\<forall>w4 w5. \<not> False \<and> others_run (sample_others 1) (seconds 102) w3 w4
              \<and> others_run (sample_others 2) (seconds 102) w4 w5 \<longrightarrow>
            (\<exists>w6. (w6 = w5 \<or> step w5 w6) \<and> final = world_db w6 \<and> inflight w6 = inflight w5 \<and> delivered w6 = delivered w5)"
    by blast
  have w3: "inflight w3 = []" "delivered w3 = [2]" using s3(2,3) out(2) cl(2) w1 by (simp_all add: accepted_def)
  have "\<not> False \<and> others_run (sample_others 1) (seconds 102) w3 w3 \<and> others_run (sample_others 2) (seconds 102) w3 w3"
    by (simp add: others_run_def sample_others_def s3(4) seconds_def)
  from fin [rule_format, OF this] obtain w6 where "w6 = w3 \<or> step w3 w6" "final = world_db w6" "inflight w6 = []" "delivered w6 = [2]"
    using w3 by auto
  moreover have "step\<^sup>*\<^sup>* ?w0 w3" using w2(2) s3(1) by simp
  ultimately show ?thesis using cyc by (intro exI [of _ w6]) auto
qed

text \<open>
  A stamp that fails after the provider accepted puts the recipient back to pending: with nobody asking
  for it, the next cycle delivers the same message again.
\<close>

definition stamp_failed_cycles :: "(bool \<times> db \<times> outbound_message list) list" where
  "stamp_failed_cycles =
     (let run = handle_account (sample_services True) id False;
          first = run 5 6 0 (seconds 100) (seconds 101) (seconds 102) (\<lambda>_ d. d) 9 (one_pending, []) in
      [first, run 15 16 0 (seconds 4000) (seconds 4001) (seconds 4002) (\<lambda>_ d. d) 9 (snd first)])"

lemma failed_stamp_sends_twice:
  "map (\<lambda>r. length (snd (snd r))) stamp_failed_cycles = [1, 2]"
  by code_simp

end
