(* ===== verification/Campaign_Scheduler.thy ===== *)
theory Campaign_Scheduler
  imports Campaign_Runner
begin

text \<open>
  The passes of \<open>backend/internal/campaign/scheduler.go\<close>: draining an account, promoting and
  completing campaigns, pruning the log, and the watch that pauses the campaigns of an account
  that stays disconnected.
\<close>

section \<open>Configuration\<close>

record config =
  tick_every :: duration
  maintenance_every :: duration
  disconnect_check_every :: duration
  disconnect_after :: duration
  prune_every :: duration
  account_concurrency :: int

definition default_if :: "int \<Rightarrow> int \<Rightarrow> int" where
  "default_if v d = (if v \<le> 0 then d else v)"

definition with_defaults :: "config \<Rightarrow> config" where
  "with_defaults c =
     \<lparr>tick_every = default_if (tick_every c) (seconds 2),
      maintenance_every = default_if (maintenance_every c) (seconds 15),
      disconnect_check_every = default_if (disconnect_check_every c) (seconds 15),
      disconnect_after = default_if (disconnect_after c) (seconds 60),
      prune_every = default_if (prune_every c) (minutes 60),
      account_concurrency = default_if (account_concurrency c) 8\<rparr>"

definition prune_retention :: duration where
  "prune_retention = seconds max_tier_window"

definition scheduler_prune :: "gotime \<Rightarrow> db \<Rightarrow> nat \<times> db" where
  "scheduler_prune now st = prune_campaign_send_log (now - prune_retention) st"

section \<open>Draining and maintenance\<close>

definition drain_account_max_claims :: nat where
  "drain_account_max_claims = 20"

text \<open>\<open>stop\<close> is the cancelled context, \<open>handle\<close> one call of \<open>HandleAccount\<close>.\<close>

fun drain_loop :: "nat \<Rightarrow> ('s \<Rightarrow> bool) \<Rightarrow> ('s \<Rightarrow> bool \<times> 's) \<Rightarrow> 's \<Rightarrow> nat \<times> 's" where
  "drain_loop 0 stop handle s = (0, s)"
| "drain_loop (Suc n) stop handle s =
     (if stop s then (0, s)
      else case handle s of
        (False, s') \<Rightarrow> (0, s')
      | (True, s') \<Rightarrow> (case drain_loop n stop handle s' of (k, s'') \<Rightarrow> (Suc k, s'')))"

definition drain_account :: "('s \<Rightarrow> bool) \<Rightarrow> ('s \<Rightarrow> bool \<times> 's) \<Rightarrow> 's \<Rightarrow> nat \<times> 's" where
  "drain_account stop handle s = drain_loop drain_account_max_claims stop handle s"

definition promote_one :: "(nat \<Rightarrow> uuid) \<Rightarrow> gotime \<Rightarrow> nat \<times> uuid \<Rightarrow> db \<Rightarrow> db" where
  "promote_one fresh now p st =
     (case set_campaign_status (fresh (fst p)) (snd p) StatusRunning None ''auto_started''
             [(''reason'', ''schedule_at reached'')] now st of
        Inl e \<Rightarrow> st | Inr (c, st') \<Rightarrow> st')"

definition run_maintenance :: "(nat \<Rightarrow> uuid) \<Rightarrow> gotime \<Rightarrow> db \<Rightarrow> db" where
  "run_maintenance fresh now st =
     (let due = due_scheduled_campaigns st now;
          st1 = fold (promote_one fresh now) (enumerate 0 due) st;
          running = running_campaign_ids st1 in
      fold (\<lambda>(i, c). complete_if_done (fresh i) c now (\<lambda>d. d)) (enumerate (length due) running) st1)"

section \<open>The disconnect watch\<close>

datatype sample = Connected | Disconnected | LoadFailed

type_synonym watch = "uuid \<Rightarrow> gotime option"

definition mark_disconnect :: "uuid \<Rightarrow> gotime \<Rightarrow> watch \<Rightarrow> gotime \<times> watch" where
  "mark_disconnect a now m =
     (case m a of None \<Rightarrow> (now, m(a \<mapsto> now)) | Some since \<Rightarrow> (since, m))"

definition clear_disconnect :: "uuid \<Rightarrow> watch \<Rightarrow> watch" where
  "clear_disconnect a m = m(a := None)"

definition forget_reconnected :: "uuid set \<Rightarrow> watch \<Rightarrow> watch" where
  "forget_reconnected still_running m = (\<lambda>a. if a \<in> still_running then m a else None)"

text \<open>One account of a check: the new watch, and whether its campaigns are paused.\<close>

definition check_one :: "duration \<Rightarrow> gotime \<Rightarrow> uuid \<times> sample \<Rightarrow> watch \<times> uuid list \<Rightarrow> watch \<times> uuid list" where
  "check_one after now x acc =
     (case acc of (m, paused) \<Rightarrow> case snd x of
        LoadFailed \<Rightarrow> (m, paused)
      | Connected \<Rightarrow> (clear_disconnect (fst x) m, paused)
      | Disconnected \<Rightarrow>
          (case mark_disconnect (fst x) now m of (since, m') \<Rightarrow>
             if now - since < after then (m', paused)
             else (clear_disconnect (fst x) m', paused @ [fst x])))"

text \<open>The accounts whose campaigns this check pauses; the list is the accounts with a running one.\<close>

definition check_disconnects ::
  "duration \<Rightarrow> gotime \<Rightarrow> (uuid \<times> sample) list \<Rightarrow> watch \<Rightarrow> watch \<times> uuid list" where
  "check_disconnects after now accounts m =
     (case fold (check_one after now) accounts (m, []) of
        (m', paused) \<Rightarrow> (forget_reconnected (set (map fst accounts)) m', paused))"

section \<open>Draining is bounded and stops only when there is nothing to do\<close>

text \<open>
  One tick claims at most 20 recipients of an account, and if it stops earlier without being
  cancelled, the last call found nothing to claim.
\<close>

theorem drain_account_bounded:
  assumes "drain_account stop handle s = (n, s')"
  shows "n \<le> 20
    \<and> (n < 20 \<longrightarrow> stop s' \<or> (\<exists>s''. handle s'' = (False, s')))"
proof -
  have "n \<le> k \<and> (n < k \<longrightarrow> stop s' \<or> (\<exists>s''. handle s'' = (False, s')))"
    if "drain_loop k stop handle s = (n, s')" for k
    using that
  proof (induction k arbitrary: s n)
    case (Suc k)
    show ?case
    proof (cases "stop s")
      case False
      obtain c t where h: "handle s = (c, t)" by (cases "handle s")
      show ?thesis
      proof (cases c)
        case True
        then obtain j where "drain_loop k stop handle t = (j, s')" "n = Suc j"
          using Suc.prems False h by (auto split: prod.splits)
        with Suc.IH [of t j] show ?thesis by auto
      qed (use Suc.prems False h in auto)
    qed (use Suc.prems in auto)
  qed simp
  from this [of 20] assms show ?thesis by (simp add: drain_account_def drain_account_max_claims_def)
qed

lemma drain_account_bounded_witness:
  "fst (drain_account (\<lambda>_. False) (\<lambda>k :: nat. (0 < k, k - 1)) 3) = 3
   \<and> (\<exists>s''. (0 < (s'' :: nat), s'' - 1) = (False, snd (drain_account (\<lambda>_. False) (\<lambda>k. (0 < k, k - 1)) 3)))"
proof -
  have d: "drain_account (\<lambda>_. False) (\<lambda>k :: nat. (0 < k, k - 1)) 3 = (3, 0)" by code_simp
  from drain_account_bounded [OF d] d show ?thesis by simp
qed

section \<open>Only a disconnection that no check refutes pauses\<close>

definition watch_after :: "duration \<Rightarrow> (gotime \<times> (uuid \<times> sample) list) list \<Rightarrow> watch" where
  "watch_after after checks = fold (\<lambda>(t, xs) m. fst (check_disconnects after t xs m)) checks Map.empty"

definition since_for :: "watch \<Rightarrow> uuid \<Rightarrow> gotime \<Rightarrow> gotime" where
  "since_for m a now = (case m a of None \<Rightarrow> now | Some s \<Rightarrow> s)"

text \<open>The effect of one check on the account \<open>a\<close>.\<close>

definition watched :: "duration \<Rightarrow> gotime \<Rightarrow> sample option \<Rightarrow> watch \<Rightarrow> uuid \<Rightarrow> gotime option" where
  "watched after now obs m a =
     (case obs of
        None \<Rightarrow> m a
      | Some LoadFailed \<Rightarrow> m a
      | Some Connected \<Rightarrow> None
      | Some Disconnected \<Rightarrow>
          (if now - since_for m a now < after then Some (since_for m a now) else None))"

lemma check_one_other: "fst x \<noteq> a \<Longrightarrow> fst (check_one after now x (m, p)) a = m a"
  by (auto simp: check_one_def mark_disconnect_def clear_disconnect_def
      split: sample.split option.split prod.split)

lemma check_one_this:
  "fst (check_one after now (a, s) (m, p)) a = watched after now (Some s) m a"
  by (auto simp: check_one_def mark_disconnect_def clear_disconnect_def watched_def since_for_def
      split: sample.split option.split prod.split)

lemma check_one_paused:
  "a \<in> set (snd (check_one after now x (m, p))) \<longleftrightarrow>
     a \<in> set p \<or> x = (a, Disconnected) \<and> \<not> now - since_for m a now < after"
  by (cases x) (auto simp: check_one_def mark_disconnect_def clear_disconnect_def since_for_def
      split: sample.splits option.splits if_splits)

lemma check_fold:
  assumes "distinct (map fst xs)"
  shows "fst (fold (check_one after now) xs (m, p)) a = watched after now (map_of xs a) m a
    \<and> (a \<in> set (snd (fold (check_one after now) xs (m, p))) \<longleftrightarrow>
         a \<in> set p \<or> map_of xs a = Some Disconnected \<and> \<not> now - since_for m a now < after)"
  using assms
proof (induction xs arbitrary: m p)
  case Nil
  then show ?case by (simp add: watched_def)
next
  case (Cons x xs)
  obtain m1 p1 where one: "check_one after now x (m, p) = (m1, p1)" by fastforce
  have IH: "fst (fold (check_one after now) xs (m1, p1)) a = watched after now (map_of xs a) m1 a
    \<and> (a \<in> set (snd (fold (check_one after now) xs (m1, p1))) \<longleftrightarrow>
         a \<in> set p1 \<or> map_of xs a = Some Disconnected \<and> \<not> now - since_for m1 a now < after)"
    using Cons by simp
  have p1: "a \<in> set p1 \<longleftrightarrow> a \<in> set p \<or> x = (a, Disconnected) \<and> \<not> now - since_for m a now < after"
    using check_one_paused [of a after now x m p] one by simp
  show ?case
  proof (cases "fst x = a")
    case True
    then have none: "map_of xs a = None" using Cons.prems by (force simp: map_of_eq_None_iff)
    have "m1 a = watched after now (Some (snd x)) m a"
      using check_one_this [of after now a "snd x" m p] one True by (metis fst_conv prod.collapse)
    with IH one none True p1 show ?thesis by (cases x) (auto simp: watched_def)
  next
    case False
    have "m1 a = m a" using check_one_other [OF False, of after now m p] one by simp
    then have "watched after now obs m1 a = watched after now obs m a" "since_for m1 a now = since_for m a now" for obs
      by (simp_all add: watched_def since_for_def cong: option.case_cong sample.case_cong)
    moreover have "x \<noteq> (a, Disconnected)" "map_of (x # xs) a = map_of xs a" using False by (cases x, auto)+
    ultimately show ?thesis using IH one p1 by simp
  qed
qed

text \<open>
  The account was seen disconnected at \<open>since\<close>, and at every check from then on it had a running campaign
  and was seen disconnected again or could not be read: a failed read says nothing about the connection.
\<close>

definition unrefuted_from ::
  "(gotime \<times> (uuid \<times> sample) list) list \<Rightarrow> uuid \<Rightarrow> gotime \<Rightarrow> bool" where
  "unrefuted_from checks a since \<longleftrightarrow>
     (\<exists>pre xs post. checks = pre @ (since, xs) # post \<and> map_of xs a = Some Disconnected
        \<and> (\<forall>(t, ys) \<in> set post. map_of ys a = Some Disconnected \<or> map_of ys a = Some LoadFailed))"

lemma unrefuted_from_snoc:
  "unrefuted_from checks a since \<Longrightarrow>
     map_of ys a = Some Disconnected \<or> map_of ys a = Some LoadFailed \<Longrightarrow>
     unrefuted_from (checks @ [(t, ys)]) a since"
  unfolding unrefuted_from_def by force

lemma unrefuted_from_now:
  "map_of ys a = Some Disconnected \<Longrightarrow> unrefuted_from (checks @ [(t, ys)]) a t"
  unfolding unrefuted_from_def by force

lemma watch_after_Some:
  assumes "\<forall>(t, xs) \<in> set checks. distinct (map fst xs)" and "watch_after after checks a = Some since"
  shows "unrefuted_from checks a since"
  using assms
proof (induction checks arbitrary: since rule: rev_induct)
  case Nil
  then show ?case by (simp add: watch_after_def)
next
  case (snoc c cs)
  obtain t xs where c: "c = (t, xs)" by (cases c)
  have IH: "watch_after after cs a = Some s \<Longrightarrow> unrefuted_from cs a s" for s
    using snoc by simp
  have w: "watch_after after (cs @ [c]) a
      = (if a \<in> fst ` set xs then watched after t (map_of xs a) (watch_after after cs) a else None)"
    using check_fold [of xs after t "watch_after after cs" "[]" a] snoc.prems(1) c
    by (auto simp: watch_after_def check_disconnects_def forget_reconnected_def split: prod.split)
  obtain s where s: "map_of xs a = Some s" and v: "watched after t (Some s) (watch_after after cs) a = Some since"
    using w snoc.prems(2) by (cases "map_of xs a") (auto simp: map_of_eq_None_iff split: if_splits)
  show ?case
  proof (cases "watch_after after cs a = Some since")
    case True
    with v s IH c show ?thesis
      by (cases s) (auto simp: watched_def intro!: unrefuted_from_snoc)
  next
    case False
    with v s c show ?thesis
      by (cases s) (auto simp: watched_def since_for_def intro!: unrefuted_from_now
          split: if_splits option.splits)
  qed
qed

text \<open>
  C33: no account is paused that any check of the grace period saw connected. If a check pauses the
  campaigns of an account, this check and one at least \<open>DisconnectAfter\<close> ago saw it disconnected, and
  every check between them found it with a running campaign and either saw it disconnected again or
  failed to read it; none saw it connected.
\<close>

theorem pause_needs_continuous_disconnect:
  assumes "\<forall>(t, xs) \<in> set checks. distinct (map fst xs)" and "distinct (map fst now_xs)"
    and "a \<in> set (snd (check_disconnects after now now_xs (watch_after after checks)))"
  shows "map_of now_xs a = Some Disconnected
    \<and> (\<exists>since. after \<le> now - since \<and> unrefuted_from (checks @ [(now, now_xs)]) a since)"
proof -
  let ?m = "watch_after after checks"
  from check_fold [OF assms(2), of after now ?m "[]" a] assms(3)
  have d: "map_of now_xs a = Some Disconnected" "after \<le> now - since_for ?m a now"
    by (auto simp: check_disconnects_def split: prod.splits)
  show ?thesis
  proof (cases "?m a")
    case None
    with d unrefuted_from_now [of now_xs a checks now] show ?thesis
      by (intro conjI exI [of _ now]) (simp_all add: since_for_def)
  next
    case (Some since)
    with watch_after_Some [OF assms(1) Some] d unrefuted_from_snoc show ?thesis
      by (auto simp: since_for_def)
  qed
qed

lemma pause_needs_continuous_disconnect_witness:
  "\<exists>since. 60 \<le> (65 :: int) - since \<and>
     unrefuted_from ([(0, [(9, Disconnected)]), (30, [(9, LoadFailed)])] @ [(65, [(9, Disconnected)])]) 9 since"
  by (rule pause_needs_continuous_disconnect [THEN conjunct2]) (simp, simp, code_simp)

text \<open>
  The grace period is not one of continuous observation: two sightings at its ends are enough, whatever
  happened in between, if every check in between failed to read the account.
\<close>

lemma watch_unread: "watch_after after (checks @ map (\<lambda>t. (t, [(a, LoadFailed)])) ts) a = watch_after after checks a"
  by (induction ts rule: rev_induct)
    (simp_all add: watch_after_def check_disconnects_def check_one_def forget_reconnected_def flip: append_assoc)

lemma unread_checks_count:
  assumes "0 < after" and "after \<le> now - since"
  shows "snd (check_disconnects after now [(a, Disconnected)]
    (watch_after after ((since, [(a, Disconnected)]) # map (\<lambda>t. (t, [(a, LoadFailed)])) ts))) = [a]"
proof -
  have "watch_after after [(since, [(a, Disconnected)])] a = Some since"
    using assms(1) by (simp add: watch_after_def check_disconnects_def check_one_def mark_disconnect_def
        forget_reconnected_def)
  with watch_unread [of after "[(since, [(a, Disconnected)])]" a ts]
  have "watch_after after ((since, [(a, Disconnected)]) # map (\<lambda>t. (t, [(a, LoadFailed)])) ts) a = Some since"
    by simp
  with assms(2) show ?thesis
    by (simp add: check_disconnects_def check_one_def mark_disconnect_def)
qed

end
