(* ===== verification/Automation_Store.thy ===== *)
theory Automation_Store
  imports Campaign_Store
begin

text \<open>
  The automation tables of \<open>backend/internal/store/automation.go\<close>: a channel's mode and schedule,
  the durable debounce and dispatch jobs, the version-gated draft write and the guarded auto-send.
  The drafts and the messages of a chat are kept as far as these methods read and write them; the
  telemetry rows that accompany an escalated draft are not.
\<close>

section \<open>Rows\<close>

record automation_settings =
  as_account :: uuid
  as_mode :: mode
  as_wait :: "int option"
  as_updated :: gotime

datatype debounce_status = DebouncePending | DebounceClaimed

record debounce_row =
  j_chat :: uuid
  j_account :: uuid
  j_channel :: string
  j_deadline :: gotime
  j_version :: int
  j_status :: debounce_status
  j_updated :: gotime

datatype dispatch_status = DispatchPending | DispatchProcessing

record dispatch_job =
  d_id :: uuid
  d_chat :: uuid
  d_account :: uuid
  d_channel :: string
  d_version :: int
  d_status :: dispatch_status
  d_attempts :: int
  d_error :: string
  d_updated :: gotime

datatype draft_state = Suggested | Sent | Superseded

record draft_option =
  o_ordinal :: int
  o_text :: string
  o_language :: string
  o_escalate :: bool
  o_reason :: string

record draft_row =
  g_id :: uuid
  g_chat :: uuid
  g_channel :: string
  g_trigger :: "uuid option"
  g_option :: draft_option
  g_state :: draft_state
  g_sent_message :: "uuid option"

datatype direction = DirectionIn | DirectionOut
datatype sender_kind = SenderContact | SenderUser | SenderExternalAccount | SenderAI | SenderCampaign

record message_row =
  m_id :: uuid
  m_chat :: uuid
  m_direction :: direction
  m_sender :: sender_kind
  m_body :: string
  m_ts :: "gotime option"
  m_created :: gotime

record adb =
  settings_rows :: "automation_settings list"
  schedule_windows :: "window_row list"
  debounce_jobs :: "debounce_row list"
  dispatch_jobs :: "dispatch_job list"
  drafts :: "draft_row list"
  messages :: "message_row list"

section \<open>Settings\<close>

definition default_automation_settings :: "uuid \<Rightarrow> automation_settings" where
  "default_automation_settings account =
     \<lparr>as_account = account, as_mode = ModeSuggestions, as_wait = None, as_updated = zero_time\<rparr>"

definition automation_settings_for_account :: "adb \<Rightarrow> uuid \<Rightarrow> automation_settings" where
  "automation_settings_for_account st account =
     (case find_by as_account account (settings_rows st) of
        None \<Rightarrow> default_automation_settings account | Some s \<Rightarrow> s)"

definition automation_settings_for_accounts :: "adb \<Rightarrow> uuid list \<Rightarrow> uuid \<Rightarrow> automation_settings option" where
  "automation_settings_for_accounts st accounts a =
     (if a \<in> set accounts then find_by as_account a (settings_rows st) else None)"

definition automation_windows_for_account :: "adb \<Rightarrow> uuid \<Rightarrow> window list" where
  "automation_windows_for_account st account =
     sort_key (\<lambda>w. (weekday w, start_minute w))
       (map w_window (filter (\<lambda>w. w_owner w = account) (schedule_windows st)))"

definition wait_check :: "int option \<Rightarrow> bool" where
  "wait_check w \<longleftrightarrow> (case w of None \<Rightarrow> True | Some n \<Rightarrow> 0 \<le> n \<and> n \<le> 60)"

definition set_automation_settings ::
  "(nat \<Rightarrow> uuid) \<Rightarrow> uuid \<Rightarrow> mode \<Rightarrow> int option \<Rightarrow> window list \<Rightarrow> gotime \<Rightarrow> adb
     \<Rightarrow> store_error + (automation_settings \<times> window list) \<times> adb" where
  "set_automation_settings fresh account md wait ws now st =
     (let row = \<lparr>as_account = account, as_mode = md, as_wait = wait, as_updated = db_time now\<rparr>;
          st1 = st\<lparr>settings_rows :=
                    (if list_ex (\<lambda>s. as_account s = account) (settings_rows st)
                     then update_where (\<lambda>s. as_account s = account) (\<lambda>_. row) (settings_rows st)
                     else settings_rows st @ [row]),
                  schedule_windows := filter (\<lambda>w. w_owner w \<noteq> account) (schedule_windows st)
                    @ map (\<lambda>(i, w). \<lparr>w_id = fresh i, w_owner = account, w_window = w\<rparr>) (enumerate 0 ws)\<rparr> in
      if \<not> wait_check wait \<or> \<not> list_all window_check ws then Inl ErrConstraint
      else Inr ((row, ws),
        if md = ModeOff
        then st1\<lparr>debounce_jobs := filter (\<lambda>j. \<not> (j_account j = account \<and> j_status j = DebouncePending))
                   (debounce_jobs st1),
                 dispatch_jobs := filter (\<lambda>d. \<not> (d_account d = account \<and> d_status d = DispatchPending))
                   (dispatch_jobs st1)\<rparr>
        else st1))"

section \<open>Debounce jobs\<close>

definition rearm_row :: "uuid \<Rightarrow> string \<Rightarrow> gotime \<Rightarrow> gotime \<Rightarrow> debounce_row \<Rightarrow> debounce_row" where
  "rearm_row account channel dl now j = j\<lparr>j_account := account, j_channel := channel,
     j_deadline := db_time dl, j_version := j_version j + 1, j_status := DebouncePending,
     j_updated := db_time now\<rparr>"

definition arm_debounce :: "uuid \<Rightarrow> uuid \<Rightarrow> string \<Rightarrow> gotime \<Rightarrow> gotime \<Rightarrow> adb \<Rightarrow> adb" where
  "arm_debounce chat account channel dl now st =
     st\<lparr>debounce_jobs :=
       (if list_ex (\<lambda>j. j_chat j = chat) (debounce_jobs st)
        then update_where (\<lambda>j. j_chat j = chat) (rearm_row account channel dl now) (debounce_jobs st)
        else debounce_jobs st @
          [\<lparr>j_chat = chat, j_account = account, j_channel = channel, j_deadline = db_time dl,
            j_version = 1, j_status = DebouncePending, j_updated = db_time now\<rparr>])\<rparr>"

definition current_burst_version :: "adb \<Rightarrow> uuid \<Rightarrow> int" where
  "current_burst_version st chat =
     (case find_by j_chat chat (debounce_jobs st) of None \<Rightarrow> 0 | Some j \<Rightarrow> j_version j)"

definition claim_debounce_row :: "gotime \<Rightarrow> debounce_row \<Rightarrow> debounce_row" where
  "claim_debounce_row now j = j\<lparr>j_status := DebounceClaimed, j_updated := db_time now\<rparr>"

definition due_chats :: "gotime \<Rightarrow> int \<Rightarrow> adb \<Rightarrow> uuid list" where
  "due_chats now lim st =
     (let n = (if lim \<le> 0 then 100 else lim) in
      map j_chat (take (nat n) (sort_key j_deadline
        (filter (\<lambda>j. j_status j = DebouncePending \<and> j_deadline j \<le> db_time now) (debounce_jobs st)))))"

definition new_dispatch :: "uuid \<Rightarrow> debounce_row \<Rightarrow> gotime \<Rightarrow> dispatch_job" where
  "new_dispatch i j now = \<lparr>d_id = i, d_chat = j_chat j, d_account = j_account j, d_channel = j_channel j,
     d_version = j_version j, d_status = DispatchPending, d_attempts = 0, d_error = '''',
     d_updated = db_time now\<rparr>"

text \<open>The unique index on (chat_id, burst_version).\<close>

definition burst_taken :: "dispatch_job list \<Rightarrow> uuid \<Rightarrow> int \<Rightarrow> bool" where
  "burst_taken ds chat version \<longleftrightarrow> list_ex (\<lambda>d. d_chat d = chat \<and> d_version d = version) ds"

definition promote_debounce ::
  "(nat \<Rightarrow> uuid) \<Rightarrow> gotime \<Rightarrow> nat \<times> debounce_row \<Rightarrow> dispatch_job list \<Rightarrow> store_error + dispatch_job list" where
  "promote_debounce fresh now p ds =
     (if burst_taken ds (j_chat (snd p)) (j_version (snd p)) then Inl ErrConstraint
      else Inr (ds @ [new_dispatch (fresh (fst p)) (snd p) now]))"

definition claim_due_dispatch_jobs ::
  "(nat \<Rightarrow> uuid) \<Rightarrow> gotime \<Rightarrow> int \<Rightarrow> adb \<Rightarrow> store_error + dispatch_job list \<times> adb" where
  "claim_due_dispatch_jobs fresh now lim st =
     (let ids = due_chats now lim st in
      if length ids = 0 then Inr ([], st)
      else
        let hit = (\<lambda>j. j_status j = DebouncePending \<and> j_chat j \<in> set ids);
            due = filter hit (debounce_jobs st);
            old = dispatch_jobs st in
        bindE (foldE (promote_debounce fresh now) (enumerate 0 due) old) (\<lambda>ds.
          Inr (drop (length old) ds,
               st\<lparr>debounce_jobs := update_where hit (claim_debounce_row now) (debounce_jobs st),
                  dispatch_jobs := ds\<rparr>)))"

section \<open>Dispatch jobs\<close>

definition create_dispatch_job ::
  "uuid \<Rightarrow> uuid \<Rightarrow> uuid \<Rightarrow> string \<Rightarrow> int \<Rightarrow> gotime \<Rightarrow> adb \<Rightarrow> uuid \<times> adb" where
  "create_dispatch_job new_id chat account channel version now st =
     (case find (\<lambda>d. d_chat d = chat \<and> d_version d = version) (dispatch_jobs st) of
        Some d \<Rightarrow> (d_id d, st\<lparr>dispatch_jobs := update_where (\<lambda>d. d_chat d = chat \<and> d_version d = version)
                              (\<lambda>d. d\<lparr>d_account := account, d_channel := channel\<rparr>) (dispatch_jobs st)\<rparr>)
      | None \<Rightarrow> (new_id, st\<lparr>dispatch_jobs := dispatch_jobs st @
            [\<lparr>d_id = new_id, d_chat = chat, d_account = account, d_channel = channel, d_version = version,
              d_status = DispatchPending, d_attempts = 0, d_error = '''', d_updated = db_time now\<rparr>]\<rparr>))"

definition dispatch_job_by_id :: "adb \<Rightarrow> uuid \<Rightarrow> store_error + dispatch_job" where
  "dispatch_job_by_id st i =
     (case find_by d_id i (dispatch_jobs st) of None \<Rightarrow> Inl ErrNotFound | Some d \<Rightarrow> Inr d)"

definition processing_row :: "gotime \<Rightarrow> dispatch_job \<Rightarrow> dispatch_job" where
  "processing_row now d = d\<lparr>d_status := DispatchProcessing, d_updated := db_time now\<rparr>"

definition mark_dispatch_processing :: "uuid \<Rightarrow> gotime \<Rightarrow> adb \<Rightarrow> adb" where
  "mark_dispatch_processing i now st =
     st\<lparr>dispatch_jobs := update_where (\<lambda>d. d_id d = i) (processing_row now) (dispatch_jobs st)\<rparr>"

definition claim_dispatch_job :: "uuid \<Rightarrow> gotime \<Rightarrow> adb \<Rightarrow> bool \<times> adb" where
  "claim_dispatch_job i now st =
     (let hit = (\<lambda>d. d_id d = i \<and> d_status d = DispatchPending) in
      (affected hit (dispatch_jobs st) = 1,
       st\<lparr>dispatch_jobs := update_where hit (processing_row now) (dispatch_jobs st)\<rparr>))"

definition delete_dispatch_job :: "uuid \<Rightarrow> adb \<Rightarrow> adb" where
  "delete_dispatch_job i st = st\<lparr>dispatch_jobs := filter (\<lambda>d. d_id d \<noteq> i) (dispatch_jobs st)\<rparr>"

definition failure_row :: "string \<Rightarrow> gotime \<Rightarrow> dispatch_job \<Rightarrow> dispatch_job" where
  "failure_row cause now d = d\<lparr>d_attempts := d_attempts d + 1, d_error := cause,
     d_status := DispatchPending, d_updated := db_time now\<rparr>"

text \<open>The new attempt count, 0 (with an error) when the job is gone.\<close>

definition record_dispatch_failure :: "uuid \<Rightarrow> string \<Rightarrow> gotime \<Rightarrow> adb \<Rightarrow> int \<times> adb" where
  "record_dispatch_failure i cause now st =
     ((case find_by d_id i (dispatch_jobs st) of None \<Rightarrow> 0 | Some d \<Rightarrow> d_attempts d + 1),
      st\<lparr>dispatch_jobs := update_where (\<lambda>d. d_id d = i) (failure_row cause now) (dispatch_jobs st)\<rparr>)"

definition unstick_row :: "dispatch_job \<Rightarrow> dispatch_job" where
  "unstick_row d = d\<lparr>d_status := DispatchPending\<rparr>"

definition refresh_row :: "gotime \<Rightarrow> dispatch_job \<Rightarrow> dispatch_job" where
  "refresh_row now d = d\<lparr>d_updated := db_time now\<rparr>"

definition recoverable_dispatch_jobs ::
  "gotime \<Rightarrow> int \<Rightarrow> gotime \<Rightarrow> adb \<Rightarrow> dispatch_job list \<times> adb" where
  "recoverable_dispatch_jobs stuck_since lim now st =
     (let cutoff = db_time stuck_since;
          n = (if lim \<le> 0 then 100 else lim);
          ds1 = update_where (\<lambda>d. d_status d = DispatchProcessing \<and> d_updated d \<le> cutoff)
                  unstick_row (dispatch_jobs st);
          ids = map d_id (take (nat n) (sort_key d_updated
                  (filter (\<lambda>d. d_status d = DispatchPending \<and> d_updated d \<le> cutoff) ds1)));
          ds2 = update_where (\<lambda>d. d_id d \<in> set ids) (refresh_row now) ds1 in
      (filter (\<lambda>d. d_id d \<in> set ids) ds2, st\<lparr>dispatch_jobs := ds2\<rparr>))"

end
