(* ===== verification/Automation_Runner.thy ===== *)
theory Automation_Runner
  imports Automation_Store
begin

text \<open>
  Drafts and auto-sends: the guarded writes of \<open>internal/store/automation.go\<close>, the runner of
  \<open>internal/automation/runner.go\<close> and the scheduler's inbound hook. The generation itself, a call
  of the response service that takes seconds, lies between the two halves of \<open>HandleRun\<close>; its
  outcome is an argument of the second half.
\<close>

section \<open>Drafts\<close>

definition supersede_chat :: "uuid \<Rightarrow> draft_row list \<Rightarrow> draft_row list" where
  "supersede_chat chat gs =
     update_where (\<lambda>g. g_chat g = chat \<and> g_state g = Suggested) (\<lambda>g. g\<lparr>g_state := Superseded\<rparr>) gs"

definition new_draft :: "uuid \<Rightarrow> uuid \<Rightarrow> string \<Rightarrow> uuid option \<Rightarrow> draft_option \<Rightarrow> draft_row" where
  "new_draft i chat channel trigger opt =
     \<lparr>g_id = i, g_chat = chat, g_channel = (if channel = '''' then ChannelWhatsApp else channel),
      g_trigger = trigger, g_option = opt, g_state = Suggested, g_sent_message = None\<rparr>"

text \<open>
  \<open>writeDraftOptionsTx\<close>. \<open>gap_ok\<close> says whether the telemetry row of an escalated option can be
  written; the unique index on pending drafts forbids two options with one ordinal.
\<close>

definition write_draft_options ::
  "(nat \<Rightarrow> uuid) \<Rightarrow> (draft_option \<Rightarrow> bool) \<Rightarrow> uuid \<Rightarrow> string \<Rightarrow> uuid option \<Rightarrow> draft_option list \<Rightarrow> adb
     \<Rightarrow> store_error + draft_row list \<times> adb" where
  "write_draft_options fresh gap_ok chat channel trigger opts st =
     (let new = map (\<lambda>(i, opt). new_draft (fresh i) chat channel trigger opt) (enumerate 0 opts) in
      if \<not> distinct (map o_ordinal opts) then Inl ErrConstraint
      else if list_ex (\<lambda>opt. o_escalate opt \<and> \<not> gap_ok opt) opts then Inl ErrConstraint
      else Inr (new, st\<lparr>drafts := supersede_chat chat (drafts st) @ new\<rparr>))"

text \<open>\<open>None\<close> is the discarded, stale write.\<close>

definition write_draft_set_if_version_current ::
  "(nat \<Rightarrow> uuid) \<Rightarrow> (draft_option \<Rightarrow> bool) \<Rightarrow> string \<Rightarrow> uuid \<Rightarrow> int \<Rightarrow> uuid option \<Rightarrow> draft_option list \<Rightarrow> adb
     \<Rightarrow> store_error + draft_row list option \<times> adb" where
  "write_draft_set_if_version_current fresh gap_ok channel chat expected trigger opts st =
     (if current_burst_version st chat \<noteq> expected then Inr (None, st)
      else bindE (write_draft_options fresh gap_ok chat channel trigger opts st)
             (\<lambda>(out, st'). Inr (Some out, st')))"

section \<open>The auto-send gate\<close>

definition human_replied :: "adb \<Rightarrow> uuid \<Rightarrow> gotime option \<Rightarrow> bool" where
  "human_replied st chat trigger_ts \<longleftrightarrow>
     list_ex (\<lambda>m. m_chat m = chat \<and> m_direction m = DirectionOut \<and>
       (m_sender m = SenderUser \<or> m_sender m = SenderExternalAccount) \<and>
       (case (m_ts m, trigger_ts) of (Some a, Some b) \<Rightarrow> a > b | _ \<Rightarrow> True)) (messages st)"

text \<open>\<open>ORDER BY message_ts DESC NULLS LAST, created_at DESC\<close>.\<close>

definition recency :: "message_row \<Rightarrow> bool \<times> gotime \<times> gotime" where
  "recency m = (case m_ts m of None \<Rightarrow> (True, 0, - m_created m) | Some t \<Rightarrow> (False, - t, - m_created m))"

definition latest_inbound :: "adb \<Rightarrow> uuid \<Rightarrow> uuid option" where
  "latest_inbound st chat =
     (case sort_key recency (filter (\<lambda>m. m_chat m = chat \<and> m_direction m = DirectionIn) (messages st)) of
        [] \<Rightarrow> None | m # _ \<Rightarrow> Some (m_id m))"

definition auto_send_allowed :: "adb \<Rightarrow> uuid \<Rightarrow> uuid \<Rightarrow> uuid option \<Rightarrow> bool" where
  "auto_send_allowed st chat account trigger \<longleftrightarrow>
     (if as_mode (automation_settings_for_account st account) \<noteq> ModeScheduledAuto then False
      else case trigger of
        None \<Rightarrow> False
      | Some t \<Rightarrow>
          (case find_by m_id t (messages st) of
             None \<Rightarrow> False
           | Some m \<Rightarrow>
               if human_replied st chat (m_ts m) then False
               else latest_inbound st chat = Some t))"

definition send_draft_row :: "draft_row \<Rightarrow> draft_row" where
  "send_draft_row g = g\<lparr>g_state := Sent\<rparr>"

definition claim_draft_for_auto_send ::
  "uuid \<Rightarrow> uuid \<Rightarrow> uuid \<Rightarrow> uuid option \<Rightarrow> adb \<Rightarrow> draft_row option \<times> adb" where
  "claim_draft_for_auto_send draft chat account trigger st =
     (if \<not> auto_send_allowed st chat account trigger then (None, st)
      else case find (\<lambda>g. g_id g = draft \<and> g_state g = Suggested) (drafts st) of
        None \<Rightarrow> (None, st)
      | Some g \<Rightarrow>
          (Some (send_draft_row g),
           st\<lparr>drafts := update_where (\<lambda>g. g_chat g = chat \<and> g_id g \<noteq> draft \<and> g_state g = Suggested)
                (\<lambda>g. g\<lparr>g_state := Superseded\<rparr>)
                (update_where (\<lambda>g. g_id g = draft \<and> g_state g = Suggested) send_draft_row (drafts st))\<rparr>))"

definition automation_message :: "uuid \<Rightarrow> uuid \<Rightarrow> string \<Rightarrow> gotime \<Rightarrow> message_row" where
  "automation_message i chat body now = \<lparr>m_id = i, m_chat = chat, m_direction = DirectionOut,
     m_sender = SenderAI, m_body = body, m_ts = Some (db_time now), m_created = db_time now\<rparr>"

definition insert_automation_outbound :: "uuid \<Rightarrow> uuid \<Rightarrow> string \<Rightarrow> gotime \<Rightarrow> adb \<Rightarrow> adb" where
  "insert_automation_outbound i chat body now st =
     st\<lparr>messages := messages st @ [automation_message i chat body now]\<rparr>"

definition set_draft_sent :: "uuid \<Rightarrow> uuid \<Rightarrow> adb \<Rightarrow> adb" where
  "set_draft_sent draft msg st =
     st\<lparr>drafts := update_where (\<lambda>g. g_id g = draft) (\<lambda>g. g\<lparr>g_sent_message := Some msg\<rparr>) (drafts st)\<rparr>"

section \<open>The runner\<close>

definition max_dispatch_attempts :: int where "max_dispatch_attempts = 5"

text \<open>A task on the outbound queue.\<close>

record outbound_task =
  t_message :: uuid
  t_account :: uuid
  t_channel :: string
  t_text :: string

datatype generation = GenerationFailed string | Generated "uuid option" draft_option

datatype run_start = RunOver | RunGenerating dispatch_job automation_settings

text \<open>The first half: ownership and the mode check.\<close>

definition handle_run_begin :: "uuid \<Rightarrow> gotime \<Rightarrow> adb \<Rightarrow> run_start \<times> adb" where
  "handle_run_begin i now st =
     (case dispatch_job_by_id st i of
        Inl e \<Rightarrow> (RunOver, st)
      | Inr job \<Rightarrow>
          if d_status job = DispatchProcessing then
            (RunOver, if as_mode (automation_settings_for_account st (d_account job)) = ModeOff
                      then delete_dispatch_job (d_id job) st else st)
          else
            (case claim_dispatch_job (d_id job) now st of
               (False, st1) \<Rightarrow> (RunOver, st1)
             | (True, st1) \<Rightarrow>
                 let settings = automation_settings_for_account st1 (d_account job) in
                 if as_mode settings = ModeOff then (RunOver, delete_dispatch_job (d_id job) st1)
                 else (RunGenerating job settings, st1)))"

definition give_up_or_retry :: "dispatch_job \<Rightarrow> string \<Rightarrow> gotime \<Rightarrow> adb \<Rightarrow> adb" where
  "give_up_or_retry job cause now st =
     (case record_dispatch_failure (d_id job) cause now st of
        (attempts, st1) \<Rightarrow>
          if attempts \<ge> max_dispatch_attempts then delete_dispatch_job (d_id job) st1 else st1)"

text \<open>
  The second half runs as separate transactions, each of which can fail, and between any two of them
  other goroutines commit. \<open>run_env\<close> collects what the half depends on besides the tables: for the
  draft number \<open>k\<close> whether each statement succeeds, the clock and the identifiers, and in
  \<open>re_others en k j\<close> what others commit before its transaction number \<open>j\<close> (the reload of the draft,
  the read of the windows, the claim, the insert of the message, the stamp of the draft), and in \<open>re_last\<close> before its last one.
\<close>

record run_env =
  re_gap_ok :: "draft_option \<Rightarrow> bool"
  re_draft_id :: "nat \<Rightarrow> uuid"
  re_reload_ok :: "nat \<Rightarrow> bool"
  re_windows_ok :: "nat \<Rightarrow> bool"
  re_claim_ok :: "nat \<Rightarrow> bool"
  re_chat_found :: "nat \<Rightarrow> bool"
  re_insert_ok :: "nat \<Rightarrow> bool"
  re_stamp_ok :: "nat \<Rightarrow> bool"
  re_publish_ok :: "nat \<Rightarrow> bool"
  re_message :: "nat \<Rightarrow> uuid"
  re_now :: "nat \<Rightarrow> gotime"
  re_others :: "nat \<Rightarrow> nat \<Rightarrow> adb \<Rightarrow> adb"
  re_last :: "adb \<Rightarrow> adb"
  re_delete_ok :: bool
  re_end :: gotime

text \<open>
  \<open>dispatchSend\<close>: \<open>ChatByID\<close>, \<open>InsertAutomationOutbound\<close>, \<open>SetDraftSent\<close>, \<open>Publish\<close>. Every error is
  logged; those of the first two end the send, the draft staying claimed.
\<close>

definition outbound_task_for :: "run_env \<Rightarrow> nat \<Rightarrow> dispatch_job \<Rightarrow> draft_row \<Rightarrow> outbound_task" where
  "outbound_task_for en k job g = \<lparr>t_message = re_message en k, t_account = d_account job,
     t_channel = d_channel job, t_text = o_text (g_option g)\<rparr>"

definition dispatch_send ::
  "run_env \<Rightarrow> nat \<Rightarrow> dispatch_job \<Rightarrow> draft_row \<Rightarrow> adb \<Rightarrow> outbound_task list \<times> adb" where
  "dispatch_send en k job g st =
     (if \<not> re_chat_found en k then ([], st)
      else
        let st1 = re_others en k 3 st in
        if \<not> re_insert_ok en k then ([], st1)
        else
          let st2 = re_others en k 4
                      (insert_automation_outbound (re_message en k) (d_chat job) (o_text (g_option g)) (re_now en k) st1);
              st3 = (if re_stamp_ok en k then set_draft_sent (g_id g) (re_message en k) st2 else st2) in
          (if re_publish_ok en k then [outbound_task_for en k job g] else [], st3))"

definition maybe_auto_send ::
  "run_env \<Rightarrow> nat \<Rightarrow> dispatch_job \<Rightarrow> draft_row \<Rightarrow> adb \<Rightarrow> outbound_task list \<times> adb" where
  "maybe_auto_send en k job g st =
     (let st1 = re_others en k 1 st in
      if \<not> re_windows_ok en k then ([], st1)
      else if \<not> in_schedule (automation_windows_for_account st1 (d_account job)) (re_now en k) then ([], st1)
      else
        let st2 = re_others en k 2 st1 in
        if \<not> re_claim_ok en k then ([], st2)
        else case claim_draft_for_auto_send (g_id g) (d_chat job) (d_account job) (g_trigger g) st2 of
          (None, st3) \<Rightarrow> ([], st3)
        | (Some sent, st3) \<Rightarrow> dispatch_send en k job sent st3)"

text \<open>The loop over the persisted drafts, each reloaded by its identifier.\<close>

definition finish_draft ::
  "run_env \<Rightarrow> dispatch_job \<Rightarrow> automation_settings \<Rightarrow> nat \<times> draft_row \<Rightarrow> outbound_task list \<times> adb
     \<Rightarrow> outbound_task list \<times> adb" where
  "finish_draft en job settings p acc =
     (case acc of (out, s) \<Rightarrow>
        let k = fst p; s1 = re_others en k 0 s in
        if \<not> re_reload_ok en k then (out, s1)
        else case find_by g_id (g_id (snd p)) (drafts s1) of
          None \<Rightarrow> (out, s1)
        | Some d \<Rightarrow>
            if as_mode settings = ModeScheduledAuto then
              (case maybe_auto_send en k job d s1 of (ts, s2) \<Rightarrow> (out @ ts, s2))
            else (out, s1))"

definition finish_drafts ::
  "run_env \<Rightarrow> dispatch_job \<Rightarrow> automation_settings \<Rightarrow> draft_row list \<Rightarrow> adb \<Rightarrow> outbound_task list \<times> adb" where
  "finish_drafts en job settings persisted st =
     fold (finish_draft en job settings) (enumerate 0 persisted) ([], st)"

text \<open>The error of the last statement is ignored.\<close>

definition finish_job :: "run_env \<Rightarrow> dispatch_job \<Rightarrow> adb \<Rightarrow> adb" where
  "finish_job en job st =
     (let st1 = re_last en st in if re_delete_ok en then delete_dispatch_job (d_id job) st1 else st1)"

text \<open>
  The second half from the version-gated write on, which is the last action of the generation; \<open>st\<close>
  is the database at that moment. A write that fails is a failed generation.
\<close>

definition handle_run_finish ::
  "run_env \<Rightarrow> dispatch_job \<Rightarrow> automation_settings \<Rightarrow> generation \<Rightarrow> adb \<Rightarrow> outbound_task list \<times> adb" where
  "handle_run_finish en job settings result st =
     (case result of
        GenerationFailed cause \<Rightarrow> ([], give_up_or_retry job cause (re_end en) (re_last en st))
      | Generated trigger opt \<Rightarrow>
          (case write_draft_set_if_version_current (re_draft_id en) (re_gap_ok en) (d_channel job) (d_chat job)
                  (d_version job) trigger [opt] st of
             Inl e \<Rightarrow> ([], give_up_or_retry job ''automation: write draft'' (re_end en) (re_last en st))
           | Inr (None, st1) \<Rightarrow> ([], finish_job en job st1)
           | Inr (Some persisted, st1) \<Rightarrow>
               if length persisted = 0 then ([], finish_job en job st1)
               else case finish_drafts en job settings persisted st1 of
                 (out, st2) \<Rightarrow> (out, finish_job en job st2)))"

text \<open>\<open>Scheduler.OnInboundMessage\<close>: no debounce is armed while the mode is off.\<close>

definition on_inbound_message ::
  "int \<Rightarrow> uuid \<Rightarrow> uuid \<Rightarrow> string \<Rightarrow> gotime \<Rightarrow> gotime \<Rightarrow> adb \<Rightarrow> adb" where
  "on_inbound_message system_default chat account channel last_message now st =
     (let at = (if last_message = zero_time then now else last_message);
          settings = automation_settings_for_account st account in
      if as_mode settings = ModeOff then st
      else arm_debounce chat account channel
             (deadline at (effective_wait_seconds system_default (as_wait settings))) now st)"

end
