(* ===== verification/Automation_Events.thy ===== *)
theory Automation_Events
  imports Automation_Runner
begin

text \<open>
  Runs of the automation: every operation of the store and the runner as a labelled step, in any order
  and by any number of goroutines. Two facts about runs carry the properties that span them: a
  chat's burst version never falls while its accounts stay on, and an account that is off stays
  off, with no debounce row waiting, until somebody saves another mode.
\<close>

section \<open>Job rows keep their keys\<close>

interpretation processing_upd: keyed_update d_id "processing_row now"
  by unfold_locales (simp add: processing_row_def)

interpretation failure_upd: keyed_update d_id "failure_row cause now"
  by unfold_locales (simp add: failure_row_def)

interpretation unstick_upd: keyed_update d_id unstick_row
  by unfold_locales (simp add: unstick_row_def)

interpretation refresh_job_upd: keyed_update d_id "refresh_row now"
  by unfold_locales (simp add: refresh_row_def)

interpretation rearm_upd: keyed_update j_chat "rearm_row account channel dl now"
  by unfold_locales (simp add: rearm_row_def)

interpretation claim_debounce_upd: keyed_update j_chat "claim_debounce_row now"
  by unfold_locales (simp add: claim_debounce_row_def)

lemma find_by_filter_key: "find_by key k (filter (\<lambda>r. key r \<noteq> k) rs) = None"
  by (simp add: find_by_None image_iff) blast

lemma find_by_single: "find_by key k [r] = (if key r = k then Some r else None)"
  by (simp add: find_by_def)

section \<open>The modes of an account\<close>

lemma find_by_overwrite:
  "find_by as_account account (update_where (\<lambda>s. as_account s = account) (\<lambda>_. row) rs)
   = map_option (\<lambda>_. row) (find_by as_account account rs)" if "as_account row = account"
  using that by (induction rs) (auto simp: find_by_def update_where_def)

lemma find_by_overwrite_other:
  "a \<noteq> account \<Longrightarrow> as_account row = account \<Longrightarrow>
     find_by as_account a (update_where (\<lambda>s. as_account s = account) (\<lambda>_. row) rs) = find_by as_account a rs"
  by (induction rs) (auto simp: find_by_def update_where_def)

lemma listed_account: "list_ex (\<lambda>s. as_account s = account) rs \<longleftrightarrow> find_by as_account account rs \<noteq> None"
  by (induction rs) (auto simp: find_by_def)

abbreviation mode_of :: "adb \<Rightarrow> uuid \<Rightarrow> mode" where
  "mode_of st account \<equiv> as_mode (automation_settings_for_account st account)"

lemma mode_after_save:
  assumes "set_automation_settings fresh account md wait ws now st = Inr (res, st')"
  shows "mode_of st' a = (if a = account then md else mode_of st a)"
proof -
  let ?row = "\<lparr>as_account = account, as_mode = md, as_wait = wait, as_updated = db_time now\<rparr>"
  have rows: "settings_rows st' = (if list_ex (\<lambda>s. as_account s = account) (settings_rows st)
                     then update_where (\<lambda>s. as_account s = account) (\<lambda>_. ?row) (settings_rows st)
                     else settings_rows st @ [?row])"
    using assms by (auto simp: set_automation_settings_def Let_def split: if_splits)
  have "find_by as_account account (settings_rows st') = Some ?row"
    by (auto simp: rows listed_account find_by_overwrite find_by_append find_by_single)
  moreover have "find_by as_account a (settings_rows st') = find_by as_account a (settings_rows st)" if "a \<noteq> account"
    using that by (auto simp: rows find_by_overwrite_other find_by_append find_by_single split: option.split)
  ultimately show ?thesis by (simp add: automation_settings_for_account_def)
qed

lemma jobs_after_save:
  assumes "set_automation_settings fresh account md wait ws now st = Inr (res, st')"
  shows "debounce_jobs st' = (if md = ModeOff
      then filter (\<lambda>j. \<not> (j_account j = account \<and> j_status j = DebouncePending)) (debounce_jobs st)
      else debounce_jobs st)"
    and "dispatch_jobs st' = (if md = ModeOff
      then filter (\<lambda>d. \<not> (d_account d = account \<and> d_status d = DispatchPending)) (dispatch_jobs st)
      else dispatch_jobs st)"
  using assms by (auto simp: set_automation_settings_def Let_def split: if_splits)

lemma mode_ignores [simp]:
  "automation_settings_for_account (st\<lparr>dispatch_jobs := ds\<rparr>) a = automation_settings_for_account st a"
  "automation_settings_for_account (st\<lparr>debounce_jobs := js\<rparr>) a = automation_settings_for_account st a"
  "automation_settings_for_account (st\<lparr>drafts := gs\<rparr>) a = automation_settings_for_account st a"
  "automation_settings_for_account (st\<lparr>messages := ms\<rparr>) a = automation_settings_for_account st a"
  by (simp_all add: automation_settings_for_account_def)

section \<open>Runs\<close>

text \<open>
  \<open>ChatArmed\<close> is an inbound message that armed its chat, \<open>SettingsSaved\<close> a successful save of the
  settings, \<open>OtherWrite\<close> everything else: an inbound message of an account that is off, the promotion
  of due bursts, every write of a dispatch job, and any change of the drafts and the messages,
  whoever makes it.
\<close>

datatype auto_event = ChatArmed uuid uuid | SettingsSaved uuid mode | OtherWrite

inductive auto_step :: "auto_event \<Rightarrow> adb \<Rightarrow> adb \<Rightarrow> bool" where
  armed: "mode_of st account \<noteq> ModeOff \<Longrightarrow>
    auto_step (ChatArmed chat account) st (on_inbound_message dflt chat account channel lm now st)"
| not_armed: "mode_of st account = ModeOff \<Longrightarrow>
    auto_step OtherWrite st (on_inbound_message dflt chat account channel lm now st)"
| saved: "set_automation_settings fresh account md wait ws now st = Inr (res, st') \<Longrightarrow>
    auto_step (SettingsSaved account md) st st'"
| promoted: "claim_due_dispatch_jobs fresh now lim st = Inr (jobs, st') \<Longrightarrow> auto_step OtherWrite st st'"
| job_created: "auto_step OtherWrite st (snd (create_dispatch_job i chat account channel version now st))"
| job_claimed: "auto_step OtherWrite st (snd (claim_dispatch_job i now st))"
| job_marked: "auto_step OtherWrite st (mark_dispatch_processing i now st)"
| job_failed: "auto_step OtherWrite st (snd (record_dispatch_failure i cause now st))"
| job_deleted: "auto_step OtherWrite st (delete_dispatch_job i st)"
| recovered: "auto_step OtherWrite st (snd (recoverable_dispatch_jobs since lim now st))"
| conversation: "auto_step OtherWrite st (st\<lparr>drafts := gs, messages := ms\<rparr>)"

inductive auto_run :: "auto_event list \<Rightarrow> adb \<Rightarrow> adb \<Rightarrow> bool" where
  run_nil: "auto_run [] st st"
| run_step: "auto_step e st st1 \<Longrightarrow> auto_run es st1 st2 \<Longrightarrow> auto_run (e # es) st st2"

inductive_simps auto_run_Nil: "auto_run [] st st'"
inductive_simps auto_run_Cons: "auto_run (e # es) st st'"

lemmas run_simps = auto_run_Nil auto_run_Cons

lemma run_append: "auto_run es st st1 \<Longrightarrow> auto_run fs st1 st2 \<Longrightarrow> auto_run (es @ fs) st st2"
  by (induction rule: auto_run.induct) (auto intro: run_step)

section \<open>Burst versions\<close>

lemma version_arm:
  "current_burst_version (arm_debounce chat account channel dl now st) c
     = (if c = chat then (if list_ex (\<lambda>j. j_chat j = chat) (debounce_jobs st)
                          then current_burst_version st chat + 1 else 1)
        else current_burst_version st c)"
proof (cases "list_ex (\<lambda>j. j_chat j = chat) (debounce_jobs st)")
  case True
  then obtain j where j: "find_by j_chat chat (debounce_jobs st) = Some j"
    by (cases "find_by j_chat chat (debounce_jobs st)") (auto simp: find_by_None list_ex_iff image_iff)
  then have "j_chat j = chat" by (auto dest: find_by_Some)
  with True j show ?thesis
    by (auto simp: current_burst_version_def arm_debounce_def rearm_upd.lookup_after rearm_row_def
        split: option.split dest: find_by_Some)
next
  case False
  then have none: "find_by j_chat chat (debounce_jobs st) = None"
    by (auto simp: find_by_None list_ex_iff)
  show ?thesis
    using False none
    by (auto simp: current_burst_version_def arm_debounce_def find_by_append find_by_single split: option.split)
qed

text \<open>The debounce row of a chat, as far as runs of this theory are about it.\<close>

definition burst_row :: "adb \<Rightarrow> uuid \<Rightarrow> (uuid \<times> int) option" where
  "burst_row st chat = map_option (\<lambda>j. (j_account j, j_version j)) (find_by j_chat chat (debounce_jobs st))"

lemma burst_row_version:
  "current_burst_version st chat = (case burst_row st chat of None \<Rightarrow> 0 | Some (a, v) \<Rightarrow> v)"
  by (simp add: current_burst_version_def burst_row_def split: option.split)

lemma version_has_row: "1 \<le> current_burst_version st chat \<Longrightarrow> burst_row st chat \<noteq> None"
  by (cases "burst_row st chat") (auto simp: burst_row_version)

lemma burst_row_arm:
  "burst_row (arm_debounce chat account channel dl now st) c
     = (if c = chat then Some (account, (case burst_row st chat of None \<Rightarrow> 1 | Some (a, v) \<Rightarrow> v + 1))
        else burst_row st c)"
proof (cases "list_ex (\<lambda>j. j_chat j = chat) (debounce_jobs st)")
  case True
  then obtain j where j: "find_by j_chat chat (debounce_jobs st) = Some j"
    by (cases "find_by j_chat chat (debounce_jobs st)") (auto simp: find_by_None list_ex_iff image_iff)
  then have "j_chat j = chat" by (auto dest: find_by_Some)
  with True j show ?thesis
    by (cases "find_by j_chat c (debounce_jobs st)")
      (auto simp: burst_row_def arm_debounce_def rearm_upd.lookup_after rearm_row_def dest: find_by_Some)
next
  case False
  then have none: "find_by j_chat chat (debounce_jobs st) = None"
    by (auto simp: find_by_None list_ex_iff)
  show ?thesis
    using False none
    by (auto simp: burst_row_def arm_debounce_def find_by_append find_by_single split: option.split)
qed

lemma find_by_filter_kept:
  "find_by key k rs = Some r \<Longrightarrow> p r \<Longrightarrow> find_by key k (filter p rs) = Some r"
  by (induction rs) (auto simp: find_by_def split: if_splits)

lemma burst_row_save:
  assumes "set_automation_settings fresh account md wait ws now st = Inr (res, st')"
    and "burst_row st chat = Some (a, v)" and "a = account \<Longrightarrow> md \<noteq> ModeOff"
  shows "burst_row st' chat = Some (a, v)"
  using assms(2,3) jobs_after_save(1) [OF assms(1)]
  by (auto simp: burst_row_def intro!: exI conjI find_by_filter_kept)

lemma promoted_rows:
  assumes "claim_due_dispatch_jobs fresh now lim st = Inr (jobs, st')"
  obtains hit where "debounce_jobs st' = update_where hit (claim_debounce_row now) (debounce_jobs st)"
    and "settings_rows st' = settings_rows st"
proof (cases "due_chats now lim st = []")
  case True
  then have "debounce_jobs st' = update_where (\<lambda>_. False) (claim_debounce_row now) (debounce_jobs st)"
    "settings_rows st' = settings_rows st"
    using assms by (simp_all add: claim_due_dispatch_jobs_def update_where_def)
  then show ?thesis by (rule that)
next
  case False
  then show ?thesis using assms
    by (auto simp: claim_due_dispatch_jobs_def Let_def result_simps intro!: that)
qed

lemma burst_row_promoted:
  assumes "claim_due_dispatch_jobs fresh now lim st = Inr (jobs, st')"
  shows "burst_row st' chat = burst_row st chat"
proof -
  obtain hit where "debounce_jobs st' = update_where hit (claim_debounce_row now) (debounce_jobs st)"
    using promoted_rows [OF assms] .
  then show ?thesis
    by (cases "find_by j_chat chat (debounce_jobs st)")
      (auto simp: burst_row_def claim_debounce_upd.lookup_after claim_debounce_row_def)
qed

lemma dispatch_writes_keep [simp]:
  "burst_row (snd (create_dispatch_job i c a ch version now st)) chat = burst_row st chat"
  "burst_row (snd (claim_dispatch_job i now st)) chat = burst_row st chat"
  "burst_row (mark_dispatch_processing i now st) chat = burst_row st chat"
  "burst_row (snd (record_dispatch_failure i cause now st)) chat = burst_row st chat"
  "burst_row (delete_dispatch_job i st) chat = burst_row st chat"
  "burst_row (snd (recoverable_dispatch_jobs since lim now st)) chat = burst_row st chat"
  "burst_row (st\<lparr>drafts := gs, messages := ms\<rparr>) chat = burst_row st chat"
  by (auto simp: burst_row_def create_dispatch_job_def claim_dispatch_job_def mark_dispatch_processing_def
      record_dispatch_failure_def delete_dispatch_job_def recoverable_dispatch_jobs_def Let_def split: option.split)

lemma inbound_on:
  "mode_of st account \<noteq> ModeOff \<Longrightarrow> \<exists>dl. on_inbound_message dflt chat account channel lm now st
     = arm_debounce chat account channel dl now st"
  by (auto simp: on_inbound_message_def Let_def)

lemma inbound_off: "mode_of st account = ModeOff \<Longrightarrow> on_inbound_message dflt chat account channel lm now st = st"
  by (simp add: on_inbound_message_def Let_def)

text \<open>What one step does to the row of a chat.\<close>

lemma burst_row_step:
  assumes "auto_step e st st'" and "burst_row st chat = Some (a, v)" and "e \<noteq> SettingsSaved a ModeOff"
  shows "burst_row st' chat
    = (case e of ChatArmed c b \<Rightarrow> if c = chat then Some (b, v + 1) else Some (a, v) | _ \<Rightarrow> Some (a, v))"
  using assms
proof (cases rule: auto_step.cases)
  case (armed account c dflt channel lm now)
  obtain dl where "on_inbound_message dflt c account channel lm now st = arm_debounce c account channel dl now st"
    using inbound_on [OF armed(3)] by blast
  then show ?thesis using armed assms(2) by (simp add: burst_row_arm)
next
  case (saved fresh account md wait ws now res)
  then show ?thesis using burst_row_save [OF saved(2) assms(2)] assms(3) by auto
next
  case (promoted fresh now lim jobs)
  then show ?thesis using burst_row_promoted [OF promoted(2)] assms(2) by simp
qed (auto simp: inbound_off assms(2))

text \<open>
  The burst version of a chat never falls while the accounts it is armed under are not switched off,
  and a message that arms the chat raises it.
\<close>

lemma version_grows:
  "auto_run es st st' \<Longrightarrow> burst_row st chat = Some (a, v)
     \<Longrightarrow> \<forall>b. (b = a \<or> ChatArmed chat b \<in> set es) \<longrightarrow> SettingsSaved b ModeOff \<notin> set es
     \<Longrightarrow> (\<exists>b w. burst_row st' chat = Some (b, w) \<and> v \<le> w \<and> ((\<exists>b. ChatArmed chat b \<in> set es) \<longrightarrow> v < w))"
proof (induction arbitrary: a v rule: auto_run.induct)
  case (run_step e st st1 es st2)
  have "e \<noteq> SettingsSaved a ModeOff" using run_step.prems(2) by auto
  note row = burst_row_step [OF run_step.hyps(1) run_step.prems(1) this]
  show ?case
  proof (cases "\<exists>b. e = ChatArmed chat b")
    case True
    then obtain b where e: "e = ChatArmed chat b" ..
    with row have "burst_row st1 chat = Some (b, v + 1)" by simp
    from run_step.IH [OF this] run_step.prems(2) e show ?thesis by (fastforce)
  next
    case False
    with row have "burst_row st1 chat = Some (a, v)" by (cases e) auto
    from run_step.IH [OF this] run_step.prems(2) False show ?thesis by fastforce
  qed
qed auto

section \<open>An account that is off\<close>

text \<open>Its mode is off and none of its debounce rows waits.\<close>

definition is_off :: "uuid \<Rightarrow> adb \<Rightarrow> bool" where
  "is_off account st \<longleftrightarrow> mode_of st account = ModeOff
     \<and> (\<forall>j \<in> set (debounce_jobs st). j_account j = account \<longrightarrow> j_status j = DebounceClaimed)"

lemma off_after_save:
  assumes "set_automation_settings fresh account ModeOff wait ws now st = Inr (res, st')"
  shows "is_off account st'"
  using mode_after_save [OF assms, of account] jobs_after_save(1) [OF assms] debounce_status.exhaust
  by (auto simp: is_off_def)

lemma dispatch_writes_off [simp]:
  "is_off account (snd (create_dispatch_job i c a ch version now st)) = is_off account st"
  "is_off account (snd (claim_dispatch_job i now st)) = is_off account st"
  "is_off account (mark_dispatch_processing i now st) = is_off account st"
  "is_off account (snd (record_dispatch_failure i cause now st)) = is_off account st"
  "is_off account (delete_dispatch_job i st) = is_off account st"
  "is_off account (snd (recoverable_dispatch_jobs since lim now st)) = is_off account st"
  "is_off account (st\<lparr>drafts := gs, messages := ms\<rparr>) = is_off account st"
  by (auto simp: is_off_def create_dispatch_job_def claim_dispatch_job_def mark_dispatch_processing_def
      record_dispatch_failure_def delete_dispatch_job_def recoverable_dispatch_jobs_def Let_def
      automation_settings_for_account_def split: option.split)

lemma off_step:
  assumes "auto_step e st st'" and "is_off account st" and "\<forall>m. e = SettingsSaved account m \<longrightarrow> m = ModeOff"
  shows "is_off account st'"
  using assms
proof (cases rule: auto_step.cases)
  case (armed other chat dflt channel lm now)
  obtain dl where st': "st' = arm_debounce chat other channel dl now st"
    using inbound_on [OF armed(3)] armed(2) by blast
  have "other \<noteq> account" using armed(3) assms(2) by (auto simp: is_off_def)
  then show ?thesis using assms(2)
    by (auto simp: st' is_off_def arm_debounce_def update_where_def rearm_row_def split: if_splits)
next
  case (saved fresh other md wait ws now res)
  have "mode_of st' account = ModeOff"
    using mode_after_save [OF saved(2), of account] saved(1) assms(2,3) by (simp add: is_off_def)
  then show ?thesis using jobs_after_save(1) [OF saved(2)] assms(2) by (auto simp: is_off_def split: if_splits)
next
  case (promoted fresh now lim jobs)
  obtain hit where "debounce_jobs st' = update_where hit (claim_debounce_row now) (debounce_jobs st)"
    and "settings_rows st' = settings_rows st"
    using promoted_rows [OF promoted(2)] .
  then show ?thesis using assms(2)
    by (auto simp: is_off_def automation_settings_for_account_def update_where_def claim_debounce_row_def)
qed (auto simp: inbound_off)

lemma off_run:
  "auto_run es st st' \<Longrightarrow> is_off account st \<Longrightarrow> \<forall>m. SettingsSaved account m \<in> set es \<longrightarrow> m = ModeOff
     \<Longrightarrow> is_off account st'"
proof (induction rule: auto_run.induct)
  case (run_step e st st1 es st2)
  have "is_off account st1"
    by (rule off_step [OF run_step.hyps(1) run_step.prems(1)]) (use run_step.prems(2) in auto)
  then show ?case using run_step.IH run_step.prems(2) by simp
qed

section \<open>The two halves are runs\<close>

text \<open>
  Both halves of a delivery are runs themselves, of writes that neither save settings nor arm a chat,
  beside whatever others commit in between. Runs therefore cover any number of deliveries being
  handled side by side. \<open>E\<close> holds the events that may occur.
\<close>

definition run_within :: "auto_event set \<Rightarrow> adb \<Rightarrow> adb \<Rightarrow> bool" where
  "run_within E st st' \<longleftrightarrow> (\<exists>es. set es \<subseteq> insert OtherWrite E \<and> auto_run es st st')"

lemma within_one: "auto_step OtherWrite st st' \<Longrightarrow> run_within E st st'"
  unfolding run_within_def by (rule exI [of _ "[OtherWrite]"]) (auto simp: run_simps)

lemma within_refl [simp]: "run_within E st st"
  unfolding run_within_def by (rule exI [of _ "[]"]) (simp add: run_simps)

lemma within_trans [trans]: "run_within E st st1 \<Longrightarrow> run_within E st1 st2 \<Longrightarrow> run_within E st st2"
  unfolding run_within_def by (metis Un_subset_iff run_append set_append)

lemma within_conversation:
  assumes "settings_rows st' = settings_rows st" and "schedule_windows st' = schedule_windows st"
    and "debounce_jobs st' = debounce_jobs st" and "dispatch_jobs st' = dispatch_jobs st"
  shows "run_within E st st'"
proof -
  have "st' = st\<lparr>drafts := drafts st', messages := messages st'\<rparr>"
    using assms by (cases st, cases st') simp
  then show ?thesis by (metis conversation within_one)
qed

lemma within_delete: "run_within E st (delete_dispatch_job i st)"
  by (rule within_one [OF job_deleted])

lemma begin_is_run: "run_within E st (snd (handle_run_begin i now st))"
proof -
  have claim: "run_within E st (snd (claim_dispatch_job k now st))" for k by (rule within_one [OF job_claimed])
  show ?thesis
    using claim within_trans [OF claim within_delete] within_delete
    by (auto simp: handle_run_begin_def Let_def split: sum.split prod.split bool.split) (metis snd_conv)+
qed

lemma give_up_is_run: "run_within E st (give_up_or_retry job cause now st)"
proof -
  have "run_within E st (snd (record_dispatch_failure (d_id job) cause now st))" by (rule within_one [OF job_failed])
  then show ?thesis
    using within_trans [OF _ within_delete]
    by (auto simp: give_up_or_retry_def split: prod.split)
qed

lemma claim_draft_is_run: "run_within E st (snd (claim_draft_for_auto_send i chat account trigger st))"
  by (rule within_conversation) (auto simp: claim_draft_for_auto_send_def split: option.split)

lemma write_is_run:
  "write_draft_set_if_version_current fresh gap_ok channel chat v trigger opts st = Inr (out, st')
     \<Longrightarrow> run_within E st st'"
  by (rule within_conversation)
    (auto simp: write_draft_set_if_version_current_def write_draft_options_def Let_def split: if_splits)

lemma dispatch_send_is_run:
  assumes others: "\<And>k j s. run_within E s (re_others en k j s)"
  shows "run_within E st (snd (dispatch_send en k job g st))"
proof -
  let ?s3 = "re_others en k 3 st"
  let ?m = "insert_automation_outbound (re_message en k) (d_chat job) (o_text (g_option g)) (re_now en k) ?s3"
  have "run_within E ?s3 ?m" by (rule within_conversation) (simp_all add: insert_automation_outbound_def)
  then have sent: "run_within E st (re_others en k 4 ?m)"
    by (rule within_trans [OF within_trans [OF others] others])
  also have "run_within E (re_others en k 4 ?m) (set_draft_sent (g_id g) (re_message en k) (re_others en k 4 ?m))"
    by (rule within_conversation) (simp_all add: set_draft_sent_def)
  finally show ?thesis using sent others by (simp add: dispatch_send_def Let_def)
qed

lemma maybe_auto_send_is_run:
  assumes others: "\<And>k j s. run_within E s (re_others en k j s)"
  shows "run_within E st (snd (maybe_auto_send en k job g st))"
proof -
  let ?s2 = "re_others en k 2 (re_others en k 1 st)"
  let ?c = "claim_draft_for_auto_send (g_id g) (d_chat job) (d_account job) (g_trigger g) ?s2"
  have s2: "run_within E st ?s2" by (rule within_trans [OF others others])
  have claimed: "run_within E st (snd ?c)" by (rule within_trans [OF s2 claim_draft_is_run])
  have "run_within E st (snd (dispatch_send en k job sent (snd ?c)))" for sent
    by (rule within_trans [OF claimed dispatch_send_is_run]) (rule others)
  with others s2 claimed show ?thesis
    by (auto simp: maybe_auto_send_def Let_def split: prod.split option.split)
qed

lemma finish_drafts_is_run:
  assumes others: "\<And>k j s. run_within E s (re_others en k j s)"
  shows "run_within E st (snd (finish_drafts en job settings persisted st))"
proof -
  have one: "run_within E (snd acc) (snd (finish_draft en job settings p acc))" for p acc
    using within_trans [OF others maybe_auto_send_is_run [OF others]] others
    by (auto simp: finish_draft_def Let_def split: prod.split option.split) (metis snd_conv)+
  have "run_within E (snd acc) (snd (fold (finish_draft en job settings) ps acc))" for ps acc
  proof (induction ps arbitrary: acc)
    case (Cons p ps)
    show ?case using within_trans [OF one Cons.IH] by simp
  qed simp
  from this [of "([], st)" "enumerate 0 persisted"] show ?thesis by (simp add: finish_drafts_def)
qed

lemma finish_is_run:
  assumes others: "\<And>k j s. run_within E s (re_others en k j s)" and last: "\<And>s. run_within E s (re_last en s)"
  shows "run_within E st (snd (handle_run_finish en job settings result st))"
proof -
  have failed: "run_within E st (give_up_or_retry job cause (re_end en) (re_last en st))" for cause
    by (rule within_trans [OF last give_up_is_run])
  have gone: "run_within E st (finish_job en job s)" if "run_within E st s" for s
    using within_trans [OF that last] within_trans [OF that within_trans [OF last within_delete]]
    by (simp add: finish_job_def Let_def)
  show ?thesis
  proof (cases result)
    case (GenerationFailed cause)
    then show ?thesis using failed by (simp add: handle_run_finish_def)
  next
    case (Generated trigger opt)
    let ?w = "write_draft_set_if_version_current (re_draft_id en) (re_gap_ok en) (d_channel job) (d_chat job)
                  (d_version job) trigger [opt] st"
    have "run_within E st (snd (finish_drafts en job settings ps s))" if "run_within E st s" for ps s
      by (rule within_trans [OF that finish_drafts_is_run]) (rule others)
    moreover have "run_within E st s" if "?w = Inr (out, s)" for out s by (rule write_is_run [OF that])
    ultimately show ?thesis
      using failed gone
      by (auto simp: Generated handle_run_finish_def split: sum.split prod.split option.split) (metis snd_conv)+
  qed
qed

end
