(* ===== verification/Automation_Safety.thy ===== *)
theory Automation_Safety
  imports Automation_Events
begin

text \<open>
  What the automation guarantees: a generation that a newer message has overtaken leaves no trace,
  nothing is sent automatically unless every recheck holds at that moment, a job has one owner and
  at most five attempts, an account switched off stays silent; and three situations in which that
  breaks down: a switch that resets the burst counters, a claimed draft whose message is never
  written, and a generation slower than the recovery cutoff.
\<close>

section \<open>Samples\<close>

definition sample_job :: dispatch_job where
  "sample_job = \<lparr>d_id = 3, d_chat = 1, d_account = 9, d_channel = ''telegram'', d_version = 1,
     d_status = DispatchPending, d_attempts = 0, d_error = '''', d_updated = 0\<rparr>"

definition empty_adb :: adb where
  "empty_adb = \<lparr>settings_rows = [], schedule_windows = [], debounce_jobs = [], dispatch_jobs = [],
     drafts = [], messages = []\<rparr>"

definition sample_option :: draft_option where
  "sample_option = \<lparr>o_ordinal = 1, o_text = ''Hello'', o_language = ''en'', o_escalate = False, o_reason = ''''\<rparr>"

definition hello :: message_row where
  "hello = \<lparr>m_id = 5, m_chat = 1, m_direction = DirectionIn, m_sender = SenderContact,
     m_body = ''Hi'', m_ts = Some 100, m_created = 100\<rparr>"

text \<open>A chat that waits for an answer, under an account that answers at any time of the day.\<close>

definition auto_adb :: adb where
  "auto_adb = \<lparr>
     settings_rows = [\<lparr>as_account = 9, as_mode = ModeScheduledAuto, as_wait = Some 0, as_updated = 0\<rparr>],
     schedule_windows = map (\<lambda>d. \<lparr>w_id = d, w_owner = 9,
        w_window = \<lparr>weekday = int d, start_minute = 0, end_minute = 1440\<rparr>\<rparr>) [0..<7],
     debounce_jobs = [\<lparr>j_chat = 1, j_account = 9, j_channel = ''telegram'', j_deadline = 100,
        j_version = 1, j_status = DebounceClaimed, j_updated = 100\<rparr>],
     dispatch_jobs = [sample_job], drafts = [], messages = [hello]\<rparr>"

text \<open>A second half in which every statement succeeds and nobody else writes.\<close>

definition calm_env :: "gotime \<Rightarrow> (nat \<Rightarrow> uuid) \<Rightarrow> (nat \<Rightarrow> uuid) \<Rightarrow> run_env" where
  "calm_env now draft_ids message_ids = \<lparr>re_gap_ok = (\<lambda>_. True), re_draft_id = draft_ids,
     re_reload_ok = (\<lambda>_. True), re_windows_ok = (\<lambda>_. True), re_claim_ok = (\<lambda>_. True),
     re_chat_found = (\<lambda>_. True), re_insert_ok = (\<lambda>_. True), re_stamp_ok = (\<lambda>_. True),
     re_publish_ok = (\<lambda>_. True), re_message = message_ids, re_now = (\<lambda>_. now),
     re_others = (\<lambda>_ _ s. s), re_last = (\<lambda>s. s), re_delete_ok = True, re_end = now\<rparr>"

section \<open>Superseded generations\<close>

text \<open>
  C17: a superseded generation leaves no trace. Let a job be of a burst its chat has reached, and let
  anything happen while its generation runs, among it a message that arms the chat, but no
  switching off of an account the chat is armed under. Then the finished generation writes no draft,
  sends nothing, and its job is removed, if that statement succeeds; everything else is as the others
  left it.
\<close>

theorem stale_generation_discarded:
  assumes "1 \<le> d_version job" and "d_version job \<le> current_burst_version st (d_chat job)"
    and "auto_run es st st'" and "ChatArmed (d_chat job) a \<in> set es"
    and "\<forall>b. (map_option fst (burst_row st (d_chat job)) = Some b \<or> ChatArmed (d_chat job) b \<in> set es)
           \<longrightarrow> SettingsSaved b ModeOff \<notin> set es"
  shows "handle_run_finish en job settings (Generated trigger opt) st'
     = ([], if re_delete_ok en then delete_dispatch_job (d_id job) (re_last en st') else re_last en st')"
proof -
  have "1 \<le> current_burst_version st (d_chat job)" using assms(1,2) by linarith
  then obtain b v where row: "burst_row st (d_chat job) = Some (b, v)" using version_has_row by fastforce
  then have v: "d_version job \<le> v" using assms(2) by (simp add: burst_row_version)
  have "\<forall>c. (c = b \<or> ChatArmed (d_chat job) c \<in> set es) \<longrightarrow> SettingsSaved c ModeOff \<notin> set es"
    using assms(5) row by auto
  from version_grows [OF assms(3) row this] assms(4) v
  have "current_burst_version st' (d_chat job) > d_version job"
    by (auto simp: burst_row_version)
  then show ?thesis
    by (simp add: handle_run_finish_def write_draft_set_if_version_current_def finish_job_def Let_def)
qed

lemma stale_generation_discarded_witness:
  "\<exists>es st'. length es = 2 \<and> auto_run es auto_adb st'
     \<and> handle_run_finish (calm_env 160 id id) sample_job (default_automation_settings 9)
         (Generated (Some 5) sample_option) st' = ([], delete_dispatch_job 3 st')"
proof -
  let ?es = "[OtherWrite, ChatArmed 1 9]"
  let ?st1 = "snd (claim_dispatch_job 3 150 auto_adb)"
  let ?st' = "on_inbound_message 5 1 9 ''telegram'' 155 155 ?st1"
  have "mode_of ?st1 9 \<noteq> ModeOff"
    by (simp add: claim_dispatch_job_def auto_adb_def automation_settings_for_account_def find_by_def Let_def)
  then have run: "auto_run ?es auto_adb ?st'"
    by (auto simp: run_simps intro!: exI [of _ ?st1] job_claimed armed)
  have pre: "1 \<le> d_version sample_job" "d_version sample_job \<le> current_burst_version auto_adb (d_chat sample_job)"
    "ChatArmed (d_chat sample_job) 9 \<in> set ?es"
    by (simp_all add: sample_job_def auto_adb_def current_burst_version_def find_by_def)
  have "\<forall>b. (map_option fst (burst_row auto_adb (d_chat sample_job)) = Some b \<or> ChatArmed (d_chat sample_job) b \<in> set ?es)
           \<longrightarrow> SettingsSaved b ModeOff \<notin> set ?es" by simp
  from stale_generation_discarded [OF pre(1,2) run pre(3) this, of "calm_env 160 id id"
      "default_automation_settings 9" "Some 5" sample_option]
  have "handle_run_finish (calm_env 160 id id) sample_job (default_automation_settings 9)
         (Generated (Some 5) sample_option) ?st' = ([], delete_dispatch_job 3 ?st')"
    by (simp add: calm_env_def sample_job_def)
  with run show ?thesis by (intro exI [of _ ?es] exI [of _ ?st'] conjI) simp_all
qed

section \<open>The auto-send gate\<close>

lemma find_fresh_draft:
  assumes "i \<notin> g_id ` set gs" and "g_id g = i" and "g_state g = Suggested"
  shows "find (\<lambda>g. g_id g = i \<and> g_state g = Suggested) (gs @ [g]) = Some g"
  using assms by (induction gs) auto

lemma supersede_ids [simp]: "g_id ` set (supersede_chat chat gs) = g_id ` set gs"
proof -
  have "map g_id (supersede_chat chat gs) = map g_id gs"
    by (simp add: supersede_chat_def update_where_def)
  then show ?thesis by (metis list.set_map)
qed

lemma write_one_option:
  "write_draft_options fresh gap_ok chat channel trigger [opt] st
     = (if o_escalate opt \<and> \<not> gap_ok opt then Inl ErrConstraint
        else Inr ([new_draft (fresh 0) chat channel trigger opt],
          st\<lparr>drafts := supersede_chat chat (drafts st) @ [new_draft (fresh 0) chat channel trigger opt]\<rparr>))"
  by (simp add: write_draft_options_def enumerate_eq_zip Let_def)

text \<open>The message is on record, is the chat's newest inbound one, and no person has replied to it.\<close>

definition unanswered :: "adb \<Rightarrow> uuid \<Rightarrow> uuid \<Rightarrow> bool" where
  "unanswered st chat t \<longleftrightarrow>
     (case find_by m_id t (messages st) of
        None \<Rightarrow> False
      | Some m \<Rightarrow> \<not> human_replied st chat (m_ts m) \<and> latest_inbound st chat = Some t)"

lemma auto_send_allowed_exact:
  "auto_send_allowed st chat account trigger
     \<longleftrightarrow> mode_of st account = ModeScheduledAuto \<and> (\<exists>t. trigger = Some t \<and> unanswered st chat t)"
  by (auto simp: auto_send_allowed_def unanswered_def split: option.splits)

lemma gate_ignores_drafts [simp]:
  "unanswered (st\<lparr>drafts := gs\<rparr>) chat t = unanswered st chat t"
  "automation_windows_for_account (st\<lparr>drafts := gs\<rparr>) account = automation_windows_for_account st account"
  by (simp_all add: unanswered_def human_replied_def latest_inbound_def automation_windows_for_account_def
      split: option.split)

text \<open>The database after the write of one draft, and at the three moments the gate reads it.\<close>

definition stored :: "run_env \<Rightarrow> dispatch_job \<Rightarrow> uuid option \<Rightarrow> draft_option \<Rightarrow> adb \<Rightarrow> adb" where
  "stored en job trigger opt st = st\<lparr>drafts := supersede_chat (d_chat job) (drafts st)
     @ [new_draft (re_draft_id en 0) (d_chat job) (d_channel job) trigger opt]\<rparr>"

definition at_reload :: "run_env \<Rightarrow> adb \<Rightarrow> adb" where "at_reload en s = re_others en 0 0 s"
definition at_windows :: "run_env \<Rightarrow> adb \<Rightarrow> adb" where "at_windows en s = re_others en 0 1 (at_reload en s)"
definition at_claim :: "run_env \<Rightarrow> adb \<Rightarrow> adb" where "at_claim en s = re_others en 0 2 (at_windows en s)"

lemma claim_exact:
  "claim_draft_for_auto_send draft chat account trigger st
     = (case (if auto_send_allowed st chat account trigger
              then find (\<lambda>g. g_id g = draft \<and> g_state g = Suggested) (drafts st) else None) of
          None \<Rightarrow> (None, st)
        | Some g \<Rightarrow> (Some (send_draft_row g), snd (claim_draft_for_auto_send draft chat account trigger st)))"
  by (auto simp: claim_draft_for_auto_send_def split: option.split)

lemma dispatch_send_sends:
  "fst (dispatch_send en k job g s)
     = (if re_chat_found en k \<and> re_insert_ok en k \<and> re_publish_ok en k then [outbound_task_for en k job g] else [])"
  by (simp add: dispatch_send_def Let_def)

lemma maybe_auto_send_sends:
  "fst (maybe_auto_send en k job d s)
    = (let s1 = re_others en k 1 s; s2 = re_others en k 2 s1 in
       case (if auto_send_allowed s2 (d_chat job) (d_account job) (g_trigger d)
             then find (\<lambda>g. g_id g = g_id d \<and> g_state g = Suggested) (drafts s2) else None) of
         None \<Rightarrow> []
       | Some g \<Rightarrow>
           if re_windows_ok en k \<and> in_schedule (automation_windows_for_account s1 (d_account job)) (re_now en k)
             \<and> re_claim_ok en k \<and> re_chat_found en k \<and> re_insert_ok en k \<and> re_publish_ok en k
           then [outbound_task_for en k job (send_draft_row g)] else [])"
  by (subst maybe_auto_send_def, subst claim_exact)
    (simp add: Let_def dispatch_send_sends split: option.split)

lemma maybe_auto_send_needs:
  assumes "fst (maybe_auto_send en k job d s) \<noteq> []"
  defines "s1 \<equiv> re_others en k 1 s" and "s2 \<equiv> re_others en k 2 (re_others en k 1 s)"
  obtains g t where "fst (maybe_auto_send en k job d s) = [outbound_task_for en k job (send_draft_row g)]"
    and "g_trigger d = Some t" and "in_schedule (automation_windows_for_account s1 (d_account job)) (re_now en k)"
    and "mode_of s2 (d_account job) = ModeScheduledAuto" and "unanswered s2 (d_chat job) t"
    and "g \<in> set (drafts s2)" and "g_id g = g_id d" and "g_state g = Suggested"
proof -
  let ?find = "find (\<lambda>g. g_id g = g_id d \<and> g_state g = Suggested) (drafts s2)"
  have eq: "fst (maybe_auto_send en k job d s)
    = (case (if auto_send_allowed s2 (d_chat job) (d_account job) (g_trigger d) then ?find else None) of
         None \<Rightarrow> []
       | Some g \<Rightarrow>
           if re_windows_ok en k \<and> in_schedule (automation_windows_for_account s1 (d_account job)) (re_now en k)
             \<and> re_claim_ok en k \<and> re_chat_found en k \<and> re_insert_ok en k \<and> re_publish_ok en k
           then [outbound_task_for en k job (send_draft_row g)] else [])"
    unfolding s1_def s2_def by (simp only: maybe_auto_send_sends Let_def)
  have allowed: "auto_send_allowed s2 (d_chat job) (d_account job) (g_trigger d)"
    using assms(1) unfolding eq by (auto split: if_splits)
  then obtain g where g: "?find = Some g" using assms(1) unfolding eq by (cases ?find) auto
  then have "g \<in> set (drafts s2)" "g_id g = g_id d" "g_state g = Suggested"
    by (auto simp: find_Some_iff)
  moreover have "in_schedule (automation_windows_for_account s1 (d_account job)) (re_now en k)"
    and "fst (maybe_auto_send en k job d s) = [outbound_task_for en k job (send_draft_row g)]"
    using assms(1) allowed g unfolding eq by (simp_all split: if_splits)
  ultimately show ?thesis using allowed that by (auto simp: auto_send_allowed_exact)
qed

lemma new_draft_sel [simp]:
  "g_id (new_draft i chat channel trigger opt) = i" "g_trigger (new_draft i chat channel trigger opt) = trigger"
  "g_option (new_draft i chat channel trigger opt) = opt"
  by (simp_all add: new_draft_def)

lemma finish_one:
  "fst (finish_drafts en job settings [g] s)
     = (if as_mode settings = ModeScheduledAuto \<and> re_reload_ok en 0
        then case find_by g_id (g_id g) (drafts (re_others en 0 0 s)) of
               None \<Rightarrow> [] | Some d \<Rightarrow> fst (maybe_auto_send en 0 job d (re_others en 0 0 s))
        else [])"
  by (simp add: finish_drafts_def finish_draft_def enumerate_eq_zip Let_def split_beta split: option.split)

lemma finish_exact:
  "fst (handle_run_finish en job settings (Generated trigger opt) st)
    = (if current_burst_version st (d_chat job) = d_version job \<and> (o_escalate opt \<longrightarrow> re_gap_ok en opt)
         \<and> as_mode settings = ModeScheduledAuto \<and> re_reload_ok en 0
       then case find_by g_id (re_draft_id en 0) (drafts (at_reload en (stored en job trigger opt st))) of
              None \<Rightarrow> []
            | Some d \<Rightarrow> fst (maybe_auto_send en 0 job d (at_reload en (stored en job trigger opt st)))
       else [])"
  by (simp add: handle_run_finish_def write_draft_set_if_version_current_def write_one_option finish_one
      stored_def [symmetric] at_reload_def split_beta split: option.split) blast

lemma stored_draft:
  fixes en :: run_env and job :: dispatch_job and trigger :: "uuid option" and opt :: draft_option
  assumes "re_draft_id en 0 \<notin> g_id ` set (drafts st)"
  defines "g \<equiv> new_draft (re_draft_id en 0) (d_chat job) (d_channel job) trigger opt"
  shows "find_by g_id (re_draft_id en 0) (drafts (stored en job trigger opt st)) = Some g"
    and "find (\<lambda>g. g_id g = re_draft_id en 0 \<and> g_state g = Suggested) (drafts (stored en job trigger opt st)) = Some g"
proof -
  have i: "g_id g = re_draft_id en 0" "g_state g = Suggested" by (simp_all add: g_def new_draft_def)
  have none: "re_draft_id en 0 \<notin> g_id ` set (supersede_chat (d_chat job) (drafts st))" using assms(1) by simp
  show "find (\<lambda>g. g_id g = re_draft_id en 0 \<and> g_state g = Suggested) (drafts (stored en job trigger opt st)) = Some g"
    using find_fresh_draft [OF none i] by (simp add: stored_def g_def)
  have "find_by g_id (re_draft_id en 0) (supersede_chat (d_chat job) (drafts st)) = None"
    using none by (simp add: find_by_None)
  then show "find_by g_id (re_draft_id en 0) (drafts (stored en job trigger opt st)) = Some g"
    by (simp add: stored_def g_def find_by_append find_by_single)
qed

lemma stored_same [simp]:
  "messages (stored en job trigger opt st) = messages st"
  "unanswered (stored en job trigger opt st) chat t = unanswered st chat t"
  "mode_of (stored en job trigger opt st) account = mode_of st account"
  "automation_windows_for_account (stored en job trigger opt st) account = automation_windows_for_account st account"
  by (simp_all add: stored_def)

lemma sent_task:
  "outbound_task_for en k job (send_draft_row g) = \<lparr>t_message = re_message en k, t_account = d_account job,
     t_channel = d_channel job, t_text = o_text (g_option g)\<rparr>"
  by (simp add: outbound_task_for_def send_draft_row_def)

lemma finish_needs:
  fixes en :: run_env and job :: dispatch_job and trigger :: "uuid option" and opt :: draft_option and st :: adb
  defines "s \<equiv> stored en job trigger opt st"
  assumes sent: "fst (handle_run_finish en job settings (Generated trigger opt) st) \<noteq> []"
  obtains d g t where "fst (handle_run_finish en job settings (Generated trigger opt) st)
      = [outbound_task_for en 0 job (send_draft_row g)]"
    and "current_burst_version st (d_chat job) = d_version job" and "o_escalate opt \<longrightarrow> re_gap_ok en opt"
    and "as_mode settings = ModeScheduledAuto"
    and "find_by g_id (re_draft_id en 0) (drafts (at_reload en s)) = Some d" and "g_trigger d = Some t"
    and "in_schedule (automation_windows_for_account (at_windows en s) (d_account job)) (re_now en 0)"
    and "mode_of (at_claim en s) (d_account job) = ModeScheduledAuto"
    and "g \<in> set (drafts (at_claim en s))" and "g_id g = re_draft_id en 0" and "g_state g = Suggested"
    and "unanswered (at_claim en s) (d_chat job) t"
proof -
  from sent obtain d where d: "find_by g_id (re_draft_id en 0) (drafts (at_reload en s)) = Some d"
    and out: "fst (handle_run_finish en job settings (Generated trigger opt) st)
        = fst (maybe_auto_send en 0 job d (at_reload en s))"
    and gate: "current_burst_version st (d_chat job) = d_version job" "o_escalate opt \<longrightarrow> re_gap_ok en opt"
      "as_mode settings = ModeScheduledAuto"
    by (auto simp: finish_exact s_def split: if_splits option.splits)
  have i: "g_id d = re_draft_id en 0" using d by (auto dest: find_by_Some)
  have "fst (maybe_auto_send en 0 job d (at_reload en s)) \<noteq> []" using sent out by simp
  from maybe_auto_send_needs [OF this, folded at_windows_def at_claim_def] show ?thesis
    using that gate d out i by metis
qed

lemma finish_undisturbed:
  assumes "\<forall>k j s. re_others en k j s = s" and "re_draft_id en 0 \<notin> g_id ` set (drafts st)"
  shows "fst (handle_run_finish en job settings (Generated trigger opt) st)
    = (if current_burst_version st (d_chat job) = d_version job
         \<and> (o_escalate opt \<longrightarrow> re_gap_ok en opt)
         \<and> as_mode settings = ModeScheduledAuto
         \<and> auto_send_allowed st (d_chat job) (d_account job) trigger
         \<and> in_schedule (automation_windows_for_account st (d_account job)) (re_now en 0)
         \<and> re_reload_ok en 0 \<and> re_windows_ok en 0 \<and> re_claim_ok en 0 \<and> re_chat_found en 0
         \<and> re_insert_ok en 0 \<and> re_publish_ok en 0
       then [\<lparr>t_message = re_message en 0, t_account = d_account job, t_channel = d_channel job,
              t_text = o_text opt\<rparr>]
       else [])"
  using assms(1) stored_draft [OF assms(2), of job trigger opt]
  by (auto simp: finish_exact maybe_auto_send_sends at_reload_def sent_task auto_send_allowed_exact
      Let_def split: option.split)

text \<open>
  C9: nothing is sent automatically unless it is safe. Whatever other goroutines commit between the
  transactions of a finishing generation, it puts at most one task on the outbound queue, for the
  job's account and channel, and then: an answer was generated; the job's burst was the chat's current
  one when it was written; the telemetry row of an escalated answer could be written; the account was in
  scheduled auto when the job started; when the windows were read, the present minute was inside them;
  and when the draft was claimed, the account was still in scheduled auto, the draft was still
  suggested (its text then is the text sent), and the message it answers was on record, the chat's newest
  inbound one and without a reply of a person after it or at an unknown time. If nobody interferes and
  the draft's identifier is new, exactly these conditions decide, together with the success of each
  statement on the way: the reload, the read of the windows, the claim, the chat lookup, the insert
  of the message and the enqueueing.
\<close>

theorem auto_send_exactly_when_safe:
  shows "(fst (handle_run_finish en job settings result st) = []
     \<or> (\<exists>trigger opt d g t. let s = stored en job trigger opt st in
          result = Generated trigger opt
        \<and> fst (handle_run_finish en job settings result st)
            = [\<lparr>t_message = re_message en 0, t_account = d_account job, t_channel = d_channel job,
                t_text = o_text (g_option g)\<rparr>]
        \<and> current_burst_version st (d_chat job) = d_version job
        \<and> (o_escalate opt \<longrightarrow> re_gap_ok en opt)
        \<and> as_mode settings = ModeScheduledAuto
        \<and> find_by g_id (re_draft_id en 0) (drafts (at_reload en s)) = Some d \<and> g_trigger d = Some t
        \<and> in_schedule (automation_windows_for_account (at_windows en s) (d_account job)) (re_now en 0)
        \<and> mode_of (at_claim en s) (d_account job) = ModeScheduledAuto
        \<and> g \<in> set (drafts (at_claim en s)) \<and> g_id g = re_draft_id en 0 \<and> g_state g = Suggested
        \<and> unanswered (at_claim en s) (d_chat job) t))
   \<and> ((\<forall>k j s. re_others en k j s = s) \<longrightarrow> re_draft_id en 0 \<notin> g_id ` set (drafts st) \<longrightarrow>
       fst (handle_run_finish en job settings result st) =
         (case result of
            Generated (Some t) opt \<Rightarrow>
              (if current_burst_version st (d_chat job) = d_version job
                 \<and> (o_escalate opt \<longrightarrow> re_gap_ok en opt)
                 \<and> as_mode settings = ModeScheduledAuto
                 \<and> mode_of st (d_account job) = ModeScheduledAuto
                 \<and> in_schedule (automation_windows_for_account st (d_account job)) (re_now en 0)
                 \<and> unanswered st (d_chat job) t
                 \<and> re_reload_ok en 0 \<and> re_windows_ok en 0 \<and> re_claim_ok en 0 \<and> re_chat_found en 0
                 \<and> re_insert_ok en 0 \<and> re_publish_ok en 0
               then [\<lparr>t_message = re_message en 0, t_account = d_account job, t_channel = d_channel job,
                      t_text = o_text opt\<rparr>]
               else [])
          | _ \<Rightarrow> []))"
proof (cases result)
  case (GenerationFailed e)
  then show ?thesis by (simp add: handle_run_finish_def)
next
  case (Generated trigger opt)
  show ?thesis
  proof (intro conjI impI, goal_cases)
    case 1
    show ?case
    proof (cases "fst (handle_run_finish en job settings (Generated trigger opt) st) = []")
      case False
      then show ?thesis unfolding Generated Let_def
        by (rule finish_needs [unfolded sent_task], intro disjI2) blast
    qed (simp add: Generated)
  next
    case 2
    then show ?case by (simp add: Generated finish_undisturbed auto_send_allowed_exact split: option.split)
  qed
qed

lemma auto_send_exactly_when_safe_witness:
  "map t_text (fst (handle_run_finish (calm_env 160 id id) sample_job
     (automation_settings_for_account auto_adb 9) (Generated (Some 5) sample_option) auto_adb)) = [''Hello'']"
proof -
  have calm: "\<forall>k j s. re_others (calm_env 160 id id) k j s = s"
    and none: "re_draft_id (calm_env 160 id id) 0 \<notin> g_id ` set (drafts auto_adb)"
    by (simp_all add: calm_env_def auto_adb_def)
  note R = conjunct2 [OF auto_send_exactly_when_safe, rule_format, OF calm [rule_format] none,
      of sample_job "automation_settings_for_account auto_adb 9" "Generated (Some 5) sample_option"]
  show ?thesis unfolding R by code_simp
qed

section \<open>Owners and attempts\<close>

lemma affected_by_key:
  assumes "distinct (map key rows)" and "find_by key k rows = Some r" and "p r"
  shows "affected (\<lambda>x. key x = k \<and> p x) rows = 1"
  using assms
proof (induction rows)
  case (Cons x rows)
  have none: "filter (\<lambda>x. key x = k \<and> p x) rows = []" if "key x = k"
    using Cons.prems(1) that by (auto simp: filter_empty_conv image_iff)
  show ?case
  proof (cases "key x = k")
    case True
    with Cons.prems none show ?thesis by (simp add: affected_def find_by_def)
  next
    case False
    with Cons show ?thesis by (simp add: affected_def find_by_def)
  qed
qed (simp add: find_by_def)

lemma find_by_filter_other:
  "k \<noteq> i \<Longrightarrow> find_by d_id k (filter (\<lambda>d. d_id d \<noteq> i) ds) = find_by d_id k ds"
  by (induction ds) (auto simp: find_by_def)

text \<open>A run that becomes the owner of its job and whose generation fails.\<close>

definition failed_run ::
  "uuid \<Rightarrow> gotime \<times> gotime \<times> string \<Rightarrow> adb \<Rightarrow> adb" where
  "failed_run i x st =
     (case x of (t0, t1, cause) \<Rightarrow>
        case handle_run_begin i t0 st of
          (RunOver, st1) \<Rightarrow> st1
        | (RunGenerating job settings, st1) \<Rightarrow>
            snd (handle_run_finish (calm_env t1 id id) job settings (GenerationFailed cause) st1))"

lemma begin_pending:
  assumes "distinct (map d_id (dispatch_jobs st))" and "find_by d_id i (dispatch_jobs st) = Some job"
    and "d_status job = DispatchPending"
    and "as_mode (automation_settings_for_account st (d_account job)) \<noteq> ModeOff"
  shows "handle_run_begin i t st = (RunGenerating job (automation_settings_for_account st (d_account job)),
     st\<lparr>dispatch_jobs := update_where (\<lambda>d. d_id d = i \<and> d_status d = DispatchPending)
                           (processing_row t) (dispatch_jobs st)\<rparr>)"
proof -
  have i: "d_id job = i" using assms(2) by (auto dest: find_by_Some)
  have "affected (\<lambda>d. d_id d = i \<and> d_status d = DispatchPending) (dispatch_jobs st) = 1"
    by (rule affected_by_key [OF assms(1,2)]) (fact assms(3))
  with assms i show ?thesis
    by (simp add: handle_run_begin_def dispatch_job_by_id_def claim_dispatch_job_def)
qed

lemma failed_run_step:
  assumes "distinct (map d_id (dispatch_jobs st))" and "find_by d_id i (dispatch_jobs st) = Some job"
    and "d_status job = DispatchPending"
    and "as_mode (automation_settings_for_account st (d_account job)) \<noteq> ModeOff"
    and def: "st' = failed_run i (t0, t1, cause) st"
  shows "find_by d_id i (dispatch_jobs st')
       = (if 5 \<le> d_attempts job + 1 then None else Some (failure_row cause t1 (processing_row t0 job)))"
    and "k \<noteq> i \<Longrightarrow> find_by d_id k (dispatch_jobs st') = find_by d_id k (dispatch_jobs st)"
    and "distinct (map d_id (dispatch_jobs st'))"
    and "automation_settings_for_account st' a = automation_settings_for_account st a"
proof -
  let ?ds = "update_where (\<lambda>d. d_id d = i \<and> d_status d = DispatchPending) (processing_row t0) (dispatch_jobs st)"
  let ?es = "update_where (\<lambda>d. d_id d = i) (failure_row cause t1) ?ds"
  have i: "d_id job = i" using assms(2) by (auto dest: find_by_Some)
  have a: "find_by d_id i ?ds = Some (processing_row t0 job)"
    using assms(2,3) i by (simp add: processing_upd.lookup_after)
  have st': "st' = st\<lparr>dispatch_jobs :=
      (if 5 \<le> d_attempts job + 1 then filter (\<lambda>d. d_id d \<noteq> i) ?es else ?es)\<rparr>"
    using a i begin_pending [OF assms(1-4)]
    by (simp add: def failed_run_def handle_run_finish_def calm_env_def give_up_or_retry_def
        record_dispatch_failure_def max_dispatch_attempts_def delete_dispatch_job_def processing_row_def)
  have e: "find_by d_id i ?es = Some (failure_row cause t1 (processing_row t0 job))"
    using a i by (simp add: failure_upd.lookup_after processing_row_def)
  show "find_by d_id i (dispatch_jobs st')
       = (if 5 \<le> d_attempts job + 1 then None else Some (failure_row cause t1 (processing_row t0 job)))"
    by (simp add: st' e find_by_filter_key)
  have other: "find_by d_id k ?es = find_by d_id k (dispatch_jobs st)" if "k \<noteq> i"
    using that by (cases "find_by d_id k (dispatch_jobs st)")
      (auto simp: failure_upd.lookup_after processing_upd.lookup_after dest: find_by_Some)
  show "k \<noteq> i \<Longrightarrow> find_by d_id k (dispatch_jobs st') = find_by d_id k (dispatch_jobs st)"
    by (simp add: st' other find_by_filter_other)
  have "distinct (map d_id ?es)"
    by (intro failure_upd.distinct_kept processing_upd.distinct_kept assms(1))
  then show "distinct (map d_id (dispatch_jobs st'))"
    by (simp add: st' distinct_map_filter)
  show "automation_settings_for_account st' a = automation_settings_for_account st a"
    by (simp add: st')
qed

lemma failed_run_gone:
  "find_by d_id i (dispatch_jobs st) = None \<Longrightarrow> failed_run i x st = st"
  by (cases x) (simp add: failed_run_def handle_run_begin_def dispatch_job_by_id_def)

lemma failed_runs_gone:
  "find_by d_id i (dispatch_jobs st) = None \<Longrightarrow> fold (failed_run i) xs st = st"
  by (induction xs) (auto simp: failed_run_gone)

lemma failed_runs:
  assumes "distinct (map d_id (dispatch_jobs st))" and "find_by d_id i (dispatch_jobs st) = Some job"
    and "d_status job = DispatchPending" and "d_attempts job < 5"
    and "as_mode (automation_settings_for_account st (d_account job)) \<noteq> ModeOff"
  shows "map_option (\<lambda>d. (d_attempts d, d_status d)) (find_by d_id i (dispatch_jobs (fold (failed_run i) xs st)))
       = (if d_attempts job + int (length xs) < 5
          then Some (d_attempts job + int (length xs), DispatchPending) else None)
     \<and> (k \<noteq> i \<longrightarrow> find_by d_id k (dispatch_jobs (fold (failed_run i) xs st)) = find_by d_id k (dispatch_jobs st))"
  using assms
proof (induction xs arbitrary: st job)
  case (Cons x xs)
  obtain t0 t1 cause where x: "x = (t0, t1, cause)" by (cases x)
  let ?st = "failed_run i x st"
  note step = failed_run_step [OF Cons.prems(1-3,5), of ?st t0 t1 cause, OF arg_cong [OF x, of "\<lambda>x. failed_run i x st"]]
  show ?case
  proof (cases "5 \<le> d_attempts job + 1")
    case True
    with step(1) have "find_by d_id i (dispatch_jobs ?st) = None" by simp
    with failed_runs_gone [OF this, of xs] step(2) True show ?thesis by simp
  next
    case False
    let ?job = "failure_row cause t1 (processing_row t0 job)"
    have "find_by d_id i (dispatch_jobs ?st) = Some ?job" using step(1) False by simp
    moreover have "d_status ?job = DispatchPending" "d_account ?job = d_account job"
      "d_attempts ?job = d_attempts job + 1"
      by (simp_all add: failure_row_def processing_row_def)
    ultimately show ?thesis
      using Cons.IH [OF step(3), of ?job] step(2,4) Cons.prems(5) False by simp
  qed
qed simp

text \<open>
  C30: a failing job is tried five times and no more. As long as the account is not switched off, each
  run of a pending job whose generation fails leaves the job pending with one more attempt on its
  count; the fifth failure removes it, further deliveries of it do nothing, and at no point is any
  other job touched.
\<close>

theorem retries_are_bounded:
  assumes "distinct (map d_id (dispatch_jobs st))" and "find_by d_id i (dispatch_jobs st) = Some job"
    and "d_status job = DispatchPending" and "d_attempts job = 0"
    and "as_mode (automation_settings_for_account st (d_account job)) \<noteq> ModeOff"
  shows "map_option (\<lambda>d. (d_attempts d, d_status d)) (find_by d_id i (dispatch_jobs (fold (failed_run i) xs st)))
       = (if length xs < 5 then Some (int (length xs), DispatchPending) else None)
     \<and> (\<forall>k. k \<noteq> i \<longrightarrow>
          find_by d_id k (dispatch_jobs (fold (failed_run i) xs st)) = find_by d_id k (dispatch_jobs st))"
  using failed_runs [OF assms(1-3) _ assms(5), of xs] assms(4) by simp

lemma retries_are_bounded_witness:
  "find_by d_id 3 (dispatch_jobs (fold (failed_run 3) (replicate 6 (200, 210, ''timeout'')) auto_adb)) = None"
proof -
  have "distinct (map d_id (dispatch_jobs auto_adb))"
    and "find_by d_id 3 (dispatch_jobs auto_adb) = Some sample_job"
    and "as_mode (automation_settings_for_account auto_adb (d_account sample_job)) \<noteq> ModeOff"
    by (simp_all add: auto_adb_def sample_job_def find_by_def automation_settings_for_account_def)
  from retries_are_bounded [OF this(1,2) _ _ this(3), of "replicate 6 (200, 210, ''timeout'')"]
  show ?thesis by (simp add: sample_job_def)
qed

text \<open>
  C20: a job has one owner at a time. Once a delivery has become the owner of a job and generates,
  every further delivery of that job ends at once, and the recovery pass neither returns the job nor
  changes its row as long as its cutoff lies before the moment the owner took it.
\<close>

theorem one_owner_until_stuck:
  assumes "handle_run_begin i t st = (RunGenerating job settings, st1)"
    and "distinct (map d_id (dispatch_jobs st))" and "db_time stuck_since < db_time t"
  shows "fst (handle_run_begin i t' st1) = RunOver
    \<and> i \<notin> d_id ` set (fst (recoverable_dispatch_jobs stuck_since lim now st1))
    \<and> find_by d_id i (dispatch_jobs (snd (recoverable_dispatch_jobs stuck_since lim now st1)))
        = find_by d_id i (dispatch_jobs st1)
    \<and> map_option d_status (find_by d_id i (dispatch_jobs st1)) = Some DispatchProcessing"
proof -
  let ?own = "processing_row t job"
  have job: "find_by d_id i (dispatch_jobs st) = Some job" "d_status job = DispatchPending"
    and st1: "st1 = st\<lparr>dispatch_jobs := update_where (\<lambda>d. d_id d = i \<and> d_status d = DispatchPending)
                           (processing_row t) (dispatch_jobs st)\<rparr>"
    using assms(1) find_by_Some [of d_id i "dispatch_jobs st"]
    by (auto simp: handle_run_begin_def dispatch_job_by_id_def claim_dispatch_job_def Let_def
        split: option.splits if_splits prod.splits bool.splits dispatch_status.splits)
      (metis dispatch_status.exhaust)
  have i: "d_id job = i" using job(1) by (auto dest: find_by_Some)
  have own: "find_by d_id i (dispatch_jobs st1) = Some ?own"
    using job i by (simp add: st1 processing_upd.lookup_after)
  have status: "d_status ?own = DispatchProcessing" "d_updated ?own = db_time t" "d_id ?own = i"
    using i by (simp_all add: processing_row_def)
  have dist: "distinct (map d_id (dispatch_jobs st1))"
    unfolding st1 by (simp add: processing_upd.distinct_kept assms(2))
  let ?ds = "update_where (\<lambda>d. d_status d = DispatchProcessing \<and> d_updated d \<le> db_time stuck_since)
                  unstick_row (dispatch_jobs st1)"
  have kept: "find_by d_id i ?ds = Some ?own"
    using own status assms(3) by (simp add: unstick_upd.lookup_after)
  have dist': "distinct (map d_id ?ds)" by (rule unstick_upd.distinct_kept [OF dist])
  have only: "d = ?own" if "d \<in> set ?ds" "d_id d = i" for d
    using find_by_unique [OF dist' that(1)] that(2) kept by simp
  then have not_hit: "i \<notin> d_id ` set (take n (sort_key d_updated
                  (filter (\<lambda>d. d_status d = DispatchPending \<and> d_updated d \<le> db_time stuck_since) ?ds)))" for n
    using status by (auto dest!: in_set_takeD)
  then have "find_by d_id i (dispatch_jobs (snd (recoverable_dispatch_jobs stuck_since lim now st1))) = Some ?own"
    using kept status by (simp add: recoverable_dispatch_jobs_def Let_def refresh_job_upd.lookup_after)
  moreover have "i \<notin> d_id ` set (fst (recoverable_dispatch_jobs stuck_since lim now st1))"
    using not_hit by (auto simp: recoverable_dispatch_jobs_def Let_def)
  moreover have "fst (handle_run_begin i t' st1) = RunOver"
    by (simp add: handle_run_begin_def dispatch_job_by_id_def own status)
  ultimately show ?thesis using own status by simp
qed

lemma one_owner_until_stuck_witness:
  "fst (handle_run_begin 3 5000001 (snd (handle_run_begin 3 5000000 auto_adb))) = RunOver"
proof -
  have a: "distinct (map d_id (dispatch_jobs auto_adb))"
    and b: "find_by d_id 3 (dispatch_jobs auto_adb) = Some sample_job" "d_status sample_job = DispatchPending"
    and c: "as_mode (automation_settings_for_account auto_adb (d_account sample_job)) \<noteq> ModeOff"
    and d: "db_time 100 < db_time 5000000"
    by (simp_all add: auto_adb_def sample_job_def find_by_def automation_settings_for_account_def db_time_def)
  from one_owner_until_stuck [OF begin_pending [OF a b c] a d, of 5000001]
  show ?thesis by (simp add: begin_pending [OF a b c])
qed

section \<open>Switching a channel off\<close>






section \<open>Promotion of bursts\<close>

abbreviation burst_of :: "dispatch_job \<Rightarrow> uuid \<times> int" where
  "burst_of d \<equiv> (d_chat d, d_version d)"

lemma promote_all:
  "foldE (promote_debounce fresh now) ps ds = Inr ds' \<Longrightarrow>
     ds' = ds @ map (\<lambda>(i, j). new_dispatch (fresh i) j now) ps
     \<and> (distinct (map burst_of ds) \<longrightarrow> distinct (map burst_of ds'))"
proof (induction ps arbitrary: ds)
  case (Cons p ps)
  obtain i j where p: "p = (i, j)" by (cases p)
  let ?ds = "ds @ [new_dispatch (fresh i) j now]"
  have one: "promote_debounce fresh now p ds
      = (if burst_taken ds (j_chat j) (j_version j) then Inl ErrConstraint else Inr ?ds)"
    by (simp add: p promote_debounce_def)
  from Cons.prems have free: "\<not> burst_taken ds (j_chat j) (j_version j)"
    and rest: "foldE (promote_debounce fresh now) ps ?ds = Inr ds'"
    by (auto simp: one split: if_splits)
  have "distinct (map burst_of ds) \<longrightarrow> distinct (map burst_of ?ds)"
    using free by (auto simp: burst_taken_def list_ex_iff new_dispatch_def)
  then have "distinct (map burst_of ds) \<longrightarrow> distinct (map burst_of ds')"
    using Cons.IH [OF rest] by blast
  moreover have "ds' = ds @ map (\<lambda>(i, j). new_dispatch (fresh i) j now) (p # ps)"
    using conjunct1 [OF Cons.IH [OF rest]] by (simp add: p)
  ultimately show ?case by blast
qed simp

text \<open>
  C28: each burst that is due becomes exactly one job. A claim that succeeds appends one pending job
  with no attempts for every debounce row among the due chats, in the rows' order, and nothing else;
  those rows are claimed, so no later claim promotes them again unless a message re-arms them, every
  other chat's row is untouched, and no two jobs share a chat and a burst version.
\<close>

theorem each_burst_promoted_once:
  assumes "claim_due_dispatch_jobs fresh now lim st = Inr (jobs, st')"
  shows "dispatch_jobs st' = dispatch_jobs st @ jobs
    \<and> map burst_of jobs = map (\<lambda>j. (j_chat j, j_version j))
        (filter (\<lambda>j. j_status j = DebouncePending \<and> j_chat j \<in> set (due_chats now lim st)) (debounce_jobs st))
    \<and> list_all (\<lambda>d. d_status d = DispatchPending \<and> d_attempts d = 0) jobs
    \<and> set (due_chats now' lim' st') \<inter> set (due_chats now lim st) = {}
    \<and> (\<forall>c. c \<notin> set (due_chats now lim st) \<longrightarrow>
          find_by j_chat c (debounce_jobs st') = find_by j_chat c (debounce_jobs st))
    \<and> (distinct (map burst_of (dispatch_jobs st)) \<longrightarrow> distinct (map burst_of (dispatch_jobs st')))"
proof (cases "due_chats now lim st = []")
  case True
  then show ?thesis using assms by (simp add: claim_due_dispatch_jobs_def)
next
  case False
  let ?hit = "\<lambda>j. j_status j = DebouncePending \<and> j_chat j \<in> set (due_chats now lim st)"
  let ?due = "filter ?hit (debounce_jobs st)"
  from assms False obtain ds where
    ds: "foldE (promote_debounce fresh now) (enumerate 0 ?due) (dispatch_jobs st) = Inr ds"
    and jobs: "jobs = drop (length (dispatch_jobs st)) ds"
    and st': "st' = st\<lparr>debounce_jobs := update_where ?hit (claim_debounce_row now) (debounce_jobs st),
                  dispatch_jobs := ds\<rparr>"
    by (auto simp: claim_due_dispatch_jobs_def Let_def result_simps)
  note new = promote_all [OF ds]
  have jobs': "jobs = map (\<lambda>(i, j). new_dispatch (fresh i) j now) (enumerate 0 ?due)"
    using conjunct1 [OF new] jobs by simp
  have bursts: "map burst_of jobs = map (\<lambda>j. (j_chat j, j_version j)) ?due"
    unfolding jobs' map_map
    by (rule nth_equalityI) (auto simp: nth_enumerate_eq new_dispatch_def)
  have pending: "list_all (\<lambda>d. d_status d = DispatchPending \<and> d_attempts d = 0) jobs"
    unfolding jobs' by (auto simp: list_all_iff new_dispatch_def)
  have "j_chat j \<notin> set (due_chats now lim st)"
    if "j \<in> set (debounce_jobs st')" "j_status j = DebouncePending" for j
    using that by (auto simp: st' table_simps claim_debounce_row_def split: if_splits)
  moreover have "\<exists>j \<in> set (debounce_jobs st'). j_chat j = c \<and> j_status j = DebouncePending"
    if "c \<in> set (due_chats now' lim' st')" for c
    using that by (auto simp: due_chats_def Let_def dest!: in_set_takeD)
  ultimately have once: "set (due_chats now' lim' st') \<inter> set (due_chats now lim st) = {}" by blast
  have other: "find_by j_chat c (debounce_jobs st') = find_by j_chat c (debounce_jobs st)"
    if "c \<notin> set (due_chats now lim st)" for c
    using that by (cases "find_by j_chat c (debounce_jobs st)")
      (auto simp: st' claim_debounce_upd.lookup_after dest: find_by_Some)
  have dj: "dispatch_jobs st' = ds" by (simp add: st')
  show ?thesis
  proof (intro conjI)
    show "dispatch_jobs st' = dispatch_jobs st @ jobs"
      using conjunct1 [OF new] by (simp add: st' jobs)
    show "distinct (map burst_of (dispatch_jobs st)) \<longrightarrow> distinct (map burst_of (dispatch_jobs st'))"
      using conjunct2 [OF new] dj by (simp only:)
  qed (use bursts pending once other in blast)+
qed

definition armed_adb :: adb where
  "armed_adb = arm_debounce 1 9 ''telegram'' 5 0 (arm_debounce 2 9 ''telegram'' 900000000 0 empty_adb)"

lemma each_burst_promoted_once_witness:
  "\<exists>jobs st'. claim_due_dispatch_jobs id 5000000 10 armed_adb = Inr (jobs, st')
     \<and> map burst_of jobs = [(1, 1)] \<and> map d_id (dispatch_jobs st') = [0]"
proof -
  obtain jobs st' where r: "claim_due_dispatch_jobs id 5000000 10 armed_adb = Inr (jobs, st')"
    and ids: "map d_id jobs = [0]" "dispatch_jobs st' = jobs"
    by (simp add: claim_due_dispatch_jobs_def due_chats_def armed_adb_def arm_debounce_def empty_adb_def
        db_time_def promote_debounce_def burst_taken_def new_dispatch_def enumerate_eq_zip Let_def)
  have due: "due_chats 5000000 10 armed_adb = [1]"
    by (simp add: due_chats_def armed_adb_def arm_debounce_def empty_adb_def db_time_def Let_def)
  from each_burst_promoted_once [OF r] due
  have "map burst_of jobs = [(1, 1)]"
    by (simp add: armed_adb_def arm_debounce_def empty_adb_def)
  with r ids show ?thesis by simp
qed

section \<open>Where the bookkeeping of bursts breaks down\<close>

text \<open>Chat 1's first burst is being processed when the customer writes again.\<close>

definition mid_burst :: adb where
  "mid_burst = arm_debounce 1 9 ''telegram'' 10 10
     (snd (handle_run_begin 3 6 (auto_adb\<lparr>debounce_jobs := map (\<lambda>j. j\<lparr>j_status := DebounceClaimed\<rparr>) (debounce_jobs auto_adb)\<rparr>)))"

text \<open>The channel is switched off and on again, and customers write to chats 1 and 2.\<close>

definition burst_restart :: "store_error + adb" where
  "burst_restart =
     bindE (set_automation_settings id 9 ModeOff None [] 11 mid_burst) (\<lambda>(_, st1).
     bindE (set_automation_settings id 9 ModeSuggestions None [] 12 st1) (\<lambda>(_, st2).
     Inr (on_inbound_message 0 2 8 ''telegram'' 20 20 (on_inbound_message 0 1 9 ''telegram'' 20 20 st2))))"

text \<open>
  Switching a channel off deletes its pending debounce rows, and with them the chats' burst counters:
  the next message starts again at version 1. If a job of the old version 1 is still being processed,
  its result passes the version gate although its burst is over, and the claim of the new burst
  violates the unique index on chat and version, which rolls back the claims of all chats.
\<close>

theorem switching_off_resets_bursts:
  "bindE burst_restart (claim_due_dispatch_jobs id 9000000000 10) = Inl ErrConstraint
   \<and> map_sum id (\<lambda>st. map g_trigger (drafts (snd (handle_run_finish (calm_env 30 id id) sample_job
       (default_automation_settings 9) (Generated (Some 5) sample_option) st)))) burst_restart = Inr [Some 5]"
  by (rule conjI; code_simp)

text \<open>
  A failure after the claim of a draft loses the answer: the insert of the message fails, the error is
  logged, the job is deleted, and the draft stays marked as sent although nothing was sent, so that no
  operator sees it as a suggestion either.
\<close>

theorem failed_insert_loses_answer:
  "(case handle_run_finish ((calm_env 160 id id)\<lparr>re_insert_ok := (\<lambda>_. False)\<rparr>) sample_job
       (automation_settings_for_account auto_adb 9) (Generated (Some 5) sample_option) auto_adb of
      (out, st') \<Rightarrow> (out, map (\<lambda>g. (g_state g, g_sent_message g)) (drafts st'), dispatch_jobs st', length (messages st')))
   = ([], [(Sent, None)], [], 1)"
  by code_simp

section \<open>A generation slower than the recovery cutoff\<close>

lemma latest_inbound_append:
  "m_direction m = DirectionOut \<Longrightarrow> latest_inbound (st\<lparr>messages := messages st @ [m]\<rparr>) chat = latest_inbound st chat"
  by (simp add: latest_inbound_def)

lemma human_replied_ai:
  "human_replied (insert_automation_outbound i c body now st) chat ts = human_replied st chat ts"
  by (simp add: human_replied_def insert_automation_outbound_def automation_message_def)

lemma unanswered_after_ai:
  "unanswered st chat t \<Longrightarrow> unanswered (insert_automation_outbound i c body now st) chat t"
  unfolding unanswered_def human_replied_ai
  by (auto simp: insert_automation_outbound_def latest_inbound_append automation_message_def
      find_by_append split: option.splits)

lemma calm_finish:
  assumes fresh: "ids 0 \<notin> g_id ` set (drafts st)"
    and gate: "current_burst_version st (d_chat job) = d_version job" "as_mode settings = ModeScheduledAuto"
      "mode_of st (d_account job) = ModeScheduledAuto" "unanswered st (d_chat job) t"
      "in_schedule (automation_windows_for_account st (d_account job)) now"
  shows "\<exists>st'. handle_run_finish (calm_env now ids msgs) job settings (Generated (Some t) opt) st
      = ([\<lparr>t_message = msgs 0, t_account = d_account job, t_channel = d_channel job, t_text = o_text opt\<rparr>], st')
     \<and> settings_rows st' = settings_rows st \<and> schedule_windows st' = schedule_windows st
     \<and> debounce_jobs st' = debounce_jobs st
     \<and> messages st' = messages st @ [automation_message (msgs 0) (d_chat job) (o_text opt) now]
     \<and> g_id ` set (drafts st') = insert (ids 0) (g_id ` set (drafts st))"
proof -
  let ?en = "calm_env now ids msgs"
  let ?s = "stored ?en job (Some t) opt st"
  let ?g = "new_draft (ids 0) (d_chat job) (d_channel job) (Some t) opt"
  have en: "re_draft_id ?en = ids" "re_gap_ok ?en = (\<lambda>_. True)" "re_others ?en = (\<lambda>_ _ s. s)" "re_last ?en = (\<lambda>s. s)"
    "re_reload_ok ?en 0" "re_windows_ok ?en 0" "re_claim_ok ?en 0" "re_chat_found ?en 0" "re_insert_ok ?en 0"
    "re_stamp_ok ?en 0" "re_publish_ok ?en 0" "re_delete_ok ?en" "re_message ?en 0 = msgs 0" "re_now ?en 0 = now"
    by (simp_all add: calm_env_def)
  have g: "find_by g_id (ids 0) (drafts ?s) = Some ?g"
    "find (\<lambda>g. g_id g = ids 0 \<and> g_state g = Suggested) (drafts ?s) = Some ?g"
    using stored_draft [of ?en st job "Some t" opt] fresh by (simp_all add: en)
  have gs: "g_id ?g = ids 0" "g_trigger ?g = Some t" "g_option ?g = opt" by (simp_all add: new_draft_def)
  have ids: "g_id ` set (update_where p f gs) = g_id ` set gs" if "\<And>g. g_id (f g) = g_id g" for p f and gs :: "draft_row list"
  proof -
    have "map g_id (update_where p f gs) = map g_id gs" using that by (simp add: update_where_def)
    then show ?thesis by (metis list.set_map)
  qed
  have allowed: "auto_send_allowed ?s (d_chat job) (d_account job) (Some t)"
    using gate by (simp add: auto_send_allowed_exact)
  obtain ds where claim: "claim_draft_for_auto_send (ids 0) (d_chat job) (d_account job) (Some t) ?s
      = (Some (send_draft_row ?g), ?s\<lparr>drafts := ds\<rparr>)" and ds: "g_id ` set ds = g_id ` set (drafts ?s)"
    using allowed g(2) by (auto simp: claim_draft_for_auto_send_def ids send_draft_row_def)
  have run: "handle_run_finish ?en job settings (Generated (Some t) opt) st
      = (case maybe_auto_send ?en 0 job ?g ?s of (ts, s2) \<Rightarrow> (ts, finish_job ?en job s2))"
    using gate(1,2) g(1)
    by (simp add: handle_run_finish_def write_draft_set_if_version_current_def write_one_option finish_drafts_def
        finish_draft_def enumerate_eq_zip en stored_def [symmetric] gs Let_def split: prod.split)
      (simp add: stored_def en)
  show ?thesis
    using gate(5)
    by (simp add: run maybe_auto_send_def en gs claim dispatch_send_def Let_def outbound_task_for_def send_draft_row_def
        set_draft_sent_def insert_automation_outbound_def finish_job_def delete_dispatch_job_def ids ds)
      (simp add: stored_def en gs)
qed

lemma recovered_job:
  assumes "find_by d_id i (dispatch_jobs st) = Some job" and "d_status job = DispatchProcessing"
    and "d_updated job \<le> db_time stuck_since" and "distinct (map d_id (dispatch_jobs st))"
    and "recoverable_dispatch_jobs stuck_since lim now st = (rs, st')"
  shows "\<exists>u. find_by d_id i (dispatch_jobs st') = Some (job\<lparr>d_status := DispatchPending, d_updated := u\<rparr>)"
    and "distinct (map d_id (dispatch_jobs st'))" and "\<exists>ds. st' = st\<lparr>dispatch_jobs := ds\<rparr>"
proof -
  let ?ds = "update_where (\<lambda>d. d_status d = DispatchProcessing \<and> d_updated d \<le> db_time stuck_since)
                  unstick_row (dispatch_jobs st)"
  obtain hit where st': "st' = st\<lparr>dispatch_jobs := update_where hit (refresh_row now) ?ds\<rparr>"
    using assms(5) by (auto simp: recoverable_dispatch_jobs_def Let_def)
  then show "\<exists>ds. st' = st\<lparr>dispatch_jobs := ds\<rparr>" by blast
  show "distinct (map d_id (dispatch_jobs st'))"
    by (simp add: st' refresh_job_upd.distinct_kept unstick_upd.distinct_kept assms(4))
  have "find_by d_id i ?ds = Some (unstick_row job)"
    using assms(1-3) by (simp add: unstick_upd.lookup_after)
  then have "find_by d_id i (dispatch_jobs st') = Some (if hit (unstick_row job) then refresh_row now (unstick_row job)
      else unstick_row job)"
    by (simp add: st' refresh_job_upd.lookup_after)
  moreover have "unstick_row job = job\<lparr>d_status := DispatchPending, d_updated := d_updated job\<rparr>"
    by (cases job) (simp add: unstick_row_def)
  moreover have "refresh_row now (unstick_row job) = job\<lparr>d_status := DispatchPending, d_updated := db_time now\<rparr>"
    by (cases job) (simp add: unstick_row_def refresh_row_def)
  ultimately show "\<exists>u. find_by d_id i (dispatch_jobs st') = Some (job\<lparr>d_status := DispatchPending, d_updated := u\<rparr>)"
    by (metis (full_types))
qed

lemma second_owner:
  assumes "distinct (map d_id (dispatch_jobs st))" and "find_by d_id i (dispatch_jobs st) = Some job"
    and "d_status job = DispatchPending" and on: "mode_of st (d_account job) \<noteq> ModeOff"
    and "handle_run_begin i t0 st = (RunGenerating job1 settings1, st1)"
    and "db_time t0 \<le> db_time stuck_since" and "recoverable_dispatch_jobs stuck_since lim t1 st1 = (rs, st2)"
    and "handle_run_begin i t2 st2 = (start, st3)"
  shows "\<exists>u ds. start = RunGenerating (job\<lparr>d_status := DispatchPending, d_updated := u\<rparr>)
      (automation_settings_for_account st (d_account job)) \<and> st3 = st\<lparr>dispatch_jobs := ds\<rparr>"
    and "job1 = job" and "settings1 = automation_settings_for_account st (d_account job)"
proof -
  note b1 = begin_pending [OF assms(1-3) on, of t0]
  let ?ds1 = "update_where (\<lambda>d. d_id d = i \<and> d_status d = DispatchPending) (processing_row t0) (dispatch_jobs st)"
  have st1: "st1 = st\<lparr>dispatch_jobs := ?ds1\<rparr>" using b1 assms(5) by simp
  show "job1 = job" "settings1 = automation_settings_for_account st (d_account job)"
    using b1 assms(5) by simp_all
  have own: "find_by d_id i (dispatch_jobs st1) = Some (processing_row t0 job)"
    using assms(2,3) find_by_Some [of d_id i "dispatch_jobs st" job]
    by (simp add: st1 processing_upd.lookup_after)
  have d1: "distinct (map d_id (dispatch_jobs st1))" by (simp add: st1 processing_upd.distinct_kept assms(1))
  note rec = recovered_job [OF own _ _ d1 assms(7), unfolded processing_row_def, simplified, OF assms(6)]
  obtain u ds2 where job2: "find_by d_id i (dispatch_jobs st2) = Some (job\<lparr>d_status := DispatchPending, d_updated := u\<rparr>)"
    and st2: "st2 = st1\<lparr>dispatch_jobs := ds2\<rparr>"
    using rec(1,3) by blast
  let ?job2 = "job\<lparr>d_status := DispatchPending, d_updated := u\<rparr>"
  have on2: "mode_of st2 (d_account ?job2) \<noteq> ModeOff" using on by (simp add: st2 st1)
  note b2 = begin_pending [OF rec(2) job2 _ on2, of t2]
  then show "\<exists>u ds. start = RunGenerating (job\<lparr>d_status := DispatchPending, d_updated := u\<rparr>)
      (automation_settings_for_account st (d_account job)) \<and> st3 = st\<lparr>dispatch_jobs := ds\<rparr>"
    using assms(8) by (auto simp: st2 st1 intro!: exI [of _ u])
qed

lemma same_tables:
  assumes "debounce_jobs s = debounce_jobs st" "settings_rows s = settings_rows st"
    "schedule_windows s = schedule_windows st"
  shows "current_burst_version s c = current_burst_version st c" "mode_of s a = mode_of st a"
    "automation_windows_for_account s a = automation_windows_for_account st a"
  using assms by (simp_all add: current_burst_version_def automation_settings_for_account_def
      automation_windows_for_account_def)

lemma same_messages: "messages s = messages s' \<Longrightarrow> unanswered s c t = unanswered s' c t"
  by (simp add: unanswered_def human_replied_def latest_inbound_def split: option.split)

text \<open>
  C35: a generation that takes longer than the recovery cutoff loses its job to a second owner, and
  both answer. Let a pending job of the chat's current burst, under an account in scheduled auto, be
  taken by a delivery; let a recovery pass run with a cutoff not before that moment; and let the job
  be delivered again. Then the second delivery generates, too, and if nothing else happens and both
  finish inside the schedule with an answer to the same unanswered message, both answers are put on the
  outbound queue: the automation's own messages do not count as replies.
\<close>

theorem slow_generation_answers_twice:
  assumes "distinct (map d_id (dispatch_jobs st))" and "find_by d_id i (dispatch_jobs st) = Some job"
    and "d_status job = DispatchPending" and "current_burst_version st (d_chat job) = d_version job"
    and "mode_of st (d_account job) = ModeScheduledAuto" and "unanswered st (d_chat job) t"
    and "handle_run_begin i t0 st = (RunGenerating job1 settings1, st1)"
    and "db_time t0 \<le> db_time stuck_since" and "recoverable_dispatch_jobs stuck_since lim t1 st1 = (rs, st2)"
    and "handle_run_begin i t2 st2 = (start, st3)"
    and "in_schedule (automation_windows_for_account st (d_account job)) t3"
    and "in_schedule (automation_windows_for_account st (d_account job)) t4"
    and "ids 0 \<notin> g_id ` set (drafts st)" and "ids_first 0 \<notin> insert (ids 0) (g_id ` set (drafts st))"
  shows "\<exists>job2 settings2. start = RunGenerating job2 settings2
    \<and> (case handle_run_finish (calm_env t3 ids msgs) job2 settings2 (Generated (Some t) opt) st3 of
         (out2, st4) \<Rightarrow> map t_text out2 = [o_text opt]
           \<and> map t_text (fst (handle_run_finish (calm_env t4 ids_first msgs_first) job1 settings1
                                (Generated (Some t) opt_first) st4)) = [o_text opt_first])"
proof -
  have on: "mode_of st (d_account job) \<noteq> ModeOff" using assms(5) by simp
  note second = second_owner [OF assms(1-3) on assms(7-10)]
  obtain u ds3 where st3: "st3 = st\<lparr>dispatch_jobs := ds3\<rparr>"
    and start: "start = RunGenerating (job\<lparr>d_status := DispatchPending, d_updated := u\<rparr>)
        (automation_settings_for_account st (d_account job))"
    using second(1) by blast
  let ?job2 = "job\<lparr>d_status := DispatchPending, d_updated := u\<rparr>"
  have same: "drafts st3 = drafts st" "messages st3 = messages st" "debounce_jobs st3 = debounce_jobs st"
    "settings_rows st3 = settings_rows st" "schedule_windows st3 = schedule_windows st"
    by (simp_all add: st3)
  obtain st4 where out2: "handle_run_finish (calm_env t3 ids msgs) ?job2
        (automation_settings_for_account st (d_account job)) (Generated (Some t) opt) st3
      = ([\<lparr>t_message = msgs 0, t_account = d_account job, t_channel = d_channel job, t_text = o_text opt\<rparr>], st4)"
    and st4: "settings_rows st4 = settings_rows st" "schedule_windows st4 = schedule_windows st"
      "debounce_jobs st4 = debounce_jobs st"
      "messages st4 = messages st @ [automation_message (msgs 0) (d_chat job) (o_text opt) t3]"
      "g_id ` set (drafts st4) = insert (ids 0) (g_id ` set (drafts st))"
    using calm_finish [of ids st3 ?job2 "automation_settings_for_account st (d_account job)" t t3 msgs opt]
      assms(4-6,11,13) same_messages [OF same(2)] by (auto simp: same same_tables [OF same(3-5)])
  have "unanswered st4 (d_chat job) t"
    using unanswered_after_ai [OF assms(6), of "msgs 0" "d_chat job" "o_text opt" t3]
    by (subst same_messages [of st4 "insert_automation_outbound (msgs 0) (d_chat job) (o_text opt) t3 st"])
      (simp_all add: st4(4) insert_automation_outbound_def)
  then have "\<exists>st5. handle_run_finish (calm_env t4 ids_first msgs_first) job1 settings1 (Generated (Some t) opt_first) st4
      = ([\<lparr>t_message = msgs_first 0, t_account = d_account job, t_channel = d_channel job,
           t_text = o_text opt_first\<rparr>], st5)"
    using calm_finish [of ids_first st4 job settings1 t t4 msgs_first opt_first] assms(4,5,12,14)
    by (auto simp: st4(5) same_tables [OF st4(3,1,2)] second(2,3))
  with out2 start show ?thesis by auto
qed

lemma slow_generation_answers_twice_witness:
  "\<exists>job2 settings2 st3.
     handle_run_begin 3 (seconds 131)
       (snd (recoverable_dispatch_jobs 10000000 10 (seconds 130) (snd (handle_run_begin 3 0 auto_adb))))
         = (RunGenerating job2 settings2, st3)
     \<and> (case handle_run_finish (calm_env (seconds 132) (\<lambda>k. 20 + k) id) job2 settings2
               (Generated (Some 5) sample_option) st3 of
          (out2, st4) \<Rightarrow> map t_text out2 = [''Hello'']
            \<and> map t_text (fst (handle_run_finish (calm_env (seconds 133) (\<lambda>k. 30 + k) id) sample_job
                (automation_settings_for_account auto_adb 9) (Generated (Some 5) sample_option) st4)) = [''Hello''])"
proof -
  let ?st1 = "snd (handle_run_begin 3 0 auto_adb)"
  let ?r = "recoverable_dispatch_jobs 10000000 10 (seconds 130) ?st1"
  let ?b = "handle_run_begin 3 (seconds 131) (snd ?r)"
  have a: "distinct (map d_id (dispatch_jobs auto_adb))"
    and b: "find_by d_id 3 (dispatch_jobs auto_adb) = Some sample_job" "d_status sample_job = DispatchPending"
    and c: "mode_of auto_adb (d_account sample_job) \<noteq> ModeOff"
    and gate: "current_burst_version auto_adb (d_chat sample_job) = d_version sample_job"
      "mode_of auto_adb (d_account sample_job) = ModeScheduledAuto" "unanswered auto_adb (d_chat sample_job) 5"
    and fresh: "(\<lambda>k. 20 + k) 0 \<notin> g_id ` set (drafts auto_adb)"
      "(\<lambda>k. 30 + k) 0 \<notin> insert ((\<lambda>k. 20 + k) 0) (g_id ` set (drafts auto_adb))"
    and acct: "d_account sample_job = 9" and said: "o_text sample_option = ''Hello''"
    by (simp_all add: auto_adb_def sample_job_def find_by_def automation_settings_for_account_def
        current_burst_version_def unanswered_def hello_def human_replied_def latest_inbound_def sample_option_def)
  have start: "handle_run_begin 3 0 auto_adb
      = (RunGenerating sample_job (automation_settings_for_account auto_adb 9), ?st1)"
    using begin_pending [OF a b c, of 0] acct by simp
  have late: "db_time 0 \<le> db_time 10000000" by (simp add: db_time_def)
  have r: "recoverable_dispatch_jobs 10000000 10 (seconds 130) ?st1 = (fst ?r, snd ?r)" by simp
  have s: "?b = (fst ?b, snd ?b)" by simp
  have t3: "in_schedule (automation_windows_for_account auto_adb (d_account sample_job)) (seconds 132)"
    and t4: "in_schedule (automation_windows_for_account auto_adb (d_account sample_job)) (seconds 133)"
    by (code_simp, code_simp)
  from slow_generation_answers_twice [where ids = "\<lambda>k. 20 + k" and ids_first = "\<lambda>k. 30 + k", OF a b gate start late r s t3 t4 fresh,
      where msgs = id and msgs_first = id and opt = sample_option and opt_first = sample_option]
  show ?thesis unfolding said by (metis prod.collapse)
qed

end
