(* ===== verification/Unicode_Text.thy ===== *)
theory Unicode_Text
  imports Unicode_Tables
begin

text \<open>
  Go strings are byte strings; \<open>range\<close> loops, regular expressions and the case functions read them as
  UTF-8, one rune at a time, an invalid byte counting as the rune U+FFFD of width 1. This theory has
  the decoder, the encoder, the functions of \<open>strings\<close> that work on runes, and Go texts written as
  lists of code points.
\<close>

section \<open>Encoding and decoding\<close>

definition byte_of :: "char \<Rightarrow> int" where "byte_of c = of_char c"

definition char_at :: "int \<Rightarrow> char" where "char_at b = char_of b"

definition rune_error :: int where "rune_error = 0xFFFD"

text \<open>\<open>utf8.AppendRune\<close>; a surrogate or an out-of-range rune is written as U+FFFD.\<close>

definition encode_rune :: "int \<Rightarrow> string" where
  "encode_rune r =
     (if 0 \<le> r \<and> r \<le> 0x7F then [char_at r]
      else if 0 \<le> r \<and> r \<le> 0x7FF then [char_at (0xC0 + r div 64), char_at (0x80 + r mod 64)]
      else if r < 0 \<or> r > 0x10FFFF \<or> 0xD800 \<le> r \<and> r \<le> 0xDFFF
      then [char_at 0xEF, char_at 0xBF, char_at 0xBD]
      else if r \<le> 0xFFFF
      then [char_at (0xE0 + r div 4096), char_at (0x80 + r div 64 mod 64), char_at (0x80 + r mod 64)]
      else [char_at (0xF0 + r div 262144), char_at (0x80 + r div 4096 mod 64),
            char_at (0x80 + r div 64 mod 64), char_at (0x80 + r mod 64)])"

definition continues :: "int \<Rightarrow> bool" where
  "continues b \<longleftrightarrow> 0x80 \<le> b \<and> b \<le> 0xBF"

text \<open>The least and greatest second byte after a lead byte of three or four (\<open>utf8.acceptRanges\<close>).\<close>

definition second_ok :: "int \<Rightarrow> int \<Rightarrow> bool" where
  "second_ok lead b \<longleftrightarrow>
     (if lead = 0xE0 then 0xA0 else if lead = 0xF0 then 0x90 else 0x80) \<le> b \<and>
     b \<le> (if lead = 0xED then 0x9F else if lead = 0xF4 then 0x8F else 0xBF)"

text \<open>\<open>utf8.DecodeRune\<close> of a non-empty byte string: the rune and its width.\<close>

definition decode_rune :: "string \<Rightarrow> int \<times> nat" where
  "decode_rune s =
     (let b = map byte_of (take 4 s); n = length b; b0 = b ! 0 in
      if n = 0 then (rune_error, 0)
      else if b0 \<le> 0x7F then (b0, 1)
      else if 0xC2 \<le> b0 \<and> b0 \<le> 0xDF \<and> 2 \<le> n \<and> continues (b ! 1)
      then ((b0 - 0xC0) * 64 + (b ! 1 - 0x80), 2)
      else if 0xE0 \<le> b0 \<and> b0 \<le> 0xEF \<and> 3 \<le> n \<and> second_ok b0 (b ! 1) \<and> continues (b ! 2)
      then ((b0 - 0xE0) * 4096 + (b ! 1 - 0x80) * 64 + (b ! 2 - 0x80), 3)
      else if 0xF0 \<le> b0 \<and> b0 \<le> 0xF4 \<and> 4 \<le> n \<and> second_ok b0 (b ! 1) \<and> continues (b ! 2) \<and> continues (b ! 3)
      then ((b0 - 0xF0) * 262144 + (b ! 1 - 0x80) * 4096 + (b ! 2 - 0x80) * 64 + (b ! 3 - 0x80), 4)
      else (rune_error, 1))"

lemma decode_width: "s \<noteq> [] \<Longrightarrow> 0 < snd (decode_rune s)"
  by (cases s) (simp_all add: decode_rune_def Let_def)

function runes :: "string \<Rightarrow> int list" where
  "runes s = (if s = [] then [] else fst (decode_rune s) # runes (drop (snd (decode_rune s)) s))"
  by pat_completeness auto
termination
  by (relation "measure length") (auto simp: decode_width)

declare runes.simps [simp del]

definition of_runes :: "int list \<Rightarrow> string" where
  "of_runes rs = concat (map encode_rune rs)"

text \<open>A code point that is a Unicode scalar value.\<close>

definition scalar :: "int \<Rightarrow> bool" where
  "scalar r \<longleftrightarrow> 0 \<le> r \<and> r \<le> 0x10FFFF \<and> \<not> (0xD800 \<le> r \<and> r \<le> 0xDFFF)"

lemma byte_char [simp]: "0 \<le> b \<Longrightarrow> b < 256 \<Longrightarrow> byte_of (char_at b) = b"
  by (simp add: byte_of_def char_at_def)

lemma byte_range [simp]: "0 \<le> byte_of c" "byte_of c < 256"
proof -
  have "byte_of c = byte_of c mod 256" by (simp only: byte_of_def of_char_mod_256)
  then show "0 \<le> byte_of c" "byte_of c < 256" by presburger+
qed

lemma decode_bytes:
  assumes "0 \<le> a" "a < 256" "0 \<le> b" "b < 256" "0 \<le> c" "c < 256" "0 \<le> d" "d < 256"
  shows "a \<le> 0x7F \<Longrightarrow> decode_rune (char_at a # s) = (a, 1)"
    and "0xC2 \<le> a \<Longrightarrow> a \<le> 0xDF \<Longrightarrow> continues b \<Longrightarrow>
      decode_rune (char_at a # char_at b # s) = ((a - 0xC0) * 64 + (b - 0x80), 2)"
    and "0xE0 \<le> a \<Longrightarrow> a \<le> 0xEF \<Longrightarrow> second_ok a b \<Longrightarrow> continues c \<Longrightarrow>
      decode_rune (char_at a # char_at b # char_at c # s)
        = ((a - 0xE0) * 4096 + (b - 0x80) * 64 + (c - 0x80), 3)"
    and "0xF0 \<le> a \<Longrightarrow> a \<le> 0xF4 \<Longrightarrow> second_ok a b \<Longrightarrow> continues c \<Longrightarrow> continues d \<Longrightarrow>
      decode_rune (char_at a # char_at b # char_at c # char_at d # s)
        = ((a - 0xF0) * 262144 + (b - 0x80) * 4096 + (c - 0x80) * 64 + (d - 0x80), 4)"
  using assms by (simp_all add: decode_rune_def Let_def)

lemma decode_encode:
  assumes "scalar r"
  shows "decode_rune (encode_rune r @ s) = (r, length (encode_rune r))"
proof -
  have r: "0 \<le> r" "r \<le> 0x10FFFF" "r < 0xD800 \<or> 0xDFFF < r"
    using assms by (auto simp: scalar_def)
  define m where "m = r mod 64"
  define n where "n = r div 64 mod 64"
  define k where "k = r div 4096 mod 64"
  have m: "0 \<le> m" "m < 64" "0 \<le> n" "n < 64" "0 \<le> k" "k < 64"
    by (simp_all add: m_def n_def k_def)
  have q: "r div 4096 = r div 64 div 64" "r div 262144 = r div 4096 div 64"
    using zdiv_zmult2_eq [of 64 r 64] zdiv_zmult2_eq [of 64 r 4096] by simp_all
  have e: "r div 64 * 64 + m = r" "r div 4096 * 64 + n = r div 64" "r div 262144 * 64 + k = r div 4096"
    unfolding m_def n_def k_def q by simp_all
  consider "r \<le> 0x7F" | "0x7F < r" "r \<le> 0x7FF" | "0x7FF < r" "r \<le> 0xFFFF" | "0xFFFF < r"
    by linarith
  then show ?thesis
  proof cases
    case 1
    then show ?thesis using r by (simp add: encode_rune_def decode_bytes(1))
  next
    case 2
    define d where "d = r div 64"
    from 2 have d: "d < 32" "2 \<le> d" unfolding d_def by linarith+
    have "encode_rune r = [char_at (0xC0 + d), char_at (0x80 + m)]"
      using 2 r unfolding m_def d_def by (simp add: encode_rune_def)
    moreover have "d * 64 + m = r" unfolding d_def by (rule e)
    ultimately show ?thesis
      using d m decode_bytes(2) [of "0xC0 + d" "0x80 + m" 0 0 s] by (simp add: continues_def)
  next
    case 3
    define d where "d = r div 4096"
    from 3 have d: "0 \<le> d" "d < 16" unfolding d_def by linarith+
    have a: "d * 4096 + n * 64 + m = r" using e unfolding d_def by linarith
    have lo: "d = 0 \<Longrightarrow> 32 \<le> n" and hi: "d = 13 \<Longrightarrow> n < 32"
      using a m 3 r(3) by auto
    have "encode_rune r = [char_at (0xE0 + d), char_at (0x80 + n), char_at (0x80 + m)]"
      using 3 r unfolding m_def n_def d_def encode_rune_def by auto
    moreover have "second_ok (0xE0 + d) (0x80 + n)" using d m lo hi by (auto simp: second_ok_def)
    ultimately show ?thesis
      using d m a decode_bytes(3) [of "0xE0 + d" "0x80 + n" "0x80 + m" 0 s] by (simp add: continues_def)
  next
    case 4
    define d where "d = r div 262144"
    from 4 r have d: "0 \<le> d" "d < 5" unfolding d_def by linarith+
    have a: "d * 262144 + k * 4096 + n * 64 + m = r" using e unfolding d_def by linarith
    have lo: "d = 0 \<Longrightarrow> 16 \<le> k" and hi: "d = 4 \<Longrightarrow> k < 16"
      using a m 4 r(2) by auto
    have "encode_rune r = [char_at (0xF0 + d), char_at (0x80 + k), char_at (0x80 + n), char_at (0x80 + m)]"
      using 4 r unfolding m_def n_def k_def d_def encode_rune_def by auto
    moreover have "second_ok (0xF0 + d) (0x80 + k)" using d m lo hi by (auto simp: second_ok_def)
    ultimately show ?thesis
      using d m a decode_bytes(4) [of "0xF0 + d" "0x80 + k" "0x80 + n" "0x80 + m" s] by (simp add: continues_def)
  qed
qed

lemma encode_nonempty [simp]: "encode_rune r \<noteq> []"
  by (simp add: encode_rune_def)

lemma runes_Nil [simp]: "runes [] = []"
  by (simp add: runes.simps)

lemma runes_of_runes: "list_all scalar rs \<Longrightarrow> runes (of_runes rs) = rs"
proof (induction rs)
  case (Cons r rs)
  then show ?case
    by (simp add: of_runes_def) (subst runes.simps, simp add: decode_encode)
qed (simp add: of_runes_def)

section \<open>Functions of the strings package\<close>

text \<open>\<open>strings.ToLower\<close>, \<open>strings.ToUpper\<close>, \<open>utf8.RuneCountInString\<close>.\<close>

definition to_lower :: "string \<Rightarrow> string" where
  "to_lower s = of_runes (map lower_rune (runes s))"

definition to_upper :: "string \<Rightarrow> string" where
  "to_upper s = of_runes (map upper_rune (runes s))"

definition rune_count :: "string \<Rightarrow> nat" where
  "rune_count s = length (runes s)"

text \<open>\<open>unicode.IsLetter(r) || unicode.IsNumber(r)\<close>.\<close>

definition is_word_rune :: "int \<Rightarrow> bool" where
  "is_word_rune r \<longleftrightarrow> is_letter r \<or> is_number r"

end
