(* ===== verification/Ai_Schedule.thy ===== *)
theory Ai_Schedule
  imports Unicode_Text "HOL-Library.List_Lexorder" "HOL-Library.Multiset"
begin

text \<open>
  Working hours of a salon and its specialists, \<open>backend/aiprompt/schedule.go\<close>: validation and
  normalization, the wording of a day, and the evaluation of a moment or an interval against a day's
  shift. Russian and Kazakh words are lists of code points.
\<close>

section \<open>Days and times\<close>

text \<open>\<open>weekdayOrder\<close>: the refs from Monday to Sunday; \<open>weekdayIndex\<close> is \<open>None\<close> for any other string.\<close>

definition weekday_order :: "string list" where
  "weekday_order = [''mon'', ''tue'', ''wed'', ''thu'', ''fri'', ''sat'', ''sun'']"

definition weekday_index :: "string \<Rightarrow> nat" where
  "weekday_index ref = length (takeWhile (\<lambda>w. w \<noteq> ref) weekday_order)"

definition valid_weekday_ref :: "string \<Rightarrow> bool" where
  "valid_weekday_ref ref \<longleftrightarrow> ref \<in> set weekday_order"

record schedule_break =
  b_start :: string
  b_end :: string

record schedule_day =
  sd_ref :: string
  sd_day :: string
  sd_start :: string
  sd_end :: string
  sd_breaks :: "schedule_break list"

type_synonym schedule = "schedule_day list"

text \<open>\<open>hhmmPattern\<close>, a match of the whole string.\<close>

definition hhmm_ok :: "string \<Rightarrow> bool" where
  "hhmm_ok s \<longleftrightarrow>
     (case s of
        [h1, h2, sep, m1, m2] \<Rightarrow>
          ((h1 = CHR ''0'' \<or> h1 = CHR ''1'') \<and> is_digit h2
             \<or> h1 = CHR ''2'' \<and> CHR ''0'' \<le> h2 \<and> h2 \<le> CHR ''3'')
          \<and> sep = CHR '':'' \<and> CHR ''0'' \<le> m1 \<and> m1 \<le> CHR ''5'' \<and> is_digit m2
      | _ \<Rightarrow> False)"

definition digit_value :: "char \<Rightarrow> int" where
  "digit_value c = of_char c - 48"

text \<open>\<open>parseHHMM\<close>, minutes since midnight; the code panics on anything else.\<close>

definition parse_hhmm :: "string \<Rightarrow> int option" where
  "parse_hhmm s =
     (if \<not> hhmm_ok s then None
      else Some ((digit_value (s ! 0) * 10 + digit_value (s ! 1)) * 60
                 + digit_value (s ! 3) * 10 + digit_value (s ! 4)))"

definition minutes_of :: "string \<Rightarrow> int" where
  "minutes_of s = (case parse_hhmm s of None \<Rightarrow> 0 | Some t \<Rightarrow> t)"

section \<open>Normalization\<close>

datatype schedule_error =
    TooManyDays nat
  | BadDayRef string
  | RepeatedDay string
  | BadShiftStart string string
  | BadShiftEnd string string
  | ShiftNotForward string
  | BadBreakStart string string
  | BadBreakEnd string string
  | BreakNotForward string
  | BreakOutsideShift string
  | BreaksOverlap string

fun check_breaks :: "string \<Rightarrow> int \<Rightarrow> int \<Rightarrow> int \<Rightarrow> schedule_break list \<Rightarrow> schedule_error + unit" where
  "check_breaks ref shift_start shift_end prev_end [] = Inr ()"
| "check_breaks ref shift_start shift_end prev_end (br # brs) =
     (if \<not> hhmm_ok (b_start br) then Inl (BadBreakStart ref (b_start br))
      else if \<not> hhmm_ok (b_end br) then Inl (BadBreakEnd ref (b_end br))
      else if minutes_of (b_start br) \<ge> minutes_of (b_end br) then Inl (BreakNotForward ref)
      else if minutes_of (b_start br) < shift_start \<or> minutes_of (b_end br) > shift_end
      then Inl (BreakOutsideShift ref)
      else if prev_end \<ge> 0 \<and> minutes_of (b_start br) < prev_end then Inl (BreaksOverlap ref)
      else check_breaks ref shift_start shift_end (minutes_of (b_end br)) brs)"

text \<open>
  One pass of the loop over the days. \<open>sort.Slice\<close> need not keep the order of breaks with equal starts;
  such breaks are rejected whatever their order, so the stable sort stands for it.
\<close>

definition normalize_day :: "schedule_day \<Rightarrow> schedule_error + schedule_day" where
  "normalize_day d =
     (if \<not> hhmm_ok (sd_start d) then Inl (BadShiftStart (sd_ref d) (sd_start d))
      else if \<not> hhmm_ok (sd_end d) then Inl (BadShiftEnd (sd_ref d) (sd_end d))
      else if minutes_of (sd_start d) \<ge> minutes_of (sd_end d) then Inl (ShiftNotForward (sd_ref d))
      else
        let breaks = sort_key b_start (sd_breaks d) in
        bindE (check_breaks (sd_ref d) (minutes_of (sd_start d)) (minutes_of (sd_end d)) (- 1) breaks)
          (\<lambda>_. Inr (d\<lparr>sd_breaks := breaks\<rparr>)))"

fun normalize_days :: "string list \<Rightarrow> schedule \<Rightarrow> schedule_error + schedule" where
  "normalize_days seen [] = Inr []"
| "normalize_days seen (d # ds) =
     (if \<not> valid_weekday_ref (sd_ref d) then Inl (BadDayRef (sd_ref d))
      else if sd_ref d \<in> set seen then Inl (RepeatedDay (sd_ref d))
      else bindE (normalize_day d) (\<lambda>d'.
           bindE (normalize_days (sd_ref d # seen) ds) (\<lambda>ds'. Inr (d' # ds'))))"

definition normalize_schedule :: "schedule \<Rightarrow> schedule_error + schedule" where
  "normalize_schedule s =
     (if length s = 0 then Inr []
      else if length s > length weekday_order then Inl (TooManyDays (length s))
      else bindE (normalize_days [] s) (\<lambda>out. Inr (sort_key (\<lambda>d. weekday_index (sd_ref d)) out)))"

definition day_by_ref :: "schedule \<Rightarrow> string \<Rightarrow> schedule_day option" where
  "day_by_ref s ref = find (\<lambda>d. sd_ref d = ref) s"

section \<open>Wording\<close>

text \<open>The Russian weekday names, from ponedel'nik to voskresen'e, and the Kazakh ones.\<close>

definition weekday_names_ru :: "(string \<times> string) list" where
  "weekday_names_ru =
     [(''mon'', of_runes [0x043F, 0x043E, 0x043D, 0x0435, 0x0434, 0x0435, 0x043B, 0x044C, 0x043D, 0x0438, 0x043A]),
      (''tue'', of_runes [0x0432, 0x0442, 0x043E, 0x0440, 0x043D, 0x0438, 0x043A]),
      (''wed'', of_runes [0x0441, 0x0440, 0x0435, 0x0434, 0x0430]),
      (''thu'', of_runes [0x0447, 0x0435, 0x0442, 0x0432, 0x0435, 0x0440, 0x0433]),
      (''fri'', of_runes [0x043F, 0x044F, 0x0442, 0x043D, 0x0438, 0x0446, 0x0430]),
      (''sat'', of_runes [0x0441, 0x0443, 0x0431, 0x0431, 0x043E, 0x0442, 0x0430]),
      (''sun'', of_runes [0x0432, 0x043E, 0x0441, 0x043A, 0x0440, 0x0435, 0x0441, 0x0435, 0x043D, 0x044C, 0x0435])]"

definition weekday_names_kk :: "(string \<times> string) list" where
  "weekday_names_kk =
     [(''mon'', of_runes [0x0434, 0x04AF, 0x0439, 0x0441, 0x0435, 0x043D, 0x0431, 0x0456]),
      (''tue'', of_runes [0x0441, 0x0435, 0x0439, 0x0441, 0x0435, 0x043D, 0x0431, 0x0456]),
      (''wed'', of_runes [0x0441, 0x04D9, 0x0440, 0x0441, 0x0435, 0x043D, 0x0431, 0x0456]),
      (''thu'', of_runes [0x0431, 0x0435, 0x0439, 0x0441, 0x0435, 0x043D, 0x0431, 0x0456]),
      (''fri'', of_runes [0x0436, 0x04B1, 0x043C, 0x0430]),
      (''sat'', of_runes [0x0441, 0x0435, 0x043D, 0x0431, 0x0456]),
      (''sun'', of_runes [0x0436, 0x0435, 0x043A, 0x0441, 0x0435, 0x043D, 0x0431, 0x0456])]"

text \<open>A Go map of strings read at a missing key gives the empty string.\<close>

definition text_at :: "(string \<times> string) list \<Rightarrow> string \<Rightarrow> string" where
  "text_at m k = (case map_of m k of None \<Rightarrow> '''' | Some v \<Rightarrow> v)"

definition weekday_name :: "string \<Rightarrow> string \<Rightarrow> string" where
  "weekday_name ref lang = (if lang = ''kk'' then text_at weekday_names_kk ref else text_at weekday_names_ru ref)"

definition capitalize_first :: "string \<Rightarrow> string" where
  "capitalize_first s =
     (if s = '''' then s
      else to_upper (of_runes [hd (runes s)]) @ of_runes (tl (runes s)))"

text \<open>The en dash; the words for one break and for several, in both languages.\<close>

definition en_dash :: string where "en_dash = of_runes [0x2013]"
definition break_word_ru :: string where "break_word_ru = of_runes [0x043F, 0x0435, 0x0440, 0x0435, 0x0440, 0x044B, 0x0432]"
definition breaks_word_ru :: string where "breaks_word_ru = of_runes [0x043F, 0x0435, 0x0440, 0x0435, 0x0440, 0x044B, 0x0432, 0x044B]"
definition break_word_kk :: string where "break_word_kk = of_runes [0x04AF, 0x0437, 0x0456, 0x043B, 0x0456, 0x0441]"
definition breaks_word_kk :: string where "breaks_word_kk = of_runes [0x04AF, 0x0437, 0x0456, 0x043B, 0x0456, 0x0441, 0x0442, 0x0435, 0x0440]"

definition schedule_day_text :: "schedule_day \<Rightarrow> string \<Rightarrow> string" where
  "schedule_day_text d lang =
     (let name0 = weekday_name (sd_ref d) lang;
          name = (if name0 = '''' then sd_ref d else name0);
          text = capitalize_first name @ '': '' @ sd_start d @ en_dash @ sd_end d in
      if sd_breaks d = [] then text
      else
        let parts = map (\<lambda>br. b_start br @ en_dash @ b_end br) (sd_breaks d);
            word = (if lang = ''kk'' then (if length parts > 1 then breaks_word_kk else break_word_kk)
                    else (if length parts > 1 then breaks_word_ru else break_word_ru)) in
        text @ '' ('' @ word @ '' '' @ join_str '', '' parts @ '')'')"

definition schedule_full_text :: "schedule \<Rightarrow> string \<Rightarrow> string" where
  "schedule_full_text s lang =
     join_str ''; '' (map (\<lambda>d. schedule_day_text d lang) (List.map_filter (day_by_ref s) weekday_order))"

definition schedule_reasoning_lines :: "schedule \<Rightarrow> string list" where
  "schedule_reasoning_lines s =
     map (\<lambda>ref. case day_by_ref s ref of
            None \<Rightarrow> ref @ '': off''
          | Some d \<Rightarrow>
              ref @ '': '' @ sd_start d @ ''-'' @ sd_end d @
              (if sd_breaks d = [] then ''''
               else '' break '' @ join_str '','' (map (\<lambda>br. b_start br @ ''-'' @ b_end br) (sd_breaks d))))
       weekday_order"

section \<open>Shifts\<close>

datatype shift_state = ShiftOnDuty | ShiftBreakOverlap | ShiftOff

text \<open>Errors of the two evaluations; \<open>ShiftPanic\<close> is the panic of \<open>parseHHMM\<close> on a day that was never validated.\<close>

datatype shift_error = BadTime string | BadIntervalStart string | BadIntervalEnd string
  | IntervalNotForward string string | ShiftPanic

fun point_in_breaks :: "int \<Rightarrow> schedule_break list \<Rightarrow> shift_error + shift_state" where
  "point_in_breaks t [] = Inr ShiftOnDuty"
| "point_in_breaks t (br # brs) =
     (if \<not> hhmm_ok (b_start br) \<or> \<not> hhmm_ok (b_end br) then Inl ShiftPanic
      else if t \<ge> minutes_of (b_start br) \<and> t < minutes_of (b_end br) then Inr ShiftBreakOverlap
      else point_in_breaks t brs)"

definition evaluate_shift_point :: "schedule_day option \<Rightarrow> string \<Rightarrow> shift_error + shift_state" where
  "evaluate_shift_point day at =
     (if \<not> hhmm_ok at then Inl (BadTime at)
      else case day of
        None \<Rightarrow> Inr ShiftOff
      | Some d \<Rightarrow>
          if \<not> hhmm_ok (sd_start d) \<or> \<not> hhmm_ok (sd_end d) then Inl ShiftPanic
          else if minutes_of at < minutes_of (sd_start d) \<or> minutes_of at \<ge> minutes_of (sd_end d)
          then Inr ShiftOff
          else point_in_breaks (minutes_of at) (sd_breaks d))"

fun interval_in_breaks :: "int \<Rightarrow> int \<Rightarrow> schedule_break list \<Rightarrow> shift_error + shift_state" where
  "interval_in_breaks a b [] = Inr ShiftOnDuty"
| "interval_in_breaks a b (br # brs) =
     (if \<not> hhmm_ok (b_start br) \<or> \<not> hhmm_ok (b_end br) then Inl ShiftPanic
      else if a < minutes_of (b_end br) \<and> b > minutes_of (b_start br) then Inr ShiftBreakOverlap
      else interval_in_breaks a b brs)"

definition evaluate_shift ::
  "schedule_day option \<Rightarrow> string \<Rightarrow> string \<Rightarrow> shift_error + shift_state" where
  "evaluate_shift day req_start req_end =
     (if \<not> hhmm_ok req_start then Inl (BadIntervalStart req_start)
      else if \<not> hhmm_ok req_end then Inl (BadIntervalEnd req_end)
      else if minutes_of req_start \<ge> minutes_of req_end then Inl (IntervalNotForward req_start req_end)
      else case day of
        None \<Rightarrow> Inr ShiftOff
      | Some d \<Rightarrow>
          if \<not> hhmm_ok (sd_start d) \<or> \<not> hhmm_ok (sd_end d) then Inl ShiftPanic
          else if minutes_of req_start < minutes_of (sd_start d) \<or> minutes_of req_end > minutes_of (sd_end d)
          then Inr ShiftOff
          else interval_in_breaks (minutes_of req_start) (minutes_of req_end) (sd_breaks d))"

section \<open>Normalized schedules\<close>

text \<open>A validated break list: valid times, forward, inside the shift, one after the other.\<close>

fun breaks_ok :: "int \<Rightarrow> int \<Rightarrow> schedule_break list \<Rightarrow> bool" where
  "breaks_ok a z [] \<longleftrightarrow> True"
| "breaks_ok a z (br # brs) \<longleftrightarrow>
     hhmm_ok (b_start br) \<and> hhmm_ok (b_end br) \<and> a \<le> minutes_of (b_start br) \<and>
     minutes_of (b_start br) < minutes_of (b_end br) \<and> minutes_of (b_end br) \<le> z \<and>
     breaks_ok (minutes_of (b_end br)) z brs"

definition day_ok :: "schedule_day \<Rightarrow> bool" where
  "day_ok d \<longleftrightarrow> hhmm_ok (sd_start d) \<and> hhmm_ok (sd_end d) \<and> minutes_of (sd_start d) < minutes_of (sd_end d)
     \<and> breaks_ok (minutes_of (sd_start d)) (minutes_of (sd_end d)) (sd_breaks d)"

definition sorted_breaks :: "schedule_day \<Rightarrow> schedule_day" where
  "sorted_breaks d = d\<lparr>sd_breaks := sort_key b_start (sd_breaks d)\<rparr>"

lemma sorted_breaks_fields [simp]:
  "sd_ref (sorted_breaks d) = sd_ref d" "sd_start (sorted_breaks d) = sd_start d"
  "sd_end (sorted_breaks d) = sd_end d" "sd_breaks (sorted_breaks d) = sort_key b_start (sd_breaks d)"
  by (simp_all add: sorted_breaks_def)

lemma sorted_breaks_idem [simp]: "sorted_breaks (sorted_breaks d) = sorted_breaks d"
  by (simp add: sorted_breaks_def sort_key_id_if_sorted)

lemma digit_value_range: "is_digit c \<Longrightarrow> 0 \<le> digit_value c \<and> digit_value c \<le> 9"
  using of_nat_of_char [of c, where 'a = int]
  by (simp add: is_digit_def digit_value_def less_eq_char_def)

lemma minutes_range: "hhmm_ok s \<Longrightarrow> 0 \<le> minutes_of s \<and> minutes_of s < 1440"
proof -
  assume ok: "hhmm_ok s"
  then obtain h1 h2 sep m1 m2 where s: "s = [h1, h2, sep, m1, m2]"
    by (auto simp: hhmm_ok_def split: list.splits)
  have v: "of_char c = int (of_char c)" for c :: char by (simp only: of_nat_of_char)
  from ok s have d: "is_digit h2" "is_digit m2" "is_digit m1" "digit_value m1 \<le> 5"
    and h: "h1 = CHR ''0'' \<or> h1 = CHR ''1'' \<or> h1 = CHR ''2'' \<and> digit_value h2 \<le> 3"
    by (auto simp: hhmm_ok_def is_digit_def less_eq_char_def digit_value_def v)
  have "minutes_of s = (digit_value h1 * 10 + digit_value h2) * 60 + digit_value m1 * 10 + digit_value m2"
    using ok s by (simp add: minutes_of_def parse_hhmm_def)
  moreover have "digit_value (CHR ''0'') = 0" "digit_value (CHR ''1'') = 1" "digit_value (CHR ''2'') = 2"
    by (simp_all add: digit_value_def)
  ultimately show ?thesis
    using d(4) h digit_value_range [OF d(1)] digit_value_range [OF d(2)] digit_value_range [OF d(3)] by auto
qed

lemmas minutes_nonneg = minutes_range [THEN conjunct1]

lemma check_breaks_iff:
  "0 \<le> p \<Longrightarrow> check_breaks ref a z p brs = Inr () \<longleftrightarrow> breaks_ok (max a p) z brs"
proof (induction brs arbitrary: p)
  case (Cons br brs)
  show ?case
  proof (cases "hhmm_ok (b_start br) \<and> hhmm_ok (b_end br)
      \<and> minutes_of (b_start br) < minutes_of (b_end br) \<and> a \<le> minutes_of (b_start br)")
    case True
    then have "0 \<le> minutes_of (b_end br)" "max a (minutes_of (b_end br)) = minutes_of (b_end br)"
      by (auto simp: minutes_nonneg)
    with True Cons show ?thesis by auto
  next
    case False
    then show ?thesis by auto
  qed
qed simp

lemma check_breaks_start:
  "0 \<le> a \<Longrightarrow> check_breaks ref a z (- 1) brs = Inr () \<longleftrightarrow> breaks_ok a z brs"
proof (cases brs)
  case (Cons br brs')
  assume "0 \<le> a"
  have "check_breaks ref a z (- 1) (br # brs') = check_breaks ref a z 0 (br # brs')"
    using minutes_nonneg [of "b_start br"] by (cases "hhmm_ok (b_start br)") simp_all
  then show ?thesis using check_breaks_iff [of 0 ref a z brs] \<open>0 \<le> a\<close> Cons
    by (simp only: max_absorb1)
qed simp

lemma normalize_day_iff: "normalize_day d = Inr d' \<longleftrightarrow> d' = sorted_breaks d \<and> day_ok d'"
proof (cases "hhmm_ok (sd_start d) \<and> hhmm_ok (sd_end d) \<and> minutes_of (sd_start d) < minutes_of (sd_end d)")
  case True
  then show ?thesis
    using check_breaks_start [OF minutes_nonneg, of "sd_start d" "sd_ref d" "minutes_of (sd_end d)"
        "sort_key b_start (sd_breaks d)"]
    by (auto simp: normalize_day_def Let_def result_simps day_ok_def sorted_breaks_def)
next
  case False
  then show ?thesis by (auto simp: normalize_day_def day_ok_def)
qed

lemma normalize_days_iff:
  "normalize_days seen ds = Inr out \<longleftrightarrow>
     out = map sorted_breaks ds \<and> list_all day_ok out \<and> list_all (valid_weekday_ref \<circ> sd_ref) ds
     \<and> distinct (map sd_ref ds) \<and> set (map sd_ref ds) \<inter> set seen = {}"
proof (induction ds arbitrary: seen out)
  case (Cons d ds)
  show ?case
    by (auto simp: result_simps Cons.IH normalize_day_iff)
qed auto

lemma valid_refs_few:
  assumes "distinct (map sd_ref ds)" and "list_all (valid_weekday_ref \<circ> sd_ref) ds"
  shows "length ds \<le> length weekday_order"
proof -
  have "set (map sd_ref ds) \<subseteq> set weekday_order"
    using assms(2) by (auto simp: list_all_iff valid_weekday_ref_def)
  from card_mono [OF _ this] distinct_card [OF assms(1)] show ?thesis
    by (simp add: weekday_order_def card_insert_if)
qed

lemma weekday_index_inj:
  "valid_weekday_ref a \<Longrightarrow> valid_weekday_ref b \<Longrightarrow> weekday_index a = weekday_index b \<Longrightarrow> a = b"
  by (auto simp: valid_weekday_ref_def weekday_order_def weekday_index_def)

definition schedule_input_ok :: "schedule \<Rightarrow> bool" where
  "schedule_input_ok s \<longleftrightarrow> distinct (map sd_ref s) \<and> list_all (valid_weekday_ref \<circ> sd_ref) s
     \<and> list_all (day_ok \<circ> sorted_breaks) s"

lemma normalize_schedule_iff:
  "normalize_schedule s = Inr out \<longleftrightarrow>
     schedule_input_ok s \<and> out = sort_key (\<lambda>d. weekday_index (sd_ref d)) (map sorted_breaks s)"
proof (cases "s = []")
  case True
  then show ?thesis by (auto simp: normalize_schedule_def schedule_input_ok_def)
next
  case False
  then show ?thesis
    using valid_refs_few [of s]
    by (auto simp: normalize_schedule_def schedule_input_ok_def normalize_days_iff result_simps list_all_iff)
qed

lemma input_ok_perm:
  assumes "mset out = mset (map sorted_breaks s)" and "schedule_input_ok s"
  shows "schedule_input_ok out \<and> map sorted_breaks out = out"
proof -
  have "set out = sorted_breaks ` set s" using arg_cong [OF assms(1), of set_mset] by simp
  then have idem: "\<forall>d \<in> set out. sorted_breaks d = d" by auto
  have "mset (map sd_ref out) = mset (map sd_ref (map sorted_breaks s))"
    using assms(1) by (metis mset_map)
  then have "mset (map sd_ref out) = mset (map sd_ref s)" by (simp add: comp_def)
  then have "distinct (map sd_ref out)"
    using assms(2) mset_eq_imp_distinct_iff schedule_input_ok_def by blast
  moreover have "map sorted_breaks out = out" using idem by (intro map_idI) blast
  ultimately show ?thesis
    using \<open>set out = _\<close> assms(2) by (auto simp: schedule_input_ok_def list_all_iff)
qed

text \<open>
  What normalizing a schedule accepts and returns. It succeeds exactly when every day has a
  weekday of its own, a shift that runs forward within the day, and breaks that, once ordered, lie
  inside the shift and do not overlap. The result is then the same days with their breaks in order,
  sorted by weekday without repetition, and normalizing it again changes nothing.
\<close>

theorem normalize_schedule_exact:
  "((\<exists>out. normalize_schedule s = Inr out) \<longleftrightarrow> schedule_input_ok s)
   \<and> (normalize_schedule s = Inr out \<longrightarrow>
        mset out = mset (map sorted_breaks s)
        \<and> list_all day_ok out
        \<and> sorted_wrt (<) (map (weekday_index \<circ> sd_ref) out)
        \<and> normalize_schedule out = Inr out)"
proof (intro conjI impI)
  show "(\<exists>out. normalize_schedule s = Inr out) \<longleftrightarrow> schedule_input_ok s"
    by (simp add: normalize_schedule_iff)
next
  assume "normalize_schedule s = Inr out"
  then have s: "schedule_input_ok s"
    and out: "out = sort_key (\<lambda>d. weekday_index (sd_ref d)) (map sorted_breaks s)"
    by (simp_all add: normalize_schedule_iff)
  show m: "mset out = mset (map sorted_breaks s)" by (simp add: out)
  have perm: "schedule_input_ok out" "map sorted_breaks out = out"
    using input_ok_perm [OF m s] by simp_all
  then show "list_all day_ok out"
    by (metis (mono_tags, lifting) comp_apply list.pred_map schedule_input_ok_def)
  have sorted: "sorted (map (weekday_index \<circ> sd_ref) out)"
    by (simp add: out comp_def)
  have "inj_on weekday_index (set (map sd_ref out))"
    using perm(1) weekday_index_inj by (auto simp: schedule_input_ok_def list_all_iff inj_on_def)
  then have "distinct (map (weekday_index \<circ> sd_ref) out)"
    using perm(1) by (simp add: schedule_input_ok_def distinct_map comp_inj_on flip: map_map)
  with sorted show "sorted_wrt (<) (map (weekday_index \<circ> sd_ref) out)"
    by (simp add: strict_sorted_iff)
  have "sort_key (\<lambda>d. weekday_index (sd_ref d)) out = out"
    using sorted by (intro sort_key_id_if_sorted) (simp add: comp_def)
  with perm show "normalize_schedule out = Inr out"
    by (simp add: normalize_schedule_iff)
qed

section \<open>Shifts, point by point\<close>

text \<open>The time of day as the code writes it, for the moments between two given ones.\<close>

definition hhmm_text :: "int \<Rightarrow> string" where
  "hhmm_text t = (let d = (\<lambda>n. char_of (48 + n)) in
     [d (t div 600), d (t div 60 mod 10), CHR '':'', d (t mod 60 div 10), d (t mod 10)])"

lemma char_digit:
  assumes "0 \<le> n" "n < 10"
  shows "is_digit (char_of (48 + n))" "digit_value (char_of (48 + n)) = n"
proof -
  from assms have "of_char (char_of (48 + n) :: char) = (48 + n) mod 256" by (simp only: of_char_of)
  with assms show v: "digit_value (char_of (48 + n)) = n" by (simp add: digit_value_def)
  have "of_char (char_of (48 + n) :: char) = nat (48 + n)"
    using v assms by (simp add: digit_value_def flip: of_nat_of_char [where 'a = int])
  with assms show "is_digit (char_of (48 + n))"
    by (auto simp: is_digit_def less_eq_char_def le_nat_iff nat_le_iff)
qed

lemma hhmm_text_ok:
  assumes "0 \<le> t" "t < 1440"
  shows "hhmm_ok (hhmm_text t)" "minutes_of (hhmm_text t) = t"
proof -
  define h1 h2 m1 m2 where "h1 = t div 600" and "h2 = t div 60 mod 10" and "m1 = t mod 60 div 10" and "m2 = t mod 10"
  have sum: "(h1 * 10 + h2) * 60 + m1 * 10 + m2 = t"
  proof -
    have "t div 600 = t div 60 div 10" using zdiv_zmult2_eq [of 10 t 60] by simp
    then have A: "h1 * 10 + h2 = t div 60" by (simp add: h1_def h2_def)
    have "t mod 60 mod 10 = t mod 10" by (rule mod_mod_cancel) simp
    then have B: "m1 * 10 + m2 = t mod 60" unfolding m1_def m2_def by (metis div_mult_mod_eq)
    have "(h1 * 10 + h2) * 60 + (m1 * 10 + m2) = t" unfolding A B by (rule div_mult_mod_eq)
    then show ?thesis by simp
  qed
  have r: "0 \<le> h1" "h1 \<le> 2" "0 \<le> h2" "h2 < 10" "0 \<le> m1" "m1 \<le> 5" "0 \<le> m2" "m2 < 10"
  proof -
    have "0 \<le> t mod 60" "t mod 60 < 60" by simp_all
    then show "0 \<le> m1" "m1 \<le> 5" unfolding m1_def by linarith+
    show "0 \<le> h1" "h1 \<le> 2" unfolding h1_def using assms by linarith+
  qed (simp_all add: h2_def m2_def)
  have top: "h2 \<le> 3" if "h1 = 2" using sum r assms unfolding that by simp
  let ?c = "\<lambda>n. char_of (48 + n) :: char"
  have spelled: "hhmm_text t = [?c h1, ?c h2, CHR '':'', ?c m1, ?c m2]"
    by (simp add: hhmm_text_def Let_def h1_def h2_def m1_def m2_def)
  have dig: "is_digit (?c h2)" "is_digit (?c m1)" "is_digit (?c m2)"
    and val: "digit_value (?c h1) = h1" "digit_value (?c h2) = h2" "digit_value (?c m1) = m1" "digit_value (?c m2) = m2"
    using r by (simp_all add: char_digit)
  have le: "of_char (?c n) = nat (48 + n)" if "0 \<le> n" "n < 10" for n
    using char_digit(2) [OF that] that by (simp add: digit_value_def flip: of_nat_of_char [where 'a = int])
  have "h1 = 0 \<or> h1 = 1 \<or> h1 = 2" using r by linarith
  then have "?c h1 = CHR ''0'' \<or> ?c h1 = CHR ''1'' \<or> ?c h1 = CHR ''2'' \<and> ?c h2 \<le> CHR ''3''"
  proof (elim disjE)
    assume "h1 = 2"
    then have "?c h2 \<le> CHR ''3''" using top r le [of h2] by (simp add: less_eq_char_def nat_le_iff)
    with \<open>h1 = 2\<close> show ?thesis by (simp add: char_of_def)
  qed (simp_all add: char_of_def)
  moreover have "CHR ''0'' \<le> ?c h2" "CHR ''0'' \<le> ?c m1" "?c m1 \<le> CHR ''5''"
    using r le [of h2] le [of m1] by (simp_all add: less_eq_char_def le_nat_iff nat_le_iff)
  ultimately show ok: "hhmm_ok (hhmm_text t)"
    using dig unfolding spelled hhmm_ok_def by simp
  show "minutes_of (hhmm_text t) = t"
    using ok sum by (simp add: minutes_of_def parse_hhmm_def spelled val)
qed

text \<open>The states a day is in at the minutes of an interval.\<close>

definition point_states :: "schedule_day \<Rightarrow> int \<Rightarrow> int \<Rightarrow> shift_state set" where
  "point_states d a z =
     {st. \<exists>t. a \<le> t \<and> t < z \<and> evaluate_shift_point (Some d) (hhmm_text t) = Inr st}"

definition in_break :: "int \<Rightarrow> schedule_break \<Rightarrow> bool" where
  "in_break t br \<longleftrightarrow> minutes_of (b_start br) \<le> t \<and> t < minutes_of (b_end br)"

lemma point_in_breaks_eq:
  "breaks_ok a z brs \<Longrightarrow>
     point_in_breaks t brs = Inr (if \<exists>br \<in> set brs. in_break t br then ShiftBreakOverlap else ShiftOnDuty)"
  by (induction brs arbitrary: a) (auto simp: in_break_def)

lemma interval_in_breaks_eq:
  "breaks_ok a z brs \<Longrightarrow>
     interval_in_breaks x y brs
       = Inr (if \<exists>br \<in> set brs. x < minutes_of (b_end br) \<and> y > minutes_of (b_start br)
              then ShiftBreakOverlap else ShiftOnDuty)"
  by (induction brs arbitrary: a) auto

lemma breaks_forward: "breaks_ok a z brs \<Longrightarrow> br \<in> set brs \<Longrightarrow> minutes_of (b_start br) < minutes_of (b_end br)"
  by (induction brs arbitrary: a) auto

lemma interval_meets_break:
  assumes "minutes_of (b_start br) < minutes_of (b_end br)" and "x < y"
  shows "(x < minutes_of (b_end br) \<and> y > minutes_of (b_start br)) \<longleftrightarrow> (\<exists>t. x \<le> t \<and> t < y \<and> in_break t br)"
proof
  assume "x < minutes_of (b_end br) \<and> y > minutes_of (b_start br)"
  with assms show "\<exists>t. x \<le> t \<and> t < y \<and> in_break t br"
    by (intro exI [of _ "max x (minutes_of (b_start br))"]) (auto simp: in_break_def)
qed (auto simp: in_break_def)

lemma point_state:
  assumes "day_ok d" and "0 \<le> t" "t < 1440"
  shows "evaluate_shift_point (Some d) (hhmm_text t) =
     Inr (if t < minutes_of (sd_start d) \<or> minutes_of (sd_end d) \<le> t then ShiftOff
          else if \<exists>br \<in> set (sd_breaks d). in_break t br then ShiftBreakOverlap else ShiftOnDuty)"
  using assms hhmm_text_ok [OF assms(2,3)]
  by (auto simp: evaluate_shift_point_def day_ok_def point_in_breaks_eq)

text \<open>
  Evaluating an interval agrees with evaluating every minute of it. On a validated day and for
  valid times in order, the interval is off shift exactly when one of its minutes is, otherwise it
  overlaps a break exactly when one of its minutes lies in a break, and otherwise all of it is on duty.
\<close>

theorem evaluate_shift_pointwise:
  assumes "day_ok d" and "hhmm_ok a" and "hhmm_ok z" and "minutes_of a < minutes_of z"
  shows "evaluate_shift (Some d) a z =
     Inr (if ShiftOff \<in> point_states d (minutes_of a) (minutes_of z) then ShiftOff
          else if ShiftBreakOverlap \<in> point_states d (minutes_of a) (minutes_of z) then ShiftBreakOverlap
          else ShiftOnDuty)"
proof -
  let ?a = "minutes_of a" and ?z = "minutes_of z" and ?s = "minutes_of (sd_start d)" and ?e = "minutes_of (sd_end d)"
  have range: "t < 1440" "0 \<le> t" if "?a \<le> t" "t < ?z" for t
    using that minutes_range [OF assms(2)] minutes_range [OF assms(3)] by auto
  have off: "ShiftOff \<in> point_states d ?a ?z \<longleftrightarrow> ?a < ?s \<or> ?e < ?z"
  proof
    assume "ShiftOff \<in> point_states d ?a ?z"
    then show "?a < ?s \<or> ?e < ?z"
      by (auto simp: point_states_def point_state [OF assms(1)] range split: if_splits)
  next
    assume "?a < ?s \<or> ?e < ?z"
    then show "ShiftOff \<in> point_states d ?a ?z"
    proof
      assume "?a < ?s"
      then show ?thesis
        using assms(4) point_state [OF assms(1), of ?a] range [of ?a]
        by (auto simp: point_states_def intro!: exI [of _ ?a])
    next
      assume "?e < ?z"
      then show ?thesis
        using assms(4) point_state [OF assms(1), of "?z - 1"] range [of "?z - 1"]
        by (auto simp: point_states_def intro!: exI [of _ "?z - 1"])
    qed
  qed
  have breaks: "breaks_ok ?s ?e (sd_breaks d)" using assms(1) by (simp add: day_ok_def)
  have brk: "ShiftBreakOverlap \<in> point_states d ?a ?z \<longleftrightarrow>
      (\<exists>br \<in> set (sd_breaks d). ?a < minutes_of (b_end br) \<and> ?z > minutes_of (b_start br))"
    if inside: "\<not> (?a < ?s \<or> ?e < ?z)"
  proof -
    have "ShiftBreakOverlap \<in> point_states d ?a ?z \<longleftrightarrow>
        (\<exists>t. ?a \<le> t \<and> t < ?z \<and> (\<exists>br \<in> set (sd_breaks d). in_break t br))"
    proof
      assume "ShiftBreakOverlap \<in> point_states d ?a ?z"
      then obtain t where t: "?a \<le> t" "t < ?z" "evaluate_shift_point (Some d) (hhmm_text t) = Inr ShiftBreakOverlap"
        by (auto simp: point_states_def)
      with point_state [OF assms(1) range(2,1), OF t(1,2) t(1,2)]
      show "\<exists>t. ?a \<le> t \<and> t < ?z \<and> (\<exists>br \<in> set (sd_breaks d). in_break t br)"
        by (auto split: if_splits)
    next
      assume "\<exists>t. ?a \<le> t \<and> t < ?z \<and> (\<exists>br \<in> set (sd_breaks d). in_break t br)"
      then obtain t where t: "?a \<le> t" "t < ?z" "\<exists>br \<in> set (sd_breaks d). in_break t br" by blast
      with point_state [OF assms(1) range(2,1), OF t(1,2) t(1,2)] inside
      show "ShiftBreakOverlap \<in> point_states d ?a ?z"
        by (auto simp: point_states_def)
    qed
    then show ?thesis
      using interval_meets_break [OF breaks_forward [OF breaks] assms(4)] by blast
  qed
  show ?thesis
    using assms off brk interval_in_breaks_eq [OF breaks]
    by (auto simp: evaluate_shift_def day_ok_def)
qed

text \<open>A Monday from nine to six with a lunch break.\<close>

definition sample_day :: schedule_day where
  "sample_day = \<lparr>sd_ref = ''mon'', sd_day = '''', sd_start = ''09:00'', sd_end = ''18:00'',
     sd_breaks = [\<lparr>b_start = ''13:00'', b_end = ''14:00''\<rparr>]\<rparr>"

lemma normalize_schedule_exact_witness:
  "\<exists>out. normalize_schedule [sample_day\<lparr>sd_ref := ''tue''\<rparr>, sample_day] = Inr out
     \<and> map sd_ref out = [''mon'', ''tue''] \<and> normalize_schedule out = Inr out"
proof -
  obtain out where out: "normalize_schedule [sample_day\<lparr>sd_ref := ''tue''\<rparr>, sample_day] = Inr out"
    and refs: "map sd_ref out = [''mon'', ''tue'']"
    by (simp add: normalize_schedule_def weekday_order_def valid_weekday_ref_def normalize_day_def
        sample_day_def hhmm_ok_def is_digit_def minutes_of_def parse_hhmm_def digit_value_def weekday_index_def Let_def)
  have "normalize_schedule out = Inr out"
    using conjunct2 [OF normalize_schedule_exact [of "[sample_day\<lparr>sd_ref := ''tue''\<rparr>, sample_day]" out]] out
    by simp
  with out refs show ?thesis by (intro exI conjI)
qed

lemma evaluate_shift_pointwise_witness:
  "evaluate_shift (Some sample_day) ''10:00'' ''13:30'' = Inr ShiftBreakOverlap
   \<and> ShiftBreakOverlap \<in> point_states sample_day 600 810"
proof -
  have e: "evaluate_shift (Some sample_day) ''10:00'' ''13:30'' = Inr ShiftBreakOverlap" by code_simp
  have "day_ok sample_day" "hhmm_ok ''10:00''" "hhmm_ok ''13:30''"
    and m: "minutes_of ''10:00'' = 600" "minutes_of ''13:30'' = 810" by code_simp+
  from evaluate_shift_pointwise [OF this(1-3)] e m show ?thesis
    by (auto split: if_splits)
qed

end
