(* ===== verification/Ai_Facts.thy ===== *)
theory Ai_Facts
  imports Unicode_Text
begin

text \<open>
  Exact values: the placeholder syntax, the detection of a literal value inside a text
  (\<open>containsLiteral\<close> of \<open>backend/aiprompt/contract.go\<close>), and the validation of a row's additional facts
  (\<open>backend/aiprompt/facts.go\<close>).
\<close>

section \<open>Placeholders\<close>

text \<open>
  \<open>placeholderPattern\<close>: two opening braces, anything without braces, two closing braces. The match at
  the head of a string is unique, and scanning from left to right gives what \<open>FindAllString\<close> and
  \<open>ReplaceAllStringFunc\<close> see.
\<close>

definition is_brace :: "char \<Rightarrow> bool" where
  "is_brace c \<longleftrightarrow> c = CHR ''{'' \<or> c = CHR ''}''"

definition placeholder_width :: "string \<Rightarrow> nat option" where
  "placeholder_width s =
     (if prefix ''{{'' s then
        let body = takeWhile (\<lambda>c. \<not> is_brace c) (drop 2 s) in
        if prefix ''}}'' (drop (2 + length body) s) then Some (length body + 4) else None
      else None)"

datatype piece = Plain char | Placeholder string

lemma placeholder_width_bounds:
  "placeholder_width s = Some n \<Longrightarrow> 4 \<le> n \<and> n \<le> length s"
proof -
  assume a: "placeholder_width s = Some n"
  let ?b = "takeWhile (\<lambda>c. \<not> is_brace c) (drop 2 s)"
  from a have "n = length ?b + 4" and p: "prefix ''}}'' (drop (2 + length ?b) s)"
    by (auto simp: placeholder_width_def Let_def split: if_splits)
  moreover have "2 \<le> length (drop (2 + length ?b) s)" using prefix_length_le [OF p] by simp
  ultimately show ?thesis by simp
qed

function pieces :: "string \<Rightarrow> piece list" where
  "pieces s =
     (if s = [] then []
      else case placeholder_width s of
        Some n \<Rightarrow> Placeholder (take n s) # pieces (drop n s)
      | None \<Rightarrow> Plain (hd s) # pieces (tl s))"
  by pat_completeness auto
termination
  by (relation "measure length") (auto dest: placeholder_width_bounds)

declare pieces.simps [simp del]

fun placeholders_of :: "piece list \<Rightarrow> string list" where
  "placeholders_of [] = []"
| "placeholders_of (Plain c # ps) = placeholders_of ps"
| "placeholders_of (Placeholder t # ps) = t # placeholders_of ps"

fun spell :: "piece \<Rightarrow> string" where
  "spell (Plain c) = [c]"
| "spell (Placeholder t) = t"

definition find_placeholders :: "string \<Rightarrow> string list" where
  "find_placeholders s = placeholders_of (pieces s)"

text \<open>\<open>placeholderPattern.ReplaceAllString(text, "")\<close>.\<close>

definition without_placeholders :: "string \<Rightarrow> string" where
  "without_placeholders s = concat (map (\<lambda>p. case p of Plain c \<Rightarrow> [c] | Placeholder t \<Rightarrow> []) (pieces s))"

definition has_placeholder :: "string \<Rightarrow> bool" where
  "has_placeholder s \<longleftrightarrow> find_placeholders s \<noteq> []"

lemma spell_pieces: "concat (map spell (pieces s)) = s"
proof (induction s rule: pieces.induct)
  case (1 s)
  show ?case
  proof (cases s)
    case (Cons c r)
    then show ?thesis
      using 1 by (subst pieces.simps) (auto split: option.split)
  qed (simp add: pieces.simps)
qed

section \<open>Literal values inside a text\<close>

definition normalize_literal :: "string \<Rightarrow> string" where
  "normalize_literal s = to_lower (join_str '' '' (fields s))"

text \<open>\<open>strings.Index\<close>; \<open>None\<close> is the source's -1.\<close>

fun index_of :: "string \<Rightarrow> string \<Rightarrow> nat option" where
  "index_of [] n = (if n = [] then Some 0 else None)"
| "index_of (c # s) n = (if prefix n (c # s) then Some 0 else map_option Suc (index_of s n))"

text \<open>\<open>utf8.DecodeLastRuneInString\<close>: the lead byte is looked for among the last four bytes.\<close>

definition rune_start :: "char \<Rightarrow> bool" where
  "rune_start c \<longleftrightarrow> \<not> continues (byte_of c)"

definition decode_last_rune :: "string \<Rightarrow> int" where
  "decode_last_rune s =
     (if s = [] then rune_error
      else if byte_of (last s) < 0x80 then byte_of (last s)
      else
        let n = length s;
            back = takeWhile (\<lambda>c. \<not> rune_start c) (rev (drop (n - min n 4) s));
            start = n - min (min n 4) (length back + 1) in
        if start + snd (decode_rune (drop start s)) = n then fst (decode_rune (drop start s)) else rune_error)"

definition literal_boundaries_ok :: "string \<Rightarrow> string \<Rightarrow> nat \<Rightarrow> nat \<Rightarrow> bool" where
  "literal_boundaries_ok haystack needle start fin \<longleftrightarrow>
     \<not> (is_word_rune (fst (decode_rune needle)) \<and> start > 0
          \<and> is_word_rune (decode_last_rune (take start haystack)))
     \<and> \<not> (is_word_rune (decode_last_rune needle) \<and> fin < length haystack
          \<and> is_word_rune (fst (decode_rune (drop fin haystack))))"

text \<open>The loop of \<open>containsLiteral\<close> from an offset.\<close>

lemma index_of_Some:
  "index_of s n = Some i \<longleftrightarrow> i \<le> length s \<and> prefix n (drop i s) \<and> (\<forall>j < i. \<not> prefix n (drop j s))"
proof (induction s arbitrary: i)
  case (Cons c s)
  show ?case
  proof (cases i)
    case (Suc k)
    have all: "(\<forall>j < Suc k. \<not> prefix n (drop j (c # s))) \<longleftrightarrow>
        \<not> prefix n (c # s) \<and> (\<forall>j < k. \<not> prefix n (drop j s))"
      by (auto simp: less_Suc_eq_0_disj)
    show ?thesis using Cons.IH [of k] by (auto simp: Suc all)
  qed simp
qed auto

lemma index_of_None: "index_of s n = None \<longleftrightarrow> (\<forall>j < Suc (length s). \<not> prefix n (drop j s))"
proof (induction s)
  case (Cons c s)
  then show ?case by (simp add: All_less_Suc2 del: drop_Suc_Cons) simp
qed auto

function literal_from :: "string \<Rightarrow> string \<Rightarrow> nat \<Rightarrow> bool" where
  "literal_from haystack needle offset \<longleftrightarrow>
     (if int offset \<le> int (length haystack) - int (length needle) then
        case index_of (drop offset haystack) needle of
          None \<Rightarrow> False
        | Some relative \<Rightarrow>
            let start = offset + relative; fin = start + length needle in
            if literal_boundaries_ok haystack needle start fin then True
            else literal_from haystack needle (start + 1)
      else False)"
  by pat_completeness auto
termination
  by (relation "measure (\<lambda>(h, n, offset). Suc (length h) - offset)") auto

declare literal_from.simps [simp del]

definition contains_literal :: "string \<Rightarrow> string \<Rightarrow> bool" where
  "contains_literal txt value \<longleftrightarrow>
     (let haystack = normalize_literal txt; needle = normalize_literal value in
      if needle = '''' then False else literal_from haystack needle 0)"

section \<open>Additional facts\<close>

datatype value_kind = KindMoneyDisplay | KindTimeDisplay | KindTextComplete | KindNumber | KindNumberRange
  | KindDeliveryFlag | KindVirtualNumber | KindVirtualBoolean | KindVirtualString

definition is_virtual_kind :: "value_kind \<Rightarrow> bool" where
  "is_virtual_kind k \<longleftrightarrow> k = KindVirtualNumber \<or> k = KindVirtualBoolean \<or> k = KindVirtualString"

text \<open>A \<open>json.Number\<close> is its source text; \<open>FactOther\<close> is a value of any other Go type.\<close>

datatype fact_value = FactNumber string | FactBool bool | FactString string | FactOther

record additional_fact =
  af_ref :: string
  af_value :: fact_value
  af_instruction :: string

definition value_kind_and_text :: "fact_value \<Rightarrow> (string \<times> value_kind) option" where
  "value_kind_and_text v =
     (case v of
        FactNumber n \<Rightarrow> Some (n, KindVirtualNumber)
      | FactBool b \<Rightarrow> Some ('''', KindVirtualBoolean)
      | FactString s \<Rightarrow> Some (trim_space s, KindVirtualString)
      | FactOther \<Rightarrow> None)"

definition max_additional_facts :: nat where "max_additional_facts = 50"
definition max_fact_instruction_len :: nat where "max_fact_instruction_len = 500"
definition max_fact_string_value_len :: nat where "max_fact_string_value_len = 300"
definition max_safe_integer_magnitude :: int where "max_safe_integer_magnitude = 9007199254740991"
definition max_safe_significant_digits :: nat where "max_safe_significant_digits = 15"

definition fact_ref_ok :: "string \<Rightarrow> bool" where
  "fact_ref_ok s \<longleftrightarrow>
     s \<noteq> '''' \<and> length s \<le> 64 \<and> CHR ''a'' \<le> hd s \<and> hd s \<le> CHR ''z''
     \<and> list_all (\<lambda>c. CHR ''a'' \<le> c \<and> c \<le> CHR ''z'' \<or> is_digit c \<or> c = CHR ''_'') s"

text \<open>\<open>strconv.ParseInt(s, 10, 64)\<close>: an optional sign and digits, in the range of an \<open>int64\<close>.\<close>

definition decimal_value :: "string \<Rightarrow> int" where
  "decimal_value s = foldl (\<lambda>n c. n * 10 + (of_char c - 48)) 0 s"

definition parse_int64 :: "string \<Rightarrow> int option" where
  "parse_int64 s =
     (let neg = prefix ''-'' s;
          ds = (if prefix ''-'' s \<or> prefix ''+'' s then tl s else s);
          v = (if neg then - decimal_value ds else decimal_value ds) in
      if ds \<noteq> [] \<and> list_all is_digit ds \<and> - (2 ^ 63) \<le> v \<and> v < 2 ^ 63 then Some v else None)"

definition trim_zeros :: "string \<Rightarrow> string" where
  "trim_zeros s = rev (dropWhile (\<lambda>c. c = CHR ''0'') (rev (dropWhile (\<lambda>c. c = CHR ''0'') s)))"

definition number_is_js_safe :: "string \<Rightarrow> bool" where
  "number_is_js_safe n =
     (let mantissa = takeWhile (\<lambda>c. c \<noteq> CHR ''e'' \<and> c \<noteq> CHR ''E'') n in
      if CHR ''.'' \<notin> set mantissa then
        (case parse_int64 n of
           None \<Rightarrow> False
         | Some i \<Rightarrow> i \<le> max_safe_integer_magnitude \<and> - max_safe_integer_magnitude \<le> i)
      else length (trim_zeros (filter is_digit mantissa)) \<le> max_safe_significant_digits)"

datatype facts_error =
    TooManyFacts nat
  | BadFactRef string
  | ReservedFactRef string
  | DuplicateFactRef string
  | UnsupportedFactValue string
  | EmptyFactString string
  | LongFactString string
  | UnsafeFactNumber string
  | MissingInstruction string
  | LongInstruction string
  | InstructionHasToken string
  | InstructionHasValue string
  | ProseHasValue string

text \<open>The checks of one fact, in the code's order.\<close>

definition validate_fact :: "string list \<Rightarrow> string list \<Rightarrow> additional_fact \<Rightarrow> facts_error + unit" where
  "validate_fact reserved seen f =
     (let ref = af_ref f in
      if \<not> fact_ref_ok ref then Inl (BadFactRef ref)
      else if ref \<in> set reserved then Inl (ReservedFactRef ref)
      else if ref \<in> set seen then Inl (DuplicateFactRef ref)
      else case value_kind_and_text (af_value f) of
        None \<Rightarrow> Inl (UnsupportedFactValue ref)
      | Some (txt, kind) \<Rightarrow>
          if kind = KindVirtualString \<and> txt = '''' then Inl (EmptyFactString ref)
          else if kind = KindVirtualString \<and> rune_count txt > max_fact_string_value_len
          then Inl (LongFactString ref)
          else if kind = KindVirtualNumber \<and> \<not> number_is_js_safe txt then Inl (UnsafeFactNumber ref)
          else
            let instruction = trim_space (af_instruction f) in
            if instruction = '''' then Inl (MissingInstruction ref)
            else if rune_count instruction > max_fact_instruction_len then Inl (LongInstruction ref)
            else if has_placeholder instruction then Inl (InstructionHasToken ref)
            else if (kind = KindVirtualNumber \<or> kind = KindVirtualString) \<and> contains_literal instruction txt
            then Inl (InstructionHasValue ref)
            else Inr ())"

fun validate_each :: "string list \<Rightarrow> string list \<Rightarrow> additional_fact list \<Rightarrow> facts_error + unit" where
  "validate_each reserved seen [] = Inr ()"
| "validate_each reserved seen (f # fs) =
     bindE (validate_fact reserved seen f) (\<lambda>_. validate_each reserved (af_ref f # seen) fs)"

text \<open>
  The last loop. \<open>prose\<close> is a Go map from field names to texts; which field an error names depends on
  the iteration, whether there is an error does not, and the error is named here by the fact alone.
\<close>

fun validate_prose :: "(string \<times> string) list \<Rightarrow> additional_fact list \<Rightarrow> facts_error + unit" where
  "validate_prose prose [] = Inr ()"
| "validate_prose prose (f # fs) =
     (case value_kind_and_text (af_value f) of
        None \<Rightarrow> validate_prose prose fs
      | Some (txt, kind) \<Rightarrow>
          if kind = KindVirtualBoolean then validate_prose prose fs
          else if list_ex (\<lambda>(field, s). s \<noteq> '''' \<and> contains_literal s txt) prose
          then Inl (ProseHasValue (af_ref f))
          else validate_prose prose fs)"

definition validate_facts ::
  "additional_fact list \<Rightarrow> string list \<Rightarrow> (string \<times> string) list \<Rightarrow> facts_error + unit" where
  "validate_facts facts reserved prose =
     (if length facts > max_additional_facts then Inl (TooManyFacts (length facts))
      else bindE (validate_each reserved [] facts) (\<lambda>_. validate_prose prose facts))"

section \<open>Searching is complete\<close>

lemma literal_from_iff:
  assumes "needle \<noteq> []"
  shows "literal_from haystack needle offset \<longleftrightarrow>
    (\<exists>i \<ge> offset. prefix needle (drop i haystack)
        \<and> literal_boundaries_ok haystack needle i (i + length needle))"
  using assms
proof (induction haystack needle offset rule: literal_from.induct)
  case (1 haystack needle offset)
  have fits: "i + length needle \<le> length haystack" if "prefix needle (drop i haystack)" for i
    using prefix_length_le [OF that] 1(2) by (cases "i \<le> length haystack") auto
  show ?case
  proof (cases "int offset \<le> int (length haystack) - int (length needle)")
    case False
    have "\<not> (\<exists>i \<ge> offset. prefix needle (drop i haystack))"
      using fits False by fastforce
    with False show ?thesis by (subst literal_from.simps) auto
  next
    case inside: True
    show ?thesis
    proof (cases "index_of (drop offset haystack) needle")
      case None
      then have none: "\<not> prefix needle (drop (j + offset) haystack)" if "j \<le> length haystack - offset" for j
        using that by (auto simp: index_of_None less_Suc_eq_le)
      have "\<not> prefix needle (drop i haystack)" if "offset \<le> i" for i
        using none [of "i - offset"] fits [of i] that by (cases "i \<le> length haystack") auto
      with inside None show ?thesis by (subst literal_from.simps) auto
    next
      case (Some r)
      then have here: "prefix needle (drop (offset + r) haystack)"
        by (simp add: index_of_Some add.commute)
      from Some have before: "\<not> prefix needle (drop (offset + j) haystack)" if "j < r" for j
        using that by (simp add: index_of_Some add.commute)
      have first: "offset + r \<le> i" if "offset \<le> i" "prefix needle (drop i haystack)" for i
        using before [of "i - offset"] that by (cases "i - offset < r") auto
      show ?thesis
      proof (cases "literal_boundaries_ok haystack needle (offset + r) (offset + r + length needle)")
        case True
        with here have "\<exists>i \<ge> offset. prefix needle (drop i haystack)
            \<and> literal_boundaries_ok haystack needle i (i + length needle)"
          by (intro exI [of _ "offset + r"]) simp
        with inside Some True show ?thesis by (subst literal_from.simps) (simp add: Let_def)
      next
        case False
        then have "literal_from haystack needle offset \<longleftrightarrow> literal_from haystack needle (offset + r + 1)"
          using inside Some by (subst literal_from.simps) (simp add: Let_def)
        also have "\<dots> \<longleftrightarrow> (\<exists>i \<ge> offset + r + 1. prefix needle (drop i haystack)
            \<and> literal_boundaries_ok haystack needle i (i + length needle))"
          using 1(1) [OF inside Some refl refl False 1(2)] by simp
        also have "\<dots> \<longleftrightarrow> (\<exists>i \<ge> offset. prefix needle (drop i haystack)
            \<and> literal_boundaries_ok haystack needle i (i + length needle))"
          using False first by (metis Suc_eq_plus1 Suc_leI add_leE le_neq_implies_less)
        finally show ?thesis .
      qed
    qed
  qed
qed

lemma boundaries_between:
  "literal_boundaries_ok (p @ n @ q) n (length p) (length p + length n) \<longleftrightarrow>
     \<not> (is_word_rune (fst (decode_rune n)) \<and> p \<noteq> [] \<and> is_word_rune (decode_last_rune p))
     \<and> \<not> (is_word_rune (decode_last_rune n) \<and> q \<noteq> [] \<and> is_word_rune (fst (decode_rune q)))"
  by (simp add: literal_boundaries_ok_def)

text \<open>
  The search for a value in a text misses nothing. With both normalized to lower case and single
  spaces, the loop finds a value exactly if the value is not empty and occurs somewhere, as bytes, with
  no letter or number adjacent to a letter or number of its own ends; an occurrence that fails the
  boundary test never hides a later one.
\<close>

theorem contains_literal_complete:
  "contains_literal txt value \<longleftrightarrow>
     normalize_literal value \<noteq> [] \<and>
     (\<exists>p q. normalize_literal txt = p @ normalize_literal value @ q
        \<and> \<not> (is_word_rune (fst (decode_rune (normalize_literal value))) \<and> p \<noteq> []
              \<and> is_word_rune (decode_last_rune p))
        \<and> \<not> (is_word_rune (decode_last_rune (normalize_literal value)) \<and> q \<noteq> []
              \<and> is_word_rune (fst (decode_rune q))))"
proof (cases "normalize_literal value = []")
  case False
  let ?h = "normalize_literal txt" and ?n = "normalize_literal value"
  have "literal_from ?h ?n 0 \<longleftrightarrow>
      (\<exists>i. prefix ?n (drop i ?h) \<and> literal_boundaries_ok ?h ?n i (i + length ?n))"
    by (simp add: literal_from_iff [OF False])
  also have "\<dots> \<longleftrightarrow> (\<exists>p q. ?h = p @ ?n @ q \<and> literal_boundaries_ok ?h ?n (length p) (length p + length ?n))"
  proof (safe)
    fix i
    assume p: "prefix ?n (drop i ?h)" and b: "literal_boundaries_ok ?h ?n i (i + length ?n)"
    from p obtain q where q: "drop i ?h = ?n @ q" by (auto elim: prefixE)
    with False have "i \<le> length ?h" by (cases "i \<le> length ?h") auto
    with q b show "\<exists>p q. ?h = p @ ?n @ q \<and> literal_boundaries_ok ?h ?n (length p) (length p + length ?n)"
      by (intro exI [of _ "take i ?h"] exI [of _ q]) (auto simp flip: q)
  next
    fix p q
    assume "?h = p @ ?n @ q" and "literal_boundaries_ok ?h ?n (length p) (length p + length ?n)"
    then show "\<exists>i. prefix ?n (drop i ?h) \<and> literal_boundaries_ok ?h ?n i (i + length ?n)"
      by (intro exI [of _ "length p"]) auto
  qed
  also have "\<dots> \<longleftrightarrow> (\<exists>p q. ?h = p @ ?n @ q
        \<and> \<not> (is_word_rune (fst (decode_rune ?n)) \<and> p \<noteq> [] \<and> is_word_rune (decode_last_rune p))
        \<and> \<not> (is_word_rune (decode_last_rune ?n) \<and> q \<noteq> [] \<and> is_word_rune (fst (decode_rune q))))"
    by (intro ex_cong1 conj_cong refl) (simp only: boundaries_between)
  finally show ?thesis
    using False by (simp only: contains_literal_def Let_def if_False simp_thms)
qed (simp add: contains_literal_def)

text \<open>
  The check that a numeric fact survives the editor looks at the digits before the exponent only. It
  accepts a decimal beyond the range of a double, which the editor would turn into infinity, and refuses
  a hundred written with an exponent.
\<close>

theorem js_safe_ignores_exponents:
  "number_is_js_safe ''1.5e400'' \<and> (15 :: int) * 10 ^ 399 > 2 ^ 1024 \<and> \<not> number_is_js_safe ''1e2''"
proof (intro conjI)
  show "number_is_js_safe ''1.5e400''" by code_simp
  show "(15 :: int) * 10 ^ 399 > 2 ^ 1024" by simp
  show "\<not> number_is_js_safe ''1e2''" by code_simp
qed

section \<open>Validated facts\<close>

definition fact_ok :: "additional_fact \<Rightarrow> bool" where
  "fact_ok f \<longleftrightarrow> fact_ref_ok (af_ref f) \<and>
     (\<exists>txt kind. value_kind_and_text (af_value f) = Some (txt, kind)
        \<and> (kind = KindVirtualString \<longrightarrow> txt \<noteq> '''' \<and> rune_count txt \<le> max_fact_string_value_len)
        \<and> (kind = KindVirtualNumber \<longrightarrow> number_is_js_safe txt)
        \<and> trim_space (af_instruction f) \<noteq> ''''
        \<and> rune_count (trim_space (af_instruction f)) \<le> max_fact_instruction_len
        \<and> find_placeholders (trim_space (af_instruction f)) = []
        \<and> (kind \<noteq> KindVirtualBoolean \<longrightarrow> \<not> contains_literal (trim_space (af_instruction f)) txt))"

lemma virtual_kinds:
  "value_kind_and_text v = Some (txt, kind) \<Longrightarrow>
     kind = KindVirtualNumber \<or> kind = KindVirtualBoolean \<or> kind = KindVirtualString"
  by (auto simp: value_kind_and_text_def split: fact_value.splits)

lemma validate_fact_iff:
  "validate_fact reserved seen f = Inr () \<longleftrightarrow> fact_ok f \<and> af_ref f \<notin> set reserved \<and> af_ref f \<notin> set seen"
proof (cases "value_kind_and_text (af_value f)")
  case None
  then show ?thesis by (auto simp: validate_fact_def fact_ok_def Let_def)
next
  case (Some p)
  obtain t kind where p: "p = (t, kind)" by (cases p)
  from virtual_kinds [OF Some [unfolded p]] Some p show ?thesis
    by (auto simp: validate_fact_def fact_ok_def Let_def has_placeholder_def)
qed

lemma validate_each_iff:
  "validate_each reserved seen fs = Inr () \<longleftrightarrow>
     list_all fact_ok fs \<and> distinct (map af_ref fs) \<and> set (map af_ref fs) \<inter> (set reserved \<union> set seen) = {}"
proof (induction fs arbitrary: seen)
  case (Cons f fs)
  show ?case
    by (auto simp: result_simps validate_fact_iff Cons.IH)
qed simp

end
