(* ===== verification/Ai_Kb.thy ===== *)
theory Ai_Kb
  imports Ai_Schedule Ai_Facts
begin

text \<open>
  The knowledge base the prompt is built from (\<open>backend/aiprompt/types.go\<close>) and the registry of its
  fact and media columns with their labels and wording (\<open>backend/aiprompt/registry.go\<close>).
\<close>

section \<open>Rows\<close>

record material =
  mt_id :: string
  mt_organization :: string
  mt_source_type :: string
  mt_source_ref :: string
  mt_filename :: string
  mt_mime :: string
  mt_size :: int
  mt_storage_backend :: string
  mt_storage_key :: string
  mt_processing :: string
  mt_visibility :: string

record assistant =
  an_persona :: string
  an_mission :: string
  an_guardrails :: string
  an_language_policy :: string
  an_reply_max_words :: int

record topic =
  tp_slug :: string
  tp_title :: string
  tp_body :: string
  tp_featured_image :: string
  tp_illustrations :: "string list"
  tp_videos :: "string list"
  tp_documents :: "string list"

record product =
  pr_ref :: string
  pr_name :: string
  pr_price :: string
  pr_description :: string
  pr_category :: string
  pr_brand :: string
  pr_advantages :: string
  pr_disadvantages :: string
  pr_best_for :: string
  pr_not_for :: string
  pr_availability :: string
  pr_availability_note :: string
  pr_installation :: string
  pr_warranty :: string
  pr_facts :: "additional_fact list"
  pr_sales_status :: string
  pr_featured_image :: string
  pr_gallery :: "string list"
  pr_videos :: "string list"
  pr_certificates :: "string list"
  pr_guarantees :: "string list"

record tariff =
  tf_ref :: string
  tf_name :: string
  tf_price :: string
  tf_limit_text :: string
  tf_fee :: string
  tf_summary :: string
  tf_pricing_type :: string
  tf_advantages :: string
  tf_disadvantages :: string
  tf_best_for :: string
  tf_not_for :: string
  tf_facts :: "additional_fact list"
  tf_sales_status :: string
  tf_featured_image :: string
  tf_pricing_images :: "string list"
  tf_videos :: "string list"
  tf_terms :: "string list"

record contacts =
  ct_whatsapp :: string
  ct_email :: string
  ct_address :: string
  ct_legal :: string
  ct_callback_time :: string
  ct_working_hours :: string
  ct_phone :: string
  ct_website :: string
  ct_instagram :: string
  ct_card_image :: string
  ct_map_image :: string
  ct_legal_documents :: "string list"
  ct_booking_url :: string
  ct_schedule :: schedule

record policies =
  po_delivery_cost :: string
  po_delivery_in_days :: string
  po_free_delivery_from :: string
  po_min_order :: string
  po_prepayment :: string
  po_installment :: string
  po_return_period :: string
  po_warranty :: string
  po_outside_zones_note :: string
  po_documents :: "string list"

record delivery_zone =
  dz_ref :: string
  dz_name :: string
  dz_level :: string
  dz_parent :: string
  dz_available :: bool
  dz_cost :: string
  dz_days :: string
  dz_notes :: string
  dz_sales_status :: string

record specialist =
  sp_ref :: string
  sp_name :: string
  sp_title :: string
  sp_experience :: string
  sp_schedule :: schedule
  sp_booking_url :: string
  sp_portfolio :: "string list"
  sp_sales_status :: string

record service =
  sv_ref :: string
  sv_parent :: string
  sv_type :: string
  sv_category :: string
  sv_name :: string
  sv_price :: string
  sv_duration :: "int option"
  sv_description :: string
  sv_specialists :: "string list"
  sv_sales_status :: string

text \<open>\<open>TariffInfo\<close> has the one field \<open>AdditionalFacts\<close>.\<close>

record kb =
  kb_organization :: string
  kb_assistant :: "assistant option"
  kb_topics :: "topic list"
  kb_products :: "product list"
  kb_tariffs :: "tariff list"
  kb_contacts :: "contacts option"
  kb_policies :: "policies option"
  kb_tariff_info :: "additional_fact list option"
  kb_zones :: "delivery_zone list"
  kb_specialists :: "specialist list"
  kb_services :: "service list"
  kb_materials :: "material list"

definition material_by_id :: "kb \<Rightarrow> string \<Rightarrow> material option" where
  "material_by_id kb i = find_by mt_id i (kb_materials kb)"

definition is_salon_organization :: "kb \<Rightarrow> bool" where
  "is_salon_organization kb \<longleftrightarrow> length (kb_specialists kb) > 0 \<or> length (kb_services kb) > 0"

section \<open>Registry\<close>

record fact_column =
  fc_column :: string
  fc_label :: string
  fc_kind :: value_kind
  fc_unit :: string
  fc_unit_kk :: string

definition plain_column :: "string \<Rightarrow> string \<Rightarrow> value_kind \<Rightarrow> fact_column" where
  "plain_column c l k = \<lparr>fc_column = c, fc_label = l, fc_kind = k, fc_unit = '''', fc_unit_kk = ''''\<rparr>"

definition unit_column :: "string \<Rightarrow> string \<Rightarrow> value_kind \<Rightarrow> string \<Rightarrow> string \<Rightarrow> fact_column" where
  "unit_column c l k u ukk = \<lparr>fc_column = c, fc_label = l, fc_kind = k, fc_unit = u, fc_unit_kk = ukk\<rparr>"

datatype media_kind = MediaImage | MediaVideo | MediaAudio | MediaDocument

record media_column =
  mc_column :: string
  mc_label :: string
  mc_kind :: media_kind
  mc_singular :: bool

definition media_col :: "string \<Rightarrow> string \<Rightarrow> media_kind \<Rightarrow> bool \<Rightarrow> media_column" where
  "media_col c l k s = \<lparr>mc_column = c, mc_label = l, mc_kind = k, mc_singular = s\<rparr>"

definition schedule_fact_columns :: "string \<Rightarrow> fact_column list" where
  "schedule_fact_columns booking_label =
     [plain_column ''booking'' booking_label KindTextComplete,
      plain_column ''schedule'' (of_runes [0x0433, 0x0440, 0x0430, 0x0444, 0x0438, 0x043A, 0x0020, 0x0440, 0x0430, 0x0431, 0x043E, 0x0442, 0x044B, 0x0020, 0x0028, 0x0432, 0x0441, 0x044F, 0x0020, 0x043D, 0x0435, 0x0434, 0x0435, 0x043B, 0x044F, 0x0029]) KindTextComplete]
     @ map (\<lambda>ref. plain_column (''schedule_'' @ ref) (of_runes [0x0433, 0x0440, 0x0430, 0x0444, 0x0438, 0x043A, 0x0020, 0x0440, 0x0430, 0x0431, 0x043E, 0x0442, 0x044B, 0x0020, 0x2014, 0x0020] @ text_at weekday_names_ru ref)
              KindTextComplete) weekday_order"

definition price_label :: string where "price_label = of_runes [0x0446, 0x0435, 0x043D, 0x0430]"
definition day_unit_ru :: string where "day_unit_ru = of_runes [0x0434, 0x043D, 0x044F]"
definition days_unit_ru :: string where "days_unit_ru = of_runes [0x0434, 0x043D, 0x0435, 0x0439]"
definition day_unit_kk :: string where "day_unit_kk = of_runes [0x043A, 0x04AF, 0x043D]"
definition minutes_unit :: string where "minutes_unit = of_runes [0x043C, 0x0438, 0x043D, 0x0443, 0x0442]"

definition product_columns :: "fact_column list" where
  "product_columns = [plain_column ''price'' price_label KindMoneyDisplay]"

definition tariff_columns :: "fact_column list" where
  "tariff_columns =
     [plain_column ''price'' price_label KindMoneyDisplay,
      plain_column ''fee'' (of_runes [0x043A, 0x043E, 0x043C, 0x0438, 0x0441, 0x0441, 0x0438, 0x044F]) KindMoneyDisplay]"

definition service_columns :: "fact_column list" where
  "service_columns =
     [plain_column ''price'' price_label KindMoneyDisplay,
      unit_column ''duration'' (of_runes [0x043F, 0x0440, 0x043E, 0x0434, 0x043E, 0x043B, 0x0436, 0x0438, 0x0442, 0x0435, 0x043B, 0x044C, 0x043D, 0x043E, 0x0441, 0x0442, 0x044C]) KindNumber minutes_unit minutes_unit]"

definition contact_columns :: "fact_column list" where
  "contact_columns =
     [plain_column ''phone'' (of_runes [0x0442, 0x0435, 0x043B, 0x0435, 0x0444, 0x043E, 0x043D]) KindTextComplete,
      plain_column ''whatsapp'' ''WhatsApp'' KindTextComplete,
      plain_column ''email'' ''email'' KindTextComplete,
      plain_column ''website'' (of_runes [0x0441, 0x0430, 0x0439, 0x0442]) KindTextComplete,
      plain_column ''instagram'' ''Instagram'' KindTextComplete,
      plain_column ''working_hours'' (of_runes [0x0447, 0x0430, 0x0441, 0x044B, 0x0020, 0x0440, 0x0430, 0x0431, 0x043E, 0x0442, 0x044B]) KindTimeDisplay]
     @ schedule_fact_columns (of_runes [0x0441, 0x0441, 0x044B, 0x043B, 0x043A, 0x0430, 0x0020, 0x043D, 0x0430, 0x0020, 0x043E, 0x043D, 0x043B, 0x0430, 0x0439, 0x043D, 0x002D, 0x0437, 0x0430, 0x043F, 0x0438, 0x0441, 0x044C, 0x0020, 0x0028, 0x0441, 0x0430, 0x043B, 0x043E, 0x043D, 0x0029])"

definition specialist_columns :: "fact_column list" where
  "specialist_columns = schedule_fact_columns (of_runes [0x0441, 0x0441, 0x044B, 0x043B, 0x043A, 0x0430, 0x0020, 0x043D, 0x0430, 0x0020, 0x043E, 0x043D, 0x043B, 0x0430, 0x0439, 0x043D, 0x002D, 0x0437, 0x0430, 0x043F, 0x0438, 0x0441, 0x044C, 0x0020, 0x0028, 0x0441, 0x043F, 0x0435, 0x0446, 0x0438, 0x0430, 0x043B, 0x0438, 0x0441, 0x0442, 0x0029])"

definition policy_columns :: "fact_column list" where
  "policy_columns =
     [plain_column ''delivery_cost'' (of_runes [0x0441, 0x0442, 0x043E, 0x0438, 0x043C, 0x043E, 0x0441, 0x0442, 0x044C, 0x0020, 0x0434, 0x043E, 0x0441, 0x0442, 0x0430, 0x0432, 0x043A, 0x0438]) KindMoneyDisplay,
      unit_column ''delivery_in_days'' (of_runes [0x0441, 0x0440, 0x043E, 0x043A, 0x0020, 0x0434, 0x043E, 0x0441, 0x0442, 0x0430, 0x0432, 0x043A, 0x0438, 0x002C, 0x0020, 0x0432, 0x0020, 0x0434, 0x043D, 0x044F, 0x0445]) KindNumberRange day_unit_ru day_unit_kk,
      plain_column ''free_delivery_from'' (of_runes [0x0431, 0x0435, 0x0441, 0x043F, 0x043B, 0x0430, 0x0442, 0x043D, 0x0430, 0x044F, 0x0020, 0x0434, 0x043E, 0x0441, 0x0442, 0x0430, 0x0432, 0x043A, 0x0430, 0x0020, 0x043E, 0x0442]) KindMoneyDisplay,
      plain_column ''min_order'' (of_runes [0x043C, 0x0438, 0x043D, 0x0438, 0x043C, 0x0430, 0x043B, 0x044C, 0x043D, 0x044B, 0x0439, 0x0020, 0x0437, 0x0430, 0x043A, 0x0430, 0x0437]) KindMoneyDisplay,
      unit_column ''return_period_in_days'' (of_runes [0x0441, 0x0440, 0x043E, 0x043A, 0x0020, 0x0432, 0x043E, 0x0437, 0x0432, 0x0440, 0x0430, 0x0442, 0x0430, 0x002C, 0x0020, 0x0432, 0x0020, 0x0434, 0x043D, 0x044F, 0x0445]) KindNumber days_unit_ru day_unit_kk,
      plain_column ''outside_zones_note'' (of_runes [0x0434, 0x043E, 0x0441, 0x0442, 0x0430, 0x0432, 0x043A, 0x0430, 0x0020, 0x0432, 0x043D, 0x0435, 0x0020, 0x0441, 0x043F, 0x0438, 0x0441, 0x043A, 0x0430, 0x0020, 0x0437, 0x043E, 0x043D]) KindTextComplete]"

definition delivery_columns :: "fact_column list" where
  "delivery_columns =
     [plain_column ''delivery_cost'' (of_runes [0x0441, 0x0442, 0x043E, 0x0438, 0x043C, 0x043E, 0x0441, 0x0442, 0x044C, 0x0020, 0x0434, 0x043E, 0x0441, 0x0442, 0x0430, 0x0432, 0x043A, 0x0438]) KindMoneyDisplay,
      unit_column ''delivery_in_days'' (of_runes [0x0441, 0x0440, 0x043E, 0x043A, 0x0020, 0x0434, 0x043E, 0x0441, 0x0442, 0x0430, 0x0432, 0x043A, 0x0438, 0x002C, 0x0020, 0x0432, 0x0020, 0x0434, 0x043D, 0x044F, 0x0445]) KindNumberRange day_unit_ru day_unit_kk,
      plain_column ''delivery_available'' (of_runes [0x0434, 0x043E, 0x0441, 0x0442, 0x0443, 0x043F, 0x043D, 0x043E, 0x0441, 0x0442, 0x044C, 0x0020, 0x0434, 0x043E, 0x0441, 0x0442, 0x0430, 0x0432, 0x043A, 0x0438]) KindDeliveryFlag]"

definition fact_columns :: "(string \<times> fact_column list) list" where
  "fact_columns =
     [(''product'', product_columns), (''tariff'', tariff_columns), (''service'', service_columns),
      (''contact'', contact_columns), (''specialist'', specialist_columns),
      (''policy'', policy_columns), (''delivery'', delivery_columns)]"

definition media_columns :: "(string \<times> media_column list) list" where
  "media_columns =
     [(''topics'',
        [media_col ''featured_image'' (of_runes [0x0433, 0x043B, 0x0430, 0x0432, 0x043D, 0x043E, 0x0435, 0x0020, 0x0438, 0x0437, 0x043E, 0x0431, 0x0440, 0x0430, 0x0436, 0x0435, 0x043D, 0x0438, 0x0435, 0x0020, 0x0442, 0x0435, 0x043C, 0x044B]) MediaImage True,
         media_col ''illustration_images'' (of_runes [0x0438, 0x043B, 0x043B, 0x044E, 0x0441, 0x0442, 0x0440, 0x0430, 0x0446, 0x0438, 0x0438]) MediaImage False,
         media_col ''explainer_videos'' (of_runes [0x0432, 0x0438, 0x0434, 0x0435, 0x043E, 0x002D, 0x043E, 0x0431, 0x044A, 0x044F, 0x0441, 0x043D, 0x0435, 0x043D, 0x0438, 0x044F]) MediaVideo False,
         media_col ''reference_documents'' (of_runes [0x0441, 0x043F, 0x0440, 0x0430, 0x0432, 0x043E, 0x0447, 0x043D, 0x044B, 0x0435, 0x0020, 0x0434, 0x043E, 0x043A, 0x0443, 0x043C, 0x0435, 0x043D, 0x0442, 0x044B]) MediaDocument False]),
      (''products'',
        [media_col ''featured_image'' (of_runes [0x0433, 0x043B, 0x0430, 0x0432, 0x043D, 0x043E, 0x0435, 0x0020, 0x0444, 0x043E, 0x0442, 0x043E, 0x0020, 0x0442, 0x043E, 0x0432, 0x0430, 0x0440, 0x0430]) MediaImage True,
         media_col ''gallery_images'' (of_runes [0x0444, 0x043E, 0x0442, 0x043E, 0x0020, 0x0442, 0x043E, 0x0432, 0x0430, 0x0440, 0x0430, 0x0020, 0x0028, 0x0433, 0x0430, 0x043B, 0x0435, 0x0440, 0x0435, 0x044F, 0x0029]) MediaImage False,
         media_col ''demo_videos'' (of_runes [0x0432, 0x0438, 0x0434, 0x0435, 0x043E, 0x002D, 0x0434, 0x0435, 0x043C, 0x043E, 0x043D, 0x0441, 0x0442, 0x0440, 0x0430, 0x0446, 0x0438, 0x0438]) MediaVideo False,
         media_col ''certificate_documents'' (of_runes [0x0441, 0x0435, 0x0440, 0x0442, 0x0438, 0x0444, 0x0438, 0x043A, 0x0430, 0x0442, 0x044B]) MediaDocument False,
         media_col ''guarantee_documents'' (of_runes [0x0433, 0x0430, 0x0440, 0x0430, 0x043D, 0x0442, 0x0438, 0x0439, 0x043D, 0x044B, 0x0435, 0x0020, 0x0434, 0x043E, 0x043A, 0x0443, 0x043C, 0x0435, 0x043D, 0x0442, 0x044B]) MediaDocument False]),
      (''tariffs'',
        [media_col ''featured_image'' (of_runes [0x0433, 0x043B, 0x0430, 0x0432, 0x043D, 0x043E, 0x0435, 0x0020, 0x0438, 0x0437, 0x043E, 0x0431, 0x0440, 0x0430, 0x0436, 0x0435, 0x043D, 0x0438, 0x0435, 0x0020, 0x0442, 0x0430, 0x0440, 0x0438, 0x0444, 0x0430]) MediaImage True,
         media_col ''pricing_images'' (of_runes [0x043F, 0x0440, 0x0430, 0x0439, 0x0441, 0x002D, 0x043A, 0x0430, 0x0440, 0x0442, 0x043E, 0x0447, 0x043A, 0x0438]) MediaImage False,
         media_col ''explainer_videos'' (of_runes [0x0432, 0x0438, 0x0434, 0x0435, 0x043E, 0x002D, 0x043E, 0x0431, 0x044A, 0x044F, 0x0441, 0x043D, 0x0435, 0x043D, 0x0438, 0x044F]) MediaVideo False,
         media_col ''terms_documents'' (of_runes [0x0443, 0x0441, 0x043B, 0x043E, 0x0432, 0x0438, 0x044F, 0x0020, 0x0442, 0x0430, 0x0440, 0x0438, 0x0444, 0x0430]) MediaDocument False]),
      (''contacts'',
        [media_col ''contact_card_image'' (of_runes [0x0432, 0x0438, 0x0437, 0x0438, 0x0442, 0x043A, 0x0430]) MediaImage True,
         media_col ''location_map_image'' (of_runes [0x043A, 0x0430, 0x0440, 0x0442, 0x0430, 0x0020, 0x043F, 0x0440, 0x043E, 0x0435, 0x0437, 0x0434, 0x0430]) MediaImage True,
         media_col ''company_legal_documents'' (of_runes [0x044E, 0x0440, 0x0438, 0x0434, 0x0438, 0x0447, 0x0435, 0x0441, 0x043A, 0x0438, 0x0435, 0x0020, 0x0434, 0x043E, 0x043A, 0x0443, 0x043C, 0x0435, 0x043D, 0x0442, 0x044B]) MediaDocument False]),
      (''policies'',
        [media_col ''commerce_policy_documents'' (of_runes [0x0434, 0x043E, 0x043A, 0x0443, 0x043C, 0x0435, 0x043D, 0x0442, 0x044B, 0x0020, 0x043E, 0x0431, 0x0020, 0x0443, 0x0441, 0x043B, 0x043E, 0x0432, 0x0438, 0x044F, 0x0445]) MediaDocument False]),
      (''specialists'',
        [media_col ''portfolio'' (of_runes [0x043F, 0x043E, 0x0440, 0x0442, 0x0444, 0x043E, 0x043B, 0x0438, 0x043E, 0x0020, 0x0440, 0x0430, 0x0431, 0x043E, 0x0442]) MediaImage False])]"

definition singleton_ref :: string where "singleton_ref = ''main''"

text \<open>\<open>None\<close> is the error of an unknown table or column.\<close>

definition fact_column_spec :: "string \<Rightarrow> string \<Rightarrow> fact_column option" where
  "fact_column_spec table column =
     (case map_of fact_columns table of None \<Rightarrow> None | Some cols \<Rightarrow> find_by fc_column column cols)"

definition media_column_spec :: "string \<Rightarrow> string \<Rightarrow> media_column option" where
  "media_column_spec table column =
     (case map_of media_columns table of None \<Rightarrow> None | Some cols \<Rightarrow> find_by mc_column column cols)"

section \<open>Wording\<close>

text \<open>Yes and no, delivered and not delivered, in Russian and Kazakh.\<close>

definition fact_bool_wording :: "string \<Rightarrow> bool \<Rightarrow> string" where
  "fact_bool_wording lang b =
     (if lang = ''kk'' then (if b then of_runes [0x0438, 0x04D9] else of_runes [0x0436, 0x043E, 0x049B]) else (if b then of_runes [0x0434, 0x0430] else of_runes [0x043D, 0x0435, 0x0442]))"

definition delivery_wording :: "string \<Rightarrow> bool \<Rightarrow> string" where
  "delivery_wording lang b =
     (if lang = ''kk'' then (if b then of_runes [0x0436, 0x0435, 0x0442, 0x043A, 0x0456, 0x0437, 0x0435, 0x043C, 0x0456, 0x0437] else of_runes [0x0436, 0x0435, 0x0442, 0x043A, 0x0456, 0x0437, 0x0431, 0x0435, 0x0439, 0x043C, 0x0456, 0x0437])
      else (if b then of_runes [0x0434, 0x043E, 0x0441, 0x0442, 0x0430, 0x0432, 0x043B, 0x044F, 0x0435, 0x043C] else of_runes [0x043D, 0x0435, 0x0020, 0x0434, 0x043E, 0x0441, 0x0442, 0x0430, 0x0432, 0x043B, 0x044F, 0x0435, 0x043C]))"

definition right_quote :: string where "right_quote = of_runes [0x00BB]"

definition delivery_usage_guidance :: string where
  "delivery_usage_guidance =
     (let yes = delivery_wording ''ru'' True; no = delivery_wording ''ru'' False in
      of_runes [0x043A, 0x043E, 0x0434, 0x0020, 0x0437, 0x0430, 0x043C, 0x0435, 0x043D, 0x0438, 0x0442, 0x0020, 0x0442, 0x043E, 0x043A, 0x0435, 0x043D, 0x0020, 0x043D, 0x0430, 0x0020, 0x0433, 0x043E, 0x0442, 0x043E, 0x0432, 0x0443, 0x044E, 0x0020, 0x0444, 0x0440, 0x0430, 0x0437, 0x0443, 0x0020, 0x00AB] @ yes @ (of_runes [0x00BB, 0x0020, 0x0438, 0x043B, 0x0438, 0x0020, 0x00AB]) @ no @
      (of_runes [0x00BB, 0x0020, 0x0028, 0x0432, 0x0020, 0x043A, 0x0430, 0x0437, 0x0430, 0x0445, 0x0441, 0x043A, 0x043E, 0x043C, 0x0020, 0x043E, 0x0442, 0x0432, 0x0435, 0x0442, 0x0435, 0x0020, 0x2014, 0x0020, 0x043A, 0x0430, 0x0437, 0x0430, 0x0445, 0x0441, 0x043A, 0x0438, 0x0439, 0x0020, 0x044D, 0x043A, 0x0432, 0x0438, 0x0432, 0x0430, 0x043B, 0x0435, 0x043D, 0x0442, 0x0029, 0x003B, 0x0020, 0x043D, 0x0430, 0x0437, 0x044B, 0x0432, 0x0430, 0x044F, 0x0020, 0x0434, 0x043E, 0x0441, 0x0442, 0x0443, 0x043F, 0x043D, 0x043E, 0x0441, 0x0442, 0x044C, 0x002C, 0x0020, 0x0432, 0x0441, 0x0442, 0x0430, 0x0432, 0x043B, 0x044F, 0x0439, 0x0020, 0x0441, 0x0430, 0x043C, 0x0020, 0x0442, 0x043E, 0x043A, 0x0435, 0x043D, 0x0020, 0x2014, 0x0020]) @
      (of_runes [0x043D, 0x0438, 0x043A, 0x043E, 0x0433, 0x0434, 0x0430, 0x0020, 0x043D, 0x0435, 0x0020, 0x043F, 0x0438, 0x0448, 0x0438, 0x0020, 0x00AB]) @ yes @ (of_runes [0x00BB, 0x002F, 0x00AB]) @ no @ (of_runes [0x00BB, 0x0020, 0x043E, 0x0442, 0x0020, 0x0441, 0x0435, 0x0431, 0x044F, 0x002C, 0x0020, 0x0434, 0x0430, 0x0436, 0x0435, 0x0020, 0x043F, 0x0435, 0x0440, 0x0435, 0x0441, 0x043A, 0x0430, 0x0437, 0x044B, 0x0432, 0x0430, 0x044F, 0x0020, 0x0441, 0x0432, 0x043E, 0x0438, 0x043C, 0x0438, 0x0020, 0x0441, 0x043B, 0x043E, 0x0432, 0x0430, 0x043C, 0x0438]))"

definition usage_note :: "fact_column \<Rightarrow> string" where
  "usage_note f =
     (case fc_kind f of
        KindMoneyDisplay \<Rightarrow> of_runes [0x0437, 0x043D, 0x0430, 0x0447, 0x0435, 0x043D, 0x0438, 0x0435, 0x0020, 0x0443, 0x0436, 0x0435, 0x0020, 0x0441, 0x043E, 0x0434, 0x0435, 0x0440, 0x0436, 0x0438, 0x0442, 0x0020, 0x0432, 0x0430, 0x043B, 0x044E, 0x0442, 0x0443, 0x003B, 0x0020, 0x043D, 0x0435, 0x0020, 0x0434, 0x043E, 0x0431, 0x0430, 0x0432, 0x043B, 0x044F, 0x0439, 0x0020, 0x20B8, 0x002F, 0x0442, 0x0435, 0x043D, 0x0433, 0x0435, 0x0020, 0x0435, 0x0449, 0x0451, 0x0020, 0x0440, 0x0430, 0x0437]
      | KindTimeDisplay \<Rightarrow> of_runes [0x0437, 0x043D, 0x0430, 0x0447, 0x0435, 0x043D, 0x0438, 0x0435, 0x0020, 0x0443, 0x0436, 0x0435, 0x0020, 0x0441, 0x043E, 0x0434, 0x0435, 0x0440, 0x0436, 0x0438, 0x0442, 0x0020, 0x043F, 0x043E, 0x043B, 0x043D, 0x043E, 0x0435, 0x0020, 0x0432, 0x0440, 0x0435, 0x043C, 0x044F, 0x003B, 0x0020, 0x043D, 0x0435, 0x0020, 0x0434, 0x043E, 0x0431, 0x0430, 0x0432, 0x043B, 0x044F, 0x0439, 0x0020, 0x043B, 0x0438, 0x0448, 0x043D, 0x0438, 0x0445, 0x0020, 0x0441, 0x043B, 0x043E, 0x0432, 0x0020, 0x043E, 0x0020, 0x0432, 0x0440, 0x0435, 0x043C, 0x0435, 0x043D, 0x0438]
      | KindTextComplete \<Rightarrow> of_runes [0x0437, 0x043D, 0x0430, 0x0447, 0x0435, 0x043D, 0x0438, 0x0435, 0x0020, 0x043F, 0x043E, 0x043B, 0x043D, 0x043E, 0x0435, 0x003B, 0x0020, 0x0432, 0x0441, 0x0442, 0x0430, 0x0432, 0x043B, 0x044F, 0x0439, 0x0020, 0x0442, 0x043E, 0x043A, 0x0435, 0x043D, 0x0020, 0x043A, 0x0430, 0x043A, 0x0020, 0x0435, 0x0441, 0x0442, 0x044C]
      | KindDeliveryFlag \<Rightarrow>
          of_runes [0x0444, 0x043B, 0x0430, 0x0433, 0x0020, 0x0434, 0x043E, 0x0441, 0x0442, 0x0443, 0x043F, 0x043D, 0x043E, 0x0441, 0x0442, 0x0438, 0x0020, 0x0434, 0x043E, 0x0441, 0x0442, 0x0430, 0x0432, 0x043A, 0x0438, 0x0020, 0x0432, 0x0020, 0x044D, 0x0442, 0x043E, 0x0020, 0x043D, 0x0430, 0x043F, 0x0440, 0x0430, 0x0432, 0x043B, 0x0435, 0x043D, 0x0438, 0x0435, 0x003B, 0x0020] @ delivery_usage_guidance @
          (of_runes [0x002E, 0x0020, 0x041D, 0x0430, 0x043F, 0x0440, 0x0430, 0x0432, 0x043B, 0x0435, 0x043D, 0x0438, 0x0435, 0x0020, 0x0431, 0x0435, 0x0437, 0x0020, 0x0442, 0x0430, 0x043A, 0x043E, 0x0433, 0x043E, 0x0020, 0x0442, 0x043E, 0x043A, 0x0435, 0x043D, 0x0430, 0x0020, 0x0438, 0x0020, 0x0431, 0x0435, 0x0437, 0x0020, 0x0442, 0x043E, 0x043A, 0x0435, 0x043D, 0x0430, 0x0020, 0x043D, 0x0443, 0x0436, 0x043D, 0x043E, 0x0439, 0x0020, 0x0437, 0x043E, 0x043D, 0x044B, 0x0020, 0x2014, 0x0020, 0x043D, 0x0435, 0x0020, 0x00AB, 0x043D, 0x0435, 0x0442, 0x00BB, 0x002C, 0x0020, 0x0430, 0x0020, 0x00AB, 0x043D, 0x0435, 0x0438, 0x0437, 0x0432, 0x0435, 0x0441, 0x0442, 0x043D, 0x043E, 0x00BB, 0x003A, 0x0020, 0x0438, 0x0441, 0x043F, 0x043E, 0x043B, 0x044C, 0x0437, 0x0443, 0x0439, 0x0020, 0x007B, 0x007B, 0x0070, 0x006F, 0x006C, 0x0069, 0x0063, 0x0079, 0x002E, 0x006D, 0x0061, 0x0069, 0x006E, 0x002E, 0x006F, 0x0075, 0x0074, 0x0073, 0x0069, 0x0064, 0x0065, 0x005F, 0x007A, 0x006F, 0x006E, 0x0065, 0x0073, 0x005F, 0x006E, 0x006F, 0x0074, 0x0065, 0x007D, 0x007D, 0x002C, 0x0020, 0x0435, 0x0441, 0x043B, 0x0438, 0x0020, 0x043E, 0x043D, 0x0020, 0x0435, 0x0441, 0x0442, 0x044C, 0x002C, 0x0020, 0x0438, 0x043D, 0x0430, 0x0447, 0x0435, 0x0020, 0x044D, 0x0441, 0x043A, 0x0430, 0x043B, 0x0438, 0x0440, 0x0443, 0x0439])
      | KindVirtualNumber \<Rightarrow> ''''
      | KindVirtualBoolean \<Rightarrow> ''''
      | KindVirtualString \<Rightarrow> ''''
      | _ \<Rightarrow>
          if fc_unit f = '''' then of_runes [0x0442, 0x043E, 0x043B, 0x044C, 0x043A, 0x043E, 0x0020, 0x0447, 0x0438, 0x0441, 0x043B, 0x043E]
          else if fc_unit_kk f \<noteq> '''' then
            of_runes [0x0442, 0x043E, 0x043B, 0x044C, 0x043A, 0x043E, 0x0020, 0x0447, 0x0438, 0x0441, 0x043B, 0x043E, 0x003B, 0x0020, 0x0432, 0x0020, 0x0440, 0x0443, 0x0441, 0x0441, 0x043A, 0x043E, 0x043C, 0x0020, 0x043E, 0x0442, 0x0432, 0x0435, 0x0442, 0x0435, 0x0020, 0x0434, 0x043E, 0x0431, 0x0430, 0x0432, 0x044C, 0x0020, 0x0441, 0x043B, 0x043E, 0x0432, 0x043E, 0x0020, 0x00AB] @ fc_unit f @
            (of_runes [0x00BB, 0x0020, 0x043F, 0x043E, 0x0441, 0x043B, 0x0435, 0x0020, 0x0442, 0x043E, 0x043A, 0x0435, 0x043D, 0x0430, 0x002C, 0x0020, 0x0432, 0x0020, 0x043A, 0x0430, 0x0437, 0x0430, 0x0445, 0x0441, 0x043A, 0x043E, 0x043C, 0x0020, 0x2014, 0x0020, 0x00AB]) @ fc_unit_kk f @ right_quote
          else of_runes [0x0442, 0x043E, 0x043B, 0x044C, 0x043A, 0x043E, 0x0020, 0x0447, 0x0438, 0x0441, 0x043B, 0x043E, 0x003B, 0x0020, 0x0434, 0x043E, 0x0431, 0x0430, 0x0432, 0x044C, 0x0020, 0x0441, 0x043B, 0x043E, 0x0432, 0x043E, 0x0020, 0x00AB] @ fc_unit f @ (of_runes [0x00BB, 0x0020, 0x043F, 0x043E, 0x0441, 0x043B, 0x0435, 0x0020, 0x0442, 0x043E, 0x043A, 0x0435, 0x043D, 0x0430]))"

end
