(* ===== verification/Ai_Catalog.thy ===== *)
theory Ai_Catalog
  imports Ai_Kb
begin

text \<open>
  The catalog of one request, \<open>backend/aiprompt/catalog.go\<close>: which exact values and which media the
  model may name, by token, and what is known to be absent. The builders append to the catalog in the
  code; here each returns what it appends. A token is \<open>{{table.ref.column}}\<close> for a fact and
  \<open>table.ref.column\<close> for media.
\<close>

section \<open>Entries\<close>

record fact_entry =
  f_token :: string
  f_table :: string
  f_ref :: string
  f_column :: string
  f_label :: string
  f_kind :: value_kind
  f_reasoning :: string
  f_usage :: string

record media_entry =
  m_token :: string
  m_table :: string
  m_ref :: string
  m_column :: string
  m_label :: string
  m_kind :: media_kind
  m_count :: nat

record absent_entry =
  ab_table :: string
  ab_ref :: string
  ab_display :: string

record catalog =
  cat_facts :: "fact_entry list"
  cat_media :: "media_entry list"
  cat_absent :: "absent_entry list"

datatype material_error = NoSuchMaterial | OtherOrganization | NotAFile | NoStorageLocator | ZeroSize
  | NotSendable | WrongMime

datatype catalog_error =
    BadAvailability string string
  | BadRef string
  | BadFacts string string facts_error
  | BadSchedule string schedule_error
  | DuplicateZone string
  | BadZoneLevel string string
  | ZoneTermsMissing string
  | ZoneTermsExtra string
  | ZoneCycle string
  | ZoneParentUnknown string string
  | ZoneLoop string
  | PoliciesRequired
  | PolicyTermsExtra
  | OutsideNoteRequired
  | DuplicateService string
  | BadServiceType string string
  | BaseHasParent string
  | ParentRequired string
  | ServiceParentUnknown string string
  | ParentNotBase string string
  | ParentInactive string string
  | SingularMedia string nat
  | BadMaterial string string material_error

text \<open>A loop that appends what each row contributes and stops at the first error.\<close>

fun collectE :: "('a \<Rightarrow> 'e + 'b list) \<Rightarrow> 'a list \<Rightarrow> 'e + 'b list" where
  "collectE f [] = Inr []"
| "collectE f (x # xs) = bindE (f x) (\<lambda>ys. bindE (collectE f xs) (\<lambda>zs. Inr (ys @ zs)))"

lemma collectE_Inr:
  "collectE f xs = Inr ys \<Longrightarrow> y \<in> set ys \<Longrightarrow> \<exists>x \<in> set xs. \<exists>zs. f x = Inr zs \<and> y \<in> set zs"
  by (induction xs arbitrary: ys) (auto simp: result_simps)

lemma collectE_each: "collectE f xs = Inr ys \<Longrightarrow> x \<in> set xs \<Longrightarrow> \<exists>zs. f x = Inr zs \<and> set zs \<subseteq> set ys"
  by (induction xs arbitrary: ys) (auto simp: result_simps, fastforce+)

section \<open>Fact tokens\<close>

definition active :: "string \<Rightarrow> bool" where
  "active sales_status \<longleftrightarrow> sales_status = ''active''"

definition valid_availability_statuses :: "string list" where
  "valid_availability_statuses = [''in_stock'', ''preorder'', ''on_demand'', ''unavailable'']"

definition product_visible :: "product \<Rightarrow> bool" where
  "product_visible p \<longleftrightarrow>
     active (pr_sales_status p) \<and> pr_availability p \<in> set [''in_stock'', ''preorder'', ''on_demand'']"

definition product_concrete_columns :: "string list" where "product_concrete_columns = [''price'']"
definition tariff_concrete_columns :: "string list" where "tariff_concrete_columns = [''price'', ''fee'']"

definition product_prose :: "product \<Rightarrow> (string \<times> string) list" where
  "product_prose p =
     [(''description'', pr_description p), (''advantages'', pr_advantages p),
      (''disadvantages'', pr_disadvantages p), (''best_for'', pr_best_for p), (''not_for'', pr_not_for p),
      (''availability_note'', pr_availability_note p), (''installation_terms'', pr_installation p),
      (''warranty_terms'', pr_warranty p)]"

definition tariff_prose :: "tariff \<Rightarrow> (string \<times> string) list" where
  "tariff_prose t =
     [(''summary'', tf_summary t), (''limit_text'', tf_limit_text t), (''advantages'', tf_advantages t),
      (''disadvantages'', tf_disadvantages t), (''best_for'', tf_best_for t), (''not_for'', tf_not_for t)]"

definition fact_token :: "string \<Rightarrow> string \<Rightarrow> string \<Rightarrow> string" where
  "fact_token table ref column = ''{{'' @ table @ ''.'' @ ref @ ''.'' @ column @ ''}}''"

definition virtual_entry :: "string \<Rightarrow> string \<Rightarrow> additional_fact \<Rightarrow> fact_entry list" where
  "virtual_entry table ref f =
     (case value_kind_and_text (af_value f) of
        None \<Rightarrow> []
      | Some (txt, kind) \<Rightarrow>
          if kind = KindVirtualString \<and> trim_space txt = '''' then []
          else [\<lparr>f_token = fact_token table ref (af_ref f), f_table = table, f_ref = ref,
                 f_column = af_ref f, f_label = af_ref f, f_kind = kind, f_reasoning = '''',
                 f_usage = af_instruction f\<rparr>])"

definition virtual_facts ::
  "string \<Rightarrow> string \<Rightarrow> additional_fact list \<Rightarrow> string list \<Rightarrow> (string \<times> string) list
     \<Rightarrow> catalog_error + fact_entry list" where
  "virtual_facts table ref facts reserved prose =
     (if length facts = 0 then Inr []
      else case validate_facts facts reserved prose of
        Inl e \<Rightarrow> Inl (BadFacts table ref e)
      | Inr u \<Rightarrow> Inr (concat (map (virtual_entry table ref) facts)))"

text \<open>\<open>refPattern\<close>; \<open>$\<close> is the end of the string.\<close>

definition ref_ok :: "string \<Rightarrow> bool" where
  "ref_ok s \<longleftrightarrow>
     s \<noteq> '''' \<and> (CHR ''a'' \<le> hd s \<and> hd s \<le> CHR ''z'' \<or> is_digit (hd s))
     \<and> list_all (\<lambda>c. CHR ''a'' \<le> c \<and> c \<le> CHR ''z'' \<or> is_digit c \<or> c = CHR ''_'' \<or> c = CHR ''-'') (tl s)"

definition valid_ref :: "string \<Rightarrow> catalog_error + unit" where
  "valid_ref ref = (if \<not> ref_ok ref \<or> CHR ''.'' \<in> set ref then Inl (BadRef ref) else Inr ())"

definition add_fact :: "string \<Rightarrow> string \<Rightarrow> fact_column \<Rightarrow> string \<Rightarrow> fact_entry list" where
  "add_fact table ref col value =
     (if trim_space value = '''' then []
      else [\<lparr>f_token = fact_token table ref (fc_column col), f_table = table, f_ref = ref,
             f_column = fc_column col, f_label = fc_label col, f_kind = fc_kind col, f_reasoning = '''',
             f_usage = usage_note col\<rparr>])"

definition add_delivery_flag_fact :: "string \<Rightarrow> fact_column \<Rightarrow> bool \<Rightarrow> fact_entry list" where
  "add_delivery_flag_fact ref col available =
     [\<lparr>f_token = fact_token ''delivery'' ref (fc_column col), f_table = ''delivery'', f_ref = ref,
       f_column = fc_column col, f_label = fc_label col, f_kind = fc_kind col,
       f_reasoning = (if available then ''delivers'' else ''no_delivery''), f_usage = usage_note col\<rparr>]"

definition product_facts :: "product \<Rightarrow> catalog_error + fact_entry list" where
  "product_facts p =
     (if pr_availability p \<notin> set valid_availability_statuses
      then Inl (BadAvailability (pr_ref p) (pr_availability p))
      else if \<not> product_visible p then Inr []
      else bindE (valid_ref (pr_ref p)) (\<lambda>_.
           bindE (virtual_facts ''product'' (pr_ref p) (pr_facts p) product_concrete_columns (product_prose p))
             (\<lambda>vs. Inr (concat (map (\<lambda>col.
                if fc_column col = ''price'' then add_fact ''product'' (pr_ref p) col (pr_price p) else [])
                product_columns) @ vs))))"

definition tariff_facts :: "tariff \<Rightarrow> catalog_error + fact_entry list" where
  "tariff_facts t =
     (if \<not> active (tf_sales_status t) then Inr []
      else bindE (valid_ref (tf_ref t)) (\<lambda>_.
           bindE (virtual_facts ''tariff'' (tf_ref t) (tf_facts t) tariff_concrete_columns (tariff_prose t))
             (\<lambda>vs. Inr (concat (map (\<lambda>col.
                if fc_column col = ''price'' then add_fact ''tariff'' (tf_ref t) col (tf_price t)
                else if fc_column col = ''fee'' then add_fact ''tariff'' (tf_ref t) col (tf_fee t) else [])
                tariff_columns) @ vs))))"

section \<open>Schedules, contacts and policies\<close>

text \<open>\<open>None\<close>: the column is none of the schedule columns.\<close>

definition schedule_fact_value ::
  "string \<Rightarrow> string \<Rightarrow> schedule \<Rightarrow> string \<Rightarrow> string option" where
  "schedule_fact_value column booking_url s lang =
     (if column = ''booking'' then Some booking_url
      else if column = ''schedule'' then Some (schedule_full_text s lang)
      else if prefix ''schedule_'' column then
        (case day_by_ref s (drop (length ''schedule_'') column) of
           Some d \<Rightarrow> Some (schedule_day_text d lang)
         | None \<Rightarrow> Some '''')
      else None)"

definition resolved_booking_url :: "string \<Rightarrow> string \<Rightarrow> string" where
  "resolved_booking_url specialist_url salon_url =
     (if trim_space specialist_url \<noteq> '''' then specialist_url else salon_url)"

definition contact_booking_url :: "kb \<Rightarrow> string" where
  "contact_booking_url kb = (case kb_contacts kb of None \<Rightarrow> '''' | Some c \<Rightarrow> ct_booking_url c)"

definition contact_values :: "contacts \<Rightarrow> (string \<times> string) list" where
  "contact_values c =
     [(''phone'', ct_phone c), (''whatsapp'', ct_whatsapp c), (''email'', ct_email c),
      (''website'', ct_website c), (''instagram'', ct_instagram c), (''working_hours'', ct_working_hours c)]"

definition contact_facts :: "kb \<Rightarrow> catalog_error + fact_entry list" where
  "contact_facts kb =
     (case kb_contacts kb of
        None \<Rightarrow> Inr []
      | Some c \<Rightarrow>
          (case normalize_schedule (ct_schedule c) of
             Inl e \<Rightarrow> Inl (BadSchedule ''contact'' e)
           | Inr sch \<Rightarrow>
               let vals = (if is_salon_organization kb \<and> length sch > 0
                           then (''working_hours'', '''') # contact_values c else contact_values c) in
               Inr (concat (map (\<lambda>col.
                 case schedule_fact_value (fc_column col) (ct_booking_url c) sch ''ru'' of
                   Some v \<Rightarrow> add_fact ''contact'' singleton_ref col v
                 | None \<Rightarrow> add_fact ''contact'' singleton_ref col (text_at vals (fc_column col)))
                 contact_columns))))"

definition policy_values :: "policies \<Rightarrow> (string \<times> string) list" where
  "policy_values p =
     [(''delivery_cost'', po_delivery_cost p), (''delivery_in_days'', po_delivery_in_days p),
      (''free_delivery_from'', po_free_delivery_from p), (''min_order'', po_min_order p),
      (''return_period_in_days'', po_return_period p), (''outside_zones_note'', po_outside_zones_note p)]"

definition policy_facts :: "kb \<Rightarrow> fact_entry list" where
  "policy_facts kb =
     (case kb_policies kb of
        None \<Rightarrow> []
      | Some p \<Rightarrow> concat (map (\<lambda>col. add_fact ''policy'' singleton_ref col
                    (text_at (policy_values p) (fc_column col))) policy_columns))"

definition tariff_info_facts :: "kb \<Rightarrow> catalog_error + fact_entry list" where
  "tariff_info_facts kb =
     (case kb_tariff_info kb of
        None \<Rightarrow> Inr []
      | Some facts \<Rightarrow> virtual_facts ''tariff_info'' singleton_ref facts [] [])"

section \<open>Specialists and services\<close>

definition specialist_visible :: "specialist \<Rightarrow> bool" where
  "specialist_visible s \<longleftrightarrow> active (sp_sales_status s)"

definition specialist_facts :: "kb \<Rightarrow> specialist \<Rightarrow> catalog_error + fact_entry list" where
  "specialist_facts kb s =
     (if \<not> specialist_visible s then Inr []
      else bindE (valid_ref (sp_ref s)) (\<lambda>_.
        case normalize_schedule (sp_schedule s) of
          Inl e \<Rightarrow> Inl (BadSchedule (sp_ref s) e)
        | Inr sch \<Rightarrow>
            let booking = resolved_booking_url (sp_booking_url s) (contact_booking_url kb) in
            Inr (concat (map (\<lambda>col.
              case schedule_fact_value (fc_column col) booking sch ''ru'' of
                Some v \<Rightarrow> add_fact ''specialist'' (sp_ref s) col v
              | None \<Rightarrow> []) specialist_columns))))"

definition valid_service_types :: "string list" where
  "valid_service_types = [''base'', ''variant'', ''addon'']"

fun check_services :: "string list \<Rightarrow> service list \<Rightarrow> catalog_error + unit" where
  "check_services seen [] = Inr ()"
| "check_services seen (sv # svs) =
     bindE (valid_ref (sv_ref sv)) (\<lambda>_.
       if sv_ref sv \<in> set seen then Inl (DuplicateService (sv_ref sv))
       else if sv_type sv \<notin> set valid_service_types then Inl (BadServiceType (sv_ref sv) (sv_type sv))
       else check_services (sv_ref sv # seen) svs)"

text \<open>
  The parent rules, for one service. The code visits the services through a Go map, so which of several
  errors it reports depends on the iteration; here it is the first in the list.
\<close>

definition check_parent :: "service list \<Rightarrow> service \<Rightarrow> catalog_error + unit" where
  "check_parent svs sv =
     (if sv_type sv = ''base'' then
        (if sv_parent sv \<noteq> '''' then Inl (BaseHasParent (sv_ref sv)) else Inr ())
      else if sv_parent sv = '''' then Inl (ParentRequired (sv_ref sv))
      else case find_by sv_ref (sv_parent sv) svs of
        None \<Rightarrow> Inl (ServiceParentUnknown (sv_ref sv) (sv_parent sv))
      | Some parent \<Rightarrow>
          if sv_type parent \<noteq> ''base'' then Inl (ParentNotBase (sv_ref sv) (sv_parent sv))
          else if active (sv_sales_status sv) \<and> \<not> active (sv_sales_status parent)
          then Inl (ParentInactive (sv_ref sv) (sv_parent sv))
          else Inr ())"

fun check_all :: "('a \<Rightarrow> 'e + unit) \<Rightarrow> 'a list \<Rightarrow> 'e + unit" where
  "check_all f [] = Inr ()"
| "check_all f (x # xs) = bindE (f x) (\<lambda>_. check_all f xs)"

lemma check_all_iff: "check_all f xs = Inr () \<longleftrightarrow> (\<forall>x \<in> set xs. f x = Inr ())"
  by (induction xs) (auto simp: result_simps)

definition service_entries :: "service \<Rightarrow> fact_entry list" where
  "service_entries sv =
     (if \<not> active (sv_sales_status sv) then []
      else concat (map (\<lambda>col.
        if fc_column col = ''price'' then add_fact ''service'' (sv_ref sv) col (sv_price sv)
        else if fc_column col = ''duration'' then
          (case sv_duration sv of
             Some n \<Rightarrow> if n > 0 then add_fact ''service'' (sv_ref sv) col (int_text n) else []
           | None \<Rightarrow> [])
        else []) service_columns))"

definition service_facts :: "kb \<Rightarrow> catalog_error + fact_entry list" where
  "service_facts kb =
     bindE (check_services [] (kb_services kb)) (\<lambda>_.
     bindE (check_all (check_parent (kb_services kb)) (kb_services kb)) (\<lambda>_.
     Inr (concat (map service_entries (kb_services kb)))))"

section \<open>Delivery zones\<close>

definition valid_zone_levels :: "string list" where
  "valid_zone_levels = [''city'', ''region'', ''country'']"

fun check_zones :: "string list \<Rightarrow> delivery_zone list \<Rightarrow> catalog_error + unit" where
  "check_zones seen [] = Inr ()"
| "check_zones seen (z # zs) =
     bindE (valid_ref (dz_ref z)) (\<lambda>_.
       if dz_ref z \<in> set seen then Inl (DuplicateZone (dz_ref z))
       else if dz_level z \<notin> set valid_zone_levels then Inl (BadZoneLevel (dz_ref z) (dz_level z))
       else if dz_available z \<and> (trim_space (dz_cost z) = '''' \<or> trim_space (dz_days z) = '''')
       then Inl (ZoneTermsMissing (dz_ref z))
       else if \<not> dz_available z \<and> (trim_space (dz_cost z) \<noteq> '''' \<or> trim_space (dz_days z) \<noteq> '''')
       then Inl (ZoneTermsExtra (dz_ref z))
       else check_zones (dz_ref z # seen) zs)"

text \<open>
  The walk up the parents of a zone. Every step adds a parent it has not seen, so a number of steps
  above the number of zones is never used up; \<open>ZoneLoop\<close> would be the loop not ending.
\<close>

fun walk_parents ::
  "nat \<Rightarrow> delivery_zone list \<Rightarrow> string \<Rightarrow> string list \<Rightarrow> string \<Rightarrow> catalog_error + unit" where
  "walk_parents n zs ref seen parent =
     (if parent = '''' then Inr ()
      else if n = 0 then Inl (ZoneLoop ref)
      else if parent \<in> set seen then Inl (ZoneCycle ref)
      else case find_by dz_ref parent zs of
        None \<Rightarrow> Inl (ZoneParentUnknown ref parent)
      | Some z \<Rightarrow> walk_parents (n - 1) zs ref (parent # seen) (dz_parent z))"

declare walk_parents.simps [simp del]

definition check_chain :: "delivery_zone list \<Rightarrow> delivery_zone \<Rightarrow> catalog_error + unit" where
  "check_chain zs z = walk_parents (length zs + 2) zs (dz_ref z) [dz_ref z] (dz_parent z)"

definition zone_entries :: "delivery_zone \<Rightarrow> fact_entry list" where
  "zone_entries z =
     (if \<not> active (dz_sales_status z) then []
      else concat (map (\<lambda>col.
        if fc_column col = ''delivery_cost'' then add_fact ''delivery'' (dz_ref z) col (dz_cost z)
        else if fc_column col = ''delivery_in_days'' then add_fact ''delivery'' (dz_ref z) col (dz_days z)
        else if fc_column col = ''delivery_available'' then add_delivery_flag_fact (dz_ref z) col (dz_available z)
        else []) delivery_columns))"

definition zone_facts :: "kb \<Rightarrow> catalog_error + fact_entry list" where
  "zone_facts kb =
     (let zs = kb_zones kb in
      if length zs = 0 then Inr []
      else
        bindE (check_zones [] zs) (\<lambda>_.
        bindE (check_all (check_chain zs) zs) (\<lambda>_.
        case kb_policies kb of
          None \<Rightarrow> Inl PoliciesRequired
        | Some p \<Rightarrow>
            if trim_space (po_delivery_cost p) \<noteq> '''' \<or> trim_space (po_delivery_in_days p) \<noteq> ''''
            then Inl PolicyTermsExtra
            else if trim_space (po_outside_zones_note p) = '''' then Inl OutsideNoteRequired
            else Inr (concat (map zone_entries zs)))))"

definition build_facts :: "kb \<Rightarrow> catalog_error + fact_entry list" where
  "build_facts kb =
     bindE (collectE product_facts (kb_products kb)) (\<lambda>ps.
     bindE (collectE tariff_facts (kb_tariffs kb)) (\<lambda>ts.
     bindE (tariff_info_facts kb) (\<lambda>is.
     bindE (contact_facts kb) (\<lambda>cs.
     bindE (zone_facts kb) (\<lambda>zs.
     bindE (collectE (specialist_facts kb) (kb_specialists kb)) (\<lambda>ss.
     bindE (service_facts kb) (\<lambda>vs.
     Inr (ps @ ts @ is @ cs @ policy_facts kb @ zs @ ss @ vs))))))))"

section \<open>Media\<close>

definition resolved_featured_image :: "string \<Rightarrow> string list \<Rightarrow> string list" where
  "resolved_featured_image explicit primary_images =
     (if explicit \<noteq> '''' then [explicit]
      else case primary_images of [] \<Rightarrow> [] | i # is \<Rightarrow> [i])"

definition singular :: "string \<Rightarrow> string list" where
  "singular i = (if i = '''' then [] else [i])"

definition ids_at :: "(string \<times> string list) list \<Rightarrow> string \<Rightarrow> string list" where
  "ids_at m k = (case map_of m k of None \<Rightarrow> [] | Some v \<Rightarrow> v)"

definition topic_media :: "topic \<Rightarrow> (string \<times> string list) list" where
  "topic_media t =
     [(''featured_image'', resolved_featured_image (tp_featured_image t) (tp_illustrations t)),
      (''illustration_images'', tp_illustrations t), (''explainer_videos'', tp_videos t),
      (''reference_documents'', tp_documents t)]"

definition product_media :: "product \<Rightarrow> (string \<times> string list) list" where
  "product_media p =
     [(''featured_image'', resolved_featured_image (pr_featured_image p) (pr_gallery p)),
      (''gallery_images'', pr_gallery p), (''demo_videos'', pr_videos p),
      (''certificate_documents'', pr_certificates p), (''guarantee_documents'', pr_guarantees p)]"

definition tariff_media :: "tariff \<Rightarrow> (string \<times> string list) list" where
  "tariff_media t =
     [(''featured_image'', resolved_featured_image (tf_featured_image t) (tf_pricing_images t)),
      (''pricing_images'', tf_pricing_images t), (''explainer_videos'', tf_videos t),
      (''terms_documents'', tf_terms t)]"

definition contacts_media :: "contacts \<Rightarrow> (string \<times> string list) list" where
  "contacts_media c =
     [(''contact_card_image'', singular (ct_card_image c)), (''location_map_image'', singular (ct_map_image c)),
      (''company_legal_documents'', ct_legal_documents c)]"

definition policies_media :: "policies \<Rightarrow> (string \<times> string list) list" where
  "policies_media p = [(''commerce_policy_documents'', po_documents p)]"

definition specialist_media :: "specialist \<Rightarrow> (string \<times> string list) list" where
  "specialist_media s = [(''portfolio'', sp_portfolio s)]"

record owner =
  ow_table :: string
  ow_ref :: string
  ow_display :: string
  ow_values :: "(string \<times> string list) list"

definition media_owner ::
  "string \<Rightarrow> string \<Rightarrow> string \<Rightarrow> (string \<times> string list) list \<Rightarrow> owner" where
  "media_owner table ref display values =
     \<lparr>ow_table = table, ow_ref = ref, ow_display = display, ow_values = values\<rparr>"

definition topic_owner :: "topic \<Rightarrow> catalog_error + owner list" where
  "topic_owner t = bindE (valid_ref (tp_slug t))
     (\<lambda>_. Inr [media_owner ''topics'' (tp_slug t) (tp_title t) (topic_media t)])"

definition contacts_display :: string where "contacts_display = of_runes [0x041A, 0x043E, 0x043D, 0x0442, 0x0430, 0x043A, 0x0442, 0x044B]"
definition policies_display :: string where "policies_display = of_runes [0x0423, 0x0441, 0x043B, 0x043E, 0x0432, 0x0438, 0x044F]"

definition row_owners :: "kb \<Rightarrow> owner list" where
  "row_owners kb =
     map (\<lambda>p. media_owner ''products'' (pr_ref p) (pr_name p) (product_media p))
       (filter product_visible (kb_products kb))
     @ map (\<lambda>t. media_owner ''tariffs'' (tf_ref t) (tf_name t) (tariff_media t))
       (filter (\<lambda>t. active (tf_sales_status t)) (kb_tariffs kb))
     @ (case kb_contacts kb of None \<Rightarrow> []
        | Some c \<Rightarrow> [media_owner ''contacts'' singleton_ref contacts_display (contacts_media c)])
     @ (case kb_policies kb of None \<Rightarrow> []
        | Some p \<Rightarrow> [media_owner ''policies'' singleton_ref policies_display (policies_media p)])
     @ map (\<lambda>s. media_owner ''specialists'' (sp_ref s) (sp_name s) (specialist_media s))
       (filter specialist_visible (kb_specialists kb))"

definition mime_matches :: "media_kind \<Rightarrow> string \<Rightarrow> bool" where
  "mime_matches kind mime \<longleftrightarrow>
     (case kind of
        MediaImage \<Rightarrow> prefix ''image/'' mime
      | MediaVideo \<Rightarrow> prefix ''video/'' mime
      | MediaAudio \<Rightarrow> prefix ''audio/'' mime
      | MediaDocument \<Rightarrow> prefix ''application/'' mime \<or> prefix ''text/'' mime)"

definition media_token :: "string \<Rightarrow> string \<Rightarrow> string \<Rightarrow> string" where
  "media_token table ref column = table @ ''.'' @ ref @ ''.'' @ column"

definition validate_material_ref ::
  "kb \<Rightarrow> string \<Rightarrow> media_column \<Rightarrow> string \<Rightarrow> string \<Rightarrow> catalog_error + unit" where
  "validate_material_ref kb i spec table ref =
     (let bad = (\<lambda>e. Inl (BadMaterial (media_token table ref (mc_column spec)) i e)) in
      case material_by_id kb i of
        None \<Rightarrow> bad NoSuchMaterial
      | Some m \<Rightarrow>
          if kb_organization kb \<noteq> '''' \<and> mt_organization m \<noteq> kb_organization kb then bad OtherOrganization
          else if mt_source_type m \<noteq> ''file'' then bad NotAFile
          else if mt_storage_backend m = '''' \<or> mt_storage_key m = '''' then bad NoStorageLocator
          else if mt_size m \<le> 0 then bad ZeroSize
          else if mt_visibility m \<noteq> ''visible'' \<and> mt_visibility m \<noteq> ''auto'' then bad NotSendable
          else if \<not> mime_matches (mc_kind spec) (mt_mime m) then bad WrongMime
          else Inr ())"

definition column_media :: "kb \<Rightarrow> owner \<Rightarrow> media_column \<Rightarrow> catalog_error + media_entry list" where
  "column_media kb ow spec =
     (let ids = ids_at (ow_values ow) (mc_column spec);
          token = media_token (ow_table ow) (ow_ref ow) (mc_column spec) in
      if length ids = 0 then Inr []
      else if mc_singular spec \<and> length ids > 1 then Inl (SingularMedia token (length ids))
      else bindE (check_all (\<lambda>i. validate_material_ref kb i spec (ow_table ow) (ow_ref ow)) ids) (\<lambda>_.
           Inr [\<lparr>m_token = token, m_table = ow_table ow, m_ref = ow_ref ow, m_column = mc_column spec,
                 m_label = mc_label spec, m_kind = mc_kind spec, m_count = length ids\<rparr>]))"

definition media_columns_for :: "string \<Rightarrow> media_column list" where
  "media_columns_for table = (case map_of media_columns table of None \<Rightarrow> [] | Some cols \<Rightarrow> cols)"

definition owner_media :: "kb \<Rightarrow> owner \<Rightarrow> catalog_error + (owner \<times> media_entry list) list" where
  "owner_media kb ow =
     bindE (collectE (column_media kb ow) (media_columns_for (ow_table ow))) (\<lambda>ms. Inr [(ow, ms)])"

definition build_media :: "kb \<Rightarrow> catalog_error + media_entry list \<times> absent_entry list" where
  "build_media kb =
     bindE (collectE topic_owner (kb_topics kb)) (\<lambda>tops.
     bindE (collectE (owner_media kb) (tops @ row_owners kb)) (\<lambda>oms.
     Inr (concat (map snd oms),
          map (\<lambda>(ow, ms). \<lparr>ab_table = ow_table ow, ab_ref = ow_ref ow, ab_display = ow_display ow\<rparr>)
            (filter (\<lambda>(ow, ms). ms = []) oms))))"

definition build_catalog :: "kb \<Rightarrow> catalog_error + catalog" where
  "build_catalog kb =
     bindE (build_facts kb) (\<lambda>fs.
     bindE (build_media kb) (\<lambda>(ms, abs).
     Inr \<lparr>cat_facts = fs, cat_media = ms, cat_absent = abs\<rparr>))"

definition fact_by_token :: "catalog \<Rightarrow> string \<Rightarrow> fact_entry option" where
  "fact_by_token c token = find_by f_token token (cat_facts c)"

definition media_by_token :: "catalog \<Rightarrow> string \<Rightarrow> media_entry option" where
  "media_by_token c token = find_by m_token token (cat_media c)"

definition active_specialist_refs :: "kb \<Rightarrow> string list \<Rightarrow> string list" where
  "active_specialist_refs kb refs =
     filter (\<lambda>ref. list_ex (\<lambda>s. sp_ref s = ref \<and> specialist_visible s) (kb_specialists kb)) refs"

end
