(* ===== verification/Ai_Zones.thy ===== *)
theory Ai_Zones
  imports Ai_Catalog
begin

text \<open>
  The parent chains of the delivery zones (\<open>buildDeliveryZoneFacts\<close> in \<open>backend/aiprompt/catalog.go\<close>).
  The code walks up from every zone with a loop that nothing bounds but the set of visited references;
  the model gives the walk a step budget, and this theory shows that the budget is never used up and
  that the walk accepts exactly the zones whose chain ends.
\<close>

text \<open>\<open>rooted zs p n\<close>: following the parents from the reference \<open>p\<close> ends after \<open>n\<close> zones.\<close>

inductive rooted :: "delivery_zone list \<Rightarrow> string \<Rightarrow> nat \<Rightarrow> bool" for zs where
  root: "rooted zs '''' 0"
| child: "p \<noteq> '''' \<Longrightarrow> find_by dz_ref p zs = Some z \<Longrightarrow> rooted zs (dz_parent z) n \<Longrightarrow> rooted zs p (Suc n)"

inductive_cases rooted_rootE: "rooted zs '''' n"
inductive_cases rooted_childE: "rooted zs p (Suc n)"

lemma rooted_unique: "rooted zs p n \<Longrightarrow> rooted zs p k \<Longrightarrow> k = n"
proof (induction arbitrary: k rule: rooted.induct)
  case root
  then show ?case by (auto elim: rooted.cases)
next
  case (child p z n)
  from child.prems child.hyps(1,2) obtain j where "k = Suc j" "rooted zs (dz_parent z) j"
    by (cases rule: rooted.cases) auto
  with child.IH show ?case by simp
qed

lemma walk_never_loops:
  assumes "distinct seen" and "set seen \<subseteq> dz_ref ` set zs" and "length zs < length seen + n"
  shows "walk_parents n zs ref seen parent \<noteq> Inl (ZoneLoop r)"
  using assms
proof (induction n arbitrary: seen parent)
  case 0
  have "length seen = card (set seen)" using 0(1) by (simp add: distinct_card)
  also have "\<dots> \<le> card (dz_ref ` set zs)" using 0(2) by (simp add: card_mono)
  also have "\<dots> \<le> length zs" by (meson card_image_le card_length finite_set le_trans)
  finally show ?case using 0(3) by simp
next
  case (Suc n)
  show ?case
  proof (cases "parent = '''' \<or> parent \<in> set seen")
    case False
    show ?thesis
    proof (cases "find_by dz_ref parent zs")
      case (Some z)
      then have "parent \<in> dz_ref ` set zs" by (auto dest: find_by_Some)
      with Suc False have "walk_parents n zs ref (parent # seen) (dz_parent z) \<noteq> Inl (ZoneLoop r)"
        by (intro Suc.IH) auto
      with False Some show ?thesis by (simp add: walk_parents.simps [of "Suc n"])
    qed (use False in \<open>simp add: walk_parents.simps [of "Suc n"]\<close>)
  qed (auto simp: walk_parents.simps [of "Suc n"])
qed

lemma valid_zones:
  "check_zones seen zs = Inr () \<Longrightarrow>
     distinct (map dz_ref zs) \<and> set (map dz_ref zs) \<inter> set seen = {} \<and> '''' \<notin> set (map dz_ref zs)"
  by (induction zs arbitrary: seen) (fastforce simp: result_simps valid_ref_def ref_ok_def split: if_splits)+

lemma walk_accepts_rooted:
  "walk_parents n zs ref seen parent = Inr () \<Longrightarrow> \<exists>k. rooted zs parent k"
proof (induction n arbitrary: seen parent)
  case 0
  then show ?case by (auto simp: walk_parents.simps [of 0] intro: rooted.root split: if_splits)
next
  case (Suc n)
  show ?case
  proof (cases "parent = ''''")
    case False
    with Suc.prems obtain z where z: "find_by dz_ref parent zs = Some z"
      and w: "walk_parents n zs ref (parent # seen) (dz_parent z) = Inr ()"
      by (auto simp: walk_parents.simps [of "Suc n"] split: if_splits option.splits)
    from Suc.IH [OF w] z False show ?thesis by (auto intro: rooted.child)
  qed (auto intro: rooted.root)
qed

lemma walk_rooted:
  assumes "rooted zs parent k" and "\<forall>s \<in> set seen. \<forall>j. rooted zs s j \<longrightarrow> k < j"
  shows "walk_parents n zs ref seen parent = Inr () \<or> walk_parents n zs ref seen parent = Inl (ZoneLoop ref)"
  using assms
proof (induction arbitrary: seen n rule: rooted.induct)
  case root
  then show ?case by (simp add: walk_parents.simps)
next
  case (child p z k)
  have p: "rooted zs p (Suc k)" using child.hyps by (rule rooted.child)
  with child.prems have fresh: "p \<notin> set seen" by blast
  have "\<forall>s \<in> set (p # seen). \<forall>j. rooted zs s j \<longrightarrow> k < j"
    using child.prems rooted_unique [OF p] by fastforce
  from child.IH [OF this, of "n - 1"] fresh child.hyps show ?case
    by (simp add: walk_parents.simps [of n])
qed


text \<open>
  C40: the check of the delivery zones terminates and is exact. The walk up the parents never exhausts
  its steps, whatever the table holds; and once the rows themselves are valid, the walks of all zones
  succeed exactly when from every zone following the parents ends, so a cycle or a dangling parent is
  always reported.
\<close>

theorem zone_chains_checked:
  assumes "check_zones [] (kb_zones kb) = Inr ()"
  shows "zone_facts kb \<noteq> Inl (ZoneLoop r)
    \<and> (check_all (check_chain (kb_zones kb)) (kb_zones kb) = Inr () \<longleftrightarrow>
         (\<forall>z \<in> set (kb_zones kb). \<exists>k. rooted (kb_zones kb) (dz_ref z) k))"
proof (intro conjI)
  let ?zs = "kb_zones kb"
  have chain: "check_chain ?zs z \<noteq> Inl (ZoneLoop r)" if "z \<in> set ?zs" for z r
    unfolding check_chain_def by (rule walk_never_loops) (use that in auto)
  have chains: "check_all (check_chain ?zs) zs \<noteq> Inl (ZoneLoop r)" if "set zs \<subseteq> set ?zs" for zs
    using that chain by (induction zs) (auto simp: result_simps)
  show "zone_facts kb \<noteq> Inl (ZoneLoop r)"
    using assms chains [OF order_refl]
    by (auto simp: zone_facts_def Let_def result_simps split: option.splits)
  have one: "check_chain ?zs z = Inr () \<longleftrightarrow> (\<exists>k. rooted ?zs (dz_ref z) k)" if z: "z \<in> set ?zs" for z
  proof
    have found: "find_by dz_ref (dz_ref z) ?zs = Some z"
      using valid_zones [OF assms] z by (auto intro: find_by_unique)
    have "dz_ref z \<in> set (map dz_ref ?zs)" using z by simp
    with valid_zones [OF assms] have named: "dz_ref z \<noteq> ''''" by metis
    show "\<exists>k. rooted ?zs (dz_ref z) k" if "check_chain ?zs z = Inr ()"
      using walk_accepts_rooted [OF that [unfolded check_chain_def]] found named
      by (auto intro: rooted.child)
    assume "\<exists>k. rooted ?zs (dz_ref z) k"
    then obtain k where k: "rooted ?zs (dz_ref z) k" ..
    with found named obtain j where j: "k = Suc j" "rooted ?zs (dz_parent z) j"
      by (auto elim: rooted.cases)
    have "\<forall>s \<in> set [dz_ref z]. \<forall>i. rooted ?zs s i \<longrightarrow> j < i"
      using rooted_unique [OF k] j(1) by auto
    from walk_rooted [OF j(2) this, of "length ?zs + 2" "dz_ref z"] chain [OF z, of "dz_ref z"]
    show "check_chain ?zs z = Inr ()" by (auto simp: check_chain_def)
  qed
  show "check_all (check_chain ?zs) ?zs = Inr () \<longleftrightarrow> (\<forall>z \<in> set ?zs. \<exists>k. rooted ?zs (dz_ref z) k)"
    using one by (simp add: check_all_iff)
qed

definition sample_zone :: "string \<Rightarrow> string \<Rightarrow> delivery_zone" where
  "sample_zone ref parent =
     \<lparr>dz_ref = ref, dz_name = ref, dz_level = ''city'', dz_parent = parent, dz_available = False,
      dz_cost = '''', dz_days = '''', dz_notes = '''', dz_sales_status = ''active''\<rparr>"

definition cyclic_kb :: kb where
  "cyclic_kb =
     \<lparr>kb_organization = '''', kb_assistant = None, kb_topics = [], kb_products = [], kb_tariffs = [],
      kb_contacts = None, kb_policies = None, kb_tariff_info = None,
      kb_zones = [sample_zone ''a'' ''b'', sample_zone ''b'' ''a''],
      kb_specialists = [], kb_services = [], kb_materials = []\<rparr>"

lemma zone_chains_checked_witness: "\<not> (\<exists>k. rooted (kb_zones cyclic_kb) ''a'' k)"
proof
  assume a: "\<exists>k. rooted (kb_zones cyclic_kb) ''a'' k"
  have ok: "check_zones [] (kb_zones cyclic_kb) = Inr ()" by code_simp
  from a obtain k where "rooted (kb_zones cyclic_kb) ''a'' k" ..
  then obtain j where "rooted (kb_zones cyclic_kb) ''b'' j"
    by (cases rule: rooted.cases) (auto simp: cyclic_kb_def sample_zone_def find_by_def)
  with a have "\<forall>z \<in> set (kb_zones cyclic_kb). \<exists>k. rooted (kb_zones cyclic_kb) (dz_ref z) k"
    by (auto simp: cyclic_kb_def sample_zone_def)
  with zone_chains_checked [OF ok]
  have "check_all (check_chain (kb_zones cyclic_kb)) (kb_zones cyclic_kb) = Inr ()" by simp
  moreover have "check_all (check_chain (kb_zones cyclic_kb)) (kb_zones cyclic_kb) = Inl (ZoneCycle ''a'')"
    by code_simp
  ultimately show False by simp
qed

end
