(* ===== verification/Ai_Resolve.thy ===== *)
theory Ai_Resolve
  imports Ai_Catalog
begin

text \<open>
  Substitution of tokens, the second half of \<open>backend/aiprompt/contract.go\<close>: a token of the request's
  catalog is resolved against the knowledge base as it is now, failing closed when its row is gone. The
  pointers \<open>kb\<close> and \<open>cat\<close> may be nil, which is \<open>None\<close>. The theorems say that a freshly built catalog
  offers only tokens that resolve.
\<close>

section \<open>The current rows\<close>

definition current_product :: "kb \<Rightarrow> string \<Rightarrow> product option" where
  "current_product kb ref = find (\<lambda>p. pr_ref p = ref \<and> product_visible p) (kb_products kb)"

definition current_tariff :: "kb \<Rightarrow> string \<Rightarrow> tariff option" where
  "current_tariff kb ref = find (\<lambda>t. tf_ref t = ref \<and> active (tf_sales_status t)) (kb_tariffs kb)"

definition current_delivery_zone :: "kb \<Rightarrow> string \<Rightarrow> delivery_zone option" where
  "current_delivery_zone kb ref = find (\<lambda>z. dz_ref z = ref \<and> active (dz_sales_status z)) (kb_zones kb)"

definition current_specialist :: "kb \<Rightarrow> string \<Rightarrow> specialist option" where
  "current_specialist kb ref = find (\<lambda>s. sp_ref s = ref \<and> specialist_visible s) (kb_specialists kb)"

definition current_service :: "kb \<Rightarrow> string \<Rightarrow> service option" where
  "current_service kb ref = find (\<lambda>s. sv_ref s = ref \<and> active (sv_sales_status s)) (kb_services kb)"

section \<open>Fact values\<close>

datatype resolve_error =
    NoContext
  | NotInCatalog string
  | InconsistentToken string
  | UnknownColumn string string
  | WrongKind string
  | RowGone string
  | BadCurrentSchedule string schedule_error
  | MalformedFact string
  | FactTypeChanged string
  | FactGone string
  | EmptyValue string
  | MalformedText
  | SingularGrew string nat
  | BadReference catalog_error

definition not_empty :: "fact_entry \<Rightarrow> string \<Rightarrow> resolve_error + string" where
  "not_empty f v = (if trim_space v = '''' then Inl (EmptyValue (f_token f)) else Inr v)"

definition resolve_virtual_fact ::
  "additional_fact list \<Rightarrow> fact_entry \<Rightarrow> string \<Rightarrow> resolve_error + string" where
  "resolve_virtual_fact facts f lang =
     (case find_by af_ref (f_column f) facts of
        None \<Rightarrow> Inl (FactGone (f_token f))
      | Some af \<Rightarrow>
          (case value_kind_and_text (af_value af) of
             None \<Rightarrow> Inl (MalformedFact (f_token f))
           | Some (txt, kind) \<Rightarrow>
               if kind \<noteq> f_kind f then Inl (FactTypeChanged (f_token f))
               else if kind = KindVirtualBoolean
               then Inr (fact_bool_wording lang (case af_value af of FactBool b \<Rightarrow> b | _ \<Rightarrow> False))
               else not_empty f txt))"

definition current_product_value :: "kb \<Rightarrow> fact_entry \<Rightarrow> string \<Rightarrow> resolve_error + string" where
  "current_product_value kb f lang =
     (case current_product kb (f_ref f) of
        None \<Rightarrow> Inl (RowGone (f_token f))
      | Some p \<Rightarrow>
          if is_virtual_kind (f_kind f) then resolve_virtual_fact (pr_facts p) f lang
          else not_empty f (if f_column f = ''price'' then pr_price p else ''''))"

definition current_tariff_value :: "kb \<Rightarrow> fact_entry \<Rightarrow> string \<Rightarrow> resolve_error + string" where
  "current_tariff_value kb f lang =
     (case current_tariff kb (f_ref f) of
        None \<Rightarrow> Inl (RowGone (f_token f))
      | Some t \<Rightarrow>
          if is_virtual_kind (f_kind f) then resolve_virtual_fact (tf_facts t) f lang
          else not_empty f (if f_column f = ''price'' then tf_price t
                            else if f_column f = ''fee'' then tf_fee t else ''''))"

definition current_tariff_info_value :: "kb \<Rightarrow> fact_entry \<Rightarrow> string \<Rightarrow> resolve_error + string" where
  "current_tariff_info_value kb f lang =
     (case kb_tariff_info kb of
        None \<Rightarrow> Inl (RowGone (f_token f))
      | Some facts \<Rightarrow>
          if f_ref f \<noteq> singleton_ref then Inl (RowGone (f_token f)) else resolve_virtual_fact facts f lang)"

definition current_contact_value :: "kb \<Rightarrow> fact_entry \<Rightarrow> string \<Rightarrow> resolve_error + string" where
  "current_contact_value kb f lang =
     (case kb_contacts kb of
        None \<Rightarrow> Inl (RowGone (f_token f))
      | Some c \<Rightarrow>
          if f_ref f \<noteq> singleton_ref then Inl (RowGone (f_token f))
          else case normalize_schedule (ct_schedule c) of
            Inl e \<Rightarrow> Inl (BadCurrentSchedule (f_token f) e)
          | Inr sch \<Rightarrow>
              not_empty f (case schedule_fact_value (f_column f) (ct_booking_url c) sch lang of
                 Some v \<Rightarrow> v
               | None \<Rightarrow> text_at (contact_values c) (f_column f)))"

definition current_specialist_value :: "kb \<Rightarrow> fact_entry \<Rightarrow> string \<Rightarrow> resolve_error + string" where
  "current_specialist_value kb f lang =
     (case current_specialist kb (f_ref f) of
        None \<Rightarrow> Inl (RowGone (f_token f))
      | Some s \<Rightarrow>
          (case normalize_schedule (sp_schedule s) of
             Inl e \<Rightarrow> Inl (BadCurrentSchedule (f_token f) e)
           | Inr sch \<Rightarrow>
               (case schedule_fact_value (f_column f)
                       (resolved_booking_url (sp_booking_url s) (contact_booking_url kb)) sch lang of
                  None \<Rightarrow> Inl (UnknownColumn (f_table f) (f_column f))
                | Some v \<Rightarrow> not_empty f v)))"

definition current_service_value :: "kb \<Rightarrow> fact_entry \<Rightarrow> resolve_error + string" where
  "current_service_value kb f =
     (case current_service kb (f_ref f) of
        None \<Rightarrow> Inl (RowGone (f_token f))
      | Some s \<Rightarrow>
          not_empty f
            (if f_column f = ''price'' then sv_price s
             else if f_column f = ''duration'' then
               (case sv_duration s of Some n \<Rightarrow> if n > 0 then int_text n else '''' | None \<Rightarrow> '''')
             else ''''))"

definition current_policy_value :: "kb \<Rightarrow> fact_entry \<Rightarrow> resolve_error + string" where
  "current_policy_value kb f =
     (case kb_policies kb of
        None \<Rightarrow> Inl (RowGone (f_token f))
      | Some p \<Rightarrow>
          if f_ref f \<noteq> singleton_ref then Inl (RowGone (f_token f))
          else not_empty f (text_at (policy_values p) (f_column f)))"

definition current_delivery_value :: "kb \<Rightarrow> fact_entry \<Rightarrow> string \<Rightarrow> resolve_error + string" where
  "current_delivery_value kb f lang =
     (case current_delivery_zone kb (f_ref f) of
        None \<Rightarrow> Inl (RowGone (f_token f))
      | Some z \<Rightarrow>
          if f_column f = ''delivery_available'' then Inr (delivery_wording lang (dz_available z))
          else not_empty f
            (if f_column f = ''delivery_cost'' then dz_cost z
             else if f_column f = ''delivery_in_days'' then dz_days z else ''''))"

definition current_fact_value :: "kb \<Rightarrow> fact_entry \<Rightarrow> string \<Rightarrow> resolve_error + string" where
  "current_fact_value kb f lang =
     (if f_table f = ''product'' then current_product_value kb f lang
      else if f_table f = ''tariff'' then current_tariff_value kb f lang
      else if f_table f = ''tariff_info'' then current_tariff_info_value kb f lang
      else if f_table f = ''contact'' then current_contact_value kb f lang
      else if f_table f = ''specialist'' then current_specialist_value kb f lang
      else if f_table f = ''service'' then current_service_value kb f
      else if f_table f = ''policy'' then current_policy_value kb f
      else if f_table f = ''delivery'' then current_delivery_value kb f lang
      else not_empty f '''')"

definition check_kind :: "string \<Rightarrow> fact_entry \<Rightarrow> resolve_error + unit" where
  "check_kind token f =
     (if is_virtual_kind (f_kind f) then Inr ()
      else case fact_column_spec (f_table f) (f_column f) of
        None \<Rightarrow> Inl (UnknownColumn (f_table f) (f_column f))
      | Some spec \<Rightarrow> if f_kind f \<noteq> fc_kind spec then Inl (WrongKind token) else Inr ())"

definition resolve_fact_lang ::
  "string \<Rightarrow> kb option \<Rightarrow> catalog option \<Rightarrow> string \<Rightarrow> resolve_error + string" where
  "resolve_fact_lang token kbo cato lang =
     (case (kbo, cato) of
        (Some kb, Some cat) \<Rightarrow>
          (case fact_by_token cat token of
             None \<Rightarrow> Inl (NotInCatalog token)
           | Some f \<Rightarrow>
               if f_token f \<noteq> fact_token (f_table f) (f_ref f) (f_column f) then Inl (InconsistentToken token)
               else bindE (check_kind token f) (\<lambda>_. current_fact_value kb f lang))
      | _ \<Rightarrow> Inl NoContext)"

definition resolve_fact :: "string \<Rightarrow> kb option \<Rightarrow> catalog option \<Rightarrow> resolve_error + string" where
  "resolve_fact token kbo cato = resolve_fact_lang token kbo cato ''ru''"

section \<open>Substitution\<close>

text \<open>\<open>ReplaceAllStringFunc\<close> with the closure that keeps the first error.\<close>

fun substitute_pieces :: "(string \<Rightarrow> resolve_error + string) \<Rightarrow> piece list \<Rightarrow> resolve_error + string" where
  "substitute_pieces resolve [] = Inr ''''"
| "substitute_pieces resolve (Plain c # ps) =
     bindE (substitute_pieces resolve ps) (\<lambda>rest. Inr (c # rest))"
| "substitute_pieces resolve (Placeholder tok # ps) =
     bindE (resolve tok) (\<lambda>v. bindE (substitute_pieces resolve ps) (\<lambda>rest. Inr (v @ rest)))"

definition substitute_facts_lang ::
  "string \<Rightarrow> kb option \<Rightarrow> catalog option \<Rightarrow> string \<Rightarrow> resolve_error + string" where
  "substitute_facts_lang s kbo cato lang =
     bindE (substitute_pieces (\<lambda>tok. resolve_fact_lang tok kbo cato lang) (pieces s)) (\<lambda>out.
       if contains_any out ''{}'' then Inl MalformedText else Inr out)"

definition substitute_facts :: "string \<Rightarrow> kb option \<Rightarrow> catalog option \<Rightarrow> resolve_error + string" where
  "substitute_facts s kbo cato = substitute_facts_lang s kbo cato ''ru''"

section \<open>Media to send\<close>

record resolved_material =
  rm_token :: string
  rm_material :: material

definition first_topic :: "kb \<Rightarrow> string \<Rightarrow> topic option" where
  "first_topic kb ref = find_by tp_slug ref (kb_topics kb)"

definition media_ids_now :: "kb \<Rightarrow> media_entry \<Rightarrow> string list" where
  "media_ids_now kb m =
                (if m_table m = ''topics'' then
                   (case first_topic kb (m_ref m) of None \<Rightarrow> [] | Some t \<Rightarrow> ids_at (topic_media t) (m_column m))
                 else if m_table m = ''products'' then
                   (case current_product kb (m_ref m) of None \<Rightarrow> [] | Some p \<Rightarrow> ids_at (product_media p) (m_column m))
                 else if m_table m = ''tariffs'' then
                   (case current_tariff kb (m_ref m) of None \<Rightarrow> [] | Some t \<Rightarrow> ids_at (tariff_media t) (m_column m))
                 else if m_table m = ''contacts'' then
                   (case kb_contacts kb of None \<Rightarrow> []
                    | Some c \<Rightarrow> if m_ref m = singleton_ref then ids_at (contacts_media c) (m_column m) else [])
                 else if m_table m = ''policies'' then
                   (case kb_policies kb of None \<Rightarrow> []
                    | Some p \<Rightarrow> if m_ref m = singleton_ref then ids_at (policies_media p) (m_column m) else [])
                 else if m_table m = ''specialists'' then
                   (case current_specialist kb (m_ref m) of None \<Rightarrow> []
                    | Some s \<Rightarrow> ids_at (specialist_media s) (m_column m))
                 else [])"

definition current_media_ids :: "kb \<Rightarrow> media_entry \<Rightarrow> resolve_error + string list" where
  "current_media_ids kb m =
     (let ids = media_ids_now kb m in
      if length ids = 0 then Inl (RowGone (m_token m)) else Inr ids)"

text \<open>
  The two loops of \<open>ResolveSend\<close>. The inner one gathers the materials of one token, skipping what an
  earlier token already sends; \<open>material_by_id\<close> finds the row, because the reference was just validated.
\<close>

fun send_ids ::
  "kb \<Rightarrow> media_entry \<Rightarrow> media_column \<Rightarrow> string \<Rightarrow> string list \<Rightarrow> string list
     \<Rightarrow> resolve_error + resolved_material list \<times> string list" where
  "send_ids kb m spec tok seen [] = Inr ([], seen)"
| "send_ids kb m spec tok seen (i # is) =
     (case validate_material_ref kb i spec (m_table m) (m_ref m) of
        Inl e \<Rightarrow> Inl (BadReference e)
      | Inr u \<Rightarrow>
          if i \<in> set seen then send_ids kb m spec tok seen is
          else case material_by_id kb i of
            None \<Rightarrow> Inl (RowGone tok)
          | Some mat \<Rightarrow>
              bindE (send_ids kb m spec tok (i # seen) is) (\<lambda>(out, seen').
                Inr (\<lparr>rm_token = tok, rm_material = mat\<rparr> # out, seen')))"

definition send_token ::
  "kb \<Rightarrow> catalog \<Rightarrow> string \<Rightarrow> string list \<Rightarrow> resolve_error + resolved_material list \<times> string list" where
  "send_token kb cat tok seen =
     (case media_by_token cat tok of
        None \<Rightarrow> Inl (NotInCatalog tok)
      | Some m \<Rightarrow>
          if m_token m \<noteq> media_token (m_table m) (m_ref m) (m_column m) then Inl (InconsistentToken tok)
          else case media_column_spec (m_table m) (m_column m) of
            None \<Rightarrow> Inl (UnknownColumn (m_table m) (m_column m))
          | Some spec \<Rightarrow>
              bindE (current_media_ids kb m) (\<lambda>ids.
                if mc_singular spec \<and> length ids > 1 then Inl (SingularGrew tok (length ids))
                else send_ids kb m spec tok seen ids))"

fun send_tokens ::
  "kb \<Rightarrow> catalog \<Rightarrow> string list \<Rightarrow> string list \<Rightarrow> string list
     \<Rightarrow> resolve_error + resolved_material list" where
  "send_tokens kb cat seen_tok seen [] = Inr []"
| "send_tokens kb cat seen_tok seen (tok # toks) =
     (if tok \<in> set seen_tok then send_tokens kb cat seen_tok seen toks
      else bindE (send_token kb cat tok seen) (\<lambda>(out, seen').
           bindE (send_tokens kb cat (tok # seen_tok) seen' toks) (\<lambda>rest. Inr (out @ rest))))"

definition resolve_send ::
  "string list \<Rightarrow> kb option \<Rightarrow> catalog option \<Rightarrow> resolve_error + resolved_material list" where
  "resolve_send tokens kbo cato =
     (case (kbo, cato) of
        (Some kb, Some cat) \<Rightarrow> send_tokens kb cat [] [] tokens
      | _ \<Rightarrow> Inl NoContext)"

section \<open>Values that are not blank\<close>

lemma trim_left_removes: "set s \<subseteq> set (trim_left s) \<union> set (concat space_runes)"
proof (induction s rule: trim_left.induct)
  case (1 s)
  show ?case
  proof (cases "space_prefix s = 0")
    case False
    then obtain w where w: "w \<in> set space_runes" "prefix w s" "space_prefix s = length w"
      by (auto simp: space_prefix_def find_Some_iff split: option.splits) (metis nth_mem)
    then obtain r where s: "s = w @ r" by (auto simp: prefix_def)
    with 1 [OF False] w False show ?thesis by (subst trim_left.simps) auto
  qed (simp add: trim_left.simps)
qed

lemma trim_right_removes: "set s \<subseteq> set (trim_right s) \<union> set (concat space_runes)"
proof (induction s rule: trim_right.induct)
  case (1 s)
  show ?case
  proof (cases "space_suffix s = 0")
    case False
    then obtain w where w: "w \<in> set space_runes" "suffix w s" "space_suffix s = length w"
      by (auto simp: space_suffix_def find_Some_iff split: option.splits) (metis nth_mem)
    then obtain r where s: "s = r @ w" by (auto simp: suffix_def)
    with 1 [OF False] w False show ?thesis by (subst trim_right.simps) auto
  qed (simp add: trim_right.simps)
qed

lemma not_blank:
  assumes "c \<in> set s" and "c \<notin> set (concat space_runes)"
  shows "trim_space s \<noteq> ''''"
proof
  assume a: "trim_space s = ''''"
  have "set (trim_left s) \<subseteq> set (concat space_runes)"
    using trim_right_removes [of "trim_left s"] a by (simp only: trim_space_def) simp
  with trim_left_removes [of s] assms show False by blast
qed

lemma ascii_not_space:
  "CHR '':'' \<notin> set (concat space_runes)" "CHR ''.'' \<notin> set (concat space_runes)"
  by code_simp+

lemma digit_not_space: "is_digit c \<Longrightarrow> c \<notin> set (concat space_runes)"
  by (auto simp: is_digit_def space_runes_def)

lemma wording_not_blank:
  "trim_space (fact_bool_wording lang b) \<noteq> ''''" "trim_space (delivery_wording lang b) \<noteq> ''''"
proof -
  have b: "\<forall>s \<in> set [fact_bool_wording ''kk'' True, fact_bool_wording ''kk'' False,
      fact_bool_wording ''ru'' True, fact_bool_wording ''ru'' False,
      delivery_wording ''kk'' True, delivery_wording ''kk'' False,
      delivery_wording ''ru'' True, delivery_wording ''ru'' False]. trim_space s \<noteq> ''''"
    by code_simp
  have "fact_bool_wording lang b = fact_bool_wording (if lang = ''kk'' then ''kk'' else ''ru'') b"
    "delivery_wording lang b = delivery_wording (if lang = ''kk'' then ''kk'' else ''ru'') b"
    by (simp_all add: fact_bool_wording_def delivery_wording_def)
  with b show "trim_space (fact_bool_wording lang b) \<noteq> ''''" "trim_space (delivery_wording lang b) \<noteq> ''''"
    by (cases b; simp)+
qed

lemma day_text_not_blank: "trim_space (schedule_day_text d lang) \<noteq> ''''"
  by (rule not_blank [OF _ ascii_not_space(1)]) (simp add: schedule_day_text_def Let_def)

lemma set_join_str: "x \<in> set xs \<Longrightarrow> set x \<subseteq> set (join_str sep xs)"
  by (induction sep xs rule: join_str.induct) auto

lemma full_text_not_blank:
  "trim_space (schedule_full_text s lang) = '''' \<longleftrightarrow> List.map_filter (day_by_ref s) weekday_order = []"
proof (cases "List.map_filter (day_by_ref s) weekday_order")
  case (Cons d ds)
  have "CHR '':'' \<in> set (schedule_day_text d lang)" by (simp add: schedule_day_text_def Let_def)
  then have "CHR '':'' \<in> set (schedule_full_text s lang)"
    using set_join_str [of "schedule_day_text d lang"
        "map (\<lambda>d. schedule_day_text d lang) (d # ds)" "''; ''"] Cons
    by (simp only: schedule_full_text_def) auto
  from not_blank [OF this ascii_not_space(1)] Cons show ?thesis by simp
qed (simp add: schedule_full_text_def)

text \<open>Whether a schedule column has a value does not depend on the language.\<close>

lemma schedule_value_blank:
  assumes "schedule_fact_value col url s l1 = Some v1"
  obtains v2 where "schedule_fact_value col url s l2 = Some v2" "trim_space v2 = '''' \<longleftrightarrow> trim_space v1 = ''''"
proof -
  from assms have "\<exists>v2. schedule_fact_value col url s l2 = Some v2 \<and> (trim_space v2 = '''' \<longleftrightarrow> trim_space v1 = '''')"
    by (auto simp: schedule_fact_value_def full_text_not_blank day_text_not_blank
        split: if_splits option.splits)
  with that show thesis by blast
qed

lemma nat_text_digits: "list_all is_digit (nat_text n) \<and> nat_text n \<noteq> ''''"
proof (induction n rule: nat_text.induct)
  case (1 n)
  have d: "is_digit (digit_char k)" if "k < 10" for k
  proof -
    have "k \<in> {0, 1, 2, 3, 4, 5, 6, 7, 8, 9}" using that by auto
    moreover have "\<forall>k \<in> {0, 1, 2, 3, 4, 5, 6, 7, 8, 9}. is_digit (digit_char k)" by code_simp
    ultimately show ?thesis by blast
  qed
  with 1 show ?case by (subst (1 2) nat_text.simps) simp
qed

lemma int_text_not_blank: "0 \<le> n \<Longrightarrow> trim_space (int_text n) \<noteq> ''''"
proof -
  assume "0 \<le> n"
  then have "int_text n = nat_text (nat n)" by (simp add: int_text_def)
  then have "is_digit (hd (int_text n))" "hd (int_text n) \<in> set (int_text n)"
    using nat_text_digits [of "nat n"] by (auto simp: list_all_iff)
  then show ?thesis using digit_not_space not_blank by blast
qed

lemma safe_number_not_blank: "number_is_js_safe s \<Longrightarrow> trim_space s \<noteq> ''''"
proof -
  assume a: "number_is_js_safe s"
  show ?thesis
  proof (cases "CHR ''.'' \<in> set s")
    case True
    then show ?thesis by (rule not_blank [OF _ ascii_not_space(2)])
  next
    case False
    then have "CHR ''.'' \<notin> set (takeWhile (\<lambda>c. c \<noteq> CHR ''e'' \<and> c \<noteq> CHR ''E'') s)"
      by (auto dest: set_takeWhileD)
    with a have "(s \<noteq> [] \<and> list_all is_digit s) \<or> (tl s \<noteq> [] \<and> list_all is_digit (tl s))"
      by (auto simp: number_is_js_safe_def Let_def parse_int64_def split: option.splits if_splits)
    then obtain ds where "ds \<noteq> []" "list_all is_digit ds" "set ds \<subseteq> set s"
      by (metis list.set_sel(2) order_refl subsetI tl_Nil)
    then have "is_digit (hd ds)" "hd ds \<in> set s" using hd_in_set by (auto simp: list_all_iff)
    then show ?thesis using digit_not_space not_blank by blast
  qed
qed

section \<open>A fresh catalog resolves\<close>

text \<open>
  What the natural keys of the tables guarantee: among the rows a customer may hear about, a reference
  names one. Services and delivery zones need no such hypothesis, the builders check them.
\<close>

definition refs_unique :: "kb \<Rightarrow> bool" where
  "refs_unique kb \<longleftrightarrow>
     distinct (map pr_ref (filter product_visible (kb_products kb)))
     \<and> distinct (map tf_ref (filter (\<lambda>t. active (tf_sales_status t)) (kb_tariffs kb)))
     \<and> distinct (map sp_ref (filter specialist_visible (kb_specialists kb)))
     \<and> distinct (map tp_slug (kb_topics kb))"

lemma find_unique:
  "distinct (map key (filter P rows)) \<Longrightarrow> r \<in> set rows \<Longrightarrow> P r \<Longrightarrow>
     find (\<lambda>x. key x = key r \<and> P x) rows = Some r"
  by (induction rows) (auto split: if_splits)

definition resolves :: "kb \<Rightarrow> fact_entry \<Rightarrow> bool" where
  "resolves kb f \<longleftrightarrow>
     f_token f = fact_token (f_table f) (f_ref f) (f_column f)
     \<and> check_kind (f_token f) f = Inr ()
     \<and> (\<forall>lang. \<exists>v. current_fact_value kb f lang = Inr v \<and> trim_space v \<noteq> '''')"

lemma not_empty_Inr: "not_empty f v = Inr w \<longleftrightarrow> w = v \<and> trim_space v \<noteq> ''''"
  by (auto simp: not_empty_def)

lemma add_fact_in:
  "f \<in> set (add_fact table ref col v) \<longleftrightarrow>
     trim_space v \<noteq> '''' \<and>
     f = \<lparr>f_token = fact_token table ref (fc_column col), f_table = table, f_ref = ref,
          f_column = fc_column col, f_label = fc_label col, f_kind = fc_kind col, f_reasoning = '''',
          f_usage = usage_note col\<rparr>"
  by (auto simp: add_fact_def)

lemma virtual_fact_resolves:
  assumes ok: "virtual_facts table ref facts reserved prose = Inr fs" and f: "f \<in> set fs"
  shows "f_token f = fact_token table ref (f_column f) \<and> f_table f = table \<and> f_ref f = ref
     \<and> is_virtual_kind (f_kind f)
     \<and> (\<exists>v. resolve_virtual_fact facts f lang = Inr v \<and> trim_space v \<noteq> '''')"
proof -
  from ok f have v: "validate_facts facts reserved prose = Inr ()"
    and fs: "fs = concat (map (virtual_entry table ref) facts)"
    by (auto simp: virtual_facts_def split: if_splits sum.splits)
  from v have each: "list_all fact_ok facts" "distinct (map af_ref facts)"
    by (auto simp: validate_facts_def result_simps validate_each_iff split: if_splits)
  from f fs obtain af where af: "af \<in> set facts" "f \<in> set (virtual_entry table ref af)" by auto
  then obtain p where "value_kind_and_text (af_value af) = Some p"
    by (cases "value_kind_and_text (af_value af)") (auto simp: virtual_entry_def)
  then obtain tx kind where k: "value_kind_and_text (af_value af) = Some (tx, kind)" by (cases p) auto
  with af(2) have fe: "f = \<lparr>f_token = fact_token table ref (af_ref af), f_table = table, f_ref = ref,
        f_column = af_ref af, f_label = af_ref af, f_kind = kind, f_reasoning = '''',
        f_usage = af_instruction af\<rparr>"
    and ns: "kind = KindVirtualString \<Longrightarrow> trim_space tx \<noteq> ''''"
    by (auto simp: virtual_entry_def split: if_splits)
  have num: "kind = KindVirtualNumber \<Longrightarrow> trim_space tx \<noteq> ''''"
    using bspec [OF each(1) [unfolded list_all_iff] af(1)] k
    by (auto simp: fact_ok_def intro!: safe_number_not_blank)
  have found: "find_by af_ref (af_ref af) facts = Some af"
    by (rule find_by_unique [OF each(2) af(1)])
  from virtual_kinds [OF k] show ?thesis
    using found k ns num wording_not_blank(1)
    by (auto simp: fe resolve_virtual_fact_def is_virtual_kind_def not_empty_def)
qed

lemmas entry_simps = resolves_def add_fact_in not_empty_Inr check_kind_def is_virtual_kind_def

lemma kind_of_column:
  "col \<in> set product_columns \<Longrightarrow> fact_column_spec ''product'' (fc_column col) = Some col"
  "col \<in> set tariff_columns \<Longrightarrow> fact_column_spec ''tariff'' (fc_column col) = Some col"
  "col \<in> set service_columns \<Longrightarrow> fact_column_spec ''service'' (fc_column col) = Some col"
  "col \<in> set contact_columns \<Longrightarrow> fact_column_spec ''contact'' (fc_column col) = Some col"
  "col \<in> set specialist_columns \<Longrightarrow> fact_column_spec ''specialist'' (fc_column col) = Some col"
  "col \<in> set policy_columns \<Longrightarrow> fact_column_spec ''policy'' (fc_column col) = Some col"
  "col \<in> set delivery_columns \<Longrightarrow> fact_column_spec ''delivery'' (fc_column col) = Some col"
proof -
  have d: "list_all (\<lambda>(t, cols). distinct (map fc_column cols)) fact_columns
      \<and> distinct (map fst fact_columns)"
    by code_simp
  have spec: "fact_column_spec t (fc_column col) = Some col"
    if a: "(t, cols) \<in> set fact_columns" "col \<in> set cols" for t cols
  proof -
    have "map_of fact_columns t = Some cols" by (rule map_of_is_SomeI [OF conjunct2 [OF d] a(1)])
    moreover have "distinct (map fc_column cols)"
      using bspec [OF conjunct1 [OF d, unfolded list_all_iff] a(1)] by (simp only: prod.case)
    ultimately show ?thesis by (simp only: fact_column_spec_def option.case find_by_unique [OF _ a(2)])
  qed
  show "col \<in> set product_columns \<Longrightarrow> fact_column_spec ''product'' (fc_column col) = Some col"
    "col \<in> set tariff_columns \<Longrightarrow> fact_column_spec ''tariff'' (fc_column col) = Some col"
    "col \<in> set service_columns \<Longrightarrow> fact_column_spec ''service'' (fc_column col) = Some col"
    "col \<in> set contact_columns \<Longrightarrow> fact_column_spec ''contact'' (fc_column col) = Some col"
    "col \<in> set specialist_columns \<Longrightarrow> fact_column_spec ''specialist'' (fc_column col) = Some col"
    "col \<in> set policy_columns \<Longrightarrow> fact_column_spec ''policy'' (fc_column col) = Some col"
    "col \<in> set delivery_columns \<Longrightarrow> fact_column_spec ''delivery'' (fc_column col) = Some col"
    by (rule spec; simp add: fact_columns_def)+
qed

lemma concrete_kinds:
  "col \<in> set (concat (map snd fact_columns)) \<Longrightarrow> \<not> is_virtual_kind (fc_kind col)"
proof -
  have "list_all (\<lambda>c. \<not> is_virtual_kind (fc_kind c)) (concat (map snd fact_columns))" by code_simp
  then show "col \<in> set (concat (map snd fact_columns)) \<Longrightarrow> \<not> is_virtual_kind (fc_kind col)"
    by (auto simp: list_all_iff)
qed

lemma product_resolves:
  assumes u: "refs_unique kb" and p: "p \<in> set (kb_products kb)" and ok: "product_facts p = Inr fs"
    and f: "f \<in> set fs"
  shows "resolves kb f"
proof -
  from ok f have vis: "product_visible p"
    by (auto simp: product_facts_def split: if_splits)
  have row: "current_product kb (pr_ref p) = Some p"
    using u p vis unfolding current_product_def refs_unique_def by (intro find_unique) auto
  from ok vis obtain vs where vs: "virtual_facts ''product'' (pr_ref p) (pr_facts p) product_concrete_columns
        (product_prose p) = Inr vs"
    and fs: "fs = concat (map (\<lambda>col. if fc_column col = ''price''
        then add_fact ''product'' (pr_ref p) col (pr_price p) else []) product_columns) @ vs"
    by (auto simp: product_facts_def result_simps split: if_splits)
  show ?thesis
  proof (cases "f \<in> set vs")
    case True
    from virtual_fact_resolves [OF vs True] row show ?thesis
      by (auto simp: resolves_def check_kind_def current_fact_value_def current_product_value_def)
  next
    case False
    with f fs obtain col where col: "col \<in> set product_columns" "fc_column col = ''price''"
      and fe: "f \<in> set (add_fact ''product'' (pr_ref p) col (pr_price p))"
      by (auto split: if_splits)
    have "\<not> is_virtual_kind (fc_kind col)" using col(1) by (auto intro!: concrete_kinds simp: fact_columns_def)
    with fe kind_of_column(1) [OF col(1)] row show ?thesis
      by (auto simp: resolves_def check_kind_def add_fact_in current_fact_value_def
          current_product_value_def not_empty_Inr col(2))
  qed
qed

lemma concrete_resolves:
  assumes cols: "(table, cols) \<in> set fact_columns" and col: "col \<in> set cols"
    and spec: "fact_column_spec table (fc_column col) = Some col"
    and f: "f \<in> set (add_fact table ref col v0)"
    and now: "\<And>lang. \<exists>v. current_fact_value kb f lang = Inr v \<and> trim_space v \<noteq> ''''"
  shows "resolves kb f"
proof -
  have "\<not> is_virtual_kind (fc_kind col)" using cols col by (intro concrete_kinds) force
  with f spec show ?thesis unfolding resolves_def using now
    by (auto simp: check_kind_def add_fact_in)
qed

lemma table_cols:
  "(''product'', product_columns) \<in> set fact_columns" "(''tariff'', tariff_columns) \<in> set fact_columns"
  "(''service'', service_columns) \<in> set fact_columns" "(''contact'', contact_columns) \<in> set fact_columns"
  "(''specialist'', specialist_columns) \<in> set fact_columns" "(''policy'', policy_columns) \<in> set fact_columns"
  "(''delivery'', delivery_columns) \<in> set fact_columns"
  by (simp_all add: fact_columns_def)

lemma tariff_resolves:
  assumes u: "refs_unique kb" and t: "t \<in> set (kb_tariffs kb)" and ok: "tariff_facts t = Inr fs"
    and f: "f \<in> set fs"
  shows "resolves kb f"
proof -
  from ok f have vis: "active (tf_sales_status t)"
    by (auto simp: tariff_facts_def split: if_splits)
  have row: "current_tariff kb (tf_ref t) = Some t"
    using u t vis unfolding current_tariff_def refs_unique_def by (intro find_unique) auto
  from ok vis obtain vs where vs: "virtual_facts ''tariff'' (tf_ref t) (tf_facts t) tariff_concrete_columns
        (tariff_prose t) = Inr vs"
    and fs: "fs = concat (map (\<lambda>col.
        if fc_column col = ''price'' then add_fact ''tariff'' (tf_ref t) col (tf_price t)
        else if fc_column col = ''fee'' then add_fact ''tariff'' (tf_ref t) col (tf_fee t) else []) tariff_columns) @ vs"
    by (auto simp: tariff_facts_def result_simps split: if_splits)
  show ?thesis
  proof (cases "f \<in> set vs")
    case True
    from virtual_fact_resolves [OF vs True] row show ?thesis
      by (auto simp: resolves_def check_kind_def current_fact_value_def current_tariff_value_def)
  next
    case False
    with f fs obtain col where col: "col \<in> set tariff_columns"
      and c: "fc_column col = ''price'' \<and> f \<in> set (add_fact ''tariff'' (tf_ref t) col (tf_price t))
        \<or> fc_column col = ''fee'' \<and> f \<in> set (add_fact ''tariff'' (tf_ref t) col (tf_fee t))"
      by (auto split: if_splits)
    have k: "\<not> is_virtual_kind (fc_kind col)"
      using col by (auto intro!: concrete_kinds simp: fact_columns_def)
    from c show ?thesis
      by (elim disjE conjE; intro concrete_resolves [OF table_cols(2) col kind_of_column(2) [OF col]])
        (auto simp: add_fact_in current_fact_value_def current_tariff_value_def not_empty_Inr row k)
  qed
qed

lemma tariff_info_resolves:
  assumes ok: "tariff_info_facts kb = Inr fs" and f: "f \<in> set fs"
  shows "resolves kb f"
proof -
  from ok f obtain facts where i: "kb_tariff_info kb = Some facts"
    and vs: "virtual_facts ''tariff_info'' singleton_ref facts [] [] = Inr fs"
    by (auto simp: tariff_info_facts_def split: option.splits)
  from virtual_fact_resolves [OF vs f] i show ?thesis
    by (auto simp: resolves_def check_kind_def current_fact_value_def current_tariff_info_value_def)
qed

lemma contact_resolves:
  assumes ok: "contact_facts kb = Inr fs" and f: "f \<in> set fs"
  shows "resolves kb f"
proof -
  from ok f obtain c sch where c: "kb_contacts kb = Some c" and sch: "normalize_schedule (ct_schedule c) = Inr sch"
    by (auto simp: contact_facts_def split: option.splits sum.splits)
  define vals where "vals = (if is_salon_organization kb \<and> length sch > 0
      then (''working_hours'', '''') # contact_values c else contact_values c)"
  from ok c sch have fs: "fs = concat (map (\<lambda>col.
      case schedule_fact_value (fc_column col) (ct_booking_url c) sch ''ru'' of
        Some v \<Rightarrow> add_fact ''contact'' singleton_ref col v
      | None \<Rightarrow> add_fact ''contact'' singleton_ref col (text_at vals (fc_column col))) contact_columns)"
    unfolding contact_facts_def Let_def vals_def by simp
  from f fs obtain col where col: "col \<in> set contact_columns"
    and fc: "f \<in> set (case schedule_fact_value (fc_column col) (ct_booking_url c) sch ''ru'' of
        Some v \<Rightarrow> add_fact ''contact'' singleton_ref col v
      | None \<Rightarrow> add_fact ''contact'' singleton_ref col (text_at vals (fc_column col)))"
    by auto
  note start = concrete_resolves [OF table_cols(4) col kind_of_column(4) [OF col]]
  show ?thesis
  proof (cases "schedule_fact_value (fc_column col) (ct_booking_url c) sch ''ru''")
    case None
    have nsl: "schedule_fact_value (fc_column col) (ct_booking_url c) sch lang = None" for lang
      using None by (auto simp: schedule_fact_value_def split: if_splits option.splits)
    from None fc have fc': "f \<in> set (add_fact ''contact'' singleton_ref col (text_at vals (fc_column col)))" by simp
    then have nb: "trim_space (text_at vals (fc_column col)) \<noteq> ''''" by (simp add: add_fact_in)
    then have same: "text_at vals (fc_column col) = text_at (contact_values c) (fc_column col)"
      by (auto simp: vals_def text_at_def split: if_splits)
    show ?thesis
      by (rule start [OF fc'])
        (use fc' nb same c sch nsl in \<open>auto simp: add_fact_in current_fact_value_def
           current_contact_value_def not_empty_Inr\<close>)
  next
    case (Some v)
    with fc have fc': "f \<in> set (add_fact ''contact'' singleton_ref col v)" by simp
    show ?thesis
    proof (rule start [OF fc'])
      fix lang
      obtain w where "schedule_fact_value (fc_column col) (ct_booking_url c) sch lang = Some w"
        "trim_space w = '''' \<longleftrightarrow> trim_space v = ''''"
        using schedule_value_blank [OF Some] by metis
      with fc' c sch show "\<exists>v. current_fact_value kb f lang = Inr v \<and> trim_space v \<noteq> ''''"
        by (auto simp: add_fact_in current_fact_value_def current_contact_value_def not_empty_Inr)
    qed
  qed
qed

lemma specialist_resolves:
  assumes u: "refs_unique kb" and s: "s \<in> set (kb_specialists kb)" and ok: "specialist_facts kb s = Inr fs"
    and f: "f \<in> set fs"
  shows "resolves kb f"
proof -
  define url where "url = resolved_booking_url (sp_booking_url s) (contact_booking_url kb)"
  from ok f have vis: "specialist_visible s"
    by (auto simp: specialist_facts_def split: if_splits)
  have row: "current_specialist kb (sp_ref s) = Some s"
    using u s vis unfolding current_specialist_def refs_unique_def by (intro find_unique) auto
  from ok vis obtain sch where sch: "normalize_schedule (sp_schedule s) = Inr sch"
    by (auto simp: specialist_facts_def result_simps split: sum.splits)
  have fs: "fs = concat (map (\<lambda>col. case schedule_fact_value (fc_column col) url sch ''ru'' of
        Some v \<Rightarrow> add_fact ''specialist'' (sp_ref s) col v | None \<Rightarrow> []) specialist_columns)"
    using ok vis sch unfolding specialist_facts_def Let_def url_def by (auto simp: result_simps)
  from f fs obtain col v where col: "col \<in> set specialist_columns"
    and v: "schedule_fact_value (fc_column col) url sch ''ru'' = Some v"
    and fc: "f \<in> set (add_fact ''specialist'' (sp_ref s) col v)"
  proof -
    from f fs obtain col where c: "col \<in> set specialist_columns"
      "f \<in> set (case schedule_fact_value (fc_column col) url sch ''ru'' of
        Some v \<Rightarrow> add_fact ''specialist'' (sp_ref s) col v | None \<Rightarrow> [])" by auto
    with that show thesis by (cases "schedule_fact_value (fc_column col) url sch ''ru''") auto
  qed
  show ?thesis
  proof (rule concrete_resolves [OF table_cols(5) col kind_of_column(5) [OF col] fc])
    fix lang
    obtain w where "schedule_fact_value (fc_column col) url sch lang = Some w"
      "trim_space w = '''' \<longleftrightarrow> trim_space v = ''''"
      using schedule_value_blank [OF v] by metis
    with fc row sch show "\<exists>v. current_fact_value kb f lang = Inr v \<and> trim_space v \<noteq> ''''"
      by (auto simp: add_fact_in current_fact_value_def current_specialist_value_def not_empty_Inr url_def)
  qed
qed

lemma check_services_distinct:
  "check_services seen svs = Inr () \<Longrightarrow> distinct (map sv_ref svs) \<and> set (map sv_ref svs) \<inter> set seen = {}"
  by (induction svs arbitrary: seen) (fastforce simp: result_simps split: if_splits)+

lemma check_zones_distinct:
  "check_zones seen zs = Inr () \<Longrightarrow> distinct (map dz_ref zs) \<and> set (map dz_ref zs) \<inter> set seen = {}"
  by (induction zs arbitrary: seen) (fastforce simp: result_simps split: if_splits)+

lemma service_resolves:
  assumes ok: "service_facts kb = Inr fs" and f: "f \<in> set fs"
  shows "resolves kb f"
proof -
  from ok have d: "distinct (map sv_ref (kb_services kb))"
    and fs: "fs = concat (map service_entries (kb_services kb))"
    by (auto simp: service_facts_def result_simps dest: check_services_distinct)
  from f fs obtain sv where sv: "sv \<in> set (kb_services kb)" and fe: "f \<in> set (service_entries sv)" by auto
  then have act: "active (sv_sales_status sv)" by (auto simp: service_entries_def split: if_splits)
  have row: "current_service kb (sv_ref sv) = Some sv"
    using d sv act unfolding current_service_def by (intro find_unique distinct_map_filter) auto
  from fe act obtain col where col: "col \<in> set service_columns"
    and c: "fc_column col = ''price'' \<and> f \<in> set (add_fact ''service'' (sv_ref sv) col (sv_price sv))
      \<or> fc_column col = ''duration'' \<and> (\<exists>n > 0. sv_duration sv = Some n
          \<and> f \<in> set (add_fact ''service'' (sv_ref sv) col (int_text n)))"
    by (auto simp: service_entries_def split: if_splits option.splits; metis)
  from c show ?thesis
    by (elim disjE conjE exE; intro concrete_resolves [OF table_cols(3) col kind_of_column(3) [OF col]])
      (auto simp: add_fact_in current_fact_value_def current_service_value_def not_empty_Inr row)
qed

lemma policy_resolves:
  assumes f: "f \<in> set (policy_facts kb)"
  shows "resolves kb f"
proof -
  from f obtain p col where p: "kb_policies kb = Some p" and col: "col \<in> set policy_columns"
    and fc: "f \<in> set (add_fact ''policy'' singleton_ref col (text_at (policy_values p) (fc_column col)))"
    by (auto simp: policy_facts_def split: option.splits; metis)
  show ?thesis
    by (rule concrete_resolves [OF table_cols(6) col kind_of_column(6) [OF col] fc])
      (use fc p in \<open>auto simp: add_fact_in current_fact_value_def current_policy_value_def not_empty_Inr\<close>)
qed

lemma flag_column: "col \<in> set delivery_columns \<Longrightarrow> fc_column col = ''delivery_available'' \<Longrightarrow> fc_kind col = KindDeliveryFlag"
  by (auto simp: delivery_columns_def plain_column_def unit_column_def)

lemma zone_resolves:
  assumes ok: "zone_facts kb = Inr fs" and f: "f \<in> set fs"
  shows "resolves kb f"
proof -
  from ok f have d: "distinct (map dz_ref (kb_zones kb))"
    and fs: "fs = concat (map zone_entries (kb_zones kb))"
    by (auto simp: zone_facts_def Let_def result_simps dest!: check_zones_distinct split: if_splits option.splits)
  from f fs obtain z where z: "z \<in> set (kb_zones kb)" and fe: "f \<in> set (zone_entries z)" by auto
  then have act: "active (dz_sales_status z)" by (auto simp: zone_entries_def split: if_splits)
  have row: "current_delivery_zone kb (dz_ref z) = Some z"
    using d z act unfolding current_delivery_zone_def by (intro find_unique distinct_map_filter) auto
  from fe act obtain col where col: "col \<in> set delivery_columns"
    and c: "fc_column col = ''delivery_cost'' \<and> f \<in> set (add_fact ''delivery'' (dz_ref z) col (dz_cost z))
      \<or> fc_column col = ''delivery_in_days'' \<and> f \<in> set (add_fact ''delivery'' (dz_ref z) col (dz_days z))
      \<or> fc_column col = ''delivery_available'' \<and> f \<in> set (add_delivery_flag_fact (dz_ref z) col (dz_available z))"
    by (auto simp: zone_entries_def split: if_splits)
  have k: "\<not> is_virtual_kind (fc_kind col)" using col by (auto intro!: concrete_kinds simp: fact_columns_def)
  from c consider
      (amount) v0 where "f \<in> set (add_fact ''delivery'' (dz_ref z) col v0)"
        "fc_column col = ''delivery_cost'' \<and> v0 = dz_cost z \<or> fc_column col = ''delivery_in_days'' \<and> v0 = dz_days z"
    | (flag) "fc_column col = ''delivery_available''"
        "f \<in> set (add_delivery_flag_fact (dz_ref z) col (dz_available z))"
    by blast
  then show ?thesis
  proof cases
    case amount
    show ?thesis
      by (rule concrete_resolves [OF table_cols(7) col kind_of_column(7) [OF col] amount(1)])
        (use amount row in \<open>auto simp: add_fact_in current_fact_value_def current_delivery_value_def not_empty_Inr\<close>)
  next
    case flag
    with kind_of_column(7) [OF col] k row wording_not_blank(2) show ?thesis
      by (auto simp: resolves_def add_delivery_flag_fact_def check_kind_def current_fact_value_def
          current_delivery_value_def)
  qed
qed

lemma built_facts_resolve:
  assumes u: "refs_unique kb" and ok: "build_facts kb = Inr fs" and f: "f \<in> set fs"
  shows "resolves kb f"
proof -
  from ok obtain ps ts infos cs zs ss vs where parts:
      "collectE product_facts (kb_products kb) = Inr ps" "collectE tariff_facts (kb_tariffs kb) = Inr ts"
      "tariff_info_facts kb = Inr infos" "contact_facts kb = Inr cs" "zone_facts kb = Inr zs"
      "collectE (specialist_facts kb) (kb_specialists kb) = Inr ss" "service_facts kb = Inr vs"
    and fs: "fs = ps @ ts @ infos @ cs @ policy_facts kb @ zs @ ss @ vs"
    by (auto simp: build_facts_def result_simps)
  from f fs consider "f \<in> set ps" | "f \<in> set ts" | "f \<in> set infos" | "f \<in> set cs"
    | "f \<in> set (policy_facts kb)" | "f \<in> set zs" | "f \<in> set ss" | "f \<in> set vs"
    by auto
  then show ?thesis
  proof cases
    case 1
    from collectE_Inr [OF parts(1) 1] product_resolves [OF u] show ?thesis by blast
  next
    case 2
    from collectE_Inr [OF parts(2) 2] tariff_resolves [OF u] show ?thesis by blast
  next
    case 7
    from collectE_Inr [OF parts(6) 7] specialist_resolves [OF u] show ?thesis by blast
  qed (use parts in \<open>auto intro: tariff_info_resolves contact_resolves policy_resolves zone_resolves
         service_resolves\<close>)
qed

text \<open>
  C38: what a catalog offers can be delivered. Whenever the catalog of a knowledge base can be built,
  every fact token in it resolves against that knowledge base in both reply languages, to a value that is
  not blank, so an answer that copies offered tokens never fails for their sake.
\<close>

theorem offered_tokens_resolve:
  assumes "build_catalog kb = Inr cat" and "refs_unique kb" and "f \<in> set (cat_facts cat)"
  shows "\<exists>v. resolve_fact_lang (f_token f) (Some kb) (Some cat) lang = Inr v \<and> trim_space v \<noteq> ''''"
proof -
  have fs: "build_facts kb = Inr (cat_facts cat)"
    using assms(1) by (auto simp: build_catalog_def result_simps)
  obtain g where g: "fact_by_token cat (f_token f) = Some g"
    using assms(3) find_by_None [of f_token "f_token f" "cat_facts cat"]
    by (cases "fact_by_token cat (f_token f)") (auto simp: fact_by_token_def)
  then have gin: "g \<in> set (cat_facts cat)" and tok: "f_token g = f_token f"
    using find_by_Some [of f_token "f_token f" "cat_facts cat" g] by (auto simp: fact_by_token_def)
  from built_facts_resolve [OF assms(2) fs gin] obtain v where
    "f_token g = fact_token (f_table g) (f_ref g) (f_column g)" "check_kind (f_token g) g = Inr ()"
    "current_fact_value kb g lang = Inr v" "trim_space v \<noteq> ''''"
    unfolding resolves_def by blast
  then show ?thesis using g tok by (auto simp: resolve_fact_lang_def)
qed

section \<open>What is sent\<close>

definition sendable :: "kb \<Rightarrow> material \<Rightarrow> bool" where
  "sendable kb m \<longleftrightarrow>
     material_by_id kb (mt_id m) = Some m
     \<and> (kb_organization kb = '''' \<or> mt_organization m = kb_organization kb)
     \<and> mt_source_type m = ''file'' \<and> mt_storage_backend m \<noteq> '''' \<and> mt_storage_key m \<noteq> ''''
     \<and> 0 < mt_size m \<and> (mt_visibility m = ''visible'' \<or> mt_visibility m = ''auto'')"

lemma material_by_id_id: "material_by_id kb i = Some m \<Longrightarrow> mt_id m = i"
  by (auto simp: material_by_id_def dest: find_by_Some)

lemma validate_material_ref_iff:
  "validate_material_ref kb i spec table ref = Inr () \<longleftrightarrow>
     (\<exists>m. material_by_id kb i = Some m \<and> sendable kb m \<and> mime_matches (mc_kind spec) (mt_mime m))"
  using material_by_id_id [of kb i]
  by (cases "material_by_id kb i") (auto simp: validate_material_ref_def sendable_def Let_def)

lemma send_ids_result:
  assumes "send_ids kb m spec tok seen is = Inr (out, seen')"
  shows "set seen' = set seen \<union> set is
    \<and> distinct (map (mt_id \<circ> rm_material) out)
    \<and> set (map (mt_id \<circ> rm_material) out) = set is - set seen
    \<and> (\<forall>r \<in> set out. rm_token r = tok \<and> sendable kb (rm_material r)
          \<and> mime_matches (mc_kind spec) (mt_mime (rm_material r)))"
  using assms
proof (induction "is" arbitrary: seen out)
  case (Cons i ids)
  from Cons.prems obtain mat where mat: "material_by_id kb i = Some mat" "sendable kb mat"
      "mime_matches (mc_kind spec) (mt_mime mat)"
    by (auto simp: validate_material_ref_iff split: sum.splits)
  show ?case
  proof (cases "i \<in> set seen")
    case True
    with Cons.prems Cons.IH [of seen out] show ?thesis by (auto split: sum.splits)
  next
    case False
    with Cons.prems mat(1) obtain out1 where o1: "send_ids kb m spec tok (i # seen) ids = Inr (out1, seen')"
      and out: "out = \<lparr>rm_token = tok, rm_material = mat\<rparr> # out1"
      by (auto simp: result_simps split: sum.splits)
    from Cons.IH [OF o1] out mat material_by_id_id [OF mat(1)] False show ?thesis by auto
  qed
qed auto

lemma send_ids_succeeds:
  "\<forall>i \<in> set is. validate_material_ref kb i spec (m_table m) (m_ref m) = Inr () \<Longrightarrow>
     \<exists>out seen'. send_ids kb m spec tok seen is = Inr (out, seen')"
proof (induction "is" arbitrary: seen)
  case (Cons i ids)
  then have v: "validate_material_ref kb i spec (m_table m) (m_ref m) = Inr ()" by simp
  then obtain mat where mat: "material_by_id kb i = Some mat" by (auto simp: validate_material_ref_iff)
  obtain out seen' where o: "send_ids kb m spec tok seen ids = Inr (out, seen')"
    using Cons.IH [of seen] Cons.prems by auto
  obtain out1 seen1 where "send_ids kb m spec tok (i # seen) ids = Inr (out1, seen1)"
    using Cons.IH [of "i # seen"] Cons.prems by auto
  with v mat o show ?case by simp
qed simp

text \<open>A row the customer may hear about, by the table segment of a media token.\<close>

definition live_owner :: "kb \<Rightarrow> string \<Rightarrow> string \<Rightarrow> bool" where
  "live_owner kb table ref \<longleftrightarrow>
     table = ''topics'' \<and> (\<exists>t \<in> set (kb_topics kb). tp_slug t = ref)
     \<or> table = ''products'' \<and> (\<exists>p \<in> set (kb_products kb). pr_ref p = ref \<and> product_visible p)
     \<or> table = ''tariffs'' \<and> (\<exists>t \<in> set (kb_tariffs kb). tf_ref t = ref \<and> active (tf_sales_status t))
     \<or> table = ''contacts'' \<and> ref = singleton_ref \<and> kb_contacts kb \<noteq> None
     \<or> table = ''policies'' \<and> ref = singleton_ref \<and> kb_policies kb \<noteq> None
     \<or> table = ''specialists'' \<and> (\<exists>s \<in> set (kb_specialists kb). sp_ref s = ref \<and> specialist_visible s)"

lemma find_in: "find P xs = Some x \<Longrightarrow> x \<in> set xs \<and> P x"
  by (auto simp: find_Some_iff)

lemma ids_now_live: "media_ids_now kb m \<noteq> [] \<Longrightarrow> live_owner kb (m_table m) (m_ref m)"
proof -
  assume a: "media_ids_now kb m \<noteq> []"
  have "m_table m \<in> {''topics'', ''products'', ''tariffs'', ''contacts'', ''policies'', ''specialists''}"
    by (rule ccontr) (use a in \<open>simp add: media_ids_now_def\<close>)
  then consider "m_table m = ''topics''" | "m_table m = ''products''" | "m_table m = ''tariffs''"
    | "m_table m = ''contacts''" | "m_table m = ''policies''" | "m_table m = ''specialists''"
    by blast
  then show ?thesis
  proof cases
    case 1
    with a show ?thesis
      by (auto simp: media_ids_now_def live_owner_def first_topic_def dest!: find_by_Some split: option.splits)
  next
    case 2
    with a show ?thesis
      by (auto simp: media_ids_now_def live_owner_def current_product_def dest!: find_in split: option.splits)
  next
    case 3
    with a show ?thesis
      by (auto simp: media_ids_now_def live_owner_def current_tariff_def dest!: find_in split: option.splits)
  next
    case 6
    with a show ?thesis
      by (auto simp: media_ids_now_def live_owner_def current_specialist_def dest!: find_in split: option.splits)
  qed (use a in \<open>auto simp: media_ids_now_def live_owner_def split: option.splits if_splits\<close>)
qed

lemma current_ids_Inr: "current_media_ids kb m = Inr ids \<longleftrightarrow> ids = media_ids_now kb m \<and> ids \<noteq> []"
  by (auto simp: current_media_ids_def Let_def)

lemma current_ids_live: "current_media_ids kb m = Inr ids \<Longrightarrow> live_owner kb (m_table m) (m_ref m)"
  using ids_now_live [of kb m] by (metis current_ids_Inr)

definition sent_for :: "kb \<Rightarrow> catalog \<Rightarrow> string \<Rightarrow> media_entry \<Rightarrow> media_column \<Rightarrow> string list \<Rightarrow> bool" where
  "sent_for kb cat tok m spec ids \<longleftrightarrow>
     media_by_token cat tok = Some m \<and> media_column_spec (m_table m) (m_column m) = Some spec
     \<and> current_media_ids kb m = Inr ids \<and> (mc_singular spec \<longrightarrow> length ids \<le> 1)"

lemma send_token_result:
  assumes "send_token kb cat tok seen = Inr (out, seen')"
  obtains m spec ids where "sent_for kb cat tok m spec ids" "send_ids kb m spec tok seen ids = Inr (out, seen')"
  using assms
  by (auto simp: send_token_def sent_for_def result_simps split: option.splits if_splits)

lemma send_tokens_result:
  assumes "send_tokens kb cat seen_tok seen tokens = Inr out"
  shows "distinct (map (mt_id \<circ> rm_material) out)
    \<and> set (map (mt_id \<circ> rm_material) out) \<inter> set seen = {}
    \<and> (\<forall>r \<in> set out. rm_token r \<in> set tokens \<and> sendable kb (rm_material r)
        \<and> (\<exists>m spec ids. sent_for kb cat (rm_token r) m spec ids \<and> mt_id (rm_material r) \<in> set ids
              \<and> mime_matches (mc_kind spec) (mt_mime (rm_material r))))
    \<and> (\<forall>tok \<in> set tokens - set seen_tok. \<exists>m spec ids. sent_for kb cat tok m spec ids
          \<and> set ids \<subseteq> set seen \<union> set (map (mt_id \<circ> rm_material) out))"
  using assms
proof (induction tokens arbitrary: seen_tok seen out)
  case (Cons tok toks)
  show ?case
  proof (cases "tok \<in> set seen_tok")
    case True
    with Cons.prems Cons.IH [of seen_tok seen out] show ?thesis by auto
  next
    case False
    with Cons.prems obtain out1 seen1 rest where t: "send_token kb cat tok seen = Inr (out1, seen1)"
      and r: "send_tokens kb cat (tok # seen_tok) seen1 toks = Inr rest" and out: "out = out1 @ rest"
      by (auto simp: result_simps)
    obtain m spec ids where s: "sent_for kb cat tok m spec ids"
      and i: "send_ids kb m spec tok seen ids = Inr (out1, seen1)"
      using send_token_result [OF t] .
    note head = send_ids_result [OF i] and tail = Cons.IH [OF r]
    have d: "distinct (map (mt_id \<circ> rm_material) out)"
      using head tail out by (auto simp: comp_def)
    have dis: "set (map (mt_id \<circ> rm_material) out) \<inter> set seen = {}" using head tail out by auto
    have each: "\<forall>r \<in> set out. rm_token r \<in> set (tok # toks) \<and> sendable kb (rm_material r)
        \<and> (\<exists>m spec ids. sent_for kb cat (rm_token r) m spec ids \<and> mt_id (rm_material r) \<in> set ids
              \<and> mime_matches (mc_kind spec) (mt_mime (rm_material r)))"
    proof
      fix r assume "r \<in> set out"
      then consider "r \<in> set out1" | "r \<in> set rest" using out by auto
      then show "rm_token r \<in> set (tok # toks) \<and> sendable kb (rm_material r)
        \<and> (\<exists>m spec ids. sent_for kb cat (rm_token r) m spec ids \<and> mt_id (rm_material r) \<in> set ids
              \<and> mime_matches (mc_kind spec) (mt_mime (rm_material r)))"
      proof cases
        case 1
        then have "mt_id (rm_material r) \<in> set ids" using head by force
        moreover from 1 head have "rm_token r = tok" "sendable kb (rm_material r)"
          "mime_matches (mc_kind spec) (mt_mime (rm_material r))" by auto
        ultimately show ?thesis using s by auto
      qed (use tail in auto)
    qed
    have "\<forall>t \<in> set (tok # toks) - set seen_tok. \<exists>m spec ids. sent_for kb cat t m spec ids
          \<and> set ids \<subseteq> set seen \<union> set (map (mt_id \<circ> rm_material) out)"
    proof
      fix t assume t: "t \<in> set (tok # toks) - set seen_tok"
      show "\<exists>m spec ids. sent_for kb cat t m spec ids
          \<and> set ids \<subseteq> set seen \<union> set (map (mt_id \<circ> rm_material) out)"
      proof (cases "t = tok")
        case True
        moreover have "set ids \<subseteq> set seen \<union> set (map (mt_id \<circ> rm_material) out)" using head out by auto
        ultimately show ?thesis using s by blast
      next
        case False
        with t have "t \<in> set toks - set (tok # seen_tok)" by auto
        with tail obtain m spec ids where x: "sent_for kb cat t m spec ids"
            "set ids \<subseteq> set seen1 \<union> set (map (mt_id \<circ> rm_material) rest)" by meson
        have "set seen1 \<subseteq> set seen \<union> set (map (mt_id \<circ> rm_material) out1)" using head by auto
        with x(2) out have "set ids \<subseteq> set seen \<union> set (map (mt_id \<circ> rm_material) out)" by auto
        with x(1) show ?thesis by blast
      qed
    qed
    with d dis each show ?thesis by blast
  qed
qed simp

text \<open>
  C39: what leaves the storage boundary. If the media tokens of an answer resolve, every material that
  would be sent belongs to the organization, is a stored, non-empty, customer-visible file of the kind
  its column accepts, and is referenced right now by a live row under a token of the answer; no material
  is sent twice, and every material the answer's tokens refer to is sent.
\<close>

theorem sent_media_is_safe:
  assumes "resolve_send tokens (Some kb) (Some cat) = Inr out"
  shows "distinct (map (mt_id \<circ> rm_material) out)
    \<and> (\<forall>r \<in> set out. rm_token r \<in> set tokens \<and> sendable kb (rm_material r)
        \<and> (\<exists>m spec ids. sent_for kb cat (rm_token r) m spec ids \<and> mt_id (rm_material r) \<in> set ids
              \<and> mime_matches (mc_kind spec) (mt_mime (rm_material r))
              \<and> live_owner kb (m_table m) (m_ref m)))
    \<and> (\<forall>tok \<in> set tokens. \<exists>m spec ids. sent_for kb cat tok m spec ids
          \<and> set ids \<subseteq> set (map (mt_id \<circ> rm_material) out))"
proof -
  have "send_tokens kb cat [] [] tokens = Inr out" using assms by (simp add: resolve_send_def)
  from send_tokens_result [OF this] show ?thesis
    unfolding sent_for_def using current_ids_live by fastforce
qed

section \<open>Offered media can be sent\<close>

lemma built_owners:
  assumes "build_media kb = Inr (ms, absents)" and "m \<in> set ms"
  obtains ow spec where
    "ow \<in> set (row_owners kb) \<or> (\<exists>t \<in> set (kb_topics kb). ow = media_owner ''topics'' (tp_slug t) (tp_title t) (topic_media t))"
    "spec \<in> set (media_columns_for (ow_table ow))" "column_media kb ow spec = Inr [m]"
proof -
  from assms(1) obtain tops oms where t: "collectE topic_owner (kb_topics kb) = Inr tops"
    and o: "collectE (owner_media kb) (tops @ row_owners kb) = Inr oms" and ms: "ms = concat (map snd oms)"
    by (auto simp: build_media_def result_simps)
  from assms(2) ms obtain om where om: "om \<in> set oms" "m \<in> set (snd om)" by auto
  from collectE_Inr [OF o om(1)] obtain ow1 zs where ow: "ow1 \<in> set (tops @ row_owners kb)"
    "owner_media kb ow1 = Inr zs" "om \<in> set zs" by blast
  then obtain mcols where c: "collectE (column_media kb ow1) (media_columns_for (ow_table ow1)) = Inr mcols"
    "m \<in> set mcols" using om(2) by (auto simp: owner_media_def result_simps)
  from collectE_Inr [OF c] obtain spec ys where s: "spec \<in> set (media_columns_for (ow_table ow1))"
    "column_media kb ow1 spec = Inr ys" "m \<in> set ys" by blast
  then have "column_media kb ow1 spec = Inr [m]"
    by (auto simp: column_media_def Let_def result_simps split: if_splits)
  moreover have "ow1 \<in> set (row_owners kb) \<or>
      (\<exists>t \<in> set (kb_topics kb). ow1 = media_owner ''topics'' (tp_slug t) (tp_title t) (topic_media t))"
    using ow(1) by (auto simp: topic_owner_def result_simps dest!: collectE_Inr [OF t])
  ultimately show thesis using s(1) that by blast
qed

lemma owner_ids_now:
  assumes u: "refs_unique kb"
    and ow: "ow \<in> set (row_owners kb)
      \<or> (\<exists>t \<in> set (kb_topics kb). ow = media_owner ''topics'' (tp_slug t) (tp_title t) (topic_media t))"
    and m: "m_table m = ow_table ow" "m_ref m = ow_ref ow"
  shows "media_ids_now kb m = ids_at (ow_values ow) (m_column m)"
proof -
  from ow consider
      (topic) t where "t \<in> set (kb_topics kb)" "ow = media_owner ''topics'' (tp_slug t) (tp_title t) (topic_media t)"
    | (product) p where "p \<in> set (kb_products kb)" "product_visible p"
        "ow = media_owner ''products'' (pr_ref p) (pr_name p) (product_media p)"
    | (tariff) t where "t \<in> set (kb_tariffs kb)" "active (tf_sales_status t)"
        "ow = media_owner ''tariffs'' (tf_ref t) (tf_name t) (tariff_media t)"
    | (contacts) c where "kb_contacts kb = Some c"
        "ow = media_owner ''contacts'' singleton_ref contacts_display (contacts_media c)"
    | (policies) p where "kb_policies kb = Some p"
        "ow = media_owner ''policies'' singleton_ref policies_display (policies_media p)"
    | (specialist) s where "s \<in> set (kb_specialists kb)" "specialist_visible s"
        "ow = media_owner ''specialists'' (sp_ref s) (sp_name s) (specialist_media s)"
    by (cases "kb_contacts kb"; cases "kb_policies kb") (auto simp: row_owners_def)
  then show ?thesis
  proof cases
    case topic
    have "first_topic kb (tp_slug t) = Some t"
      using u topic(1) unfolding first_topic_def refs_unique_def by (intro find_by_unique) auto
    with topic(2) m show ?thesis by (simp add: media_owner_def media_ids_now_def)
  next
    case product
    have "current_product kb (pr_ref p) = Some p"
      using u product unfolding current_product_def refs_unique_def by (intro find_unique) auto
    with product(3) m show ?thesis by (simp add: media_owner_def media_ids_now_def)
  next
    case tariff
    have "current_tariff kb (tf_ref t) = Some t"
      using u tariff unfolding current_tariff_def refs_unique_def by (intro find_unique) auto
    with tariff(3) m show ?thesis by (simp add: media_owner_def media_ids_now_def)
  next
    case specialist
    have "current_specialist kb (sp_ref s) = Some s"
      using u specialist unfolding current_specialist_def refs_unique_def by (intro find_unique) auto
    with specialist(3) m show ?thesis by (simp add: media_owner_def media_ids_now_def)
  qed (use m in \<open>simp_all add: media_owner_def media_ids_now_def\<close>)
qed

lemma media_spec_of_column:
  "spec \<in> set (media_columns_for table) \<Longrightarrow> media_column_spec table (mc_column spec) = Some spec"
proof -
  assume a: "spec \<in> set (media_columns_for table)"
  then obtain cols where c: "map_of media_columns table = Some cols" "spec \<in> set cols"
    by (cases "map_of media_columns table") (auto simp: media_columns_for_def)
  have d: "list_all (\<lambda>(t, cols). distinct (map mc_column cols)) media_columns" by code_simp
  have "distinct (map mc_column cols)"
    using bspec [OF d [unfolded list_all_iff] map_of_SomeD [OF c(1)]] by (simp only: prod.case)
  then show ?thesis by (simp only: media_column_spec_def c(1) option.case find_by_unique [OF _ c(2)])
qed

lemma offered_media_token:
  assumes u: "refs_unique kb" and b: "build_media kb = Inr (cat_media cat, absents)"
    and tok: "tok \<in> m_token ` set (cat_media cat)"
  shows "\<exists>out seen'. send_token kb cat tok seen = Inr (out, seen')"
proof -
  obtain m where m: "media_by_token cat tok = Some m"
    using tok find_by_None [of m_token tok "cat_media cat"]
    by (cases "media_by_token cat tok") (auto simp: media_by_token_def)
  then have min: "m \<in> set (cat_media cat)"
    using find_by_Some [of m_token tok "cat_media cat" m] by (auto simp: media_by_token_def)
  obtain ow spec where ow: "ow \<in> set (row_owners kb)
      \<or> (\<exists>t \<in> set (kb_topics kb). ow = media_owner ''topics'' (tp_slug t) (tp_title t) (topic_media t))"
    and spec: "spec \<in> set (media_columns_for (ow_table ow))" and c: "column_media kb ow spec = Inr [m]"
    by (rule built_owners [OF b min])
  let ?ids = "ids_at (ow_values ow) (mc_column spec)"
  from c have fields: "m_table m = ow_table ow" "m_ref m = ow_ref ow" "m_column m = mc_column spec"
      "m_token m = media_token (ow_table ow) (ow_ref ow) (mc_column spec)"
    and ids: "?ids \<noteq> []" "\<not> (mc_singular spec \<and> length ?ids > 1)"
      "check_all (\<lambda>i. validate_material_ref kb i spec (ow_table ow) (ow_ref ow)) ?ids = Inr ()"
    by (auto simp: column_media_def Let_def result_simps split: if_splits)
  have now: "current_media_ids kb m = Inr ?ids"
    using owner_ids_now [OF u ow fields(1,2)] ids(1) by (simp add: current_ids_Inr fields(3))
  obtain out seen' where "send_ids kb m spec tok seen ?ids = Inr (out, seen')"
    using send_ids_succeeds [of ?ids kb spec m tok seen] ids(3) fields by (auto simp: check_all_iff)
  with m now ids(2) fields media_spec_of_column [OF spec] show ?thesis
    by (auto simp: send_token_def)
qed

text \<open>
  Every media token a freshly built catalog offers can be sent, alone or with others, because each
  still names a live row whose materials passed the fail-closed checks.
\<close>

theorem offered_media_sends:
  assumes "build_catalog kb = Inr cat" and "refs_unique kb"
    and "set tokens \<subseteq> m_token ` set (cat_media cat)"
  shows "\<exists>out. resolve_send tokens (Some kb) (Some cat) = Inr out"
proof -
  obtain absents where b: "build_media kb = Inr (cat_media cat, absents)"
    using assms(1) by (auto simp: build_catalog_def result_simps)
  have "\<exists>out. send_tokens kb cat seen_tok seen tokens = Inr out" for seen_tok seen
    using assms(3)
  proof (induction tokens arbitrary: seen_tok seen)
    case (Cons tok toks)
    obtain out seen' where t: "send_token kb cat tok seen = Inr (out, seen')"
      using offered_media_token [OF assms(2) b, of tok seen] Cons.prems by auto
    obtain r1 where "send_tokens kb cat (tok # seen_tok) seen' toks = Inr r1"
      using Cons.IH [of "tok # seen_tok" seen'] Cons.prems by auto
    moreover obtain r2 where "send_tokens kb cat seen_tok seen toks = Inr r2"
      using Cons.IH [of seen_tok seen] Cons.prems by auto
    ultimately show ?case using t by simp
  qed simp
  then show ?thesis by (simp add: resolve_send_def)
qed

section \<open>Substitution\<close>

lemma substitute_pieces_iff:
  "substitute_pieces resolve ps = Inr out \<longleftrightarrow>
     list_all (\<lambda>tok. \<exists>v. resolve tok = Inr v) (placeholders_of ps)
     \<and> out = concat (map (\<lambda>p. case p of Plain c \<Rightarrow> [c] | Placeholder tok \<Rightarrow> projr (resolve tok)) ps)"
proof (induction ps arbitrary: out)
  case (Cons p ps)
  show ?case by (cases p) (auto simp: result_simps Cons.IH)
qed auto

text \<open>
  What substitution returns. It succeeds exactly when every placeholder of the text resolves and
  the finished text contains no brace; then each placeholder is replaced by its value of now and every
  other character stays as it is, so no unresolved or half-written token reaches a customer.
\<close>

theorem substitution_exact:
  "substitute_facts_lang s kbo cato lang = Inr out \<longleftrightarrow>
     list_all (\<lambda>tok. \<exists>v. resolve_fact_lang tok kbo cato lang = Inr v) (find_placeholders s)
     \<and> out = concat (map (\<lambda>p. case p of Plain c \<Rightarrow> [c]
                                 | Placeholder tok \<Rightarrow> projr (resolve_fact_lang tok kbo cato lang)) (pieces s))
     \<and> CHR ''{'' \<notin> set out \<and> CHR ''}'' \<notin> set out"
proof -
  have step: "(\<exists>x. (P \<and> x = c) \<and> (if contains_any x ''{}'' then Inl e else Inr x) = Inr out) \<longleftrightarrow>
      P \<and> out = c \<and> CHR ''{'' \<notin> set out \<and> CHR ''}'' \<notin> set out" for P c and e :: resolve_error
    by (auto simp: contains_any_def list_ex_iff)
  show ?thesis
    unfolding substitute_facts_lang_def find_placeholders_def bindE_Inr substitute_pieces_iff by (rule step)
qed

section \<open>A concrete knowledge base\<close>

definition sample_product :: product where
  "sample_product =
     \<lparr>pr_ref = ''tv'', pr_name = ''TV'', pr_price = ''5000 KZT'', pr_description = '''',
      pr_category = '''', pr_brand = '''', pr_advantages = '''', pr_disadvantages = '''', pr_best_for = '''',
      pr_not_for = '''', pr_availability = ''in_stock'', pr_availability_note = '''', pr_installation = '''',
      pr_warranty = '''',
      pr_facts = [\<lparr>af_ref = ''weight'', af_value = FactNumber ''12'', af_instruction = ''kg''\<rparr>,
                  \<lparr>af_ref = ''smart'', af_value = FactBool True, af_instruction = ''y?''\<rparr>],
      pr_sales_status = ''active'', pr_featured_image = '''', pr_gallery = [''m1'', ''m2''], pr_videos = [],
      pr_certificates = [], pr_guarantees = []\<rparr>"

definition sample_image :: "string \<Rightarrow> material" where
  "sample_image i =
     \<lparr>mt_id = i, mt_organization = ''org'', mt_source_type = ''file'', mt_source_ref = '''',
      mt_filename = '''', mt_mime = ''image/png'', mt_size = 10, mt_storage_backend = ''fs'',
      mt_storage_key = ''k'', mt_processing = '''', mt_visibility = ''visible''\<rparr>"

definition sample_kb :: kb where
  "sample_kb =
     \<lparr>kb_organization = ''org'', kb_assistant = None, kb_topics = [],
      kb_products = [sample_product, sample_product\<lparr>pr_ref := ''old'', pr_availability := ''unavailable''\<rparr>],
      kb_tariffs = [], kb_contacts = None, kb_policies = None, kb_tariff_info = None, kb_zones = [],
      kb_specialists = [], kb_services = [], kb_materials = [sample_image ''m1'', sample_image ''m2'']\<rparr>"

definition sample_entry :: "string \<Rightarrow> string \<Rightarrow> value_kind \<Rightarrow> string \<Rightarrow> fact_entry" where
  "sample_entry col label kind note =
     \<lparr>f_token = fact_token ''product'' ''tv'' col, f_table = ''product'', f_ref = ''tv'', f_column = col,
      f_label = label, f_kind = kind, f_reasoning = '''', f_usage = note\<rparr>"

definition sample_catalog :: catalog where
  "sample_catalog =
     \<lparr>cat_facts =
        [sample_entry ''price'' price_label KindMoneyDisplay (usage_note (plain_column ''price'' price_label KindMoneyDisplay)),
         sample_entry ''weight'' ''weight'' KindVirtualNumber ''kg'',
         sample_entry ''smart'' ''smart'' KindVirtualBoolean ''y?''],
      cat_media = map (\<lambda>c. \<lparr>m_token = media_token ''products'' ''tv'' (mc_column c), m_table = ''products'',
          m_ref = ''tv'', m_column = mc_column c, m_label = mc_label c, m_kind = mc_kind c,
          m_count = (if mc_singular c then 1 else 2)\<rparr>) (take 2 (media_columns_for ''products'')),
      cat_absent = []\<rparr>"

lemma sample_facts: "build_facts sample_kb = Inr (cat_facts sample_catalog)"
proof -
  have "virtual_facts ''product'' ''tv'' (pr_facts sample_product) product_concrete_columns
      (product_prose sample_product) = Inr (tl (cat_facts sample_catalog))"
    by code_simp
  moreover have "concat (map (\<lambda>col. if fc_column col = ''price''
      then add_fact ''product'' (pr_ref sample_product) col (pr_price sample_product) else []) product_columns)
      = [hd (cat_facts sample_catalog)]"
    by code_simp
  moreover have "valid_ref ''tv'' = Inr ()" "product_visible sample_product"
    "pr_availability sample_product \<in> set valid_availability_statuses" "pr_ref sample_product = ''tv''"
    by code_simp+
  ultimately have tv: "product_facts sample_product = Inr (cat_facts sample_catalog)"
    by (simp add: product_facts_def sample_catalog_def)
  have old: "product_facts (sample_product\<lparr>pr_ref := ''old'', pr_availability := ''unavailable''\<rparr>) = Inr []"
    by code_simp
  have "collectE product_facts (kb_products sample_kb) = Inr (cat_facts sample_catalog)"
    by (simp add: sample_kb_def tv old)
  then show ?thesis
    by (simp add: build_facts_def sample_kb_def tariff_info_facts_def contact_facts_def zone_facts_def
        service_facts_def policy_facts_def)
qed

lemma sample_built: "build_catalog sample_kb = Inr sample_catalog"
proof -
  have "build_media sample_kb = Inr (cat_media sample_catalog, cat_absent sample_catalog)" by code_simp
  then show ?thesis by (simp add: build_catalog_def sample_facts)
qed

lemma sample_unique: "refs_unique sample_kb"
  unfolding refs_unique_def by code_simp

lemma offered_tokens_resolve_witness:
  "\<exists>v. resolve_fact_lang (f_token (hd (cat_facts sample_catalog))) (Some sample_kb) (Some sample_catalog) ''kk'' = Inr v
     \<and> trim_space v \<noteq> ''''"
  by (rule offered_tokens_resolve [OF sample_built sample_unique]) (simp add: sample_catalog_def)

lemma offered_media_sends_witness:
  "\<exists>out. resolve_send [''products.tv.gallery_images'', ''products.tv.featured_image'']
     (Some sample_kb) (Some sample_catalog) = Inr out"
proof (rule offered_media_sends [OF sample_built sample_unique])
  have "m_token ` set (cat_media sample_catalog) = set (map m_token (cat_media sample_catalog))" by simp
  also have "map m_token (cat_media sample_catalog) = [''products.tv.featured_image'', ''products.tv.gallery_images'']"
    by code_simp
  finally show "set [''products.tv.gallery_images'', ''products.tv.featured_image'']
      \<subseteq> m_token ` set (cat_media sample_catalog)" by simp
qed

lemma sent_media_is_safe_witness:
  "distinct (map (mt_id \<circ> rm_material)
     [\<lparr>rm_token = ''products.tv.gallery_images'', rm_material = sample_image ''m1''\<rparr>,
      \<lparr>rm_token = ''products.tv.gallery_images'', rm_material = sample_image ''m2''\<rparr>])"
proof -
  have "resolve_send [''products.tv.gallery_images'', ''products.tv.featured_image''] (Some sample_kb)
      (Some sample_catalog) = Inr [\<lparr>rm_token = ''products.tv.gallery_images'', rm_material = sample_image ''m1''\<rparr>,
      \<lparr>rm_token = ''products.tv.gallery_images'', rm_material = sample_image ''m2''\<rparr>]"
    by code_simp
  from sent_media_is_safe [OF this] show ?thesis by (rule conjunct1)
qed

end
