(* ===== verification/Text_Regex.thy ===== *)
theory Text_Regex
  imports Unicode_Text
begin

text \<open>
  The part of Go's \<open>regexp\<close> package that the guards of an answer use: character classes, alternatives,
  greedy options and repetitions of a class, and the empty-width assertions. A matcher state is the rune
  before the position, if any, and the runes after it. The matcher lists the states it can end in by
  priority, first alternative and longest repetition first, which is the leftmost-first order Go promises,
  so the head of the list is the match. Positions count runes, which cut a text where bytes would.
\<close>

section \<open>Patterns\<close>

datatype rune_class = In "(int \<times> int) list" | NotIn "(int \<times> int) list"

fun in_class :: "rune_class \<Rightarrow> int \<Rightarrow> bool" where
  "in_class (In rs) r \<longleftrightarrow> in_ranges rs r"
| "in_class (NotIn rs) r \<longleftrightarrow> \<not> in_ranges rs r"

datatype pattern =
    One rune_class
  | Many rune_class
  | Seq pattern pattern
  | Alt pattern pattern
  | Opt pattern
  | AtStart
  | AtEnd
  | WordBoundary

type_synonym cursor = "int option \<times> int list"

text \<open>\<open>\b\<close> knows ASCII letters, digits and the underscore only.\<close>

definition ascii_word :: "int \<Rightarrow> bool" where
  "ascii_word r \<longleftrightarrow> 0x30 \<le> r \<and> r \<le> 0x39 \<or> 0x41 \<le> r \<and> r \<le> 0x5A \<or> r = 0x5F \<or> 0x61 \<le> r \<and> r \<le> 0x7A"

definition word_boundary :: "cursor \<Rightarrow> bool" where
  "word_boundary c \<longleftrightarrow>
     (case fst c of None \<Rightarrow> False | Some r \<Rightarrow> ascii_word r)
       \<noteq> (case snd c of [] \<Rightarrow> False | r # rs \<Rightarrow> ascii_word r)"

fun run_many :: "rune_class \<Rightarrow> int option \<Rightarrow> int list \<Rightarrow> cursor list" where
  "run_many c p [] = [(p, [])]"
| "run_many c p (r # rs) = (if in_class c r then run_many c (Some r) rs @ [(p, r # rs)] else [(p, r # rs)])"

primrec run :: "pattern \<Rightarrow> cursor \<Rightarrow> cursor list" where
  "run (One c) s = (case snd s of [] \<Rightarrow> [] | r # rs \<Rightarrow> if in_class c r then [(Some r, rs)] else [])"
| "run (Many c) s = run_many c (fst s) (snd s)"
| "run (Seq a b) s = concat (map (run b) (run a s))"
| "run (Alt a b) s = run a s @ run b s"
| "run (Opt a) s = run a s @ [s]"
| "run AtStart s = (if fst s = None then [s] else [])"
| "run AtEnd s = (if snd s = [] then [s] else [])"
| "run WordBoundary s = (if word_boundary s then [s] else [])"

section \<open>Searching\<close>

text \<open>The leftmost position where the pattern matches, and the cursor after the match there.\<close>

fun search :: "pattern \<Rightarrow> int option \<Rightarrow> int list \<Rightarrow> (int list \<times> cursor) option" where
  "search pat p [] = (case run pat (p, []) of [] \<Rightarrow> None | e # es \<Rightarrow> Some ([], e))"
| "search pat p (r # rs) =
     (case run pat (p, r # rs) of
        e # es \<Rightarrow> Some (r # rs, e)
      | [] \<Rightarrow> search pat (Some r) rs)"

definition matches :: "pattern \<Rightarrow> int list \<Rightarrow> bool" where
  "matches pat rs \<longleftrightarrow> search pat None rs \<noteq> None"

text \<open>
  \<open>FindAllStringIndex\<close>: the bounds of the matches from left to right, in runes from the start of the
  text, whose length is \<open>n\<close>. The patterns here never match the empty text; the recursion stops if one did.
\<close>

function find_from :: "pattern \<Rightarrow> nat \<Rightarrow> int option \<Rightarrow> int list \<Rightarrow> (nat \<times> nat) list" where
  "find_from pat n p rs =
     (case search pat p rs of
        None \<Rightarrow> []
      | Some (at, q, rest) \<Rightarrow>
          (n - length at, n - length rest) #
          (if length rest < length rs then find_from pat n q rest else []))"
  by pat_completeness auto
termination by (relation "measure (\<lambda>(pat, n, p, rs). length rs)") auto

declare find_from.simps [simp del]

definition find_all :: "pattern \<Rightarrow> int list \<Rightarrow> (nat \<times> nat) list" where
  "find_all pat rs = find_from pat (length rs) None rs"

section \<open>What a match is\<close>

text \<open>The denotation of a pattern: it leads from one cursor to another.\<close>


inductive leads :: "pattern \<Rightarrow> cursor \<Rightarrow> cursor \<Rightarrow> bool" where
  one: "in_class c r \<Longrightarrow> leads (One c) (p, r # rs) (Some r, rs)"
| many_stop: "leads (Many c) s s"
| many_step: "in_class c r \<Longrightarrow> leads (Many c) (Some r, rs) e \<Longrightarrow> leads (Many c) (p, r # rs) e"
| seq: "leads a s m \<Longrightarrow> leads b m e \<Longrightarrow> leads (Seq a b) s e"
| alt_left: "leads a s e \<Longrightarrow> leads (Alt a b) s e"
| alt_right: "leads b s e \<Longrightarrow> leads (Alt a b) s e"
| opt_take: "leads a s e \<Longrightarrow> leads (Opt a) s e"
| opt_skip: "leads (Opt a) s s"
| at_start: "leads AtStart (None, rs) (None, rs)"
| at_end: "leads AtEnd (p, []) (p, [])"
| boundary: "word_boundary s \<Longrightarrow> leads WordBoundary s s"

inductive_cases leads_manyE: "leads (Many c) s e"
inductive_simps leads_One: "leads (One c) s e"
inductive_simps leads_Many_Nil: "leads (Many c) (p, []) e"
inductive_simps leads_Seq: "leads (Seq a b) s e"
inductive_simps leads_Alt: "leads (Alt a b) s e"
inductive_simps leads_Opt: "leads (Opt a) s e"
inductive_simps leads_Start: "leads AtStart s e"
inductive_simps leads_End: "leads AtEnd s e"
inductive_simps leads_Boundary: "leads WordBoundary s e"

lemmas leads_simps = leads_One leads_Seq leads_Alt leads_Opt leads_Start leads_End leads_Boundary

lemma run_many_iff: "e \<in> set (run_many c p rs) \<longleftrightarrow> leads (Many c) (p, rs) e"
proof (induction rs arbitrary: p)
  case Nil
  show ?case by (auto intro: leads.many_stop elim: leads_manyE)
next
  case (Cons r rs)
  show ?case
    by (auto simp: Cons.IH intro: leads.many_stop leads.many_step elim: leads_manyE)
qed

theorem run_iff: "e \<in> set (run pat s) \<longleftrightarrow> leads pat s e"
proof (induction pat arbitrary: s e)
  case (One c)
  obtain p rs where s: "s = (p, rs)" by (cases s)
  show ?case by (cases rs) (auto simp: leads_One s)
next
  case (Many c)
  show ?case by (cases s) (simp add: run_many_iff)
next
  case (Seq a b)
  have "e \<in> set (run (Seq a b) s) \<longleftrightarrow> (\<exists>m \<in> set (run a s). e \<in> set (run b m))" by auto
  then show ?case by (simp only: Seq.IH leads_Seq Bex_def split_paired_Ex)
next
  case (Alt a b)
  then show ?case by (simp add: leads_Alt)
next
  case (Opt a)
  then show ?case by (auto simp: leads_Opt)
next
  case AtStart
  show ?case by (cases s) (auto simp: leads_Start)
next
  case AtEnd
  show ?case by (cases s) (auto simp: leads_End)
next
  case WordBoundary
  show ?case by (auto simp: leads_Boundary)
qed

lemma run_Nil: "run pat s = [] \<longleftrightarrow> (\<forall>e. \<not> leads pat s e)"
  using run_iff [of _ pat s] by (metis last_in_set empty_iff list.set(1))

text \<open>The cursors of a text: what stands before, and what comes after.\<close>

definition cursor_at :: "int option \<Rightarrow> int list \<Rightarrow> nat \<Rightarrow> cursor" where
  "cursor_at p rs i = ((if i = 0 then p else Some (rs ! (i - 1))), drop i rs)"

lemma cursor_at_Cons: "cursor_at p (r # rs) (Suc i) = cursor_at (Some r) rs i"
  by (simp add: cursor_at_def)

lemma cursor_at_0 [simp]: "cursor_at p rs 0 = (p, rs)"
  by (simp add: cursor_at_def)

lemma leads_suffix: "leads pat s e \<Longrightarrow> \<exists>k. e = cursor_at (fst s) (snd s) k \<and> k \<le> length (snd s)"
proof (induction rule: leads.induct)
  case (one c r p rs)
  then show ?case by (intro exI [of _ 1]) (simp add: cursor_at_def)
next
  case (many_step c r rs e p)
  then obtain k where "e = cursor_at (Some r) rs k" "k \<le> length rs" by auto
  then show ?case by (intro exI [of _ "Suc k"]) (simp add: cursor_at_Cons)
next
  case (seq a s m b e)
  then obtain i j where i: "m = cursor_at (fst s) (snd s) i" "i \<le> length (snd s)"
    and j: "e = cursor_at (fst m) (snd m) j" "j \<le> length (snd m)" by auto
  then show ?case
    by (intro exI [of _ "i + j"]) (auto simp: cursor_at_def nth_append add.commute)
qed (auto simp: cursor_at_def intro: exI [of _ 0])

text \<open>
  Searching is exact: it fails only if the pattern matches at no position of the text, and otherwise
  it finds the leftmost one.
\<close>

lemma search_None: "search pat p rs = None \<longleftrightarrow> (\<forall>i \<le> length rs. \<forall>e. \<not> leads pat (cursor_at p rs i) e)"
proof (induction rs arbitrary: p)
  case Nil
  show ?case using run_Nil [of pat "(p, [])"] by (cases "run pat (p, [])") auto
next
  case (Cons r rs)
  have first: "(\<forall>i \<le> Suc n. P i) \<longleftrightarrow> P 0 \<and> (\<forall>i \<le> n. P (Suc i))" for P n
    by (metis Suc_le_mono bot_nat_0.extremum not0_implies_Suc)
  have "(\<forall>i \<le> length (r # rs). \<forall>e. \<not> leads pat (cursor_at p (r # rs) i) e) \<longleftrightarrow>
      (\<forall>e. \<not> leads pat (p, r # rs) e) \<and> (\<forall>i \<le> length rs. \<forall>e. \<not> leads pat (cursor_at (Some r) rs i) e)"
    by (simp only: list.size(4) add_Suc_right add_0_right first cursor_at_Cons cursor_at_0)
  then show ?case using run_Nil [of pat "(p, r # rs)"] Cons.IH [of "Some r"]
    by (cases "run pat (p, r # rs)") auto
qed

lemma search_finds:
  "search pat p rs = Some (at, e) \<Longrightarrow>
     \<exists>i \<le> length rs. at = drop i rs \<and> leads pat (cursor_at p rs i) e
        \<and> (\<forall>j < i. \<forall>e. \<not> leads pat (cursor_at p rs j) e)"
proof (induction rs arbitrary: p)
  case Nil
  then show ?case using run_iff [of e pat "(p, [])"] by (cases "run pat (p, [])") auto
next
  case (Cons r rs)
  show ?case
  proof (cases "run pat (p, r # rs)")
    case Nil
    with Cons.prems obtain i where i: "i \<le> length rs" "at = drop i rs" "leads pat (cursor_at (Some r) rs i) e"
      and first: "\<forall>j < i. \<forall>e. \<not> leads pat (cursor_at (Some r) rs j) e"
      using Cons.IH [of "Some r"] by auto
    have "\<forall>e. \<not> leads pat (p, r # rs) e" using Nil run_Nil by blast
    then have "\<forall>j < Suc i. \<forall>e. \<not> leads pat (cursor_at p (r # rs) j) e"
      using first by (auto simp: cursor_at_Cons less_Suc_eq_0_disj)
    with i show ?thesis by (intro exI [of _ "Suc i"]) (auto simp: cursor_at_Cons)
  next
    case (Cons f fs)
    with Cons.prems run_iff [of e pat "(p, r # rs)"] show ?thesis by (intro exI [of _ 0]) auto
  qed
qed

lemma matches_iff: "matches pat rs \<longleftrightarrow> (\<exists>i \<le> length rs. \<exists>e. leads pat (cursor_at None rs i) e)"
  by (auto simp: matches_def search_None)

section \<open>All matches\<close>

lemma cursor_at_compose: "i + j \<le> length rs \<Longrightarrow> cursor_at (fst (cursor_at p rs i)) (drop i rs) j = cursor_at p rs (i + j)"
  by (auto simp: cursor_at_def add.commute)

lemma find_from_leads:
  assumes "(a, b) \<in> set (find_from pat (length rs) (fst (cursor_at p rs i)) (drop i rs))" and "i \<le> length rs"
  shows "i \<le> a \<and> a \<le> b \<and> b \<le> length rs \<and> leads pat (cursor_at p rs a) (cursor_at p rs b)"
  using assms
proof (induction "length rs - i" arbitrary: i rule: less_induct)
  case less
  let ?q = "fst (cursor_at p rs i)"
  have "search pat ?q (drop i rs) \<noteq> None"
  proof
    assume "search pat ?q (drop i rs) = None"
    then have "find_from pat (length rs) ?q (drop i rs) = []" by (subst find_from.simps) simp
    with less.prems(1) show False by simp
  qed
  then obtain at q rest where s: "search pat ?q (drop i rs) = Some (at, q, rest)" by auto
  from search_finds [OF s] obtain j where j: "j \<le> length rs - i" "at = drop (i + j) rs"
    and l: "leads pat (cursor_at ?q (drop i rs) j) (q, rest)" by (auto simp: add.commute)
  have at_j: "cursor_at ?q (drop i rs) j = cursor_at p rs (i + j)"
    using j(1) less.prems(2) by (intro cursor_at_compose) simp
  from leads_suffix [OF l] obtain k where k: "(q, rest) = cursor_at p rs (i + j + k)" "k \<le> length rs - (i + j)"
    unfolding at_j using cursor_at_compose [of "i + j" _ rs p] j(1) less.prems(2)
    by (auto simp: cursor_at_def)
  let ?e = "i + j + k"
  have le: "?e \<le> length rs" using j(1) k(2) less.prems(2) by simp
  have rest: "rest = drop ?e rs" and q: "q = fst (cursor_at p rs ?e)"
    using k(1) by (metis cursor_at_def snd_conv, metis fst_conv)
  have here: "length rs - length at = i + j" "length rs - length rest = ?e"
    using j le rest less.prems(2) by auto
  have "(a, b) = (i + j, ?e) \<or> length rest < length (drop i rs) \<and> (a, b) \<in> set (find_from pat (length rs) q rest)"
    using less.prems(1) s here by (subst (asm) find_from.simps) (auto split: if_splits)
  then show ?case
  proof
    assume "(a, b) = (i + j, ?e)"
    with l at_j k le show ?thesis by auto
  next
    assume r: "length rest < length (drop i rs) \<and> (a, b) \<in> set (find_from pat (length rs) q rest)"
    then have "length rs - ?e < length rs - i" using rest by simp
    from less.hyps [OF this] r rest q le have "?e \<le> a \<and> a \<le> b \<and> b \<le> length rs
        \<and> leads pat (cursor_at p rs a) (cursor_at p rs b)" by simp
    then show ?thesis by simp
  qed
qed

lemma find_all_leads:
  "(a, b) \<in> set (find_all pat rs) \<Longrightarrow>
     a \<le> b \<and> b \<le> length rs \<and> leads pat (cursor_at None rs a) (cursor_at None rs b)"
  using find_from_leads [of a b pat rs None 0] by (simp add: find_all_def)

section \<open>Runs of a class\<close>

definition some_of :: "rune_class \<Rightarrow> pattern" where
  "some_of c = Seq (One c) (Many c)"

lemma cursor_at_inj: "cursor_at p rs a = cursor_at p rs b \<Longrightarrow> a \<le> length rs \<Longrightarrow> b \<le> length rs \<Longrightarrow> a = b"
proof -
  assume a: "cursor_at p rs a = cursor_at p rs b" "a \<le> length rs" "b \<le> length rs"
  then have "length (drop a rs) = length (drop b rs)" by (metis cursor_at_def snd_conv)
  with a(2,3) show "a = b" by simp
qed

lemma cursor_at_step:
  "a < length rs \<Longrightarrow> cursor_at p rs a = (q, r # ws) \<longleftrightarrow>
     q = fst (cursor_at p rs a) \<and> r = rs ! a \<and> (Some r, ws) = cursor_at p rs (Suc a)"
  by (auto simp: cursor_at_def Cons_nth_drop_Suc [symmetric])

lemma leads_many_run:
  "leads pat s e \<Longrightarrow> pat = Many c \<Longrightarrow> s = cursor_at p rs a \<Longrightarrow> a \<le> length rs \<Longrightarrow>
     \<exists>b. e = cursor_at p rs b \<and> a \<le> b \<and> b \<le> length rs \<and> (\<forall>i. a \<le> i \<and> i < b \<longrightarrow> in_class c (rs ! i))"
proof (induction arbitrary: a rule: leads.induct)
  case (many_stop c' s)
  then show ?case by (intro exI [of _ a]) auto
next
  case (many_step c' r ws e q)
  then have a: "a < length rs" by (cases "a = length rs") (auto simp: cursor_at_def)
  with many_step.prems cursor_at_step [OF a] have r: "r = rs ! a" and n: "(Some r, ws) = cursor_at p rs (Suc a)"
    by metis+
  from many_step.IH [OF many_step.prems(1) n] a obtain b where
    "e = cursor_at p rs b" "Suc a \<le> b" "b \<le> length rs" "\<forall>i. Suc a \<le> i \<and> i < b \<longrightarrow> in_class c (rs ! i)" by auto
  with many_step.hyps many_step.prems(1) r show ?case
    by (intro exI [of _ b]) (auto simp: le_eq_less_or_eq [of a] Suc_le_eq)
qed auto

lemma leads_some_run:
  assumes "leads (some_of c) (cursor_at p rs a) (cursor_at p rs b)" and "a \<le> length rs" and "b \<le> length rs"
  shows "a < b \<and> (\<forall>i. a \<le> i \<and> i < b \<longrightarrow> in_class c (rs ! i))"
proof -
  from assms(1) obtain q r ws where one: "cursor_at p rs a = (q, r # ws)" "in_class c r"
    and many: "leads (Many c) (Some r, ws) (cursor_at p rs b)"
    unfolding some_of_def leads_Seq leads_One by auto
  have a: "a < length rs" using one assms(2) by (cases "a = length rs") (auto simp: cursor_at_def)
  with one cursor_at_step [OF a] have r: "r = rs ! a" and n: "(Some r, ws) = cursor_at p rs (Suc a)" by metis+
  from leads_many_run [OF many refl n] a obtain b' where b: "cursor_at p rs b = cursor_at p rs b'"
    "Suc a \<le> b'" "b' \<le> length rs" "\<forall>i. Suc a \<le> i \<and> i < b' \<longrightarrow> in_class c (rs ! i)" by auto
  have "b = b'" by (rule cursor_at_inj [OF b(1) assms(3) b(3)])
  with b one(2) r show ?thesis by (auto simp: le_eq_less_or_eq [of a] Suc_le_eq)
qed

lemma some_of_leads: "i < length rs \<Longrightarrow> in_class c (rs ! i) \<Longrightarrow> \<exists>e. leads (some_of c) (cursor_at p rs i) e"
  unfolding some_of_def leads_Seq leads_One
  using cursor_at_step [of i rs p "fst (cursor_at p rs i)" "rs ! i" "drop (Suc i) rs"]
  by (force simp: cursor_at_def intro: leads.many_stop)

text \<open>Every rune of the class lies in one of the matches found.\<close>

lemma find_from_covers:
  assumes "i \<le> x" and "x < length rs" and "in_class c (rs ! x)"
  shows "\<exists>(a, b) \<in> set (find_from (some_of c) (length rs) (fst (cursor_at p rs i)) (drop i rs)). a \<le> x \<and> x < b"
  using assms(1)
proof (induction "length rs - i" arbitrary: i rule: less_induct)
  case less
  let ?q = "fst (cursor_at p rs i)"
  have il: "i \<le> length rs" using less.prems assms(2) by simp
  have "leads (some_of c) (cursor_at ?q (drop i rs) (x - i)) = leads (some_of c) (cursor_at p rs x)"
    using cursor_at_compose [of i "x - i" rs p] less.prems assms(2) by simp
  with some_of_leads [OF assms(2,3), of p] have hit: "\<exists>e. leads (some_of c) (cursor_at ?q (drop i rs) (x - i)) e" by simp
  have xi: "x - i \<le> length (drop i rs)" using assms(2) by simp
  have "search (some_of c) ?q (drop i rs) \<noteq> None" using hit xi unfolding search_None by blast
  then obtain at q rest where s: "search (some_of c) ?q (drop i rs) = Some (at, q, rest)" by auto
  from search_finds [OF s] obtain j where j: "j \<le> length rs - i" "at = drop (i + j) rs"
    and l: "leads (some_of c) (cursor_at ?q (drop i rs) j) (q, rest)"
    and first: "\<forall>k < j. \<forall>e. \<not> leads (some_of c) (cursor_at ?q (drop i rs) k) e" by (auto simp: add.commute)
  have "\<not> x - i < j" using first hit by blast
  then have jx: "i + j \<le> x" using less.prems by linarith
  have at_j: "cursor_at ?q (drop i rs) j = cursor_at p rs (i + j)"
    using j(1) il by (intro cursor_at_compose) simp
  from leads_suffix [OF l] obtain k where k: "(q, rest) = cursor_at p rs (i + j + k)" "k \<le> length rs - (i + j)"
    unfolding at_j using cursor_at_compose [of "i + j" _ rs p] j(1) il by (auto simp: cursor_at_def)
  let ?e = "i + j + k"
  have le: "?e \<le> length rs" using j(1) k(2) il by simp
  have run: "i + j < ?e \<and> (\<forall>y. i + j \<le> y \<and> y < ?e \<longrightarrow> in_class c (rs ! y))"
    using leads_some_run [of c p rs "i + j" ?e] l at_j k(1) le by auto
  have rest: "rest = drop ?e rs" and q: "q = fst (cursor_at p rs ?e)"
    using k(1) by (metis cursor_at_def snd_conv, metis fst_conv)
  have here: "length rs - length at = i + j" "length rs - length rest = ?e" using j le rest il by auto
  have unf: "find_from (some_of c) (length rs) ?q (drop i rs) =
      (i + j, ?e) # find_from (some_of c) (length rs) q rest"
    using s here run le rest by (subst find_from.simps) auto
  show ?case
  proof (cases "x < ?e")
    case True
    with jx unf show ?thesis by auto
  next
    case False
    then have "length rs - ?e < length rs - i" "?e \<le> x" using run assms(2) by auto
    from less.hyps [OF this] rest q unf show ?thesis by auto
  qed
qed

lemma find_all_runs:
  "(a, b) \<in> set (find_all (some_of c) rs) \<Longrightarrow>
     a < b \<and> b \<le> length rs \<and> (\<forall>i. a \<le> i \<and> i < b \<longrightarrow> in_class c (rs ! i))"
  using find_all_leads [of a b "some_of c" rs] leads_some_run [of c None rs a b] by auto

lemma find_all_covers:
  "x < length rs \<Longrightarrow> in_class c (rs ! x) \<Longrightarrow> \<exists>(a, b) \<in> set (find_all (some_of c) rs). a \<le> x \<and> x < b"
  using find_from_covers [of 0 x rs c None] by (simp add: find_all_def)

end
