(* ===== verification/Ai_Guards.thy ===== *)
theory Ai_Guards
  imports Text_Regex Ai_Kb
begin

text \<open>
  The guards of an answer of a salon (\<open>validateScheduleLiteralContract\<close> and
  \<open>validateSalonConfirmationGuard\<close> in \<open>backend/aiprompt/contract.go\<close>, with the patterns of
  \<open>schedule.go\<close>): an answer may not state a clock time itself, and may not confirm a booking or claim
  that a time is free, except inside a question. Bounds of matches count runes.
\<close>

section \<open>Patterns under (?i)\<close>

text \<open>
  The simple folding of a Cyrillic letter: itself, its capital, and the historic forms that fold to the
  small letters ve, de, o, es, te and hard sign (U+1C80 to U+1C86).
\<close>

definition historic_forms :: "(int \<times> int list) list" where
  "historic_forms =
     [(0x0432, [0x1C80]), (0x0434, [0x1C81]), (0x043E, [0x1C82]), (0x0441, [0x1C83]),
      (0x0442, [0x1C84, 0x1C85]), (0x044A, [0x1C86])]"

definition capital :: "int \<Rightarrow> int" where
  "capital r = (if 0x0430 \<le> r \<and> r \<le> 0x044F then r - 0x20 else if r = 0x0451 then 0x0401 else r)"

definition folds_of :: "int \<Rightarrow> (int \<times> int) list" where
  "folds_of r =
     map (\<lambda>x. (x, x)) (r # capital r # (case map_of historic_forms r of None \<Rightarrow> [] | Some fs \<Rightarrow> fs))"

definition letter :: "int \<Rightarrow> pattern" where "letter r = One (In (folds_of r))"

definition letters :: "int list \<Rightarrow> pattern" where "letters rs = One (In (concat (map folds_of rs)))"

fun word_pat :: "int list \<Rightarrow> pattern" where
  "word_pat [] = Opt AtStart"
| "word_pat [r] = letter r"
| "word_pat (r # s # rs) = Seq (letter r) (word_pat (s # rs))"

fun seqs :: "pattern list \<Rightarrow> pattern" where
  "seqs [] = Opt AtStart"
| "seqs [p] = p"
| "seqs (p # q # ps) = Seq p (seqs (q # ps))"

fun alts :: "pattern list \<Rightarrow> pattern" where
  "alts [] = One (In [])"
| "alts [p] = p"
| "alts (p # q # ps) = Alt p (alts (q # ps))"

definition space_class :: "(int \<times> int) list" where "space_class = [(9, 10), (12, 13), (32, 32)]"
definition spaces :: pattern where "spaces = some_of (In space_class)"
definition solid :: pattern where "solid = some_of (NotIn space_class)"

text \<open>The class of small Cyrillic letters a to ya, and the class that adds io, under folding.\<close>

definition small_cyrillic :: "(int \<times> int) list" where
  "small_cyrillic = [(0x0430, 0x044F), (0x0410, 0x042F), (0x1C80, 0x1C86)]"

definition all_cyrillic :: "(int \<times> int) list" where
  "all_cyrillic = small_cyrillic @ [(0x0451, 0x0451), (0x0401, 0x0401)]"

definition digits :: "int \<Rightarrow> int \<Rightarrow> pattern" where "digits lo hi = One (In [(0x30 + lo, 0x30 + hi)])"

text \<open>\<open>scheduleTimePattern\<close> is not folded; it has no letters.\<close>

definition schedule_time_pattern :: pattern where
  "schedule_time_pattern =
     seqs [WordBoundary,
           Alt (Seq (Opt (digits 0 1)) (digits 0 9)) (Seq (digits 2 2) (digits 0 3)),
           One (In [(0x3A, 0x3A)]), digits 0 5, digits 0 9, WordBoundary]"

definition spelled_out_hour_pattern :: pattern where
  "spelled_out_hour_pattern =
     seqs
       [Alt AtStart (One (NotIn all_cyrillic)),
        alts
          [seqs [word_pat [0x0447, 0x0430, 0x0441], Many (In all_cyrillic), spaces,
                 alts [word_pat [0x0443, 0x0442, 0x0440, 0x0430], word_pat [0x0434, 0x043D, 0x044F], word_pat [0x0432, 0x0435, 0x0447, 0x0435, 0x0440, 0x0430], word_pat [0x043D, 0x043E, 0x0447, 0x0438]]],
           seqs [alts
                   [word_pat [0x043E, 0x0434, 0x0438, 0x043D, 0x043D, 0x0430, 0x0434, 0x0446, 0x0430, 0x0442], word_pat [0x0434, 0x0432, 0x0435, 0x043D, 0x0430, 0x0434, 0x0446, 0x0430, 0x0442], word_pat [0x0434, 0x0435, 0x0441, 0x044F, 0x0442], word_pat [0x0434, 0x0435, 0x0432, 0x044F, 0x0442],
                    word_pat [0x0432, 0x043E, 0x0441, 0x0435, 0x043C], word_pat [0x0441, 0x0435, 0x043C], word_pat [0x0448, 0x0435, 0x0441, 0x0442], word_pat [0x043F, 0x044F, 0x0442], word_pat [0x0447, 0x0435, 0x0442, 0x044B, 0x0440],
                    Seq (word_pat [0x0442, 0x0440]) (letters [0x0435, 0x0451]),
                    seqs [word_pat [0x0434, 0x0432], letters [0x0430, 0x0435], Opt (letter 0x0445)],
                    Seq (word_pat [0x043E, 0x0434, 0x043D]) (letters [0x043E, 0x0430])],
                 Many (In all_cyrillic), spaces,
                 alts [word_pat [0x0443, 0x0442, 0x0440, 0x0430], word_pat [0x0432, 0x0435, 0x0447, 0x0435, 0x0440, 0x0430], word_pat [0x043D, 0x043E, 0x0447, 0x0438]]],
           word_pat [0x043F, 0x043E, 0x043B, 0x0434, 0x0435, 0x043D, 0x044C], word_pat [0x043F, 0x043E, 0x043B, 0x043D, 0x043E, 0x0447, 0x044C]],
        Alt AtEnd (One (NotIn all_cyrillic))]"

definition booking_confirmation :: pattern where
  "booking_confirmation =
     alts
       [seqs [word_pat [0x0432, 0x044B], spaces, word_pat [0x0437, 0x0430, 0x043F, 0x0438, 0x0441, 0x0430, 0x043D]],
        seqs [letter 0x044F, spaces, Opt (Seq (word_pat [0x0432, 0x0430, 0x0441]) spaces), word_pat [0x0437, 0x0430, 0x043F, 0x0438, 0x0441, 0x0430, 0x043B]],
        seqs [word_pat [0x0437, 0x0430, 0x043F, 0x0438, 0x0441, 0x0430, 0x043B], Opt (letters [0x0430, 0x0438]), spaces, word_pat [0x0432, 0x0430, 0x0441]],
        seqs [word_pat [0x0437, 0x0430, 0x043F, 0x0438, 0x0441, 0x044C], spaces, word_pat [0x043F, 0x043E, 0x0434, 0x0442, 0x0432, 0x0435, 0x0440, 0x0436, 0x0434]],
        seqs [word_pat [0x0431, 0x0440, 0x043E, 0x043D, 0x044C], spaces, word_pat [0x043F, 0x043E, 0x0434, 0x0442, 0x0432, 0x0435, 0x0440, 0x0436, 0x0434]],
        seqs [word_pat [0x043F, 0x043E, 0x0434, 0x0442, 0x0432, 0x0435, 0x0440, 0x0436, 0x0434, 0x0430], Alt (letter 0x044E) (word_pat [0x0435, 0x043C]), spaces,
              Opt (Seq (word_pat [0x0432, 0x0430, 0x0448, 0x0443]) spaces), word_pat [0x0437, 0x0430, 0x043F, 0x0438, 0x0441, 0x044C]],
        seqs [word_pat [0x0436, 0x0434], letters [0x0435, 0x0451], letter 0x043C, spaces, word_pat [0x0432, 0x0430, 0x0441]],
        seqs [word_pat [0x0432, 0x0440, 0x0435, 0x043C, 0x044F], spaces, Opt (Seq solid spaces), word_pat [0x0441, 0x0432, 0x043E, 0x0431]],
        seqs [word_pat [0x0434, 0x0430], Opt (One (In [(0x2C, 0x2C)])), spaces, word_pat [0x0441, 0x0432, 0x043E, 0x0431]],
        seqs [word_pat [0x0435, 0x0441, 0x0442, 0x044C], spaces, word_pat [0x043E, 0x043A, 0x043D, 0x043E]],
        seqs [word_pat [0x043E, 0x043A, 0x043D, 0x043E], spaces, Alt (word_pat [0x0435, 0x0441, 0x0442, 0x044C]) (word_pat [0x0441, 0x0432, 0x043E, 0x0431])]]"

definition question_particle :: pattern where
  "question_particle =
     seqs [Alt AtStart (One (NotIn small_cyrillic)), word_pat [0x043B, 0x0438], Alt (One (NotIn small_cyrillic)) AtEnd]"

definition terminators :: "int list" where "terminators = [0x21, 0x2E, 0x3F]"

definition sentence_boundary :: pattern where
  "sentence_boundary = some_of (In [(0x2E, 0x2E), (0x21, 0x21), (0x3F, 0x3F)])"

section \<open>The guards\<close>

definition sentence_span :: "nat \<Rightarrow> (nat \<times> nat) list \<Rightarrow> nat \<Rightarrow> nat \<Rightarrow> nat \<times> nat" where
  "sentence_span n boundaries match_start match_end =
     foldl (\<lambda>(start, fin) (b0, b1).
              (if b1 \<le> match_start \<and> start < b1 then b1 else start,
               if match_end \<le> b0 \<and> b0 < fin then b0 else fin))
       (0, n) boundaries"

datatype guard_issue = ScheduleTimeLiteral | SalonBookingConfirmation

definition slice :: "int list \<Rightarrow> nat \<Rightarrow> nat \<Rightarrow> int list" where
  "slice rs a b = take (b - a) (drop a rs)"

definition validate_salon_confirmation_guard :: "kb \<Rightarrow> string \<Rightarrow> guard_issue list" where
  "validate_salon_confirmation_guard kb without =
     (if \<not> is_salon_organization kb then []
      else
        let rs = runes without;
            boundaries = find_all sentence_boundary rs in
        if list_ex (\<lambda>(a, b).
             case sentence_span (length rs) boundaries a b of
               (start, fin) \<Rightarrow> \<not> matches question_particle (slice rs start fin))
           (find_all booking_confirmation rs)
        then [SalonBookingConfirmation] else [])"

definition validate_schedule_literal_contract :: "kb \<Rightarrow> string \<Rightarrow> guard_issue list" where
  "validate_schedule_literal_contract kb without =
     (if \<not> is_salon_organization kb then []
      else if matches schedule_time_pattern (runes without)
        \<or> matches spelled_out_hour_pattern (runes without)
      then [ScheduleTimeLiteral] else [])"

section \<open>First and last rune of a match\<close>

text \<open>Syntactic: a match of the pattern starts, respectively ends, with a rune outside \<open>ts\<close>.\<close>

fun avoids_head :: "int list \<Rightarrow> pattern \<Rightarrow> bool" where
  "avoids_head ts (One c) \<longleftrightarrow> list_all (\<lambda>t. \<not> in_class c t) ts"
| "avoids_head ts (Seq a b) \<longleftrightarrow> avoids_head ts a"
| "avoids_head ts (Alt a b) \<longleftrightarrow> avoids_head ts a \<and> avoids_head ts b"
| "avoids_head ts pat \<longleftrightarrow> False"

fun avoids_last :: "int list \<Rightarrow> pattern \<Rightarrow> bool" where
  "avoids_last ts (One c) \<longleftrightarrow> list_all (\<lambda>t. \<not> in_class c t) ts"
| "avoids_last ts (Seq a b) \<longleftrightarrow> avoids_last ts b"
| "avoids_last ts (Alt a b) \<longleftrightarrow> avoids_last ts a \<and> avoids_last ts b"
| "avoids_last ts pat \<longleftrightarrow> False"

lemma leads_head: "leads pat s e \<Longrightarrow> avoids_head ts pat \<Longrightarrow> \<exists>r rs. snd s = r # rs \<and> r \<notin> set ts"
  by (induction rule: leads.induct) (auto simp: list_all_iff)

lemma leads_last: "leads pat s e \<Longrightarrow> avoids_last ts pat \<Longrightarrow> \<exists>r. fst e = Some r \<and> r \<notin> set ts"
  by (induction rule: leads.induct) (auto simp: list_all_iff)

lemma leads_consumes: "leads pat s e \<Longrightarrow> avoids_head ts pat \<Longrightarrow> length (snd e) < length (snd s)"
proof (induction rule: leads.induct)
  case (seq a s m b e)
  have "length (snd e) \<le> length (snd m)"
    using leads_suffix [OF seq.hyps(2)] by (auto simp: cursor_at_def)
  with seq show ?case by simp
qed auto

lemma booking_ends:
  assumes "(a, b) \<in> set (find_all booking_confirmation rs)"
  shows "a < b \<and> b \<le> length rs \<and> rs ! a \<notin> set terminators \<and> rs ! (b - 1) \<notin> set terminators"
proof -
  have h: "avoids_head terminators booking_confirmation" "avoids_last terminators booking_confirmation" by code_simp+
  from find_all_leads [OF assms] have le: "a \<le> b" "b \<le> length rs"
    and l: "leads booking_confirmation (cursor_at None rs a) (cursor_at None rs b)" by auto
  from leads_head [OF l h(1)] obtain r ws where r: "drop a rs = r # ws" "r \<notin> set terminators"
    by (auto simp: cursor_at_def)
  then have a: "a < length rs" "rs ! a = r" by (auto simp: nth_via_drop intro: ccontr)
  from leads_last [OF l h(2)] have z: "b \<noteq> 0" "rs ! (b - 1) \<notin> set terminators"
    by (auto simp: cursor_at_def split: if_splits)
  from leads_consumes [OF l h(1)] le have "a < b" by (simp add: cursor_at_def)
  with le a r z show ?thesis by auto
qed

section \<open>The sentence of a match\<close>

lemma span_bounds:
  assumes "foldl (\<lambda>(start, fin) (b0, b1).
              (if b1 \<le> a \<and> start < b1 then b1 else start, if b \<le> b0 \<and> b0 < fin then b0 else fin))
       (s0 :: nat, f0 :: nat) bs = (s, f)"
  shows "(s = s0 \<or> (\<exists>(b0, b1) \<in> set bs. b1 \<le> a \<and> s = b1)) \<and> s0 \<le> s \<and> (\<forall>(b0, b1) \<in> set bs. b1 \<le> a \<longrightarrow> b1 \<le> s)
    \<and> (f = f0 \<or> (\<exists>(b0, b1) \<in> set bs. b \<le> b0 \<and> f = b0)) \<and> f \<le> f0 \<and> (\<forall>(b0, b1) \<in> set bs. b \<le> b0 \<longrightarrow> f \<le> b0)"
  using assms
proof (induction bs arbitrary: s0 f0)
  case (Cons p bs)
  obtain x y where p: "p = (x, y)" by (cases p)
  let ?s = "if y \<le> a \<and> s0 < y then y else s0" and ?f = "if b \<le> x \<and> x < f0 then x else f0"
  from Cons.prems have "foldl (\<lambda>(start, fin) (b0, b1).
              (if b1 \<le> a \<and> start < b1 then b1 else start, if b \<le> b0 \<and> b0 < fin then b0 else fin))
       (?s, ?f) bs = (s, f)" by (simp add: p)
  note ih = Cons.IH [OF this]
  have "s = s0 \<or> (\<exists>(b0, b1) \<in> set (p # bs). b1 \<le> a \<and> s = b1)"
    using ih by (auto simp: p split: if_splits)
  moreover have "s0 \<le> s \<and> (\<forall>(b0, b1) \<in> set (p # bs). b1 \<le> a \<longrightarrow> b1 \<le> s)"
    using ih by (auto simp: p split: if_splits)
  moreover have "f = f0 \<or> (\<exists>(b0, b1) \<in> set (p # bs). b \<le> b0 \<and> f = b0)"
    using ih by (auto simp: p split: if_splits)
  moreover have "f \<le> f0 \<and> (\<forall>(b0, b1) \<in> set (p # bs). b \<le> b0 \<longrightarrow> f \<le> b0)"
    using ih by (auto simp: p split: if_splits)
  ultimately show ?case by blast
qed simp

text \<open>
  The sentence around a range: the range, extended on both sides up to the nearest terminator.
\<close>

definition ends_sentence :: "int \<Rightarrow> bool" where
  "ends_sentence r \<longleftrightarrow> r \<in> set terminators"

definition sentence_around :: "int list \<Rightarrow> nat \<Rightarrow> nat \<Rightarrow> int list" where
  "sentence_around rs a b =
     rev (takeWhile (\<lambda>r. \<not> ends_sentence r) (rev (take a rs))) @ slice rs a b
       @ takeWhile (\<lambda>r. \<not> ends_sentence r) (drop b rs)"

lemma boundary_class: "in_class (In [(0x2E, 0x2E), (0x21, 0x21), (0x3F, 0x3F)]) r = ends_sentence r"
  by (auto simp: ends_sentence_def terminators_def in_ranges_def)

lemma takeWhile_until:
  assumes "list_all P xs" and "ys = [] \<or> \<not> P (hd ys)"
  shows "takeWhile P (xs @ ys) = xs"
  using assms by (cases ys) (auto simp: list_all_iff takeWhile_append)

lemma span_is_sentence:
  assumes "a < b" and "b \<le> length rs" and "\<not> ends_sentence (rs ! a)" and "\<not> ends_sentence (rs ! (b - 1))"
  shows "case sentence_span (length rs) (find_all sentence_boundary rs) a b of
      (s, f) \<Rightarrow> slice rs s f = sentence_around rs a b"
proof -
  let ?B = "find_all sentence_boundary rs"
  obtain s f where sf: "sentence_span (length rs) ?B a b = (s, f)" by (cases "sentence_span (length rs) ?B a b")
  note bounds = span_bounds [OF sf [unfolded sentence_span_def]]
  have runs: "x < y \<and> y \<le> length rs \<and> (\<forall>i. x \<le> i \<and> i < y \<longrightarrow> ends_sentence (rs ! i))"
    if "(x, y) \<in> set ?B" for x y
    using find_all_runs [OF that [unfolded sentence_boundary_def]] unfolding boundary_class by blast
  have covers: "\<exists>(x, y) \<in> set ?B. x \<le> i \<and> i < y" if "i < length rs" "ends_sentence (rs ! i)" for i
    using find_all_covers [of i rs "In [(0x2E, 0x2E), (0x21, 0x21), (0x3F, 0x3F)]"] that
    unfolding sentence_boundary_def boundary_class by blast
  have s: "s \<le> a" using bounds by auto
  have s_end: "s = 0 \<or> ends_sentence (rs ! (s - 1))" using bounds runs by fastforce
  have f: "b \<le> f" "f \<le> length rs" using bounds assms(2) by auto
  have f_end: "f = length rs \<or> ends_sentence (rs ! f)" using bounds runs by fastforce
  have before: "\<not> ends_sentence (rs ! i)" if i: "s \<le> i" "i < a" for i
  proof
    assume t: "ends_sentence (rs ! i)"
    from covers [OF _ t] i assms obtain x y where xy: "(x, y) \<in> set ?B" "x \<le> i" "i < y" by auto
    with runs [OF xy(1)] assms(3) i have "y \<le> a" by (meson leI less_imp_le_nat order_trans)
    with bounds xy have "y \<le> s" by auto
    with xy i show False by simp
  qed
  have after: "\<not> ends_sentence (rs ! i)" if i: "b \<le> i" "i < f" for i
  proof
    assume t: "ends_sentence (rs ! i)"
    from covers [OF _ t] i f obtain x y where xy: "(x, y) \<in> set ?B" "x \<le> i" "i < y" by auto
    have "b \<le> x"
    proof (rule ccontr)
      assume "\<not> b \<le> x"
      then have "x \<le> b - 1" "b - 1 < y" using xy i assms(1) by auto
      with runs [OF xy(1)] assms(4) show False by blast
    qed
    with bounds xy have "f \<le> x" by auto
    with xy i show False by simp
  qed
  have left: "rev (takeWhile (\<lambda>r. \<not> ends_sentence r) (rev (take a rs))) = slice rs s a"
  proof -
    have split: "rev (take a rs) = rev (slice rs s a) @ rev (take s rs)"
      using take_add [of s "a - s" rs] s by (simp add: slice_def flip: rev_append)
    have "list_all (\<lambda>r. \<not> ends_sentence r) (rev (slice rs s a))"
      using before s assms by (auto simp: slice_def list_all_iff in_set_conv_nth)
    moreover have "rev (take s rs) = [] \<or> \<not> \<not> ends_sentence (hd (rev (take s rs)))"
    proof (cases "s = 0")
      case False
      then have "take s rs \<noteq> []" using s assms(1,2) by auto
      then have "last (take s rs) = rs ! (s - 1)" using s assms(1,2) by (simp add: last_conv_nth)
      with s_end False show ?thesis by (simp add: hd_rev)
    qed simp
    ultimately show ?thesis unfolding split by (simp add: takeWhile_until)
  qed
  have right: "takeWhile (\<lambda>r. \<not> ends_sentence r) (drop b rs) = slice rs b f"
  proof -
    have split: "drop b rs = slice rs b f @ drop f rs"
      using append_take_drop_id [of "f - b" "drop b rs"] f(1) by (simp only: slice_def drop_drop le_add_diff_inverse2)
    have "list_all (\<lambda>r. \<not> ends_sentence r) (slice rs b f)"
      using after f by (auto simp: slice_def list_all_iff in_set_conv_nth)
    moreover have "drop f rs = [] \<or> \<not> \<not> ends_sentence (hd (drop f rs))"
      using f_end f by (cases "f = length rs") (auto simp: hd_drop_conv_nth)
    ultimately show ?thesis unfolding split by (rule takeWhile_until)
  qed
  have "slice rs s f = slice rs s a @ slice rs a b @ slice rs b f"
  proof -
    have "take (f - s) (drop s rs) = take ((a - s) + ((b - a) + (f - b))) (drop s rs)" using s f assms(1) by simp
    then show ?thesis unfolding slice_def take_add using s f assms(1) by (simp add: add.commute)
  qed
  with left right sf show ?thesis by (simp add: sentence_around_def)
qed

text \<open>
  The confirmation guard judges every trigger phrase by its own sentence. An answer of a salon is
  flagged exactly when some booking phrase in it stands in a sentence without the question particle;
  a question in a neighbouring sentence never excuses it, and other organizations are never flagged.
\<close>

theorem confirmation_guard_by_sentence:
  "validate_salon_confirmation_guard kb without =
     (if is_salon_organization kb
         \<and> list_ex (\<lambda>(a, b). \<not> matches question_particle (sentence_around (runes without) a b))
             (find_all booking_confirmation (runes without))
      then [SalonBookingConfirmation] else [])"
proof -
  let ?rs = "runes without"
  have "list_ex (\<lambda>(a, b). case sentence_span (length ?rs) (find_all sentence_boundary ?rs) a b of
          (start, fin) \<Rightarrow> \<not> matches question_particle (slice ?rs start fin)) (find_all booking_confirmation ?rs)
      \<longleftrightarrow> list_ex (\<lambda>(a, b). \<not> matches question_particle (sentence_around ?rs a b)) (find_all booking_confirmation ?rs)"
  proof (rule list_ex_cong [OF refl])
    fix p assume p: "p \<in> set (find_all booking_confirmation ?rs)"
    obtain a b where ab: "p = (a, b)" by (cases p)
    from booking_ends [OF p [unfolded ab]]
    have "case sentence_span (length ?rs) (find_all sentence_boundary ?rs) a b of
        (s, f) \<Rightarrow> slice ?rs s f = sentence_around ?rs a b"
      by (intro span_is_sentence) (auto simp: ends_sentence_def)
    then show "(case p of (a, b) \<Rightarrow> case sentence_span (length ?rs) (find_all sentence_boundary ?rs) a b of
          (start, fin) \<Rightarrow> \<not> matches question_particle (slice ?rs start fin)) =
        (case p of (a, b) \<Rightarrow> \<not> matches question_particle (sentence_around ?rs a b))"
      by (auto simp: ab)
  qed
  then show ?thesis by (simp add: validate_salon_confirmation_guard_def Let_def)
qed

section \<open>Clock times\<close>

definition digit_between :: "int \<Rightarrow> int \<Rightarrow> int \<Rightarrow> bool" where
  "digit_between lo hi r \<longleftrightarrow> 0x30 + lo \<le> r \<and> r \<le> 0x30 + hi"

text \<open>A clock time of the day: an hour below 24 in one or two digits, a colon, a minute below 60.\<close>

definition clock_text :: "int list \<Rightarrow> bool" where
  "clock_text w \<longleftrightarrow>
     (\<exists>h m. w = h @ [0x3A] @ m \<and> list_all (digit_between 0 9) (h @ m) \<and> length m = 2
        \<and> foldl (\<lambda>n r. n * 10 + (r - 0x30)) 0 m < 60
        \<and> (length h = 1 \<or> length h = 2) \<and> foldl (\<lambda>n r. n * 10 + (r - 0x30)) 0 h < 24)"

lemma leads_digits: "leads (digits lo hi) s e \<longleftrightarrow> (\<exists>p r rs. s = (p, r # rs) \<and> digit_between lo hi r \<and> e = (Some r, rs))"
  by (auto simp: digits_def leads_One in_ranges_def digit_between_def)

lemma leads_colon: "leads (One (In [(0x3A, 0x3A)])) s e \<longleftrightarrow> (\<exists>p rs. s = (p, 0x3A # rs) \<and> e = (Some 0x3A, rs))"
  by (auto simp: leads_One in_ranges_def)

lemma digit_is_word: "digit_between 0 9 r \<Longrightarrow> ascii_word r"
  by (simp add: digit_between_def ascii_word_def)

lemma length_two: "length xs = 2 \<longleftrightarrow> (\<exists>a b. xs = [a, b])"
  by (cases xs; cases "tl xs") auto

lemma length_one: "length xs = 1 \<longleftrightarrow> (\<exists>a. xs = [a])"
  by (cases xs) auto

lemma clock_text_cases:
  "clock_text w \<longleftrightarrow>
     (\<exists>h1 h2 m1 m2. w = [h1, h2, 0x3A, m1, m2] \<and> digit_between 0 5 m1 \<and> digit_between 0 9 m2
        \<and> (digit_between 0 1 h1 \<and> digit_between 0 9 h2 \<or> digit_between 2 2 h1 \<and> digit_between 0 3 h2))
     \<or> (\<exists>h m1 m2. w = [h, 0x3A, m1, m2] \<and> digit_between 0 9 h \<and> digit_between 0 5 m1 \<and> digit_between 0 9 m2)"
proof
  assume "clock_text w"
  then obtain h m where w: "w = h @ [0x3A] @ m" and d: "list_all (digit_between 0 9) (h @ m)"
    and m: "length m = 2" "foldl (\<lambda>n r. n * 10 + (r - 0x30)) 0 m < 60"
    and h: "length h = 1 \<or> length h = 2" "foldl (\<lambda>n r. n * 10 + (r - 0x30)) 0 h < 24"
    unfolding clock_text_def by blast
  from m(1) obtain m1 m2 where mm: "m = [m1, m2]" by (auto simp: length_two)
  have m1: "digit_between 0 5 m1" "digit_between 0 9 m2" using d m(2) by (auto simp: mm digit_between_def)
  from h(1) show "(\<exists>h1 h2 m1 m2. w = [h1, h2, 0x3A, m1, m2] \<and> digit_between 0 5 m1 \<and> digit_between 0 9 m2
        \<and> (digit_between 0 1 h1 \<and> digit_between 0 9 h2 \<or> digit_between 2 2 h1 \<and> digit_between 0 3 h2))
     \<or> (\<exists>h m1 m2. w = [h, 0x3A, m1, m2] \<and> digit_between 0 9 h \<and> digit_between 0 5 m1 \<and> digit_between 0 9 m2)"
  proof
    assume "length h = 1"
    then obtain x where "h = [x]" by (metis length_one)
    with w d m1 mm show ?thesis by auto
  next
    assume "length h = 2"
    then obtain x y where xy: "h = [x, y]" by (auto simp: length_two)
    have "digit_between 0 1 x \<and> digit_between 0 9 y \<or> digit_between 2 2 x \<and> digit_between 0 3 y"
      using d h(2) by (auto simp: xy digit_between_def)
    with w xy m1 mm show ?thesis by auto
  qed
next
  assume "(\<exists>h1 h2 m1 m2. w = [h1, h2, 0x3A, m1, m2] \<and> digit_between 0 5 m1 \<and> digit_between 0 9 m2
        \<and> (digit_between 0 1 h1 \<and> digit_between 0 9 h2 \<or> digit_between 2 2 h1 \<and> digit_between 0 3 h2))
     \<or> (\<exists>h m1 m2. w = [h, 0x3A, m1, m2] \<and> digit_between 0 9 h \<and> digit_between 0 5 m1 \<and> digit_between 0 9 m2)"
  then show "clock_text w"
  proof
    assume "\<exists>h1 h2 m1 m2. w = [h1, h2, 0x3A, m1, m2] \<and> digit_between 0 5 m1 \<and> digit_between 0 9 m2
        \<and> (digit_between 0 1 h1 \<and> digit_between 0 9 h2 \<or> digit_between 2 2 h1 \<and> digit_between 0 3 h2)"
    then obtain h1 h2 m1 m2 where "w = [h1, h2, 0x3A, m1, m2]" "digit_between 0 5 m1" "digit_between 0 9 m2"
      "digit_between 0 1 h1 \<and> digit_between 0 9 h2 \<or> digit_between 2 2 h1 \<and> digit_between 0 3 h2" by blast
    then show ?thesis unfolding clock_text_def
      by (intro exI [of _ "[h1, h2]"] exI [of _ "[m1, m2]"]) (auto simp: digit_between_def)
  next
    assume "\<exists>h m1 m2. w = [h, 0x3A, m1, m2] \<and> digit_between 0 9 h \<and> digit_between 0 5 m1 \<and> digit_between 0 9 m2"
    then obtain h m1 m2 where "w = [h, 0x3A, m1, m2]" "digit_between 0 9 h" "digit_between 0 5 m1" "digit_between 0 9 m2"
      by blast
    then show ?thesis unfolding clock_text_def
      by (intro exI [of _ "[h]"] exI [of _ "[m1, m2]"]) (auto simp: digit_between_def)
  qed
qed

lemma boundary_after: "ascii_word r \<Longrightarrow> word_boundary (Some r, b) \<longleftrightarrow> b = [] \<or> \<not> ascii_word (hd b)"
  by (cases b) (auto simp: word_boundary_def)

lemma last_take: "0 < i \<Longrightarrow> i \<le> length xs \<Longrightarrow> last (take i xs) = xs ! (i - 1)"
  by (subst last_conv_nth) auto

lemma leads_time:
  "leads schedule_time_pattern (p, s) e \<longleftrightarrow>
     (\<exists>w b. s = w @ b \<and> clock_text w \<and> (case p of None \<Rightarrow> True | Some r \<Rightarrow> \<not> ascii_word r)
        \<and> (b = [] \<or> \<not> ascii_word (hd b)) \<and> e = (Some (last w), b))"
proof -
  let ?hour = "Alt (Seq (Opt (digits 0 1)) (digits 0 9)) (Seq (digits 2 2) (digits 0 3))"
  let ?minute = "Seq (One (In [(0x3A, 0x3A)])) (Seq (digits 0 5) (Seq (digits 0 9) WordBoundary))"
  have minute: "leads ?minute (q, t) e \<longleftrightarrow> (\<exists>m1 m2 b. t = 0x3A # m1 # m2 # b \<and> digit_between 0 5 m1
      \<and> digit_between 0 9 m2 \<and> (b = [] \<or> \<not> ascii_word (hd b)) \<and> e = (Some m2, b))" for q t
    by (auto simp: leads_Seq leads_colon leads_digits leads_Boundary boundary_after digit_is_word)
  have hour: "leads ?hour (q, t) m \<longleftrightarrow> (\<exists>h1 h2 b. t = h1 # h2 # b \<and> m = (Some h2, b)
        \<and> (digit_between 0 1 h1 \<and> digit_between 0 9 h2 \<or> digit_between 2 2 h1 \<and> digit_between 0 3 h2))
      \<or> (\<exists>h b. t = h # b \<and> digit_between 0 9 h \<and> m = (Some h, b))" for q t m
    by (auto simp: leads_Alt leads_Seq leads_Opt leads_digits)
  have start: "word_boundary (p, t) \<longleftrightarrow> (case p of None \<Rightarrow> True | Some r \<Rightarrow> \<not> ascii_word r)"
    if "leads ?hour (p, t) m" for t m
  proof -
    from that obtain h b where "t = h # b" "digit_between 0 9 h" unfolding hour
      by (auto simp: digit_between_def)
    then show ?thesis by (auto simp: word_boundary_def digit_is_word split: option.splits)
  qed
  have "leads schedule_time_pattern (p, s) e \<longleftrightarrow>
      word_boundary (p, s) \<and> (\<exists>q t. leads ?hour (p, s) (q, t) \<and> leads ?minute (q, t) e)"
    unfolding schedule_time_pattern_def seqs.simps by (simp only: leads_Seq [of WordBoundary] leads_Seq [of ?hour] leads_Boundary) auto
  also have "\<dots> \<longleftrightarrow> (case p of None \<Rightarrow> True | Some r \<Rightarrow> \<not> ascii_word r)
      \<and> (\<exists>q t. leads ?hour (p, s) (q, t) \<and> leads ?minute (q, t) e)"
    using start by blast
  also have "(\<exists>q t. leads ?hour (p, s) (q, t) \<and> leads ?minute (q, t) e) \<longleftrightarrow>
      (\<exists>w b. s = w @ b \<and> clock_text w \<and> (b = [] \<or> \<not> ascii_word (hd b)) \<and> e = (Some (last w), b))"
    unfolding hour minute clock_text_cases by (auto; metis)
  finally show ?thesis by auto
qed

text \<open>
  The guard against clock times is exact for digits. An answer of a salon contains a match of the
  time pattern exactly when some stretch of it reads as an hour below 24 and a minute below 60, with one
  or two digits for the hour, and no ASCII letter, digit or underscore touches it.
\<close>

theorem clock_times_found:
  "matches schedule_time_pattern rs \<longleftrightarrow>
     (\<exists>a w b. rs = a @ w @ b \<and> clock_text w \<and> (a = [] \<or> \<not> ascii_word (last a))
        \<and> (b = [] \<or> \<not> ascii_word (hd b)))"
proof -
  have prev: "(case fst (cursor_at None rs i) of None \<Rightarrow> True | Some r \<Rightarrow> \<not> ascii_word r)
      \<longleftrightarrow> take i rs = [] \<or> \<not> ascii_word (last (take i rs))" if "i \<le> length rs" for i
    using that by (cases "i = 0") (auto simp: cursor_at_def last_take)
  have "matches schedule_time_pattern rs \<longleftrightarrow>
      (\<exists>i \<le> length rs. \<exists>w b. drop i rs = w @ b \<and> clock_text w
         \<and> (take i rs = [] \<or> \<not> ascii_word (last (take i rs))) \<and> (b = [] \<or> \<not> ascii_word (hd b)))"
    unfolding matches_iff
  proof (intro ex_cong1 conj_cong refl)
    fix i assume i: "i \<le> length rs"
    have "cursor_at None rs i = (fst (cursor_at None rs i), drop i rs)" by (simp add: cursor_at_def)
    then show "(\<exists>e. leads schedule_time_pattern (cursor_at None rs i) e) \<longleftrightarrow> (\<exists>w b. drop i rs = w @ b \<and> clock_text w
         \<and> (take i rs = [] \<or> \<not> ascii_word (last (take i rs))) \<and> (b = [] \<or> \<not> ascii_word (hd b)))"
      using leads_time [of "fst (cursor_at None rs i)" "drop i rs"] prev [OF i] by auto
  qed
  also have "\<dots> \<longleftrightarrow> (\<exists>a w b. rs = a @ w @ b \<and> clock_text w \<and> (a = [] \<or> \<not> ascii_word (last a))
        \<and> (b = [] \<or> \<not> ascii_word (hd b)))"
  proof
    assume "\<exists>i \<le> length rs. \<exists>w b. drop i rs = w @ b \<and> clock_text w
         \<and> (take i rs = [] \<or> \<not> ascii_word (last (take i rs))) \<and> (b = [] \<or> \<not> ascii_word (hd b))"
    then obtain i w b where "drop i rs = w @ b" "clock_text w"
      "take i rs = [] \<or> \<not> ascii_word (last (take i rs))" "b = [] \<or> \<not> ascii_word (hd b)" by blast
    then show "\<exists>a w b. rs = a @ w @ b \<and> clock_text w \<and> (a = [] \<or> \<not> ascii_word (last a))
        \<and> (b = [] \<or> \<not> ascii_word (hd b))" by (metis append_take_drop_id)
  next
    assume "\<exists>a w b. rs = a @ w @ b \<and> clock_text w \<and> (a = [] \<or> \<not> ascii_word (last a))
        \<and> (b = [] \<or> \<not> ascii_word (hd b))"
    then obtain a w b where "rs = a @ w @ b" "clock_text w" "a = [] \<or> \<not> ascii_word (last a)"
      "b = [] \<or> \<not> ascii_word (hd b)" by blast
    then show "\<exists>i \<le> length rs. \<exists>w b. drop i rs = w @ b \<and> clock_text w
         \<and> (take i rs = [] \<or> \<not> ascii_word (last (take i rs))) \<and> (b = [] \<or> \<not> ascii_word (hd b))"
      by (intro exI [of _ "length a"]) auto
  qed
  finally show ?thesis .
qed

end
