(* ===== verification/Json.thy ===== *)
theory Json
  imports Unicode_Text
begin

text \<open>
  What the program uses of Go's \<open>encoding/json\<close>: the decoder on whole texts (\<open>Unmarshal\<close>) and on the
  first value of a stream (\<open>Decoder.Decode\<close>), strings with their escapes, numbers as their source text,
  and the limit of 10000 nested arrays and objects. An object keeps its members in order; decoding into
  a Go map reads the last member of a name. A \<open>json.RawMessage\<close> is the tree of its text.
\<close>

section \<open>Values and lexical parts\<close>

datatype json =
    JNull
  | JBool bool
  | JNumber string
  | JString string
  | JArray "json list"
  | JObject "(string \<times> json) list"

definition json_space :: "char \<Rightarrow> bool" where
  "json_space c \<longleftrightarrow> c = CHR '' '' \<or> c = CHR 0x09 \<or> c = CHR 0x0A \<or> c = CHR 0x0D"

definition skip_ws :: "string \<Rightarrow> string" where "skip_ws s = dropWhile json_space s"

definition digits_of :: "string \<Rightarrow> string" where "digits_of s = takeWhile is_digit s"

text \<open>Each part returns what it read and the rest; \<open>None\<close> is a syntax error.\<close>

definition int_part :: "string \<Rightarrow> (string \<times> string) option" where
  "int_part s =
     (case s of
        [] \<Rightarrow> None
      | c # r \<Rightarrow>
          if c = CHR ''0'' then Some (''0'', r)
          else if is_digit c then Some (digits_of s, drop (length (digits_of s)) s)
          else None)"

definition frac_part :: "string \<Rightarrow> (string \<times> string) option" where
  "frac_part s =
     (if prefix ''.'' s then
        (let r = tl s in
         if digits_of r = '''' then None
         else Some (CHR ''.'' # digits_of r, drop (length (digits_of r)) r))
      else Some ('''', s))"

definition exp_part :: "string \<Rightarrow> (string \<times> string) option" where
  "exp_part s =
     (case s of
        [] \<Rightarrow> Some ('''', [])
      | c # r \<Rightarrow>
          if c = CHR ''e'' \<or> c = CHR ''E'' then
            let sign = (case r of x # r' \<Rightarrow> if x = CHR ''+'' \<or> x = CHR ''-'' then [x] else '''' | [] \<Rightarrow> '''');
                ds = digits_of (drop (length sign) r) in
            if ds = '''' then None
            else Some (c # sign @ ds, drop (length sign + length ds) r)
          else Some ('''', s))"

definition parse_number :: "string \<Rightarrow> (string \<times> string) option" where
  "parse_number s =
     (let sign = (if prefix ''-'' s then ''-'' else '''') in
      case int_part (drop (length sign) s) of
        None \<Rightarrow> None
      | Some (i, r1) \<Rightarrow>
          (case frac_part r1 of
             None \<Rightarrow> None
           | Some (f, r2) \<Rightarrow>
               (case exp_part r2 of
                  None \<Rightarrow> None
                | Some (e, r3) \<Rightarrow> Some (sign @ i @ f @ e, r3))))"

definition hex_value :: "char \<Rightarrow> int option" where
  "hex_value c =
     (if is_digit c then Some (byte_of c - 0x30)
      else if CHR ''a'' \<le> c \<and> c \<le> CHR ''f'' then Some (byte_of c - 0x57)
      else if CHR ''A'' \<le> c \<and> c \<le> CHR ''F'' then Some (byte_of c - 0x37)
      else None)"

definition hex4 :: "string \<Rightarrow> int option" where
  "hex4 s =
     (case map hex_value (take 4 s) of
        [Some a, Some b, Some c, Some d] \<Rightarrow> Some (a * 4096 + b * 256 + c * 16 + d)
      | _ \<Rightarrow> None)"

definition high_surrogate :: "int \<Rightarrow> bool" where "high_surrogate r \<longleftrightarrow> 0xD800 \<le> r \<and> r \<le> 0xDBFF"
definition low_surrogate :: "int \<Rightarrow> bool" where "low_surrogate r \<longleftrightarrow> 0xDC00 \<le> r \<and> r \<le> 0xDFFF"

text \<open>The rune of a \<open>\u\<close> escape whose digits are at the head of the string, and how many bytes it took.\<close>

definition unicode_escape :: "string \<Rightarrow> (int \<times> nat) option" where
  "unicode_escape s =
     (case hex4 s of
        None \<Rightarrow> None
      | Some r \<Rightarrow>
          if high_surrogate r \<or> low_surrogate r then
            (case (if prefix [CHR 0x5C, CHR ''u''] (drop 4 s) then hex4 (drop 6 s) else None) of
               Some r1 \<Rightarrow>
                 if high_surrogate r \<and> low_surrogate r1
                 then Some ((r - 0xD800) * 1024 + (r1 - 0xDC00) + 0x10000, 10)
                 else Some (rune_error, 4)
             | None \<Rightarrow> Some (rune_error, 4))
          else Some (r, 4))"

definition simple_escape :: "char \<Rightarrow> char option" where
  "simple_escape c =
     (if c = CHR 0x22 \<or> c = CHR 0x5C \<or> c = CHR ''/'' then Some c
      else if c = CHR ''b'' then Some (CHR 0x08)
      else if c = CHR ''f'' then Some (CHR 0x0C)
      else if c = CHR ''n'' then Some (CHR 0x0A)
      else if c = CHR ''r'' then Some (CHR 0x0D)
      else if c = CHR ''t'' then Some (CHR 0x09)
      else None)"

text \<open>One character of a string literal, decoded, and how many bytes it took.\<close>

definition string_unit :: "string \<Rightarrow> (string \<times> nat) option" where
  "string_unit s =
     (case s of
        [] \<Rightarrow> None
      | c # r \<Rightarrow>
          if c = CHR 0x5C then
            (case r of
               [] \<Rightarrow> None
             | x # r' \<Rightarrow>
                 if x = CHR ''u'' then
                   (case unicode_escape r' of None \<Rightarrow> None | Some (u, w) \<Rightarrow> Some (encode_rune u, w + 2))
                 else (case simple_escape x of None \<Rightarrow> None | Some y \<Rightarrow> Some ([y], 2)))
          else if byte_of c < 0x20 then None
          else Some (encode_rune (fst (decode_rune s)), snd (decode_rune s)))"

lemma string_unit_width: "string_unit s = Some (u, w) \<Longrightarrow> 0 < w \<and> s \<noteq> []"
  using decode_width [of s] by (auto simp: string_unit_def split: list.splits if_splits option.splits)

text \<open>The rest of a string literal after its opening quote.\<close>

function parse_string :: "string \<Rightarrow> (string \<times> string) option" where
  "parse_string s =
     (if s = [] then None
      else if hd s = CHR 0x22 then Some ([], tl s)
      else case string_unit s of
        None \<Rightarrow> None
      | Some (u, w) \<Rightarrow>
          (case parse_string (drop w s) of None \<Rightarrow> None | Some (v, rest) \<Rightarrow> Some (u @ v, rest)))"
  by pat_completeness auto
termination
proof (relation "measure length")
  fix s x u w
  assume "string_unit s = Some x" "(u, w) = x"
  then show "(drop w s, s) \<in> measure length" using string_unit_width [of s u w] by (cases s) auto
qed simp

declare parse_string.simps [simp del]

section \<open>Values\<close>

text \<open>The name of a member and the colon after it.\<close>

definition parse_name :: "string \<Rightarrow> (string \<times> string) option" where
  "parse_name s =
     (if \<not> prefix [CHR 0x22] (skip_ws s) then None
      else case parse_string (tl (skip_ws s)) of
        None \<Rightarrow> None
      | Some (k, r) \<Rightarrow> if prefix '':'' (skip_ws r) then Some (k, tl (skip_ws r)) else None)"

text \<open>
  \<open>n\<close> bounds the calls and is shown below never to be used up; \<open>d\<close> is how many more arrays and objects
  may be opened.
\<close>

fun parse_value :: "nat \<Rightarrow> nat \<Rightarrow> string \<Rightarrow> (json \<times> string) option"
  and parse_elems :: "nat \<Rightarrow> nat \<Rightarrow> string \<Rightarrow> (json list \<times> string) option"
  and parse_members :: "nat \<Rightarrow> nat \<Rightarrow> string \<Rightarrow> ((string \<times> json) list \<times> string) option" where
  "parse_value 0 d s = None"
| "parse_value (Suc n) d s =
     (case skip_ws s of
        [] \<Rightarrow> None
      | c # r \<Rightarrow>
          if c = CHR 0x22 then map_option (\<lambda>(v, rest). (JString v, rest)) (parse_string r)
          else if c = CHR ''{'' then
            (if d = 0 then None
             else if prefix ''}'' (skip_ws r) then Some (JObject [], tl (skip_ws r))
             else map_option (\<lambda>(ms, rest). (JObject ms, rest)) (parse_members n (d - 1) r))
          else if c = CHR ''['' then
            (if d = 0 then None
             else if prefix '']'' (skip_ws r) then Some (JArray [], tl (skip_ws r))
             else map_option (\<lambda>(vs, rest). (JArray vs, rest)) (parse_elems n (d - 1) r))
          else if prefix ''null'' (c # r) then Some (JNull, drop 4 (c # r))
          else if prefix ''true'' (c # r) then Some (JBool True, drop 4 (c # r))
          else if prefix ''false'' (c # r) then Some (JBool False, drop 5 (c # r))
          else map_option (\<lambda>(v, rest). (JNumber v, rest)) (parse_number (c # r)))"
| "parse_elems 0 d s = None"
| "parse_elems (Suc n) d s =
     (case parse_value n d s of
        None \<Rightarrow> None
      | Some (v, r) \<Rightarrow>
          (let t = skip_ws r in
           if prefix '','' t then map_option (\<lambda>(vs, rest). (v # vs, rest)) (parse_elems n d (tl t))
           else if prefix '']'' t then Some ([v], tl t)
           else None))"
| "parse_members 0 d s = None"
| "parse_members (Suc n) d s =
     (case parse_name s of
        None \<Rightarrow> None
      | Some (k, r) \<Rightarrow>
          (case parse_value n d r of
             None \<Rightarrow> None
           | Some (v, r') \<Rightarrow>
               (let t = skip_ws r' in
                if prefix '','' t then map_option (\<lambda>(ms, rest). ((k, v) # ms, rest)) (parse_members n d (tl t))
                else if prefix ''}'' t then Some ([(k, v)], tl t)
                else None)))"

definition max_nesting :: nat where "max_nesting = 10000"

text \<open>\<open>json.Unmarshal\<close> into a tree, and \<open>Decoder.Decode\<close>: the first value and what follows it.\<close>

definition parse_first :: "string \<Rightarrow> (json \<times> string) option" where
  "parse_first s = parse_value (2 * length s + 1) max_nesting s"

definition parse_json :: "string \<Rightarrow> json option" where
  "parse_json s =
     (case parse_first s of
        None \<Rightarrow> None
      | Some (v, rest) \<Rightarrow> if skip_ws rest = '''' then Some v else None)"

text \<open>Reading a decoded map: the last member of a name; the names, each once.\<close>

definition member :: "string \<Rightarrow> (string \<times> json) list \<Rightarrow> json option" where
  "member k ms = map_of (rev ms) k"

definition names :: "(string \<times> json) list \<Rightarrow> string list" where
  "names ms = remdups (map fst ms)"

section \<open>The bound on calls is never used up\<close>

lemma skip_ws_le: "length (skip_ws s) \<le> length s"
  by (simp add: skip_ws_def length_dropWhile_le)

lemma parse_string_shorter: "parse_string s = Some (v, r) \<Longrightarrow> length r < length s"
proof (induction s arbitrary: v r rule: parse_string.induct)
  case (1 s)
  have ne: "s \<noteq> []" using "1.prems" by (subst (asm) parse_string.simps) (auto split: if_splits)
  show ?case
  proof (cases "hd s = CHR 0x22")
    case True
    with "1.prems" ne show ?thesis by (subst (asm) parse_string.simps) (cases s; auto)
  next
    case False
    from "1.prems" ne False obtain u w v' where u: "string_unit s = Some (u, w)"
      and p: "parse_string (drop w s) = Some (v', r)"
      by (subst (asm) parse_string.simps) (auto split: option.splits prod.splits)
    from "1.IH" [OF ne False u refl p] show ?thesis by simp
  qed
qed

lemma parse_name_shorter: "parse_name s = Some (k, r) \<Longrightarrow> length r < length s"
  using skip_ws_le [of s]
  by (auto simp: parse_name_def dest!: parse_string_shorter split: if_splits option.splits)
    (metis (no_types, lifting) diff_le_self le_less_trans length_tl less_le_trans order.strict_trans1 skip_ws_le)

lemma digits_of_le: "length (digits_of s) \<le> length s"
  by (simp add: digits_of_def length_takeWhile_le)

lemma int_part_shorter: "int_part s = Some (v, r) \<Longrightarrow> length r < length s"
  by (auto simp: int_part_def digits_of_def split: list.splits if_splits)

lemma frac_part_le: "frac_part s = Some (v, r) \<Longrightarrow> length r \<le> length s"
  by (auto simp: frac_part_def Let_def split: if_splits)

lemma exp_part_le: "exp_part s = Some (v, r) \<Longrightarrow> length r \<le> length s"
  by (auto simp: exp_part_def Let_def split: list.splits if_splits)

lemma parse_number_shorter: "parse_number s = Some (v, r) \<Longrightarrow> length r < length s"
proof -
  assume a: "parse_number s = Some (v, r)"
  define t where "t = drop (length (if prefix ''-'' s then ''-'' else '''')) s"
  from a obtain i r1 f r2 e where "int_part t = Some (i, r1)" "frac_part r1 = Some (f, r2)" "exp_part r2 = Some (e, r)"
    unfolding parse_number_def Let_def t_def [symmetric] by (auto split: option.splits prod.splits)
  moreover have "length t \<le> length s" by (simp add: t_def)
  ultimately show ?thesis using int_part_shorter [of t] frac_part_le [of r1] exp_part_le [of r2] by fastforce
qed

lemma prefix_nonempty: "prefix (x # xs) s \<Longrightarrow> s \<noteq> [] \<and> length (tl s) < length s"
  by (cases s) auto

lemma parse_shorter:
  "parse_value n d s = Some (v, r) \<Longrightarrow> length r < length s"
  "parse_elems n d s = Some (vs, r) \<Longrightarrow> length r < length s"
  "parse_members n d s = Some (ms, r) \<Longrightarrow> length r < length s"
proof (induction n d s and n d s and n d s arbitrary: v r and vs r and ms r
    rule: parse_value_parse_elems_parse_members.induct)
  case (2 n d s)
  obtain c t where ct: "skip_ws s = c # t" using 2(3) by (auto split: list.splits)
  have le: "length t < length s" using skip_ws_le [of s] by (simp add: ct)
  note p = 2(3) [unfolded parse_value.simps ct list.case]
  show ?case
  proof (cases "c = CHR 0x22")
    case True
    with p obtain w where "parse_string t = Some (w, r)" by auto
    with parse_string_shorter le show ?thesis by fastforce
  next
    case q: False
    note p = p [unfolded if_not_P [OF q]]
    show ?thesis
    proof (cases "c = CHR ''{''")
      case True
      note p = p [unfolded if_P [OF True]]
      show ?thesis
      proof (cases "d = 0 \<or> prefix ''}'' (skip_ws t)")
        case True
        with p have "r = tl (skip_ws t)" by (auto split: if_splits)
        with skip_ws_le [of t] le show ?thesis by simp
      next
        case False
        with p obtain ms where m: "parse_members n (d - 1) t = Some (ms, r)" by auto
        from False have d: "d \<noteq> 0" "\<not> prefix ''}'' (skip_ws t)" by auto
        have "length r < length t" by (rule 2(1) [OF ct q True d m])
        with le show ?thesis by simp
      qed
    next
      case b: False
      note p = p [unfolded if_not_P [OF b]]
      show ?thesis
      proof (cases "c = CHR ''[''")
        case True
        note p = p [unfolded if_P [OF True]]
        show ?thesis
        proof (cases "d = 0 \<or> prefix '']'' (skip_ws t)")
          case True
          with p have "r = tl (skip_ws t)" by (auto split: if_splits)
          with skip_ws_le [of t] le show ?thesis by simp
        next
          case False
          with p obtain vs where m: "parse_elems n (d - 1) t = Some (vs, r)" by auto
          from False have d: "d \<noteq> 0" "\<not> prefix '']'' (skip_ws t)" by auto
          have "length r < length t" by (rule 2(2) [OF ct q b True d m])
          with le show ?thesis by simp
        qed
      next
        case False
        note p = p [unfolded if_not_P [OF False]]
        have "(\<exists>k > 0. r = drop k (c # t)) \<or> (\<exists>w. parse_number (c # t) = Some (w, r))"
        proof (cases "prefix ''null'' (c # t) \<or> prefix ''true'' (c # t) \<or> prefix ''false'' (c # t)")
          case True
          then have "r = drop 4 (c # t) \<or> r = drop 5 (c # t)"
            using p by (auto split: if_splits)
          then show ?thesis by (metis zero_less_numeral)
        qed (use p in auto)
        then show ?thesis using parse_number_shorter [of "c # t"] skip_ws_le [of s] by (fastforce simp: ct)
      qed
    qed
  qed
next
  case (4 n d s)
  obtain w t where w: "parse_value n d s = Some (w, t)" using 4(3) by (auto split: option.splits)
  from 4(1) [OF w] have t: "length t < length s" .
  have ws: "length (skip_ws t) \<le> length t" by (rule skip_ws_le)
  show ?case
  proof (cases "prefix '','' (skip_ws t)")
    case True
    with 4(3) w obtain vs' where "parse_elems n d (tl (skip_ws t)) = Some (vs', r)" by (auto simp: Let_def)
    from 4(2) [OF w refl refl True this] t ws show ?thesis by simp
  next
    case False
    with 4(3) w have "r = tl (skip_ws t)" by (auto simp: Let_def split: if_splits)
    with t ws show ?thesis by simp
  qed
next
  case (6 n d s)
  obtain k t0 where k: "parse_name s = Some (k, t0)" using 6(3) by (auto split: option.splits)
  obtain w t where w: "parse_value n d t0 = Some (w, t)" using 6(3) k by (auto split: option.splits)
  from 6(1) [OF k refl w] parse_name_shorter [OF k] have t: "length t < length s" by simp
  have ws: "length (skip_ws t) \<le> length t" by (rule skip_ws_le)
  show ?case
  proof (cases "prefix '','' (skip_ws t)")
    case True
    with 6(3) k w obtain ms' where "parse_members n d (tl (skip_ws t)) = Some (ms', r)" by (auto simp: Let_def)
    from 6(2) [OF k refl w refl refl True this] t ws show ?thesis by simp
  next
    case False
    with 6(3) k w have "r = tl (skip_ws t)" by (auto simp: Let_def split: if_splits)
    with t ws show ?thesis by simp
  qed
qed simp_all

lemma map_option_cong_fun: "x = y \<Longrightarrow> map_option f x = map_option f y"
  by simp

lemma parse_enough:
  "2 * length s < n \<Longrightarrow> 2 * length s < m \<Longrightarrow> parse_value n d s = parse_value m d s"
  "2 * length s + 1 < n \<Longrightarrow> 2 * length s + 1 < m \<Longrightarrow> parse_elems n d s = parse_elems m d s"
  "2 * length s + 1 < n \<Longrightarrow> 2 * length s + 1 < m \<Longrightarrow> parse_members n d s = parse_members m d s"
proof (induction n d s and n d s and n d s arbitrary: m and m and m
    rule: parse_value_parse_elems_parse_members.induct)
  case (2 n d s)
  obtain k where m: "m = Suc k" using 2(4) by (cases m) auto
  show ?case
  proof (cases "skip_ws s")
    case Nil
    then show ?thesis by (simp add: m)
  next
    case (Cons c t)
    have le: "length t < length s" using skip_ws_le [of s] by (simp add: Cons)
    have ms: "parse_members n (d - 1) t = parse_members k (d - 1) t"
      if "c = CHR ''{''" "d \<noteq> 0" "\<not> prefix ''}'' (skip_ws t)"
      using that 2(3,4) le m by (intro 2(1) [OF Cons]) auto
    have es: "parse_elems n (d - 1) t = parse_elems k (d - 1) t"
      if "c = CHR ''[''" "d \<noteq> 0" "\<not> prefix '']'' (skip_ws t)"
      using that 2(3,4) le m by (intro 2(2) [OF Cons]) auto
    show ?thesis
      unfolding m parse_value.simps Cons list.case
      by (intro if_cong refl map_option_cong_fun) (use ms es in auto)
  qed
next
  case (4 n d s)
  obtain k where m: "m = Suc k" using 4(4) by (cases m) auto
  have v: "parse_value n d s = parse_value k d s" using 4(3,4) m by (intro 4(1)) auto
  show ?case
  proof (cases "parse_value n d s")
    case (Some p)
    obtain w t where p: "p = (w, t)" by (cases p)
    have t: "length t < length s" using parse_shorter(1) Some p by blast
    have "parse_elems n d (tl (skip_ws t)) = parse_elems k d (tl (skip_ws t))"
      if a: "prefix '','' (skip_ws t)"
    proof (rule 4(2) [OF Some p [symmetric] refl a])
      show "2 * length (tl (skip_ws t)) + 1 < n" "2 * length (tl (skip_ws t)) + 1 < k"
        using 4(3,4) m t skip_ws_le [of t] prefix_nonempty [OF a] by auto
    qed
    with Some p v show ?thesis by (simp add: m Let_def)
  qed (use v in \<open>simp add: m\<close>)
next
  case (6 n d s)
  obtain k where m: "m = Suc k" using 6(4) by (cases m) auto
  show ?case
  proof (cases "parse_name s")
    case (Some q)
    obtain nm t0 where q: "q = (nm, t0)" by (cases q)
    have t0: "length t0 < length s" using parse_name_shorter Some q by blast
    have v: "parse_value n d t0 = parse_value k d t0" using 6(3,4) m t0 by (intro 6(1) [OF Some q [symmetric]]) auto
    show ?thesis
    proof (cases "parse_value n d t0")
      case s: (Some p)
      obtain w t where p: "p = (w, t)" by (cases p)
      have t: "length t < length t0" using parse_shorter(1) s p by blast
      have "parse_members n d (tl (skip_ws t)) = parse_members k d (tl (skip_ws t))"
        if a: "prefix '','' (skip_ws t)"
      proof (rule 6(2) [OF Some q [symmetric] s p [symmetric] refl a])
        show "2 * length (tl (skip_ws t)) + 1 < n" "2 * length (tl (skip_ws t)) + 1 < k"
          using 6(3,4) m t t0 skip_ws_le [of t] prefix_nonempty [OF a] by auto
      qed
      with Some q s p v show ?thesis by (simp add: m Let_def)
    qed (use v Some q in \<open>simp add: m\<close>)
  qed (simp add: m)
qed simp_all

text \<open>More calls than the text is long, twice over, never change the result.\<close>

lemma parse_first_enough: "2 * length s < n \<Longrightarrow> parse_value n max_nesting s = parse_first s"
  unfolding parse_first_def by (intro parse_enough(1)) auto

lemma parse_first_rest: "parse_first s = Some (v, r) \<Longrightarrow> length r < length s"
  unfolding parse_first_def by (rule parse_shorter(1))

end
