(* ===== verification/Ai_Gap.thy ===== *)
theory Ai_Gap
  imports Ai_Kb Json
begin

text \<open>
  The structured reason of an escalation, \<open>backend/aiprompt/kbgap.go\<close>: what the model may claim about a
  gap in the knowledge base, how it is decoded, and the gate that keeps only what the loaded knowledge
  base confirms.
\<close>

section \<open>Vocabulary\<close>

record kb_gap =
  g_reason :: string
  g_entity :: string
  g_ref :: string
  g_fields :: "string list"
  g_source :: string

definition gap_engine_error :: string where "gap_engine_error = ''engine_error''"
definition gap_source_model :: string where "gap_source_model = ''model''"
definition gap_source_engine :: string where "gap_source_engine = ''engine''"

definition all_gap_reason_codes :: "string list" where
  "all_gap_reason_codes =
     [''missing_entity'', ''missing_field'', ''ambiguous_entity'', ''conflicting_kb_data'',
      ''unsupported_request'', ''human_requested'', gap_engine_error, ''other'']"

definition default_report_reason_codes :: "string list" where
  "default_report_reason_codes =
     [''missing_entity'', ''missing_field'', ''ambiguous_entity'', ''conflicting_kb_data'']"

definition model_gap_reason_codes :: "string list" where
  "model_gap_reason_codes =
     [''missing_entity'', ''missing_field'', ''ambiguous_entity'', ''conflicting_kb_data'',
      ''unsupported_request'', ''human_requested'', ''other'']"

definition gap_field_allowlist :: "(string \<times> string list) list" where
  "gap_field_allowlist =
     [(''product'', [''price'', ''availability_status'', ''availability_note'', ''brand'', ''description'',
        ''advantages'', ''disadvantages'', ''best_for'', ''not_for'', ''installation_terms'', ''warranty_terms'']),
      (''tariff'', [''price'', ''fee'', ''pricing_type'', ''summary'', ''limit_text'', ''advantages'',
        ''disadvantages'', ''best_for'', ''not_for'']),
      (''tariff_info'', []),
      (''contact'', [''phone'', ''whatsapp'', ''email'', ''website'', ''instagram'', ''working_hours'']),
      (''policy'', [''delivery_cost'', ''delivery_in_days'', ''free_delivery_from'', ''min_order'',
        ''return_period_in_days'', ''outside_zones_note'', ''warranty'', ''prepayment'', ''installment'']),
      (''delivery_zone'', [''delivery_cost'', ''delivery_in_days'', ''delivery_available'']),
      (''topic'', [])]"

definition all_gap_entity_types :: "string list" where
  "all_gap_entity_types =
     [''product'', ''tariff'', ''tariff_info'', ''contact'', ''policy'', ''delivery_zone'', ''topic'']"

definition gap_entity_exists :: "kb option \<Rightarrow> string \<Rightarrow> string \<Rightarrow> bool" where
  "gap_entity_exists kbo entity ref \<longleftrightarrow>
     (case kbo of
        None \<Rightarrow> False
      | Some kb \<Rightarrow>
          ref \<noteq> '''' \<and>
          (if entity = ''product'' then list_ex (\<lambda>p. pr_ref p = ref) (kb_products kb)
           else if entity = ''tariff'' then list_ex (\<lambda>t. tf_ref t = ref) (kb_tariffs kb)
           else if entity = ''tariff_info'' then ref = singleton_ref \<and> kb_tariff_info kb \<noteq> None
           else if entity = ''contact'' then ref = singleton_ref \<and> kb_contacts kb \<noteq> None
           else if entity = ''policy'' then ref = singleton_ref \<and> kb_policies kb \<noteq> None
           else if entity = ''delivery_zone'' then list_ex (\<lambda>z. dz_ref z = ref) (kb_zones kb)
           else if entity = ''topic'' then list_ex (\<lambda>t. tp_slug t = ref) (kb_topics kb)
           else False))"

section \<open>Decoding\<close>

text \<open>
  \<open>json.Unmarshal\<close> into the struct \<open>rawKBGap\<close>. A member fills the field of its name up to case
  folding (the Kelvin sign folds to k and the long s to s); the last such member wins, null leaves the
  field, and a value of another type makes the decoding fail as a whole.
\<close>

definition fold_ascii :: "int \<Rightarrow> int" where
  "fold_ascii r =
     (if 0x41 \<le> r \<and> r \<le> 0x5A then r + 0x20 else if r = 0x212A then 0x6B else if r = 0x017F then 0x73 else r)"

definition names_field :: "string \<Rightarrow> string \<Rightarrow> bool" where
  "names_field name k \<longleftrightarrow> map fold_ascii (runes k) = runes name"

fun string_items :: "json list \<Rightarrow> string list option" where
  "string_items [] = Some []"
| "string_items (JString v # vs) = map_option (\<lambda>r. v # r) (string_items vs)"
| "string_items (JNull # vs) = map_option (\<lambda>r. '''' # r) (string_items vs)"
| "string_items (v # vs) = None"

definition fill_string :: "json \<Rightarrow> (string \<Rightarrow> kb_gap) \<Rightarrow> kb_gap \<Rightarrow> kb_gap option" where
  "fill_string v upd g = (case v of JString s \<Rightarrow> Some (upd s) | JNull \<Rightarrow> Some g | _ \<Rightarrow> None)"

definition fill_member :: "string \<times> json \<Rightarrow> kb_gap \<Rightarrow> kb_gap option" where
  "fill_member m g =
     (let k = fst m; v = snd m in
      if names_field ''reason_code'' k then fill_string v (\<lambda>s. g\<lparr>g_reason := s\<rparr>) g
      else if names_field ''target_entity_type'' k then fill_string v (\<lambda>s. g\<lparr>g_entity := s\<rparr>) g
      else if names_field ''target_entity_ref'' k then fill_string v (\<lambda>s. g\<lparr>g_ref := s\<rparr>) g
      else if names_field ''missing_fields'' k then
        (case v of
           JArray vs \<Rightarrow> map_option (\<lambda>fs. g\<lparr>g_fields := fs\<rparr>) (string_items vs)
         | JNull \<Rightarrow> Some (g\<lparr>g_fields := []\<rparr>)
         | _ \<Rightarrow> None)
      else Some g)"

fun fill_members :: "(string \<times> json) list \<Rightarrow> kb_gap \<Rightarrow> kb_gap option" where
  "fill_members [] g = Some g"
| "fill_members (m # ms) g = (case fill_member m g of None \<Rightarrow> None | Some g' \<Rightarrow> fill_members ms g')"

definition empty_gap :: kb_gap where
  "empty_gap = \<lparr>g_reason = '''', g_entity = '''', g_ref = '''', g_fields = [], g_source = gap_source_model\<rparr>"

definition decode_kb_gap :: "json \<Rightarrow> kb_gap option" where
  "decode_kb_gap raw =
     (case (case raw of JObject ms \<Rightarrow> fill_members ms empty_gap | JNull \<Rightarrow> Some empty_gap | _ \<Rightarrow> None) of
        None \<Rightarrow> None
      | Some g \<Rightarrow>
          if g_reason g = '''' \<and> g_entity g = '''' \<and> g_ref g = '''' \<and> g_fields g = [] then None else Some g)"

section \<open>The gate\<close>

fun keep_new :: "string list \<Rightarrow> string list \<Rightarrow> string list \<Rightarrow> string list" where
  "keep_new allowed seen [] = []"
| "keep_new allowed seen (f # fs) =
     (if f \<in> set allowed \<and> f \<notin> set seen then f # keep_new allowed (f # seen) fs
      else keep_new allowed seen fs)"

definition sanitize_kb_gap :: "kb_gap option \<Rightarrow> kb option \<Rightarrow> kb_gap option" where
  "sanitize_kb_gap gapo kbo =
     (case gapo of
        None \<Rightarrow> None
      | Some gap \<Rightarrow>
          if g_reason gap \<notin> set model_gap_reason_codes then None
          else
            let out = \<lparr>g_reason = g_reason gap, g_entity = '''', g_ref = '''', g_fields = [], g_source = g_source gap\<rparr> in
            if g_entity gap \<noteq> '''' \<and> g_ref gap \<noteq> '''' \<and> gap_entity_exists kbo (g_entity gap) (g_ref gap) then
              Some (out\<lparr>g_entity := g_entity gap, g_ref := g_ref gap,
                        g_fields := (case map_of gap_field_allowlist (g_entity gap) of
                                       None \<Rightarrow> []
                                     | Some allowed \<Rightarrow> keep_new allowed [] (g_fields gap))\<rparr>)
            else Some out)"

lemma keep_new_props:
  "set (keep_new allowed seen fs) = (set fs \<inter> set allowed) - set seen \<and> distinct (keep_new allowed seen fs)"
  by (induction fs arbitrary: seen) auto

lemma keep_new_id:
  "distinct fs \<Longrightarrow> set fs \<subseteq> set allowed \<Longrightarrow> set fs \<inter> set seen = {} \<Longrightarrow> keep_new allowed seen fs = fs"
  by (induction fs arbitrary: seen) auto

lemma existing_entity_known: "gap_entity_exists kbo e r \<Longrightarrow> e \<in> set all_gap_entity_types"
  by (auto simp: gap_entity_exists_def all_gap_entity_types_def split: option.splits if_splits)

text \<open>What a trusted diagnostic looks like.\<close>

definition gap_confirmed :: "kb option \<Rightarrow> kb_gap \<Rightarrow> bool" where
  "gap_confirmed kbo g \<longleftrightarrow>
     g_reason g \<in> set all_gap_reason_codes \<and> g_reason g \<noteq> gap_engine_error
     \<and> distinct (g_fields g)
     \<and> (if g_entity g = '''' then g_ref g = '''' \<and> g_fields g = []
        else gap_entity_exists kbo (g_entity g) (g_ref g)
          \<and> (\<exists>allowed. map_of gap_field_allowlist (g_entity g) = Some allowed \<and> set (g_fields g) \<subseteq> set allowed))"

lemma model_codes: "r \<in> set model_gap_reason_codes \<longleftrightarrow> r \<in> set all_gap_reason_codes \<and> r \<noteq> gap_engine_error"
  by (auto simp: model_gap_reason_codes_def all_gap_reason_codes_def gap_engine_error_def)

lemma known_entity_allowlist:
  "e \<in> set all_gap_entity_types \<Longrightarrow> e \<noteq> '''' \<and> (\<exists>allowed. map_of gap_field_allowlist e = Some allowed)"
  by (auto simp: all_gap_entity_types_def gap_field_allowlist_def)

text \<open>
  The gate for escalation diagnostics is sound and stable. Whatever the model claims, what passes
  names a reason the model may use, an entity only if the loaded knowledge base has that row, and
  fields only from that entity's closed list and each at most once; a diagnostic of that form passes
  unchanged, so a second pass changes nothing, and no claim is ever attributed to the engine.
\<close>

theorem gap_gate_exact:
  "(case sanitize_kb_gap (Some g) kbo of
      None \<Rightarrow> g_reason g \<notin> set model_gap_reason_codes
    | Some h \<Rightarrow> gap_confirmed kbo h \<and> g_reason h = g_reason g \<and> g_source h = g_source g
        \<and> sanitize_kb_gap (Some h) kbo = Some h)
   \<and> (gap_confirmed kbo g \<longleftrightarrow> sanitize_kb_gap (Some g) kbo = Some g)"
proof -
  have fixed: "sanitize_kb_gap (Some h) kbo = Some h" if c: "gap_confirmed kbo h" for h
  proof -
    have r: "g_reason h \<in> set model_gap_reason_codes" using c by (simp add: gap_confirmed_def model_codes)
    show ?thesis
    proof (cases "g_entity h = ''''")
      case True
      with c r show ?thesis by (simp add: sanitize_kb_gap_def Let_def gap_confirmed_def)
    next
      case False
      with c obtain allowed where e: "gap_entity_exists kbo (g_entity h) (g_ref h)" "distinct (g_fields h)"
        "map_of gap_field_allowlist (g_entity h) = Some allowed" "set (g_fields h) \<subseteq> set allowed"
        by (auto simp: gap_confirmed_def)
      then have "g_ref h \<noteq> ''''" by (auto simp: gap_entity_exists_def split: option.splits)
      with False e r keep_new_id [of "g_fields h" allowed "[]"] show ?thesis
        by (simp add: sanitize_kb_gap_def Let_def)
    qed
  qed
  have confirmed: "gap_confirmed kbo h \<and> g_reason h = g_reason g \<and> g_source h = g_source g"
    if s: "sanitize_kb_gap (Some g) kbo = Some h" for g h
  proof -
    have r: "g_reason g \<in> set model_gap_reason_codes"
      using s by (auto simp: sanitize_kb_gap_def split: if_splits)
    show ?thesis
    proof (cases "g_entity g \<noteq> '''' \<and> g_ref g \<noteq> '''' \<and> gap_entity_exists kbo (g_entity g) (g_ref g)")
      case True
      then obtain allowed where a: "map_of gap_field_allowlist (g_entity g) = Some allowed"
        using known_entity_allowlist existing_entity_known by blast
      with True s r have "h = \<lparr>g_reason = g_reason g, g_entity = g_entity g, g_ref = g_ref g,
          g_fields = keep_new allowed [] (g_fields g), g_source = g_source g\<rparr>"
        by (simp add: sanitize_kb_gap_def Let_def)
      with True a r keep_new_props [of allowed "[]" "g_fields g"] show ?thesis
        by (auto simp: gap_confirmed_def model_codes)
    next
      case False
      with s r have "h = \<lparr>g_reason = g_reason g, g_entity = '''', g_ref = '''', g_fields = [], g_source = g_source g\<rparr>"
        by (auto simp: sanitize_kb_gap_def Let_def split: if_splits)
      with r show ?thesis by (simp add: gap_confirmed_def model_codes)
    qed
  qed
  have none: "sanitize_kb_gap (Some g) kbo = None \<longleftrightarrow> g_reason g \<notin> set model_gap_reason_codes"
    by (auto simp: sanitize_kb_gap_def Let_def)
  show ?thesis
    using fixed confirmed none by (auto split: option.split)
qed

end
