(* ===== verification/Ai_Final.thy ===== *)
theory Ai_Final
  imports Json Ai_Facts
begin

text \<open>
  Finding the answer in what a model returned, \<open>backend/aiprompt/finaljson.go\<close>: the text may be one JSON
  object, an object in a Markdown fence, or an object somewhere inside reasoning. Extraction only selects
  a stretch of the text, it never repairs one.
\<close>

section \<open>Markdown fences\<close>

text \<open>\<open>\s\<close> of the patterns: ASCII white space without the vertical tab.\<close>

definition re_space :: "char \<Rightarrow> bool" where
  "re_space c \<longleftrightarrow> c = CHR 0x09 \<or> c = CHR 0x0A \<or> c = CHR 0x0C \<or> c = CHR 0x0D \<or> c = CHR '' ''"

definition ascii_letter :: "char \<Rightarrow> bool" where
  "ascii_letter c \<longleftrightarrow> in_ranges [(0x41, 0x5A), (0x61, 0x7A)] (byte_of c)"

definition fence :: string where "fence = replicate 3 (CHR 0x60)"

text \<open>
  \<open>fenceOpenPattern\<close> can only match at the start and \<open>fenceClosePattern\<close> only at the end; the greedy
  repetitions are over disjoint classes, so there is one way to match.
\<close>

definition strip_open :: "string \<Rightarrow> string" where
  "strip_open s =
     (let t = dropWhile re_space s in
      if prefix fence t then dropWhile re_space (dropWhile ascii_letter (drop 3 t)) else s)"

definition strip_close :: "string \<Rightarrow> string" where
  "strip_close s =
     (let t = dropWhile re_space (rev s) in
      if prefix fence t then rev (dropWhile re_space (drop 3 t)) else s)"

definition strip_markdown_fences :: "string \<Rightarrow> string" where
  "strip_markdown_fences raw = strip_close (strip_open raw)"

section \<open>Objects\<close>

definition operational_properties :: "string list" where
  "operational_properties = [''reply_text'', ''reply_language'', ''media_files_to_send'', ''escalate'']"

definition decode_one_object :: "string \<Rightarrow> (string \<times> json) list option" where
  "decode_one_object s = (case parse_json s of Some (JObject ms) \<Rightarrow> Some ms | _ \<Rightarrow> None)"

definition is_string :: "json \<Rightarrow> bool" where
  "is_string v \<longleftrightarrow> (case v of JString s \<Rightarrow> True | _ \<Rightarrow> False)"

definition property_type_ok :: "string \<Rightarrow> json \<Rightarrow> bool" where
  "property_type_ok name v \<longleftrightarrow>
     (if name = ''media_files_to_send'' then (case v of JArray vs \<Rightarrow> list_all is_string vs | _ \<Rightarrow> False)
      else if name = ''escalate'' then (case v of JBool b \<Rightarrow> True | _ \<Rightarrow> False)
      else if name = ''confidence'' then (case v of JNumber n \<Rightarrow> True | _ \<Rightarrow> False)
      else is_string v)"

definition has_operational_property :: "(string \<times> json) list \<Rightarrow> bool" where
  "has_operational_property ms \<longleftrightarrow> list_ex (\<lambda>n. member n ms \<noteq> None) operational_properties"

definition operational_properties_typed :: "(string \<times> json) list \<Rightarrow> bool" where
  "operational_properties_typed ms \<longleftrightarrow>
     list_all (\<lambda>n. case member n ms of None \<Rightarrow> False | Some v \<Rightarrow> property_type_ok n v) operational_properties"

section \<open>Candidates\<close>

datatype extract_method = ExtractDirect | ExtractOuterFence | ExtractFencedBlock | ExtractBalancedObject

record candidate =
  cd_text :: string
  cd_start :: nat
  cd_end :: nat
  cd_method :: extract_method

text \<open>\<open>fencedBlockRE\<close> at the head of a string: where the body begins, where it ends, where the fence ends.\<close>

definition fence_at :: "string \<Rightarrow> (nat \<times> nat \<times> nat) option" where
  "fence_at s =
     (if \<not> prefix fence s then None
      else
        let r = drop 3 s;
            a = length (takeWhile ascii_letter r);
            b = length (takeWhile (\<lambda>c. c = CHR '' '' \<or> c = CHR 0x09) (drop a r));
            r2 = drop (a + b) r in
        if \<not> prefix [CHR 0x0A] r2 then None
        else (case index_of (tl r2) fence of
                None \<Rightarrow> None
              | Some k \<Rightarrow> let start = 4 + a + b in Some (start, start + k, start + k + 3)))"

function fences_from :: "nat \<Rightarrow> string \<Rightarrow> (nat \<times> nat \<times> nat \<times> nat) list" where
  "fences_from i s =
     (if s = [] then []
      else case fence_at s of
        Some (b0, b1, e) \<Rightarrow> (i, i + b0, i + b1, i + e) # fences_from (i + e) (drop e s)
      | None \<Rightarrow> fences_from (i + 1) (tl s))"
  by pat_completeness auto
termination
  by (relation "measure (\<lambda>(i, s). length s)")
    (auto simp: fence_at_def Let_def split: if_splits option.splits)

declare fences_from.simps [simp del]

definition fence_candidates :: "string \<Rightarrow> candidate list" where
  "fence_candidates raw =
     concat (map (\<lambda>(i, b0, b1, e).
       let body = trim_space (take (b1 - b0) (drop b0 raw)) in
       if decode_one_object body \<noteq> None
       then [\<lparr>cd_text = body, cd_start = i, cd_end = e, cd_method = ExtractFencedBlock\<rparr>] else [])
       (fences_from 0 raw))"

definition inside_fence :: "string \<Rightarrow> nat \<Rightarrow> bool" where
  "inside_fence raw i \<longleftrightarrow> list_ex (\<lambda>(a, b0, b1, e). a \<le> i \<and> i < e) (fences_from 0 raw)"

text \<open>\<open>decodeBalancedObject\<close> on a text that starts with an opening brace: its exact text and width.\<close>

definition decode_balanced_object :: "string \<Rightarrow> (string \<times> nat) option" where
  "decode_balanced_object s =
     (case parse_first s of
        Some (v, rest) \<Rightarrow>
          let k = length s - length rest in
          if k = 0 \<or> hd s \<noteq> CHR ''{'' then None else Some (take k s, k)
      | None \<Rightarrow> None)"

function objects_from :: "string \<Rightarrow> nat \<Rightarrow> string \<Rightarrow> candidate list" where
  "objects_from raw i s =
     (if s = [] then []
      else if hd s \<noteq> CHR ''{'' \<or> inside_fence raw i then objects_from raw (i + 1) (tl s)
      else case decode_balanced_object s of
        None \<Rightarrow> objects_from raw (i + 1) (tl s)
      | Some (obj, k) \<Rightarrow>
          \<lparr>cd_text = obj, cd_start = i, cd_end = i + k, cd_method = ExtractBalancedObject\<rparr>
            # objects_from raw (i + k) (drop k s))"
  by pat_completeness auto
termination
  by (relation "measure (\<lambda>(raw, i, s). length s)")
    (auto simp: decode_balanced_object_def Let_def split: if_splits option.splits prod.splits)

declare objects_from.simps [simp del]

definition scan_json_candidates :: "string \<Rightarrow> candidate list" where
  "scan_json_candidates raw = sort_key cd_start (fence_candidates raw @ objects_from raw 0 raw)"

definition non_final_around :: "string \<Rightarrow> candidate \<Rightarrow> string" where
  "non_final_around raw c =
     (let before = trim_space (take (cd_start c) raw); after = trim_space (drop (cd_end c) raw) in
      if before = '''' then after
      else if after = '''' then before
      else before @ [CHR 0x0A] @ after)"

section \<open>Extraction\<close>

record extracted =
  x_final :: string
  x_non_final :: string
  x_method :: extract_method

type_synonym acceptance = "(string \<times> json) list \<Rightarrow> bool"

definition accepted :: "acceptance \<Rightarrow> string \<Rightarrow> bool" where
  "accepted accept s \<longleftrightarrow> (case decode_one_object s of None \<Rightarrow> False | Some ms \<Rightarrow> accept ms)"

definition extract_json_with :: "string \<Rightarrow> acceptance \<Rightarrow> acceptance \<Rightarrow> extracted option" where
  "extract_json_with raw accept_whole accept_candidate =
     (let trimmed = trim_space raw;
          stripped = trim_space (strip_markdown_fences trimmed) in
      if accepted accept_whole trimmed
      then Some \<lparr>x_final = trimmed, x_non_final = '''', x_method = ExtractDirect\<rparr>
      else if stripped \<noteq> trimmed \<and> accepted accept_whole stripped
      then Some \<lparr>x_final = stripped, x_non_final = '''', x_method = ExtractOuterFence\<rparr>
      else case find (\<lambda>c. accepted accept_candidate (cd_text c)) (rev (scan_json_candidates raw)) of
        None \<Rightarrow> None
      | Some c \<Rightarrow> Some \<lparr>x_final = cd_text c, x_non_final = non_final_around raw c, x_method = cd_method c\<rparr>)"

definition extract_json_object :: "string \<Rightarrow> acceptance \<Rightarrow> extracted option" where
  "extract_json_object raw accept = extract_json_with raw accept accept"

definition extract_final_output :: "string \<Rightarrow> extracted option" where
  "extract_final_output raw = extract_json_with raw has_operational_property operational_properties_typed"

section \<open>Extraction selects\<close>

lemma trim_space_sublist: "sublist (trim_space s) s"
  unfolding trim_space_def
  by (meson sublist_order.order.trans prefix_imp_sublist suffix_imp_sublist trim_left_suffix trim_right_prefix)

lemma strip_open_sublist: "sublist (strip_open s) s"
  unfolding strip_open_def Let_def
  by (auto intro!: suffix_imp_sublist intro: suffix_order.trans [OF suffix_dropWhile] suffix_dropWhile suffix_drop
      suffix_order.trans [OF suffix_order.trans [OF suffix_dropWhile suffix_dropWhile] suffix_order.trans [OF suffix_drop suffix_dropWhile]])

lemma strip_close_sublist: "sublist (strip_close s) s"
proof -
  have "suffix (dropWhile re_space (drop 3 (dropWhile re_space (rev s)))) (rev s)"
    by (meson suffix_dropWhile suffix_drop suffix_order.trans)
  then have "prefix (rev (dropWhile re_space (drop 3 (dropWhile re_space (rev s))))) s"
    by (simp add: suffix_to_prefix)
  then show ?thesis by (auto simp: strip_close_def Let_def intro: prefix_imp_sublist)
qed

lemma strip_sublist: "sublist (strip_markdown_fences s) s"
  unfolding strip_markdown_fences_def
  using strip_close_sublist strip_open_sublist sublist_order.order.trans by blast

lemma take_drop_sublist: "sublist (take n (drop m s)) s"
  by (meson prefix_imp_sublist suffix_imp_sublist sublist_order.order.trans suffix_drop take_is_prefix)

lemma objects_from_text:
  "c \<in> set (objects_from raw i s) \<Longrightarrow>
     cd_method c = ExtractBalancedObject \<and> sublist (cd_text c) s"
proof (induction raw i s rule: objects_from.induct)
  case (1 raw i s)
  have ne: "s \<noteq> []" using 1(4) by (subst (asm) objects_from.simps) (auto split: if_splits)
  have tl: "sublist t (tl s) \<Longrightarrow> sublist t s" for t
    using ne by (cases s) (auto simp: sublist_Cons_right)
  show ?case
  proof (cases "hd s \<noteq> CHR ''{'' \<or> inside_fence raw i")
    case True
    have "c \<in> set (objects_from raw (i + 1) (tl s))"
      using 1(4) True ne by (subst (asm) objects_from.simps) (auto split: if_splits)
    from 1(1) [OF ne True this] tl show ?thesis by blast
  next
    case False
    show ?thesis
    proof (cases "decode_balanced_object s")
      case None
      have "c \<in> set (objects_from raw (i + 1) (tl s))"
        using 1(4) False None ne by (subst (asm) objects_from.simps) auto
      from 1(2) [OF ne False None this] tl show ?thesis by blast
    next
      case (Some p)
      obtain obj k where p: "p = (obj, k)" by (cases p)
      have obj: "obj = take k s"
        using Some p by (auto simp: decode_balanced_object_def Let_def split: option.splits if_splits)
      from 1(4) False Some p ne consider
          "c = \<lparr>cd_text = obj, cd_start = i, cd_end = i + k, cd_method = ExtractBalancedObject\<rparr>"
        | "c \<in> set (objects_from raw (i + k) (drop k s))"
        by (subst (asm) objects_from.simps) auto
      then show ?thesis
      proof cases
        case 1
        then show ?thesis using obj by (auto intro: prefix_imp_sublist take_is_prefix)
      next
        case 2
        from 1(3) [OF ne False Some p [symmetric] 2]
        show ?thesis using sublist_order.order.trans suffix_imp_sublist suffix_drop by metis
      qed
    qed
  qed
qed

lemma candidate_text:
  "c \<in> set (scan_json_candidates raw) \<Longrightarrow>
     (cd_method c = ExtractFencedBlock \<or> cd_method c = ExtractBalancedObject) \<and> sublist (cd_text c) raw"
proof -
  assume "c \<in> set (scan_json_candidates raw)"
  then consider "c \<in> set (fence_candidates raw)" | "c \<in> set (objects_from raw 0 raw)"
    by (auto simp: scan_json_candidates_def)
  then show ?thesis
  proof cases
    case 1
    then obtain b0 b1 where "cd_text c = trim_space (take (b1 - b0) (drop b0 raw))"
      and "cd_method c = ExtractFencedBlock"
      by (auto simp: fence_candidates_def Let_def split: if_splits)
    then show ?thesis using trim_space_sublist take_drop_sublist sublist_order.order.trans by metis
  qed (use objects_from_text in blast)
qed

lemma accepted_iff: "accepted accept s \<longleftrightarrow> (\<exists>ms. decode_one_object s = Some ms \<and> accept ms)"
  by (auto simp: accepted_def split: option.splits)

lemma typed_has: "operational_properties_typed ms \<Longrightarrow> has_operational_property ms"
  by (auto simp: operational_properties_typed_def has_operational_property_def operational_properties_def
      split: option.splits)

lemma find_last:
  "find P (rev xs) = Some c \<Longrightarrow> sorted (map f xs) \<Longrightarrow>
     c \<in> set xs \<and> P c \<and> list_all (\<lambda>d. f d \<le> f c) (filter P xs)" for f :: "'a \<Rightarrow> nat"
proof (induction xs rule: rev_induct)
  case (snoc x xs)
  show ?case
  proof (cases "P x")
    case True
    then have "c = x" using snoc.prems(1) by simp
    then show ?thesis using True snoc.prems(2) by (auto simp: sorted_append list_all_iff)
  next
    case False
    then show ?thesis using snoc by (auto simp: sorted_append)
  qed
qed simp

lemma candidate_found:
  assumes "find (\<lambda>c. accepted accept (cd_text c)) (rev (scan_json_candidates raw)) = Some c"
  shows "c \<in> set (scan_json_candidates raw)" and "accepted accept (cd_text c)"
    and "list_all (\<lambda>d. cd_start d \<le> cd_start c)
           (filter (\<lambda>d. accepted accept (cd_text d)) (scan_json_candidates raw))"
  using find_last [OF assms, of cd_start] by (simp_all add: scan_json_candidates_def)

text \<open>
  Extraction never invents an answer. What it returns is a contiguous stretch of the model's output
  that decodes as one JSON object with a property of the contract; when it was found inside other text,
  all four operational properties are present with their types, and it starts no earlier than any other
  embedded object of that kind. It fails only if nothing in the output qualifies.
\<close>

theorem extraction_selects:
  "case extract_final_output raw of
     Some x \<Rightarrow>
       sublist (x_final x) raw
       \<and> (\<exists>ms. decode_one_object (x_final x) = Some ms \<and> has_operational_property ms
            \<and> (x_method x = ExtractDirect \<or> x_method x = ExtractOuterFence
               \<or> operational_properties_typed ms
                  \<and> (\<exists>c \<in> set (scan_json_candidates raw). cd_text c = x_final x
                       \<and> list_all (\<lambda>d. cd_start d \<le> cd_start c)
                           (filter (\<lambda>d. accepted operational_properties_typed (cd_text d)) (scan_json_candidates raw)))))
   | None \<Rightarrow>
       \<not> accepted has_operational_property (trim_space raw)
       \<and> \<not> accepted has_operational_property (trim_space (strip_markdown_fences (trim_space raw)))
       \<and> list_all (\<lambda>c. \<not> accepted operational_properties_typed (cd_text c)) (scan_json_candidates raw)"
proof (cases "accepted has_operational_property (trim_space raw)
    \<or> accepted has_operational_property (trim_space (strip_markdown_fences (trim_space raw)))")
  case True
  let ?s = "trim_space (strip_markdown_fences (trim_space raw))"
  have "sublist ?s raw" using trim_space_sublist strip_sublist sublist_order.order.trans by metis
  with True trim_space_sublist [of raw] show ?thesis
    unfolding extract_final_output_def extract_json_with_def Let_def
    by (cases "accepted has_operational_property (trim_space raw)") (auto simp: accepted_iff)
next
  case False
  show ?thesis
  proof (cases "find (\<lambda>c. accepted operational_properties_typed (cd_text c)) (rev (scan_json_candidates raw))")
    case None
    then have "list_all (\<lambda>c. \<not> accepted operational_properties_typed (cd_text c)) (scan_json_candidates raw)"
      by (auto simp: find_None_iff list_all_iff)
    with False None show ?thesis by (simp add: extract_final_output_def extract_json_with_def Let_def)
  next
    case (Some c)
    note found = candidate_found [OF Some]
    from found(2) obtain ms where "decode_one_object (cd_text c) = Some ms" "operational_properties_typed ms"
      by (auto simp: accepted_iff)
    moreover have "extract_final_output raw =
        Some \<lparr>x_final = cd_text c, x_non_final = non_final_around raw c, x_method = cd_method c\<rparr>"
      using False Some by (simp add: extract_final_output_def extract_json_with_def Let_def)
    ultimately show ?thesis
      using found(1,3) candidate_text [OF found(1)] by (auto dest: typed_has)
  qed
qed

end
