(* ===== verification/Ai_Contract.thy ===== *)
theory Ai_Contract
  imports Ai_Resolve Ai_Guards Ai_Gap Ai_Final
begin

text \<open>
  The response contract: what the model may answer (\<open>backend/aiprompt/contract.go\<close>, \<open>ValidateResponse\<close>
  and \<open>ValidateResponseV7\<close>) and when a failed answer is asked for again
  (\<open>backend/aiprompt/retry.go\<close>). The pointers \<open>kb\<close> and \<open>cat\<close> may be nil, which is \<open>None\<close>. A list of
  issues keeps the code's order; the issues of unknown members, which the code finds by ranging over a
  map, are listed in the order of the text.
\<close>

section \<open>Responses and issues\<close>

text \<open>\<open>r_confidence\<close> keeps the number as written; empty is the zero value.\<close>

record response =
  r_text :: string
  r_language :: string
  r_media :: "string list"
  r_escalate :: bool
  r_reason :: string
  r_confidence :: string
  r_gap :: "kb_gap option"

datatype contract_issue =
    ParseIssue
  | MissingProperty string
  | WrongPropertyType string
  | UnknownProperty string
  | BadLanguage string
  | UnknownMediaToken string
  | ValidationContext
  | MediaTokenInReplyText string
  | UnknownFactPlaceholder string
  | StaleFactPlaceholder string
  | MalformedFactPlaceholder
  | ExactValueLiteral string
  | GuardIssue guard_issue

definition diagnostic_properties :: "string list" where
  "diagnostic_properties = [''escalation_reason'', ''confidence'']"

definition string_member :: "string \<Rightarrow> (string \<times> json) list \<Rightarrow> string" where
  "string_member n ms = (case member n ms of Some (JString s) \<Rightarrow> s | _ \<Rightarrow> '''')"

definition media_member :: "(string \<times> json) list \<Rightarrow> string list" where
  "media_member ms =
     (case member ''media_files_to_send'' ms of
        Some (JArray vs) \<Rightarrow> map (\<lambda>v. case v of JString s \<Rightarrow> s | _ \<Rightarrow> '''') vs
      | _ \<Rightarrow> [])"

definition decode_response :: "(string \<times> json) list \<Rightarrow> response" where
  "decode_response ms =
     \<lparr>r_text = string_member ''reply_text'' ms,
      r_language = string_member ''reply_language'' ms,
      r_media = media_member ms,
      r_escalate = (case member ''escalate'' ms of Some (JBool b) \<Rightarrow> b | _ \<Rightarrow> False),
      r_reason = string_member ''escalation_reason'' ms,
      r_confidence = (case member ''confidence'' ms of Some (JNumber n) \<Rightarrow> n | _ \<Rightarrow> ''''),
      r_gap = None\<rparr>"

section \<open>Shape\<close>

definition property_issue :: "(string \<times> json) list \<Rightarrow> string \<Rightarrow> contract_issue list" where
  "property_issue ms n =
     (case member n ms of
        None \<Rightarrow> [MissingProperty n]
      | Some v \<Rightarrow> if property_type_ok n v then [] else [WrongPropertyType n])"

definition wrong_type :: "(string \<times> json) list \<Rightarrow> bool" where
  "wrong_type ms \<longleftrightarrow>
     list_ex (\<lambda>n. case member n ms of None \<Rightarrow> False | Some v \<Rightarrow> \<not> property_type_ok n v) operational_properties"

definition shape_issues :: "string list \<Rightarrow> (string \<times> json) list \<Rightarrow> contract_issue list" where
  "shape_issues extra ms =
     concat (map (property_issue ms) operational_properties)
     @ map UnknownProperty
         (filter (\<lambda>k. k \<notin> set (extra @ operational_properties @ diagnostic_properties)) (names ms))"

section \<open>Facts and literals\<close>

fun placeholder_issues :: "kb \<Rightarrow> catalog \<Rightarrow> string \<Rightarrow> string list \<Rightarrow> string list \<Rightarrow> contract_issue list" where
  "placeholder_issues kb cat lang seen [] = []"
| "placeholder_issues kb cat lang seen (tok # toks) =
     (if tok \<in> set seen then placeholder_issues kb cat lang seen toks
      else if fact_by_token cat tok = None
      then UnknownFactPlaceholder tok # placeholder_issues kb cat lang (tok # seen) toks
      else case resolve_fact_lang tok (Some kb) (Some cat) lang of
        Inl e \<Rightarrow> StaleFactPlaceholder tok # placeholder_issues kb cat lang (tok # seen) toks
      | Inr v \<Rightarrow> placeholder_issues kb cat lang (tok # seen) toks)"

text \<open>The facts that resolve to something, as pairs of token and value.\<close>

fun resolved_facts :: "kb \<Rightarrow> catalog \<Rightarrow> string \<Rightarrow> fact_entry list \<Rightarrow> (string \<times> string) list" where
  "resolved_facts kb cat lang [] = []"
| "resolved_facts kb cat lang (f # fs) =
     (case resolve_fact_lang (f_token f) (Some kb) (Some cat) lang of
        Inl e \<Rightarrow> resolved_facts kb cat lang fs
      | Inr v \<Rightarrow>
          if normalize_literal v = '''' then resolved_facts kb cat lang fs
          else (f_token f, v) # resolved_facts kb cat lang fs)"

text \<open>\<open>valueTokens\<close>: how many entries produce the same normalized value.\<close>

definition value_tokens :: "(string \<times> string) list \<Rightarrow> string \<Rightarrow> string list" where
  "value_tokens resolved nv = map fst (filter (\<lambda>(tok, v). normalize_literal v = nv) resolved)"

fun literal_issues ::
  "(string \<times> string) list \<Rightarrow> string \<Rightarrow> string list \<Rightarrow> (string \<times> string) list \<Rightarrow> contract_issue list" where
  "literal_issues resolved without checked [] = []"
| "literal_issues resolved without checked ((tok, v) # rest) =
     (let nv = normalize_literal v in
      if nv \<in> set checked then literal_issues resolved without checked rest
      else if length (value_tokens resolved nv) > 1 then literal_issues resolved without (nv # checked) rest
      else if contains_literal without v
      then ExactValueLiteral tok # literal_issues resolved without (nv # checked) rest
      else literal_issues resolved without (nv # checked) rest)"

definition validate_fact_contract :: "response \<Rightarrow> kb \<Rightarrow> catalog \<Rightarrow> contract_issue list" where
  "validate_fact_contract r kb cat =
     (let without = without_placeholders (r_text r);
          resolved = resolved_facts kb cat (r_language r) (cat_facts cat) in
      map (\<lambda>m. MediaTokenInReplyText (m_token m)) (filter (\<lambda>m. contains_str (r_text r) (m_token m)) (cat_media cat))
      @ placeholder_issues kb cat (r_language r) [] (find_placeholders (r_text r))
      @ (if contains_any without ''{}'' then [MalformedFactPlaceholder] else [])
      @ literal_issues resolved without [] resolved
      @ map GuardIssue (validate_schedule_literal_contract kb without)
      @ map GuardIssue (validate_salon_confirmation_guard kb without))"

section \<open>Validation\<close>

definition reply_languages :: "string list" where "reply_languages = [''ru'', ''kk'']"

text \<open>What both versions do after decoding.\<close>

definition semantic_issues :: "response \<Rightarrow> kb option \<Rightarrow> catalog option \<Rightarrow> contract_issue list" where
  "semantic_issues r kbo cato =
     (if r_language r \<notin> set reply_languages then [BadLanguage (r_language r)] else [])
     @ (case cato of
          None \<Rightarrow> []
        | Some cat \<Rightarrow> map UnknownMediaToken (filter (\<lambda>tok. media_by_token cat tok = None) (r_media r)))
     @ (case (kbo, cato) of
          (Some kb, Some cat) \<Rightarrow> validate_fact_contract r kb cat
        | _ \<Rightarrow> [ValidationContext])"

definition response_blob :: "string \<Rightarrow> string" where
  "response_blob raw = trim_space (strip_markdown_fences raw)"

definition validate_response ::
  "string \<Rightarrow> kb option \<Rightarrow> catalog option \<Rightarrow> response option \<times> contract_issue list" where
  "validate_response raw kbo cato =
     (case decode_one_object (response_blob raw) of
        None \<Rightarrow> (None, [ParseIssue])
      | Some ms \<Rightarrow>
          let shape = shape_issues [] ms; r = decode_response ms in
          if wrong_type ms then (None, shape) else (Some r, shape @ semantic_issues r kbo cato))"

definition decode_response_v7 :: "(string \<times> json) list \<Rightarrow> kb option \<Rightarrow> response" where
  "decode_response_v7 ms kbo =
     (case member ''kb_gap'' ms of
        None \<Rightarrow> decode_response ms
      | Some v \<Rightarrow> (decode_response ms)\<lparr>r_gap := sanitize_kb_gap (decode_kb_gap v) kbo\<rparr>)"

definition validate_response_v7 ::
  "string \<Rightarrow> kb option \<Rightarrow> catalog option \<Rightarrow> response option \<times> contract_issue list" where
  "validate_response_v7 raw kbo cato =
     (case decode_one_object (response_blob raw) of
        None \<Rightarrow> (None, [ParseIssue])
      | Some ms \<Rightarrow>
          let shape = shape_issues [''kb_gap''] ms; r = decode_response_v7 ms kbo in
          if wrong_type ms then (None, shape) else (Some r, shape @ semantic_issues r kbo cato))"

section \<open>Retries\<close>

datatype retry_reason = RetryNone | RetryContractShape | RetryMediaNotFound

fun shape_class :: "contract_issue \<Rightarrow> bool" where
  "shape_class (MissingProperty n) = True"
| "shape_class (UnknownProperty n) = True"
| "shape_class ValidationContext = True"
| "shape_class (BadLanguage l) = True"
| "shape_class i = False"

fun media_class :: "contract_issue \<Rightarrow> bool" where
  "media_class (UnknownMediaToken t) = True"
| "media_class i = False"

text \<open>The body the two versions of \<open>ClassifyRetry\<close> share, after their own validation.\<close>

definition classify_validated ::
  "response option \<times> contract_issue list \<Rightarrow> kb option \<Rightarrow> catalog option \<Rightarrow> retry_reason" where
  "classify_validated vr kbo cato =
     (case vr of
        (None, issues) \<Rightarrow> RetryContractShape
      | (Some r, issues) \<Rightarrow>
          if list_ex shape_class issues then RetryContractShape
          else if list_ex media_class issues then RetryMediaNotFound
          else if r_media r = [] then RetryNone
          else (case resolve_send (r_media r) kbo cato of Inl e \<Rightarrow> RetryMediaNotFound | Inr ms \<Rightarrow> RetryNone))"

definition classify_retry :: "string \<Rightarrow> kb option \<Rightarrow> catalog option \<Rightarrow> retry_reason" where
  "classify_retry raw kbo cato =
     (case extract_final_output raw of
        None \<Rightarrow> RetryContractShape
      | Some x \<Rightarrow> classify_validated (validate_response (x_final x) kbo cato) kbo cato)"

definition classify_retry_v7 :: "string \<Rightarrow> kb option \<Rightarrow> catalog option \<Rightarrow> retry_reason" where
  "classify_retry_v7 raw kbo cato =
     (case extract_final_output raw of
        None \<Rightarrow> RetryContractShape
      | Some x \<Rightarrow> classify_validated (validate_response_v7 (x_final x) kbo cato) kbo cato)"

text \<open>The tokens \<open>RetryFeedback\<close> names: unknown to the catalog, or not to be sent on their own.\<close>

definition bad_tokens :: "response \<Rightarrow> kb option \<Rightarrow> catalog \<Rightarrow> string list" where
  "bad_tokens r kbo cat =
     filter (\<lambda>tok. media_by_token cat tok = None
                  \<or> (case resolve_send [tok] kbo (Some cat) of Inl e \<Rightarrow> True | Inr ms \<Rightarrow> False)) (r_media r)"

text \<open>What \<open>RetryFeedbackV7\<close> appends to the prompt; the wording around the tokens is the code's.\<close>

definition feedback_text :: "string list \<Rightarrow> string" where
  "feedback_text bad =
     [CHR 0x0A, CHR 0x0A] @ of_runes [0x0412, 0x0410, 0x0416, 0x041D, 0x041E, 0x0020, 0x2014, 0x0020, 0x043C, 0x0435, 0x0434, 0x0438, 0x0430, 0x0020, 0x043D, 0x0435, 0x0020, 0x043D, 0x0430, 0x0439, 0x0434, 0x0435, 0x043D, 0x043E, 0x002C, 0x0020, 0x0438, 0x0441, 0x043F, 0x0440, 0x0430, 0x0432, 0x044C, 0x0020, 0x0438, 0x0020, 0x043F, 0x043E, 0x043F, 0x0440, 0x043E, 0x0431, 0x0443, 0x0439, 0x0020, 0x0441, 0x043D, 0x043E, 0x0432, 0x0430, 0x003A, 0x0020, 0x0432, 0x0020, 0x043F, 0x0440, 0x0435, 0x0434, 0x044B, 0x0434, 0x0443, 0x0449, 0x0435, 0x043C, 0x0020, 0x043E, 0x0442, 0x0432, 0x0435, 0x0442, 0x0435, 0x0020, 0x043F, 0x043E, 0x043B, 0x0435, 0x0020, 0x0022, 0x006D, 0x0065, 0x0064, 0x0069, 0x0061, 0x005F, 0x0066, 0x0069, 0x006C, 0x0065, 0x0073, 0x005F, 0x0074, 0x006F, 0x005F, 0x0073, 0x0065, 0x006E, 0x0064, 0x0022, 0x0020, 0x0441, 0x043E, 0x0434, 0x0435, 0x0440, 0x0436, 0x0430, 0x043B, 0x043E, 0x0020, 0x0437, 0x043D, 0x0430, 0x0447, 0x0435, 0x043D, 0x0438, 0x044F, 0x002C, 0x0020, 0x0434, 0x043B, 0x044F, 0x0020, 0x043A, 0x043E, 0x0442, 0x043E, 0x0440, 0x044B, 0x0445, 0x0020, 0x0441, 0x0435, 0x0439, 0x0447, 0x0430, 0x0441, 0x0020, 0x043D, 0x0435, 0x0442, 0x0020, 0x043C, 0x0435, 0x0434, 0x0438, 0x0430, 0x0444, 0x0430, 0x0439, 0x043B, 0x0430, 0x003A, 0x0020]
     @ join_str '', '' bad
     @ of_runes [0x002E, 0x0020, 0x0421, 0x043A, 0x043E, 0x043F, 0x0438, 0x0440, 0x0443, 0x0439, 0x0020, 0x043D, 0x0443, 0x0436, 0x043D, 0x044B, 0x0439, 0x0020, 0x0442, 0x043E, 0x043A, 0x0435, 0x043D, 0x0020, 0x0422, 0x041E, 0x0427, 0x041D, 0x041E, 0x0020, 0x0438, 0x0437, 0x0020, 0x0431, 0x043B, 0x043E, 0x043A, 0x0430, 0x0020, 0x0442, 0x043E, 0x0432, 0x0430, 0x0440, 0x0430, 0x0020, 0x0438, 0x043B, 0x0438, 0x0020, 0x0442, 0x0435, 0x043C, 0x044B, 0x0020, 0x0432, 0x044B, 0x0448, 0x0435, 0x0020, 0x2014, 0x0020, 0x043D, 0x0435, 0x0020, 0x0438, 0x0437, 0x043C, 0x0435, 0x043D, 0x044F, 0x0439, 0x002C, 0x0020, 0x043D, 0x0435, 0x0020, 0x0441, 0x043E, 0x043A, 0x0440, 0x0430, 0x0449, 0x0430, 0x0439, 0x0020, 0x0438, 0x0020, 0x043D, 0x0435, 0x0020, 0x043F, 0x0440, 0x0438, 0x0434, 0x0443, 0x043C, 0x044B, 0x0432, 0x0430, 0x0439, 0x0020, 0x043D, 0x043E, 0x0432, 0x044B, 0x0439, 0x003B, 0x0020, 0x0435, 0x0441, 0x043B, 0x0438, 0x0020, 0x043F, 0x043E, 0x0434, 0x0445, 0x043E, 0x0434, 0x044F, 0x0449, 0x0435, 0x0433, 0x043E, 0x0020, 0x043C, 0x0435, 0x0434, 0x0438, 0x0430, 0x0020, 0x0434, 0x0435, 0x0439, 0x0441, 0x0442, 0x0432, 0x0438, 0x0442, 0x0435, 0x043B, 0x044C, 0x043D, 0x043E, 0x0020, 0x043D, 0x0435, 0x0442, 0x002C, 0x0020, 0x0432, 0x0435, 0x0440, 0x043D, 0x0438, 0x0020, 0x043F, 0x0443, 0x0441, 0x0442, 0x043E, 0x0439, 0x0020, 0x0441, 0x043F, 0x0438, 0x0441, 0x043E, 0x043A, 0x002E]"

definition retry_feedback_for ::
  "retry_reason \<Rightarrow> response option \<times> contract_issue list \<Rightarrow> kb option \<Rightarrow> catalog option \<Rightarrow> string" where
  "retry_feedback_for reason vr kbo cato =
     (if reason \<noteq> RetryMediaNotFound then ''''
      else case (fst vr, cato) of
        (Some r, Some cat) \<Rightarrow> (if bad_tokens r kbo cat = [] then '''' else feedback_text (bad_tokens r kbo cat))
      | _ \<Rightarrow> '''')"

definition retry_feedback :: "string \<Rightarrow> kb option \<Rightarrow> catalog option \<Rightarrow> string" where
  "retry_feedback raw kbo cato =
     (case extract_final_output raw of
        None \<Rightarrow> ''''
      | Some x \<Rightarrow> retry_feedback_for (classify_retry raw kbo cato) (validate_response (x_final x) kbo cato) kbo cato)"

definition retry_feedback_v7 :: "string \<Rightarrow> kb option \<Rightarrow> catalog option \<Rightarrow> string" where
  "retry_feedback_v7 raw kbo cato =
     (case extract_final_output raw of
        None \<Rightarrow> ''''
      | Some x \<Rightarrow> retry_feedback_for (classify_retry_v7 raw kbo cato) (validate_response_v7 (x_final x) kbo cato) kbo cato)"

section \<open>What an empty list of issues means\<close>

lemma resolve_in_catalog:
  "resolve_fact_lang tok (Some kb) (Some cat) lang = Inr v \<Longrightarrow> fact_by_token cat tok \<noteq> None"
  by (auto simp: resolve_fact_lang_def split: option.splits)

lemma placeholder_issues_none:
  "placeholder_issues kb cat lang seen toks = [] \<longleftrightarrow>
     (\<forall>tok \<in> set toks - set seen. \<exists>v. resolve_fact_lang tok (Some kb) (Some cat) lang = Inr v)"
proof (induction kb cat lang seen toks rule: placeholder_issues.induct)
  case (2 kb cat lang seen tok toks)
  show ?case
  proof (cases "tok \<in> set seen")
    case False
    show ?thesis
    proof (cases "resolve_fact_lang tok (Some kb) (Some cat) lang")
      case (Inr v)
      with 2 False resolve_in_catalog [OF Inr] show ?thesis by auto
    next
      case (Inl e)
      with False show ?thesis by (auto intro!: bexI [of _ tok])
    qed
  qed (use 2 in auto)
qed simp

lemma resolved_facts_set:
  "(tok, v) \<in> set (resolved_facts kb cat lang fs) \<longleftrightarrow>
     (\<exists>f \<in> set fs. tok = f_token f \<and> resolve_fact_lang tok (Some kb) (Some cat) lang = Inr v
        \<and> normalize_literal v \<noteq> '''')"
  by (induction kb cat lang fs rule: resolved_facts.induct) (auto split: sum.splits)

text \<open>The facts of the catalog whose value of now is \<open>nv\<close>, after normalization.\<close>

definition facts_worth :: "kb \<Rightarrow> catalog \<Rightarrow> string \<Rightarrow> string \<Rightarrow> fact_entry list" where
  "facts_worth kb cat lang nv =
     filter (\<lambda>f. case resolve_fact_lang (f_token f) (Some kb) (Some cat) lang of
                  Inl e \<Rightarrow> False | Inr v \<Rightarrow> normalize_literal v = nv) (cat_facts cat)"

lemma value_tokens_worth:
  assumes "nv \<noteq> ''''"
  shows "length (value_tokens (resolved_facts kb cat lang (cat_facts cat)) nv)
       = length (facts_worth kb cat lang nv)"
proof -
  have "length (value_tokens (resolved_facts kb cat lang fs) nv) =
      length (filter (\<lambda>f. case resolve_fact_lang (f_token f) (Some kb) (Some cat) lang of
                          Inl e \<Rightarrow> False | Inr v \<Rightarrow> normalize_literal v = nv) fs)" for fs
    using assms by (induction kb cat lang fs rule: resolved_facts.induct) (auto simp: value_tokens_def split: sum.splits)
  then show ?thesis by (simp add: facts_worth_def)
qed

lemma contains_literal_cong: "normalize_literal v = normalize_literal w \<Longrightarrow> contains_literal txt v = contains_literal txt w"
  by (simp add: contains_literal_def)

lemma literal_issues_none:
  "literal_issues resolved without checked rest = [] \<longleftrightarrow>
     (\<forall>(tok, v) \<in> set rest. normalize_literal v \<in> set checked
        \<or> length (value_tokens resolved (normalize_literal v)) > 1 \<or> \<not> contains_literal without v)"
proof (induction resolved without checked rest rule: literal_issues.induct)
  case (2 resolved without checked tok v rest)
  let ?nv = "normalize_literal v"
  have same: "contains_literal without w = contains_literal without v" if "normalize_literal w = ?nv" for w
    using that by (rule contains_literal_cong)
  show ?case
  proof (cases "?nv \<in> set checked")
    case True
    with 2(1) [OF refl True] show ?thesis by simp
  next
    case False
    show ?thesis
    proof (cases "length (value_tokens resolved ?nv) > 1")
      case True
      with 2(2) [OF refl False True] False show ?thesis by auto
    next
      case short: False
      show ?thesis
      proof (cases "contains_literal without v")
        case True
        with False short show ?thesis by simp
      next
        case out: False
        with 2(4) [OF refl False short out] False short same show ?thesis by auto
      qed
    qed
  qed
qed simp

lemma typed_iff: "operational_properties_typed ms \<longleftrightarrow> (\<forall>n \<in> set operational_properties. property_issue ms n = [])"
  by (auto simp: operational_properties_typed_def property_issue_def list_all_iff split: option.splits if_splits)

lemma typed_not_wrong: "operational_properties_typed ms \<Longrightarrow> \<not> wrong_type ms"
  by (auto simp: operational_properties_typed_def wrong_type_def list_all_iff list_ex_iff split: option.splits)

lemma not_wrong_issue:
  "\<not> wrong_type ms \<Longrightarrow> n \<in> set operational_properties \<Longrightarrow> property_issue ms n \<in> {[], [MissingProperty n]}"
  by (fastforce simp: property_issue_def wrong_type_def list_ex_iff split: option.splits)

text \<open>The properties an object may have.\<close>

definition allowed_names :: "string list \<Rightarrow> string list" where
  "allowed_names extra = extra @ operational_properties @ diagnostic_properties"

definition well_shaped :: "string list \<Rightarrow> (string \<times> json) list \<Rightarrow> bool" where
  "well_shaped extra ms \<longleftrightarrow>
     operational_properties_typed ms \<and> list_all (\<lambda>n. n \<in> set (allowed_names extra)) (map fst ms)"

lemma shape_issues_none: "shape_issues extra ms = [] \<longleftrightarrow> well_shaped extra ms"
  by (auto simp: shape_issues_def well_shaped_def typed_iff allowed_names_def names_def filter_empty_conv list_all_iff)

lemma shape_issues_class:
  assumes "\<not> wrong_type ms"
  shows "list_ex shape_class (shape_issues extra ms) \<longleftrightarrow> \<not> well_shaped extra ms"
    and "\<not> list_ex media_class (shape_issues extra ms)"
proof -
  have every: "list_all shape_class (shape_issues extra ms)"
    using not_wrong_issue [OF assms] by (fastforce simp: shape_issues_def list_all_iff)
  have "list_ex shape_class xs \<longleftrightarrow> xs \<noteq> []" if "list_all shape_class xs" for xs
    using that by (cases xs) auto
  with every show "list_ex shape_class (shape_issues extra ms) \<longleftrightarrow> \<not> well_shaped extra ms"
    by (metis shape_issues_none)
  have "shape_class i \<Longrightarrow> \<not> media_class i" for i by (cases i) auto
  with every show "\<not> list_ex media_class (shape_issues extra ms)" by (auto simp: list_all_iff list_ex_iff)
qed

text \<open>A value that only one fact of the catalog has may not be written out.\<close>

definition copies_no_value :: "kb \<Rightarrow> catalog \<Rightarrow> string \<Rightarrow> string \<Rightarrow> bool" where
  "copies_no_value kb cat lang without \<longleftrightarrow>
     list_all (\<lambda>f. case resolve_fact_lang (f_token f) (Some kb) (Some cat) lang of
                     Inl e \<Rightarrow> True
                   | Inr v \<Rightarrow> \<not> (length (facts_worth kb cat lang (normalize_literal v)) = 1
                                \<and> contains_literal without v)) (cat_facts cat)"

text \<open>An answer of the model that code may finish: \<open>cat\<close> offers it and \<open>kb\<close> still holds it.\<close>

definition faithful_text :: "kb \<Rightarrow> catalog \<Rightarrow> string \<Rightarrow> string \<Rightarrow> bool" where
  "faithful_text kb cat lang txt \<longleftrightarrow>
     (let without = without_placeholders txt in
      list_all (\<lambda>m. \<not> sublist (m_token m) txt) (cat_media cat)
      \<and> list_all (\<lambda>tok. \<exists>v. resolve_fact_lang tok (Some kb) (Some cat) lang = Inr v) (find_placeholders txt)
      \<and> CHR ''{'' \<notin> set without \<and> CHR ''}'' \<notin> set without
      \<and> copies_no_value kb cat lang without
      \<and> validate_schedule_literal_contract kb without = []
      \<and> validate_salon_confirmation_guard kb without = [])"

lemma literals_exact:
  fixes kb cat lang without
  defines "resolved \<equiv> resolved_facts kb cat lang (cat_facts cat)"
  shows "literal_issues resolved without [] resolved = [] \<longleftrightarrow>
     copies_no_value kb cat lang without"
proof -
  have blank: "\<not> contains_literal without v" if "normalize_literal v = ''''" for v
    using that by (simp add: contains_literal_def)
  have pos: "length (facts_worth kb cat lang (normalize_literal v)) \<ge> 1"
    if "f \<in> set (cat_facts cat)" "resolve_fact_lang (f_token f) (Some kb) (Some cat) lang = Inr v" for f v
  proof -
    have "f \<in> set (facts_worth kb cat lang (normalize_literal v))" using that by (simp add: facts_worth_def)
    then show ?thesis by (cases "facts_worth kb cat lang (normalize_literal v)") auto
  qed
  have many: "length (value_tokens resolved (normalize_literal v)) > 1 \<longleftrightarrow>
      length (facts_worth kb cat lang (normalize_literal v)) \<noteq> 1"
    if "f \<in> set (cat_facts cat)" "resolve_fact_lang (f_token f) (Some kb) (Some cat) lang = Inr v"
      "normalize_literal v \<noteq> ''''" for f v
    using value_tokens_worth [OF that(3), of kb cat lang] pos [OF that(1,2)] by (auto simp: resolved_def)
  show ?thesis
  proof
    assume "literal_issues resolved without [] resolved = []"
    then have l: "\<And>tok v. (tok, v) \<in> set resolved \<Longrightarrow>
        length (value_tokens resolved (normalize_literal v)) > 1 \<or> \<not> contains_literal without v"
      by (auto simp: literal_issues_none)
    show "copies_no_value kb cat lang without"
      unfolding copies_no_value_def list_all_iff
    proof
      fix f assume f: "f \<in> set (cat_facts cat)"
      show "case resolve_fact_lang (f_token f) (Some kb) (Some cat) lang of
                     Inl e \<Rightarrow> True
                   | Inr v \<Rightarrow> \<not> (length (facts_worth kb cat lang (normalize_literal v)) = 1
                                \<and> contains_literal without v)"
      proof (cases "resolve_fact_lang (f_token f) (Some kb) (Some cat) lang")
        case (Inr v)
        show ?thesis
        proof (cases "normalize_literal v = ''''")
          case False
          with f Inr have "(f_token f, v) \<in> set resolved" unfolding resolved_def resolved_facts_set by auto
          from l [OF this] many [OF f Inr False] Inr show ?thesis by auto
        qed (use Inr blank in auto)
      qed simp
    qed
  next
    assume r: "copies_no_value kb cat lang without"
    have "length (value_tokens resolved (normalize_literal v)) > 1 \<or> \<not> contains_literal without v"
      if "(tok, v) \<in> set resolved" for tok v
    proof -
      from that obtain f where f: "f \<in> set (cat_facts cat)"
        "resolve_fact_lang (f_token f) (Some kb) (Some cat) lang = Inr v" "normalize_literal v \<noteq> ''''"
        unfolding resolved_def resolved_facts_set by auto
      with r many [OF f] show ?thesis by (fastforce simp: copies_no_value_def list_all_iff)
    qed
    then show "literal_issues resolved without [] resolved = []" unfolding literal_issues_none by auto
  qed
qed

lemma fact_contract_none:
  "validate_fact_contract r kb cat = [] \<longleftrightarrow> faithful_text kb cat (r_language r) (r_text r)"
proof -
  have braces: "contains_any w ''{}'' \<longleftrightarrow> \<not> (CHR ''{'' \<notin> set w \<and> CHR ''}'' \<notin> set w)" for w
    by (auto simp: contains_any_def list_ex_iff)
  show ?thesis
    unfolding validate_fact_contract_def faithful_text_def Let_def append_is_Nil_conv placeholder_issues_none
      literals_exact braces
    by (auto simp: filter_empty_conv list_all_iff contains_str_iff)
qed

section \<open>What is accepted, and what is asked for again\<close>

lemma semantic_issues_none:
  "semantic_issues r kbo cato = [] \<longleftrightarrow>
     (case (kbo, cato) of
        (Some kb, Some cat) \<Rightarrow>
          r_language r \<in> set reply_languages
          \<and> list_all (\<lambda>tok. media_by_token cat tok \<noteq> None) (r_media r)
          \<and> faithful_text kb cat (r_language r) (r_text r)
      | _ \<Rightarrow> False)"
  by (auto simp: semantic_issues_def fact_contract_none filter_empty_conv list_all_iff split: option.splits)

lemma accepted_iff_v7:
  "validate_response_v7 raw kbo cato = (Some r, []) \<longleftrightarrow>
     (case decode_one_object (response_blob raw) of
        None \<Rightarrow> False
      | Some ms \<Rightarrow> well_shaped [''kb_gap''] ms \<and> r = decode_response_v7 ms kbo \<and> semantic_issues r kbo cato = [])"
proof (cases "decode_one_object (response_blob raw)")
  case (Some ms)
  show ?thesis
  proof (cases "wrong_type ms")
    case True
    then have "\<not> well_shaped [''kb_gap''] ms" using typed_not_wrong by (auto simp: well_shaped_def)
    with True Some show ?thesis by (simp add: validate_response_v7_def Let_def)
  next
    case False
    with Some show ?thesis by (auto simp: validate_response_v7_def Let_def shape_issues_none)
  qed
qed (simp add: validate_response_v7_def)

text \<open>
  C11: what may reach a customer. A response is accepted without issues exactly when it is one object with
  the four operational properties at their types and no unknown property, in Russian or Kazakh, whose
  media tokens are in the catalog, whose placeholders all resolve against the knowledge base of now and
  leave no stray brace, which writes out no media token and no value that identifies one fact, and which
  passes the guards for salons.
\<close>

theorem accepted_answer_exact:
  "validate_response_v7 raw kbo cato = (Some r, []) \<longleftrightarrow>
     (case (decode_one_object (response_blob raw), kbo, cato) of
        (Some ms, Some kb, Some cat) \<Rightarrow>
          well_shaped [''kb_gap''] ms \<and> r = decode_response_v7 ms kbo
          \<and> r_language r \<in> set reply_languages
          \<and> list_all (\<lambda>tok. media_by_token cat tok \<noteq> None) (r_media r)
          \<and> faithful_text kb cat (r_language r) (r_text r)
      | _ \<Rightarrow> False)"
  unfolding accepted_iff_v7 semantic_issues_none by (auto split: option.splits)

lemma fact_issues_class:
  "i \<in> set (validate_fact_contract r kb cat) \<Longrightarrow> \<not> shape_class i \<and> \<not> media_class i"
proof -
  have p: "i \<in> set (placeholder_issues kb cat lang seen toks) \<Longrightarrow> \<not> shape_class i \<and> \<not> media_class i" for lang seen toks
    by (induction kb cat lang seen toks rule: placeholder_issues.induct) (auto split: if_splits sum.splits)
  have l: "i \<in> set (literal_issues resolved without checked rest) \<Longrightarrow> \<not> shape_class i \<and> \<not> media_class i"
    for resolved without checked rest
    by (induction resolved without checked rest rule: literal_issues.induct) (auto simp: Let_def split: if_splits)
  show "i \<in> set (validate_fact_contract r kb cat) \<Longrightarrow> ?thesis"
    using p l by (auto simp: validate_fact_contract_def Let_def split: if_splits)
qed

lemma semantic_issues_class:
  "list_ex shape_class (semantic_issues r kbo cato) \<longleftrightarrow>
     r_language r \<notin> set reply_languages \<or> kbo = None \<or> cato = None"
  "list_ex media_class (semantic_issues r kbo cato) \<longleftrightarrow>
     (\<exists>cat. cato = Some cat \<and> (\<exists>tok \<in> set (r_media r). media_by_token cat tok = None))"
proof -
  have none: "\<not> list_ex shape_class (validate_fact_contract r kb cat)" "\<not> list_ex media_class (validate_fact_contract r kb cat)"
    for kb cat
    using fact_issues_class by (auto simp: list_ex_iff)
  have maps: "list_ex shape_class (map UnknownMediaToken ts) \<longleftrightarrow> False" "list_ex media_class (map UnknownMediaToken ts) \<longleftrightarrow> ts \<noteq> []" for ts
    by (induction ts) auto
  show "list_ex shape_class (semantic_issues r kbo cato) \<longleftrightarrow> r_language r \<notin> set reply_languages \<or> kbo = None \<or> cato = None"
    using none by (cases kbo; cases cato) (auto simp: semantic_issues_def maps)
  show "list_ex media_class (semantic_issues r kbo cato) \<longleftrightarrow>
      (\<exists>cat. cato = Some cat \<and> (\<exists>tok \<in> set (r_media r). media_by_token cat tok = None))"
    using none by (cases kbo; cases cato) (auto simp: semantic_issues_def maps filter_empty_conv)
qed

lemma send_tokens_known:
  "send_tokens kb cat seen_tok seen toks = Inr out \<Longrightarrow> tok \<in> set toks - set seen_tok \<Longrightarrow> media_by_token cat tok \<noteq> None"
proof (induction toks arbitrary: seen_tok seen out)
  case (Cons t toks)
  show ?case
  proof (cases "t \<in> set seen_tok")
    case True
    with Cons show ?thesis by (metis Diff_iff send_tokens.simps(2) set_ConsD)
  next
    case False
    with Cons.prems obtain o1 s1 rest where
      t: "send_token kb cat t seen = Inr (o1, s1)" and r: "send_tokens kb cat (t # seen_tok) s1 toks = Inr rest"
      by (auto simp: result_simps)
    have "media_by_token cat t \<noteq> None" using t by (auto simp: send_token_def split: option.splits)
    then show ?thesis using Cons.IH [OF r] Cons.prems(2) by (cases "tok = t") auto
  qed
qed simp

lemma resolve_send_known:
  "resolve_send toks (Some kb) (Some cat) = Inr out \<Longrightarrow> tok \<in> set toks \<Longrightarrow> media_by_token cat tok \<noteq> None"
  using send_tokens_known [of kb cat "[]" "[]" toks out tok] by (simp add: resolve_send_def)

text \<open>
  what is not asked for again. An answer needs no retry exactly when a final object can be found in
  it, that object has the shape of the contract and names Russian or Kazakh, and all its media can be
  sent now. Facts, literal values and the salon guards play no part: an answer they reject is not asked
  for again.
\<close>

theorem no_retry_exact:
  "classify_retry_v7 raw kbo cato = RetryNone \<longleftrightarrow>
     (case extract_final_output raw of
        None \<Rightarrow> False
      | Some x \<Rightarrow>
          (case (decode_one_object (response_blob (x_final x)), kbo, cato) of
             (Some ms, Some kb, Some cat) \<Rightarrow>
               well_shaped [''kb_gap''] ms
               \<and> r_language (decode_response_v7 ms kbo) \<in> set reply_languages
               \<and> (\<exists>out. resolve_send (r_media (decode_response_v7 ms kbo)) kbo cato = Inr out)
           | _ \<Rightarrow> False))"
proof (cases "extract_final_output raw")
  case x: (Some x)
  show ?thesis
  proof (cases "decode_one_object (response_blob (x_final x))")
    case None
    with x show ?thesis by (simp add: classify_retry_v7_def classify_validated_def validate_response_v7_def)
  next
    case ms: (Some ms)
    let ?r = "decode_response_v7 ms kbo"
    have c: "classify_retry_v7 raw kbo cato = classify_validated (validate_response_v7 (x_final x) kbo cato) kbo cato"
      using x by (simp add: classify_retry_v7_def)
    show ?thesis
    proof (cases "wrong_type ms")
      case True
      then have "\<not> well_shaped [''kb_gap''] ms" using typed_not_wrong by (auto simp: well_shaped_def)
      with True ms x c show ?thesis
        by (auto simp: classify_validated_def validate_response_v7_def Let_def split: option.splits)
    next
      case False
      have v: "validate_response_v7 (x_final x) kbo cato =
          (Some ?r, shape_issues [''kb_gap''] ms @ semantic_issues ?r kbo cato)"
        using False ms by (simp add: validate_response_v7_def Let_def)
      have shape: "list_ex shape_class (shape_issues [''kb_gap''] ms @ semantic_issues ?r kbo cato) \<longleftrightarrow>
          \<not> (well_shaped [''kb_gap''] ms \<and> r_language ?r \<in> set reply_languages \<and> kbo \<noteq> None \<and> cato \<noteq> None)"
        using shape_issues_class(1) [OF False] by (auto simp: semantic_issues_class)
      have media: "list_ex media_class (shape_issues [''kb_gap''] ms @ semantic_issues ?r kbo cato) \<longleftrightarrow>
          (\<exists>cat. cato = Some cat \<and> (\<exists>tok \<in> set (r_media ?r). media_by_token cat tok = None))"
        using shape_issues_class(2) [OF False] by (simp add: semantic_issues_class)
      have send: "r_media ?r = [] \<Longrightarrow> kbo = Some kb \<Longrightarrow> cato = Some cat \<Longrightarrow> resolve_send (r_media ?r) kbo cato = Inr []" for kb cat
        by (simp add: resolve_send_def)
      show ?thesis
      proof (cases "kbo = None \<or> cato = None")
        case True
        then have "classify_retry_v7 raw kbo cato = RetryContractShape"
          unfolding c v classify_validated_def prod.case option.case shape media by auto
        with True x ms show ?thesis by (auto split: option.splits)
      next
        case False
        then obtain kb cat where kb: "kbo = Some kb" and cat: "cato = Some cat" by auto
        have known: "(\<exists>out. resolve_send (r_media ?r) kbo cato = Inr out) \<Longrightarrow>
            \<forall>tok \<in> set (r_media ?r). media_by_token cat tok \<noteq> None"
          using resolve_send_known kb cat by blast
        have "classify_retry_v7 raw kbo cato = RetryNone \<longleftrightarrow>
            well_shaped [''kb_gap''] ms \<and> r_language ?r \<in> set reply_languages
            \<and> (\<exists>out. resolve_send (r_media ?r) kbo cato = Inr out)"
        proof (cases "resolve_send (r_media ?r) kbo cato")
          case (Inl e)
          then have "classify_retry_v7 raw kbo cato \<noteq> RetryNone"
            unfolding c v classify_validated_def prod.case option.case shape media
            using send [OF _ kb cat] by auto
          with Inl show ?thesis by simp
        next
          case (Inr out)
          then have "list_ex media_class (shape_issues [''kb_gap''] ms @ semantic_issues ?r kbo cato) \<longleftrightarrow> False"
            unfolding media using known cat by auto
          then show ?thesis
            unfolding c v classify_validated_def prod.case option.case shape
            using Inr kb cat by simp
        qed
        with x ms kb cat show ?thesis by simp
      qed
    qed
  qed
qed (simp add: classify_retry_v7_def)

lemma send_ids_valid:
  "send_ids kb m spec tok seen ids = Inr res \<Longrightarrow> \<forall>i \<in> set ids. validate_material_ref kb i spec (m_table m) (m_ref m) = Inr ()"
proof (induction ids arbitrary: seen res)
  case (Cons i ids)
  then have v: "validate_material_ref kb i spec (m_table m) (m_ref m) = Inr ()" by (auto split: sum.splits)
  have "\<exists>seen' res'. send_ids kb m spec tok seen' ids = Inr res'"
    using Cons.prems v by (cases res) (auto simp: result_simps split: if_splits option.splits)
  with Cons.IH v show ?case by auto
qed simp

lemma send_alone_suffices:
  assumes "\<forall>tok \<in> set toks. \<exists>out. resolve_send [tok] (Some kb) (Some cat) = Inr out"
  shows "\<exists>out. send_tokens kb cat seen_tok seen toks = Inr out"
  using assms
proof (induction toks arbitrary: seen_tok seen)
  case (Cons tok toks)
  obtain o1 s1 where t: "send_token kb cat tok [] = Inr (o1, s1)"
    using Cons.prems by (auto simp: resolve_send_def result_simps)
  then obtain m spec ids where sent: "sent_for kb cat tok m spec ids" and "send_ids kb m spec tok [] ids = Inr (o1, s1)"
    by (rule send_token_result)
  then obtain o2 s2 where "send_ids kb m spec tok seen ids = Inr (o2, s2)"
    using send_ids_succeeds send_ids_valid by metis
  with sent t have "send_token kb cat tok seen = Inr (o2, s2)"
    by (auto simp: send_token_def sent_for_def result_simps split: option.splits if_splits)
  with Cons show ?case by (auto simp: result_simps)
qed simp

lemma shape_none_complete:
  assumes "validate_response_v7 out kbo cato = (Some r, issues)" and "\<not> list_ex shape_class issues"
  shows "\<exists>kb cat. kbo = Some kb \<and> cato = Some cat"
proof -
  have "list_ex shape_class (semantic_issues r kbo cato) \<Longrightarrow> list_ex shape_class issues"
    using assms(1) by (auto simp: validate_response_v7_def Let_def split: option.splits if_splits)
  with assms(2) semantic_issues_class(1) [of r kbo cato] show ?thesis by auto
qed

text \<open>
  A retry for missing media always says what is missing. The feedback appended to the prompt is
  empty exactly when the answer is not retried for its media; otherwise it lists, in the order of the
  answer, every token that the catalog does not have or that cannot be sent on its own, at least one.
\<close>

theorem media_retry_names_tokens:
  "if classify_retry_v7 raw kbo cato = RetryMediaNotFound
   then \<exists>r cat. cato = Some cat \<and> bad_tokens r kbo cat \<noteq> [] \<and> set (bad_tokens r kbo cat) \<subseteq> set (r_media r)
          \<and> map_option (\<lambda>x. fst (validate_response_v7 (x_final x) kbo cato)) (extract_final_output raw) = Some (Some r)
          \<and> retry_feedback_v7 raw kbo cato = feedback_text (bad_tokens r kbo cat)
   else retry_feedback_v7 raw kbo cato = ''''"
proof (cases "classify_retry_v7 raw kbo cato = RetryMediaNotFound")
  case True
  then obtain x where x: "extract_final_output raw = Some x" by (auto simp: classify_retry_v7_def split: option.splits)
  with True obtain r issues where v: "validate_response_v7 (x_final x) kbo cato = (Some r, issues)"
    by (cases "validate_response_v7 (x_final x) kbo cato"; cases "fst (validate_response_v7 (x_final x) kbo cato)")
      (auto simp: classify_retry_v7_def classify_validated_def)
  have cl: "classify_validated (Some r, issues) kbo cato = RetryMediaNotFound"
    using True x v by (simp add: classify_retry_v7_def)
  then have "\<not> list_ex shape_class issues" by (auto simp: classify_validated_def split: if_splits)
  then obtain kb cat where kb: "kbo = Some kb" and cat: "cato = Some cat" using shape_none_complete [OF v] by auto
  have "bad_tokens r kbo cat \<noteq> []"
  proof
    assume none: "bad_tokens r kbo cat = []"
    have good: "(\<exists>out. resolve_send [tok] (Some kb) (Some cat) = Inr out) \<and> media_by_token cat tok \<noteq> None"
      if "tok \<in> set (r_media r)" for tok
      using none that by (cases "resolve_send [tok] (Some kb) (Some cat)") (auto simp: bad_tokens_def filter_empty_conv kb)
    then have single: "\<forall>tok \<in> set (r_media r). \<exists>out. resolve_send [tok] (Some kb) (Some cat) = Inr out"
      and known: "\<forall>tok \<in> set (r_media r). media_by_token cat tok \<noteq> None"
      by blast+
    obtain out where out: "resolve_send (r_media r) kbo cato = Inr out"
      using send_alone_suffices [OF single] by (auto simp: resolve_send_def kb cat)
    have media: "list_ex media_class issues"
      using cl out by (auto simp: classify_validated_def split: if_splits)
    obtain ms where "\<not> wrong_type ms" and iss: "issues = shape_issues [''kb_gap''] ms @ semantic_issues r kbo cato"
      using v by (auto simp: validate_response_v7_def Let_def split: option.splits if_splits)
    then have "list_ex media_class (semantic_issues r kbo cato)"
      using media shape_issues_class(2) by (auto simp: iss)
    with known show False by (auto simp: semantic_issues_class cat)
  qed
  moreover have "set (bad_tokens r kbo cat) \<subseteq> set (r_media r)" by (auto simp: bad_tokens_def)
  ultimately have "\<exists>r cat. cato = Some cat \<and> bad_tokens r kbo cat \<noteq> [] \<and> set (bad_tokens r kbo cat) \<subseteq> set (r_media r)
          \<and> map_option (\<lambda>x. fst (validate_response_v7 (x_final x) kbo cato)) (extract_final_output raw) = Some (Some r)
          \<and> retry_feedback_v7 raw kbo cato = feedback_text (bad_tokens r kbo cat)"
    using True x v cat by (intro exI [of _ r] exI [of _ cat]) (simp add: retry_feedback_v7_def retry_feedback_for_def)
  with True show ?thesis by simp
qed (auto simp: retry_feedback_v7_def retry_feedback_for_def split: option.split)

end
