(* ===== verification/Ai_Prompt.thy ===== *)
theory Ai_Prompt
  imports Ai_Guards Ai_Catalog Ai_Gap Json_Print
begin

text \<open>
  The prompt a model is shown (\<open>backend/aiprompt/prompt.go\<close>): a frame whose slots are filled with the
  approved content of a knowledge base and the tokens of a catalog, and the gates a rendered prompt has to
  pass. The frames are embedded text files and stay an argument. A panic of the code is \<open>None\<close> here.
\<close>

section \<open>What the renderer may read\<close>

record prompt_input =
  pi_assistant :: "assistant option"
  pi_topics :: "topic list"
  pi_products :: "product list"
  pi_tariffs :: "tariff list"
  pi_contacts :: "contacts option"
  pi_policies :: "policies option"
  pi_tariff_info :: "additional_fact list option"
  pi_zones :: "delivery_zone list"
  pi_specialists :: "specialist list"
  pi_services :: "service list"

definition prompt_input_of :: "kb \<Rightarrow> prompt_input" where
  "prompt_input_of kb =
     \<lparr>pi_assistant = kb_assistant kb, pi_topics = kb_topics kb, pi_products = kb_products kb,
      pi_tariffs = kb_tariffs kb, pi_contacts = kb_contacts kb, pi_policies = kb_policies kb,
      pi_tariff_info = kb_tariff_info kb, pi_zones = kb_zones kb, pi_specialists = kb_specialists kb,
      pi_services = kb_services kb\<rparr>"

section \<open>Pieces of text\<close>

definition em_dash :: string where "em_dash = of_runes [0x2014]"
definition spaced_dash :: string where "spaced_dash = of_runes [0x0020, 0x2014, 0x0020]"
definition line_break :: string where "line_break = [CHR 0x0A]"
definition blank_line :: string where "blank_line = [CHR 0x0A, CHR 0x0A]"

text \<open>A field of a block, left out when it is blank.\<close>

definition field_line :: "string \<times> string \<Rightarrow> string list" where
  "field_line f = (let s = trim_space (snd f) in if s = '''' then [] else [fst f @ '': '' @ s])"

definition field_lines :: "(string \<times> string) list \<Rightarrow> string list" where
  "field_lines fs = concat (map field_line fs)"

definition blocks_text :: "string list \<Rightarrow> string" where
  "blocks_text bs = (if bs = [] then em_dash else join_str blank_line bs)"

definition lines_text :: "string list \<Rightarrow> string" where
  "lines_text ls = (if ls = [] then em_dash else join_str line_break ls)"

section \<open>The flat slots\<close>

definition render_assistant :: "assistant option \<Rightarrow> string" where
  "render_assistant ao =
     (case ao of
        None \<Rightarrow> ''''
      | Some a \<Rightarrow>
          join_str blank_line (concat (map (\<lambda>(head, s). let t = trim_space s in if t = '''' then [] else [head @ line_break @ t])
            [((of_runes [0x0023, 0x0020, 0x0420, 0x041E, 0x041B, 0x042C]), an_persona a), ((of_runes [0x0023, 0x0020, 0x0417, 0x0410, 0x0414, 0x0410, 0x0427, 0x0410]), an_mission a),
             ((of_runes [0x0023, 0x0020, 0x041E, 0x0413, 0x0420, 0x0410, 0x041D, 0x0418, 0x0427, 0x0415, 0x041D, 0x0418, 0x042F]), an_guardrails a), ((of_runes [0x0023, 0x0020, 0x042F, 0x0417, 0x042B, 0x041A]), an_language_policy a)])))"

definition render_topics :: "topic list \<Rightarrow> string" where
  "render_topics ts =
     join_str blank_line (map (\<lambda>t.
       ''# topic: '' @ tp_slug t @ (if trim_space (tp_title t) \<noteq> '''' then spaced_dash @ tp_title t else '''')
       @ line_break @ trim_space (tp_body t))
       (filter (\<lambda>t. trim_space (tp_body t) \<noteq> '''') ts))"

definition description_line :: "string \<Rightarrow> string \<Rightarrow> string list" where
  "description_line name txt = (let s = trim_space txt in if s = '''' then [] else [''- '' @ name @ '': '' @ s])"

definition product_description :: "product \<Rightarrow> string list" where
  "product_description p =
     (if \<not> active (pr_sales_status p) then []
      else description_line
        (pr_name p @ (if trim_space (pr_category p) \<noteq> '''' then '' ('' @ pr_category p @ '')'' else ''''))
        (pr_description p))"

definition tariff_description :: "tariff \<Rightarrow> string list" where
  "tariff_description t =
     (if \<not> active (tf_sales_status t) then []
      else let parts = filter (\<lambda>s. s \<noteq> '''') (map trim_space [tf_summary t, tf_limit_text t, tf_advantages t, tf_disadvantages t]) in
        if parts = [] then [] else description_line ((of_runes [0x0422, 0x0430, 0x0440, 0x0438, 0x0444, 0x0020]) @ tf_name t) (join_str '' '' parts))"

definition zone_description :: "delivery_zone \<Rightarrow> string list" where
  "zone_description z =
     (if \<not> active (dz_sales_status z) then [] else description_line ((of_runes [0x0414, 0x043E, 0x0441, 0x0442, 0x0430, 0x0432, 0x043A, 0x0430, 0x0020, 0x2014, 0x0020]) @ dz_name z) (dz_notes z))"

definition render_descriptions :: "prompt_input \<Rightarrow> string" where
  "render_descriptions inp =
     join_str line_break
      (concat (map product_description (pi_products inp))
       @ concat (map tariff_description (pi_tariffs inp))
       @ (case pi_contacts inp of
            None \<Rightarrow> []
          | Some c \<Rightarrow> description_line (of_runes [0x0410, 0x0434, 0x0440, 0x0435, 0x0441]) (ct_address c) @ description_line (of_runes [0x0420, 0x0435, 0x043A, 0x0432, 0x0438, 0x0437, 0x0438, 0x0442, 0x044B]) (ct_legal c)
                      @ description_line (of_runes [0x041E, 0x0431, 0x0440, 0x0430, 0x0442, 0x043D, 0x044B, 0x0439, 0x0020, 0x0437, 0x0432, 0x043E, 0x043D, 0x043E, 0x043A]) (ct_callback_time c))
       @ (case pi_policies inp of
            None \<Rightarrow> []
          | Some p \<Rightarrow> description_line (of_runes [0x041F, 0x0440, 0x0435, 0x0434, 0x043E, 0x043F, 0x043B, 0x0430, 0x0442, 0x0430]) (po_prepayment p)
                      @ description_line (of_runes [0x0420, 0x0430, 0x0441, 0x0441, 0x0440, 0x043E, 0x0447, 0x043A, 0x0430]) (po_installment p)
                      @ description_line (of_runes [0x0413, 0x0430, 0x0440, 0x0430, 0x043D, 0x0442, 0x0438, 0x044F]) (po_warranty p))
       @ concat (map zone_description (pi_zones inp)))"

text \<open>The kinds under the names the model sees.\<close>

definition kind_name :: "value_kind \<Rightarrow> string" where
  "kind_name k =
     (case k of
        KindMoneyDisplay \<Rightarrow> ''money_display''
      | KindTimeDisplay \<Rightarrow> ''time_display''
      | KindTextComplete \<Rightarrow> ''text_complete''
      | KindNumber \<Rightarrow> ''number''
      | KindNumberRange \<Rightarrow> ''number_range''
      | KindDeliveryFlag \<Rightarrow> ''delivery_flag''
      | KindVirtualNumber \<Rightarrow> ''virtual_number''
      | KindVirtualBoolean \<Rightarrow> ''virtual_boolean''
      | KindVirtualString \<Rightarrow> ''virtual_string'')"

definition fact_label :: "fact_entry \<Rightarrow> string" where
  "fact_label f =
     (if f_table f \<in> set [''product'', ''tariff'', ''delivery''] then f_ref f @ spaced_dash @ f_label f else f_label f)"

definition or_dash :: "string \<Rightarrow> string" where
  "or_dash s = (if s = '''' then em_dash else s)"

definition fact_line :: "fact_entry \<Rightarrow> string" where
  "fact_line f =
     join_str '' | '' [f_token f, fact_label f, kind_name (f_kind f), or_dash (f_reasoning f), or_dash (f_usage f)]"

definition render_facts :: "fact_entry list \<Rightarrow> string" where
  "render_facts fs = join_str line_break (map fact_line fs)"

definition render_media_catalog :: "media_entry list \<Rightarrow> string" where
  "render_media_catalog ms =
     lines_text (map (\<lambda>m. m_token m @ spaced_dash @ nat_text (m_count m) @ spaced_dash @ m_label m) ms)"

definition render_media_absent :: "absent_entry list \<Rightarrow> string" where
  "render_media_absent as =
     lines_text (map (\<lambda>a. ab_table a @ ''.'' @ ab_ref a @ spaced_dash @ ab_display a) as)"

section \<open>Blocks of products and tariffs\<close>

definition media_ref_lines :: "catalog \<Rightarrow> string \<Rightarrow> string \<Rightarrow> string list" where
  "media_ref_lines cat table ref =
     (case map_of media_columns table of
        None \<Rightarrow> []
      | Some cols \<Rightarrow>
          concat (map (\<lambda>spec.
            let token = media_token table ref (mc_column spec) in
            if media_by_token cat token = None then [] else [mc_column spec @ ''_ref: '' @ token]) cols))"

text \<open>The line of an approved fact token.\<close>

definition placeholder_line :: "catalog \<Rightarrow> string \<Rightarrow> string \<Rightarrow> string \<Rightarrow> string list" where
  "placeholder_line cat table ref col =
     (let token = fact_token table ref col in
      if fact_by_token cat token = None then [] else [col @ ''_placeholder: '' @ token])"

definition render_products_in_stock :: "prompt_input \<Rightarrow> catalog \<Rightarrow> string" where
  "render_products_in_stock inp cat =
     blocks_text (map (\<lambda>p.
       join_str line_break
        ([''product: '' @ pr_ref p, ''name: '' @ pr_name p]
         @ field_line (''description'', pr_description p)
         @ placeholder_line cat ''product'' (pr_ref p) ''price''
         @ media_ref_lines cat ''products'' (pr_ref p)))
       (filter product_visible (pi_products inp)))"

definition render_products_out_of_stock :: "prompt_input \<Rightarrow> string" where
  "render_products_out_of_stock inp =
     lines_text (map (\<lambda>p. ''- '' @ pr_name p)
       (filter (\<lambda>p. active (pr_sales_status p) \<and> pr_availability p = ''unavailable'') (pi_products inp)))"

definition availability_status_ru_words :: "(string \<times> string) list" where
  "availability_status_ru_words =
     [(''in_stock'', (of_runes [0x0432, 0x0020, 0x043D, 0x0430, 0x043B, 0x0438, 0x0447, 0x0438, 0x0438])), (''preorder'', (of_runes [0x043F, 0x0440, 0x0435, 0x0434, 0x0437, 0x0430, 0x043A, 0x0430, 0x0437])), (''on_demand'', (of_runes [0x043F, 0x043E, 0x0434, 0x0020, 0x0437, 0x0430, 0x043A, 0x0430, 0x0437]))]"

text \<open>\<open>None\<close> is the panic on an unknown status.\<close>

definition availability_status_ru :: "string \<Rightarrow> string option" where
  "availability_status_ru status = map_of availability_status_ru_words status"

definition additional_fact_lines :: "catalog \<Rightarrow> string \<Rightarrow> string \<Rightarrow> additional_fact list \<Rightarrow> string list" where
  "additional_fact_lines cat table ref facts =
     concat (map (\<lambda>f.
       let token = fact_token table ref (af_ref f) in
       if fact_by_token cat token = None then []
       else [''fact: '' @ trim_space (af_instruction f) @ spaced_dash @ token]) facts)"

definition product_block :: "catalog \<Rightarrow> product \<Rightarrow> string option" where
  "product_block cat p =
     map_option (\<lambda>status.
       join_str line_break
        ([''product: '' @ pr_ref p, ''name: '' @ pr_name p]
         @ field_lines [(''brand'', pr_brand p), (''description'', pr_description p), (''advantages'', pr_advantages p),
             (''disadvantages'', pr_disadvantages p), (''best_for'', pr_best_for p), (''not_for'', pr_not_for p)]
         @ [''availability_status: '' @ status]
         @ field_lines [(''availability_note'', pr_availability_note p), (''installation_terms'', pr_installation p),
             (''warranty_terms'', pr_warranty p)]
         @ placeholder_line cat ''product'' (pr_ref p) ''price''
         @ additional_fact_lines cat ''product'' (pr_ref p) (pr_facts p)
         @ media_ref_lines cat ''products'' (pr_ref p)))
       (availability_status_ru (pr_availability p))"

definition render_products_available :: "prompt_input \<Rightarrow> catalog \<Rightarrow> string option" where
  "render_products_available inp cat =
     map_option blocks_text (those (map (product_block cat) (filter product_visible (pi_products inp))))"

definition render_products_unavailable :: "prompt_input \<Rightarrow> string" where
  "render_products_unavailable inp = render_products_out_of_stock inp"

definition tariff_price_lines :: "catalog \<Rightarrow> tariff \<Rightarrow> string list" where
  "tariff_price_lines cat t = concat (map (placeholder_line cat ''tariff'' (tf_ref t)) [''price'', ''fee''])"

definition render_tariff_catalog :: "prompt_input \<Rightarrow> catalog \<Rightarrow> string" where
  "render_tariff_catalog inp cat =
     blocks_text (map (\<lambda>t.
       join_str line_break
        ([''tariff: '' @ tf_ref t, ''name: '' @ tf_name t]
         @ field_lines [(''pricing_type'', tf_pricing_type t), (''summary'', tf_summary t), (''limit'', tf_limit_text t),
             (''advantages'', tf_advantages t), (''disadvantages'', tf_disadvantages t),
             (''best_for'', tf_best_for t), (''not_for'', tf_not_for t)]
         @ tariff_price_lines cat t
         @ additional_fact_lines cat ''tariff'' (tf_ref t) (tf_facts t)
         @ media_ref_lines cat ''tariffs'' (tf_ref t)))
       (filter (\<lambda>t. active (tf_sales_status t)) (pi_tariffs inp)))"

definition render_tariff_info :: "prompt_input \<Rightarrow> catalog \<Rightarrow> string" where
  "render_tariff_info inp cat =
     (case pi_tariff_info inp of
        None \<Rightarrow> em_dash
      | Some facts \<Rightarrow> lines_text (additional_fact_lines cat ''tariff_info'' singleton_ref facts))"

definition render_tariffs :: "prompt_input \<Rightarrow> catalog \<Rightarrow> string" where
  "render_tariffs inp cat =
     blocks_text (map (\<lambda>t.
       join_str line_break
        ([''tariff: '' @ tf_ref t, ''name: '' @ tf_name t]
         @ field_lines [(''pricing_type'', tf_pricing_type t), (''summary'', tf_summary t), (''limit'', tf_limit_text t),
             (''advantages'', tf_advantages t), (''disadvantages'', tf_disadvantages t)]
         @ tariff_price_lines cat t
         @ media_ref_lines cat ''tariffs'' (tf_ref t)))
       (filter (\<lambda>t. active (tf_sales_status t)) (pi_tariffs inp)))"

section \<open>Topics, business facts and zones\<close>

definition render_topic_blocks :: "prompt_input \<Rightarrow> catalog \<Rightarrow> string" where
  "render_topic_blocks inp cat =
     blocks_text (map (\<lambda>t.
       join_str line_break
        ([''topic: '' @ tp_slug t]
         @ field_line (''title'', tp_title t)
         @ [''body: '' @ trim_space (tp_body t)]
         @ media_ref_lines cat ''topics'' (tp_slug t)))
       (filter (\<lambda>t. trim_space (tp_body t) \<noteq> '''') (pi_topics inp)))"

definition render_business_facts :: "fact_entry list \<Rightarrow> string" where
  "render_business_facts fs = render_facts (filter (\<lambda>f. f_table f \<in> set [''policy'', ''contact'', ''delivery'']) fs)"

text \<open>A vertical bar becomes the full-width solidus.\<close>

definition sanitize_zone_field :: "string \<Rightarrow> string" where
  "sanitize_zone_field s = replace_all ''|'' (of_runes [0xFF0F]) s"

definition zone_line :: "delivery_zone \<Rightarrow> string" where
  "zone_line z =
     join_str '' | ''
       ([dz_ref z, sanitize_zone_field (dz_name z), ''zone_level: '' @ dz_level z,
         ''parent_ref: '' @ or_dash (trim_space (dz_parent z))]
        @ (let s = trim_space (dz_notes z) in if s = '''' then [] else [sanitize_zone_field s]))"

definition render_delivery_zones :: "delivery_zone list \<Rightarrow> string" where
  "render_delivery_zones zs = lines_text (map zone_line (filter (\<lambda>z. active (dz_sales_status z)) zs))"

section \<open>Services and specialists\<close>

definition render_service_specialists :: "prompt_input \<Rightarrow> string list \<Rightarrow> string list" where
  "render_service_specialists inp refs =
     List.map_filter (\<lambda>ref.
       map_option (\<lambda>s. ref @ '' ('' @ sp_name s @ '')'')
         (find (\<lambda>s. sp_ref s = ref \<and> active (sp_sales_status s)) (pi_specialists inp))) refs"

definition standalone_line :: string where
  "standalone_line =
     (of_runes [0x0073, 0x0074, 0x0061, 0x006E, 0x0064, 0x0061, 0x006C, 0x006F, 0x006E, 0x0065, 0x003A, 0x0020, 0x0066, 0x006F, 0x0072, 0x0062, 0x0069, 0x0064, 0x0064, 0x0065, 0x006E, 0x0020, 0x2014, 0x0020, 0x0074, 0x0068, 0x0069, 0x0073, 0x0020, 0x0061, 0x0064, 0x0064, 0x002D, 0x006F, 0x006E, 0x0020, 0x006D, 0x0075, 0x0073, 0x0074, 0x0020, 0x0062, 0x0065, 0x0020, 0x0062, 0x006F, 0x006F, 0x006B, 0x0065, 0x0064, 0x0020, 0x0074, 0x006F, 0x0067, 0x0065, 0x0074, 0x0068, 0x0065, 0x0072, 0x0020, 0x0077, 0x0069, 0x0074, 0x0068, 0x0020, 0x0069, 0x0074, 0x0073, 0x0020, 0x0070, 0x0061, 0x0072, 0x0065, 0x006E, 0x0074, 0x0020, 0x0062, 0x0061, 0x0073, 0x0065, 0x0020, 0x0073, 0x0065, 0x0072, 0x0076, 0x0069, 0x0063, 0x0065, 0x0020, 0x0028, 0x0073, 0x0065, 0x0065, 0x0020, 0x0070, 0x0061, 0x0072, 0x0065, 0x006E, 0x0074, 0x005F, 0x0072, 0x0065, 0x0066, 0x0029, 0x003B, 0x0020, 0x0069, 0x0066, 0x0020, 0x0074, 0x0068, 0x0065, 0x0020, 0x0063, 0x006C, 0x0069, 0x0065, 0x006E, 0x0074, 0x0020, 0x0061, 0x0073, 0x006B, 0x0073, 0x0020, 0x0066, 0x006F, 0x0072, 0x0020, 0x0069, 0x0074, 0x0020, 0x0061, 0x006C, 0x006F, 0x006E, 0x0065, 0x002C, 0x0020, 0x0064, 0x0065, 0x0063, 0x006C, 0x0069, 0x006E, 0x0065, 0x0020, 0x0061, 0x006E, 0x0064, 0x0020, 0x006F, 0x0066, 0x0066, 0x0065, 0x0072, 0x0020, 0x0074, 0x0068, 0x0065, 0x0020, 0x0062, 0x0061, 0x0073, 0x0065, 0x0020, 0x0073, 0x0065, 0x0072, 0x0076, 0x0069, 0x0063, 0x0065, 0x0020, 0x0069, 0x006E, 0x0073, 0x0074, 0x0065, 0x0061, 0x0064])"

definition render_service_block :: "prompt_input \<Rightarrow> catalog \<Rightarrow> service \<Rightarrow> string \<Rightarrow> string list" where
  "render_service_block inp cat sv indent =
     map (\<lambda>l. indent @ l)
       ([''service: '' @ sv_ref sv]
        @ (if sv_parent sv \<noteq> '''' then [''parent_ref: '' @ sv_parent sv] else [])
        @ [''type: '' @ sv_type sv]
        @ (if sv_type sv = ''addon'' then [standalone_line] else [])
        @ [''name: '' @ sv_name sv]
        @ placeholder_line cat ''service'' (sv_ref sv) ''price''
        @ placeholder_line cat ''service'' (sv_ref sv) ''duration''
        @ field_line (''description'', sv_description sv)
        @ (let refs = render_service_specialists inp (sv_specialists sv) in
           if refs = [] then [] else [''specialists: '' @ join_str '', '' refs]))"

text \<open>The children of a base service, and the category blocks in the order their names are first seen.\<close>

definition children_of :: "prompt_input \<Rightarrow> string \<Rightarrow> service list" where
  "children_of inp ref =
     filter (\<lambda>sv. active (sv_sales_status sv) \<and> sv_type sv \<noteq> ''base'' \<and> sv_parent sv = ref) (pi_services inp)"

definition service_group :: "prompt_input \<Rightarrow> catalog \<Rightarrow> service \<Rightarrow> string list" where
  "service_group inp cat sv =
     render_service_block inp cat sv ''''
     @ concat (map (\<lambda>child. '''' # render_service_block inp cat child ''  '') (children_of inp (sv_ref sv)))"

fun add_to_category :: "string \<Rightarrow> string list \<Rightarrow> (string \<times> string list) list \<Rightarrow> (string \<times> string list) list" where
  "add_to_category name ls [] = [(name, ls)]"
| "add_to_category name ls ((n, old) # bs) =
     (if n = name then (n, (if old = [] then ls else old @ '''' # ls)) # bs
      else (n, old) # add_to_category name ls bs)"

definition base_services :: "prompt_input \<Rightarrow> service list" where
  "base_services inp = filter (\<lambda>sv. active (sv_sales_status sv) \<and> sv_type sv = ''base'') (pi_services inp)"

definition service_categories :: "prompt_input \<Rightarrow> catalog \<Rightarrow> (string \<times> string list) list" where
  "service_categories inp cat =
     foldl (\<lambda>bs sv. add_to_category (sv_category sv) (service_group inp cat sv) bs) [] (base_services inp)"

definition render_services :: "prompt_input \<Rightarrow> catalog \<Rightarrow> string" where
  "render_services inp cat =
     blocks_text (map (\<lambda>(name, ls). ''category: '' @ name @ line_break @ join_str line_break ls)
       (service_categories inp cat))"

definition service_refs_for :: "prompt_input \<Rightarrow> string \<Rightarrow> string list" where
  "service_refs_for inp ref =
     map sv_ref (filter (\<lambda>sv. active (sv_sales_status sv) \<and> ref \<in> set (sv_specialists sv)) (pi_services inp))"

definition specialist_block :: "prompt_input \<Rightarrow> catalog \<Rightarrow> specialist \<Rightarrow> string" where
  "specialist_block inp cat s =
     join_str line_break
      ([''specialist: '' @ sp_ref s, ''full_name: '' @ sp_name s]
       @ field_lines [(''title'', sp_title s), (''experience'', sp_experience s)]
       @ (let refs = service_refs_for inp (sp_ref s) in if refs = [] then [] else [''services: '' @ join_str '', '' refs])
       @ [''schedule_reasoning:'']
       @ map (\<lambda>l. ''  '' @ l) (schedule_reasoning_lines (sp_schedule s))
       @ placeholder_line cat ''specialist'' (sp_ref s) ''schedule''
       @ concat (map (\<lambda>day. placeholder_line cat ''specialist'' (sp_ref s) (''schedule_'' @ day)) weekday_order)
       @ placeholder_line cat ''specialist'' (sp_ref s) ''booking''
       @ media_ref_lines cat ''specialists'' (sp_ref s))"

definition render_specialists :: "prompt_input \<Rightarrow> catalog \<Rightarrow> string" where
  "render_specialists inp cat =
     blocks_text (map (specialist_block inp cat) (filter (\<lambda>s. active (sp_sales_status s)) (pi_specialists inp)))"

section \<open>Gates\<close>

text \<open>
  \<open>(?i)\<close> folds an ASCII letter with its other case, k with the Kelvin sign and s with the long s.
\<close>

definition ascii_folds :: "int \<Rightarrow> (int \<times> int) list" where
  "ascii_folds r =
     (r, r) # (if 0x61 \<le> r \<and> r \<le> 0x7A then [(r - 0x20, r - 0x20)] else [])
     @ (if r = 0x6B then [(0x212A, 0x212A)] else if r = 0x73 then [(0x017F, 0x017F)] else [])"

definition ascii_text :: "string \<Rightarrow> pattern" where
  "ascii_text s = seqs (map (\<lambda>c. One (In (ascii_folds (int (of_char c))))) s)"

definition rune_is :: "char \<Rightarrow> pattern" where
  "rune_is c = One (In [(int (of_char c), int (of_char c))])"

definition leftover_slot_pattern :: pattern where
  "leftover_slot_pattern =
     seqs [rune_is (CHR ''%''), rune_is (CHR ''%''), some_of (In [(0x41, 0x5A), (0x5F, 0x5F)]),
           rune_is (CHR ''%''), rune_is (CHR ''%'')]"

definition file_ext_pattern :: pattern where
  "file_ext_pattern =
     seqs [rune_is (CHR ''.''),
           alts [seqs [ascii_text ''jp'', Opt (ascii_text ''e''), ascii_text ''g''], ascii_text ''png'', ascii_text ''gif'',
                 ascii_text ''webp'', ascii_text ''svg'', ascii_text ''mp4'', ascii_text ''mov'', ascii_text ''avi'',
                 ascii_text ''mkv'', ascii_text ''pdf'', Seq (ascii_text ''doc'') (Opt (ascii_text ''x'')),
                 Seq (ascii_text ''xls'') (Opt (ascii_text ''x'')), Seq (ascii_text ''ppt'') (Opt (ascii_text ''x'')),
                 ascii_text ''mp3'', ascii_text ''wav'', ascii_text ''ogg''],
           WordBoundary]"

definition hex_digit :: pattern where "hex_digit = One (In [(0x30, 0x39), (0x61, 0x66), (0x41, 0x46)])"
definition dash_sign :: pattern where "dash_sign = rune_is (CHR ''-'')"
definition hex_digits :: "nat \<Rightarrow> pattern" where "hex_digits n = seqs (replicate n hex_digit)"

definition uuid_pattern :: pattern where
  "uuid_pattern =
     seqs [WordBoundary, hex_digits 8, dash_sign, hex_digits 4, dash_sign, hex_digits 4, dash_sign, hex_digits 4,
           dash_sign, hex_digits 12, WordBoundary]"

definition storage_locator_pattern :: pattern where
  "storage_locator_pattern =
     (let small = [(0x61, 0x7A), (0x41, 0x5A), (0x017F, 0x017F), (0x212A, 0x212A)] in
      seqs [WordBoundary, One (In small), Many (In (small @ [(0x30, 0x39), (0x2B, 0x2B), (0x2E, 0x2E), (0x2D, 0x2D)])),
            rune_is (CHR '':''), rune_is (CHR ''/''), rune_is (CHR ''/''), solid])"

datatype prompt_error =
    UnfilledSlot
  | ForeignPlaceholder string
  | LeaksUuid
  | LeaksExtension
  | LeaksMaterial string
  | LeaksLocator
  | PromptPanic

definition validate_prompt :: "string \<Rightarrow> catalog \<Rightarrow> prompt_error + unit" where
  "validate_prompt prompt cat =
     (if matches leftover_slot_pattern (runes prompt) then Inl UnfilledSlot
      else case find (\<lambda>tok. fact_by_token cat tok = None) (find_placeholders prompt) of
        Some tok \<Rightarrow> Inl (ForeignPlaceholder tok)
      | None \<Rightarrow>
          if matches uuid_pattern (runes prompt) then Inl LeaksUuid
          else if matches file_ext_pattern (runes prompt) then Inl LeaksExtension
          else Inr ())"

definition material_secrets :: "material \<Rightarrow> string list" where
  "material_secrets m =
     filter (\<lambda>s. 6 \<le> length s)
       [mt_id m, mt_source_ref m, mt_filename m, mt_storage_backend m, mt_storage_key m, mt_mime m]"

definition validate_no_material_leak :: "string \<Rightarrow> material list \<Rightarrow> prompt_error + unit" where
  "validate_no_material_leak prompt mats =
     (case find (contains_str prompt) (concat (map material_secrets mats)) of
        Some secret \<Rightarrow> Inl (LeaksMaterial secret)
      | None \<Rightarrow> Inr ())"

definition validate_no_storage_locator_leak :: "string \<Rightarrow> prompt_error + unit" where
  "validate_no_storage_locator_leak prompt =
     (if matches storage_locator_pattern (runes prompt) then Inl LeaksLocator else Inr ())"

section \<open>Rendering\<close>

text \<open>The slots and their contents, in the order the code fills them.\<close>

definition slot_contents :: "prompt_input \<Rightarrow> catalog \<Rightarrow> string \<Rightarrow> string \<Rightarrow> (string \<times> string) list" where
  "slot_contents inp cat schema available =
     [(''%%ASSISTANT%%'', render_assistant (pi_assistant inp)),
      (''%%KNOWLEDGE_BASE%%'', render_topics (pi_topics inp)),
      (''%%DESCRIPTIONS%%'', render_descriptions inp),
      (''%%FACTS%%'', render_facts (cat_facts cat)),
      (''%%MEDIA%%'', render_media_catalog (cat_media cat)),
      (''%%MEDIA_ABSENT%%'', render_media_absent (cat_absent cat)),
      (''%%PRODUCTS_IN_STOCK%%'', render_products_in_stock inp cat),
      (''%%PRODUCTS_OUT_OF_STOCK%%'', render_products_out_of_stock inp),
      (''%%TARIFFS%%'', render_tariffs inp cat),
      (''%%PRODUCTS_AVAILABLE%%'', available),
      (''%%PRODUCTS_UNAVAILABLE%%'', render_products_unavailable inp),
      (''%%TARIFF_CATALOG%%'', render_tariff_catalog inp cat),
      (''%%TARIFF_INFO%%'', render_tariff_info inp cat),
      (''%%TOPICS%%'', render_topic_blocks inp cat),
      (''%%BUSINESS_FACTS%%'', render_business_facts (cat_facts cat)),
      (''%%DELIVERY_ZONES%%'', render_delivery_zones (pi_zones inp)),
      (''%%SERVICES%%'', render_services inp cat),
      (''%%SPECIALISTS%%'', render_specialists inp cat),
      (''%%RESPONSE_SCHEMA%%'', schema)]"

definition fill_slots :: "string \<Rightarrow> (string \<times> string) list \<Rightarrow> string" where
  "fill_slots frame contents = foldl (\<lambda>out (slot, txt). replace_all slot txt out) frame contents"

definition render_prompt_with_schema ::
  "string \<Rightarrow> prompt_input \<Rightarrow> catalog \<Rightarrow> string \<Rightarrow> prompt_error + string" where
  "render_prompt_with_schema frame inp cat schema =
     (case render_products_available inp cat of
        None \<Rightarrow> Inl PromptPanic
      | Some available \<Rightarrow>
          let out = fill_slots frame (slot_contents inp cat schema available) in
          bindE (validate_prompt out cat) (\<lambda>_. Inr out))"

section \<open>The response schema\<close>

text \<open>\<open>propertyDescriptions\<close>: name, description, diagnostic.\<close>

definition property_descriptions :: "(string \<times> string \<times> bool) list" where
  "property_descriptions =
     [(''reply_text'', ''Customer-facing reply (Russian, or Kazakh when the customer wrote Kazakh). Exact business values must be represented by approved placeholders, never model-written literals.'', False),
      (''reply_language'', ''Language of reply_text: '' @ [CHR 0x22] @ ''ru'' @ [CHR 0x22] @ '' or '' @ [CHR 0x22] @ ''kk'' @ [CHR 0x22] @ ''.'', False),
      (''media_files_to_send'', ''Ordered semantic tokens copied exactly from the media catalog. An empty array means no media.'', False),
      (''escalate'', ''true when approved live knowledge is insufficient and human review is required.'', False),
      (''escalation_reason'', ''Optional internal Russian reason for escalation; diagnostic only, never shown to the customer.'', True),
      (''confidence'', ''Optional model confidence from 0 to 1; diagnostic only and never a safety gate.'', True)]"

definition property_schema :: "string \<Rightarrow> string \<Rightarrow> json" where
  "property_schema name description =
     sorted_object ((''description'', JString description) #
       (if name = ''media_files_to_send'' then
          [(''type'', JString ''array''), (''items'', sorted_object [(''type'', JString ''string'')])]
        else if name = ''escalate'' then [(''type'', JString ''boolean'')]
        else if name = ''confidence'' then
          [(''type'', JString ''number''), (''minimum'', JNumber ''0''), (''maximum'', JNumber ''1'')]
        else if name = ''reply_language'' then
          [(''type'', JString ''string''), (''enum'', JArray [JString ''ru'', JString ''kk''])]
        else [(''type'', JString ''string'')]))"

definition schema_of :: "(string \<times> json) list \<Rightarrow> json" where
  "schema_of extra =
     sorted_object
       [(''type'', JString ''object''), (''additionalProperties'', JBool False),
        (''required'', JArray (map (\<lambda>(n, d, diag). JString n) (filter (\<lambda>(n, d, diag). \<not> diag) property_descriptions))),
        (''properties'', sorted_object (map (\<lambda>(n, d, diag). (n, property_schema n d)) property_descriptions @ extra))]"

definition response_json_schema :: json where "response_json_schema = schema_of []"

definition gap_description :: string where
  "gap_description = ''Optional structured escalation diagnostic. Diagnostic only: never shown to the customer, never a reason to change reply_text or escalate. Fill it in only when escalate is true. Omit the whole object rather than guess any part of it.''"

definition gap_json_schema :: json where
  "gap_json_schema =
     sorted_object
       [(''type'', JString ''object''), (''description'', JString gap_description), (''additionalProperties'', JBool False),
        (''required'', JArray [JString ''reason_code'']),
        (''properties'', sorted_object
          [(''reason_code'', sorted_object
             [(''type'', JString ''string''), (''enum'', JArray (map JString model_gap_reason_codes)),
              (''description'', JString ''Closed reason code for why the knowledge base could not answer.'')]),
           (''target_entity_type'', sorted_object
             [(''type'', JString ''string''), (''enum'', JArray (map JString all_gap_entity_types)),
              (''description'', JString ((of_runes [0x0054, 0x0068, 0x0065, 0x0020, 0x006B, 0x0069, 0x006E, 0x0064, 0x0020, 0x006F, 0x0066, 0x0020, 0x004B, 0x0042, 0x0020, 0x0065, 0x006E, 0x0074, 0x0069, 0x0074, 0x0079, 0x0020, 0x0069, 0x006E, 0x0076, 0x006F, 0x006C, 0x0076, 0x0065, 0x0064, 0x002E, 0x0020, 0x0043, 0x006F, 0x0070, 0x0079, 0x0020, 0x0065, 0x0078, 0x0061, 0x0063, 0x0074, 0x006C, 0x0079, 0x0020, 0x2014, 0x0020, 0x006E, 0x0065, 0x0076, 0x0065, 0x0072, 0x0020, 0x0069, 0x006E, 0x0076, 0x0065, 0x006E, 0x0074, 0x002E])))]),
           (''target_entity_ref'', sorted_object
             [(''type'', JString ''string''),
              (''description'', JString ''The exact ref/slug of the KB entity involved, copied exactly from the blocks below. Never invent one.'')]),
           (''missing_fields'', sorted_object
             [(''type'', JString ''array''), (''items'', sorted_object [(''type'', JString ''string'')]),
              (''description'', JString ''The specific field name(s) the customer asked about that are missing, written exactly as named in this prompt. Never invent a field name.'')])])]"

definition response_json_schema_v7 :: json where
  "response_json_schema_v7 = schema_of [(''kb_gap'', gap_json_schema)]"

definition render_response_schema :: string where "render_response_schema = print_indent 0 response_json_schema"
definition render_response_schema_v7 :: string where "render_response_schema_v7 = print_indent 0 response_json_schema_v7"

definition render_prompt :: "string \<Rightarrow> prompt_input \<Rightarrow> catalog \<Rightarrow> prompt_error + string" where
  "render_prompt frame inp cat = render_prompt_with_schema frame inp cat render_response_schema"

definition render_prompt_v7 :: "string \<Rightarrow> prompt_input \<Rightarrow> catalog \<Rightarrow> prompt_error + string" where
  "render_prompt_v7 frame inp cat = render_prompt_with_schema frame inp cat render_response_schema_v7"

section \<open>Building a prompt\<close>

datatype build_error = CatalogFailed catalog_error | PromptFailed prompt_error

definition lift_err :: "('e \<Rightarrow> 'f) \<Rightarrow> 'e + 'a \<Rightarrow> 'f + 'a" where
  "lift_err f r = (case r of Inl e \<Rightarrow> Inl (f e) | Inr x \<Rightarrow> Inr x)"

definition build_prompt_with ::
  "(prompt_input \<Rightarrow> catalog \<Rightarrow> prompt_error + string) \<Rightarrow> kb \<Rightarrow> build_error + string \<times> catalog" where
  "build_prompt_with render kb =
     bindE (lift_err CatalogFailed (build_catalog kb)) (\<lambda>cat.
     bindE (lift_err PromptFailed (render (prompt_input_of kb) cat)) (\<lambda>out.
     bindE (lift_err PromptFailed (validate_no_material_leak out (kb_materials kb))) (\<lambda>_.
     Inr (out, cat))))"

definition build_prompt :: "string \<Rightarrow> kb \<Rightarrow> build_error + string \<times> catalog" where
  "build_prompt frame kb = build_prompt_with (render_prompt frame) kb"

definition build_prompt_v7 :: "string \<Rightarrow> kb \<Rightarrow> build_error + string \<times> catalog" where
  "build_prompt_v7 frame kb = build_prompt_with (render_prompt_v7 frame) kb"

section \<open>What hidden rows can change\<close>

text \<open>
  Of a product that is not on offer the prompt may use the name, and in the flat description slot the
  category and the description; everything else of it is erased here. Rows taken off sale are dropped.
\<close>

definition public_product :: "product \<Rightarrow> product" where
  "public_product p =
     (if product_visible p then p
      else p\<lparr>pr_ref := '''', pr_price := '''', pr_brand := '''', pr_advantages := '''', pr_disadvantages := '''',
             pr_best_for := '''', pr_not_for := '''', pr_availability_note := '''', pr_installation := '''',
             pr_warranty := '''', pr_facts := [], pr_featured_image := '''', pr_gallery := [], pr_videos := [],
             pr_certificates := [], pr_guarantees := []\<rparr>)"

definition approved_view :: "prompt_input \<Rightarrow> prompt_input" where
  "approved_view inp =
     inp\<lparr>pi_topics := filter (\<lambda>t. trim_space (tp_body t) \<noteq> '''') (pi_topics inp),
         pi_products := map public_product (filter (\<lambda>p. active (pr_sales_status p)) (pi_products inp)),
         pi_tariffs := filter (\<lambda>t. active (tf_sales_status t)) (pi_tariffs inp),
         pi_zones := filter (\<lambda>z. active (dz_sales_status z)) (pi_zones inp),
         pi_specialists := filter (\<lambda>s. active (sp_sales_status s)) (pi_specialists inp),
         pi_services := filter (\<lambda>sv. active (sv_sales_status sv)) (pi_services inp)\<rparr>"

lemma public_product_visible [simp]: "product_visible (public_product p) = product_visible p"
  by (auto simp: public_product_def product_visible_def)

lemma public_product_fields [simp]:
  "pr_name (public_product p) = pr_name p" "pr_sales_status (public_product p) = pr_sales_status p"
  "pr_availability (public_product p) = pr_availability p"
  "product_description (public_product p) = product_description p"
  by (auto simp: public_product_def product_description_def)

lemma visible_products:
  "filter product_visible (map public_product (filter (\<lambda>p. active (pr_sales_status p)) ps)) = filter product_visible ps"
  by (induction ps) (auto simp: public_product_def, auto simp: product_visible_def)

lemma unavailable_names:
  "map (\<lambda>p. CHR ''-'' # CHR '' '' # pr_name p) (filter (\<lambda>p. active (pr_sales_status p) \<and> pr_availability p = ''unavailable'')
      (map public_product (filter (\<lambda>p. active (pr_sales_status p)) ps)))
   = map (\<lambda>p. CHR ''-'' # CHR '' '' # pr_name p) (filter (\<lambda>p. active (pr_sales_status p) \<and> pr_availability p = ''unavailable'') ps)"
  by (induction ps) auto

lemma public_descriptions:
  "concat (map product_description (map public_product (filter (\<lambda>p. active (pr_sales_status p)) ps)))
     = concat (map product_description ps)"
  "concat (map tariff_description (filter (\<lambda>t. active (tf_sales_status t)) ts)) = concat (map tariff_description ts)"
  "concat (map zone_description (filter (\<lambda>z. active (dz_sales_status z)) zs)) = concat (map zone_description zs)"
proof -
  have inactive: "\<not> active (pr_sales_status p) \<Longrightarrow> product_description p = []" for p
    by (simp add: product_description_def)
  show "concat (map product_description (map public_product (filter (\<lambda>p. active (pr_sales_status p)) ps)))
     = concat (map product_description ps)"
    by (induction ps) (simp_all add: inactive)
  show "concat (map tariff_description (filter (\<lambda>t. active (tf_sales_status t)) ts)) = concat (map tariff_description ts)"
    by (induction ts) (simp_all add: tariff_description_def)
  show "concat (map zone_description (filter (\<lambda>z. active (dz_sales_status z)) zs)) = concat (map zone_description zs)"
    by (induction zs) (simp_all add: zone_description_def)
qed

lemma find_active:
  "find (\<lambda>s. sp_ref s = r \<and> active (sp_sales_status s)) (filter (\<lambda>s. active (sp_sales_status s)) ss)
     = find (\<lambda>s. sp_ref s = r \<and> active (sp_sales_status s)) ss"
  by (induction ss) auto

lemma approved_fields:
  "pi_assistant (approved_view inp) = pi_assistant inp" "pi_contacts (approved_view inp) = pi_contacts inp"
  "pi_policies (approved_view inp) = pi_policies inp" "pi_tariff_info (approved_view inp) = pi_tariff_info inp"
  by (simp_all add: approved_view_def)

lemma approved_services:
  "children_of (approved_view inp) r = children_of inp r"
  "base_services (approved_view inp) = base_services inp"
  "render_service_specialists (approved_view inp) rs = render_service_specialists inp rs"
  "service_refs_for (approved_view inp) r = service_refs_for inp r"
proof -
  show "children_of (approved_view inp) r = children_of inp r"
    "base_services (approved_view inp) = base_services inp"
    by (auto simp: children_of_def base_services_def approved_view_def conj_commute cong: conj_cong intro!: filter_cong)
  show "render_service_specialists (approved_view inp) rs = render_service_specialists inp rs"
    by (simp add: render_service_specialists_def approved_view_def find_active)
  show "service_refs_for (approved_view inp) r = service_refs_for inp r"
    by (simp add: service_refs_for_def approved_view_def)
qed

lemma approved_blocks:
  "render_service_block (approved_view inp) = render_service_block inp"
  "specialist_block (approved_view inp) = specialist_block inp"
  by (intro ext, simp add: render_service_block_def specialist_block_def approved_services)+

lemma approved_slots:
  "render_topics (pi_topics (approved_view inp)) = render_topics (pi_topics inp)"
  "render_descriptions (approved_view inp) = render_descriptions inp"
  "render_products_in_stock (approved_view inp) cat = render_products_in_stock inp cat"
  "render_products_out_of_stock (approved_view inp) = render_products_out_of_stock inp"
  "render_tariffs (approved_view inp) cat = render_tariffs inp cat"
  "render_products_available (approved_view inp) cat = render_products_available inp cat"
  "render_tariff_catalog (approved_view inp) cat = render_tariff_catalog inp cat"
  "render_tariff_info (approved_view inp) cat = render_tariff_info inp cat"
  "render_topic_blocks (approved_view inp) cat = render_topic_blocks inp cat"
  "render_delivery_zones (pi_zones (approved_view inp)) = render_delivery_zones (pi_zones inp)"
  "render_services (approved_view inp) cat = render_services inp cat"
  "render_specialists (approved_view inp) cat = render_specialists inp cat"
  by (simp_all add: render_topics_def render_descriptions_def render_products_in_stock_def
      render_products_out_of_stock_def render_tariffs_def render_products_available_def render_tariff_catalog_def
      render_tariff_info_def render_topic_blocks_def render_delivery_zones_def render_services_def
      render_specialists_def service_categories_def service_group_def approved_services approved_blocks
      approved_fields)
    (simp_all add: approved_view_def visible_products unavailable_names public_descriptions del: map_map)

text \<open>
  C36: the prompt does not depend on what is not on offer. For every frame, rendering is the same when
  rows taken off sale are dropped and, of a product that is not available, everything but its name,
  category and description is erased; so no price, note, fact, media or schedule of such a row can
  reach the model through the renderer.
\<close>

theorem hidden_rows_do_not_show:
  "render_prompt_with_schema frame inp cat schema = render_prompt_with_schema frame (approved_view inp) cat schema"
  unfolding render_prompt_with_schema_def slot_contents_def render_products_unavailable_def approved_slots
    approved_fields by (rule refl)

end
