(* ===== verification/Ai_Prompt_Gates.thy ===== *)
theory Ai_Prompt_Gates
  imports Ai_Prompt Ai_Resolve
begin

text \<open>
  Theorems about rendered prompts: the service tree of a salon lists every service once under its base,
  and what passes the gates contains no identifier of a stored file and no token that would not resolve.
\<close>

section \<open>The service tree\<close>

definition first_seen :: "'a list \<Rightarrow> 'a list" where
  "first_seen xs = rev (remdups (rev xs))"

lemma first_seen_snoc: "first_seen (xs @ [x]) = (if x \<in> set xs then first_seen xs else first_seen xs @ [x])"
  by (simp add: first_seen_def)

lemma first_seen_set [simp]: "set (first_seen xs) = set xs" "distinct (first_seen xs)"
  by (simp_all add: first_seen_def)

lemma add_to_category_map:
  assumes "distinct cs" and "\<forall>c \<in> set cs. L c \<noteq> []"
  shows "add_to_category name ls (map (\<lambda>c. (c, L c)) cs) =
     (if name \<in> set cs then map (\<lambda>c. (c, if c = name then L c @ '''' # ls else L c)) cs
      else map (\<lambda>c. (c, L c)) cs @ [(name, ls)])"
  using assms by (induction cs) auto

text \<open>The lines of one category: the groups of its base services, an empty line between them.\<close>

fun separated :: "string list list \<Rightarrow> string list" where
  "separated [] = []"
| "separated [g] = g"
| "separated (g # h # gs) = g @ '''' # separated (h # gs)"

lemma separated_snoc: "gs \<noteq> [] \<Longrightarrow> separated (gs @ [g]) = separated gs @ '''' # g"
  by (induction gs rule: separated.induct) auto

lemma separated_nonempty: "gs \<noteq> [] \<Longrightarrow> \<forall>g \<in> set gs. g \<noteq> [] \<Longrightarrow> separated gs \<noteq> []"
  by (induction gs rule: separated.induct) auto

definition groups_of :: "prompt_input \<Rightarrow> catalog \<Rightarrow> service list \<Rightarrow> string \<Rightarrow> string list list" where
  "groups_of inp cat svs c = map (service_group inp cat) (filter (\<lambda>sv. sv_category sv = c) svs)"

lemma service_group_nonempty [simp]: "service_group inp cat sv \<noteq> []"
  by (simp add: service_group_def render_service_block_def)

lemma categories_grouped:
  "foldl (\<lambda>bs sv. add_to_category (sv_category sv) (service_group inp cat sv) bs) [] svs
     = map (\<lambda>c. (c, separated (groups_of inp cat svs c))) (first_seen (map sv_category svs))"
proof (induction svs rule: rev_induct)
  case (snoc sv svs)
  let ?cs = "first_seen (map sv_category svs)" and ?L = "\<lambda>c. separated (groups_of inp cat svs c)"
  have some: "groups_of inp cat svs c \<noteq> []" if "c \<in> set ?cs" for c
    using that by (auto simp: groups_of_def filter_empty_conv)
  have ne: "\<forall>c \<in> set ?cs. ?L c \<noteq> []"
    using some separated_nonempty by (fastforce simp: groups_of_def)
  have other: "c \<noteq> sv_category sv \<Longrightarrow> groups_of inp cat (svs @ [sv]) c = groups_of inp cat svs c" for c
    by (simp add: groups_of_def)
  have same: "groups_of inp cat (svs @ [sv]) (sv_category sv) = groups_of inp cat svs (sv_category sv) @ [service_group inp cat sv]"
    by (simp add: groups_of_def)
  show ?case
  proof (cases "sv_category sv \<in> set ?cs")
    case True
    then show ?thesis
      using snoc add_to_category_map [OF first_seen_set(2) ne, of "sv_category sv" "service_group inp cat sv"]
        separated_snoc [OF some [OF True]] same other
      by (auto simp: first_seen_snoc)
  next
    case False
    then have none: "groups_of inp cat svs (sv_category sv) = []"
      by (auto simp: groups_of_def filter_empty_conv) (metis image_eqI)
    have "map (\<lambda>c. (c, separated (groups_of inp cat (svs @ [sv]) c))) ?cs = map (\<lambda>c. (c, ?L c)) ?cs"
      using False other by (intro map_cong refl) metis
    then show ?thesis
      using snoc add_to_category_map [OF first_seen_set(2) ne, of "sv_category sv" "service_group inp cat sv"]
        False none same
      by (simp add: first_seen_snoc)
  qed
qed (simp add: first_seen_def)

lemma join_str_append:
  "xs \<noteq> [] \<Longrightarrow> ys \<noteq> [] \<Longrightarrow> join_str sep (xs @ ys) = join_str sep xs @ sep @ join_str sep ys"
proof (induction sep xs rule: join_str.induct)
  case (2 sep x)
  then show ?case by (cases ys) auto
qed auto

lemma join_separated:
  "\<forall>g \<in> set gs. g \<noteq> [] \<Longrightarrow> join_str line_break (separated gs) = join_str blank_line (map (join_str line_break) gs)"
proof (induction gs rule: separated.induct)
  case (3 g h gs)
  have "separated (h # gs) \<noteq> []" using separated_nonempty [of "h # gs"] 3(2) by auto
  then obtain l ls where sep: "separated (h # gs) = l # ls" by (cases "separated (h # gs)") auto
  have "join_str line_break ([] # separated (h # gs)) = line_break @ join_str line_break (separated (h # gs))"
    by (simp add: sep)
  with 3 join_str_append [of g "[] # separated (h # gs)" line_break] show ?case
    by (simp add: blank_line_def line_break_def)
qed simp_all

lemma filters_partition:
  "distinct ks \<Longrightarrow> mset (concat (map (\<lambda>k. filter (\<lambda>x. key x = k) ys) ks)) = mset (filter (\<lambda>x. key x \<in> set ks) ys)"
proof (induction ks)
  case (Cons k ks)
  have "mset (filter (\<lambda>x. key x = k \<or> key x \<in> set ks) ys) =
      mset (filter (\<lambda>x. key x = k) ys) + mset (filter (\<lambda>x. key x \<in> set ks) ys)"
    using Cons.prems by (induction ys) auto
  with Cons show ?case by simp
qed simp

lemma concat_heads: "mset (concat (map (\<lambda>x. x # f x) xs)) = mset xs + mset (concat (map f xs))"
  by (induction xs) auto

lemma filter_split:
  "mset (filter (\<lambda>x. P x \<and> Q x) xs) + mset (filter (\<lambda>x. P x \<and> \<not> Q x) xs) = mset (filter P xs)"
  by (induction xs) auto

definition listed_services :: "prompt_input \<Rightarrow> service list" where
  "listed_services inp = concat (map (\<lambda>b. b # children_of inp (sv_ref b)) (base_services inp))"

text \<open>
  C37: the service list of a salon is complete and well nested. If the services pass the checks of the
  catalog, every service on sale is listed exactly once, a variant or an add-on right under its base
  service; and the text is that of the base services grouped by category, categories and services in
  the order they come in.
\<close>

theorem services_listed_once:
  assumes "service_facts kb = Inr fs"
  shows "mset (listed_services (prompt_input_of kb)) = mset (filter (\<lambda>sv. active (sv_sales_status sv)) (kb_services kb))
    \<and> render_services (prompt_input_of kb) cat =
        blocks_text (map (\<lambda>c. ''category: '' @ c @ line_break
            @ join_str blank_line (map (join_str line_break) (groups_of (prompt_input_of kb) cat (base_services (prompt_input_of kb)) c)))
          (first_seen (map sv_category (base_services (prompt_input_of kb)))))"
proof
  let ?inp = "prompt_input_of kb" and ?svs = "kb_services kb"
  have d: "distinct (map sv_ref ?svs)" and par: "\<forall>sv \<in> set ?svs. check_parent ?svs sv = Inr ()"
    using assms check_services_distinct [of "[]" ?svs] by (auto simp: service_facts_def result_simps check_all_iff)
  let ?bases = "base_services ?inp"
  let ?kids = "filter (\<lambda>sv. active (sv_sales_status sv) \<and> sv_type sv \<noteq> ''base'') ?svs"
  have bases: "?bases = filter (\<lambda>sv. active (sv_sales_status sv) \<and> sv_type sv = ''base'') ?svs"
    by (simp add: base_services_def prompt_input_of_def)
  have kids: "children_of ?inp ref = filter (\<lambda>sv. sv_parent sv = ref) ?kids" for ref
    by (auto simp: children_of_def prompt_input_of_def intro: filter_cong)
  have covered: "sv_parent sv \<in> set (map sv_ref ?bases)" if sv: "sv \<in> set ?kids" for sv
  proof -
    have p: "check_parent ?svs sv = Inr ()" and a: "active (sv_sales_status sv)" "sv_type sv \<noteq> ''base''"
      using par sv by auto
    then obtain parent where f: "find_by sv_ref (sv_parent sv) ?svs = Some parent"
      and b: "sv_type parent = ''base''" "active (sv_sales_status parent)"
      by (auto simp: check_parent_def split: if_splits option.splits)
    with find_by_Some [OF f] show ?thesis unfolding bases by (auto intro!: image_eqI [of _ _ parent])
  qed
  have "distinct (map sv_ref ?bases)" unfolding bases using d by (rule distinct_map_filter)
  from filters_partition [OF this, of sv_parent ?kids]
  have "mset (concat (map (\<lambda>b. children_of ?inp (sv_ref b)) ?bases)) =
      mset (filter (\<lambda>x. sv_parent x \<in> set (map sv_ref ?bases)) ?kids)"
    by (simp add: kids comp_def)
  also have "filter (\<lambda>x. sv_parent x \<in> set (map sv_ref ?bases)) ?kids = ?kids"
    using covered by (rule filter_True [OF ballI])
  finally have "mset (listed_services ?inp) = mset ?bases + mset ?kids"
    by (simp add: listed_services_def concat_heads)
  also have "\<dots> = mset (filter (\<lambda>sv. active (sv_sales_status sv)) ?svs)"
    unfolding bases by (rule filter_split)
  finally show "mset (listed_services ?inp) = mset (filter (\<lambda>sv. active (sv_sales_status sv)) ?svs)" .
  have "\<forall>g \<in> set (groups_of ?inp cat ?bases c). g \<noteq> []" for c by (auto simp: groups_of_def)
  then show "render_services ?inp cat =
        blocks_text (map (\<lambda>c. ''category: '' @ c @ line_break
            @ join_str blank_line (map (join_str line_break) (groups_of ?inp cat ?bases c)))
          (first_seen (map sv_category ?bases)))"
    by (simp add: render_services_def service_categories_def categories_grouped comp_def join_separated)
qed

lemma services_listed_once_witness:
  fixes base :: service
  defines "base \<equiv> \<lparr>sv_ref = ''cut'', sv_parent = '''', sv_type = ''base'', sv_category = ''hair'', sv_name = ''Cut'',
      sv_price = '''', sv_duration = None, sv_description = '''', sv_specialists = [], sv_sales_status = ''active''\<rparr>"
  defines "kb \<equiv> sample_kb\<lparr>kb_services := [base\<lparr>sv_ref := ''wash'', sv_parent := ''cut'', sv_type := ''addon''\<rparr>, base]\<rparr>"
  shows "mset (listed_services (prompt_input_of kb)) = {#base, base\<lparr>sv_ref := ''wash'', sv_parent := ''cut'', sv_type := ''addon''\<rparr>#}"
proof -
  have "service_facts kb = Inr []" unfolding kb_def base_def by code_simp
  note all = services_listed_once [OF this, THEN conjunct1]
  show ?thesis unfolding all by (simp add: kb_def base_def active_def add_mset_commute)
qed

section \<open>What passes the gates\<close>

definition hex_rune :: "int \<Rightarrow> bool" where
  "hex_rune r \<longleftrightarrow> 0x30 \<le> r \<and> r \<le> 0x39 \<or> 0x61 \<le> r \<and> r \<le> 0x66 \<or> 0x41 \<le> r \<and> r \<le> 0x46"

definition hex_run :: "nat \<Rightarrow> int list \<Rightarrow> bool" where
  "hex_run n w \<longleftrightarrow> length w = n \<and> list_all hex_rune w"

text \<open>Runs of 8, 4, 4, 4 and 12 hexadecimal digits with dashes between them.\<close>

definition uuid_text :: "int list \<Rightarrow> bool" where
  "uuid_text w \<longleftrightarrow>
     (\<exists>a b c d e. w = a @ 0x2D # b @ 0x2D # c @ 0x2D # d @ 0x2D # e
        \<and> hex_run 8 a \<and> hex_run 4 b \<and> hex_run 4 c \<and> hex_run 4 d \<and> hex_run 12 e)"

text \<open>\<open>w\<close> stands in \<open>rs\<close> with no letter, digit or underscore at either side.\<close>

definition stands_alone :: "int list \<Rightarrow> int list \<Rightarrow> bool" where
  "stands_alone w rs \<longleftrightarrow>
     (\<exists>a b. rs = a @ w @ b \<and> (a = [] \<or> \<not> ascii_word (last a)) \<and> (b = [] \<or> \<not> ascii_word (hd b)))"

lemma hex_class: "in_class (In [(0x30, 0x39), (0x61, 0x66), (0x41, 0x46)]) r = hex_rune r"
  by (auto simp: in_ranges_def hex_rune_def)

lemma hex_is_word: "hex_rune r \<Longrightarrow> ascii_word r"
  by (auto simp: hex_rune_def ascii_word_def)

lemma leads_hex:
  "hex_run (Suc n) w \<Longrightarrow> leads (hex_digits (Suc n)) (p, w @ b) (Some (last w), b)"
proof (induction n arbitrary: p w)
  case 0
  then obtain r where "w = [r]" "hex_rune r" by (auto simp: hex_run_def length_Suc_conv)
  then show ?case using hex_class by (simp add: hex_digits_def hex_digit_def leads_One)
next
  case (Suc n)
  then obtain r w' where w: "w = r # w'" "hex_rune r" "hex_run (Suc n) w'" by (auto simp: hex_run_def length_Suc_conv)
  then have "w' \<noteq> []" by (auto simp: hex_run_def)
  with w hex_class [of r] Suc.IH [OF w(3), of "Some r"] show ?case
    by (auto simp: hex_digits_def hex_digit_def leads_Seq leads_One)
qed

lemma leads_rune_is: "leads (rune_is c) (p, int (of_char c) # b) (Some (int (of_char c)), b)"
  by (simp add: rune_is_def leads_One in_ranges_def)

lemma leads_uuid:
  assumes "uuid_text w" and p: "case p of None \<Rightarrow> True | Some r \<Rightarrow> \<not> ascii_word r" and b: "b = [] \<or> \<not> ascii_word (hd b)"
  shows "\<exists>e. leads uuid_pattern (p, w @ b) e"
proof -
  from assms(1) obtain w1 w2 w3 w4 w5 where w: "w = w1 @ 0x2D # w2 @ 0x2D # w3 @ 0x2D # w4 @ 0x2D # w5"
    and h: "hex_run 8 w1" "hex_run 4 w2" "hex_run 4 w3" "hex_run 4 w4" "hex_run 12 w5"
    by (auto simp: uuid_text_def)
  have n: "(8 :: nat) = Suc 7" "(4 :: nat) = Suc 3" "(12 :: nat) = Suc 11" by simp_all
  have dash: "leads dash_sign (q, 0x2D # r) (Some 0x2D, r)" for q r
    using leads_rune_is [of "CHR ''-''" q r] by (simp add: dash_sign_def)
  have first: "word_boundary (p, w @ b)"
  proof -
    have "w1 \<noteq> []" using h(1) by (auto simp: hex_run_def)
    then obtain r w1' where "w1 = r # w1'" by (cases w1) auto
    moreover from this have "ascii_word r" using h(1) hex_is_word by (auto simp: hex_run_def)
    ultimately show ?thesis using p by (auto simp: word_boundary_def w split: option.splits)
  qed
  have last: "word_boundary (Some (last w5), b)"
  proof -
    have "w5 \<noteq> []" using h(5) by (auto simp: hex_run_def)
    then have "hex_rune (last w5)" using h(5) by (simp add: hex_run_def list_all_iff)
    with hex_is_word b show ?thesis by (cases b) (auto simp: word_boundary_def)
  qed
  show ?thesis
    unfolding uuid_pattern_def seqs.simps leads_Seq leads_Boundary
    using first last leads_hex [of 7 w1 p "0x2D # w2 @ 0x2D # w3 @ 0x2D # w4 @ 0x2D # w5 @ b"]
      leads_hex [of 3 w2 "Some 0x2D" "0x2D # w3 @ 0x2D # w4 @ 0x2D # w5 @ b"]
      leads_hex [of 3 w3 "Some 0x2D" "0x2D # w4 @ 0x2D # w5 @ b"]
      leads_hex [of 3 w4 "Some 0x2D" "0x2D # w5 @ b"] leads_hex [of 11 w5 "Some 0x2D" b] h dash
    by (simp add: w n [symmetric]) blast
qed

lemma stands_alone_matches:
  assumes "stands_alone w rs" and "\<And>p b. case p of None \<Rightarrow> True | Some r \<Rightarrow> \<not> ascii_word r \<Longrightarrow>
      b = [] \<or> \<not> ascii_word (hd b) \<Longrightarrow> \<exists>e. leads pat (p, w @ b) e"
  shows "matches pat rs"
proof -
  from assms(1) obtain a b where rs: "rs = a @ w @ b" and a: "a = [] \<or> \<not> ascii_word (last a)"
    and b: "b = [] \<or> \<not> ascii_word (hd b)" by (auto simp: stands_alone_def)
  have "cursor_at None rs (length a) = (if a = [] then None else Some (last a), w @ b)"
    by (cases a rule: rev_cases) (simp_all add: rs cursor_at_def nth_append)
  with assms(2) [of "if a = [] then None else Some (last a)" b] a b show ?thesis
    unfolding matches_iff by (auto simp: rs intro!: exI [of _ "length a"])
qed

text \<open>
  C13: what a prompt that was built may contain. Its placeholders are tokens of the catalog built from
  the same knowledge base, the one answers are validated against; it contains no identifying value of a
  stored file, of six bytes or more, and no UUID standing on its own.
\<close>

theorem built_prompt_is_clean:
  assumes "build_prompt_v7 frame kb = Inr (out, cat)"
  shows "build_catalog kb = Inr cat
    \<and> list_all (\<lambda>tok. fact_by_token cat tok \<noteq> None) (find_placeholders out)
    \<and> list_all (\<lambda>m. list_all (\<lambda>secret. \<not> sublist secret out) (material_secrets m)) (kb_materials kb)
    \<and> \<not> (\<exists>w. uuid_text w \<and> stands_alone w (runes out))"
proof -
  obtain inp where b: "build_catalog kb = Inr cat" and r: "render_prompt_v7 frame inp cat = Inr out"
    and m: "validate_no_material_leak out (kb_materials kb) = Inr ()"
    using assms by (auto simp: build_prompt_v7_def build_prompt_with_def result_simps lift_err_def split: sum.splits)
  from r have v: "validate_prompt out cat = Inr ()"
    by (auto simp: render_prompt_v7_def render_prompt_with_schema_def Let_def result_simps split: option.splits)
  then have "find (\<lambda>tok. fact_by_token cat tok = None) (find_placeholders out) = None"
    and u: "\<not> matches uuid_pattern (runes out)"
    by (auto simp: validate_prompt_def split: if_splits option.splits)
  then have "list_all (\<lambda>tok. fact_by_token cat tok \<noteq> None) (find_placeholders out)"
    by (auto simp: find_None_iff list_all_iff)
  moreover have "list_all (\<lambda>m. list_all (\<lambda>secret. \<not> sublist secret out) (material_secrets m)) (kb_materials kb)"
    using m by (auto simp: validate_no_material_leak_def find_None_iff list_all_iff contains_str_iff split: option.splits)
  moreover have "\<not> (\<exists>w. uuid_text w \<and> stands_alone w (runes out))"
    using u stands_alone_matches leads_uuid by blast
  ultimately show ?thesis using b by simp
qed

section \<open>Frames without slots\<close>

lemma replace_all_absent: "old \<noteq> [] \<Longrightarrow> hd old \<notin> set s \<Longrightarrow> replace_all old new s = s"
  by (induction s) (subst replace_all.simps, auto simp: neq_Nil_conv)+

lemma fill_slots_absent:
  "\<forall>(slot, body) \<in> set contents. prefix ''%'' slot \<Longrightarrow> CHR ''%'' \<notin> set frame \<Longrightarrow> fill_slots frame contents = frame"
proof (induction contents)
  case (Cons c contents)
  obtain slot body where c: "c = (slot, body)" by (cases c)
  with Cons.prems have "slot \<noteq> []" "hd slot = CHR ''%''" by (auto simp: prefix_def)
  with Cons c replace_all_absent [of slot frame body] show ?case by (simp add: fill_slots_def)
qed (simp add: fill_slots_def)

lemma products_available_total: "\<exists>body. render_products_available inp cat = Some body"
proof -
  have "\<exists>bs. those (map (product_block cat) (filter product_visible ps)) = Some bs" for ps
  proof (induction ps)
    case (Cons p ps)
    have "product_visible p \<Longrightarrow> \<exists>b. product_block cat p = Some b"
      by (auto simp: product_block_def product_visible_def availability_status_ru_def availability_status_ru_words_def)
    with Cons show ?case by auto
  qed simp
  then show ?thesis by (auto simp: render_products_available_def)
qed

lemma plain_frame_renders:
  assumes "CHR ''%'' \<notin> set frame" and "validate_prompt frame cat = Inr ()"
  shows "render_prompt_with_schema frame inp cat schema = Inr frame"
proof -
  obtain body where a: "render_products_available inp cat = Some body" using products_available_total by blast
  have "fill_slots frame (slot_contents inp cat schema body) = frame"
    using assms(1) by (rule fill_slots_absent [rotated]) (simp add: slot_contents_def)
  with a assms(2) show ?thesis by (simp add: render_prompt_with_schema_def)
qed

definition sample_frame :: string where "sample_frame = ''Answer: {{product.tv.price}}''"

lemma sample_frame_valid: "validate_prompt sample_frame sample_catalog = Inr ()"
  by code_simp

lemma sample_prompt: "build_prompt_v7 sample_frame sample_kb = Inr (sample_frame, sample_catalog)"
proof -
  have "validate_no_material_leak sample_frame (kb_materials sample_kb) = Inr ()" by code_simp
  then show ?thesis
    using plain_frame_renders [OF _ sample_frame_valid]
    by (simp add: build_prompt_v7_def build_prompt_with_def lift_err_def sample_built render_prompt_v7_def sample_frame_def)
qed

lemma built_prompt_is_clean_witness:
  "list_all (\<lambda>tok. fact_by_token sample_catalog tok \<noteq> None) (find_placeholders sample_frame)"
  using built_prompt_is_clean [OF sample_prompt] by simp

end
