(* ===== verification/Ai_Engine.thy ===== *)
theory Ai_Engine
  imports Ai_Contract Ai_Prompt_Gates
begin

text \<open>
  The response engine and service (\<open>backend/response/engine.go\<close>, \<open>service.go\<close>, with the parts of the
  prompt after the frame from \<open>backend/aiprompt/customer.go\<close> and \<open>tail.go\<close>). The language model, its
  registry and the repositories are parameters: the model may answer every call as it likes. A run
  returns what was asked of the model together with the result. The temperature, a float that is only
  passed on, is kept as its text. Error values are constructors; their
  texts are not modelled.
\<close>

section \<open>The rest of the prompt\<close>

record customer_context =
  cc_name :: string
  cc_status :: string
  cc_tags :: "string list"
  cc_note :: string
  cc_next_action :: string
  cc_next_due :: string

definition join_non_empty :: "string list \<Rightarrow> string \<Rightarrow> string" where
  "join_non_empty items sep = join_str sep (filter (\<lambda>s. s \<noteq> '''') (map trim_space items))"

definition collapse_whitespace :: "string \<Rightarrow> string" where
  "collapse_whitespace s = join_str '' '' (Prelude.fields s)"

definition customer_line :: "string \<Rightarrow> string \<Rightarrow> string list" where
  "customer_line label s = (if s = '''' then [] else [label @ s])"

definition customer_lines :: "customer_context \<Rightarrow> string list" where
  "customer_lines c =
     customer_line (of_runes [0x0418, 0x043C, 0x044F, 0x003A, 0x0020]) (trim_space (cc_name c))
     @ customer_line (of_runes [0x0421, 0x0442, 0x0430, 0x0442, 0x0443, 0x0441, 0x003A, 0x0020]) (trim_space (cc_status c))
     @ customer_line (of_runes [0x0422, 0x0435, 0x0433, 0x0438, 0x003A, 0x0020]) (join_non_empty (cc_tags c) '', '')
     @ customer_line (of_runes [0x041F, 0x043E, 0x0441, 0x043B, 0x0435, 0x0434, 0x043D, 0x044F, 0x044F, 0x0020, 0x0437, 0x0430, 0x043C, 0x0435, 0x0442, 0x043A, 0x0430, 0x0020, 0x043C, 0x0435, 0x043D, 0x0435, 0x0434, 0x0436, 0x0435, 0x0440, 0x0430, 0x003A, 0x0020]) (collapse_whitespace (cc_note c))
     @ (let due = trim_space (cc_next_due c); act = trim_space (cc_next_action c) in
        customer_line (of_runes [0x0421, 0x043B, 0x0435, 0x0434, 0x0443, 0x044E, 0x0449, 0x0438, 0x0439, 0x0020, 0x0448, 0x0430, 0x0433, 0x003A, 0x0020])
          (if due = '''' then '''' else if act = '''' then due else due @ '' ('' @ act @ '')''))"

definition render_customer_context :: "customer_context option \<Rightarrow> string" where
  "render_customer_context co =
     (case co of
        None \<Rightarrow> ''''
      | Some c \<Rightarrow>
          if customer_lines c = [] then ''''
          else (of_runes [0x0427, 0x0442, 0x043E, 0x0020, 0x043C, 0x044B, 0x0020, 0x0437, 0x043D, 0x0430, 0x0435, 0x043C, 0x0020, 0x043E, 0x0431, 0x0020, 0x044D, 0x0442, 0x043E, 0x043C, 0x0020, 0x043A, 0x043B, 0x0438, 0x0435, 0x043D, 0x0442, 0x0435, 0x0020, 0x0028, 0x0432, 0x043D, 0x0443, 0x0442, 0x0440, 0x0435, 0x043D, 0x043D, 0x0438, 0x0435, 0x0020, 0x0434, 0x0430, 0x043D, 0x043D, 0x044B, 0x0435, 0x0020, 0x2014, 0x0020, 0x043D, 0x0435, 0x0020, 0x043F, 0x0435, 0x0440, 0x0435, 0x0441, 0x043A, 0x0430, 0x0437, 0x044B, 0x0432, 0x0430, 0x0439, 0x0020, 0x0438, 0x0445, 0x0020, 0x043A, 0x043B, 0x0438, 0x0435, 0x043D, 0x0442, 0x0443, 0x002C, 0x0020, 0x0438, 0x0441, 0x043F, 0x043E, 0x043B, 0x044C, 0x0437, 0x0443, 0x0439, 0x0020, 0x0442, 0x043E, 0x043B, 0x044C, 0x043A, 0x043E, 0x0020, 0x0447, 0x0442, 0x043E, 0x0431, 0x044B, 0x0020, 0x0442, 0x043E, 0x0447, 0x043D, 0x0435, 0x0435, 0x0020, 0x043E, 0x0442, 0x0432, 0x0435, 0x0442, 0x0438, 0x0442, 0x044C, 0x0029, 0x003A])
            @ line_break @ join_str line_break (customer_lines c) @ blank_line)"

record history_turn =
  ht_role :: string
  ht_text :: string

definition render_history :: "history_turn list \<Rightarrow> string" where
  "render_history turns =
     (if turns = [] then (of_runes [0x0028, 0x043F, 0x0443, 0x0441, 0x0442, 0x043E, 0x0020, 0x2014, 0x0020, 0x043D, 0x0430, 0x0447, 0x0430, 0x043B, 0x043E, 0x0020, 0x0440, 0x0430, 0x0437, 0x0433, 0x043E, 0x0432, 0x043E, 0x0440, 0x0430, 0x0029])
      else join_str line_break (map (\<lambda>t.
        (if ht_role t = ''assistant'' then (of_runes [0x0410, 0x0441, 0x0441, 0x0438, 0x0441, 0x0442, 0x0435, 0x043D, 0x0442]) else (of_runes [0x041A, 0x043B, 0x0438, 0x0435, 0x043D, 0x0442])) @ '': '' @ ht_text t) turns))"

definition conversation_tail :: "string \<Rightarrow> string \<Rightarrow> string" where
  "conversation_tail history message =
     (of_runes [0x0418, 0x0441, 0x0442, 0x043E, 0x0440, 0x0438, 0x044F, 0x0020, 0x043F, 0x0435, 0x0440, 0x0435, 0x043F, 0x0438, 0x0441, 0x043A, 0x0438, 0x0020, 0x0028, 0x043C, 0x043E, 0x0436, 0x0435, 0x0442, 0x0020, 0x0431, 0x044B, 0x0442, 0x044C, 0x0020, 0x043F, 0x0443, 0x0441, 0x0442, 0x043E, 0x0439, 0x0020, 0x2014, 0x0020, 0x0442, 0x043E, 0x0433, 0x0434, 0x0430, 0x0020, 0x044D, 0x0442, 0x043E, 0x0020, 0x043D, 0x0430, 0x0447, 0x0430, 0x043B, 0x043E, 0x0020, 0x0440, 0x0430, 0x0437, 0x0433, 0x043E, 0x0432, 0x043E, 0x0440, 0x0430, 0x0029, 0x003A]) @ line_break
     @ history @ line_break @ (of_runes [0x041A, 0x043B, 0x0438, 0x0435, 0x043D, 0x0442, 0x0020, 0x043F, 0x0438, 0x0448, 0x0435, 0x0442, 0x003A, 0x0020]) @ message @ line_break"

section \<open>Requests\<close>

datatype attachment_kind = AttachmentImage | AttachmentAudio | AttachmentOther string

record attachment =
  at_kind :: attachment_kind
  at_data_uri :: string
  at_transcript :: string
  at_caption :: string

definition attachment_label :: "string \<Rightarrow> attachment \<Rightarrow> string list" where
  "attachment_label incoming a =
     (case at_kind a of
        AttachmentAudio \<Rightarrow> (if at_transcript a = '''' then [] else [(of_runes [0x005B, 0x0413, 0x043E, 0x043B, 0x043E, 0x0441, 0x043E, 0x0432, 0x043E, 0x0435, 0x0020, 0x0441, 0x043E, 0x043E, 0x0431, 0x0449, 0x0435, 0x043D, 0x0438, 0x0435, 0x005D, 0x003A, 0x0020]) @ at_transcript a])
      | AttachmentImage \<Rightarrow>
          [(of_runes [0x005B, 0x041F, 0x0440, 0x0438, 0x043A, 0x0440, 0x0435, 0x043F, 0x043B, 0x0435, 0x043D, 0x043E, 0x0020, 0x0444, 0x043E, 0x0442, 0x043E, 0x005D]) @ (if at_caption a \<noteq> '''' \<and> incoming = '''' then '' '' @ at_caption a else '''')]
      | AttachmentOther k \<Rightarrow> [])"

definition attachment_tail_suffix :: "attachment list \<Rightarrow> string \<Rightarrow> string" where
  "attachment_tail_suffix atts incoming = join_str line_break (concat (map (attachment_label incoming) atts))"

definition is_vision_image :: "attachment \<Rightarrow> bool" where
  "is_vision_image a \<longleftrightarrow> at_kind a = AttachmentImage \<and> at_data_uri a \<noteq> ''''"

definition has_image_attachment :: "attachment list \<Rightarrow> bool" where
  "has_image_attachment atts \<longleftrightarrow> list_ex is_vision_image atts"

datatype content_part = TextPart string | ImagePart string

datatype user_message = PlainMessage string | PartsMessage "content_part list"

definition user_message_of :: "string \<Rightarrow> attachment list \<Rightarrow> user_message" where
  "user_message_of prompt atts =
     (let images = map (\<lambda>a. ImagePart (at_data_uri a)) (filter is_vision_image atts) in
      if images = [] then PlainMessage prompt else PartsMessage (TextPart prompt # images))"

record model_ref =
  mr_provider :: string
  mr_model :: string

record llm_params =
  lp_default :: model_ref
  lp_vision :: model_ref
  lp_max_tokens :: int
  lp_temperature :: string
  lp_retry :: bool

record llm_request =
  lq_ref :: model_ref
  lq_message :: user_message
  lq_temperature :: string
  lq_max_tokens :: int

record generate_request =
  gr_channel :: string
  gr_history :: "history_turn list"
  gr_incoming :: string
  gr_kb :: "kb option"
  gr_customer :: "customer_context option"
  gr_override :: "model_ref option"
  gr_attachments :: "attachment list"

text \<open>
  What the engine is wired to: the embedded frames, the current parameters, the registry (an error, or
  none), the model (the answer to its n-th call of the run), and which numerals read as the float 0.
\<close>

record engine =
  en_frame_salon :: string
  en_frame_shop :: string
  en_frame_shop_tg :: string
  en_params :: llm_params
  en_client :: "model_ref \<Rightarrow> string option"
  en_llm :: "nat \<Rightarrow> llm_request \<Rightarrow> string + string"
  en_zero :: "string \<Rightarrow> bool"

datatype generate_error =
    KbRequired
  | BuildCatalogFailed catalog_error
  | RenderFailed prompt_error
  | LeakFound prompt_error
  | NoModelClient string
  | LlmCallFailed string
  | LlmRetryFailed string
  | NoFinalAnswer
  | ShapeFails "contract_issue list"
  | ValidationFails "contract_issue list"
  | SubstituteFailed resolve_error
  | MediaFailed resolve_error

record generate_result =
  ge_text :: string
  ge_language :: string
  ge_escalate :: bool
  ge_reason :: string
  ge_confidence :: string
  ge_gap :: "kb_gap option"

section \<open>Frames\<close>

definition salon_frame_selected :: "kb option \<Rightarrow> bool" where
  "salon_frame_selected kbo \<longleftrightarrow>
     (case kbo of None \<Rightarrow> False | Some kb \<Rightarrow> length (kb_specialists kb) > 0 \<or> length (kb_services kb) > 0)"

definition channel_telegram :: string where "channel_telegram = ''telegram''"

definition frame_for :: "engine \<Rightarrow> kb option \<Rightarrow> string \<Rightarrow> string" where
  "frame_for en kbo channel =
     (if salon_frame_selected kbo then en_frame_salon en
      else if channel = channel_telegram then en_frame_shop_tg en
      else en_frame_shop en)"

definition prompt_ref_for :: "kb option \<Rightarrow> string \<Rightarrow> string" where
  "prompt_ref_for kbo channel =
     (if salon_frame_selected kbo then ''salon-kb@v1''
      else if channel = channel_telegram then ''shop-kb@v7-tg''
      else ''shop-kb@v7'')"

section \<open>Generating\<close>

definition incoming_with_attachments :: "generate_request \<Rightarrow> string" where
  "incoming_with_attachments req =
     (let suffix = attachment_tail_suffix (gr_attachments req) (gr_incoming req) in
      if suffix = '''' then gr_incoming req
      else if gr_incoming req \<noteq> '''' then gr_incoming req @ line_break @ suffix
      else suffix)"

text \<open>The catalog and the prompt prefix, through every gate.\<close>

definition gated_prompt :: "engine \<Rightarrow> generate_request \<Rightarrow> kb \<Rightarrow> generate_error + catalog \<times> string" where
  "gated_prompt en req kb =
     bindE (lift_err BuildCatalogFailed (build_catalog kb)) (\<lambda>cat.
     bindE (lift_err RenderFailed (render_prompt_v7 (frame_for en (Some kb) (gr_channel req)) (prompt_input_of kb) cat)) (\<lambda>out.
     bindE (lift_err LeakFound (validate_no_material_leak out (kb_materials kb))) (\<lambda>_.
     bindE (lift_err LeakFound (validate_no_storage_locator_leak out)) (\<lambda>_.
     Inr (cat, out)))))"

definition full_prompt :: "generate_request \<Rightarrow> string \<Rightarrow> string" where
  "full_prompt req rendered =
     rendered @ render_customer_context (gr_customer req)
     @ conversation_tail (render_history (gr_history req)) (incoming_with_attachments req)"

definition attach_vision :: "llm_params \<Rightarrow> generate_request \<Rightarrow> bool" where
  "attach_vision params req \<longleftrightarrow> has_image_attachment (gr_attachments req) \<and> mr_model (lp_vision params) \<noteq> ''''"

definition model_for :: "llm_params \<Rightarrow> generate_request \<Rightarrow> model_ref" where
  "model_for params req =
     (case gr_override req of
        Some m \<Rightarrow> m
      | None \<Rightarrow> if attach_vision params req then lp_vision params else lp_default params)"

definition llm_request_for :: "llm_params \<Rightarrow> generate_request \<Rightarrow> string \<Rightarrow> llm_request" where
  "llm_request_for params req prompt =
     \<lparr>lq_ref = model_for params req,
      lq_message = user_message_of prompt (if attach_vision params req then gr_attachments req else []),
      lq_temperature = lp_temperature params, lq_max_tokens = lp_max_tokens params\<rparr>"

text \<open>What the engine does with the last answer of the model.\<close>

definition finish_answer :: "string \<Rightarrow> kb \<Rightarrow> catalog \<Rightarrow> generate_error + generate_result" where
  "finish_answer raw kb cat =
     (case extract_final_output raw of
        None \<Rightarrow> Inl NoFinalAnswer
      | Some x \<Rightarrow>
          (case validate_response_v7 (x_final x) (Some kb) (Some cat) of
             (None, issues) \<Rightarrow> Inl (ShapeFails issues)
           | (Some r, issues) \<Rightarrow>
               if issues \<noteq> [] then Inl (ValidationFails issues)
               else
                 bindE (lift_err SubstituteFailed (substitute_facts_lang (r_text r) (Some kb) (Some cat) (r_language r))) (\<lambda>final.
                 bindE (lift_err MediaFailed (resolve_send (r_media r) (Some kb) (Some cat))) (\<lambda>_.
                 Inr \<lparr>ge_text = final, ge_language = r_language r, ge_escalate = r_escalate r,
                      ge_reason = r_reason r, ge_confidence = r_confidence r, ge_gap = r_gap r\<rparr>))))"

text \<open>The calls of a run in order, and its result.\<close>

definition generate :: "engine \<Rightarrow> generate_request \<Rightarrow> llm_request list \<times> (generate_error + generate_result)" where
  "generate en req =
     (case gr_kb req of
        None \<Rightarrow> ([], Inl KbRequired)
      | Some kb \<Rightarrow>
          (case gated_prompt en req kb of
             Inl e \<Rightarrow> ([], Inl e)
           | Inr (cat, rendered) \<Rightarrow>
               let prompt = full_prompt req rendered; params = en_params en in
               (case en_client en (model_for params req) of
                  Some e \<Rightarrow> ([], Inl (NoModelClient e))
                | None \<Rightarrow>
                    let first = llm_request_for params req prompt in
                    (case en_llm en 0 first of
                       Inl e \<Rightarrow> ([first], Inl (LlmCallFailed e))
                     | Inr raw \<Rightarrow>
                         if classify_retry_v7 raw (Some kb) (Some cat) \<noteq> RetryNone \<and> lp_retry params then
                           (let second = llm_request_for params req (prompt @ retry_feedback_v7 raw (Some kb) (Some cat)) in
                            case en_llm en 1 second of
                              Inl e \<Rightarrow> ([first, second], Inl (LlmRetryFailed e))
                            | Inr raw2 \<Rightarrow> ([first, second], finish_answer raw2 kb cat))
                         else ([first], finish_answer raw kb cat)))))"

section \<open>The service\<close>

text \<open>Why a draft escalates: the model's words, or the error that kept the engine from answering.\<close>

datatype draft_cause = KbLoadFailed string | GenerateFailed generate_error

datatype draft_reason = ModelReason string | EngineError draft_cause

record draft_to_persist =
  dp_conversation :: string
  dp_channel :: string
  dp_trigger :: string
  dp_text :: string
  dp_language :: string
  dp_confidence :: "string option"
  dp_escalate :: bool
  dp_reason :: draft_reason
  dp_gap :: "kb_gap option"

record conversation_context =
  cx_organization :: string
  cx_channel :: string
  cx_history :: "history_turn list"
  cx_message :: string
  cx_trigger :: string
  cx_customer :: "customer_context option"
  cx_attachments :: "attachment list"

record respond_options =
  ro_model :: "model_ref option"
  ro_kb :: "kb option"

definition holding_text :: string where
  "holding_text = (of_runes [0x0421, 0x0435, 0x0439, 0x0447, 0x0430, 0x0441, 0x0020, 0x0443, 0x0020, 0x043C, 0x0435, 0x043D, 0x044F, 0x0020, 0x043D, 0x0435, 0x0442, 0x0020, 0x044D, 0x0442, 0x043E, 0x0439, 0x0020, 0x0438, 0x043D, 0x0444, 0x043E, 0x0440, 0x043C, 0x0430, 0x0446, 0x0438, 0x0438, 0x0020, 0x2014, 0x0020, 0x043F, 0x0435, 0x0440, 0x0435, 0x0434, 0x0430, 0x044E, 0x0020, 0x0432, 0x0430, 0x0448, 0x0020, 0x0432, 0x043E, 0x043F, 0x0440, 0x043E, 0x0441, 0x0020, 0x043C, 0x0435, 0x043D, 0x0435, 0x0434, 0x0436, 0x0435, 0x0440, 0x0443, 0x0020, 0x0438, 0x0020, 0x0432, 0x0435, 0x0440, 0x043D, 0x0443, 0x0441, 0x044C, 0x0020, 0x0441, 0x0020, 0x0442, 0x043E, 0x0447, 0x043D, 0x044B, 0x043C, 0x0020, 0x043E, 0x0442, 0x0432, 0x0435, 0x0442, 0x043E, 0x043C, 0x002E])"

definition engine_gap :: kb_gap where
  "engine_gap = \<lparr>g_reason = gap_engine_error, g_entity = '''', g_ref = '''', g_fields = [], g_source = gap_source_engine\<rparr>"

definition empty_draft :: "string \<Rightarrow> conversation_context \<Rightarrow> draft_to_persist" where
  "empty_draft conv cx =
     \<lparr>dp_conversation = conv, dp_channel = cx_channel cx, dp_trigger = cx_trigger cx, dp_text = '''', dp_language = '''',
      dp_confidence = None, dp_escalate = False, dp_reason = ModelReason '''', dp_gap = None\<rparr>"

definition holding_draft :: "draft_to_persist \<Rightarrow> draft_cause \<Rightarrow> draft_to_persist" where
  "holding_draft d cause =
     d\<lparr>dp_text := holding_text, dp_language := ''ru'', dp_escalate := True, dp_reason := EngineError cause,
       dp_gap := Some engine_gap\<rparr>"

definition request_of :: "conversation_context \<Rightarrow> respond_options \<Rightarrow> kb option \<Rightarrow> generate_request" where
  "request_of cx opts kbo =
     \<lparr>gr_channel = cx_channel cx, gr_history = cx_history cx, gr_incoming = cx_message cx, gr_kb = kbo,
      gr_customer = cx_customer cx, gr_override = ro_model opts, gr_attachments = cx_attachments cx\<rparr>"

text \<open>The repositories: loading a conversation, loading a knowledge base, replacing the suggested drafts.\<close>

record 'p repositories =
  rp_conversation :: "string \<Rightarrow> string + conversation_context"
  rp_kb :: "string \<Rightarrow> string + kb option"
  rp_replace :: "draft_to_persist \<Rightarrow> string + 'p"

definition generate_draft ::
  "'p repositories \<Rightarrow> engine \<Rightarrow> string \<Rightarrow> conversation_context \<Rightarrow> respond_options \<Rightarrow> llm_request list \<times> draft_to_persist" where
  "generate_draft rp en conv cx opts =
     (let d = empty_draft conv cx in
      case (case ro_kb opts of Some kb \<Rightarrow> Inr (Some kb) | None \<Rightarrow> rp_kb rp (cx_organization cx)) of
        Inl e \<Rightarrow> ([], holding_draft d (KbLoadFailed e))
      | Inr kbo \<Rightarrow>
          (case generate en (request_of cx opts kbo) of
             (calls, Inl e) \<Rightarrow> (calls, holding_draft d (GenerateFailed e))
           | (calls, Inr g) \<Rightarrow>
               (calls, d\<lparr>dp_text := ge_text g, dp_language := ge_language g, dp_escalate := ge_escalate g,
                        dp_reason := ModelReason (ge_reason g), dp_gap := ge_gap g,
                        dp_confidence := (if ge_confidence g = '''' \<or> en_zero en (ge_confidence g) then None
                                          else Some (ge_confidence g))\<rparr>)))"

datatype respond_error = ConversationNotLoaded string | WrongChannel string string | DraftNotPersisted string

text \<open>A run of \<open>Respond\<close>: calls of the model, drafts handed to the repository, result.\<close>

definition respond ::
  "'p repositories \<Rightarrow> engine \<Rightarrow> string \<Rightarrow> string \<Rightarrow> respond_options
     \<Rightarrow> llm_request list \<times> draft_to_persist list \<times> (respond_error + 'p)" where
  "respond rp en channel conv opts =
     (case rp_conversation rp conv of
        Inl e \<Rightarrow> ([], [], Inl (ConversationNotLoaded e))
      | Inr cx \<Rightarrow>
          if cx_channel cx \<noteq> channel then ([], [], Inl (WrongChannel (cx_channel cx) channel))
          else
            let (calls, d) = generate_draft rp en conv cx opts in
            (case rp_replace rp d of
               Inl e \<Rightarrow> (calls, [d], Inl (DraftNotPersisted e))
             | Inr p \<Rightarrow> (calls, [d], Inr p)))"

section \<open>What a draft can be\<close>

text \<open>An answer of the model that was accepted, with its placeholders replaced by the values of now.\<close>

definition grounded :: "kb \<Rightarrow> catalog \<Rightarrow> response \<Rightarrow> string \<Rightarrow> bool" where
  "grounded kb cat r final \<longleftrightarrow>
     r_language r \<in> set reply_languages
     \<and> faithful_text kb cat (r_language r) (r_text r)
     \<and> substitute_facts_lang (r_text r) (Some kb) (Some cat) (r_language r) = Inr final
     \<and> CHR ''{'' \<notin> set final \<and> CHR ''}'' \<notin> set final
     \<and> (\<exists>out. resolve_send (r_media r) (Some kb) (Some cat) = Inr out)"

lemma substitute_no_braces:
  "substitute_facts_lang s kbo cato lang = Inr out \<Longrightarrow> CHR ''{'' \<notin> set out \<and> CHR ''}'' \<notin> set out"
  by (auto simp: substitute_facts_lang_def result_simps contains_any_def list_ex_iff split: if_splits)

lemma finish_answer_grounded:
  assumes "finish_answer raw kb cat = Inr g"
  shows "\<exists>x r. extract_final_output raw = Some x \<and> validate_response_v7 (x_final x) (Some kb) (Some cat) = (Some r, [])
     \<and> grounded kb cat r (ge_text g) \<and> ge_language g = r_language r \<and> ge_escalate g = r_escalate r
     \<and> ge_reason g = r_reason r \<and> ge_confidence g = r_confidence r \<and> ge_gap g = r_gap r"
proof -
  from assms obtain x where x: "extract_final_output raw = Some x"
    by (auto simp: finish_answer_def split: option.splits)
  obtain ro issues where v: "validate_response_v7 (x_final x) (Some kb) (Some cat) = (ro, issues)" by fastforce
  with assms x obtain r where r: "ro = Some r" "issues = []"
    by (auto simp: finish_answer_def split: option.splits if_splits)
  have "semantic_issues r (Some kb) (Some cat) = []"
    using v r accepted_iff_v7 [of "x_final x" "Some kb" "Some cat" r] by (auto split: option.splits)
  then have "r_language r \<in> set reply_languages" "faithful_text kb cat (r_language r) (r_text r)"
    by (auto simp: semantic_issues_none)
  moreover obtain final out where
    "substitute_facts_lang (r_text r) (Some kb) (Some cat) (r_language r) = Inr final"
    "resolve_send (r_media r) (Some kb) (Some cat) = Inr out"
    "g = \<lparr>ge_text = final, ge_language = r_language r, ge_escalate = r_escalate r,
          ge_reason = r_reason r, ge_confidence = r_confidence r, ge_gap = r_gap r\<rparr>"
    using assms x v r by (auto simp: finish_answer_def result_simps lift_err_def split: sum.splits)
  ultimately show ?thesis using x v r substitute_no_braces by (simp add: grounded_def)
qed

lemma generate_finishes:
  assumes "generate en req = (calls, Inr g)"
  shows "\<exists>kb cat rendered raw. gr_kb req = Some kb \<and> gated_prompt en req kb = Inr (cat, rendered) \<and> finish_answer raw kb cat = Inr g"
  using assms by (auto simp: generate_def Let_def split: option.splits sum.splits if_splits)

lemma gated_prompt_catalog:
  "gated_prompt en req kb = Inr (cat, rendered) \<Longrightarrow> build_catalog kb = Inr cat"
  by (auto simp: gated_prompt_def result_simps lift_err_def split: sum.splits)

text \<open>The knowledge base a run answers from.\<close>

definition kb_in_use :: "'p repositories \<Rightarrow> conversation_context \<Rightarrow> respond_options \<Rightarrow> kb \<Rightarrow> bool" where
  "kb_in_use rp cx opts kb \<longleftrightarrow>
     (case ro_kb opts of Some k \<Rightarrow> kb = k | None \<Rightarrow> rp_kb rp (cx_organization cx) = Inr (Some kb))"

lemma generate_draft_grounded:
  assumes g: "generate_draft rp en conv cx opts = (calls, d)"
  shows "(\<exists>cause. d = holding_draft (empty_draft conv cx) cause)
       \<or> (\<exists>kb cat out r. kb_in_use rp cx opts kb \<and> build_catalog kb = Inr cat
            \<and> validate_response_v7 out (Some kb) (Some cat) = (Some r, [])
            \<and> grounded kb cat r (dp_text d) \<and> dp_language d = r_language r
            \<and> dp_escalate d = r_escalate r \<and> dp_reason d = ModelReason (r_reason r) \<and> dp_gap d = r_gap r)"
proof (cases "case ro_kb opts of Some kb \<Rightarrow> Inr (Some kb) | None \<Rightarrow> rp_kb rp (cx_organization cx)")
  case (Inl e)
  with g show ?thesis by (auto simp: generate_draft_def Let_def)
next
  case kbo: (Inr kbo)
  obtain cs res where gen: "generate en (request_of cx opts kbo) = (cs, res)" by fastforce
  show ?thesis
  proof (cases res)
    case (Inl e)
    with g kbo gen show ?thesis by (auto simp: generate_draft_def Let_def)
  next
    case ok: (Inr ge)
    from generate_finishes [of en "request_of cx opts kbo" cs ge] gen ok
    obtain kb cat rendered raw where kb: "kbo = Some kb"
      and gp: "gated_prompt en (request_of cx opts kbo) kb = Inr (cat, rendered)"
      and fin: "finish_answer raw kb cat = Inr ge"
      by (auto simp: request_of_def)
    have "kb_in_use rp cx opts kb" using kbo kb by (auto simp: kb_in_use_def split: option.splits)
    moreover note finish_answer_grounded [OF fin]
    moreover have "dp_text d = ge_text ge" "dp_language d = ge_language ge" "dp_escalate d = ge_escalate ge"
      "dp_reason d = ModelReason (ge_reason ge)" "dp_gap d = ge_gap ge"
      using g kbo gen ok by (auto simp: generate_draft_def Let_def)
    ultimately show ?thesis using gated_prompt_catalog [OF gp] by metis
  qed
qed

text \<open>
  C10: what a customer can be offered. Whatever the model, the registry and the repositories answer,
  \<open>Respond\<close> hands exactly one draft to the repository once the conversation is loaded on its channel, and
  none otherwise. The draft is the holding text, escalated with an engine error, or an answer of the
  model grounded in the knowledge base in use: accepted without issues against a catalog built from it,
  in Russian or Kazakh, every placeholder replaced by its value of now, no brace left, its media sendable.
\<close>

theorem every_draft_is_grounded:
  "case rp_conversation rp conv of
     Inl e \<Rightarrow> respond rp en channel conv opts = ([], [], Inl (ConversationNotLoaded e))
   | Inr cx \<Rightarrow>
       if cx_channel cx \<noteq> channel
       then respond rp en channel conv opts = ([], [], Inl (WrongChannel (cx_channel cx) channel))
       else \<exists>d. fst (snd (respond rp en channel conv opts)) = [d]
              \<and> dp_channel d = channel \<and> dp_conversation d = conv \<and> dp_trigger d = cx_trigger cx
              \<and> ((\<exists>cause. d = holding_draft (empty_draft conv cx) cause)
                 \<or> (\<exists>kb cat out r. kb_in_use rp cx opts kb \<and> build_catalog kb = Inr cat
                      \<and> validate_response_v7 out (Some kb) (Some cat) = (Some r, [])
                      \<and> grounded kb cat r (dp_text d) \<and> dp_language d = r_language r
                      \<and> dp_escalate d = r_escalate r \<and> dp_reason d = ModelReason (r_reason r) \<and> dp_gap d = r_gap r))"
proof (cases "rp_conversation rp conv")
  case (Inr cx)
  show ?thesis
  proof (cases "cx_channel cx = channel")
    case True
    obtain calls d where g: "generate_draft rp en conv cx opts = (calls, d)" by fastforce
    then have one: "fst (snd (respond rp en channel conv opts)) = [d]"
      using Inr True by (simp add: respond_def split: sum.split)
    have fields: "dp_channel d = channel" "dp_conversation d = conv" "dp_trigger d = cx_trigger cx"
      using g True by (auto simp: generate_draft_def Let_def holding_draft_def empty_draft_def split: option.splits sum.splits prod.splits)
    with one fields generate_draft_grounded [OF g] Inr True show ?thesis by simp
  qed (use Inr in \<open>simp add: respond_def\<close>)
qed (simp add: respond_def)

text \<open>
  C12: what the model is asked. A run asks at most twice and only after the knowledge base passed every
  gate: both requests go to the same model with the same sampling parameters and attachments, and begin
  with one rendered prompt that has no identifying value of a stored file and nothing shaped like a
  storage locator. The second is made only if retries are on and the first answer calls for one, and
  differs by the feedback at its end.
\<close>

theorem model_asked_at_most_twice:
  "case fst (generate en req) of
     [] \<Rightarrow> True
   | first # rest \<Rightarrow>
       (\<exists>kb cat rendered. gr_kb req = Some kb \<and> gated_prompt en req kb = Inr (cat, rendered)
          \<and> list_all (\<lambda>m. list_all (\<lambda>secret. \<not> sublist secret rendered) (material_secrets m)) (kb_materials kb)
          \<and> \<not> matches storage_locator_pattern (runes rendered)
          \<and> first = llm_request_for (en_params en) req (full_prompt req rendered)
          \<and> (case rest of
               [] \<Rightarrow> True
             | second # others \<Rightarrow>
                 others = [] \<and> lp_retry (en_params en)
                 \<and> (\<exists>raw. en_llm en 0 first = Inr raw \<and> classify_retry_v7 raw (Some kb) (Some cat) \<noteq> RetryNone
                      \<and> second = llm_request_for (en_params en) req
                                   (full_prompt req rendered @ retry_feedback_v7 raw (Some kb) (Some cat)))))"
proof (cases "fst (generate en req)")
  case (Cons first rest)
  obtain kb where kb: "gr_kb req = Some kb" using Cons by (cases "gr_kb req") (auto simp: generate_def)
  obtain cat rendered where gp: "gated_prompt en req kb = Inr (cat, rendered)"
    using Cons kb by (cases "gated_prompt en req kb") (auto simp: generate_def)
  have clean: "list_all (\<lambda>m. list_all (\<lambda>secret. \<not> sublist secret rendered) (material_secrets m)) (kb_materials kb)"
    "\<not> matches storage_locator_pattern (runes rendered)"
    using gp by (auto simp: gated_prompt_def result_simps lift_err_def validate_no_material_leak_def find_None_iff
        validate_no_storage_locator_leak_def list_all_iff contains_str_iff split: sum.splits option.splits if_splits)
  let ?first = "llm_request_for (en_params en) req (full_prompt req rendered)"
  have nc: "en_client en (model_for (en_params en) req) = None"
    using Cons kb gp by (cases "en_client en (model_for (en_params en) req)") (auto simp: generate_def Let_def)
  show ?thesis
  proof (cases "en_llm en 0 ?first")
    case (Inl e)
    then have "generate en req = ([?first], Inl (LlmCallFailed e))"
      using kb gp nc by (simp add: generate_def Let_def)
    with kb gp clean show ?thesis by auto
  next
    case (Inr raw)
    let ?second = "llm_request_for (en_params en) req (full_prompt req rendered @ retry_feedback_v7 raw (Some kb) (Some cat))"
    show ?thesis
    proof (cases "classify_retry_v7 raw (Some kb) (Some cat) \<noteq> RetryNone \<and> lp_retry (en_params en)")
      case True
      then have "fst (generate en req) = [?first, ?second]"
        using kb gp nc Inr by (simp add: generate_def Let_def split: sum.split)
      with kb gp clean True Inr show ?thesis by auto
    next
      case False
      then have "fst (generate en req) = [?first]"
        using kb gp nc Inr by (auto simp: generate_def Let_def)
      with kb gp clean show ?thesis by auto
    qed
  qed
qed simp

section \<open>Values with braces\<close>

text \<open>
  Nothing checks the values of facts for braces: neither the catalog nor the validation of an answer.
  The final check of substitution does, so a fact with a brace in its value can be offered to the model
  and accepted in an answer, but never reaches a customer.
\<close>

lemma brace_value_blocks:
  assumes "tok \<in> set (find_placeholders s)" and "resolve_fact_lang tok kbo cato lang = Inr v"
    and "CHR ''{'' \<in> set v \<or> CHR ''}'' \<in> set v"
  shows "substitute_facts_lang s kbo cato lang \<noteq> Inr out"
proof
  assume ok: "substitute_facts_lang s kbo cato lang = Inr out"
  then have o: "out = concat (map (\<lambda>p. case p of Plain c \<Rightarrow> [c]
      | Placeholder tok \<Rightarrow> projr (resolve_fact_lang tok kbo cato lang)) (pieces s))"
    by (auto simp: substitute_facts_lang_def result_simps substitute_pieces_iff split: if_splits)
  have "tok \<in> set (placeholders_of ps) \<Longrightarrow> set v \<subseteq> set (concat (map (\<lambda>p. case p of Plain c \<Rightarrow> [c]
      | Placeholder tok \<Rightarrow> projr (resolve_fact_lang tok kbo cato lang)) ps))" for ps
    using assms(2) by (induction ps rule: placeholders_of.induct) auto
  with assms(1) o have "set v \<subseteq> set out" by (simp add: find_placeholders_def)
  with substitute_no_braces [OF ok] assms(3) show False by auto
qed

definition brace_product :: product where "brace_product = sample_product\<lparr>pr_price := ''{5000}''\<rparr>"
definition brace_kb :: kb where "brace_kb = sample_kb\<lparr>kb_products := [brace_product]\<rparr>"
definition price_token :: string where "price_token = ''{{product.tv.price}}''"

definition price_answer :: response where
  "price_answer =
     \<lparr>r_text = price_token, r_language = ''ru'', r_media = [], r_escalate = False, r_reason = '''',
      r_confidence = '''', r_gap = None\<rparr>"

lemma brace_facts: "build_facts brace_kb = Inr (cat_facts sample_catalog)"
proof -
  have "product_facts brace_product = Inr (cat_facts sample_catalog)" by code_simp
  then have "collectE product_facts (kb_products brace_kb) = Inr (cat_facts sample_catalog)"
    by (simp add: brace_kb_def)
  then show ?thesis
    by (simp add: build_facts_def brace_kb_def sample_kb_def tariff_info_facts_def contact_facts_def zone_facts_def
        service_facts_def policy_facts_def)
qed

lemma brace_built: "build_catalog brace_kb = Inr sample_catalog"
proof -
  have "build_media brace_kb = Inr (cat_media sample_catalog, cat_absent sample_catalog)" by code_simp
  then show ?thesis by (simp add: build_catalog_def brace_facts)
qed

lemma normalize_empty: "normalize_literal '''' = ''''"
proof -
  have "Prelude.fields '''' = []" by (simp add: Prelude.fields_def fields_from.simps)
  then show ?thesis by (simp add: normalize_literal_def to_lower_def runes.simps of_runes_def)
qed

text \<open>
  a price with a brace is offered but can never be sent. The catalog of such a knowledge base builds
  and offers the price, an answer that uses the offered placeholder has no issue, and substituting it
  fails in every language; with the same answer and an ordinary price substitution succeeds.
\<close>

theorem brace_price_never_sent:
  "build_catalog brace_kb = Inr sample_catalog
   \<and> semantic_issues price_answer (Some brace_kb) (Some sample_catalog) = []
   \<and> substitute_facts_lang (r_text price_answer) (Some brace_kb) (Some sample_catalog) lang = Inl MalformedText
   \<and> substitute_facts_lang (r_text price_answer) (Some sample_kb) (Some sample_catalog) lang = Inr ''5000 KZT''"
proof (intro conjI)
  show "build_catalog brace_kb = Inr sample_catalog" by (rule brace_built)

  have p: "pieces (r_text price_answer) = [Placeholder price_token]" by code_simp
  have r: "resolve_fact_lang price_token (Some kb) (Some sample_catalog) l = current_product_value kb (hd (cat_facts sample_catalog)) l" for kb l
  proof -
    have "fact_by_token sample_catalog price_token = Some (hd (cat_facts sample_catalog))"
      "f_token (hd (cat_facts sample_catalog)) = fact_token (f_table (hd (cat_facts sample_catalog)))
         (f_ref (hd (cat_facts sample_catalog))) (f_column (hd (cat_facts sample_catalog)))"
      "check_kind price_token (hd (cat_facts sample_catalog)) = Inr ()"
      "f_table (hd (cat_facts sample_catalog)) = ''product''"
      by code_simp+
    then show ?thesis by (simp add: resolve_fact_lang_def current_fact_value_def)
  qed
  have v: "current_product_value brace_kb (hd (cat_facts sample_catalog)) l = Inr ''{5000}''"
    "current_product_value sample_kb (hd (cat_facts sample_catalog)) l = Inr ''5000 KZT''" for l
  proof -
    have "current_product brace_kb ''tv'' = Some brace_product" "current_product sample_kb ''tv'' = Some sample_product"
      "f_ref (hd (cat_facts sample_catalog)) = ''tv''" "f_column (hd (cat_facts sample_catalog)) = ''price''"
      "not_empty (hd (cat_facts sample_catalog)) (pr_price brace_product) = Inr ''{5000}''"
      "not_empty (hd (cat_facts sample_catalog)) (pr_price sample_product) = Inr ''5000 KZT''"
      "is_virtual_kind (f_kind (hd (cat_facts sample_catalog))) = False"
      by code_simp+
    then show "current_product_value brace_kb (hd (cat_facts sample_catalog)) l = Inr ''{5000}''"
      "current_product_value sample_kb (hd (cat_facts sample_catalog)) l = Inr ''5000 KZT''"
      by (simp_all add: current_product_value_def)
  qed
  have w: "without_placeholders (r_text price_answer) = ''''" and f: "find_placeholders (r_text price_answer) = [price_token]"
    by (simp_all add: without_placeholders_def find_placeholders_def p)
  have "\<not> contains_literal '''' w" for w
    by (simp add: contains_literal_def normalize_empty literal_from.simps [of _ _ 0])
  moreover have "list_all (\<lambda>m. \<not> contains_str (r_text price_answer) (m_token m)) (cat_media sample_catalog)"
    "validate_schedule_literal_contract brace_kb '''' = []" "validate_salon_confirmation_guard brace_kb '''' = []"
    "r_media price_answer = []" "r_language price_answer \<in> set reply_languages"
    by code_simp+
  ultimately show "semantic_issues price_answer (Some brace_kb) (Some sample_catalog) = []"
    using r [of brace_kb "r_language price_answer"] v(1)
    by (simp add: semantic_issues_none faithful_text_def w f copies_no_value_def contains_str_iff list_all_iff split: sum.split)
  show "substitute_facts_lang (r_text price_answer) (Some brace_kb) (Some sample_catalog) lang = Inl MalformedText"
    "substitute_facts_lang (r_text price_answer) (Some sample_kb) (Some sample_catalog) lang = Inr ''5000 KZT''"
    by (simp_all add: substitute_facts_lang_def p r v contains_any_def)
qed

end
