(* ===== verification/Crm_Tables.thy ===== *)
theory Crm_Tables
  imports Unicode_Text "HOL-Library.List_Lexorder" "HOL-Library.Product_Lexorder"
begin

text \<open>
  The customer tables of \<open>backend/internal/store/crm.go\<close> and its siblings: rows, the organization's
  lifecycle statuses, tags and custom fields, and the timeline every change of a customer writes to.
  A method is a function from the database to its result and the database it leaves; a method that
  fails leaves the database as it was. The \<open>UNIQUE\<close>, \<open>CHECK\<close> and \<open>REFERENCES\<close> clauses of
  \<open>migrations/20261006000004_crm.sql\<close> are part of the model. Organizations and users are written by
  other parts of the program and are only read here.
\<close>

section \<open>Rows\<close>

record customer_status =
  cs_id :: uuid
  cs_org :: uuid
  cs_slug :: string
  cs_name :: string
  cs_color :: string
  cs_position :: int
  cs_default :: bool
  cs_created :: gotime
  cs_updated :: gotime

record customer_tag =
  ct_id :: uuid
  ct_org :: uuid
  ct_slug :: string
  ct_name :: string
  ct_color :: string
  ct_created :: gotime
  ct_updated :: gotime

record custom_field_def =
  fd_id :: uuid
  fd_org :: uuid
  fd_key :: string
  fd_label :: string
  fd_type :: string
  fd_options :: string
  fd_position :: int
  fd_created :: gotime
  fd_updated :: gotime

record customer_row =
  cu_id :: uuid
  cu_org :: uuid
  cu_name :: string
  cu_phone :: string
  cu_email :: string
  cu_avatar :: string
  cu_status :: "uuid option"
  cu_assignee :: "uuid option"
  cu_fields :: string
  cu_merged :: "uuid option"
  cu_created :: gotime
  cu_updated :: gotime

record customer_identity =
  ci_id :: uuid
  ci_org :: uuid
  ci_customer :: uuid
  ci_channel :: string
  ci_account :: uuid
  ci_contact :: uuid
  ci_external :: string
  ci_username :: string
  ci_phone :: string
  ci_name :: string
  ci_created :: gotime
  ci_updated :: gotime

record tag_link =
  tl_customer :: uuid
  tl_tag :: uuid
  tl_created :: gotime

record note_row =
  cn_id :: uuid
  cn_org :: uuid
  cn_customer :: uuid
  cn_author :: "uuid option"
  cn_body :: string
  cn_created :: gotime
  cn_updated :: gotime

record followup_row =
  fu_id :: uuid
  fu_org :: uuid
  fu_customer :: uuid
  fu_conversation :: "uuid option"
  fu_channel :: string
  fu_due :: gotime
  fu_date :: string
  fu_minute :: "int option"
  fu_action :: string
  fu_note :: string
  fu_assignee :: "uuid option"
  fu_state :: string
  fu_completed :: "gotime option"
  fu_creator :: "uuid option"
  fu_created :: gotime
  fu_updated :: gotime

datatype timeline_kind =
    CustomerCreated | IdentityLinked | NoteAdded | StatusChanged | TagAdded | TagRemoved
  | AssigneeChanged | FollowupCreated | FollowupDone | FollowupMoved | FollowupDropped | CustomersMerged

text \<open>The detail is a JSON object of texts; \<open>[]\<close> is the empty object.\<close>

record timeline_row =
  te_id :: uuid
  te_org :: uuid
  te_customer :: uuid
  te_kind :: timeline_kind
  te_actor :: "uuid option"
  te_summary :: string
  te_detail :: "(string \<times> string) list"
  te_occurred :: gotime
  te_created :: gotime

record user_row =
  us_id :: uuid
  us_name :: string
  us_email :: string

record crm =
  organizations :: "uuid list"
  users :: "user_row list"
  statuses :: "customer_status list"
  tags :: "customer_tag list"
  field_defs :: "custom_field_def list"
  customers :: "customer_row list"
  identities :: "customer_identity list"
  tag_links :: "tag_link list"
  customer_notes :: "note_row list"
  followups :: "followup_row list"
  timeline :: "timeline_row list"

text \<open>\<open>ErrNotFound\<close>, \<open>domain.ErrDuplicate\<close>, \<open>ErrMergeSameCustomer\<close>, and any other error of the database.\<close>

datatype crm_error = CrmNotFound | CrmDuplicate | CrmSameCustomer | CrmFailed

text \<open>A nullable foreign key is null or names a row.\<close>

definition ref_ok :: "uuid option \<Rightarrow> uuid list \<Rightarrow> bool" where
  "ref_ok r ids \<longleftrightarrow> (case r of None \<Rightarrow> True | Some i \<Rightarrow> i \<in> set ids)"

definition user_ids :: "crm \<Rightarrow> uuid list" where
  "user_ids st = map us_id (users st)"

section \<open>Lifecycle statuses\<close>

definition status_row :: "uuid \<Rightarrow> uuid \<Rightarrow> customer_status \<Rightarrow> bool \<Rightarrow> gotime \<Rightarrow> customer_status" where
  "status_row i org d dflt now =
     \<lparr>cs_id = i, cs_org = org, cs_slug = cs_slug d, cs_name = cs_name d, cs_color = cs_color d,
      cs_position = cs_position d, cs_default = dflt, cs_created = db_time now, cs_updated = db_time now\<rparr>"

definition slug_taken :: "crm \<Rightarrow> customer_status \<Rightarrow> bool" where
  "slug_taken st row \<longleftrightarrow> list_ex (\<lambda>s. cs_org s = cs_org row \<and> cs_slug s = cs_slug row) (statuses st)"

text \<open>The primary key and the partial index that allows one default per organization.\<close>

definition status_key_taken :: "crm \<Rightarrow> customer_status \<Rightarrow> bool" where
  "status_key_taken st row \<longleftrightarrow> list_ex (\<lambda>s. cs_id s = cs_id row \<or>
     cs_default row \<and> cs_default s \<and> cs_org s = cs_org row) (statuses st)"

definition default_entry :: "string \<Rightarrow> string \<Rightarrow> string \<Rightarrow> int \<Rightarrow> bool \<Rightarrow> customer_status" where
  "default_entry slug name color pos dflt =
     \<lparr>cs_id = 0, cs_org = 0, cs_slug = slug, cs_name = name, cs_color = color, cs_position = pos,
      cs_default = dflt, cs_created = zero_time, cs_updated = zero_time\<rparr>"

definition default_statuses :: "customer_status list" where
  "default_statuses =
     [default_entry ''new'' (of_runes [0x041D, 0x043E, 0x0432, 0x044B, 0x0439]) ''#64748b'' 1 True,
      default_entry ''interested'' (of_runes [0x0418, 0x043D, 0x0442, 0x0435, 0x0440, 0x0435, 0x0441, 0x0443, 0x0435, 0x0442, 0x0441, 0x044F]) ''#0ea5e9'' 2 False,
      default_entry ''in_progress'' (of_runes [0x0412, 0x0020, 0x0440, 0x0430, 0x0431, 0x043E, 0x0442, 0x0435]) ''#f59e0b'' 3 False,
      default_entry ''customer'' (of_runes [0x041A, 0x043B, 0x0438, 0x0435, 0x043D, 0x0442]) ''#10b981'' 4 False,
      default_entry ''lost'' (of_runes [0x041F, 0x043E, 0x0442, 0x0435, 0x0440, 0x044F, 0x043D]) ''#ef4444'' 5 False]"

text \<open>\<open>INSERT .. ON CONFLICT (organization_id, slug) DO NOTHING\<close>.\<close>

definition seed_status ::
  "(nat \<Rightarrow> uuid) \<Rightarrow> uuid \<Rightarrow> gotime \<Rightarrow> nat \<times> customer_status \<Rightarrow> crm \<Rightarrow> crm_error + crm" where
  "seed_status fresh org now p st =
     (let row = status_row (fresh (fst p)) org (snd p) (cs_default (snd p)) now in
      if slug_taken st row then Inr st
      else if status_key_taken st row \<or> org \<notin> set (organizations st) then Inl CrmFailed
      else Inr (st\<lparr>statuses := statuses st @ [row]\<rparr>))"

definition org_statuses :: "crm \<Rightarrow> uuid \<Rightarrow> customer_status list" where
  "org_statuses st org = filter (\<lambda>s. cs_org s = org) (statuses st)"

text \<open>
  The loop over the defaults. Inside a transaction an error undoes the entries already written;
  \<open>EnsureDefaultStatuses\<close> runs outside one and leaves them.
\<close>

definition seed_statuses :: "(nat \<Rightarrow> uuid) \<Rightarrow> uuid \<Rightarrow> gotime \<Rightarrow> crm \<Rightarrow> crm_error + crm" where
  "seed_statuses fresh org now st = foldE (seed_status fresh org now) (enumerate 0 default_statuses) st"

fun seed_loop ::
  "(nat \<Rightarrow> uuid) \<Rightarrow> uuid \<Rightarrow> gotime \<Rightarrow> (nat \<times> customer_status) list \<Rightarrow> crm \<Rightarrow> crm_error option \<times> crm" where
  "seed_loop fresh org now [] st = (None, st)"
| "seed_loop fresh org now (p # ps) st =
     (case seed_status fresh org now p st of
        Inl e \<Rightarrow> (Some e, st)
      | Inr st' \<Rightarrow> seed_loop fresh org now ps st')"

definition ensure_default_statuses :: "(nat \<Rightarrow> uuid) \<Rightarrow> uuid \<Rightarrow> gotime \<Rightarrow> crm \<Rightarrow> crm_error option \<times> crm" where
  "ensure_default_statuses fresh org now st =
     (if length (org_statuses st org) > 0 then (None, st)
      else seed_loop fresh org now (enumerate 0 default_statuses) st)"

definition list_statuses :: "crm \<Rightarrow> uuid \<Rightarrow> customer_status list" where
  "list_statuses st org = sort_key (\<lambda>s. (cs_position s, cs_name s)) (org_statuses st org)"

definition create_status ::
  "uuid \<Rightarrow> uuid \<Rightarrow> customer_status \<Rightarrow> gotime \<Rightarrow> crm \<Rightarrow> crm_error + customer_status \<times> crm" where
  "create_status i org d now st =
     (let row = status_row i org d False now in
      if slug_taken st row \<or> status_key_taken st row then Inl CrmDuplicate
      else if org \<notin> set (organizations st) then Inl CrmFailed
      else Inr (row, st\<lparr>statuses := statuses st @ [row]\<rparr>))"

definition edit_status :: "customer_status \<Rightarrow> gotime \<Rightarrow> customer_status \<Rightarrow> customer_status" where
  "edit_status d now s = s\<lparr>cs_name := cs_name d, cs_color := cs_color d, cs_position := cs_position d,
     cs_updated := db_time now\<rparr>"

definition update_status ::
  "uuid \<Rightarrow> uuid \<Rightarrow> customer_status \<Rightarrow> gotime \<Rightarrow> crm \<Rightarrow> crm_error + customer_status \<times> crm" where
  "update_status org i d now st =
     (let hit = (\<lambda>s. cs_org s = org \<and> cs_id s = i) in
      case find hit (statuses st) of
        None \<Rightarrow> Inl CrmNotFound
      | Some s \<Rightarrow> Inr (edit_status d now s,
                     st\<lparr>statuses := update_where hit (edit_status d now) (statuses st)\<rparr>))"

text \<open>\<open>ON DELETE SET NULL\<close> on the customers that hold the status.\<close>

definition drop_status :: "customer_row \<Rightarrow> customer_row" where
  "drop_status c = c\<lparr>cu_status := None\<rparr>"

definition delete_status :: "uuid \<Rightarrow> uuid \<Rightarrow> crm \<Rightarrow> crm_error + crm" where
  "delete_status org i st =
     (let hit = (\<lambda>s. cs_org s = org \<and> cs_id s = i) in
      if affected hit (statuses st) = 0 then Inl CrmNotFound
      else Inr (st\<lparr>statuses := filter (\<lambda>s. \<not> hit s) (statuses st),
                   customers := update_where (\<lambda>c. cu_status c = Some i) drop_status (customers st)\<rparr>))"

section \<open>Tags\<close>

definition list_tags :: "crm \<Rightarrow> uuid \<Rightarrow> customer_tag list" where
  "list_tags st org = sort_key ct_name (filter (\<lambda>t. ct_org t = org) (tags st))"

definition create_tag ::
  "uuid \<Rightarrow> uuid \<Rightarrow> customer_tag \<Rightarrow> gotime \<Rightarrow> crm \<Rightarrow> crm_error + customer_tag \<times> crm" where
  "create_tag i org d now st =
     (let row = \<lparr>ct_id = i, ct_org = org, ct_slug = ct_slug d, ct_name = ct_name d, ct_color = ct_color d,
                 ct_created = db_time now, ct_updated = db_time now\<rparr> in
      if list_ex (\<lambda>t. ct_id t = i \<or> ct_org t = org \<and> ct_slug t = ct_slug d) (tags st)
      then Inl CrmDuplicate
      else if org \<notin> set (organizations st) then Inl CrmFailed
      else Inr (row, st\<lparr>tags := tags st @ [row]\<rparr>))"

definition edit_tag :: "customer_tag \<Rightarrow> gotime \<Rightarrow> customer_tag \<Rightarrow> customer_tag" where
  "edit_tag d now t = t\<lparr>ct_name := ct_name d, ct_color := ct_color d, ct_updated := db_time now\<rparr>"

definition update_tag ::
  "uuid \<Rightarrow> uuid \<Rightarrow> customer_tag \<Rightarrow> gotime \<Rightarrow> crm \<Rightarrow> crm_error + customer_tag \<times> crm" where
  "update_tag org i d now st =
     (let hit = (\<lambda>t. ct_org t = org \<and> ct_id t = i) in
      case find hit (tags st) of
        None \<Rightarrow> Inl CrmNotFound
      | Some t \<Rightarrow> Inr (edit_tag d now t, st\<lparr>tags := update_where hit (edit_tag d now) (tags st)\<rparr>))"

definition delete_tag :: "uuid \<Rightarrow> uuid \<Rightarrow> crm \<Rightarrow> crm_error + crm" where
  "delete_tag org i st =
     (let hit = (\<lambda>t. ct_org t = org \<and> ct_id t = i) in
      if affected hit (tags st) = 0 then Inl CrmNotFound
      else Inr (st\<lparr>tags := filter (\<lambda>t. \<not> hit t) (tags st),
                   tag_links := filter (\<lambda>l. tl_tag l \<noteq> i) (tag_links st)\<rparr>))"

section \<open>Custom field definitions\<close>

definition json_or_default :: "string \<Rightarrow> string \<Rightarrow> string" where
  "json_or_default b dflt = (if length b = 0 then dflt else b)"

definition field_type_check :: "string \<Rightarrow> bool" where
  "field_type_check t \<longleftrightarrow> t \<in> {''text'', ''number'', ''date'', ''select''}"

definition list_custom_field_defs :: "crm \<Rightarrow> uuid \<Rightarrow> custom_field_def list" where
  "list_custom_field_defs st org =
     sort_key (\<lambda>f. (fd_position f, fd_label f)) (filter (\<lambda>f. fd_org f = org) (field_defs st))"

definition create_custom_field_def ::
  "uuid \<Rightarrow> uuid \<Rightarrow> custom_field_def \<Rightarrow> gotime \<Rightarrow> crm \<Rightarrow> crm_error + custom_field_def \<times> crm" where
  "create_custom_field_def i org d now st =
     (let row = \<lparr>fd_id = i, fd_org = org, fd_key = fd_key d, fd_label = fd_label d, fd_type = fd_type d,
                 fd_options = json_or_default (fd_options d) ''[]'', fd_position = fd_position d,
                 fd_created = db_time now, fd_updated = db_time now\<rparr> in
      if \<not> field_type_check (fd_type d) then Inl CrmFailed
      else if list_ex (\<lambda>f. fd_id f = i \<or> fd_org f = org \<and> fd_key f = fd_key d) (field_defs st)
      then Inl CrmDuplicate
      else if org \<notin> set (organizations st) then Inl CrmFailed
      else Inr (row, st\<lparr>field_defs := field_defs st @ [row]\<rparr>))"

definition edit_field_def :: "custom_field_def \<Rightarrow> gotime \<Rightarrow> custom_field_def \<Rightarrow> custom_field_def" where
  "edit_field_def d now f = f\<lparr>fd_label := fd_label d, fd_type := fd_type d,
     fd_options := json_or_default (fd_options d) ''[]'', fd_position := fd_position d,
     fd_updated := db_time now\<rparr>"

definition update_custom_field_def ::
  "uuid \<Rightarrow> uuid \<Rightarrow> custom_field_def \<Rightarrow> gotime \<Rightarrow> crm \<Rightarrow> crm_error + custom_field_def \<times> crm" where
  "update_custom_field_def org i d now st =
     (let hit = (\<lambda>f. fd_org f = org \<and> fd_id f = i) in
      case find hit (field_defs st) of
        None \<Rightarrow> Inl CrmNotFound
      | Some f \<Rightarrow>
          if \<not> field_type_check (fd_type d) then Inl CrmFailed
          else Inr (edit_field_def d now f,
                    st\<lparr>field_defs := update_where hit (edit_field_def d now) (field_defs st)\<rparr>))"

definition delete_custom_field_def :: "uuid \<Rightarrow> uuid \<Rightarrow> crm \<Rightarrow> crm_error + crm" where
  "delete_custom_field_def org i st =
     (let hit = (\<lambda>f. fd_org f = org \<and> fd_id f = i) in
      if affected hit (field_defs st) = 0 then Inl CrmNotFound
      else Inr (st\<lparr>field_defs := filter (\<lambda>f. \<not> hit f) (field_defs st)\<rparr>))"

section \<open>The timeline\<close>

record timeline_event =
  ev_kind :: timeline_kind
  ev_actor :: "uuid option"
  ev_summary :: string
  ev_detail :: "(string \<times> string) list"
  ev_occurred :: gotime

definition event_of :: "timeline_kind \<Rightarrow> uuid option \<Rightarrow> string \<Rightarrow> (string \<times> string) list \<Rightarrow> timeline_event" where
  "event_of k actor summary detail =
     \<lparr>ev_kind = k, ev_actor = actor, ev_summary = summary, ev_detail = detail, ev_occurred = zero_time\<rparr>"

definition append_timeline ::
  "uuid \<Rightarrow> gotime \<Rightarrow> uuid \<Rightarrow> uuid \<Rightarrow> timeline_event \<Rightarrow> crm \<Rightarrow> crm_error + crm" where
  "append_timeline i now org customer ev st =
     (let occurred = (if ev_occurred ev = zero_time then now else ev_occurred ev);
          row = \<lparr>te_id = i, te_org = org, te_customer = customer, te_kind = ev_kind ev,
                 te_actor = ev_actor ev, te_summary = ev_summary ev, te_detail = ev_detail ev,
                 te_occurred = db_time occurred, te_created = db_time now\<rparr> in
      if i \<in> te_id ` set (timeline st) \<or> org \<notin> set (organizations st) \<or>
         customer \<notin> cu_id ` set (customers st) \<or> \<not> ref_ok (ev_actor ev) (user_ids st)
      then Inl CrmFailed
      else Inr (st\<lparr>timeline := timeline st @ [row]\<rparr>))"

definition customer_timeline :: "crm \<Rightarrow> uuid \<Rightarrow> uuid \<Rightarrow> int \<Rightarrow> timeline_row list" where
  "customer_timeline st org customer lim =
     (let n = (if lim \<le> 0 \<or> lim > 500 then 100 else lim) in
      take (nat n) (sort_key (\<lambda>e. - te_occurred e)
        (filter (\<lambda>e. te_org e = org \<and> te_customer e = customer) (timeline st))))"

end
