(* ===== verification/Crm_Customers.thy ===== *)
theory Crm_Customers
  imports Crm_Tables
begin

text \<open>
  Customers and their channel identities (\<open>backend/internal/store/crm.go\<close>): tags on a customer, the
  filtered list, the profile behind an id (a merged-away id leads to its survivor), creation and
  edits, the find-or-create of inbound messages, notes and their timeline, and the summary a prompt
  may show. The matcher of \<open>LIKE\<close>, \<open>uuid.Parse\<close> and the text of a UUID are arguments.
\<close>

section \<open>Tags of a customer\<close>

definition customer_tag_of :: "crm \<Rightarrow> uuid \<Rightarrow> uuid \<Rightarrow> uuid \<Rightarrow> customer_tag option" where
  "customer_tag_of st org customer tag =
     find (\<lambda>t. ct_id t = tag \<and> ct_org t = org \<and>
       list_ex (\<lambda>c. cu_id c = customer \<and> cu_org c = ct_org t) (customers st)) (tags st)"

definition tag_event ::
  "(uuid \<Rightarrow> string) \<Rightarrow> timeline_kind \<Rightarrow> uuid option \<Rightarrow> uuid \<Rightarrow> string \<Rightarrow> timeline_event" where
  "tag_event id_text k actor tag name =
     event_of k actor name [(''name'', name), (''tag_id'', id_text tag)]"

definition has_link :: "uuid \<Rightarrow> uuid \<Rightarrow> tag_link \<Rightarrow> bool" where
  "has_link customer tag l \<longleftrightarrow> tl_customer l = customer \<and> tl_tag l = tag"

definition add_customer_tag ::
  "(uuid \<Rightarrow> string) \<Rightarrow> uuid \<Rightarrow> gotime \<Rightarrow> uuid \<Rightarrow> uuid \<Rightarrow> uuid \<Rightarrow> uuid option \<Rightarrow> crm \<Rightarrow> crm_error + crm" where
  "add_customer_tag id_text event_id now org customer tag actor st =
     (case customer_tag_of st org customer tag of
        None \<Rightarrow> Inl CrmNotFound
      | Some t \<Rightarrow>
          if list_ex (has_link customer tag) (tag_links st) then Inr st
          else append_timeline event_id now org customer (tag_event id_text TagAdded actor tag (ct_name t))
            (st\<lparr>tag_links := tag_links st @
                  [\<lparr>tl_customer = customer, tl_tag = tag, tl_created = db_time now\<rparr>]\<rparr>))"

definition remove_customer_tag ::
  "(uuid \<Rightarrow> string) \<Rightarrow> uuid \<Rightarrow> gotime \<Rightarrow> uuid \<Rightarrow> uuid \<Rightarrow> uuid \<Rightarrow> uuid option \<Rightarrow> crm \<Rightarrow> crm_error + crm" where
  "remove_customer_tag id_text event_id now org customer tag actor st =
     (case customer_tag_of st org customer tag of
        None \<Rightarrow> Inl CrmNotFound
      | Some t \<Rightarrow>
          if affected (has_link customer tag) (tag_links st) = 0 then Inr st
          else append_timeline event_id now org customer (tag_event id_text TagRemoved actor tag (ct_name t))
            (st\<lparr>tag_links := filter (\<lambda>l. \<not> has_link customer tag l) (tag_links st)\<rparr>))"

section \<open>Profiles\<close>

record customer_profile =
  pr_row :: customer_row
  pr_status :: "customer_status option"
  pr_tags :: "customer_tag list"
  pr_identities :: "customer_identity list"

definition tags_of :: "crm \<Rightarrow> uuid \<Rightarrow> customer_tag list" where
  "tags_of st customer =
     sort_key ct_name (List.map_filter (\<lambda>l.
       if tl_customer l = customer then find_by ct_id (tl_tag l) (tags st) else None) (tag_links st))"

definition identities_of :: "crm \<Rightarrow> uuid \<Rightarrow> customer_identity list" where
  "identities_of st customer =
     sort_key (\<lambda>i. (ci_channel i, ci_created i)) (filter (\<lambda>i. ci_customer i = customer) (identities st))"

definition hydrate_customer :: "crm \<Rightarrow> uuid \<Rightarrow> customer_row \<Rightarrow> customer_profile" where
  "hydrate_customer st org c =
     \<lparr>pr_row = c,
      pr_status = (case cu_status c of None \<Rightarrow> None | Some s \<Rightarrow> find_by cs_id s (list_statuses st org)),
      pr_tags = tags_of st (cu_id c),
      pr_identities = identities_of st (cu_id c)\<rparr>"

definition customer_row_of :: "crm \<Rightarrow> uuid \<Rightarrow> uuid \<Rightarrow> customer_row option" where
  "customer_row_of st org i = find (\<lambda>c. cu_org c = org \<and> cu_id c = i) (customers st)"

text \<open>The chain of merges; \<open>None\<close> would be a chain without an end.\<close>

partial_function (option) surviving_row :: "crm \<Rightarrow> uuid \<Rightarrow> uuid \<Rightarrow> (crm_error + customer_row) option" where
  "surviving_row st org i =
     (case customer_row_of st org i of
        None \<Rightarrow> Some (Inl CrmNotFound)
      | Some c \<Rightarrow> (case cu_merged c of None \<Rightarrow> Some (Inr c) | Some j \<Rightarrow> surviving_row st org j))"

definition customer_by_id :: "crm \<Rightarrow> uuid \<Rightarrow> uuid \<Rightarrow> (crm_error + customer_profile) option" where
  "customer_by_id st org i =
     map_option (\<lambda>r. bindE r (\<lambda>c. Inr (hydrate_customer st org c))) (surviving_row st org i)"

text \<open>A method that commits and then reads the profile back.\<close>

definition commit_and_read ::
  "uuid \<Rightarrow> crm \<Rightarrow> crm_error + uuid \<times> crm \<Rightarrow> (crm_error + customer_profile) option \<times> crm" where
  "commit_and_read org st r =
     (case r of Inl e \<Rightarrow> (Some (Inl e), st) | Inr (i, st') \<Rightarrow> (customer_by_id st' org i, st'))"

section \<open>The list of customers\<close>

record customer_filter =
  cf_org :: uuid
  cf_query :: string
  cf_status :: "uuid option"
  cf_tag :: "uuid option"
  cf_channel :: string
  cf_assignee :: string
  cf_me :: uuid
  cf_followup :: string
  cf_day_start :: gotime
  cf_day_end :: gotime
  cf_limit :: int
  cf_offset :: int

definition query_clause :: "(string \<Rightarrow> string \<Rightarrow> bool) \<Rightarrow> crm \<Rightarrow> string \<Rightarrow> customer_row \<Rightarrow> bool" where
  "query_clause like st q c \<longleftrightarrow>
     (let m = (\<lambda>t. like (''%'' @ to_lower q @ ''%'') (to_lower t)) in
      q = [] \<or> m (cu_name c) \<or> m (cu_phone c) \<or> m (cu_email c) \<or>
      list_ex (\<lambda>i. ci_customer i = cu_id c \<and>
        (m (ci_username i) \<or> m (ci_phone i) \<or> m (ci_name i) \<or> m (ci_external i))) (identities st))"

text \<open>\<open>me\<close>, \<open>unassigned\<close> or an id; a text that is no id does not filter.\<close>

definition assignee_clause :: "(string \<Rightarrow> uuid option) \<Rightarrow> string \<Rightarrow> uuid \<Rightarrow> uuid option \<Rightarrow> bool" where
  "assignee_clause parse_uuid who me assignee \<longleftrightarrow>
     (if who = ''me'' then assignee = Some me
      else if who = ''unassigned'' then assignee = None
      else if who \<noteq> [] then
        (case parse_uuid who of None \<Rightarrow> True | Some i \<Rightarrow> assignee = Some i)
      else True)"

definition open_followup_exists :: "crm \<Rightarrow> uuid \<Rightarrow> (gotime \<Rightarrow> bool) \<Rightarrow> bool" where
  "open_followup_exists st customer extra \<longleftrightarrow>
     list_ex (\<lambda>f. fu_customer f = customer \<and> fu_state f = ''open'' \<and> extra (fu_due f)) (followups st)"

definition followup_clause :: "crm \<Rightarrow> string \<Rightarrow> gotime \<Rightarrow> gotime \<Rightarrow> uuid \<Rightarrow> bool" where
  "followup_clause st which lo hi customer \<longleftrightarrow>
     (if which = ''any'' then open_followup_exists st customer (\<lambda>t. True)
      else if which = ''none'' then \<not> open_followup_exists st customer (\<lambda>t. True)
      else if which = ''today'' then
        open_followup_exists st customer (\<lambda>t. db_time lo \<le> t \<and> t < db_time hi)
      else if which = ''overdue'' then open_followup_exists st customer (\<lambda>t. t < db_time lo)
      else True)"

definition customer_matches ::
  "(string \<Rightarrow> string \<Rightarrow> bool) \<Rightarrow> (string \<Rightarrow> uuid option) \<Rightarrow> crm \<Rightarrow> customer_filter \<Rightarrow> customer_row \<Rightarrow> bool" where
  "customer_matches like parse_uuid st f c \<longleftrightarrow>
     cu_org c = cf_org f \<and> cu_merged c = None \<and>
     query_clause like st (cf_query f) c \<and>
     (case cf_status f of None \<Rightarrow> True | Some s \<Rightarrow> cu_status c = Some s) \<and>
     (case cf_tag f of None \<Rightarrow> True | Some t \<Rightarrow> list_ex (has_link (cu_id c) t) (tag_links st)) \<and>
     (cf_channel f = [] \<or>
        list_ex (\<lambda>i. ci_customer i = cu_id c \<and> ci_channel i = cf_channel f) (identities st)) \<and>
     assignee_clause parse_uuid (cf_assignee f) (cf_me f) (cu_assignee c) \<and>
     followup_clause st (cf_followup f) (cf_day_start f) (cf_day_end f) (cu_id c)"

text \<open>\<open>LIMIT .. OFFSET ..\<close> of SQLite: a negative limit is none, a negative offset is 0.\<close>

definition sql_page :: "int \<Rightarrow> int \<Rightarrow> 'r list \<Rightarrow> 'r list" where
  "sql_page lim off rows =
     (let rest = drop (nat off) rows in if lim < 0 then rest else take (nat lim) rest)"

definition list_customers ::
  "(string \<Rightarrow> string \<Rightarrow> bool) \<Rightarrow> (string \<Rightarrow> uuid option) \<Rightarrow> crm \<Rightarrow> customer_filter
     \<Rightarrow> customer_profile list \<times> nat" where
  "list_customers like parse_uuid st f =
     (let hits = filter (customer_matches like parse_uuid st f) (customers st) in
      (map (hydrate_customer st (cf_org f))
         (sql_page (cf_limit f) (cf_offset f) (sort_key (\<lambda>c. (- cu_updated c, cu_id c)) hits)),
       length hits))"

section \<open>Creation and edits\<close>

record customer_patch =
  pa_name :: "string option"
  pa_phone :: "string option"
  pa_email :: "string option"
  pa_avatar :: "string option"
  pa_status :: "uuid option option"
  pa_assignee :: "uuid option option"
  pa_fields :: "string option"

definition default_status :: "crm \<Rightarrow> uuid \<Rightarrow> uuid option" where
  "default_status st org = map_option cs_id (find (\<lambda>s. cs_org s = org \<and> cs_default s) (statuses st))"

definition default_status_id ::
  "(nat \<Rightarrow> uuid) \<Rightarrow> gotime \<Rightarrow> uuid \<Rightarrow> crm \<Rightarrow> crm_error + uuid option \<times> crm" where
  "default_status_id fresh now org st =
     (case default_status st org of
        Some i \<Rightarrow> Inr (Some i, st)
      | None \<Rightarrow>
          if length (org_statuses st org) > 0 then Inr (None, st)
          else bindE (seed_statuses fresh org now st) (\<lambda>st'. Inr (default_status st' org, st')))"

definition insert_customer :: "customer_row \<Rightarrow> crm \<Rightarrow> crm_error + crm" where
  "insert_customer row st =
     (if cu_id row \<in> cu_id ` set (customers st) then Inl CrmDuplicate
      else if cu_org row \<notin> set (organizations st) \<or>
              \<not> ref_ok (cu_status row) (map cs_id (statuses st)) \<or>
              \<not> ref_ok (cu_assignee row) (user_ids st)
      then Inl CrmFailed
      else Inr (st\<lparr>customers := customers st @ [row]\<rparr>))"

definition deref_string :: "string option \<Rightarrow> string" where
  "deref_string p = (case p of None \<Rightarrow> [] | Some s \<Rightarrow> s)"

definition deref_null_uuid :: "uuid option option \<Rightarrow> uuid option" where
  "deref_null_uuid p = (case p of None \<Rightarrow> None | Some u \<Rightarrow> u)"

definition create_customer_tx ::
  "(nat \<Rightarrow> uuid) \<Rightarrow> gotime \<Rightarrow> uuid \<Rightarrow> customer_patch \<Rightarrow> uuid option \<Rightarrow> crm \<Rightarrow> crm_error + uuid \<times> crm" where
  "create_customer_tx fresh now org p actor st =
     bindE (default_status_id fresh now org st) (\<lambda>(dflt, st1).
       let row = \<lparr>cu_id = fresh 5, cu_org = org, cu_name = deref_string (pa_name p),
                  cu_phone = deref_string (pa_phone p), cu_email = deref_string (pa_email p),
                  cu_avatar = deref_string (pa_avatar p),
                  cu_status = (case pa_status p of None \<Rightarrow> dflt | Some s \<Rightarrow> s),
                  cu_assignee = deref_null_uuid (pa_assignee p),
                  cu_fields = json_or_default (deref_string (pa_fields p)) ''{}'', cu_merged = None,
                  cu_created = db_time now, cu_updated = db_time now\<rparr> in
       bindE (insert_customer row st1) (\<lambda>st2.
       bindE (append_timeline (fresh 6) now org (cu_id row)
                (event_of CustomerCreated actor (cu_name row) []) st2) (\<lambda>st3.
       Inr (cu_id row, st3))))"

definition create_customer ::
  "(nat \<Rightarrow> uuid) \<Rightarrow> gotime \<Rightarrow> uuid \<Rightarrow> customer_patch \<Rightarrow> uuid option \<Rightarrow> crm
     \<Rightarrow> (crm_error + customer_profile) option \<times> crm" where
  "create_customer fresh now org p actor st =
     commit_and_read org st (create_customer_tx fresh now org p actor st)"

definition or_keep :: "'a option \<Rightarrow> 'a \<Rightarrow> 'a" where
  "or_keep p old = (case p of None \<Rightarrow> old | Some v \<Rightarrow> v)"

definition patch_row :: "customer_patch \<Rightarrow> gotime \<Rightarrow> customer_row \<Rightarrow> customer_row" where
  "patch_row p now c = c\<lparr>
     cu_name := or_keep (pa_name p) (cu_name c), cu_phone := or_keep (pa_phone p) (cu_phone c),
     cu_email := or_keep (pa_email p) (cu_email c), cu_avatar := or_keep (pa_avatar p) (cu_avatar c),
     cu_status := or_keep (pa_status p) (cu_status c),
     cu_assignee := or_keep (pa_assignee p) (cu_assignee c),
     cu_fields := (case pa_fields p of None \<Rightarrow> cu_fields c | Some b \<Rightarrow> json_or_default b ''{}''),
     cu_updated := db_time now\<rparr>"

definition em_dash :: string where "em_dash = (of_runes [0x2014])"

definition arrow_text :: string where "arrow_text = (of_runes [0x0020, 0x2192, 0x0020])"

definition status_name :: "crm \<Rightarrow> uuid option \<Rightarrow> string" where
  "status_name st u = (case u of None \<Rightarrow> em_dash | Some i \<Rightarrow>
     (case find_by cs_id i (statuses st) of None \<Rightarrow> em_dash | Some s \<Rightarrow> cs_name s))"

definition user_display_name :: "crm \<Rightarrow> uuid \<Rightarrow> string option" where
  "user_display_name st i =
     map_option (\<lambda>u. if us_name u = [] then us_email u else us_name u) (find_by us_id i (users st))"

definition status_change_event ::
  "uuid \<Rightarrow> gotime \<Rightarrow> uuid \<Rightarrow> customer_row \<Rightarrow> customer_patch \<Rightarrow> uuid option \<Rightarrow> crm \<Rightarrow> crm_error + crm" where
  "status_change_event i now org before p actor st =
     (case pa_status p of
        None \<Rightarrow> Inr st
      | Some s \<Rightarrow>
          if s = cu_status before then Inr st
          else let f = status_name st (cu_status before); t = status_name st s in
            append_timeline i now org (cu_id before)
              (event_of StatusChanged actor (f @ arrow_text @ t) [(''from'', f), (''to'', t)]) st)"

definition assignee_change_event ::
  "uuid \<Rightarrow> gotime \<Rightarrow> uuid \<Rightarrow> customer_row \<Rightarrow> customer_patch \<Rightarrow> uuid option \<Rightarrow> crm \<Rightarrow> crm_error + crm" where
  "assignee_change_event i now org before p actor st =
     (case pa_assignee p of
        None \<Rightarrow> Inr st
      | Some a \<Rightarrow>
          if a = cu_assignee before then Inr st
          else let t = (case a of None \<Rightarrow> em_dash | Some u \<Rightarrow>
                  (case user_display_name st u of None \<Rightarrow> em_dash | Some n \<Rightarrow> n)) in
            append_timeline i now org (cu_id before)
              (event_of AssigneeChanged actor t [(''assignee'', t)]) st)"

definition update_customer_tx ::
  "(nat \<Rightarrow> uuid) \<Rightarrow> gotime \<Rightarrow> uuid \<Rightarrow> uuid \<Rightarrow> customer_patch \<Rightarrow> uuid option \<Rightarrow> crm \<Rightarrow> crm_error + uuid \<times> crm" where
  "update_customer_tx fresh now org i p actor st =
     (case customer_row_of st org i of
        None \<Rightarrow> Inl CrmNotFound
      | Some before \<Rightarrow>
          if \<not> ref_ok (deref_null_uuid (pa_status p)) (map cs_id (statuses st)) \<or>
             \<not> ref_ok (deref_null_uuid (pa_assignee p)) (user_ids st)
          then Inl CrmFailed
          else
            bindE (status_change_event (fresh 0) now org before p actor
                     (st\<lparr>customers := update_where (\<lambda>c. cu_org c = org \<and> cu_id c = i)
                           (patch_row p now) (customers st)\<rparr>)) (\<lambda>st2.
            bindE (assignee_change_event (fresh 1) now org before p actor st2) (\<lambda>st3.
            Inr (i, st3))))"

definition update_customer ::
  "(nat \<Rightarrow> uuid) \<Rightarrow> gotime \<Rightarrow> uuid \<Rightarrow> uuid \<Rightarrow> customer_patch \<Rightarrow> uuid option \<Rightarrow> crm
     \<Rightarrow> (crm_error + customer_profile) option \<times> crm" where
  "update_customer fresh now org i p actor st =
     commit_and_read org st (update_customer_tx fresh now org i p actor st)"

section \<open>Inbound messages\<close>

text \<open>\<open>wrap\<close>: no error of the database keeps its meaning.\<close>

definition wrap_error :: "crm_error + 'a \<Rightarrow> crm_error + 'a" where
  "wrap_error r = (case r of Inl e \<Rightarrow> Inl CrmFailed | Inr x \<Rightarrow> Inr x)"

record identity_input =
  ii_channel :: string
  ii_account :: uuid
  ii_contact :: uuid
  ii_external :: string
  ii_username :: string
  ii_phone :: string
  ii_name :: string

definition same_identity :: "uuid \<Rightarrow> identity_input \<Rightarrow> customer_identity \<Rightarrow> bool" where
  "same_identity org d i \<longleftrightarrow> ci_org i = org \<and> ci_channel i = ii_channel d \<and>
     ci_account i = ii_account d \<and> ci_external i = ii_external d"

definition same_contact :: "identity_input \<Rightarrow> customer_identity \<Rightarrow> bool" where
  "same_contact d i \<longleftrightarrow> ci_channel i = ii_channel d \<and> ci_contact i = ii_contact d"

definition nonblank_or :: "string \<Rightarrow> string \<Rightarrow> string" where
  "nonblank_or new old = (if new \<noteq> [] then new else old)"

definition refresh_identity :: "identity_input \<Rightarrow> gotime \<Rightarrow> customer_identity \<Rightarrow> customer_identity" where
  "refresh_identity d now i = i\<lparr>ci_username := nonblank_or (ii_username d) (ci_username i),
     ci_phone := nonblank_or (ii_phone d) (ci_phone i), ci_name := nonblank_or (ii_name d) (ci_name i),
     ci_contact := ii_contact d, ci_updated := db_time now\<rparr>"

definition inbound_name :: "identity_input \<Rightarrow> string" where
  "inbound_name d = nonblank_or (nonblank_or (ii_name d) (ii_username d)) (ii_phone d)"

definition identity_row :: "uuid \<Rightarrow> uuid \<Rightarrow> uuid \<Rightarrow> identity_input \<Rightarrow> gotime \<Rightarrow> customer_identity" where
  "identity_row i org customer d now =
     \<lparr>ci_id = i, ci_org = org, ci_customer = customer, ci_channel = ii_channel d,
      ci_account = ii_account d, ci_contact = ii_contact d, ci_external = ii_external d,
      ci_username = ii_username d, ci_phone = ii_phone d, ci_name = ii_name d,
      ci_created = db_time now, ci_updated = db_time now\<rparr>"

text \<open>\<open>INSERT .. ON CONFLICT (channel, contact_id) DO NOTHING\<close>.\<close>

definition insert_identity :: "customer_identity \<Rightarrow> crm \<Rightarrow> crm_error + crm" where
  "insert_identity row st =
     (if list_ex (\<lambda>i. ci_channel i = ci_channel row \<and> ci_contact i = ci_contact row) (identities st)
      then Inr st
      else if list_ex (\<lambda>i. ci_id i = ci_id row \<or> ci_org i = ci_org row \<and> ci_channel i = ci_channel row \<and>
                 ci_account i = ci_account row \<and> ci_external i = ci_external row) (identities st) \<or>
              ci_org row \<notin> set (organizations st) \<or> ci_customer row \<notin> cu_id ` set (customers st)
      then Inl CrmFailed
      else Inr (st\<lparr>identities := identities st @ [row]\<rparr>))"

definition inbound_customer :: "uuid \<Rightarrow> uuid \<Rightarrow> identity_input \<Rightarrow> uuid option \<Rightarrow> gotime \<Rightarrow> customer_row" where
  "inbound_customer i org d status now =
     \<lparr>cu_id = i, cu_org = org, cu_name = inbound_name d, cu_phone = ii_phone d, cu_email = [],
      cu_avatar = [], cu_status = status, cu_assignee = None, cu_fields = ''{}'', cu_merged = None,
      cu_created = db_time now, cu_updated = db_time now\<rparr>"

definition resolve_customer_for_contact ::
  "(nat \<Rightarrow> uuid) \<Rightarrow> gotime \<Rightarrow> uuid \<Rightarrow> identity_input \<Rightarrow> crm \<Rightarrow> crm_error + uuid \<times> crm" where
  "resolve_customer_for_contact fresh now org d st =
     (if org = 0 then Inr (0, st)
      else
        (case find (same_identity org d) (identities st) of
           Some i \<Rightarrow>
             if list_ex (\<lambda>k. same_contact d k \<and> \<not> same_identity org d k) (identities st) then Inl CrmFailed
             else Inr (ci_customer i,
                    st\<lparr>identities := update_where (same_identity org d) (refresh_identity d now) (identities st)\<rparr>)
         | None \<Rightarrow>
             bindE (default_status_id fresh now org st) (\<lambda>(status, st1).
             bindE (wrap_error (insert_customer (inbound_customer (fresh 5) org d status now) st1)) (\<lambda>st2.
             bindE (insert_identity (identity_row (fresh 6) org (fresh 5) d now) st2) (\<lambda>st3.
             bindE (append_timeline (fresh 7) now org (fresh 5)
                      (event_of CustomerCreated None (inbound_name d)
                         [(''channel'', ii_channel d), (''source'', ''inbound'')]) st3) (\<lambda>st4.
             bindE (append_timeline (fresh 8) now org (fresh 5)
                      (event_of IdentityLinked None (ii_channel d)
                         [(''channel'', ii_channel d), (''external_id'', ii_external d)]) st4) (\<lambda>st5.
             Inr (fresh 5, st5))))))))"

text \<open>The owner and the channel of an account: the three account tables as lists of rows.\<close>

datatype account_table = TgAccounts | ChannelAccounts | WaAccounts

record account_row =
  ac_id :: uuid
  ac_org :: "uuid option"
  ac_channel :: string

definition account_owner ::
  "(account_table \<Rightarrow> account_row list) \<Rightarrow> account_table \<Rightarrow> uuid \<Rightarrow> uuid \<times> string" where
  "account_owner accounts table account =
     (case find_by ac_id account (accounts table) of
        None \<Rightarrow> (0, [])
      | Some a \<Rightarrow>
          let channel = (if table = TgAccounts then ''telegram'' else ac_channel a) in
          (case ac_org a of None \<Rightarrow> (0, channel) | Some org \<Rightarrow> (org, channel)))"

end
