(* ===== verification/Crm_Activity.thy ===== *)
theory Crm_Activity
  imports Crm_Customers
begin

text \<open>
  Internal notes (\<open>backend/internal/store/crm_notes.go\<close>) and follow-ups
  (\<open>backend/internal/store/crm_followups.go\<close>): the writes with their timeline events, the buckets of
  the reminder header, and what a prompt may be told about the customer behind a chat.
\<close>

text \<open>\<open>customerExists\<close>: the customer is of the organization and not merged away.\<close>

definition customer_exists :: "crm \<Rightarrow> uuid \<Rightarrow> uuid \<Rightarrow> bool" where
  "customer_exists st org i \<longleftrightarrow>
     list_ex (\<lambda>c. cu_org c = org \<and> cu_id c = i \<and> cu_merged c = None) (customers st)"

section \<open>Notes\<close>

text \<open>A note as it is read: with the name of its author, blank when there is none.\<close>

definition author_name :: "crm \<Rightarrow> uuid option \<Rightarrow> string" where
  "author_name st a = (case a of None \<Rightarrow> [] | Some i \<Rightarrow>
     (case user_display_name st i of None \<Rightarrow> [] | Some n \<Rightarrow> n))"

definition note_view :: "crm \<Rightarrow> note_row \<Rightarrow> note_row \<times> string" where
  "note_view st n = (n, author_name st (cn_author n))"

definition notes_of :: "crm \<Rightarrow> uuid \<Rightarrow> uuid \<Rightarrow> note_row list" where
  "notes_of st org customer = sort_key (\<lambda>n. - cn_created n)
     (filter (\<lambda>n. cn_org n = org \<and> cn_customer n = customer) (customer_notes st))"

definition list_customer_notes :: "crm \<Rightarrow> uuid \<Rightarrow> uuid \<Rightarrow> (note_row \<times> string) list" where
  "list_customer_notes st org customer = map (note_view st) (notes_of st org customer)"

definition latest_customer_note :: "crm \<Rightarrow> uuid \<Rightarrow> uuid \<Rightarrow> crm_error + note_row \<times> string" where
  "latest_customer_note st org customer =
     (case notes_of st org customer of [] \<Rightarrow> Inl CrmNotFound | n # _ \<Rightarrow> Inr (note_view st n))"

definition customer_note_by_id :: "crm \<Rightarrow> uuid \<Rightarrow> uuid \<Rightarrow> crm_error + note_row \<times> string" where
  "customer_note_by_id st org i =
     (case find (\<lambda>n. cn_org n = org \<and> cn_id n = i) (customer_notes st) of
        None \<Rightarrow> Inl CrmNotFound | Some n \<Rightarrow> Inr (note_view st n))"

definition add_note_tx ::
  "(uuid \<Rightarrow> string) \<Rightarrow> (nat \<Rightarrow> uuid) \<Rightarrow> gotime \<Rightarrow> uuid \<Rightarrow> uuid \<Rightarrow> uuid option \<Rightarrow> string \<Rightarrow> crm \<Rightarrow> crm_error + crm" where
  "add_note_tx id_text fresh now org customer author body st =
     (if \<not> customer_exists st org customer then Inl CrmNotFound
      else if fresh 0 \<in> cn_id ` set (customer_notes st) \<or> org \<notin> set (organizations st) \<or>
              \<not> ref_ok author (user_ids st)
      then Inl CrmFailed
      else append_timeline (fresh 1) now org customer
             (event_of NoteAdded author body [(''note_id'', id_text (fresh 0))])
             (st\<lparr>customer_notes := customer_notes st @
                [\<lparr>cn_id = fresh 0, cn_org = org, cn_customer = customer, cn_author = author, cn_body = body,
                  cn_created = db_time now, cn_updated = db_time now\<rparr>]\<rparr>))"

definition add_customer_note ::
  "(uuid \<Rightarrow> string) \<Rightarrow> (nat \<Rightarrow> uuid) \<Rightarrow> gotime \<Rightarrow> uuid \<Rightarrow> uuid \<Rightarrow> uuid option \<Rightarrow> string \<Rightarrow> crm
     \<Rightarrow> (crm_error + note_row \<times> string) \<times> crm" where
  "add_customer_note id_text fresh now org customer author body st =
     (case add_note_tx id_text fresh now org customer author body st of
        Inl e \<Rightarrow> (Inl e, st)
      | Inr st' \<Rightarrow> (customer_note_by_id st' org (fresh 0), st'))"

definition edit_note :: "string \<Rightarrow> gotime \<Rightarrow> note_row \<Rightarrow> note_row" where
  "edit_note body now n = n\<lparr>cn_body := body, cn_updated := db_time now\<rparr>"

definition update_customer_note ::
  "uuid \<Rightarrow> uuid \<Rightarrow> string \<Rightarrow> gotime \<Rightarrow> crm \<Rightarrow> (crm_error + note_row \<times> string) \<times> crm" where
  "update_customer_note org i body now st =
     (let hit = (\<lambda>n. cn_org n = org \<and> cn_id n = i);
          st' = st\<lparr>customer_notes := update_where hit (edit_note body now) (customer_notes st)\<rparr> in
      if affected hit (customer_notes st) = 0 then (Inl CrmNotFound, st)
      else (customer_note_by_id st' org i, st'))"

definition delete_customer_note :: "uuid \<Rightarrow> uuid \<Rightarrow> crm \<Rightarrow> crm_error + crm" where
  "delete_customer_note org i st =
     (let hit = (\<lambda>n. cn_org n = org \<and> cn_id n = i) in
      if affected hit (customer_notes st) = 0 then Inl CrmNotFound
      else Inr (st\<lparr>customer_notes := filter (\<lambda>n. \<not> hit n) (customer_notes st)\<rparr>))"

section \<open>Follow-ups\<close>

record followup_input =
  fi_customer :: uuid
  fi_conversation :: "uuid option"
  fi_channel :: string
  fi_due :: gotime
  fi_date :: string
  fi_minute :: "int option"
  fi_action :: string
  fi_note :: string
  fi_assignee :: "uuid option"

record followup_filter =
  ff_org :: uuid
  ff_assignee :: string
  ff_me :: uuid
  ff_customer :: "uuid option"
  ff_state :: string
  ff_bucket :: string
  ff_day_start :: gotime
  ff_limit :: int
  ff_offset :: int

definition action_check :: "string \<Rightarrow> bool" where
  "action_check a \<longleftrightarrow> a \<in> {''call'', ''message'', ''meeting'', ''other''}"

definition state_check :: "string \<Rightarrow> bool" where
  "state_check s \<longleftrightarrow> s \<in> {''open'', ''completed'', ''cancelled''}"

definition minute_check :: "int option \<Rightarrow> bool" where
  "minute_check m \<longleftrightarrow> (case m of None \<Rightarrow> True | Some n \<Rightarrow> 0 \<le> n \<and> n \<le> 1439)"

text \<open>A follow-up as it is read: with the names of its customer and its assignee.\<close>

definition followup_view :: "crm \<Rightarrow> followup_row \<Rightarrow> followup_row \<times> string \<times> string" where
  "followup_view st f =
     (f, (case find_by cu_id (fu_customer f) (customers st) of None \<Rightarrow> [] | Some c \<Rightarrow> cu_name c),
      author_name st (fu_assignee f))"

text \<open>
  \<open>bucketWindow\<close>: the half-open window of a bucket; a start that is the zero time is no bound. The
  instants are in UTC, where a calendar day lasts 24 hours.
\<close>

definition add_days :: "int \<Rightarrow> gotime \<Rightarrow> gotime" where
  "add_days n t = t + n * seconds 86400"

definition bucket_window :: "string \<Rightarrow> gotime \<Rightarrow> (gotime \<times> gotime) option" where
  "bucket_window bucket day_start =
     (if day_start = zero_time then None
      else if bucket = ''today'' then Some (day_start, add_days 1 day_start)
      else if bucket = ''tomorrow'' then Some (add_days 1 day_start, add_days 2 day_start)
      else if bucket = ''week'' then Some (day_start, add_days 7 day_start)
      else if bucket = ''overdue'' then Some (zero_time, day_start)
      else None)"

definition in_window :: "gotime \<times> gotime \<Rightarrow> gotime \<Rightarrow> bool" where
  "in_window w due \<longleftrightarrow> (fst w = zero_time \<or> db_time (fst w) \<le> due) \<and> due < db_time (snd w)"

definition followup_matches :: "(string \<Rightarrow> uuid option) \<Rightarrow> followup_filter \<Rightarrow> followup_row \<Rightarrow> bool" where
  "followup_matches parse_uuid f r \<longleftrightarrow>
     fu_org r = ff_org f \<and>
     (ff_state f = [] \<or> fu_state r = ff_state f) \<and>
     (case ff_customer f of None \<Rightarrow> True | Some c \<Rightarrow> fu_customer r = c) \<and>
     assignee_clause parse_uuid (ff_assignee f) (ff_me f) (fu_assignee r) \<and>
     (case bucket_window (ff_bucket f) (ff_day_start f) of
        None \<Rightarrow> True | Some w \<Rightarrow> in_window w (fu_due r) \<and> fu_state r = ''open'')"

definition list_followups ::
  "(string \<Rightarrow> uuid option) \<Rightarrow> crm \<Rightarrow> followup_filter \<Rightarrow> (followup_row \<times> string \<times> string) list \<times> nat" where
  "list_followups parse_uuid st f =
     (let hits = filter (followup_matches parse_uuid f) (followups st);
          lim = (if ff_limit f \<le> 0 then 100 else ff_limit f) in
      (map (followup_view st) (sql_page lim (ff_offset f) (sort_key (\<lambda>r. (fu_due r, fu_id r)) hits)),
       length hits))"

record followup_buckets =
  b_today :: nat
  b_tomorrow :: nat
  b_week :: nat
  b_overdue :: nat

definition bucket_count :: "(string \<Rightarrow> uuid option) \<Rightarrow> crm \<Rightarrow> followup_filter \<Rightarrow> string \<Rightarrow> nat" where
  "bucket_count parse_uuid st f bucket =
     (case bucket_window bucket (ff_day_start f) of
        None \<Rightarrow> 0
      | Some w \<Rightarrow> length (filter (\<lambda>r. fu_org r = ff_org f \<and> fu_state r = ''open'' \<and>
           assignee_clause parse_uuid (ff_assignee f) (ff_me f) (fu_assignee r) \<and>
           in_window w (fu_due r)) (followups st)))"

definition followup_bucket_counts ::
  "(string \<Rightarrow> uuid option) \<Rightarrow> crm \<Rightarrow> followup_filter \<Rightarrow> followup_buckets" where
  "followup_bucket_counts parse_uuid st f =
     \<lparr>b_today = bucket_count parse_uuid st f ''today'',
      b_tomorrow = bucket_count parse_uuid st f ''tomorrow'',
      b_week = bucket_count parse_uuid st f ''week'',
      b_overdue = bucket_count parse_uuid st f ''overdue''\<rparr>"

definition open_followups :: "crm \<Rightarrow> uuid \<Rightarrow> uuid \<Rightarrow> followup_row list" where
  "open_followups st org customer = sort_key fu_due
     (filter (\<lambda>f. fu_org f = org \<and> fu_customer f = customer \<and> fu_state f = ''open'') (followups st))"

definition next_open_followup :: "crm \<Rightarrow> uuid \<Rightarrow> uuid \<Rightarrow> crm_error + followup_row \<times> string \<times> string" where
  "next_open_followup st org customer =
     (case open_followups st org customer of [] \<Rightarrow> Inl CrmNotFound | f # _ \<Rightarrow> Inr (followup_view st f))"

definition followup_row_of :: "crm \<Rightarrow> uuid \<Rightarrow> uuid \<Rightarrow> followup_row option" where
  "followup_row_of st org i = find (\<lambda>f. fu_org f = org \<and> fu_id f = i) (followups st)"

definition followup_by_id :: "crm \<Rightarrow> uuid \<Rightarrow> uuid \<Rightarrow> crm_error + followup_row \<times> string \<times> string" where
  "followup_by_id st org i =
     (case followup_row_of st org i of None \<Rightarrow> Inl CrmNotFound | Some f \<Rightarrow> Inr (followup_view st f))"

text \<open>The commit of a follow-up and the read that answers the caller.\<close>

definition commit_followup ::
  "uuid \<Rightarrow> uuid \<Rightarrow> crm \<Rightarrow> crm_error + crm \<Rightarrow> (crm_error + followup_row \<times> string \<times> string) \<times> crm" where
  "commit_followup org i st r =
     (case r of Inl e \<Rightarrow> (Inl e, st) | Inr st' \<Rightarrow> (followup_by_id st' org i, st'))"

definition create_followup_tx ::
  "(uuid \<Rightarrow> string) \<Rightarrow> (nat \<Rightarrow> uuid) \<Rightarrow> gotime \<Rightarrow> uuid \<Rightarrow> followup_input \<Rightarrow> uuid option \<Rightarrow> crm \<Rightarrow> crm_error + crm" where
  "create_followup_tx id_text fresh now org d actor st =
     (if \<not> customer_exists st org (fi_customer d) then Inl CrmNotFound
      else if \<not> action_check (fi_action d) \<or> \<not> minute_check (fi_minute d) \<or>
              fresh 0 \<in> fu_id ` set (followups st) \<or> org \<notin> set (organizations st) \<or>
              \<not> ref_ok (fi_assignee d) (user_ids st) \<or> \<not> ref_ok actor (user_ids st)
      then Inl CrmFailed
      else append_timeline (fresh 1) now org (fi_customer d)
             (event_of FollowupCreated actor (fi_action d @ '' '' @ fi_date d)
                [(''action'', fi_action d), (''due_date'', fi_date d),
                 (''followup_id'', id_text (fresh 0)), (''note'', fi_note d)])
             (st\<lparr>followups := followups st @
                [\<lparr>fu_id = fresh 0, fu_org = org, fu_customer = fi_customer d,
                  fu_conversation = fi_conversation d, fu_channel = fi_channel d, fu_due = db_time (fi_due d),
                  fu_date = fi_date d, fu_minute = fi_minute d, fu_action = fi_action d, fu_note = fi_note d,
                  fu_assignee = fi_assignee d, fu_state = ''open'', fu_completed = None, fu_creator = actor,
                  fu_created = db_time now, fu_updated = db_time now\<rparr>]\<rparr>))"

definition create_followup ::
  "(uuid \<Rightarrow> string) \<Rightarrow> (nat \<Rightarrow> uuid) \<Rightarrow> gotime \<Rightarrow> uuid \<Rightarrow> followup_input \<Rightarrow> uuid option \<Rightarrow> crm
     \<Rightarrow> (crm_error + followup_row \<times> string \<times> string) \<times> crm" where
  "create_followup id_text fresh now org d actor st =
     commit_followup org (fresh 0) st (create_followup_tx id_text fresh now org d actor st)"

definition reschedule_row :: "followup_input \<Rightarrow> gotime \<Rightarrow> followup_row \<Rightarrow> followup_row" where
  "reschedule_row d now f = f\<lparr>fu_due := db_time (fi_due d), fu_date := fi_date d, fu_minute := fi_minute d,
     fu_action := fi_action d, fu_note := fi_note d, fu_assignee := fi_assignee d, fu_state := ''open'',
     fu_completed := None, fu_updated := db_time now\<rparr>"

definition reschedule_tx ::
  "(uuid \<Rightarrow> string) \<Rightarrow> (nat \<Rightarrow> uuid) \<Rightarrow> gotime \<Rightarrow> uuid \<Rightarrow> uuid \<Rightarrow> followup_input \<Rightarrow> uuid option \<Rightarrow> crm
     \<Rightarrow> crm_error + crm" where
  "reschedule_tx id_text fresh now org i d actor st =
     (case followup_row_of st org i of
        None \<Rightarrow> Inl CrmNotFound
      | Some f \<Rightarrow>
          if \<not> action_check (fi_action d) \<or> \<not> minute_check (fi_minute d) \<or>
             \<not> ref_ok (fi_assignee d) (user_ids st)
          then Inl CrmFailed
          else append_timeline (fresh 0) now org (fu_customer f)
                 (event_of FollowupMoved actor (fu_date f @ arrow_text @ fi_date d)
                    [(''followup_id'', id_text i), (''from'', fu_date f), (''to'', fi_date d)])
                 (st\<lparr>followups := update_where (\<lambda>r. fu_org r = org \<and> fu_id r = i)
                       (reschedule_row d now) (followups st)\<rparr>))"

definition reschedule_followup ::
  "(uuid \<Rightarrow> string) \<Rightarrow> (nat \<Rightarrow> uuid) \<Rightarrow> gotime \<Rightarrow> uuid \<Rightarrow> uuid \<Rightarrow> followup_input \<Rightarrow> uuid option \<Rightarrow> crm
     \<Rightarrow> (crm_error + followup_row \<times> string \<times> string) \<times> crm" where
  "reschedule_followup id_text fresh now org i d actor st =
     commit_followup org i st (reschedule_tx id_text fresh now org i d actor st)"

definition followup_state_row :: "string \<Rightarrow> gotime \<Rightarrow> followup_row \<Rightarrow> followup_row" where
  "followup_state_row s now f = f\<lparr>fu_state := s,
     fu_completed := (if s = ''completed'' then Some (db_time now) else None), fu_updated := db_time now\<rparr>"

definition set_state_tx ::
  "(uuid \<Rightarrow> string) \<Rightarrow> (nat \<Rightarrow> uuid) \<Rightarrow> gotime \<Rightarrow> uuid \<Rightarrow> uuid \<Rightarrow> string \<Rightarrow> uuid option \<Rightarrow> crm
     \<Rightarrow> crm_error + crm" where
  "set_state_tx id_text fresh now org i s actor st =
     (case followup_row_of st org i of
        None \<Rightarrow> Inl CrmNotFound
      | Some f \<Rightarrow>
          if \<not> state_check s then Inl CrmFailed
          else append_timeline (fresh 0) now org (fu_customer f)
                 (event_of (if s = ''cancelled'' then FollowupDropped else FollowupDone) actor
                    (fu_action f @ '' '' @ fu_date f)
                    [(''action'', fu_action f), (''followup_id'', id_text i)])
                 (st\<lparr>followups := update_where (\<lambda>r. fu_org r = org \<and> fu_id r = i)
                       (followup_state_row s now) (followups st)\<rparr>))"

definition set_followup_state ::
  "(uuid \<Rightarrow> string) \<Rightarrow> (nat \<Rightarrow> uuid) \<Rightarrow> gotime \<Rightarrow> uuid \<Rightarrow> uuid \<Rightarrow> string \<Rightarrow> uuid option \<Rightarrow> crm
     \<Rightarrow> (crm_error + followup_row \<times> string \<times> string) \<times> crm" where
  "set_followup_state id_text fresh now org i s actor st =
     commit_followup org i st (set_state_tx id_text fresh now org i s actor st)"

section \<open>Conversations and the prompt\<close>

text \<open>The columns of the view \<open>inbox_chats_v\<close> that tie a chat to a customer.\<close>

record inbox_chat =
  ic_id :: uuid
  ic_org :: "uuid option"
  ic_channel :: string
  ic_contact :: uuid
  ic_account_deleted :: "gotime option"
  ic_last_message :: "gotime option"

definition chat_customer :: "crm \<Rightarrow> inbox_chat \<Rightarrow> uuid option" where
  "chat_customer st c =
     map_option ci_customer (find (\<lambda>i. ci_channel i = ic_channel c \<and> ci_contact i = ic_contact c) (identities st))"

text \<open>\<open>ORDER BY last_message_at DESC NULLS LAST\<close>.\<close>

definition customer_conversations :: "crm \<Rightarrow> inbox_chat list \<Rightarrow> uuid \<Rightarrow> uuid \<Rightarrow> inbox_chat list" where
  "customer_conversations st chats org customer =
     sort_key (\<lambda>c. case ic_last_message c of None \<Rightarrow> (1::int, 0) | Some t \<Rightarrow> (0, - t))
       (filter (\<lambda>c. ic_org c = Some org \<and> chat_customer st c = Some customer \<and> ic_account_deleted c = None) chats)"

record customer_summary =
  sm_name :: string
  sm_status :: string
  sm_tags :: "string list"
  sm_note :: string
  sm_action :: string
  sm_due :: string

definition summary_of :: "crm \<Rightarrow> uuid \<Rightarrow> uuid \<Rightarrow> customer_profile \<Rightarrow> customer_summary" where
  "summary_of st org customer p =
     \<lparr>sm_name = cu_name (pr_row p),
      sm_status = (case pr_status p of None \<Rightarrow> [] | Some s \<Rightarrow> cs_name s),
      sm_tags = map ct_name (pr_tags p),
      sm_note = (case latest_customer_note st org customer of Inl e \<Rightarrow> [] | Inr n \<Rightarrow> cn_body (fst n)),
      sm_action = (case next_open_followup st org customer of Inl e \<Rightarrow> [] | Inr f \<Rightarrow> fu_action (fst f)),
      sm_due = (case next_open_followup st org customer of Inl e \<Rightarrow> [] | Inr f \<Rightarrow> fu_date (fst f))\<rparr>"

text \<open>
  \<open>Inr None\<close> is a chat without a customer; the outer \<open>None\<close> a chain of merges without an end. A null
  organization is read as the zero UUID, under which no customer is found.
\<close>

definition customer_context_for_chat ::
  "crm \<Rightarrow> inbox_chat list \<Rightarrow> uuid \<Rightarrow> (crm_error + customer_summary option) option" where
  "customer_context_for_chat st chats chat =
     (case find (\<lambda>c. ic_id c = chat \<and> chat_customer st c \<noteq> None) chats of
        None \<Rightarrow> Some (Inr None)
      | Some c \<Rightarrow>
          (case chat_customer st c of
             None \<Rightarrow> Some (Inr None)
           | Some customer \<Rightarrow>
               let org = (case ic_org c of None \<Rightarrow> 0 | Some o' \<Rightarrow> o') in
               map_option (\<lambda>r. case r of
                   Inl e \<Rightarrow> if e = CrmNotFound then Inr None else Inl e
                 | Inr p \<Rightarrow> Inr (Some (summary_of st org customer p)))
                 (customer_by_id st org customer)))"

end
