(* ===== verification/Crm_Merge.thy ===== *)
theory Crm_Merge
  imports Crm_Activity
begin

text \<open>
  The manual merge of two customers (\<open>backend/internal/store/crm_merge.go\<close>): one transaction that moves
  every child row of the source to the target, fills the target's blanks and leaves the source as a
  tombstone that points to its survivor.
\<close>

definition locked_customer :: "crm \<Rightarrow> uuid \<Rightarrow> uuid \<Rightarrow> crm_error + customer_row" where
  "locked_customer st org i =
     (case customer_row_of st org i of
        None \<Rightarrow> Inl CrmNotFound
      | Some c \<Rightarrow> if cu_merged c \<noteq> None then Inl CrmNotFound else Inr c)"

definition move_identity :: "uuid \<Rightarrow> gotime \<Rightarrow> customer_identity \<Rightarrow> customer_identity" where
  "move_identity target now i = i\<lparr>ci_customer := target, ci_updated := db_time now\<rparr>"

definition move_note :: "uuid \<Rightarrow> gotime \<Rightarrow> note_row \<Rightarrow> note_row" where
  "move_note target now n = n\<lparr>cn_customer := target, cn_updated := db_time now\<rparr>"

definition move_followup :: "uuid \<Rightarrow> gotime \<Rightarrow> followup_row \<Rightarrow> followup_row" where
  "move_followup target now f = f\<lparr>fu_customer := target, fu_updated := db_time now\<rparr>"

definition move_event :: "uuid \<Rightarrow> timeline_row \<Rightarrow> timeline_row" where
  "move_event target e = e\<lparr>te_customer := target\<rparr>"

definition repoint_children :: "uuid \<Rightarrow> uuid \<Rightarrow> gotime \<Rightarrow> crm \<Rightarrow> crm" where
  "repoint_children target source now st =
     st\<lparr>identities := update_where (\<lambda>i. ci_customer i = source) (move_identity target now) (identities st),
        customer_notes := update_where (\<lambda>n. cn_customer n = source) (move_note target now) (customer_notes st),
        followups := update_where (\<lambda>f. fu_customer f = source) (move_followup target now) (followups st),
        timeline := update_where (\<lambda>e. te_customer e = source) (move_event target) (timeline st)\<rparr>"

text \<open>\<open>INSERT .. SELECT .. ON CONFLICT DO NOTHING\<close>, then \<open>DELETE\<close>.\<close>

definition union_links :: "uuid \<Rightarrow> uuid \<Rightarrow> gotime \<Rightarrow> tag_link list \<Rightarrow> tag_link list" where
  "union_links target source now ls =
     filter (\<lambda>l. tl_customer l \<noteq> source)
       (ls @ map (\<lambda>l. \<lparr>tl_customer = target, tl_tag = tl_tag l, tl_created = db_time now\<rparr>)
          (filter (\<lambda>l. tl_customer l = source \<and> \<not> list_ex (has_link target (tl_tag l)) ls) ls))"

definition fill_blanks :: "customer_row \<Rightarrow> gotime \<Rightarrow> customer_row \<Rightarrow> customer_row" where
  "fill_blanks source now c = c\<lparr>
     cu_name := (if cu_name c = [] then cu_name source else cu_name c),
     cu_phone := (if cu_phone c = [] then cu_phone source else cu_phone c),
     cu_email := (if cu_email c = [] then cu_email source else cu_email c),
     cu_avatar := (if cu_avatar c = [] then cu_avatar source else cu_avatar c),
     cu_status := (if cu_status c = None then cu_status source else cu_status c),
     cu_assignee := (if cu_assignee c = None then cu_assignee source else cu_assignee c),
     cu_updated := db_time now\<rparr>"

definition bury :: "uuid \<Rightarrow> gotime \<Rightarrow> customer_row \<Rightarrow> customer_row" where
  "bury target now c = c\<lparr>cu_merged := Some target, cu_updated := db_time now\<rparr>"

definition fold_source :: "uuid \<Rightarrow> uuid \<Rightarrow> customer_row \<Rightarrow> gotime \<Rightarrow> crm \<Rightarrow> crm" where
  "fold_source org target source now st =
     st\<lparr>tag_links := union_links target (cu_id source) now (tag_links st),
        customers :=
          update_where (\<lambda>c. cu_org c = org \<and> cu_id c = cu_id source) (bury target now)
            (update_where (\<lambda>c. cu_org c = org \<and> cu_id c = target) (fill_blanks source now) (customers st))\<rparr>"

definition merge_tx ::
  "(uuid \<Rightarrow> string) \<Rightarrow> uuid \<Rightarrow> gotime \<Rightarrow> uuid \<Rightarrow> uuid \<Rightarrow> uuid \<Rightarrow> uuid option \<Rightarrow> crm \<Rightarrow> crm_error + uuid \<times> crm" where
  "merge_tx id_text event_id now org target_id source_id actor st =
     (if target_id = source_id then Inl CrmSameCustomer
      else
        bindE (locked_customer st org target_id) (\<lambda>target.
        bindE (locked_customer st org source_id) (\<lambda>source.
        let name = (if cu_name source = [] then id_text source_id else cu_name source) in
        bindE (append_timeline event_id now org target_id
                 (event_of CustomersMerged actor name
                    [(''source_customer_id'', id_text source_id), (''source_name'', cu_name source),
                     (''target_name'', cu_name target)])
                 (fold_source org target_id source now (repoint_children target_id source_id now st)))
          (\<lambda>st'. Inr (target_id, st')))))"

definition merge_customers ::
  "(uuid \<Rightarrow> string) \<Rightarrow> uuid \<Rightarrow> gotime \<Rightarrow> uuid \<Rightarrow> uuid \<Rightarrow> uuid \<Rightarrow> uuid option \<Rightarrow> crm
     \<Rightarrow> (crm_error + customer_profile) option \<times> crm" where
  "merge_customers id_text event_id now org target source actor st =
     commit_and_read org st (merge_tx id_text event_id now org target source actor st)"

end
