(* ===== verification/Crm_Schema.thy ===== *)
theory Crm_Schema
  imports Crm_Merge
begin

text \<open>
  The schema of the customer tables as an invariant: keys, references, checks, and what the code adds
  to them (children of a customer are of its organization, merges form no cycle, only live customers
  own identities, notes and follow-ups). Every method keeps it. The steps of the component are
  labelled with the organization that acts.
\<close>

section \<open>The invariant\<close>

definition known_customer :: "crm \<Rightarrow> uuid \<Rightarrow> uuid \<Rightarrow> bool" where
  "known_customer st org i \<longleftrightarrow> list_ex (\<lambda>c. cu_org c = org \<and> cu_id c = i) (customers st)"

definition merge_edges :: "customer_row list \<Rightarrow> (uuid \<times> uuid) set" where
  "merge_edges cs = {(cu_id c, j) | c j. c \<in> set cs \<and> cu_merged c = Some j}"

definition statuses_ok :: "crm \<Rightarrow> bool" where
  "statuses_ok st \<longleftrightarrow> distinct (map cs_id (statuses st)) \<and>
     distinct (map (\<lambda>s. (cs_org s, cs_slug s)) (statuses st)) \<and>
     distinct (map cs_org (filter cs_default (statuses st))) \<and>
     cs_org ` set (statuses st) \<subseteq> set (organizations st)"

definition tags_ok :: "crm \<Rightarrow> bool" where
  "tags_ok st \<longleftrightarrow> distinct (map ct_id (tags st)) \<and> distinct (map (\<lambda>t. (ct_org t, ct_slug t)) (tags st)) \<and>
     ct_org ` set (tags st) \<subseteq> set (organizations st)"

definition fields_ok :: "crm \<Rightarrow> bool" where
  "fields_ok st \<longleftrightarrow> distinct (map fd_id (field_defs st)) \<and>
     distinct (map (\<lambda>f. (fd_org f, fd_key f)) (field_defs st)) \<and>
     list_all (\<lambda>f. field_type_check (fd_type f) \<and> fd_org f \<in> set (organizations st)) (field_defs st)"

definition customer_ok :: "crm \<Rightarrow> customer_row \<Rightarrow> bool" where
  "customer_ok st c \<longleftrightarrow> cu_org c \<in> set (organizations st) \<and>
     ref_ok (cu_status c) (map cs_id (statuses st)) \<and> ref_ok (cu_assignee c) (user_ids st) \<and>
     (\<forall>j\<in>set_option (cu_merged c). known_customer st (cu_org c) j)"

definition customers_ok :: "crm \<Rightarrow> bool" where
  "customers_ok st \<longleftrightarrow> distinct (map cu_id (customers st)) \<and> list_all (customer_ok st) (customers st) \<and>
     acyclic (merge_edges (customers st))"

definition identities_ok :: "crm \<Rightarrow> bool" where
  "identities_ok st \<longleftrightarrow> distinct (map ci_id (identities st)) \<and>
     distinct (map (\<lambda>i. (ci_channel i, ci_contact i)) (identities st)) \<and>
     distinct (map (\<lambda>i. (ci_org i, ci_channel i, ci_account i, ci_external i)) (identities st)) \<and>
     list_all (\<lambda>i. customer_exists st (ci_org i) (ci_customer i)) (identities st)"

definition links_ok :: "crm \<Rightarrow> bool" where
  "links_ok st \<longleftrightarrow> distinct (map (\<lambda>l. (tl_customer l, tl_tag l)) (tag_links st)) \<and>
     list_all (\<lambda>l. list_ex (\<lambda>t. ct_id t = tl_tag l \<and> known_customer st (ct_org t) (tl_customer l)) (tags st))
       (tag_links st)"

definition notes_ok :: "crm \<Rightarrow> bool" where
  "notes_ok st \<longleftrightarrow> distinct (map cn_id (customer_notes st)) \<and>
     list_all (\<lambda>n. customer_exists st (cn_org n) (cn_customer n) \<and> ref_ok (cn_author n) (user_ids st))
       (customer_notes st)"

definition followup_ok :: "crm \<Rightarrow> followup_row \<Rightarrow> bool" where
  "followup_ok st f \<longleftrightarrow> customer_exists st (fu_org f) (fu_customer f) \<and> action_check (fu_action f) \<and>
     state_check (fu_state f) \<and> minute_check (fu_minute f) \<and> ref_ok (fu_assignee f) (user_ids st) \<and>
     ref_ok (fu_creator f) (user_ids st) \<and> (fu_completed f \<noteq> None) = (fu_state f = ''completed'')"

definition followups_ok :: "crm \<Rightarrow> bool" where
  "followups_ok st \<longleftrightarrow> distinct (map fu_id (followups st)) \<and> list_all (followup_ok st) (followups st)"

definition timeline_ok :: "crm \<Rightarrow> bool" where
  "timeline_ok st \<longleftrightarrow> distinct (map te_id (timeline st)) \<and>
     list_all (\<lambda>e. known_customer st (te_org e) (te_customer e) \<and> ref_ok (te_actor e) (user_ids st)) (timeline st)"

definition crm_ok :: "crm \<Rightarrow> bool" where
  "crm_ok st \<longleftrightarrow> statuses_ok st \<and> tags_ok st \<and> fields_ok st \<and> customers_ok st \<and> identities_ok st \<and>
     links_ok st \<and> notes_ok st \<and> followups_ok st \<and> timeline_ok st"

lemmas part_defs = statuses_ok_def tags_ok_def fields_ok_def customers_ok_def customer_ok_def [abs_def]
  identities_ok_def links_ok_def notes_ok_def followups_ok_def followup_ok_def [abs_def] timeline_ok_def

lemmas reader_defs = customer_exists_def known_customer_def user_ids_def

section \<open>Reading customers after a write\<close>

lemma exists_known: "customer_exists st org i \<Longrightarrow> known_customer st org i"
  by (auto simp: reader_defs list_ex_iff)

lemma exists_append [simp]:
  "customer_exists (st\<lparr>customers := customers st @ [c]\<rparr>) org i
     \<longleftrightarrow> customer_exists st org i \<or> cu_org c = org \<and> cu_id c = i \<and> cu_merged c = None"
  by (auto simp: reader_defs)

lemma known_append [simp]:
  "known_customer (st\<lparr>customers := customers st @ [c]\<rparr>) org i
     \<longleftrightarrow> known_customer st org i \<or> cu_org c = org \<and> cu_id c = i"
  by (auto simp: reader_defs)

lemma list_ex_update_where:
  "(\<And>r. q (f r) = q r) \<Longrightarrow> list_ex q (update_where p f rows) = list_ex q rows"
  by (induction rows) (auto simp: update_where_def)

lemma merge_edges_Cons [simp]:
  "merge_edges (c # cs) = (case cu_merged c of None \<Rightarrow> {} | Some j \<Rightarrow> {(cu_id c, j)}) \<union> merge_edges cs"
  by (auto simp: merge_edges_def split: option.splits)

lemma merge_edges_Nil [simp]: "merge_edges [] = {}"
  by (simp add: merge_edges_def)

text \<open>An edit of a profile moves nobody: the contract of every \<open>UPDATE\<close> of the customers but one.\<close>

locale profile_edit =
  fixes upd :: "customer_row \<Rightarrow> customer_row"
  assumes id_kept: "cu_id (upd c) = cu_id c"
    and org_kept: "cu_org (upd c) = cu_org c"
    and merged_kept: "cu_merged (upd c) = cu_merged c"
begin

lemma exists_kept:
  "customer_exists (st\<lparr>customers := update_where p upd (customers st)\<rparr>) org i = customer_exists st org i"
  by (simp add: reader_defs list_ex_update_where id_kept org_kept merged_kept)

lemma known_kept:
  "known_customer (st\<lparr>customers := update_where p upd (customers st)\<rparr>) org i = known_customer st org i"
  by (simp add: reader_defs list_ex_update_where id_kept org_kept)

lemma edges_kept: "merge_edges (update_where p upd cs) = merge_edges cs"
  by (induction cs) (auto simp: update_where_def id_kept merged_kept split: option.splits)

lemma ids_kept: "map cu_id (update_where p upd cs) = map cu_id cs"
  by (induction cs) (auto simp: update_where_def id_kept)

lemmas all_kept = exists_kept known_kept edges_kept ids_kept

end

interpretation drop_status: profile_edit drop_status
  by unfold_locales (simp_all add: drop_status_def)

interpretation patch_row: profile_edit "patch_row p now" for p now
  by unfold_locales (simp_all add: patch_row_def)

interpretation fill_blanks: profile_edit "fill_blanks s now" for s now
  by unfold_locales (simp_all add: fill_blanks_def)

section \<open>Writes to one table\<close>

lemma crm_ok_parts:
  assumes "crm_ok st"
  shows "statuses_ok st" "tags_ok st" "fields_ok st" "customers_ok st" "identities_ok st" "links_ok st"
    "notes_ok st" "followups_ok st" "timeline_ok st"
  using assms by (simp_all add: crm_ok_def)

lemma timeline_write:
  "crm_ok st \<Longrightarrow> timeline_ok (st\<lparr>timeline := x\<rparr>) \<Longrightarrow> crm_ok (st\<lparr>timeline := x\<rparr>)"
  by (simp add: crm_ok_def part_defs reader_defs)

lemma followups_write:
  "crm_ok st \<Longrightarrow> followups_ok (st\<lparr>followups := x\<rparr>) \<Longrightarrow> crm_ok (st\<lparr>followups := x\<rparr>)"
  by (simp add: crm_ok_def part_defs reader_defs)

lemma notes_write:
  "crm_ok st \<Longrightarrow> notes_ok (st\<lparr>customer_notes := x\<rparr>) \<Longrightarrow> crm_ok (st\<lparr>customer_notes := x\<rparr>)"
  by (simp add: crm_ok_def part_defs reader_defs)

lemma links_write:
  "crm_ok st \<Longrightarrow> links_ok (st\<lparr>tag_links := x\<rparr>) \<Longrightarrow> crm_ok (st\<lparr>tag_links := x\<rparr>)"
  by (simp add: crm_ok_def part_defs reader_defs)

lemma identities_write:
  "crm_ok st \<Longrightarrow> identities_ok (st\<lparr>identities := x\<rparr>) \<Longrightarrow> crm_ok (st\<lparr>identities := x\<rparr>)"
  by (simp add: crm_ok_def part_defs reader_defs)

lemma fields_write:
  "crm_ok st \<Longrightarrow> fields_ok (st\<lparr>field_defs := x\<rparr>) \<Longrightarrow> crm_ok (st\<lparr>field_defs := x\<rparr>)"
  by (simp add: crm_ok_def part_defs reader_defs)

text \<open>Statuses and tags are referenced: customers and links must still find theirs.\<close>

lemma tags_write:
  "crm_ok st \<Longrightarrow> tags_ok (st\<lparr>tags := x\<rparr>) \<Longrightarrow> links_ok (st\<lparr>tags := x\<rparr>) \<Longrightarrow> crm_ok (st\<lparr>tags := x\<rparr>)"
  by (simp add: crm_ok_def part_defs reader_defs)

lemma statuses_write:
  "crm_ok st \<Longrightarrow> statuses_ok (st\<lparr>statuses := x\<rparr>) \<Longrightarrow> customers_ok (st\<lparr>statuses := x\<rparr>)
    \<Longrightarrow> crm_ok (st\<lparr>statuses := x\<rparr>)"
  by (simp add: crm_ok_def part_defs reader_defs)

lemma ref_ok_mono: "ref_ok r xs \<Longrightarrow> set xs \<subseteq> set ys \<Longrightarrow> ref_ok r ys"
  by (auto simp: ref_ok_def split: option.splits)

lemma distinct_snoc: "distinct (map k (xs @ [x])) \<longleftrightarrow> distinct (map k xs) \<and> k x \<notin> k ` set xs"
  by auto

lemma append_timeline_ok:
  assumes "append_timeline i now org c ev st = Inr st'" "crm_ok st" "known_customer st org c"
  shows "crm_ok st'"
proof -
  obtain row where st': "st' = st\<lparr>timeline := timeline st @ [row]\<rparr>" and row: "te_id row = i" "te_org row = org"
      "te_customer row = c" "te_actor row = ev_actor ev"
    and new: "i \<notin> te_id ` set (timeline st)" "ref_ok (ev_actor ev) (user_ids st)"
    using assms(1) by (auto simp: append_timeline_def Let_def split: if_splits)
  show ?thesis
    unfolding st' using crm_ok_parts(9) [OF assms(2)] assms(3) new row
    by (intro timeline_write assms(2)) (auto simp: timeline_ok_def reader_defs)
qed

text \<open>An event changes nothing but the timeline, at its end.\<close>

lemma append_timeline_frame:
  assumes "append_timeline i now org c ev st = Inr st'"
  obtains row where "st' = st\<lparr>timeline := timeline st @ [row]\<rparr>" "te_org row = org" "te_customer row = c"
    "te_kind row = ev_kind ev" "te_summary row = ev_summary ev" "te_detail row = ev_detail ev"
  using assms by (auto simp: append_timeline_def Let_def split: if_splits)

section \<open>Statuses, tags and fields\<close>

lemma status_insert_ok:
  assumes ok: "crm_ok st" and new: "\<not> slug_taken st row" "\<not> status_key_taken st row"
    and org: "cs_org row \<in> set (organizations st)"
  shows "crm_ok (st\<lparr>statuses := statuses st @ [row]\<rparr>)"
proof (rule statuses_write [OF ok])
  show "statuses_ok (st\<lparr>statuses := statuses st @ [row]\<rparr>)"
    using crm_ok_parts(1) [OF ok] new org
    by (auto simp: statuses_ok_def slug_taken_def status_key_taken_def list_ex_iff)
  show "customers_ok (st\<lparr>statuses := statuses st @ [row]\<rparr>)"
    using crm_ok_parts(4) [OF ok]
    by (auto simp: customers_ok_def customer_ok_def reader_defs list_all_iff intro: ref_ok_mono)
qed

lemma seed_status_ok:
  "seed_status fresh org now p st = Inr st' \<Longrightarrow> crm_ok st \<Longrightarrow> crm_ok st'"
  by (auto simp: seed_status_def Let_def split: if_splits intro: status_insert_ok simp: status_row_def)

lemma seed_statuses_ok: "seed_statuses fresh org now st = Inr st' \<Longrightarrow> crm_ok st \<Longrightarrow> crm_ok st'"
  unfolding seed_statuses_def by (rule foldE_invariant [where P = crm_ok]) (auto intro: seed_status_ok)

lemma seed_loop_ok: "crm_ok st \<Longrightarrow> crm_ok (snd (seed_loop fresh org now ps st))"
  by (induction ps arbitrary: st) (auto split: sum.splits intro: seed_status_ok)

lemma ensure_default_statuses_ok: "crm_ok st \<Longrightarrow> crm_ok (snd (ensure_default_statuses fresh org now st))"
  by (auto simp: ensure_default_statuses_def intro: seed_loop_ok)

lemma default_status_id_ok:
  "default_status_id fresh now org st = Inr (s, st') \<Longrightarrow> crm_ok st \<Longrightarrow> crm_ok st'"
  by (auto simp: default_status_id_def bindE_Inr split: option.splits if_splits intro: seed_statuses_ok)

lemma create_status_ok: "create_status i org d now st = Inr (s, st') \<Longrightarrow> crm_ok st \<Longrightarrow> crm_ok st'"
  by (auto simp: create_status_def Let_def split: if_splits intro!: status_insert_ok simp: status_row_def)

interpretation edit_status_id: keyed_update cs_id "edit_status d now" for d now
  by unfold_locales (simp add: edit_status_def)

interpretation edit_status_slug: keyed_update "\<lambda>s. (cs_org s, cs_slug s)" "edit_status d now" for d now
  by unfold_locales (simp add: edit_status_def)

lemma filter_update_where:
  "(\<And>r. q (f r) = q r) \<Longrightarrow> (\<And>r. k (f r) = k r)
    \<Longrightarrow> map k (filter q (update_where p f rows)) = map k (filter q rows)"
  by (induction rows) (auto simp: update_where_def)

lemma list_all_update_where:
  "list_all q rows \<Longrightarrow> (\<And>r. q r \<Longrightarrow> p r \<Longrightarrow> q (f r)) \<Longrightarrow> list_all q (update_where p f rows)"
  by (induction rows) (auto simp: update_where_def)

lemma image_update_where: "(\<And>r. k (f r) = k r) \<Longrightarrow> k ` set (update_where p f rows) = k ` set rows"
  by (induction rows) (auto simp: update_where_def)

lemma distinct_map_filter_conj:
  "distinct (map k (filter q xs)) \<Longrightarrow> distinct (map k (filter (\<lambda>x. p x \<and> q x) xs))"
  by (induction xs) (auto split: if_splits)

text \<open>A row whose key is free and that clashes with no other.\<close>

lemma no_clash: "\<not> list_ex (\<lambda>r. k r = x \<or> q r) rs \<Longrightarrow> x \<notin> k ` set rs \<and> (\<forall>r\<in>set rs. \<not> q r)"
  by (auto simp: list_ex_iff)

lemma update_status_ok:
  assumes "update_status org i d now st = Inr (s, st')" "crm_ok st"
  shows "crm_ok st'"
proof -
  have st': "st' = st\<lparr>statuses := update_where (\<lambda>s. cs_org s = org \<and> cs_id s = i) (edit_status d now) (statuses st)\<rparr>"
    using assms(1) by (simp add: update_status_def Let_def split: option.splits)
  note parts = crm_ok_parts(1,4) [OF assms(2)]
  show ?thesis
    unfolding st'
  proof (rule statuses_write [OF assms(2)])
    show "statuses_ok (st\<lparr>statuses := update_where (\<lambda>s. cs_org s = org \<and> cs_id s = i)
        (edit_status d now) (statuses st)\<rparr>)"
      using parts(1)
      by (simp add: statuses_ok_def edit_status_id.keys_kept edit_status_slug.keys_kept
          filter_update_where image_update_where edit_status_def)
    show "customers_ok (st\<lparr>statuses := update_where (\<lambda>s. cs_org s = org \<and> cs_id s = i)
        (edit_status d now) (statuses st)\<rparr>)"
      using parts(2)
      by (simp add: customers_ok_def customer_ok_def [abs_def] reader_defs edit_status_id.keys_kept)
  qed
qed

text \<open>A status nobody holds can go.\<close>

lemma unused_status:
  assumes "customers_ok m" "\<forall>c\<in>set (customers m). cu_status c \<noteq> Some i"
  shows "customers_ok (m\<lparr>statuses := filter (\<lambda>s. \<not> (cs_org s = org \<and> cs_id s = i)) (statuses m)\<rparr>)"
proof -
  have "ref_ok r (map cs_id (filter (\<lambda>s. \<not> (cs_org s = org \<and> cs_id s = i)) (statuses m)))"
    if "ref_ok r (map cs_id (statuses m))" "r \<noteq> Some i" for r
    using that by (auto simp: ref_ok_def split: option.splits)
  then show ?thesis
    using assms by (simp add: customers_ok_def customer_ok_def [abs_def] reader_defs list_all_iff)
qed

lemma delete_status_ok:
  assumes "delete_status org i st = Inr st'" "crm_ok st"
  shows "crm_ok st'"
proof -
  have st': "st' = st\<lparr>statuses := filter (\<lambda>s. \<not> (cs_org s = org \<and> cs_id s = i)) (statuses st),
      customers := update_where (\<lambda>c. cu_status c = Some i) drop_status (customers st)\<rparr>"
    using assms(1) by (simp add: delete_status_def Let_def split: if_splits)
  let ?mid = "st\<lparr>customers := update_where (\<lambda>c. cu_status c = Some i) drop_status (customers st)\<rparr>"

  have "crm_ok ?mid"
    using assms(2)
    by (auto simp: crm_ok_def statuses_ok_def tags_ok_def fields_ok_def customers_ok_def customer_ok_def [abs_def]
        identities_ok_def links_ok_def notes_ok_def followups_ok_def followup_ok_def [abs_def] timeline_ok_def
        drop_status.all_kept user_ids_def intro!: list_all_update_where)
      (auto simp: drop_status_def ref_ok_def)
  have "crm_ok (?mid\<lparr>statuses := filter (\<lambda>s. \<not> (cs_org s = org \<and> cs_id s = i)) (statuses ?mid)\<rparr>)"
  proof (rule statuses_write [OF \<open>crm_ok ?mid\<close>])
    show "statuses_ok (?mid\<lparr>statuses := filter (\<lambda>s. \<not> (cs_org s = org \<and> cs_id s = i)) (statuses ?mid)\<rparr>)"
      using crm_ok_parts(1) [OF assms(2)]
      by (auto simp: statuses_ok_def distinct_map_filter distinct_map_filter_conj)
    show "customers_ok (?mid\<lparr>statuses := filter (\<lambda>s. \<not> (cs_org s = org \<and> cs_id s = i)) (statuses ?mid)\<rparr>)"
      by (rule unused_status [OF crm_ok_parts(4) [OF \<open>crm_ok ?mid\<close>]])
        (auto simp: set_update_where drop_status_def)
  qed
  then show ?thesis unfolding st' by (cases st) simp
qed

interpretation edit_tag_id: keyed_update ct_id "edit_tag d now" for d now
  by unfold_locales (simp add: edit_tag_def)

interpretation edit_tag_slug: keyed_update "\<lambda>t. (ct_org t, ct_slug t)" "edit_tag d now" for d now
  by unfold_locales (simp add: edit_tag_def)

lemma create_tag_ok:
  assumes "create_tag i org d now st = Inr (t, st')" "crm_ok st"
  shows "crm_ok st'"
proof -
  obtain row where st': "st' = st\<lparr>tags := tags st @ [row]\<rparr>"
    and new: "ct_id row \<notin> ct_id ` set (tags st)"
      "\<forall>t\<in>set (tags st). \<not> (ct_org t = ct_org row \<and> ct_slug t = ct_slug row)"
      "ct_org row \<in> set (organizations st)"
    using assms(1) by (auto simp: create_tag_def Let_def split: if_splits dest!: no_clash)
  show ?thesis
    unfolding st'
  proof (rule tags_write [OF assms(2)])
    show "tags_ok (st\<lparr>tags := tags st @ [row]\<rparr>)"
      using crm_ok_parts(2) [OF assms(2)] new by (auto simp: tags_ok_def)
    show "links_ok (st\<lparr>tags := tags st @ [row]\<rparr>)"
      using crm_ok_parts(6) [OF assms(2)] by (auto simp: links_ok_def reader_defs list_all_iff)
  qed
qed

lemma update_tag_ok:
  assumes "update_tag org i d now st = Inr (t, st')" "crm_ok st"
  shows "crm_ok st'"
proof -
  have st': "st' = st\<lparr>tags := update_where (\<lambda>t. ct_org t = org \<and> ct_id t = i) (edit_tag d now) (tags st)\<rparr>"
    using assms(1) by (simp add: update_tag_def Let_def split: option.splits)
  show ?thesis
    unfolding st'
  proof (rule tags_write [OF assms(2)])
    show "tags_ok (st\<lparr>tags := update_where (\<lambda>t. ct_org t = org \<and> ct_id t = i) (edit_tag d now) (tags st)\<rparr>)"
      using crm_ok_parts(2) [OF assms(2)]
      by (simp add: tags_ok_def edit_tag_id.keys_kept edit_tag_slug.keys_kept image_update_where edit_tag_def)
    show "links_ok (st\<lparr>tags := update_where (\<lambda>t. ct_org t = org \<and> ct_id t = i) (edit_tag d now) (tags st)\<rparr>)"
      using crm_ok_parts(6) [OF assms(2)]
      by (simp add: links_ok_def reader_defs list_ex_update_where edit_tag_def)
  qed
qed

lemma delete_tag_ok:
  assumes "delete_tag org i st = Inr st'" "crm_ok st"
  shows "crm_ok st'"
proof -
  let ?mid = "st\<lparr>tag_links := filter (\<lambda>l. tl_tag l \<noteq> i) (tag_links st)\<rparr>"
  let ?ts = "filter (\<lambda>t. \<not> (ct_org t = org \<and> ct_id t = i)) (tags st)"
  have "st' = ?mid\<lparr>tags := ?ts\<rparr>"
    using assms(1) by (cases st) (simp add: delete_tag_def Let_def split: if_splits)
  moreover have mid: "crm_ok ?mid"
    using crm_ok_parts(6) [OF assms(2)]
    by (intro links_write assms(2)) (simp add: links_ok_def reader_defs list_all_iff distinct_map_filter)
  moreover have "tags_ok (?mid\<lparr>tags := ?ts\<rparr>)"
    using crm_ok_parts(2) [OF mid] by (auto simp: tags_ok_def distinct_map_filter)
  moreover have "links_ok (?mid\<lparr>tags := ?ts\<rparr>)"
    using crm_ok_parts(6) [OF mid] by (fastforce simp: links_ok_def reader_defs list_all_iff list_ex_iff)
  ultimately show ?thesis using tags_write [OF mid, of ?ts] by simp
qed

lemma create_field_ok:
  assumes "create_custom_field_def i org d now st = Inr (f, st')" "crm_ok st"
  shows "crm_ok st'"
proof -
  obtain row where st': "st' = st\<lparr>field_defs := field_defs st @ [row]\<rparr>"
    and new: "fd_id row \<notin> fd_id ` set (field_defs st)"
      "\<forall>f\<in>set (field_defs st). \<not> (fd_org f = fd_org row \<and> fd_key f = fd_key row)"
      "fd_org row \<in> set (organizations st)" "field_type_check (fd_type row)"
    using assms(1) by (auto simp: create_custom_field_def_def Let_def split: if_splits dest!: no_clash)
  show ?thesis
    unfolding st' using crm_ok_parts(3) [OF assms(2)] new
    by (intro fields_write assms(2)) (auto simp: fields_ok_def)
qed

interpretation edit_field_id: keyed_update fd_id "edit_field_def d now" for d now
  by unfold_locales (simp add: edit_field_def_def)

interpretation edit_field_key: keyed_update "\<lambda>f. (fd_org f, fd_key f)" "edit_field_def d now" for d now
  by unfold_locales (simp add: edit_field_def_def)

lemma update_field_ok:
  assumes "update_custom_field_def org i d now st = Inr (f, st')" "crm_ok st"
  shows "crm_ok st'"
  using assms(1) crm_ok_parts(3) [OF assms(2)]
  by (auto simp: update_custom_field_def_def Let_def fields_ok_def edit_field_id.keys_kept
      edit_field_key.keys_kept edit_field_def_def split: option.splits if_splits
      intro!: fields_write [OF assms(2)] list_all_update_where)

lemma delete_field_ok:
  assumes "delete_custom_field_def org i st = Inr st'" "crm_ok st"
  shows "crm_ok st'"
  using assms(1) crm_ok_parts(3) [OF assms(2)]
  by (auto simp: delete_custom_field_def_def Let_def fields_ok_def list_all_iff
      split: if_splits intro!: fields_write [OF assms(2)] distinct_map_filter)

end
