(* ===== verification/Crm_Writes.thy ===== *)
theory Crm_Writes
  imports Crm_Schema
begin

text \<open>
  Every method of the customer tables keeps the schema, the merge of two customers included.
\<close>

section \<open>The schema after writes to the customers\<close>

lemma customers_write:
  assumes "crm_ok st" "customers_ok (st\<lparr>customers := x\<rparr>)"
    and "\<And>org i. customer_exists st org i \<Longrightarrow> customer_exists (st\<lparr>customers := x\<rparr>) org i"
    and "\<And>org i. known_customer st org i \<Longrightarrow> known_customer (st\<lparr>customers := x\<rparr>) org i"
  shows "crm_ok (st\<lparr>customers := x\<rparr>)"
proof -
  have link: "list_ex (\<lambda>t. ct_id t = tl_tag l \<and> known_customer (st\<lparr>customers := x\<rparr>) (ct_org t) (tl_customer l)) (tags st)"
    if "list_ex (\<lambda>t. ct_id t = tl_tag l \<and> known_customer st (ct_org t) (tl_customer l)) (tags st)" for l
    using that assms(4) by (auto simp: list_ex_iff)
  have "links_ok (st\<lparr>customers := x\<rparr>)"
    using crm_ok_parts(6) [OF assms(1)] by (auto simp: links_ok_def list_all_iff intro!: link)
  then show ?thesis
    using assms(1,2) assms(3,4)
    by (auto simp: crm_ok_def statuses_ok_def tags_ok_def fields_ok_def identities_ok_def
        notes_ok_def followups_ok_def followup_ok_def [abs_def] timeline_ok_def list_all_iff user_ids_def)
qed

lemma insert_customer_ok:
  assumes "insert_customer row st = Inr st'" "crm_ok st" "cu_merged row = None"
  shows "crm_ok st'" "st' = st\<lparr>customers := customers st @ [row]\<rparr>"
proof -
  show st': "st' = st\<lparr>customers := customers st @ [row]\<rparr>"
    using assms(1) by (simp add: insert_customer_def split: if_splits)
  have new: "cu_id row \<notin> cu_id ` set (customers st)" "customer_ok st row"
    using assms(1,3) by (auto simp: insert_customer_def customer_ok_def split: if_splits)
  have edges: "merge_edges (cs @ [row]) = merge_edges cs" for cs
    using assms(3) by (induction cs) auto
  show "crm_ok st'"
    unfolding st'
  proof (rule customers_write [OF assms(2)])
    show "customers_ok (st\<lparr>customers := customers st @ [row]\<rparr>)"
      using crm_ok_parts(4) [OF assms(2)] new
      by (auto simp: customers_ok_def customer_ok_def user_ids_def edges list_all_iff)
  qed auto
qed

text \<open>A profile edit that keeps the references in order.\<close>

lemma profile_write_ok:
  assumes "profile_edit f" "crm_ok st"
    and refs: "\<And>c. customer_ok st c \<Longrightarrow> ref_ok (cu_status (f c)) (map cs_id (statuses st)) \<and>
        ref_ok (cu_assignee (f c)) (user_ids st)"
  shows "crm_ok (st\<lparr>customers := update_where p f (customers st)\<rparr>)"
proof (rule customers_write [OF assms(2)])
  show "customers_ok (st\<lparr>customers := update_where p f (customers st)\<rparr>)"
    using crm_ok_parts(4) [OF assms(2)] refs
    by (auto simp: customers_ok_def profile_edit.all_kept [OF assms(1)] profile_edit.org_kept [OF assms(1)]
        profile_edit.merged_kept [OF assms(1)] customer_ok_def [abs_def] user_ids_def
        intro!: list_all_update_where)
qed (simp_all add: profile_edit.exists_kept [OF assms(1)] profile_edit.known_kept [OF assms(1)])

lemma customer_row_of_Some:
  "customer_row_of st org i = Some c \<Longrightarrow> c \<in> set (customers st) \<and> cu_org c = org \<and> cu_id c = i"
  by (auto simp: customer_row_of_def find_Some_iff)

lemma customer_row_known: "customer_row_of st org i = Some c \<Longrightarrow> known_customer st org i"
  by (auto simp: known_customer_def list_ex_iff dest: customer_row_of_Some)

lemma customer_tag_of_Some:
  "customer_tag_of st org customer tag = Some t \<Longrightarrow>
    t \<in> set (tags st) \<and> ct_id t = tag \<and> ct_org t = org \<and> known_customer st org customer"
  by (auto simp: customer_tag_of_def find_Some_iff known_customer_def list_ex_iff)

lemma known_other [simp]:
  "known_customer (st\<lparr>tag_links := a\<rparr>) = known_customer st"
  "known_customer (st\<lparr>identities := b\<rparr>) = known_customer st"
  "known_customer (st\<lparr>customer_notes := c\<rparr>) = known_customer st"
  "known_customer (st\<lparr>followups := d\<rparr>) = known_customer st"
  "known_customer (st\<lparr>timeline := e\<rparr>) = known_customer st"
  by (simp_all add: known_customer_def fun_eq_iff)

lemma add_customer_tag_ok:
  assumes "add_customer_tag f e now org c t actor st = Inr st'" "crm_ok st"
  shows "crm_ok st'"
proof (cases "list_ex (has_link c t) (tag_links st)")
  case True
  then show ?thesis using assms by (simp add: add_customer_tag_def split: option.splits)
next
  case False
  let ?st = "st\<lparr>tag_links := tag_links st @ [\<lparr>tl_customer = c, tl_tag = t, tl_created = db_time now\<rparr>]\<rparr>"
  obtain tg where tg: "customer_tag_of st org c t = Some tg"
    and st': "append_timeline e now org c (tag_event f TagAdded actor t (ct_name tg)) ?st = Inr st'"
    using assms(1) False by (auto simp: add_customer_tag_def split: option.splits)
  note found = customer_tag_of_Some [OF tg]
  have "links_ok ?st"
    using crm_ok_parts(6) [OF assms(2)] False found
    by (auto simp: links_ok_def list_ex_iff has_link_def)
  then have "crm_ok ?st" by (intro links_write assms(2))
  then show ?thesis by (rule append_timeline_ok [OF st']) (simp add: found)
qed

lemma remove_customer_tag_ok:
  assumes "remove_customer_tag f e now org c t actor st = Inr st'" "crm_ok st"
  shows "crm_ok st'"
proof (cases "affected (has_link c t) (tag_links st) = 0")
  case True
  then show ?thesis using assms by (simp add: remove_customer_tag_def split: option.splits)
next
  case False
  let ?st = "st\<lparr>tag_links := filter (\<lambda>l. \<not> has_link c t l) (tag_links st)\<rparr>"
  obtain tg where tg: "customer_tag_of st org c t = Some tg"
    and st': "append_timeline e now org c (tag_event f TagRemoved actor t (ct_name tg)) ?st = Inr st'"
    using assms(1) False by (auto simp: remove_customer_tag_def split: option.splits)
  have "links_ok ?st"
    using crm_ok_parts(6) [OF assms(2)] by (auto simp: links_ok_def list_all_iff distinct_map_filter)
  then have "crm_ok ?st" by (intro links_write assms(2))
  then show ?thesis by (rule append_timeline_ok [OF st']) (simp add: customer_tag_of_Some [OF tg])
qed

lemma create_customer_tx_ok:
  assumes "create_customer_tx fresh now org p actor st = Inr (i, st')" "crm_ok st"
  shows "crm_ok st'"
proof -
  obtain d st1 row st2 where st1: "default_status_id fresh now org st = Inr (d, st1)"
    and st2: "insert_customer row st1 = Inr st2" and row: "cu_merged row = None" "cu_org row = org"
    and st': "append_timeline (fresh 6) now org (cu_id row) (event_of CustomerCreated actor (cu_name row) []) st2 = Inr st'"
    using assms(1) by (auto simp: create_customer_tx_def Let_def bindE_Inr)
  have "crm_ok st1" by (rule default_status_id_ok [OF st1 assms(2)])
  note ins = insert_customer_ok [OF st2 this row(1)]
  show ?thesis by (rule append_timeline_ok [OF st' ins(1)]) (simp add: ins(2) row)
qed

lemma patch_row_ok:
  assumes "crm_ok st" "ref_ok (deref_null_uuid (pa_status p)) (map cs_id (statuses st))"
    "ref_ok (deref_null_uuid (pa_assignee p)) (user_ids st)"
  shows "crm_ok (st\<lparr>customers := update_where q (patch_row p now) (customers st)\<rparr>)"
  by (rule profile_write_ok [OF _ assms(1)], unfold_locales)
    (use assms(2,3) in \<open>auto simp: patch_row_def or_keep_def deref_null_uuid_def customer_ok_def split: option.splits\<close>)

lemma event_steps_ok:
  "status_change_event i now org c p actor st = Inr st' \<Longrightarrow> crm_ok st \<Longrightarrow> known_customer st org (cu_id c)
    \<Longrightarrow> crm_ok st' \<and> known_customer st' org (cu_id c)"
  "assignee_change_event i now org c p actor st = Inr st' \<Longrightarrow> crm_ok st \<Longrightarrow> known_customer st org (cu_id c)
    \<Longrightarrow> crm_ok st' \<and> known_customer st' org (cu_id c)"
  by (auto simp: status_change_event_def assignee_change_event_def Let_def split: option.splits if_splits
      intro: append_timeline_ok elim: append_timeline_frame)

lemma update_customer_tx_ok:
  assumes "update_customer_tx fresh now org i p actor st = Inr (j, st')" "crm_ok st"
  shows "crm_ok st'"
proof -
  let ?st = "st\<lparr>customers := update_where (\<lambda>c. cu_org c = org \<and> cu_id c = i) (patch_row p now) (customers st)\<rparr>"
  obtain c st2 where c: "customer_row_of st org i = Some c"
    and refs: "ref_ok (deref_null_uuid (pa_status p)) (map cs_id (statuses st))"
      "ref_ok (deref_null_uuid (pa_assignee p)) (user_ids st)"
    and st2: "status_change_event (fresh 0) now org c p actor ?st = Inr st2"
    and st': "assignee_change_event (fresh 1) now org c p actor st2 = Inr st'"
    using assms(1) by (auto simp: update_customer_tx_def bindE_Inr split: option.splits if_splits)
  have "crm_ok ?st" by (rule patch_row_ok [OF assms(2) refs])
  moreover have "known_customer ?st org (cu_id c)"
    using customer_row_known [OF c] customer_row_of_Some [OF c] by (simp add: patch_row.known_kept)
  ultimately show ?thesis using event_steps_ok(1) [OF st2] event_steps_ok(2) [OF st'] by blast
qed

section \<open>The schema after inbound messages, notes and follow-ups\<close>

text \<open>An update of at most one row gives it a key no other row has.\<close>

lemma distinct_update_one:
  assumes "distinct (map k rows)" "distinct (map j rows)"
    and "\<forall>r\<in>set rows. p r \<longrightarrow> k (f r) = x \<and> j r = y" "\<forall>r\<in>set rows. \<not> p r \<longrightarrow> k r \<noteq> x"
  shows "distinct (map k (update_where p f rows))"
  using assms
proof (induction rows)
  case Nil
  then show ?case by simp
next
  case (Cons r rows)
  show ?case
  proof (cases "p r")
    case True
    then have "\<forall>r'\<in>set rows. \<not> p r'" using Cons.prems(2,3) by (fastforce simp: image_iff)
    then show ?thesis using Cons.prems True by (force simp: update_where_def map_idI)
  next
    case False
    then show ?thesis using Cons by (auto simp: update_where_def split: if_splits)
  qed
qed

lemma identity_known: "crm_ok st \<Longrightarrow> i \<in> set (identities st) \<Longrightarrow> customer_exists st (ci_org i) (ci_customer i)"
  using crm_ok_parts(5) by (auto simp: identities_ok_def list_all_iff)

interpretation refresh_identity_id: keyed_update ci_id "refresh_identity d now" for d now
  by unfold_locales (simp add: refresh_identity_def)

interpretation refresh_identity_key:
  keyed_update "\<lambda>i. (ci_org i, ci_channel i, ci_account i, ci_external i)" "refresh_identity d now" for d now
  by unfold_locales (simp add: refresh_identity_def)

lemma refresh_identity_ok:
  assumes "crm_ok st" "\<not> list_ex (\<lambda>k. same_contact d k \<and> \<not> same_identity org d k) (identities st)"
  shows "crm_ok (st\<lparr>identities := update_where (same_identity org d) (refresh_identity d now) (identities st)\<rparr>)"
proof (rule identities_write [OF assms(1)])
  let ?x = "update_where (same_identity org d) (refresh_identity d now) (identities st)"
  note ok = crm_ok_parts(5) [OF assms(1), unfolded identities_ok_def]
  have "distinct (map (\<lambda>i. (ci_channel i, ci_contact i)) ?x)"
    by (rule distinct_update_one [where x = "(ii_channel d, ii_contact d)"
        and y = "(org, ii_channel d, ii_account d, ii_external d)"
        and j = "\<lambda>i. (ci_org i, ci_channel i, ci_account i, ci_external i)"])
      (use ok assms(2) in \<open>auto simp: same_identity_def same_contact_def refresh_identity_def list_ex_iff\<close>)
  moreover have "list_all (\<lambda>i. customer_exists st (ci_org i) (ci_customer i)) ?x"
    using ok by (intro list_all_update_where) (simp_all add: refresh_identity_def)
  ultimately show "identities_ok (st\<lparr>identities := ?x\<rparr>)"
    using ok by (simp add: identities_ok_def refresh_identity_id.keys_kept refresh_identity_key.keys_kept
        customer_exists_def)
qed

lemma insert_identity_ok:
  assumes "insert_identity row st = Inr st'" "crm_ok st" "customer_exists st (ci_org row) (ci_customer row)"
  shows "crm_ok st' \<and> customers st' = customers st"
proof (cases "list_ex (\<lambda>i. ci_channel i = ci_channel row \<and> ci_contact i = ci_contact row) (identities st)")
  case True
  then show ?thesis using assms by (simp add: insert_identity_def)
next
  case False
  then have st': "st' = st\<lparr>identities := identities st @ [row]\<rparr>"
    and new: "ci_id row \<notin> ci_id ` set (identities st)"
      "\<forall>i\<in>set (identities st). \<not> (ci_org i = ci_org row \<and> ci_channel i = ci_channel row \<and>
         ci_account i = ci_account row \<and> ci_external i = ci_external row)"
    using assms(1) by (auto simp: insert_identity_def split: if_splits dest!: no_clash)
  have "identities_ok st'"
    unfolding st' using crm_ok_parts(5) [OF assms(2)] assms(3) False new
    by (auto simp: identities_ok_def customer_exists_def list_ex_iff)
  then show ?thesis unfolding st' by (simp add: identities_write [OF assms(2)])
qed

lemma wrap_error_Inr [result_simps]: "wrap_error r = Inr x \<longleftrightarrow> r = Inr x"
  by (cases r) (simp_all add: wrap_error_def)

lemma known_via: "customers st' = customers st \<Longrightarrow> known_customer st' = known_customer st"
  by (simp add: known_customer_def fun_eq_iff)

lemma resolve_new:
  assumes "resolve_customer_for_contact fresh now org d st = Inr (c, st')" "org \<noteq> 0"
    "find (same_identity org d) (identities st) = None"
  obtains s st1 st2 st3 st4 where "c = fresh 5"
    "default_status_id fresh now org st = Inr (s, st1)"
    "insert_customer (inbound_customer (fresh 5) org d s now) st1 = Inr st2"
    "insert_identity (identity_row (fresh 6) org (fresh 5) d now) st2 = Inr st3"
    "append_timeline (fresh 7) now org (fresh 5) (event_of CustomerCreated None (inbound_name d)
        [(''channel'', ii_channel d), (''source'', ''inbound'')]) st3 = Inr st4"
    "append_timeline (fresh 8) now org (fresh 5) (event_of IdentityLinked None (ii_channel d)
        [(''channel'', ii_channel d), (''external_id'', ii_external d)]) st4 = Inr st'"
  using assms by (auto simp: resolve_customer_for_contact_def result_simps)

lemma resolve_customer_ok:
  assumes "resolve_customer_for_contact fresh now org d st = Inr (c, st')" "crm_ok st"
  shows "crm_ok st'"
proof (cases "org = 0 \<or> (\<exists>i. find (same_identity org d) (identities st) = Some i)")
  case True
  then show ?thesis
    using assms by (auto simp: resolve_customer_for_contact_def split: if_splits intro: refresh_identity_ok)
next
  case False
  then have new: "org \<noteq> 0" "find (same_identity org d) (identities st) = None" by auto
  obtain s st1 st2 st3 st4 where
    st1: "default_status_id fresh now org st = Inr (s, st1)"
    and st2: "insert_customer (inbound_customer (fresh 5) org d s now) st1 = Inr st2"
    and st3: "insert_identity (identity_row (fresh 6) org (fresh 5) d now) st2 = Inr st3"
    and st4: "append_timeline (fresh 7) now org (fresh 5) (event_of CustomerCreated None (inbound_name d)
        [(''channel'', ii_channel d), (''source'', ''inbound'')]) st3 = Inr st4"
    and st': "append_timeline (fresh 8) now org (fresh 5) (event_of IdentityLinked None (ii_channel d)
        [(''channel'', ii_channel d), (''external_id'', ii_external d)]) st4 = Inr st'"
    by (rule resolve_new [OF assms(1) new])
  have ok1: "crm_ok st1" by (rule default_status_id_ok [OF st1 assms(2)])
  note ok2 = insert_customer_ok [OF st2 ok1]
  have ok3: "crm_ok st3 \<and> customers st3 = customers st2"
    by (rule insert_identity_ok [OF st3 ok2(1)]) (simp_all add: ok2(2) identity_row_def inbound_customer_def)
  have known: "known_customer st3 org (fresh 5)"
    using ok3 ok2(2) by (simp add: known_via [of st3 st2] inbound_customer_def)
  have "crm_ok st4" using append_timeline_ok [OF st4] ok3 known by blast
  moreover have "known_customer st4 org (fresh 5)"
    using st4 known by (elim append_timeline_frame) simp
  ultimately show ?thesis by (rule append_timeline_ok [OF st'])
qed

lemma add_note_ok:
  assumes "add_note_tx f fresh now org c author body st = Inr st'" "crm_ok st"
  shows "crm_ok st'"
proof -
  obtain row ev where
    st': "append_timeline (fresh 1) now org c ev (st\<lparr>customer_notes := customer_notes st @ [row]\<rparr>) = Inr st'"
    and ex: "customer_exists st org c"
    and row: "cn_id row = fresh 0" "cn_org row = org" "cn_customer row = c" "cn_author row = author"
    and new: "fresh 0 \<notin> cn_id ` set (customer_notes st)" "ref_ok author (user_ids st)"
    using assms(1) by (auto simp: add_note_tx_def split: if_splits)
  have "notes_ok (st\<lparr>customer_notes := customer_notes st @ [row]\<rparr>)"
    using crm_ok_parts(7) [OF assms(2)] new row ex by (auto simp: notes_ok_def reader_defs)
  then have "crm_ok (st\<lparr>customer_notes := customer_notes st @ [row]\<rparr>)" by (intro notes_write assms(2))
  then show ?thesis by (rule append_timeline_ok [OF st']) (simp add: exists_known [OF ex])
qed

interpretation edit_note_id: keyed_update cn_id "edit_note body now" for body now
  by unfold_locales (simp add: edit_note_def)

lemma update_note_ok: "crm_ok st \<Longrightarrow> crm_ok (snd (update_customer_note org i body now st))"
  using crm_ok_parts(7) [of st]
  by (auto simp: update_customer_note_def Let_def notes_ok_def edit_note_id.keys_kept customer_exists_def
      user_ids_def edit_note_def intro!: notes_write list_all_update_where)

lemma delete_note_ok: "delete_customer_note org i st = Inr st' \<Longrightarrow> crm_ok st \<Longrightarrow> crm_ok st'"
  using crm_ok_parts(7) [of st]
  by (auto simp: delete_customer_note_def Let_def notes_ok_def customer_exists_def user_ids_def list_all_iff
      split: if_splits intro!: notes_write distinct_map_filter)

lemma create_followup_ok:
  assumes "create_followup_tx f fresh now org d actor st = Inr st'" "crm_ok st"
  shows "crm_ok st'"
proof -
  obtain row ev where
    st': "append_timeline (fresh 1) now org (fi_customer d) ev (st\<lparr>followups := followups st @ [row]\<rparr>) = Inr st'"
    and ex: "customer_exists st org (fi_customer d)"
    and row: "fu_id row = fresh 0" "followup_ok st row"
    and new: "fresh 0 \<notin> fu_id ` set (followups st)"
    using assms(1) by (auto simp: create_followup_tx_def followup_ok_def state_check_def split: if_splits)
  have "followups_ok (st\<lparr>followups := followups st @ [row]\<rparr>)"
    using crm_ok_parts(8) [OF assms(2)] new row by (auto simp: followups_ok_def followup_ok_def [abs_def] reader_defs)
  then have "crm_ok (st\<lparr>followups := followups st @ [row]\<rparr>)" by (intro followups_write assms(2))
  then show ?thesis by (rule append_timeline_ok [OF st']) (simp add: exists_known [OF ex])
qed

lemma followup_row_of_Some:
  "followup_row_of st org i = Some f \<Longrightarrow> f \<in> set (followups st) \<and> fu_org f = org \<and> fu_id f = i"
  by (auto simp: followup_row_of_def find_Some_iff)

lemma followup_write_ok:
  assumes "crm_ok st" "\<And>f. fu_id (upd f) = fu_id f" "\<And>f. followup_ok st f \<Longrightarrow> followup_ok st (upd f)"
  shows "crm_ok (st\<lparr>followups := update_where p upd (followups st)\<rparr>)"
proof (rule followups_write [OF assms(1)])
  have "map fu_id (update_where p upd fs) = map fu_id fs" for fs
    by (induction fs) (auto simp: update_where_def assms(2))
  moreover have "followup_ok (st\<lparr>followups := x\<rparr>) = followup_ok st" for x
    by (simp add: followup_ok_def fun_eq_iff reader_defs)
  ultimately show "followups_ok (st\<lparr>followups := update_where p upd (followups st)\<rparr>)"
    using crm_ok_parts(8) [OF assms(1)] assms(3) by (auto simp: followups_ok_def intro!: list_all_update_where)
qed

lemma reschedule_ok:
  assumes "reschedule_tx f fresh now org i d actor st = Inr st'" "crm_ok st"
  shows "crm_ok st'"
proof -
  let ?st = "st\<lparr>followups := update_where (\<lambda>r. fu_org r = org \<and> fu_id r = i) (reschedule_row d now) (followups st)\<rparr>"
  obtain fu ev where fu: "followup_row_of st org i = Some fu"
    and d: "action_check (fi_action d)" "minute_check (fi_minute d)" "ref_ok (fi_assignee d) (user_ids st)"
    and st': "append_timeline (fresh 0) now org (fu_customer fu) ev ?st = Inr st'"
    using assms(1) by (auto simp: reschedule_tx_def split: option.splits if_splits)
  have "crm_ok ?st"
    by (rule followup_write_ok [OF assms(2)])
      (use d in \<open>auto simp: followup_ok_def reschedule_row_def state_check_def\<close>)
  moreover have "known_customer st org (fu_customer fu)"
    using followup_row_of_Some [OF fu] crm_ok_parts(8) [OF assms(2)]
    by (auto simp: followups_ok_def followup_ok_def list_all_iff intro!: exists_known)
  ultimately show ?thesis using append_timeline_ok [OF st'] by simp
qed

lemma set_state_ok:
  assumes "set_state_tx f fresh now org i s actor st = Inr st'" "crm_ok st"
  shows "crm_ok st'"
proof -
  let ?st = "st\<lparr>followups := update_where (\<lambda>r. fu_org r = org \<and> fu_id r = i) (followup_state_row s now) (followups st)\<rparr>"
  obtain fu ev where fu: "followup_row_of st org i = Some fu" and s: "state_check s"
    and st': "append_timeline (fresh 0) now org (fu_customer fu) ev ?st = Inr st'"
    using assms(1) by (auto simp: set_state_tx_def split: option.splits if_splits)
  have "crm_ok ?st"
    by (rule followup_write_ok [OF assms(2)]) (use s in \<open>auto simp: followup_ok_def followup_state_row_def\<close>)
  moreover have "known_customer st org (fu_customer fu)"
    using followup_row_of_Some [OF fu] crm_ok_parts(8) [OF assms(2)]
    by (auto simp: followups_ok_def followup_ok_def list_all_iff intro!: exists_known)
  ultimately show ?thesis using append_timeline_ok [OF st'] by simp
qed

section \<open>The schema after a merge\<close>

lemma locked_customer_Inr:
  "locked_customer st org i = Inr c \<Longrightarrow>
    c \<in> set (customers st) \<and> cu_org c = org \<and> cu_id c = i \<and> cu_merged c = None"
  by (auto simp: locked_customer_def split: option.splits if_splits dest: customer_row_of_Some)

lemma locked_exists: "locked_customer st org i = Inr c \<Longrightarrow> customer_exists st org i"
  by (auto simp: customer_exists_def list_ex_iff dest: locked_customer_Inr)

lemma same_customer:
  "customers_ok st \<Longrightarrow> c \<in> set (customers st) \<Longrightarrow> d \<in> set (customers st) \<Longrightarrow> cu_id c = cu_id d \<Longrightarrow> c = d"
  by (auto simp: customers_ok_def distinct_map dest: inj_onD)

lemma list_ex_gone:
  "(\<And>r. \<not> q (f r)) \<Longrightarrow> list_ex q (update_where p f rows) = list_ex (\<lambda>r. q r \<and> \<not> p r) rows"
  by (induction rows) (auto simp: update_where_def)

lemma map_update_where: "(\<And>r. k (f r) = k r) \<Longrightarrow> map k (update_where p f rows) = map k rows"
  by (rule keyed_update.keys_kept) unfold_locales

text \<open>What \<open>bury\<close> does to a table in which the buried customer is live.\<close>

abbreviation is_source :: "uuid \<Rightarrow> uuid \<Rightarrow> customer_row \<Rightarrow> bool" where
  "is_source org i \<equiv> (\<lambda>c. cu_org c = org \<and> cu_id c = i)"

lemma bury_exists:
  "customer_exists (st\<lparr>customers := update_where (is_source org s) (bury t now) (customers st)\<rparr>) o' i
     \<longleftrightarrow> customer_exists st o' i \<and> \<not> (o' = org \<and> i = s)" (is "?l \<longleftrightarrow> ?r")
proof -
  have "?l \<longleftrightarrow> list_ex (\<lambda>c. (cu_org c = o' \<and> cu_id c = i \<and> cu_merged c = None) \<and> \<not> is_source org s c) (customers st)"
    by (simp add: customer_exists_def list_ex_gone bury_def)
  also have "\<dots> \<longleftrightarrow> ?r" by (auto simp: customer_exists_def list_ex_iff)
  finally show ?thesis .
qed

lemma bury_known:
  "known_customer (st\<lparr>customers := update_where p (bury t now) (customers st)\<rparr>) = known_customer st"
  by (simp add: fun_eq_iff known_customer_def list_ex_update_where bury_def)

lemma bury_ids: "map cu_id (update_where p (bury t now) cs) = map cu_id cs"
  by (induction cs) (auto simp: update_where_def bury_def)

lemma bury_edges:
  assumes "\<exists>c\<in>set cs. is_source org s c" "\<forall>c\<in>set cs. is_source org s c \<longrightarrow> cu_merged c = None"
  shows "merge_edges (update_where (is_source org s) (bury t now) cs) = insert (s, t) (merge_edges cs)"
proof (intro set_eqI iffI)
  fix e
  assume "e \<in> merge_edges (update_where (is_source org s) (bury t now) cs)"
  then show "e \<in> insert (s, t) (merge_edges cs)"
    by (auto simp: merge_edges_def update_where_def bury_def split: if_splits)
next
  fix e
  assume "e \<in> insert (s, t) (merge_edges cs)"
  then consider "e = (s, t)" | c j where "e = (cu_id c, j)" "c \<in> set cs" "cu_merged c = Some j"
    by (auto simp: merge_edges_def)
  then show "e \<in> merge_edges (update_where (is_source org s) (bury t now) cs)"
  proof cases
    case 1
    from assms(1) obtain c where "c \<in> set cs" "is_source org s c" by blast
    then have "bury t now c \<in> set (update_where (is_source org s) (bury t now) cs)"
      by (force simp: update_where_def)
    then show ?thesis
      using 1 \<open>is_source org s c\<close>
      by (auto simp: merge_edges_def bury_def intro!: exI [of _ "bury t now c"])
  next
    case 2
    then have "\<not> is_source org s c" using assms(2) by fastforce
    then have "c \<in> set (update_where (is_source org s) (bury t now) cs)"
      using 2(2) by (force simp: update_where_def)
    then show ?thesis using 2 unfolding merge_edges_def by blast
  qed
qed

lemma live_no_edge:
  assumes "customers_ok st" "c \<in> set (customers st)" "cu_merged c = None"
  shows "(cu_id c, j) \<notin> merge_edges (customers st)"
  using same_customer [OF assms(1) _ assms(2)] assms(3) by (fastforce simp: merge_edges_def)

lemma bury_customers_ok:
  assumes ok: "customers_ok st" and t: "t \<in> set (customers st)" "cu_org t = org" "cu_merged t = None"
    and s: "s \<in> set (customers st)" "cu_org s = org" "cu_merged s = None" and ne: "cu_id t \<noteq> cu_id s"
  shows "customers_ok (st\<lparr>customers := update_where (is_source org (cu_id s)) (bury (cu_id t) now) (customers st)\<rparr>)"
proof -
  have "cu_merged c = None" if "c \<in> set (customers st)" "is_source org (cu_id s) c" for c
    using same_customer [OF ok that(1) s(1)] that(2) s(3) by simp
  then have edges: "merge_edges (update_where (is_source org (cu_id s)) (bury (cu_id t) now) (customers st))
      = insert (cu_id s, cu_id t) (merge_edges (customers st))"
    using s by (intro bury_edges) auto
  have "(cu_id t, cu_id s) \<notin> (merge_edges (customers st))\<^sup>*"
    using live_no_edge [OF ok t(1,3)] ne by (auto elim: converse_rtranclE)
  then have "acyclic (insert (cu_id s, cu_id t) (merge_edges (customers st)))"
    using ok by (simp add: acyclic_insert customers_ok_def)
  moreover have "known_customer st org (cu_id t)" using t by (auto simp: known_customer_def list_ex_iff)
  ultimately show ?thesis
    using ok by (auto simp: customers_ok_def customer_ok_def [abs_def] bury_known bury_ids edges user_ids_def
        intro!: list_all_update_where) (auto simp: bury_def)
qed

text \<open>A child row of a live customer still has one after it moved from the source to the target.\<close>

lemma moved_child:
  assumes "customers_ok st" "customer_exists st o' c" "customer_exists st org target" "customer_exists st org source"
    "target \<noteq> source" "c' = (if c = source then target else c)"
  shows "customer_exists st o' c' \<and> \<not> (o' = org \<and> c' = source)"
proof -
  have "o' = org" if "c = source"
    using assms(2,4) same_customer [OF assms(1)] that by (auto simp: customer_exists_def list_ex_iff)
  then show ?thesis using assms(2,3,5,6) by auto
qed

lemma union_links_in:
  assumes "l \<in> set (union_links target source now ls)"
  shows "tl_customer l \<noteq> source \<and> (l \<in> set ls \<or> tl_customer l = target \<and>
    (\<exists>m\<in>set ls. tl_customer m = source \<and> tl_tag m = tl_tag l) \<and> \<not> list_ex (has_link target (tl_tag l)) ls)"
  using assms by (auto simp: union_links_def)

lemma union_links_distinct:
  assumes "distinct (map (\<lambda>l. (tl_customer l, tl_tag l)) ls)"
  shows "distinct (map (\<lambda>l. (tl_customer l, tl_tag l)) (union_links target source now ls))"
proof -
  let ?new = "filter (\<lambda>l. tl_customer l = source \<and> \<not> list_ex (has_link target (tl_tag l)) ls) ls"
  have "distinct (map tl_tag ?new)"
    using assms by (auto simp: distinct_map inj_on_def)
  then have "distinct (map (\<lambda>l. (target, tl_tag l)) ?new)"
    by (auto simp: distinct_map inj_on_def)
  then have "distinct (map (\<lambda>l. (tl_customer l, tl_tag l))
      (ls @ map (\<lambda>l. \<lparr>tl_customer = target, tl_tag = tl_tag l, tl_created = db_time now\<rparr>) ?new))"
    using assms by (auto simp: o_def list_ex_iff has_link_def)
  then show ?thesis unfolding union_links_def by (rule distinct_map_filter)
qed

lemma merge_state_ok:
  assumes ok: "crm_ok st" and t: "locked_customer st org target = Inr trow"
    and s: "locked_customer st org source = Inr srow" and ne: "target \<noteq> source"
  shows "crm_ok (fold_source org target srow now (repoint_children target source now st))"
    "known_customer (fold_source org target srow now (repoint_children target source now st)) org target"
proof -
  define cs where "cs = update_where (is_source org target) (fill_blanks srow now) (customers st)"
  define st1 where "st1 = st\<lparr>customers := cs\<rparr>"
  define st2 where "st2 = st1\<lparr>customers := update_where (is_source org source) (bury target now) (customers st1)\<rparr>"
  define m where "m = fold_source org target srow now (repoint_children target source now st)"
  note srow = locked_customer_Inr [OF s] and trow = locked_customer_Inr [OF t]
  note parts = crm_ok_parts [OF ok]
  have ok1: "crm_ok st1"
    unfolding st1_def cs_def
    by (rule profile_write_ok [OF _ ok], unfold_locales)
      (use parts(4) srow in \<open>auto simp: fill_blanks_def customers_ok_def customer_ok_def list_all_iff\<close>)
  have ex1: "customer_exists st1 = customer_exists st" and kn1: "known_customer st1 = known_customer st"
    by (simp_all add: fun_eq_iff st1_def cs_def fill_blanks.exists_kept fill_blanks.known_kept)
  obtain t1 where t1: "t1 \<in> set (customers st1)" "cu_org t1 = org" "cu_id t1 = target" "cu_merged t1 = None"
    using locked_exists [OF t, folded ex1] by (auto simp: customer_exists_def list_ex_iff)
  obtain s1 where s1: "s1 \<in> set (customers st1)" "cu_org s1 = org" "cu_id s1 = source" "cu_merged s1 = None"
    using locked_exists [OF s, folded ex1] by (auto simp: customer_exists_def list_ex_iff)
  have cust: "customers_ok st2"
    using bury_customers_ok [OF crm_ok_parts(4) [OF ok1] t1(1,2,4) s1(1,2,4)] t1(3) s1(3) ne
    by (simp add: st2_def)
  have ex2: "customer_exists st2 o' i \<longleftrightarrow> customer_exists st o' i \<and> \<not> (o' = org \<and> i = source)" for o' i
    unfolding st2_def bury_exists ex1 ..
  have kn2: "known_customer st2 = known_customer st"
    unfolding st2_def bury_known kn1 ..
  have m: "identities m = update_where (\<lambda>i. ci_customer i = source) (move_identity target now) (identities st)"
    "customer_notes m = update_where (\<lambda>n. cn_customer n = source) (move_note target now) (customer_notes st)"
    "followups m = update_where (\<lambda>f. fu_customer f = source) (move_followup target now) (followups st)"
    "timeline m = update_where (\<lambda>e. te_customer e = source) (move_event target) (timeline st)"
    "tag_links m = union_links target source now (tag_links st)"
    "customers m = customers st2" "statuses m = statuses st" "tags m = tags st" "field_defs m = field_defs st"
    "organizations m = organizations st" "users m = users st"
    using srow by (simp_all add: m_def fold_source_def repoint_children_def st2_def st1_def cs_def)
  have readers: "customer_exists m = customer_exists st2" "known_customer m = known_customer st"
      "user_ids m = user_ids st"
    using kn2 by (simp_all add: fun_eq_iff reader_defs m)
  have sources: "customer_exists st org source" "known_customer st org target"
    using locked_exists [OF s] exists_known [OF locked_exists [OF t]] .
  have child: "customer_exists m o' (if c = source then target else c)" if "customer_exists st o' c" for o' c
    using moved_child [OF parts(4) that locked_exists [OF t] sources(1) ne refl] ex2 readers(1) by simp
  have moved: "customer_exists m o' target" if "customer_exists st o' source" for o'
    using child [OF that] by simp
  have stays: "customer_exists m o' c" if "customer_exists st o' c" "c \<noteq> source" for o' c
    using child [OF that(1)] that(2) by simp
  have link: "known_customer st o' target" if "known_customer st o' source" for o'
    using that sources same_customer [OF parts(4)] by (auto simp: reader_defs list_ex_iff)
  show "known_customer (fold_source org target srow now (repoint_children target source now st)) org target"
    using readers(2) sources(2) by (simp add: m_def)
  have "crm_ok m"
    unfolding crm_ok_def
  proof (intro conjI)
    show "statuses_ok m" "tags_ok m" "fields_ok m"
      using parts(1-3) by (simp_all add: statuses_ok_def tags_ok_def fields_ok_def m)
    show "customers_ok m"
    proof -
      have "statuses st2 = statuses st" "organizations st2 = organizations st" "users st2 = users st"
        by (simp_all add: st2_def st1_def)
      then show ?thesis
        using cust by (simp add: customers_ok_def customer_ok_def [abs_def] readers kn2 m user_ids_def)
    qed
    show "identities_ok m"
      using parts(5) moved stays by (simp add: identities_ok_def m map_update_where move_identity_def)
        (auto simp: list_all_iff update_where_def move_identity_def)
    show "links_ok m"
    proof -
      have old: "\<exists>t\<in>set (tags st). ct_id t = tl_tag l \<and> known_customer st (ct_org t) (tl_customer l)"
        if "l \<in> set (tag_links st)" for l
        using parts(6) that by (auto simp: links_ok_def list_all_iff list_ex_iff)
      have "\<exists>t\<in>set (tags st). ct_id t = tl_tag l \<and> known_customer st (ct_org t) (tl_customer l)"
        if "l \<in> set (union_links target source now (tag_links st))" for l
        using union_links_in [OF that] old link by metis
      then show ?thesis
        using parts(6) by (auto simp: links_ok_def m readers list_all_iff list_ex_iff intro: union_links_distinct)
    qed
    show "notes_ok m"
      using parts(7) moved stays by (simp add: notes_ok_def m readers(3) map_update_where move_note_def)
        (auto simp: list_all_iff update_where_def move_note_def)
    show "followups_ok m"
      using parts(8) moved stays by (simp add: followups_ok_def followup_ok_def [abs_def] m readers(3) map_update_where move_followup_def)
        (auto simp: list_all_iff update_where_def move_followup_def)
    show "timeline_ok m"
      using parts(9) link by (simp add: timeline_ok_def m readers map_update_where move_event_def)
        (auto simp: list_all_iff update_where_def move_event_def)
  qed
  then show "crm_ok (fold_source org target srow now (repoint_children target source now st))"
    by (simp add: m_def)
qed

lemma merge_tx_ok:
  assumes "merge_tx f e now org target source actor st = Inr (i, st')" "crm_ok st"
  shows "crm_ok st'"
proof -
  obtain trow srow ev where ne: "target \<noteq> source" and t: "locked_customer st org target = Inr trow"
    and s: "locked_customer st org source = Inr srow"
    and st': "append_timeline e now org target ev
        (fold_source org target srow now (repoint_children target source now st)) = Inr st'"
    using assms(1) by (auto simp: merge_tx_def Let_def bindE_Inr split: if_splits)
  show ?thesis by (rule append_timeline_ok [OF st' merge_state_ok [OF assms(2) t s ne]])
qed

end
