(* ===== verification/Crm_Safety.thy ===== *)
theory Crm_Safety
  imports Crm_Writes
begin

text \<open>
  What the customer tables promise. The steps are the methods, each labelled with the organization on
  whose behalf it runs. The schema holds in every reachable database, an id of a customer always leads
  to a live profile, an inbound identity keeps its customer through merges, a merge loses no child
  row, and no organization changes the data of another.
\<close>

section \<open>Steps\<close>

inductive crm_step :: "uuid \<Rightarrow> crm \<Rightarrow> crm \<Rightarrow> bool" where
  seed: "crm_step org st (snd (ensure_default_statuses fresh org now st))"
| create_status: "create_status i org d now st = Inr (s, st') \<Longrightarrow> crm_step org st st'"
| update_status: "update_status org i d now st = Inr (s, st') \<Longrightarrow> crm_step org st st'"
| delete_status: "delete_status org i st = Inr st' \<Longrightarrow> crm_step org st st'"
| create_tag: "create_tag i org td now st = Inr (t, st') \<Longrightarrow> crm_step org st st'"
| update_tag: "update_tag org i td now st = Inr (t, st') \<Longrightarrow> crm_step org st st'"
| delete_tag: "delete_tag org i st = Inr st' \<Longrightarrow> crm_step org st st'"
| create_field: "create_custom_field_def i org fd now st = Inr (f, st') \<Longrightarrow> crm_step org st st'"
| update_field: "update_custom_field_def org i fd now st = Inr (f, st') \<Longrightarrow> crm_step org st st'"
| delete_field: "delete_custom_field_def org i st = Inr st' \<Longrightarrow> crm_step org st st'"
| add_tag: "add_customer_tag g i now org c tg actor st = Inr st' \<Longrightarrow> crm_step org st st'"
| remove_tag: "remove_customer_tag g i now org c tg actor st = Inr st' \<Longrightarrow> crm_step org st st'"
| create_customer: "crm_step org st (snd (create_customer fresh now org p actor st))"
| update_customer: "crm_step org st (snd (update_customer fresh now org i p actor st))"
| inbound: "resolve_customer_for_contact fresh now org din st = Inr (c, st') \<Longrightarrow> crm_step org st st'"
| add_note: "crm_step org st (snd (add_customer_note g fresh now org c actor body st))"
| update_note: "crm_step org st (snd (update_customer_note org i body now st))"
| delete_note: "delete_customer_note org i st = Inr st' \<Longrightarrow> crm_step org st st'"
| create_followup: "crm_step org st (snd (create_followup g fresh now org dfu actor st))"
| reschedule: "crm_step org st (snd (reschedule_followup g fresh now org i dfu actor st))"
| set_state: "crm_step org st (snd (set_followup_state g fresh now org i state actor st))"
| merge: "crm_step org st (snd (merge_customers g e now org target source actor st))"

definition empty_crm :: "uuid list \<Rightarrow> user_row list \<Rightarrow> crm" where
  "empty_crm orgs us = \<lparr>organizations = orgs, users = us, statuses = [], tags = [], field_defs = [],
     customers = [], identities = [], tag_links = [], customer_notes = [], followups = [], timeline = []\<rparr>"

inductive crm_reachable :: "uuid list \<Rightarrow> user_row list \<Rightarrow> crm \<Rightarrow> bool" for orgs us where
  start: "crm_reachable orgs us (empty_crm orgs us)"
| next_step: "crm_reachable orgs us st \<Longrightarrow> crm_step org st st' \<Longrightarrow> crm_reachable orgs us st'"

lemma empty_crm_ok: "crm_ok (empty_crm orgs us)"
  by (simp add: empty_crm_def crm_ok_def part_defs acyclic_def)

text \<open>A method that commits and then reads leaves what its transaction left.\<close>

lemma commit_and_read_state:
  "snd (commit_and_read org st r) = (case r of Inl e \<Rightarrow> st | Inr (i, st') \<Rightarrow> st')"
  by (simp add: commit_and_read_def split: sum.split prod.split)

lemma commit_followup_state: "snd (commit_followup org i st r) = (case r of Inl e \<Rightarrow> st | Inr st' \<Rightarrow> st')"
  by (simp add: commit_followup_def split: sum.split)

lemmas committed_defs = create_customer_def update_customer_def merge_customers_def create_followup_def
  reschedule_followup_def set_followup_state_def add_customer_note_def commit_and_read_state
  commit_followup_state

lemma step_keeps_schema: "crm_step org st st' \<Longrightarrow> crm_ok st \<Longrightarrow> crm_ok st'"
proof (induction rule: crm_step.induct)
  case seed
  then show ?case by (rule ensure_default_statuses_ok)
next
  case update_note
  then show ?case by (rule update_note_ok)
qed (auto simp: committed_defs split: sum.splits
  intro: create_status_ok update_status_ok delete_status_ok create_tag_ok update_tag_ok delete_tag_ok
    create_field_ok update_field_ok delete_field_ok add_customer_tag_ok remove_customer_tag_ok
    create_customer_tx_ok update_customer_tx_ok resolve_customer_ok add_note_ok delete_note_ok
    create_followup_ok reschedule_ok set_state_ok merge_tx_ok)

lemma reachable_ok: "crm_reachable orgs us st \<Longrightarrow> crm_ok st"
  by (induction rule: crm_reachable.induct) (auto intro: empty_crm_ok step_keeps_schema)

section \<open>Survivors\<close>

lemma finite_merge_edges: "finite (merge_edges cs)"
  by (induction cs) (auto split: option.splits)

lemma customer_row_of_member:
  assumes "customers_ok st" "c \<in> set (customers st)"
  shows "customer_row_of st (cu_org c) (cu_id c) = Some c"
proof -
  obtain d where d: "customer_row_of st (cu_org c) (cu_id c) = Some d"
    using assms(2) by (cases "customer_row_of st (cu_org c) (cu_id c)")
      (auto simp: customer_row_of_def find_None_iff)
  then show ?thesis using customer_row_of_Some [OF d] same_customer [OF assms(1)] assms(2) by auto
qed

text \<open>The chain of merges from any customer ends at a live customer of the same organization.\<close>

lemma surviving_row_exists:
  assumes ok: "customers_ok st" and "c \<in> set (customers st)"
  shows "\<exists>s. surviving_row st (cu_org c) (cu_id c) = Some (Inr s) \<and> s \<in> set (customers st) \<and>
    cu_merged s = None \<and> cu_org s = cu_org c \<and> (cu_id c, cu_id s) \<in> (merge_edges (customers st))\<^sup>*"
proof -
  have "wf ((merge_edges (customers st))\<inverse>)"
    using ok finite_merge_edges by (auto simp: customers_ok_def intro: finite_acyclic_wf_converse)
  then show ?thesis
    using assms(2)
  proof (induction "cu_id c" arbitrary: c rule: wf_induct_rule)
    case less
    note row = customer_row_of_member [OF ok less.prems]
    show ?case
    proof (cases "cu_merged c")
      case None
      then show ?thesis using row less.prems by (subst surviving_row.simps) auto
    next
      case (Some j)
      then have edge: "(cu_id c, j) \<in> merge_edges (customers st)"
        using less.prems by (auto simp: merge_edges_def)
      obtain d where d: "d \<in> set (customers st)" "cu_org d = cu_org c" "cu_id d = j"
        using ok less.prems Some
        by (auto simp: customers_ok_def list_all_iff customer_ok_def known_customer_def list_ex_iff)
      have "(cu_id d, cu_id c) \<in> (merge_edges (customers st))\<inverse>" using edge d by simp
      from less.hyps [OF this d(1)] obtain s where
        "surviving_row st (cu_org d) (cu_id d) = Some (Inr s)" "s \<in> set (customers st)" "cu_merged s = None"
        "cu_org s = cu_org d" "(cu_id d, cu_id s) \<in> (merge_edges (customers st))\<^sup>*" by blast
      moreover have "surviving_row st (cu_org c) (cu_id c) = surviving_row st (cu_org c) j"
        using row Some by (subst surviving_row.simps) simp
      ultimately show ?thesis using d edge by (auto intro: converse_rtrancl_into_rtrancl)
    qed
  qed
qed

section \<open>Organizations do not touch each other\<close>

text \<open>
  What an organization owns, row by row, a reference of its customers to a status of another
  organization included: nothing prevents one, and then the other organization can clear it.
\<close>

definition org_view :: "uuid \<Rightarrow> crm \<Rightarrow> crm" where
  "org_view o' st = st\<lparr>
     statuses := org_statuses st o',
     tags := filter (\<lambda>t. ct_org t = o') (tags st),
     field_defs := filter (\<lambda>f. fd_org f = o') (field_defs st),
     customers := filter (\<lambda>c. cu_org c = o') (customers st),
     identities := filter (\<lambda>i. ci_org i = o') (identities st),
     tag_links := filter (\<lambda>l. known_customer st o' (tl_customer l)) (tag_links st),
     customer_notes := filter (\<lambda>n. cn_org n = o') (customer_notes st),
     followups := filter (\<lambda>f. fu_org f = o') (followups st),
     timeline := filter (\<lambda>e. te_org e = o') (timeline st)\<rparr>"

text \<open>The references to one status cleared, and nothing else.\<close>

definition clear_status :: "uuid \<Rightarrow> crm \<Rightarrow> crm" where
  "clear_status i st = st\<lparr>customers :=
     map (\<lambda>c. if cu_status c = Some i then c\<lparr>cu_status := None\<rparr> else c) (customers st)\<rparr>"

lemma filter_other:
  "(\<And>r. r \<in> set rows \<Longrightarrow> p r \<Longrightarrow> \<not> q r \<and> \<not> q (f r)) \<Longrightarrow> filter q (update_where p f rows) = filter q rows"
  by (induction rows) (auto simp: update_where_def)

text \<open>Editing or deleting rows of another organization.\<close>

lemma edited_elsewhere:
  assumes "a \<noteq> o'"
  shows "filter (\<lambda>s. cs_org s = o') (update_where (\<lambda>s. cs_org s = a \<and> cs_id s = i) (edit_status sd now) ss)
      = filter (\<lambda>s. cs_org s = o') ss"
    "filter (\<lambda>t. ct_org t = o') (update_where (\<lambda>t. ct_org t = a \<and> ct_id t = i) (edit_tag td now) ts)
      = filter (\<lambda>t. ct_org t = o') ts"
    "filter (\<lambda>f. fd_org f = o') (update_where (\<lambda>f. fd_org f = a \<and> fd_id f = i) (edit_field_def fd now) fs)
      = filter (\<lambda>f. fd_org f = o') fs"
    "filter (\<lambda>n. cn_org n = o') (update_where (\<lambda>n. cn_org n = a \<and> cn_id n = i) (edit_note body now) ns)
      = filter (\<lambda>n. cn_org n = o') ns"
  using assms by (intro filter_other; auto simp: edit_status_def edit_tag_def edit_field_def_def edit_note_def)+

lemma deleted_elsewhere:
  assumes "a \<noteq> o'"
  shows "filter (\<lambda>s. (cs_org s = a \<longrightarrow> cs_id s \<noteq> i) \<and> cs_org s = o') ss = filter (\<lambda>s. cs_org s = o') ss"
    "filter (\<lambda>t. (ct_org t = a \<longrightarrow> ct_id t \<noteq> i) \<and> ct_org t = o') ts = filter (\<lambda>t. ct_org t = o') ts"
    "filter (\<lambda>f. (fd_org f = a \<longrightarrow> fd_id f \<noteq> i) \<and> fd_org f = o') fs = filter (\<lambda>f. fd_org f = o') fs"
    "filter (\<lambda>n. (cn_org n = a \<longrightarrow> cn_id n \<noteq> i) \<and> cn_org n = o') ns = filter (\<lambda>n. cn_org n = o') ns"
  using assms by (intro filter_cong; auto)+

lemma filter_conj_other: "(\<And>r. r \<in> set rows \<Longrightarrow> q r \<Longrightarrow> p r) \<Longrightarrow> filter (\<lambda>r. p r \<and> q r) rows = filter q rows"
  by (induction rows) auto

lemma known_unique:
  "customers_ok st \<Longrightarrow> known_customer st a i \<Longrightarrow> known_customer st b i \<Longrightarrow> a = b"
  by (auto simp: known_customer_def list_ex_iff dest: same_customer)

lemma view_timeline:
  assumes "append_timeline i now a c ev st = Inr st'" "a \<noteq> o'"
  shows "org_view o' st' = org_view o' st"
  by (rule append_timeline_frame [OF assms(1)]) (use assms(2) in \<open>simp add: org_view_def org_statuses_def\<close>)

lemma view_seed_status:
  "seed_status fresh a now p st = Inr st' \<Longrightarrow> a \<noteq> o' \<Longrightarrow> org_view o' st' = org_view o' st"
  by (auto simp: seed_status_def Let_def org_view_def org_statuses_def status_row_def known_customer_def
      split: if_splits)

lemma view_seed_statuses:
  "seed_statuses fresh a now st = Inr st' \<Longrightarrow> a \<noteq> o' \<Longrightarrow> org_view o' st' = org_view o' st"
  unfolding seed_statuses_def
  by (rule foldE_invariant [where P = "\<lambda>s. org_view o' s = org_view o' st"]) (auto dest: view_seed_status)

lemma view_seed_loop: "a \<noteq> o' \<Longrightarrow> org_view o' (snd (seed_loop fresh a now ps st)) = org_view o' st"
  by (induction ps arbitrary: st) (auto split: sum.split dest: view_seed_status)

lemma view_default_status_id:
  "default_status_id fresh now a st = Inr (s, st') \<Longrightarrow> a \<noteq> o' \<Longrightarrow> org_view o' st' = org_view o' st"
  by (auto simp: default_status_id_def bindE_Inr split: option.splits if_splits dest: view_seed_statuses)

lemma view_delete_status:
  assumes "delete_status a i st = Inr st'" "crm_ok st" "a \<noteq> o'"
  shows "org_view o' st' = clear_status i (org_view o' st)"
    and "\<exists>s\<in>set (statuses st). cs_org s = a \<and> cs_id s = i \<and> s \<notin> set (statuses st')"
proof -
  have st': "st' = st\<lparr>statuses := filter (\<lambda>s. \<not> (cs_org s = a \<and> cs_id s = i)) (statuses st),
      customers := update_where (\<lambda>c. cu_status c = Some i) drop_status (customers st)\<rparr>"
    and hit: "\<exists>s\<in>set (statuses st). cs_org s = a \<and> cs_id s = i"
    using assms(1) by (auto simp: delete_status_def Let_def affected_def filter_empty_conv split: if_splits)
  show "\<exists>s\<in>set (statuses st). cs_org s = a \<and> cs_id s = i \<and> s \<notin> set (statuses st')"
    using hit by (auto simp: st')
  have own: "org_statuses st' o' = org_statuses st o'"
    using assms(3) unfolding st' org_statuses_def by (simp add: deleted_elsewhere)
  have "filter (\<lambda>c. cu_org c = o') (update_where (\<lambda>c. cu_status c = Some i) drop_status cs)
    = map (\<lambda>c. if cu_status c = Some i then c\<lparr>cu_status := None\<rparr> else c) (filter (\<lambda>c. cu_org c = o') cs)" for cs
    by (induction cs) (auto simp: update_where_def drop_status_def)
  moreover have "known_customer st' = known_customer st"
    unfolding st' fun_eq_iff
    using drop_status.known_kept [of "\<lambda>c. cu_status c = Some i" st] by (simp add: known_customer_def)
  ultimately show "org_view o' st' = clear_status i (org_view o' st)"
    using own by (simp add: org_view_def clear_status_def) (simp add: st')
qed

lemma view_tags:
  "create_tag i a d now st = Inr (t, st') \<Longrightarrow> a \<noteq> o' \<Longrightarrow> org_view o' st' = org_view o' st"
  "update_tag a i d now st = Inr (t, st') \<Longrightarrow> a \<noteq> o' \<Longrightarrow> org_view o' st' = org_view o' st"
  by (auto simp: create_tag_def update_tag_def Let_def org_view_def org_statuses_def known_customer_def
      edited_elsewhere split: if_splits option.splits)

lemma view_delete_tag:
  assumes "delete_tag a i st = Inr st'" "crm_ok st" "a \<noteq> o'"
  shows "org_view o' st' = org_view o' st"
proof -
  have st': "st' = st\<lparr>tags := filter (\<lambda>t. \<not> (ct_org t = a \<and> ct_id t = i)) (tags st),
      tag_links := filter (\<lambda>l. tl_tag l \<noteq> i) (tag_links st)\<rparr>"
    and hit: "\<exists>t\<in>set (tags st). ct_org t = a \<and> ct_id t = i"
    using assms(1) by (auto simp: delete_tag_def Let_def affected_def filter_empty_conv split: if_splits)
  have "tl_tag l \<noteq> i" if l: "l \<in> set (tag_links st)" "known_customer st o' (tl_customer l)" for l
  proof
    assume "tl_tag l = i"
    then obtain t where t: "t \<in> set (tags st)" "ct_id t = i" "known_customer st (ct_org t) (tl_customer l)"
      using crm_ok_parts(6) [OF assms(2)] l(1) by (auto simp: links_ok_def list_all_iff list_ex_iff)
    then have "ct_org t = a"
      using hit crm_ok_parts(2) [OF assms(2)] by (auto simp: tags_ok_def distinct_map dest: inj_onD)
    then show False using known_unique [OF crm_ok_parts(4) [OF assms(2)] t(3) l(2)] assms(3) by simp
  qed
  then show ?thesis
    using assms(3) by (simp add: st' org_view_def org_statuses_def known_customer_def filter_conj_other deleted_elsewhere)
qed

lemma view_statuses_fields:
  "create_status i a d now st = Inr (s, st') \<Longrightarrow> a \<noteq> o' \<Longrightarrow> org_view o' st' = org_view o' st"
  "update_status a i d now st = Inr (s, st') \<Longrightarrow> a \<noteq> o' \<Longrightarrow> org_view o' st' = org_view o' st"
  "create_custom_field_def i a fd now st = Inr (f, st') \<Longrightarrow> a \<noteq> o' \<Longrightarrow> org_view o' st' = org_view o' st"
  "update_custom_field_def a i fd now st = Inr (f, st') \<Longrightarrow> a \<noteq> o' \<Longrightarrow> org_view o' st' = org_view o' st"
  "delete_custom_field_def a i st = Inr st' \<Longrightarrow> a \<noteq> o' \<Longrightarrow> org_view o' st' = org_view o' st"
  by (auto simp: create_status_def update_status_def create_custom_field_def_def update_custom_field_def_def
      delete_custom_field_def_def Let_def org_view_def org_statuses_def known_customer_def status_row_def
      edited_elsewhere deleted_elsewhere split: if_splits option.splits)

lemma not_known_elsewhere:
  "crm_ok st \<Longrightarrow> known_customer st a c \<Longrightarrow> a \<noteq> o' \<Longrightarrow> \<not> known_customer st o' c"
  using known_unique [OF crm_ok_parts(4)] by blast

lemma view_customer_tags:
  assumes "crm_ok st" "a \<noteq> o'"
  shows "add_customer_tag g e now a c t actor st = Inr st' \<Longrightarrow> org_view o' st' = org_view o' st"
    "remove_customer_tag g e now a c t actor st = Inr st' \<Longrightarrow> org_view o' st' = org_view o' st"
proof -
  have other: "\<not> known_customer st o' c" if "customer_tag_of st a c t = Some tg" for tg
    using not_known_elsewhere [OF assms(1)] customer_tag_of_Some [OF that] assms(2) by blast
  show "add_customer_tag g e now a c t actor st = Inr st' \<Longrightarrow> org_view o' st' = org_view o' st"
    using other assms(2) by (auto simp: add_customer_tag_def org_view_def org_statuses_def
        split: option.splits if_splits elim!: append_timeline_frame)
  have links: "org_view o' (st\<lparr>tag_links := filter (\<lambda>l. \<not> has_link c t l) (tag_links st)\<rparr>) = org_view o' st"
    if "\<not> known_customer st o' c"
  proof -
    have "filter (\<lambda>l. \<not> has_link c t l \<and> known_customer st o' (tl_customer l)) ls
        = filter (\<lambda>l. known_customer st o' (tl_customer l)) ls" for ls
      by (rule filter_conj_other) (use that in \<open>auto simp: has_link_def\<close>)
    then show ?thesis by (simp add: org_view_def org_statuses_def)
  qed
  show "remove_customer_tag g e now a c t actor st = Inr st' \<Longrightarrow> org_view o' st' = org_view o' st"
    using other assms(2) by (auto simp: remove_customer_tag_def links
        split: option.splits if_splits dest!: view_timeline)
qed

lemma view_insert_customer:
  "insert_customer row st = Inr st' \<Longrightarrow> cu_org row \<noteq> o' \<Longrightarrow> org_view o' st' = org_view o' st"
  by (auto simp: insert_customer_def org_view_def org_statuses_def known_customer_def split: if_splits)

lemma view_create_customer:
  "create_customer_tx fresh now a p actor st = Inr (i, st') \<Longrightarrow> a \<noteq> o' \<Longrightarrow> org_view o' st' = org_view o' st"
  by (auto simp: create_customer_tx_def Let_def bindE_Inr
      dest!: view_timeline view_insert_customer view_default_status_id)

lemma view_edit_customers:
  assumes "profile_edit f" "\<And>c. p c \<Longrightarrow> cu_org c \<noteq> o'"
  shows "org_view o' (st\<lparr>customers := update_where p f (customers st)\<rparr>) = org_view o' st"
proof -
  have "filter (\<lambda>c. cu_org c = o') (update_where p f cs) = filter (\<lambda>c. cu_org c = o') cs" for cs
    by (rule filter_other) (use assms(2) profile_edit.org_kept [OF assms(1)] in auto)
  then show ?thesis
    by (simp add: org_view_def org_statuses_def profile_edit.known_kept [OF assms(1)])
qed

lemma view_change_events:
  "status_change_event i now a c p actor st = Inr st' \<Longrightarrow> a \<noteq> o' \<Longrightarrow> org_view o' st' = org_view o' st"
  "assignee_change_event i now a c p actor st = Inr st' \<Longrightarrow> a \<noteq> o' \<Longrightarrow> org_view o' st' = org_view o' st"
  by (auto simp: status_change_event_def assignee_change_event_def Let_def split: option.splits if_splits
      dest: view_timeline)

lemma view_update_customer:
  assumes "update_customer_tx fresh now a i p actor st = Inr (j, st')" "a \<noteq> o'"
  shows "org_view o' st' = org_view o' st"
proof -
  have "org_view o' (st\<lparr>customers := update_where (is_source a i) (patch_row p now) (customers st)\<rparr>) = org_view o' st"
    by (rule view_edit_customers, unfold_locales) (use assms(2) in \<open>auto simp: patch_row_def\<close>)
  then show ?thesis
    using assms by (auto simp: update_customer_tx_def bindE_Inr split: option.splits if_splits
        dest!: view_change_events)
qed

lemma view_resolve:
  assumes "resolve_customer_for_contact fresh now a d st = Inr (c, st')" "a \<noteq> o'"
  shows "org_view o' st' = org_view o' st"
proof -
  have "filter (\<lambda>i. ci_org i = o') (update_where (same_identity a d) (refresh_identity d now) is)
      = filter (\<lambda>i. ci_org i = o') is" for "is"
    by (rule filter_other) (use assms(2) in \<open>auto simp: same_identity_def refresh_identity_def\<close>)
  then have refresh: "org_view o' (st\<lparr>identities := update_where (same_identity a d) (refresh_identity d now) (identities st)\<rparr>)
      = org_view o' st"
    by (simp add: org_view_def org_statuses_def)
  have new: "org_view o' s' = org_view o' s" if "insert_identity row s = Inr s'" "ci_org row = a" for row s s'
    using that assms(2) by (auto simp: insert_identity_def org_view_def org_statuses_def split: if_splits)
  show ?thesis
    using assms refresh new
    by (auto simp: resolve_customer_for_contact_def result_simps identity_row_def inbound_customer_def
        split: if_splits option.splits dest!: view_timeline view_insert_customer view_default_status_id)
qed

lemma view_notes:
  "add_note_tx g fresh now a c author body st = Inr st' \<Longrightarrow> a \<noteq> o' \<Longrightarrow> org_view o' st' = org_view o' st"
  "a \<noteq> o' \<Longrightarrow> org_view o' (snd (update_customer_note a i body now st)) = org_view o' st"
  "delete_customer_note a i st = Inr st' \<Longrightarrow> a \<noteq> o' \<Longrightarrow> org_view o' st' = org_view o' st"
  by (auto simp: add_note_tx_def update_customer_note_def delete_customer_note_def Let_def org_view_def
      org_statuses_def edited_elsewhere deleted_elsewhere split: if_splits elim!: append_timeline_frame)

lemma view_edit_followups:
  assumes "\<And>f. fu_org (upd f) = fu_org f" "a \<noteq> o'"
  shows "org_view o' (st\<lparr>followups := update_where (\<lambda>r. fu_org r = a \<and> fu_id r = i) upd (followups st)\<rparr>) = org_view o' st"
proof -
  have "filter (\<lambda>f. fu_org f = o') (update_where (\<lambda>r. fu_org r = a \<and> fu_id r = i) upd fs)
      = filter (\<lambda>f. fu_org f = o') fs" for fs
    by (rule filter_other) (use assms in auto)
  then show ?thesis by (simp add: org_view_def org_statuses_def)
qed

lemma view_followups:
  assumes "a \<noteq> o'"
  shows "create_followup_tx g fresh now a dfu actor st = Inr st' \<Longrightarrow> org_view o' st' = org_view o' st"
    "reschedule_tx g fresh now a i dfu actor st = Inr st' \<Longrightarrow> org_view o' st' = org_view o' st"
    "set_state_tx g fresh now a i s actor st = Inr st' \<Longrightarrow> org_view o' st' = org_view o' st"
proof -
  show "create_followup_tx g fresh now a dfu actor st = Inr st' \<Longrightarrow> org_view o' st' = org_view o' st"
    using assms by (auto simp: create_followup_tx_def org_view_def org_statuses_def split: if_splits
        elim!: append_timeline_frame)
  show "reschedule_tx g fresh now a i dfu actor st = Inr st' \<Longrightarrow> org_view o' st' = org_view o' st"
    using assms by (auto simp: reschedule_tx_def reschedule_row_def view_edit_followups
        split: option.splits if_splits dest!: view_timeline [OF _ assms])
  show "set_state_tx g fresh now a i s actor st = Inr st' \<Longrightarrow> org_view o' st' = org_view o' st"
    using assms by (auto simp: set_state_tx_def followup_state_row_def view_edit_followups
        split: option.splits if_splits dest!: view_timeline [OF _ assms])
qed

lemma view_merge:
  assumes "merge_tx g e now a target source actor st = Inr (i, st')" and ok: "crm_ok st" and ne: "a \<noteq> o'"
  shows "org_view o' st' = org_view o' st"
proof -
  obtain trow srow ev where t: "locked_customer st a target = Inr trow" and s: "locked_customer st a source = Inr srow"
    and st': "append_timeline e now a target ev
        (fold_source a target srow now (repoint_children target source now st)) = Inr st'"
    using assms(1) by (auto simp: merge_tx_def Let_def bindE_Inr split: if_splits)
  have src: "\<not> known_customer st o' source" and tgt: "\<not> known_customer st o' target"
    using not_known_elsewhere [OF ok _ ne] exists_known locked_exists [OF s] locked_exists [OF t] by blast+
  note parts = crm_ok_parts [OF ok]
  have ids: "filter (\<lambda>i. ci_org i = o') (update_where (\<lambda>i. ci_customer i = source) (move_identity target now) (identities st))
      = filter (\<lambda>i. ci_org i = o') (identities st)"
    by (rule filter_other) (use parts(5) src in \<open>auto simp: identities_ok_def list_all_iff move_identity_def dest: exists_known\<close>)
  have ns: "filter (\<lambda>n. cn_org n = o') (update_where (\<lambda>n. cn_customer n = source) (move_note target now) (customer_notes st))
      = filter (\<lambda>n. cn_org n = o') (customer_notes st)"
    by (rule filter_other) (use parts(7) src in \<open>auto simp: notes_ok_def list_all_iff move_note_def dest: exists_known\<close>)
  have fs: "filter (\<lambda>f. fu_org f = o') (update_where (\<lambda>f. fu_customer f = source) (move_followup target now) (followups st))
      = filter (\<lambda>f. fu_org f = o') (followups st)"
    by (rule filter_other)
      (use parts(8) src in \<open>auto simp: followups_ok_def followup_ok_def list_all_iff move_followup_def dest: exists_known\<close>)
  have es: "filter (\<lambda>e. te_org e = o') (update_where (\<lambda>e. te_customer e = source) (move_event target) (timeline st))
      = filter (\<lambda>e. te_org e = o') (timeline st)"
    by (rule filter_other) (use parts(9) src in \<open>auto simp: timeline_ok_def list_all_iff move_event_def\<close>)
  have srow: "cu_id srow = source" using locked_customer_Inr [OF s] by simp
  have cs: "filter (\<lambda>c. cu_org c = o') (update_where (is_source a source) (bury target now)
      (update_where (is_source a target) (fill_blanks srow now) cs)) = filter (\<lambda>c. cu_org c = o') cs" for cs
    by (subst filter_other, use ne in \<open>force simp: bury_def\<close>, rule filter_other, use ne in \<open>force simp: fill_blanks_def\<close>)
  have known: "known_customer (st\<lparr>customers := update_where (is_source a source) (bury target now)
      (update_where (is_source a target) (fill_blanks srow now) (customers st))\<rparr>) = known_customer st"
    using bury_known [where st = "st\<lparr>customers := update_where (is_source a target) (fill_blanks srow now) (customers st)\<rparr>"]
    by (simp add: fun_eq_iff fill_blanks.known_kept)
  have ls: "filter (\<lambda>l. known_customer st o' (tl_customer l)) (union_links target source now ls)
      = filter (\<lambda>l. known_customer st o' (tl_customer l)) ls" for ls
  proof -
    have "filter (\<lambda>l. tl_customer l \<noteq> source \<and> known_customer st o' (tl_customer l)) ls
        = filter (\<lambda>l. known_customer st o' (tl_customer l)) ls"
      by (rule filter_conj_other) (use src in auto)
    then show ?thesis using tgt by (simp add: union_links_def filter_map o_def)
  qed
  have "org_view o' st' = org_view o' (fold_source a target srow now (repoint_children target source now st))"
    by (rule view_timeline [OF st' ne])
  also have "\<dots> = org_view o' st"
    using ids ns fs es cs ls known
    by (simp add: org_view_def fold_source_def repoint_children_def org_statuses_def srow known_customer_def fun_eq_iff)
  finally show ?thesis .
qed

lemma step_isolated:
  "crm_step a st st' \<Longrightarrow> crm_ok st \<Longrightarrow> a \<noteq> o' \<Longrightarrow>
     org_view o' st' = org_view o' st
     \<or> (\<exists>s\<in>set (statuses st). cs_org s = a \<and> s \<notin> set (statuses st')
          \<and> org_view o' st' = clear_status (cs_id s) (org_view o' st))"
proof (induction rule: crm_step.induct)
  case seed
  then show ?case by (simp add: ensure_default_statuses_def view_seed_loop)
next
  case update_note
  then show ?case by (simp add: view_notes(2))
next
  case (delete_status org i st st')
  then show ?case using view_delete_status [OF delete_status(1,2,3)] by blast
qed (rule disjI1, auto simp: committed_defs split: sum.splits
  dest: view_statuses_fields view_tags view_delete_tag view_customer_tags
    view_create_customer view_update_customer view_resolve view_notes(1,3) view_followups view_merge)+

end
