(* ===== verification/Crm_Promises.thy ===== *)
theory Crm_Promises
  imports Crm_Safety
begin

text \<open>
  The promises of the customer tables, stated over every reachable database, and four places where
  the code does not keep what its comments say.
\<close>

section \<open>A small database\<close>

text \<open>Organization 1 has met two contacts on one account; organization 2 shares the database.\<close>

definition sample_contact :: "uuid \<Rightarrow> identity_input" where
  "sample_contact n = \<lparr>ii_channel = ''whatsapp'', ii_account = 3, ii_contact = n, ii_external = nat_text n,
     ii_username = [], ii_phone = nat_text n, ii_name = ''Ann''\<rparr>"

definition sample_inbound :: "nat \<Rightarrow> uuid \<Rightarrow> uuid \<Rightarrow> crm \<Rightarrow> uuid \<times> crm" where
  "sample_inbound k org n st =
     (case resolve_customer_for_contact (\<lambda>i. k + i) 5000000 org (sample_contact n) st of
        Inl e \<Rightarrow> (0, st) | Inr r \<Rightarrow> r)"

definition sample_start :: crm where "sample_start = empty_crm [1, 2] []"

definition sample_one :: crm where "sample_one = snd (sample_inbound 100 1 7 sample_start)"

definition sample_two :: crm where "sample_two = snd (sample_inbound 200 1 8 sample_one)"

lemma sample_inbound_step:
  "crm_reachable os us st \<Longrightarrow> crm_reachable os us (snd (sample_inbound k org n st))"
  by (auto simp: sample_inbound_def split: sum.split intro: next_step inbound)

lemma sample_reachable:
  "crm_reachable [1, 2] [] sample_start" "crm_reachable [1, 2] [] sample_one" "crm_reachable [1, 2] [] sample_two"
  by (simp_all add: sample_start_def sample_one_def sample_two_def crm_reachable.start sample_inbound_step)

lemma sample_customers:
  "map cu_id (customers sample_two) = [105, 205]" "map cu_org (customers sample_two) = [1, 1]"
  "map ci_customer (identities sample_two) = [105, 205]" "length (statuses sample_two) = 5"
  by code_simp+

section \<open>The schema and the ids\<close>

text \<open>
  C22: In every database that the methods can reach from an empty one, the keys are unique, every
  reference names a row, the children of a customer are of its organization, identities, notes and
  follow-ups belong to live customers, a follow-up has a completion time exactly when it is completed,
  and the merges form no cycle.
\<close>

theorem crm_schema_invariant:
  assumes "crm_reachable orgs us st"
  shows "crm_ok st"
  using assms by (rule reachable_ok)

theorem crm_schema_invariant_witness: "crm_ok sample_two \<and> length (customers sample_two) = 2"
  using crm_schema_invariant [OF sample_reachable(3)] arg_cong [OF sample_customers(1), of length] by simp

text \<open>
  C21: Reading a customer by id always ends. An id of the organization, of a tombstone too, leads to
  the profile of a live customer of the same organization; any other id is not found.
\<close>

theorem customer_ids_resolve:
  assumes "crm_reachable orgs us st"
  shows "if known_customer st org i
    then \<exists>p. customer_by_id st org i = Some (Inr p) \<and> pr_row p \<in> set (customers st) \<and>
      cu_merged (pr_row p) = None \<and> cu_org (pr_row p) = org
    else customer_by_id st org i = Some (Inl CrmNotFound)"
proof (cases "known_customer st org i")
  case True
  then obtain c where c: "c \<in> set (customers st)" "cu_org c = org" "cu_id c = i"
    by (auto simp: known_customer_def list_ex_iff)
  note ok = crm_ok_parts(4) [OF reachable_ok [OF assms]]
  show ?thesis
    using True surviving_row_exists [OF ok c(1)] c(2,3) by (auto simp: customer_by_id_def hydrate_customer_def)
next
  case False
  then have "customer_row_of st org i = None"
    by (auto simp: customer_row_of_def find_None_iff known_customer_def list_ex_iff)
  then show ?thesis using False by (simp add: customer_by_id_def) (subst surviving_row.simps, simp)
qed

theorem customer_ids_resolve_witness:
  "(\<exists>p. customer_by_id sample_two 1 105 = Some (Inr p) \<and> pr_row p \<in> set (customers sample_two) \<and>
      cu_merged (pr_row p) = None \<and> cu_org (pr_row p) = 1) \<and>
   customer_by_id sample_two 2 105 = Some (Inl CrmNotFound)"
proof -
  have "known_customer sample_two 1 105" "\<not> known_customer sample_two 2 105" by code_simp+
  then show ?thesis
    using customer_ids_resolve [OF sample_reachable(3), of 1 105] customer_ids_resolve [OF sample_reachable(3), of 2 105]
    by simp
qed

text \<open>
  C14: Whatever one organization does, everything another one owns stays as it is, row by row, with one
  exception: when a status is deleted, the customers of other organizations that refer to it lose
  that reference, and nothing else of theirs changes.
\<close>

theorem organizations_are_isolated:
  assumes "crm_reachable orgs us st" "crm_step a st st'" "a \<noteq> b"
  shows "org_view b st' = org_view b st
    \<or> (\<exists>s\<in>set (statuses st). cs_org s = a \<and> s \<notin> set (statuses st')
         \<and> org_view b st' = clear_status (cs_id s) (org_view b st))"
  using step_isolated [OF assms(2) reachable_ok [OF assms(1)] assms(3)] .

theorem organizations_are_isolated_witness:
  "org_view 1 (snd (sample_inbound 300 2 9 sample_two)) = org_view 1 sample_two \<and>
   length (customers (snd (sample_inbound 300 2 9 sample_two))) = 3"
proof -
  obtain c st' where r: "resolve_customer_for_contact (\<lambda>i. 300 + i) 5000000 2 (sample_contact 9) sample_two = Inr (c, st')"
    and n: "length (customers st') = 3" and kept: "list_all (\<lambda>s. s \<in> set (statuses st')) (statuses sample_two)"
  proof -
    have "case resolve_customer_for_contact (\<lambda>i. 300 + i) 5000000 2 (sample_contact 9) sample_two of
        Inl e \<Rightarrow> False | Inr r \<Rightarrow> length (customers (snd r)) = 3
          \<and> list_all (\<lambda>s. list_ex (\<lambda>s'. s' = s) (statuses (snd r))) (statuses sample_two)" by code_simp
    then show ?thesis using that by (auto simp: list_ex_iff split: sum.splits)
  qed
  have "org_view 1 st' = org_view 1 sample_two"
    using organizations_are_isolated [OF sample_reachable(3) inbound [OF r], of 1] kept by (auto simp: list_all_iff)
  then show ?thesis by (simp add: sample_inbound_def r n)
qed

text \<open>The exception does occur: organization 2 deletes a status that a customer of organization 1 has.\<close>

theorem deleted_status_clears_foreign_reference:
  "(case update_customer (\<lambda>i. 700 + i) 8000000 1 105 \<lparr>pa_name = None, pa_phone = None, pa_email = None,
        pa_avatar = None, pa_status = Some (Some 300), pa_assignee = None, pa_fields = None\<rparr> None
        (snd (sample_inbound 300 2 9 sample_two)) of
      (_, st1) \<Rightarrow> (map cu_status (take 1 (customers st1)),
        map_sum id (\<lambda>st2. map cu_status (take 1 (customers st2))) (delete_status 2 300 st1)))
   = ([Some 300], Inr [None])"
  by code_simp

section \<open>Inbound identities\<close>

definition identity_key :: "customer_identity \<Rightarrow> uuid \<times> string \<times> uuid \<times> string" where
  "identity_key i = (ci_org i, ci_channel i, ci_account i, ci_external i)"

text \<open>Identities are never dropped; their customer moves along the merges only.\<close>

definition follows :: "crm \<Rightarrow> crm \<Rightarrow> bool" where
  "follows st st' \<longleftrightarrow> merge_edges (customers st) \<subseteq> merge_edges (customers st') \<and>
     (\<forall>org c. known_customer st org c \<longrightarrow> known_customer st' org c) \<and>
     (\<forall>i\<in>set (identities st). \<exists>k\<in>set (identities st'). identity_key k = identity_key i \<and>
        (ci_customer i, ci_customer k) \<in> (merge_edges (customers st'))\<^sup>*)"

lemma follows_same:
  "identities st' = identities st \<Longrightarrow> merge_edges (customers st) = merge_edges (customers st') \<Longrightarrow>
    (\<And>org c. known_customer st org c \<Longrightarrow> known_customer st' org c) \<Longrightarrow> follows st st'"
  by (auto simp: follows_def)

lemma follows_untouched: "identities st' = identities st \<Longrightarrow> customers st' = customers st \<Longrightarrow> follows st st'"
  by (rule follows_same) (simp_all add: known_customer_def)

lemma follows_trans:
  assumes "follows a b" "follows b c"
  shows "follows a c"
  unfolding follows_def
proof (intro conjI ballI)
  have edges: "merge_edges (customers a) \<subseteq> merge_edges (customers b)"
    "merge_edges (customers b) \<subseteq> merge_edges (customers c)"
    using assms by (simp_all add: follows_def)
  then show "merge_edges (customers a) \<subseteq> merge_edges (customers c)" by simp
  show "\<forall>org i. known_customer a org i \<longrightarrow> known_customer c org i"
    using assms by (simp add: follows_def)
  fix i
  assume "i \<in> set (identities a)"
  then obtain k where k: "k \<in> set (identities b)" "identity_key k = identity_key i"
      "(ci_customer i, ci_customer k) \<in> (merge_edges (customers b))\<^sup>*"
    using assms(1) unfolding follows_def by blast
  then obtain l where l: "l \<in> set (identities c)" "identity_key l = identity_key k"
      "(ci_customer k, ci_customer l) \<in> (merge_edges (customers c))\<^sup>*"
    using assms(2) unfolding follows_def by blast
  have "(ci_customer i, ci_customer k) \<in> (merge_edges (customers c))\<^sup>*"
    using k(3) rtrancl_mono [OF edges(2)] by blast
  then show "\<exists>l\<in>set (identities c). identity_key l = identity_key i \<and>
      (ci_customer i, ci_customer l) \<in> (merge_edges (customers c))\<^sup>*"
    using k l by (intro bexI [of _ l]) auto
qed

lemma follows_refl: "follows st st"
  by (simp add: follows_untouched)

lemma seed_same:
  "seed_status fresh org now p st = Inr st' \<Longrightarrow> identities st' = identities st \<and> customers st' = customers st"
  by (auto simp: seed_status_def Let_def split: if_splits)

lemma seed_statuses_same:
  "seed_statuses fresh org now st = Inr st' \<Longrightarrow> identities st' = identities st \<and> customers st' = customers st"
  unfolding seed_statuses_def
  by (rule foldE_invariant [where P = "\<lambda>s. identities s = identities st \<and> customers s = customers st"])
    (auto dest: seed_same)

lemma seed_loop_same:
  "identities (snd (seed_loop fresh org now ps st)) = identities st \<and>
   customers (snd (seed_loop fresh org now ps st)) = customers st"
  by (induction ps arbitrary: st) (auto split: sum.split dest: seed_same)

lemma default_status_id_same:
  "default_status_id fresh now org st = Inr (s, st') \<Longrightarrow> identities st' = identities st \<and> customers st' = customers st"
  by (auto simp: default_status_id_def bindE_Inr split: option.splits if_splits dest: seed_statuses_same)

lemma timeline_same:
  "append_timeline i now org c ev st = Inr st' \<Longrightarrow> identities st' = identities st \<and> customers st' = customers st"
  by (auto elim!: append_timeline_frame)

lemma edges_snoc: "cu_merged row = None \<Longrightarrow> merge_edges (cs @ [row]) = merge_edges cs"
  by (induction cs) auto

lemma insert_customer_same:
  "insert_customer row st = Inr st' \<Longrightarrow> cu_merged row = None \<Longrightarrow>
    identities st' = identities st \<and> merge_edges (customers st') = merge_edges (customers st) \<and>
    (known_customer st org c \<longrightarrow> known_customer st' org c)"
  by (auto simp: insert_customer_def edges_snoc split: if_splits)

lemma update_where_member: "i \<in> set rows \<Longrightarrow> (if p i then f i else i) \<in> set (update_where p f rows)"
  by (auto simp: update_where_def)

lemma follows_resolve:
  assumes "resolve_customer_for_contact fresh now org d st = Inr (c, st')"
  shows "follows st st'"
proof (cases "org = 0")
  case True
  then show ?thesis using assms by (simp add: resolve_customer_for_contact_def follows_refl)
next
  case False
  show ?thesis
  proof (cases "find (same_identity org d) (identities st)")
    case (Some i)
    then have st': "st' = st\<lparr>identities := update_where (same_identity org d) (refresh_identity d now) (identities st)\<rparr>"
      using assms False by (auto simp: resolve_customer_for_contact_def split: if_splits)
    have "\<exists>k\<in>set (identities st'). identity_key k = identity_key i \<and> ci_customer k = ci_customer i"
      if "i \<in> set (identities st)" for i
      unfolding st' using update_where_member [OF that, of "same_identity org d" "refresh_identity d now"]
      by (intro bexI [of _ "if same_identity org d i then refresh_identity d now i else i"])
        (auto simp: refresh_identity_def identity_key_def)
    moreover have "customers st' = customers st" by (simp add: st')
    ultimately show ?thesis unfolding follows_def by (fastforce simp: known_customer_def)
  next
    case None
    obtain s st1 st2 st3 st4 where
      steps: "default_status_id fresh now org st = Inr (s, st1)"
        "insert_customer (inbound_customer (fresh 5) org d s now) st1 = Inr st2"
      and st3: "insert_identity (identity_row (fresh 6) org (fresh 5) d now) st2 = Inr st3"
      and st4: "append_timeline (fresh 7) now org (fresh 5) (event_of CustomerCreated None (inbound_name d)
        [(''channel'', ii_channel d), (''source'', ''inbound'')]) st3 = Inr st4"
      and st5: "append_timeline (fresh 8) now org (fresh 5) (event_of IdentityLinked None (ii_channel d)
        [(''channel'', ii_channel d), (''external_id'', ii_external d)]) st4 = Inr st'"
      by (rule resolve_new [OF assms False None])
    have "cu_merged (inbound_customer (fresh 5) org d s now) = None" by (simp add: inbound_customer_def)
    then have "identities st2 = identities st" "merge_edges (customers st2) = merge_edges (customers st)"
      "identities st' = identities st3" "customers st' = customers st3"
      using default_status_id_same [OF steps(1)] insert_customer_same [OF steps(2)]
        timeline_same [OF st4] timeline_same [OF st5] by auto
    moreover have "set (identities st2) \<subseteq> set (identities st3)" "customers st3 = customers st2"
      using st3 by (auto simp: insert_identity_def split: if_splits)
    moreover have "known_customer st' o' k" if "known_customer st o' k" for o' k
      using that known_via [of st1 st] insert_customer_same [OF steps(2), of o' k] known_via [of st' st2]
        default_status_id_same [OF steps(1)] calculation by (simp add: inbound_customer_def)
    ultimately show ?thesis unfolding follows_def by auto
  qed
qed

lemma follows_merge:
  assumes "merge_tx g e now org target source actor st = Inr (i, st')" and ok: "crm_ok st"
  shows "follows st st'"
proof -
  obtain trow srow ev where ne: "target \<noteq> source" and t: "locked_customer st org target = Inr trow"
    and s: "locked_customer st org source = Inr srow"
    and st': "append_timeline e now org target ev
        (fold_source org target srow now (repoint_children target source now st)) = Inr st'"
    using assms(1) by (auto simp: merge_tx_def Let_def bindE_Inr split: if_splits)
  define cs where "cs = update_where (is_source org target) (fill_blanks srow now) (customers st)"
  note srow = locked_customer_Inr [OF s]
  have fields: "identities st' = update_where (\<lambda>i. ci_customer i = source) (move_identity target now) (identities st)"
    "customers st' = update_where (is_source org source) (bury target now) cs"
    using timeline_same [OF st'] srow by (simp_all add: fold_source_def repoint_children_def cs_def)
  have live: "cu_merged c = None" if "c \<in> set cs" "is_source org source c" for c
  proof -
    obtain r where r: "r \<in> set (customers st)" "c = (if is_source org target r then fill_blanks srow now r else r)"
      using \<open>c \<in> set cs\<close> unfolding cs_def set_update_where by blast
    then have "c = r" using that(2) ne by (auto simp: fill_blanks.id_kept split: if_splits)
    then show ?thesis using same_customer [OF crm_ok_parts(4) [OF ok] r(1), of srow] srow that(2) by auto
  qed
  have "srow \<in> set cs"
    using update_where_member [of srow "customers st" "is_source org target" "fill_blanks srow now"] srow ne
    by (simp add: cs_def)
  then have "merge_edges (customers st') = insert (source, target) (merge_edges cs)"
    unfolding fields using srow live by (intro bury_edges) auto
  then have edges: "merge_edges (customers st') = insert (source, target) (merge_edges (customers st))"
    by (simp add: cs_def fill_blanks.edges_kept)
  have known: "known_customer st' = known_customer st"
    using bury_known [where st = "st\<lparr>customers := cs\<rparr>"] fill_blanks.known_kept
    by (simp add: fun_eq_iff known_customer_def fields(2) cs_def)
  show ?thesis
    unfolding follows_def edges fields(1)
  proof (intro conjI ballI)
    show "\<forall>o' c. known_customer st o' c \<longrightarrow> known_customer st' o' c" by (simp add: known)
    fix i
    assume i: "i \<in> set (identities st)"
    let ?k = "if ci_customer i = source then move_identity target now i else i"
    have "?k \<in> set (update_where (\<lambda>i. ci_customer i = source) (move_identity target now) (identities st))"
      using i by (auto simp: update_where_def)
    moreover have "identity_key ?k = identity_key i" by (simp add: identity_key_def move_identity_def)
    moreover have "(ci_customer i, ci_customer ?k) \<in> (insert (source, target) (merge_edges (customers st)))\<^sup>*"
      by (auto simp: move_identity_def)
    ultimately show "\<exists>k\<in>set (update_where (\<lambda>i. ci_customer i = source) (move_identity target now) (identities st)).
        identity_key k = identity_key i \<and>
        (ci_customer i, ci_customer k) \<in> (insert (source, target) (merge_edges (customers st)))\<^sup>*" by blast
  qed auto
qed

lemma other_steps_same:
  "create_status i org d now st = Inr (s, st') \<Longrightarrow> follows st st'"
  "update_status org i d now st = Inr (s, st') \<Longrightarrow> follows st st'"
  "create_tag i org td now st = Inr (t, st') \<Longrightarrow> follows st st'"
  "update_tag org i td now st = Inr (t, st') \<Longrightarrow> follows st st'"
  "delete_tag org i st = Inr st' \<Longrightarrow> follows st st'"
  "create_custom_field_def i org fd now st = Inr (f, st') \<Longrightarrow> follows st st'"
  "update_custom_field_def org i fd now st = Inr (f, st') \<Longrightarrow> follows st st'"
  "delete_custom_field_def org i st = Inr st' \<Longrightarrow> follows st st'"
  "delete_customer_note org i st = Inr st' \<Longrightarrow> follows st st'"
  by (auto simp: create_status_def update_status_def create_tag_def update_tag_def
      delete_tag_def create_custom_field_def_def update_custom_field_def_def delete_custom_field_def_def
      delete_customer_note_def Let_def split: if_splits option.splits intro!: follows_untouched)

lemma follows_edit:
  assumes "profile_edit f" "identities st' = identities st" "customers st' = update_where p f (customers st)"
  shows "follows st st'"
proof (rule follows_same [OF assms(2)])
  show "merge_edges (customers st) = merge_edges (customers st')"
    by (simp add: assms(3) profile_edit.edges_kept [OF assms(1)])
  have "known_customer st' = known_customer st"
    using profile_edit.known_kept [OF assms(1), where st = st and p = p]
    by (simp add: fun_eq_iff known_customer_def assms(3))
  then show "known_customer st o' c \<Longrightarrow> known_customer st' o' c" for o' c by simp
qed

lemma follows_delete_status: "delete_status org i st = Inr st' \<Longrightarrow> follows st st'"
  by (rule follows_edit [OF drop_status.profile_edit_axioms])
    (auto simp: delete_status_def Let_def split: if_splits)

lemma event_steps_same:
  "add_customer_tag g i now org c tg actor st = Inr st' \<Longrightarrow> follows st st'"
  "remove_customer_tag g i now org c tg actor st = Inr st' \<Longrightarrow> follows st st'"
  "add_note_tx g fresh now org c actor body st = Inr st' \<Longrightarrow> follows st st'"
  "follows st (snd (update_customer_note org i body now st))"
  "create_followup_tx g fresh now org dfu actor st = Inr st' \<Longrightarrow> follows st st'"
  "reschedule_tx g fresh now org i dfu actor st = Inr st' \<Longrightarrow> follows st st'"
  "set_state_tx g fresh now org i state actor st = Inr st' \<Longrightarrow> follows st st'"
  by (auto simp: add_customer_tag_def remove_customer_tag_def add_note_tx_def update_customer_note_def
      create_followup_tx_def reschedule_tx_def set_state_tx_def Let_def
      split: if_splits option.splits dest!: timeline_same intro!: follows_untouched)

lemma change_events_same:
  "status_change_event i now org c p actor st = Inr st' \<Longrightarrow> identities st' = identities st \<and> customers st' = customers st"
  "assignee_change_event i now org c p actor st = Inr st' \<Longrightarrow> identities st' = identities st \<and> customers st' = customers st"
  by (auto simp: status_change_event_def assignee_change_event_def Let_def split: option.splits if_splits
      dest: timeline_same)

lemma customer_steps_same:
  "create_customer_tx fresh now org p actor st = Inr (i, st') \<Longrightarrow> follows st st'"
  "update_customer_tx fresh now org i p actor st = Inr (j, st') \<Longrightarrow> follows st st'"
proof -
  assume create: "create_customer_tx fresh now org p actor st = Inr (i, st')"
  then obtain d st1 row st2 ev where st1: "default_status_id fresh now org st = Inr (d, st1)"
    and st2: "insert_customer row st1 = Inr st2" and row: "cu_merged row = None"
    and st3: "append_timeline (fresh 6) now org (cu_id row) ev st2 = Inr st'"
    by (auto simp: create_customer_tx_def Let_def bindE_Inr)
  note same = default_status_id_same [OF st1] insert_customer_same [OF st2 row] timeline_same [OF st3]
  show "follows st st'"
    by (rule follows_same) (use same known_via [of st1 st] known_via [of st' st2] in auto)
next
  assume "update_customer_tx fresh now org i p actor st = Inr (j, st')"
  then have "identities st' = identities st"
    "customers st' = update_where (is_source org i) (patch_row p now) (customers st)"
    by (auto simp: update_customer_tx_def bindE_Inr split: option.splits if_splits dest!: change_events_same)
  then show "follows st st'" by (rule follows_edit [OF patch_row.profile_edit_axioms])
qed

lemma step_follows: "crm_step org st st' \<Longrightarrow> crm_ok st \<Longrightarrow> follows st st'"
proof (induction rule: crm_step.induct)
  case seed
  then show ?case using seed_loop_same by (simp add: ensure_default_statuses_def follows_untouched)
next
  case update_note
  then show ?case by (simp add: event_steps_same(4))
qed (auto simp: committed_defs follows_refl split: sum.splits
  intro: other_steps_same follows_delete_status event_steps_same(1-3,5-7) customer_steps_same follows_resolve follows_merge)

text \<open>Any number of steps of any organizations.\<close>

definition crm_later :: "crm \<Rightarrow> crm \<Rightarrow> bool" where
  "crm_later = (\<lambda>s t. \<exists>a. crm_step a s t)\<^sup>*\<^sup>*"

lemma later_follows:
  assumes "crm_later st st'" "crm_ok st"
  shows "crm_ok st' \<and> follows st st'"
  using assms(1) unfolding crm_later_def
proof (induction rule: rtranclp_induct)
  case base
  then show ?case by (simp add: assms(2) follows_refl)
next
  case (step s t)
  then show ?case using step_keeps_schema step_follows follows_trans by blast
qed

lemma same_identity_key: "same_identity (ci_org i) d i \<Longrightarrow> identity_key k = identity_key i \<Longrightarrow> same_identity (ci_org i) d k"
  by (auto simp: same_identity_def identity_key_def)

lemma resolve_known:
  assumes "k \<in> set (identities st)" "same_identity org d k" "org \<noteq> 0" "identities_ok st"
  shows "case resolve_customer_for_contact fresh now org d st of
      Inl e \<Rightarrow> list_ex (\<lambda>k. same_contact d k \<and> \<not> same_identity org d k) (identities st)
    | Inr (c, st') \<Rightarrow> c = ci_customer k \<and> customers st' = customers st"
proof -
  obtain j where j: "find (same_identity org d) (identities st) = Some j"
    using assms(1,2) by (cases "find (same_identity org d) (identities st)") (auto simp: find_None_iff)
  then have "j \<in> set (identities st)" "same_identity org d j" by (auto simp: find_Some_iff)
  then have "j = k"
    using assms(1,2,4) by (auto simp: identities_ok_def same_identity_def distinct_map dest: inj_onD)
  then show ?thesis using assms(3) j by (simp add: resolve_customer_for_contact_def)
qed

lemma surviving_along:
  assumes ok: "customers_ok st" and "(i, j) \<in> (merge_edges (customers st))\<^sup>*"
    and "customer_exists st org j" "known_customer st org i"
  shows "\<exists>c. surviving_row st org i = Some (Inr c) \<and> cu_id c = j"
proof -
  obtain c where c: "c \<in> set (customers st)" "cu_org c = org" "cu_id c = i"
    using assms(4) by (auto simp: known_customer_def list_ex_iff)
  obtain s where s: "surviving_row st org i = Some (Inr s)" "s \<in> set (customers st)" "cu_merged s = None"
      "(i, cu_id s) \<in> (merge_edges (customers st))\<^sup>*"
    using surviving_row_exists [OF ok c(1)] c by auto
  obtain t where t: "t \<in> set (customers st)" "cu_id t = j" "cu_merged t = None"
    using assms(3) by (auto simp: customer_exists_def list_ex_iff)
  have "single_valued (merge_edges (customers st))"
    by (rule single_valuedI) (auto simp: merge_edges_def dest: same_customer [OF ok])
  then have "(cu_id s, j) \<in> (merge_edges (customers st))\<^sup>* \<or> (j, cu_id s) \<in> (merge_edges (customers st))\<^sup>*"
    using single_valued_confluent s(4) assms(2) by metis
  then have "cu_id s = j"
    using live_no_edge [OF ok s(2,3)] live_no_edge [OF ok t(1,3)] t(2) by (auto elim: converse_rtranclE)
  then show ?thesis using s(1) by blast
qed

text \<open>
  C15: Once an external identity has a customer, every later inbound message of it that arrives under
  the identity's organization, whatever happened in between, is attributed to the survivor of that
  customer, and creates no other customer. The one way it can fail is an error that leaves everything
  as it was: when another identity already holds the contact of the message.
\<close>

theorem identity_keeps_its_customer:
  assumes "crm_reachable orgs us st" "i \<in> set (identities st)" "crm_later st st'" "ci_org i \<noteq> 0"
    and "same_identity (ci_org i) d i"
  shows "\<exists>c. surviving_row st' (ci_org i) (ci_customer i) = Some (Inr c) \<and>
    (case resolve_customer_for_contact fresh now (ci_org i) d st' of
       Inl e \<Rightarrow> list_ex (\<lambda>k. same_contact d k \<and> \<not> same_identity (ci_org i) d k) (identities st')
     | Inr (customer, st'') \<Rightarrow> customer = cu_id c \<and> customers st'' = customers st')"
proof -
  have ok: "crm_ok st'" and fol: "follows st st'" using later_follows [OF assms(3) reachable_ok [OF assms(1)]] by auto
  obtain k where k: "k \<in> set (identities st')" "identity_key k = identity_key i"
      "(ci_customer i, ci_customer k) \<in> (merge_edges (customers st'))\<^sup>*"
    using fol assms(2) by (auto simp: follows_def)
  have org: "ci_org k = ci_org i" using k(2) by (simp add: identity_key_def)
  have live: "customer_exists st' (ci_org i) (ci_customer k)" using identity_known [OF ok k(1)] org by simp
  have "known_customer st' (ci_org i) (ci_customer i)"
    using fol exists_known [OF identity_known [OF reachable_ok [OF assms(1)] assms(2)]] by (simp add: follows_def)
  then obtain c where "surviving_row st' (ci_org i) (ci_customer i) = Some (Inr c)" "cu_id c = ci_customer k"
    using surviving_along [OF crm_ok_parts(4) [OF ok] k(3) live] by blast
  moreover have "same_identity (ci_org i) d k" by (rule same_identity_key [OF assms(5) k(2)])
  ultimately show ?thesis
    using resolve_known [OF k(1) _ assms(4) crm_ok_parts(5) [OF ok], of d fresh now]
    by (auto split: sum.splits)
qed

definition sample_merged :: crm where
  "sample_merged = snd (merge_customers nat_text 400 7000000 1 105 205 None sample_two)"

lemma sample_merged_later: "crm_later sample_two sample_merged"
  unfolding crm_later_def sample_merged_def by (rule r_into_rtranclp) (auto intro: crm_step.merge)

lemma resolved_to:
  "(case r of Inl e \<Rightarrow> q | Inr (customer, st'') \<Rightarrow> customer = c \<and> p st'') \<Longrightarrow> \<not> q
     \<Longrightarrow> \<exists>st''. r = Inr (c, st'') \<and> p st''"
  by (auto split: sum.splits)

theorem identity_keeps_its_customer_witness:
  "\<exists>c st''. surviving_row sample_merged 1 205 = Some (Inr c) \<and>
     resolve_customer_for_contact (\<lambda>i. 500 + i) 9000000 1 (sample_contact 8) sample_merged = Inr (cu_id c, st'') \<and>
     customers st'' = customers sample_merged"
proof -
  let ?i = "identities sample_two ! 1"
  have i: "?i \<in> set (identities sample_two)" by (rule nth_mem) code_simp
  have facts: "ci_org ?i = 1" "ci_customer ?i = 205" "same_identity 1 (sample_contact 8) ?i"
    "\<not> list_ex (\<lambda>k. same_contact (sample_contact 8) k \<and> \<not> same_identity 1 (sample_contact 8) k) (identities sample_merged)"
    by code_simp+
  have "same_identity (ci_org ?i) (sample_contact 8) ?i" "ci_org ?i \<noteq> 0" using facts by simp_all
  note known = identity_keeps_its_customer [OF sample_reachable(3) i sample_merged_later this(2,1),
      of "\<lambda>i. 500 + i" 9000000, unfolded facts(1,2)]
  show ?thesis
  proof (rule exE [OF known], elim conjE)
    fix c
    assume c: "surviving_row sample_merged 1 205 = Some (Inr c)"
      and r: "case resolve_customer_for_contact (\<lambda>i. 500 + i) 9000000 1 (sample_contact 8) sample_merged of
       Inl e \<Rightarrow> list_ex (\<lambda>k. same_contact (sample_contact 8) k \<and> \<not> same_identity 1 (sample_contact 8) k)
           (identities sample_merged)
     | Inr (customer, st'') \<Rightarrow> customer = cu_id c \<and> customers st'' = customers sample_merged"
    from c resolved_to [OF r facts(4)] show ?thesis by (elim exE) (rule exI, rule exI, rule conjI)
  qed
qed

section \<open>Merging\<close>







section \<open>Follow-up buckets\<close>

lemma length_filter_disjoint:
  "(\<And>x. x \<in> set xs \<Longrightarrow> p x \<or> q x \<Longrightarrow> r x) \<Longrightarrow> (\<And>x. x \<in> set xs \<Longrightarrow> \<not> (p x \<and> q x)) \<Longrightarrow>
    length (filter p xs) + length (filter q xs) \<le> length (filter r xs)"
  by (induction xs) (auto; fastforce)+

text \<open>The follow-ups a header counts over: open, of the organization, of the chosen assignee.\<close>

definition bucket_scope :: "(string \<Rightarrow> uuid option) \<Rightarrow> followup_filter \<Rightarrow> followup_row \<Rightarrow> bool" where
  "bucket_scope parse_uuid f r \<longleftrightarrow> fu_org r = ff_org f \<and> fu_state r = ''open'' \<and>
     assignee_clause parse_uuid (ff_assignee f) (ff_me f) (fu_assignee r)"

lemma bucket_count_scope:
  "bucket_window b (ff_day_start f) = Some w \<Longrightarrow>
    bucket_count pu st f b = length (filter (\<lambda>r. bucket_scope pu f r \<and> in_window w (fu_due r)) (followups st))"
  by (simp add: bucket_count_def bucket_scope_def conj_assoc)

lemma day_windows:
  assumes "zero_time < d"
  shows "bucket_window ''today'' d = Some (d, add_days 1 d)" "bucket_window ''tomorrow'' d = Some (add_days 1 d, add_days 2 d)"
    "bucket_window ''week'' d = Some (d, add_days 7 d)" "bucket_window ''overdue'' d = Some (zero_time, d)"
  using assms by (simp_all add: bucket_window_def)

lemma later_days: "zero_time < d \<Longrightarrow> 0 \<le> n \<Longrightarrow> add_days n d \<noteq> zero_time"
  by (simp add: add_days_def seconds_def zero_time_def)

text \<open>The total of the list that the dashboard opens for a bucket.\<close>

definition bucket_list :: "(string \<Rightarrow> uuid option) \<Rightarrow> crm \<Rightarrow> followup_filter \<Rightarrow> string \<Rightarrow> nat" where
  "bucket_list pu st f b = snd (list_followups pu st (f\<lparr>ff_bucket := b, ff_state := [], ff_customer := None\<rparr>))"

lemma bucket_count_list:
  assumes "zero_time < ff_day_start f" and "b \<in> {''today'', ''tomorrow'', ''week'', ''overdue''}"
  shows "bucket_count pu st f b = bucket_list pu st f b"
proof -
  obtain win where "bucket_window b (ff_day_start f) = Some win" using day_windows [OF assms(1)] assms(2) by auto
  moreover have "filter (\<lambda>r. bucket_scope pu f r \<and> in_window win (fu_due r)) fs
      = filter (followup_matches pu (f\<lparr>ff_bucket := b, ff_state := '''', ff_customer := None\<rparr>)) fs" for fs
    by (rule filter_cong [OF refl]) (use calculation in \<open>auto simp: followup_matches_def bucket_scope_def\<close>)
  ultimately show ?thesis by (simp add: bucket_count_scope list_followups_def bucket_list_def Let_def)
qed

text \<open>
  C27: Each number of the reminder header is the total of the list the bucket of its name opens. Today
  and tomorrow are disjoint parts of the week, and no follow-up is both overdue and due this week.
\<close>

theorem followup_buckets_match_lists:
  assumes "zero_time < ff_day_start f"
  shows "b_today (followup_bucket_counts pu st f) = bucket_list pu st f ''today'' \<and>
    b_tomorrow (followup_bucket_counts pu st f) = bucket_list pu st f ''tomorrow'' \<and>
    b_week (followup_bucket_counts pu st f) = bucket_list pu st f ''week'' \<and>
    b_overdue (followup_bucket_counts pu st f) = bucket_list pu st f ''overdue'' \<and>
    b_today (followup_bucket_counts pu st f) + b_tomorrow (followup_bucket_counts pu st f)
      \<le> b_week (followup_bucket_counts pu st f) \<and>
    b_overdue (followup_bucket_counts pu st f) + b_week (followup_bucket_counts pu st f)
      \<le> length (filter (bucket_scope pu f) (followups st))"
proof (intro conjI)
  show "b_today (followup_bucket_counts pu st f) = bucket_list pu st f ''today''"
    "b_tomorrow (followup_bucket_counts pu st f) = bucket_list pu st f ''tomorrow''"
    "b_week (followup_bucket_counts pu st f) = bucket_list pu st f ''week''"
    "b_overdue (followup_bucket_counts pu st f) = bucket_list pu st f ''overdue''"
    by (simp_all add: followup_bucket_counts_def bucket_count_list [OF assms])
next
  let ?d = "ff_day_start f"
  note w = day_windows [OF assms] and nz = later_days [OF assms, of 1] later_days [OF assms, of 0]
  have day: "db_time ?d \<le> db_time (add_days 1 ?d)" "db_time (add_days 2 ?d) \<le> db_time (add_days 7 ?d)"
      "db_time (add_days 1 ?d) \<le> db_time (add_days 2 ?d)"
    by (rule db_time_mono, simp add: add_days_def seconds_def)+
  show "b_today (followup_bucket_counts pu st f) + b_tomorrow (followup_bucket_counts pu st f)
      \<le> b_week (followup_bucket_counts pu st f)"
    unfolding followup_bucket_counts_def
    by (simp add: bucket_count_scope [OF w(1)] bucket_count_scope [OF w(2)] bucket_count_scope [OF w(3)])
      (rule length_filter_disjoint, use nz day assms in \<open>auto simp: in_window_def\<close>)
  show "b_overdue (followup_bucket_counts pu st f) + b_week (followup_bucket_counts pu st f)
      \<le> length (filter (bucket_scope pu f) (followups st))"
    unfolding followup_bucket_counts_def
    by (simp add: bucket_count_scope [OF w(4)] bucket_count_scope [OF w(3)])
      (rule length_filter_disjoint, use assms in \<open>auto simp: in_window_def\<close>)
qed

definition sample_followup :: "gotime \<Rightarrow> followup_input" where
  "sample_followup due = \<lparr>fi_customer = 105, fi_conversation = None, fi_channel = [], fi_due = due,
     fi_date = ''2026-08-08'', fi_minute = None, fi_action = ''call'', fi_note = [], fi_assignee = None\<rparr>"

definition sample_day :: followup_filter where
  "sample_day = \<lparr>ff_org = 1, ff_assignee = [], ff_me = 0, ff_customer = None, ff_state = [], ff_bucket = [],
     ff_day_start = seconds 86400, ff_limit = 0, ff_offset = 0\<rparr>"

definition sample_due :: crm where
  "sample_due = snd (create_followup nat_text (\<lambda>i. 600 + i) 0 1 (sample_followup (seconds 100000)) None
     (snd (create_followup nat_text (\<lambda>i. 610 + i) 0 1 (sample_followup (seconds 10)) None sample_two)))"

theorem followup_buckets_match_lists_witness:
  "followup_bucket_counts (\<lambda>_. None) sample_due sample_day
     = \<lparr>b_today = 1, b_tomorrow = 0, b_week = 1, b_overdue = 1\<rparr> \<and>
   map (bucket_list (\<lambda>_. None) sample_due sample_day) [''today'', ''tomorrow'', ''week'', ''overdue''] = [1, 0, 1, 1]"
proof
  show counts: "followup_bucket_counts (\<lambda>_. None) sample_due sample_day
     = \<lparr>b_today = 1, b_tomorrow = 0, b_week = 1, b_overdue = 1\<rparr>" by code_simp
  have "zero_time < ff_day_start sample_day" by code_simp
  from followup_buckets_match_lists [OF this, of "\<lambda>_. None" sample_due, unfolded counts]
  show "map (bucket_list (\<lambda>_. None) sample_due sample_day) [''today'', ''tomorrow'', ''week'', ''overdue''] = [1, 0, 1, 1]"
    by simp
qed

section \<open>Where the code falls short\<close>

lemma resolve_creates:
  assumes "crm_ok st" "list_ex (\<lambda>i. same_contact d i \<and> ci_org i \<noteq> org) (identities st)" "org \<noteq> 0"
    "resolve_customer_for_contact fresh now org d st = Inr (c, st')"
  shows "identities st' = identities st \<and> c \<notin> cu_id ` set (customers st) \<and>
    (\<exists>row. customers st' = customers st @ [row] \<and> cu_id row = c)"
proof -
  obtain i where i: "i \<in> set (identities st)" "same_contact d i" "ci_org i \<noteq> org"
    using assms(2) by (auto simp: list_ex_iff)
  have none: "find (same_identity org d) (identities st) = None"
  proof (rule ccontr)
    assume "find (same_identity org d) (identities st) \<noteq> None"
    moreover have "list_ex (\<lambda>k. same_contact d k \<and> \<not> same_identity org d k) (identities st)"
      using i by (auto simp: list_ex_iff same_identity_def)
    ultimately show False using assms(3,4) by (auto simp: resolve_customer_for_contact_def)
  qed
  obtain s st1 st2 st3 st4 where c: "c = fresh 5"
    and st1: "default_status_id fresh now org st = Inr (s, st1)"
    and st2: "insert_customer (inbound_customer (fresh 5) org d s now) st1 = Inr st2"
    and st3: "insert_identity (identity_row (fresh 6) org (fresh 5) d now) st2 = Inr st3"
    and st4: "append_timeline (fresh 7) now org (fresh 5) (event_of CustomerCreated None (inbound_name d)
        [(''channel'', ii_channel d), (''source'', ''inbound'')]) st3 = Inr st4"
    and st5: "append_timeline (fresh 8) now org (fresh 5) (event_of IdentityLinked None (ii_channel d)
        [(''channel'', ii_channel d), (''external_id'', ii_external d)]) st4 = Inr st'"
    by (rule resolve_new [OF assms(4,3) none])
  have "identities st2 = identities st" "customers st2 = customers st @ [inbound_customer (fresh 5) org d s now]"
    "fresh 5 \<notin> cu_id ` set (customers st)"
    using default_status_id_same [OF st1] st2 by (auto simp: insert_customer_def inbound_customer_def split: if_splits)
  moreover have "st3 = st2"
    using st3 calculation(1) i by (auto simp: insert_identity_def list_ex_iff identity_row_def same_contact_def split: if_splits)
  ultimately show ?thesis
    using timeline_same [OF st4] timeline_same [OF st5] c by (auto simp: inbound_customer_def)
qed

text \<open>
  C34: When the account of a known contact has moved to another organization, the identity stays with
  the old one, and each further message of that contact creates one more customer in the new
  organization, none of them with an identity.
\<close>

theorem reassigned_contact_multiplies:
  assumes "crm_reachable orgs us st" "list_ex (\<lambda>i. same_contact d i \<and> ci_org i \<noteq> org) (identities st)" "org \<noteq> 0"
    and "resolve_customer_for_contact fresh now org d st = Inr (c, st')"
    and "resolve_customer_for_contact fresh' now' org d st' = Inr (c', st'')"
  shows "c \<noteq> c' \<and> length (customers st'') = length (customers st) + 2 \<and> identities st'' = identities st"
proof -
  have ok: "crm_ok st" by (rule reachable_ok [OF assms(1)])
  note first = resolve_creates [OF ok assms(2-4)]
  have "list_ex (\<lambda>i. same_contact d i \<and> ci_org i \<noteq> org) (identities st')" using first assms(2) by simp
  note second = resolve_creates [OF resolve_customer_ok [OF assms(4) ok] this assms(3,5)]
  show ?thesis using first second by auto
qed

theorem reassigned_contact_multiplies_witness:
  "fst (sample_inbound 300 2 7 sample_two) \<noteq> fst (sample_inbound 320 2 7 (snd (sample_inbound 300 2 7 sample_two))) \<and>
   length (customers (snd (sample_inbound 320 2 7 (snd (sample_inbound 300 2 7 sample_two))))) = 4"
proof -
  have "case resolve_customer_for_contact (\<lambda>i. 300 + i) 5000000 2 (sample_contact 7) sample_two of
      Inl e \<Rightarrow> False
    | Inr r \<Rightarrow> is_ok (resolve_customer_for_contact (\<lambda>i. 320 + i) 5000000 2 (sample_contact 7) (snd r))" by code_simp
  then obtain c st' c' st'' where
    r: "resolve_customer_for_contact (\<lambda>i. 300 + i) 5000000 2 (sample_contact 7) sample_two = Inr (c, st')"
      "resolve_customer_for_contact (\<lambda>i. 320 + i) 5000000 2 (sample_contact 7) st' = Inr (c', st'')"
    by (fastforce simp: is_ok_iff split: sum.splits)
  have "list_ex (\<lambda>i. same_contact (sample_contact 7) i \<and> ci_org i \<noteq> 2) (identities sample_two)" by code_simp
  from reassigned_contact_multiplies [OF sample_reachable(3) this _ r] show ?thesis
    using arg_cong [OF sample_customers(1), of length] by (simp add: sample_inbound_def r)
qed

definition no_patch :: customer_patch where
  "no_patch = \<lparr>pa_name = None, pa_phone = None, pa_email = None, pa_avatar = None, pa_status = None,
     pa_assignee = None, pa_fields = None\<rparr>"

lemma update_result:
  assumes "update_customer fresh now org i p actor st = (Some (Inr q), st')"
  obtains "update_customer_tx fresh now org i p actor st = Inr (i, st')" "customer_by_id st' org i = Some (Inr q)"
  using assms by (auto simp: update_customer_def commit_and_read_def update_customer_tx_def bindE_Inr
      split: sum.splits option.splits if_splits)

lemma update_customers:
  "update_customer_tx fresh now org i p actor st = Inr (j, st') \<Longrightarrow>
    customers st' = update_where (is_source org i) (patch_row p now) (customers st)"
  by (auto simp: update_customer_tx_def bindE_Inr split: option.splits if_splits dest!: change_events_same)

text \<open>
  An edit under the id of a merged-away customer, from a page opened before the merge, succeeds
  and answers with the surviving profile, but goes to the tombstone: the survivor is as it was.
\<close>

theorem edits_of_merged_customers_are_lost:
  assumes "crm_reachable orgs us st" "customer_row_of st org i = Some c" "cu_merged c \<noteq> None"
    and "update_customer fresh now org i p actor st = (Some (Inr q), st')"
  shows "surviving_row st org i = Some (Inr (pr_row q))"
proof -
  note ok = reachable_ok [OF assms(1)] and c = customer_row_of_Some [OF assms(2)]
  obtain tx: "update_customer_tx fresh now org i p actor st = Inr (i, st')"
    and q: "customer_by_id st' org i = Some (Inr q)" by (rule update_result [OF assms(4)])
  have ok': "customers_ok st'" by (rule crm_ok_parts(4) [OF update_customer_tx_ok [OF tx ok]])
  obtain s where s: "surviving_row st org i = Some (Inr s)" "s \<in> set (customers st)" "cu_merged s = None"
      "cu_org s = org" "(i, cu_id s) \<in> (merge_edges (customers st))\<^sup>*"
    using surviving_row_exists [OF crm_ok_parts(4) [OF ok], of c] c by auto
  have "cu_id s \<noteq> i" using same_customer [OF crm_ok_parts(4) [OF ok] s(2), of c] c s(3) assms(3) by auto
  then have kept: "s \<in> set (customers st')"
    using update_where_member [OF s(2), of "is_source org i" "patch_row p now"] by (simp add: update_customers [OF tx])
  have edges: "merge_edges (customers st') = merge_edges (customers st)"
    by (simp add: update_customers [OF tx] patch_row.edges_kept)
  have "customer_exists st' org (cu_id s)" using kept s(3,4) by (auto simp: customer_exists_def list_ex_iff)
  moreover have known: "known_customer st' org i"
    using customer_steps_same(2) [OF tx] customer_row_known [OF assms(2)] by (simp add: follows_def)
  ultimately obtain r where r: "surviving_row st' org i = Some (Inr r)" "cu_id r = cu_id s"
    using surviving_along [OF ok', of i "cu_id s" org] s(5) edges by auto
  obtain d where d: "d \<in> set (customers st')" "cu_org d = org" "cu_id d = i"
    using known by (auto simp: known_customer_def list_ex_iff)
  have "r \<in> set (customers st')" using surviving_row_exists [OF ok' d(1)] d r(1) by auto
  then have "r = s" using same_customer [OF ok' _ kept] r(2) by blast
  moreover have "pr_row q = r" using q r(1) by (auto simp: customer_by_id_def hydrate_customer_def)
  ultimately show ?thesis using s(1) by simp
qed

lemma sample_merged_reachable: "crm_reachable [1, 2] [] sample_merged"
  unfolding sample_merged_def by (rule next_step [OF sample_reachable(3) crm_step.merge])

theorem edits_of_merged_customers_are_lost_witness:
  "\<exists>q st'. update_customer (\<lambda>i. 700 + i) 8000000 1 205 (no_patch\<lparr>pa_name := Some ''Bob''\<rparr>) None sample_merged
       = (Some (Inr q), st') \<and>
     surviving_row sample_merged 1 205 = Some (Inr (pr_row q)) \<and> cu_name (pr_row q) = ''Ann''"
proof -
  have row: "case customer_row_of sample_merged 1 205 of None \<Rightarrow> False | Some c \<Rightarrow> cu_merged c = Some 105" by code_simp
  then obtain c where c: "customer_row_of sample_merged 1 205 = Some c" "cu_merged c \<noteq> None"
    by (auto split: option.splits)
  let ?p = "no_patch\<lparr>pa_name := Some ''Bob''\<rparr>"
  have "is_ok (update_customer_tx (\<lambda>i. 700 + i) 8000000 1 205 ?p None sample_merged)" by code_simp
  then obtain j st' where tx: "update_customer_tx (\<lambda>i. 700 + i) 8000000 1 205 ?p None sample_merged = Inr (j, st')"
    by (auto simp: is_ok_iff)
  have j: "j = 205" using tx by (auto simp: update_customer_tx_def bindE_Inr split: option.splits if_splits)
  have ok: "customers_ok st'"
    by (rule crm_ok_parts(4) [OF update_customer_tx_ok [OF tx reachable_ok [OF sample_merged_reachable]]])
  have "known_customer st' 1 205"
    using customer_steps_same(2) [OF tx] customer_row_known [OF c(1)] by (simp add: follows_def)
  then obtain d where "d \<in> set (customers st')" "cu_org d = 1" "cu_id d = 205"
    by (auto simp: known_customer_def list_ex_iff)
  then obtain q where "customer_by_id st' 1 205 = Some (Inr q)"
    using surviving_row_exists [OF ok] by (fastforce simp: customer_by_id_def)
  then have run: "update_customer (\<lambda>i. 700 + i) 8000000 1 205 ?p None sample_merged = (Some (Inr q), st')"
    using tx j by (simp add: update_customer_def commit_and_read_def)
  have "list_all (\<lambda>c. cu_name c = ''Ann'') (customers sample_merged)" by code_simp
  moreover obtain e where "e \<in> set (customers sample_merged)" "surviving_row sample_merged 1 205 = Some (Inr e)"
    using surviving_row_exists [OF crm_ok_parts(4) [OF reachable_ok [OF sample_merged_reachable]], of c]
      customer_row_of_Some [OF c(1)] by auto
  ultimately show ?thesis
    using run edits_of_merged_customers_are_lost [OF sample_merged_reachable c run] by (auto simp: list_all_iff)
qed

lemma status_event_summary:
  assumes "status_change_event k now org c p actor st = Inr st'" "pa_status p = Some (Some s)" "cu_status c \<noteq> Some s"
  shows "\<exists>e\<in>set (timeline st'). te_org e = org \<and> te_customer e = cu_id c \<and> suffix (status_name st (Some s)) (te_summary e)"
proof -
  have "append_timeline k now org (cu_id c) (event_of StatusChanged actor
      (status_name st (cu_status c) @ arrow_text @ status_name st (Some s))
      [(''from'', status_name st (cu_status c)), (''to'', status_name st (Some s))]) st = Inr st'"
    using assms by (auto simp: status_change_event_def Let_def)
  then show ?thesis
    by (rule append_timeline_frame) (auto simp: event_of_def suffix_def)
qed

text \<open>
  Nothing asks whether a status belongs to the organization: with the id of another organization's
  status an edit succeeds, the profile shows no status, and the other organization's name for it is on
  the customer's timeline.
\<close>

theorem foreign_status_is_disclosed:
  assumes "crm_reachable orgs us st" "s \<in> set (statuses st)" "cs_org s \<noteq> org"
    and "customer_row_of st org i = Some c" "cu_merged c = None" "cu_status c \<noteq> Some (cs_id s)"
    and "update_customer fresh now org i (no_patch\<lparr>pa_status := Some (Some (cs_id s))\<rparr>) actor st = (Some (Inr q), st')"
  shows "pr_status q = None \<and>
    (\<exists>e\<in>set (timeline st'). te_org e = org \<and> te_customer e = i \<and> suffix (cs_name s) (te_summary e))"
proof
  let ?p = "no_patch\<lparr>pa_status := Some (Some (cs_id s))\<rparr>"
  note ok = reachable_ok [OF assms(1)] and c = customer_row_of_Some [OF assms(4)]
  obtain tx: "update_customer_tx fresh now org i ?p actor st = Inr (i, st')"
    and q: "customer_by_id st' org i = Some (Inr q)" by (rule update_result [OF assms(7)])
  let ?st = "st\<lparr>customers := update_where (is_source org i) (patch_row ?p now) (customers st)\<rparr>"
  obtain ev: "status_change_event (fresh 0) now org c ?p actor ?st = Inr st'"
    using tx assms(4) by (auto simp: update_customer_tx_def bindE_Inr assignee_change_event_def no_patch_def split: if_splits)
  have "status_name ?st (Some (cs_id s)) = cs_name s"
    using find_by_unique [of cs_id "statuses st" s] assms(2) crm_ok_parts(1) [OF ok]
    by (simp add: status_name_def statuses_ok_def)
  then show "\<exists>e\<in>set (timeline st'). te_org e = org \<and> te_customer e = i \<and> suffix (cs_name s) (te_summary e)"
    using status_event_summary [OF ev] assms(6) c by simp
  have "patch_row ?p now c \<in> set (customers st')"
    using update_where_member [of c "customers st" "is_source org i" "patch_row ?p now"] c
    by (simp add: update_customers [OF tx])
  from customer_row_of_member [OF crm_ok_parts(4) [OF update_customer_tx_ok [OF tx ok]] this]
  have "customer_row_of st' org i = Some (patch_row ?p now c)"
    using c by (simp add: patch_row.id_kept patch_row.org_kept)
  then have row: "q = hydrate_customer st' org (patch_row ?p now c)"
    using q assms(5) by (simp add: customer_by_id_def) (subst (asm) surviving_row.simps, simp add: patch_row.merged_kept)
  have "statuses st' = statuses st"
    using ev by (auto simp: status_change_event_def Let_def split: option.splits if_splits elim!: append_timeline_frame)
  then have "find_by cs_id (cs_id s) (list_statuses st' org) = None"
    using assms(2,3) crm_ok_parts(1) [OF ok]
    by (auto simp: find_by_None list_statuses_def org_statuses_def statuses_ok_def distinct_map dest: inj_onD)
  then show "pr_status q = None"
    unfolding row by (simp add: hydrate_customer_def patch_row_def or_keep_def no_patch_def)
qed

theorem foreign_status_is_disclosed_witness:
  "\<exists>q st'. update_customer (\<lambda>i. 700 + i) 8000000 2 305 (no_patch\<lparr>pa_status := Some (Some 100)\<rparr>) None
       (snd (sample_inbound 300 2 9 sample_two)) = (Some (Inr q), st') \<and> pr_status q = None"
proof -
  let ?st = "snd (sample_inbound 300 2 9 sample_two)" and ?p = "no_patch\<lparr>pa_status := Some (Some 100)\<rparr>"
  have reach: "crm_reachable [1, 2] [] ?st" by (rule sample_inbound_step [OF sample_reachable(3)])
  have "case customer_row_of ?st 2 305 of None \<Rightarrow> False
      | Some c \<Rightarrow> cu_merged c = None \<and> cu_status c = Some 300" by code_simp
  then obtain c where c: "customer_row_of ?st 2 305 = Some c" "cu_merged c = None" "cu_status c \<noteq> Some 100"
    by (auto split: option.splits)
  have "list_ex (\<lambda>s. cs_id s = 100 \<and> cs_org s = 1) (statuses ?st)" by code_simp
  then obtain s where s: "s \<in> set (statuses ?st)" "cs_id s = 100" "cs_org s \<noteq> 2" by (auto simp: list_ex_iff)
  have "is_ok (update_customer_tx (\<lambda>i. 700 + i) 8000000 2 305 ?p None ?st)" by code_simp
  then obtain j st' where tx: "update_customer_tx (\<lambda>i. 700 + i) 8000000 2 305 ?p None ?st = Inr (j, st')"
    by (auto simp: is_ok_iff)
  have j: "j = 305" using tx by (auto simp: update_customer_tx_def bindE_Inr split: option.splits if_splits)
  have "known_customer st' 2 305"
    using customer_steps_same(2) [OF tx] customer_row_known [OF c(1)] by (simp add: follows_def)
  then obtain d where "d \<in> set (customers st')" "cu_org d = 2" "cu_id d = 305"
    by (auto simp: known_customer_def list_ex_iff)
  then obtain q where "customer_by_id st' 2 305 = Some (Inr q)"
    using surviving_row_exists [OF crm_ok_parts(4) [OF update_customer_tx_ok [OF tx reachable_ok [OF reach]]]]
    by (fastforce simp: customer_by_id_def)
  then have run: "update_customer (\<lambda>i. 700 + i) 8000000 2 305 ?p None ?st = (Some (Inr q), st')"
    using tx j by (simp add: update_customer_def commit_and_read_def)
  show ?thesis
    using run foreign_status_is_disclosed [OF reach s(1,3) c(1,2), unfolded s(2), OF c(3) run] by blast
qed

end
