(* ===== verification/Kb_Rows.thy ===== *)
theory Kb_Rows
  imports Ai_Kb
begin

text \<open>
  The knowledge base tables and the draft document of \<open>backend/internal/kbstore\<close>: the pending
  entries and the operations of the draft blob (\<open>draft.go\<close>, \<open>changes.go\<close>), the rows of the live
  tables and the statements that write them (\<open>kbstore.go\<close>, \<open>zones.go\<close>).

  A live table is the list of its rows; a row is the entry it holds under the organization it belongs
  to with its two timestamps. The surrogate \<open>id\<close> of a row is read by nothing and left out, and so is
  the reference to the organization, which the caller has resolved. Nil and empty slices are one list,
  as they are one JSON array in the tables; the nullable texts a \<open>SELECT\<close> folds to the empty text are
  texts. The blob is held as the value its JSON document encodes.
\<close>

section \<open>Pending entries\<close>

record draft_config =
  dg_persona :: "string option"
  dg_mission :: "string option"
  dg_guardrails :: "string option"
  dg_language_policy :: "string option"
  dg_reply_max_words :: "int option"

definition no_config :: draft_config where
  "no_config = \<lparr>dg_persona = None, dg_mission = None, dg_guardrails = None, dg_language_policy = None,
     dg_reply_max_words = None\<rparr>"

definition has_pending :: "draft_config \<Rightarrow> bool" where
  "has_pending c \<longleftrightarrow> dg_persona c \<noteq> None \<or> dg_mission c \<noteq> None \<or> dg_guardrails c \<noteq> None
     \<or> dg_language_policy c \<noteq> None \<or> dg_reply_max_words c \<noteq> None"

record draft_topic =
  dt_slug :: string
  dt_title :: string
  dt_body :: string
  dt_featured :: "uuid option"
  dt_illustrations :: "uuid list"
  dt_videos :: "uuid list"
  dt_documents :: "uuid list"

record draft_tariff =
  da_ref :: string
  da_name :: string
  da_price :: string
  da_limit_text :: string
  da_fee :: string
  da_summary :: string
  da_pricing_type :: string
  da_advantages :: string
  da_disadvantages :: string
  da_best_for :: string
  da_not_for :: string
  da_facts :: "additional_fact list"
  da_sales_status :: string
  da_featured :: "uuid option"
  da_pricing_images :: "uuid list"
  da_videos :: "uuid list"
  da_terms :: "uuid list"

record draft_product =
  dp_ref :: string
  dp_name :: string
  dp_price :: string
  dp_description :: string
  dp_category :: string
  dp_brand :: string
  dp_advantages :: string
  dp_disadvantages :: string
  dp_best_for :: string
  dp_not_for :: string
  dp_availability :: string
  dp_availability_note :: string
  dp_installation :: string
  dp_warranty :: string
  dp_facts :: "additional_fact list"
  dp_sales_status :: string
  dp_featured :: "uuid option"
  dp_gallery :: "uuid list"
  dp_videos :: "uuid list"
  dp_certificates :: "uuid list"
  dp_guarantees :: "uuid list"

record draft_tariff_info =
  di_facts :: "additional_fact list"

record draft_contact =
  dc_whatsapp :: string
  dc_email :: string
  dc_address :: string
  dc_legal :: string
  dc_callback_time :: string
  dc_working_hours :: string
  dc_phone :: string
  dc_website :: string
  dc_instagram :: string
  dc_card_image :: "uuid option"
  dc_map_image :: "uuid option"
  dc_legal_documents :: "uuid list"
  dc_booking_url :: string
  dc_schedule :: schedule

record draft_policy =
  dl_delivery_cost :: string
  dl_delivery_in_days :: string
  dl_free_delivery_from :: string
  dl_min_order :: string
  dl_prepayment :: string
  dl_installment :: string
  dl_return_period :: string
  dl_warranty :: string
  dl_outside_zones_note :: string
  dl_documents :: "uuid list"

record draft_zone =
  dn_ref :: string
  dn_name :: string
  dn_level :: string
  dn_parent :: string
  dn_available :: bool
  dn_cost :: string
  dn_days :: string
  dn_notes :: string
  dn_sales_status :: string

record draft_specialist =
  ds_ref :: string
  ds_name :: string
  ds_title :: string
  ds_experience :: string
  ds_schedule :: schedule
  ds_booking_url :: string
  ds_portfolio :: "uuid list"
  ds_sales_status :: string

record draft_service =
  dv_ref :: string
  dv_parent :: string
  dv_type :: string
  dv_category :: string
  dv_name :: string
  dv_price :: string
  dv_duration :: "int option"
  dv_description :: string
  dv_specialists :: "string list"
  dv_sales_status :: string

record draft_delete =
  dd_kind :: string
  dd_key :: string

record draft_blob =
  bl_config :: draft_config
  bl_topics :: "draft_topic list"
  bl_tariffs :: "draft_tariff list"
  bl_products :: "draft_product list"
  bl_contacts :: "draft_contact list"
  bl_policies :: "draft_policy list"
  bl_tariff_info :: "draft_tariff_info list"
  bl_zones :: "draft_zone list"
  bl_specialists :: "draft_specialist list"
  bl_services :: "draft_service list"
  bl_deletes :: "draft_delete list"

definition empty_blob :: draft_blob where
  "empty_blob = \<lparr>bl_config = no_config, bl_topics = [], bl_tariffs = [], bl_products = [],
     bl_contacts = [], bl_policies = [], bl_tariff_info = [], bl_zones = [], bl_specialists = [],
     bl_services = [], bl_deletes = []\<rparr>"

section \<open>Operations of the blob\<close>

text \<open>The loop of every \<open>upsert\<close>: the first entry with the key is replaced, else the entry goes last.\<close>

fun upsert_by :: "('a \<Rightarrow> 'k) \<Rightarrow> 'a \<Rightarrow> 'a list \<Rightarrow> 'a list" where
  "upsert_by key x [] = [x]"
| "upsert_by key x (y # ys) = (if key y = key x then x # ys else y # upsert_by key x ys)"

text \<open>The loop of every \<open>remove\<close>.\<close>

definition remove_by :: "('a \<Rightarrow> 'k) \<Rightarrow> 'k \<Rightarrow> 'a list \<Rightarrow> 'a list" where
  "remove_by key k xs = filter (\<lambda>x. key x \<noteq> k) xs"

definition upsert_topic :: "draft_topic \<Rightarrow> draft_blob \<Rightarrow> draft_blob" where
  "upsert_topic t b = b\<lparr>bl_topics := upsert_by dt_slug t (bl_topics b)\<rparr>"

definition remove_topic :: "string \<Rightarrow> draft_blob \<Rightarrow> draft_blob" where
  "remove_topic k b = b\<lparr>bl_topics := remove_by dt_slug k (bl_topics b)\<rparr>"

definition upsert_tariff :: "draft_tariff \<Rightarrow> draft_blob \<Rightarrow> draft_blob" where
  "upsert_tariff t b = b\<lparr>bl_tariffs := upsert_by da_ref t (bl_tariffs b)\<rparr>"

definition remove_tariff :: "string \<Rightarrow> draft_blob \<Rightarrow> draft_blob" where
  "remove_tariff k b = b\<lparr>bl_tariffs := remove_by da_ref k (bl_tariffs b)\<rparr>"

definition upsert_product :: "draft_product \<Rightarrow> draft_blob \<Rightarrow> draft_blob" where
  "upsert_product p b = b\<lparr>bl_products := upsert_by dp_ref p (bl_products b)\<rparr>"

definition remove_product :: "string \<Rightarrow> draft_blob \<Rightarrow> draft_blob" where
  "remove_product k b = b\<lparr>bl_products := remove_by dp_ref k (bl_products b)\<rparr>"

definition upsert_contact :: "draft_contact \<Rightarrow> draft_blob \<Rightarrow> draft_blob" where
  "upsert_contact c b = b\<lparr>bl_contacts := [c]\<rparr>"

definition remove_contact :: "draft_blob \<Rightarrow> draft_blob" where
  "remove_contact b = b\<lparr>bl_contacts := []\<rparr>"

definition upsert_policy :: "draft_policy \<Rightarrow> draft_blob \<Rightarrow> draft_blob" where
  "upsert_policy p b = b\<lparr>bl_policies := [p]\<rparr>"

definition remove_policy :: "draft_blob \<Rightarrow> draft_blob" where
  "remove_policy b = b\<lparr>bl_policies := []\<rparr>"

definition upsert_tariff_info :: "draft_tariff_info \<Rightarrow> draft_blob \<Rightarrow> draft_blob" where
  "upsert_tariff_info ti b = b\<lparr>bl_tariff_info := [ti]\<rparr>"

definition remove_tariff_info :: "draft_blob \<Rightarrow> draft_blob" where
  "remove_tariff_info b = b\<lparr>bl_tariff_info := []\<rparr>"

definition upsert_zone :: "draft_zone \<Rightarrow> draft_blob \<Rightarrow> draft_blob" where
  "upsert_zone z b = b\<lparr>bl_zones := upsert_by dn_ref z (bl_zones b)\<rparr>"

definition remove_zone :: "string \<Rightarrow> draft_blob \<Rightarrow> draft_blob" where
  "remove_zone k b = b\<lparr>bl_zones := remove_by dn_ref k (bl_zones b)\<rparr>"

definition upsert_specialist :: "draft_specialist \<Rightarrow> draft_blob \<Rightarrow> draft_blob" where
  "upsert_specialist s b = b\<lparr>bl_specialists := upsert_by ds_ref s (bl_specialists b)\<rparr>"

definition remove_specialist :: "string \<Rightarrow> draft_blob \<Rightarrow> draft_blob" where
  "remove_specialist k b = b\<lparr>bl_specialists := remove_by ds_ref k (bl_specialists b)\<rparr>"

definition upsert_service :: "draft_service \<Rightarrow> draft_blob \<Rightarrow> draft_blob" where
  "upsert_service s b = b\<lparr>bl_services := upsert_by dv_ref s (bl_services b)\<rparr>"

definition remove_service :: "string \<Rightarrow> draft_blob \<Rightarrow> draft_blob" where
  "remove_service k b = b\<lparr>bl_services := remove_by dv_ref k (bl_services b)\<rparr>"

definition marker :: "string \<Rightarrow> string \<Rightarrow> draft_delete" where
  "marker kind key = \<lparr>dd_kind = kind, dd_key = key\<rparr>"

definition add_delete :: "string \<Rightarrow> string \<Rightarrow> draft_blob \<Rightarrow> draft_blob" where
  "add_delete kind key b =
     (if list_ex (\<lambda>d. dd_kind d = kind \<and> dd_key d = key) (bl_deletes b) then b
      else b\<lparr>bl_deletes := bl_deletes b @ [marker kind key]\<rparr>)"

definition remove_delete :: "string \<Rightarrow> string \<Rightarrow> draft_blob \<Rightarrow> draft_blob" where
  "remove_delete kind key b =
     b\<lparr>bl_deletes := filter (\<lambda>d. \<not> (dd_kind d = kind \<and> dd_key d = key)) (bl_deletes b)\<rparr>"

section \<open>Kinds\<close>

text \<open>\<open>changeKinds\<close>: the plural vocabulary of the URLs and the singular one of the markers.\<close>

definition change_kinds :: "(string \<times> string) list" where
  "change_kinds =
     [(''topics'', ''topic''), (''tariffs'', ''tariff''), (''products'', ''product''),
      (''contacts'', ''contact''), (''policies'', ''policy''), (''tariff_info'', ''tariff_info''),
      (''delivery_zones'', ''delivery_zone''), (''specialists'', ''specialist''),
      (''services'', ''service'')]"

definition singular_delete_kind :: "string \<Rightarrow> string option" where
  "singular_delete_kind kind = map_of change_kinds kind"

definition plural_change_kind :: "string \<Rightarrow> string" where
  "plural_change_kind s =
     (case map_of (map prod.swap change_kinds) s of None \<Rightarrow> s | Some p \<Rightarrow> p)"

definition is_singleton_kind :: "string \<Rightarrow> bool" where
  "is_singleton_kind s \<longleftrightarrow> s = ''contact'' \<or> s = ''policy'' \<or> s = ''tariff_info''"

definition delete_matches :: "draft_delete \<Rightarrow> string \<Rightarrow> string \<Rightarrow> bool" where
  "delete_matches d s key \<longleftrightarrow> dd_kind d = s \<and> (is_singleton_kind s \<or> dd_key d = key)"

definition deleted_singleton :: "draft_blob \<Rightarrow> string \<Rightarrow> bool" where
  "deleted_singleton b s \<longleftrightarrow> list_ex (\<lambda>d. dd_kind d = s) (bl_deletes b)"

definition remove_delete_matching :: "string \<Rightarrow> string \<Rightarrow> draft_blob \<Rightarrow> draft_blob" where
  "remove_delete_matching s key b =
     b\<lparr>bl_deletes := filter (\<lambda>d. \<not> delete_matches d s key) (bl_deletes b)\<rparr>"

text \<open>The keys of the maps \<open>deleted[d.Kind+":"+d.Key]\<close>.\<close>

definition tag_of :: "string \<Rightarrow> string \<Rightarrow> string" where
  "tag_of kind key = kind @ '':'' @ key"

definition deleted_tags :: "draft_delete list \<Rightarrow> string list" where
  "deleted_tags ds = map (\<lambda>d. tag_of (dd_kind d) (dd_key d)) ds"

section \<open>Tables\<close>

record 'a kb_row =
  kr_org :: uuid
  kr_body :: 'a
  kr_created :: gotime
  kr_updated :: gotime

record assistant_row =
  ar_persona :: string
  ar_mission :: string
  ar_guardrails :: string
  ar_language_policy :: string
  ar_reply_max_words :: int

text \<open>\<open>kbd_draft\<close>, \<open>kbd_materials\<close>, \<open>kbd_requests\<close> and \<open>ai_audit_log\<close>.\<close>

record draft_row =
  dr_org :: uuid
  dr_blob :: draft_blob
  dr_version :: int
  dr_updated :: gotime
  dr_by :: "uuid option"

text \<open>The nullable columns of \<open>kbd_materials\<close> are folded to empty texts, as every reader folds them.\<close>

record material_row =
  mr_id :: uuid
  mr_org :: uuid
  mr_source_type :: string
  mr_source_ref :: string
  mr_blob_id :: string
  mr_text :: string
  mr_media_kind :: string
  mr_status :: string
  mr_extraction :: string
  mr_storage_backend :: string
  mr_storage_key :: string
  mr_filename :: string
  mr_mime :: string
  mr_size :: "int option"
  mr_checksum :: string
  mr_metadata :: string
  mr_processing :: string
  mr_visibility :: string
  mr_visual_summary :: string
  mr_transcript :: string
  mr_operator_note :: string
  mr_created :: gotime
  mr_updated :: gotime

record request_row =
  rq_id :: uuid
  rq_org :: uuid
  rq_material :: "uuid option"
  rq_type :: string
  rq_prompt :: string
  rq_context :: string
  rq_target :: string
  rq_state :: string
  rq_resolution :: "string option"
  rq_created :: gotime
  rq_resolved :: "gotime option"

record audit_entry =
  au_org :: uuid
  au_action :: string
  au_actor :: "uuid option"
  au_note :: string
  au_created :: gotime

record kb_store =
  ks_assistants :: "assistant_row kb_row list"
  ks_topics :: "draft_topic kb_row list"
  ks_tariffs :: "draft_tariff kb_row list"
  ks_products :: "draft_product kb_row list"
  ks_contacts :: "draft_contact kb_row list"
  ks_policies :: "draft_policy kb_row list"
  ks_tariff_info :: "draft_tariff_info kb_row list"
  ks_zones :: "draft_zone kb_row list"
  ks_specialists :: "draft_specialist kb_row list"
  ks_services :: "draft_service kb_row list"
  ks_drafts :: "draft_row list"
  ks_materials :: "material_row list"
  ks_requests :: "request_row list"
  ks_audit :: "audit_entry list"

section \<open>Errors\<close>

text \<open>
  The gate's reasons carry what their messages are made of; \<open>reason_kind\<close> and \<open>reason_key\<close> are the
  entity a reason points at. A reason about a policy carries the empty key, as the code does.
\<close>

datatype gate_reason =
    BodyHasToken string
  | BodyHasAmount string string
  | RequestsPending nat
  | TermsRequired string
  | TermsForbidden string
  | ParentIsSelf string
  | ParentUnresolved string string
  | ParentCycle string
  | PolicyRowRequired
  | FlatTermsPresent
  | OutsideNoteMissing
  | BaseMissing string string
  | BaseNotBase string string
  | BaseArchived string string
  | SpecialistNotLive string string

fun reason_kind :: "gate_reason \<Rightarrow> string" where
  "reason_kind (BodyHasToken k) = ''topics''"
| "reason_kind (BodyHasAmount k a) = ''topics''"
| "reason_kind (RequestsPending n) = ''''"
| "reason_kind (TermsRequired k) = ''delivery_zones''"
| "reason_kind (TermsForbidden k) = ''delivery_zones''"
| "reason_kind (ParentIsSelf k) = ''delivery_zones''"
| "reason_kind (ParentUnresolved k p) = ''delivery_zones''"
| "reason_kind (ParentCycle k) = ''delivery_zones''"
| "reason_kind PolicyRowRequired = ''policies''"
| "reason_kind FlatTermsPresent = ''policies''"
| "reason_kind OutsideNoteMissing = ''policies''"
| "reason_kind (BaseMissing k p) = ''services''"
| "reason_kind (BaseNotBase k p) = ''services''"
| "reason_kind (BaseArchived k p) = ''services''"
| "reason_kind (SpecialistNotLive k s) = ''services''"

record identity_entry =
  ie_type :: string
  ie_key :: string
  ie_title :: string
  ie_live :: bool
  ie_draft :: bool
  ie_delete :: bool

datatype salon_error =
    BadSalonRef string string
  | SalonSchedule string schedule_error
  | BaseWithParent string
  | HasChildren string string
  | NeedsParent string string
  | UnknownParent string string
  | ParentNotABase string string
  | ParentNotActive string string
  | DurationNotPositive string
  | UnknownSpecialist string string
  | CannotDeleteBase string

datatype kb_error =
    StaleDraft
  | UnknownKind
  | GateFailed "gate_reason list"
  | RequiredField string
  | DuplicateTitle string string string
  | AmbiguousTitle string "identity_entry list"
  | BadMediaRef uuid string string
  | BadEnum string string "string list"
  | BadFactList string string facts_error
  | BadContactSchedule schedule_error
  | Salon salon_error
  | CannotDelete string
  | CannotAttach string string string string
  | RowNotFound string string
  | UploadDone
  | BadCursor string
  | NothingPending
  | DbConstraint

section \<open>Statements of the live tables\<close>

definition or_default :: "string \<Rightarrow> string \<Rightarrow> string" where
  "or_default v d = (if v = '''' then d else v)"

definition or_default_int :: "int \<Rightarrow> int \<Rightarrow> int" where
  "or_default_int v d = (if v = 0 then d else v)"

definition row_hit :: "('a \<Rightarrow> 'k) \<Rightarrow> uuid \<Rightarrow> 'k \<Rightarrow> 'a kb_row \<Rightarrow> bool" where
  "row_hit key org k r \<longleftrightarrow> kr_org r = org \<and> key (kr_body r) = k"

text \<open>\<open>INSERT .. ON CONFLICT (organization_id, key) DO UPDATE\<close>; a singleton's key is constant.\<close>

definition new_row :: "uuid \<Rightarrow> gotime \<Rightarrow> 'a \<Rightarrow> 'a kb_row" where
  "new_row org now x = \<lparr>kr_org = org, kr_body = x, kr_created = db_time now, kr_updated = db_time now\<rparr>"

definition rewrite_row :: "gotime \<Rightarrow> 'a \<Rightarrow> 'a kb_row \<Rightarrow> 'a kb_row" where
  "rewrite_row now x r = r\<lparr>kr_body := x, kr_updated := db_time now\<rparr>"

definition upsert_row ::
  "('a \<Rightarrow> 'k) \<Rightarrow> uuid \<Rightarrow> gotime \<Rightarrow> 'a \<Rightarrow> 'a kb_row list \<Rightarrow> 'a kb_row list" where
  "upsert_row key org now x rows =
     (if list_ex (row_hit key org (key x)) rows
      then update_where (row_hit key org (key x)) (rewrite_row now x) rows
      else rows @ [new_row org now x])"

definition delete_row :: "('a \<Rightarrow> 'k) \<Rightarrow> uuid \<Rightarrow> 'k \<Rightarrow> 'a kb_row list \<Rightarrow> 'a kb_row list" where
  "delete_row key org k rows = filter (\<lambda>r. \<not> row_hit key org k r) rows"

definition row_at :: "('a \<Rightarrow> 'k) \<Rightarrow> uuid \<Rightarrow> 'k \<Rightarrow> 'a kb_row list \<Rightarrow> 'a option" where
  "row_at key org k rows = map_option kr_body (find (row_hit key org k) rows)"

text \<open>\<open>SELECT .. WHERE organization_id = $1 ORDER BY created_at\<close>.\<close>

definition org_rows :: "uuid \<Rightarrow> 'a kb_row list \<Rightarrow> 'a kb_row list" where
  "org_rows org rows = sort_key kr_created (filter (\<lambda>r. kr_org r = org) rows)"

definition singleton_key :: "'a \<Rightarrow> unit" where
  "singleton_key x = ()"

text \<open>\<open>featured_image\<close> and the contact images reference \<open>kbd_materials(id)\<close>.\<close>

definition material_exists :: "kb_store \<Rightarrow> uuid option \<Rightarrow> bool" where
  "material_exists st i \<longleftrightarrow> (case i of None \<Rightarrow> True | Some m \<Rightarrow> m \<in> mr_id ` set (ks_materials st))"

definition upsert_topic_row :: "uuid \<Rightarrow> gotime \<Rightarrow> draft_topic \<Rightarrow> kb_store \<Rightarrow> kb_error + kb_store" where
  "upsert_topic_row org now t st =
     (if \<not> material_exists st (dt_featured t) then Inl DbConstraint
      else Inr (st\<lparr>ks_topics := upsert_row dt_slug org now t (ks_topics st)\<rparr>))"

definition stored_tariff :: "draft_tariff \<Rightarrow> draft_tariff" where
  "stored_tariff t = t\<lparr>da_pricing_type := or_default (da_pricing_type t) ''fixed'',
     da_sales_status := or_default (da_sales_status t) ''active''\<rparr>"

definition upsert_tariff_row :: "uuid \<Rightarrow> gotime \<Rightarrow> draft_tariff \<Rightarrow> kb_store \<Rightarrow> kb_error + kb_store" where
  "upsert_tariff_row org now t st =
     (if \<not> material_exists st (da_featured t) then Inl DbConstraint
      else Inr (st\<lparr>ks_tariffs := upsert_row da_ref org now (stored_tariff t) (ks_tariffs st)\<rparr>))"

definition stored_product :: "draft_product \<Rightarrow> draft_product" where
  "stored_product p = p\<lparr>dp_availability := or_default (dp_availability p) ''in_stock'',
     dp_sales_status := or_default (dp_sales_status p) ''active''\<rparr>"

definition upsert_product_row :: "uuid \<Rightarrow> gotime \<Rightarrow> draft_product \<Rightarrow> kb_store \<Rightarrow> kb_error + kb_store" where
  "upsert_product_row org now p st =
     (if \<not> material_exists st (dp_featured p) then Inl DbConstraint
      else Inr (st\<lparr>ks_products := upsert_row dp_ref org now (stored_product p) (ks_products st)\<rparr>))"

definition upsert_tariff_info_row ::
  "uuid \<Rightarrow> gotime \<Rightarrow> draft_tariff_info \<Rightarrow> kb_store \<Rightarrow> kb_error + kb_store" where
  "upsert_tariff_info_row org now ti st =
     Inr (st\<lparr>ks_tariff_info := upsert_row singleton_key org now ti (ks_tariff_info st)\<rparr>)"

definition upsert_contact_row :: "uuid \<Rightarrow> gotime \<Rightarrow> draft_contact \<Rightarrow> kb_store \<Rightarrow> kb_error + kb_store" where
  "upsert_contact_row org now c st =
     (if \<not> material_exists st (dc_card_image c) \<or> \<not> material_exists st (dc_map_image c) then Inl DbConstraint
      else Inr (st\<lparr>ks_contacts := upsert_row singleton_key org now c (ks_contacts st)\<rparr>))"

definition upsert_policy_row :: "uuid \<Rightarrow> gotime \<Rightarrow> draft_policy \<Rightarrow> kb_store \<Rightarrow> kb_error + kb_store" where
  "upsert_policy_row org now p st =
     Inr (st\<lparr>ks_policies := upsert_row singleton_key org now p (ks_policies st)\<rparr>)"

text \<open>\<open>CHECK (zone_level IN ('city','region','country'))\<close>.\<close>

definition zone_levels :: "string list" where
  "zone_levels = [''city'', ''region'', ''country'']"

definition stored_zone :: "draft_zone \<Rightarrow> draft_zone" where
  "stored_zone z = z\<lparr>dn_sales_status := or_default (dn_sales_status z) ''active''\<rparr>"

definition upsert_zone_row :: "uuid \<Rightarrow> gotime \<Rightarrow> draft_zone \<Rightarrow> kb_store \<Rightarrow> kb_error + kb_store" where
  "upsert_zone_row org now z st =
     (if dn_level z \<notin> set zone_levels then Inl DbConstraint
      else Inr (st\<lparr>ks_zones := upsert_row dn_ref org now (stored_zone z) (ks_zones st)\<rparr>))"

definition stored_specialist :: "draft_specialist \<Rightarrow> draft_specialist" where
  "stored_specialist s = s\<lparr>ds_sales_status := or_default (ds_sales_status s) ''active''\<rparr>"

definition upsert_specialist_row ::
  "uuid \<Rightarrow> gotime \<Rightarrow> draft_specialist \<Rightarrow> kb_store \<Rightarrow> kb_error + kb_store" where
  "upsert_specialist_row org now s st =
     Inr (st\<lparr>ks_specialists := upsert_row ds_ref org now (stored_specialist s) (ks_specialists st)\<rparr>)"

definition stored_service :: "draft_service \<Rightarrow> draft_service" where
  "stored_service s = s\<lparr>dv_type := or_default (dv_type s) ''base'',
     dv_sales_status := or_default (dv_sales_status s) ''active''\<rparr>"

definition upsert_service_row :: "uuid \<Rightarrow> gotime \<Rightarrow> draft_service \<Rightarrow> kb_store \<Rightarrow> kb_error + kb_store" where
  "upsert_service_row org now s st =
     Inr (st\<lparr>ks_services := upsert_row dv_ref org now (stored_service s) (ks_services st)\<rparr>)"

text \<open>\<open>COALESCE($n, column)\<close>, with the column's default on insertion.\<close>

definition coalesce :: "'a option \<Rightarrow> 'a \<Rightarrow> 'a" where
  "coalesce p v = (case p of None \<Rightarrow> v | Some w \<Rightarrow> w)"

definition patch_assistant :: "draft_config \<Rightarrow> assistant_row \<Rightarrow> assistant_row" where
  "patch_assistant p a =
     \<lparr>ar_persona = coalesce (dg_persona p) (ar_persona a),
      ar_mission = coalesce (dg_mission p) (ar_mission a),
      ar_guardrails = coalesce (dg_guardrails p) (ar_guardrails a),
      ar_language_policy = coalesce (dg_language_policy p) (ar_language_policy a),
      ar_reply_max_words = coalesce (dg_reply_max_words p) (ar_reply_max_words a)\<rparr>"

definition default_assistant :: assistant_row where
  "default_assistant = \<lparr>ar_persona = '''', ar_mission = '''', ar_guardrails = '''',
     ar_language_policy = '''', ar_reply_max_words = 120\<rparr>"

definition upsert_config_row :: "uuid \<Rightarrow> gotime \<Rightarrow> draft_config \<Rightarrow> kb_store \<Rightarrow> kb_store" where
  "upsert_config_row org now p st =
     (let cur = coalesce (row_at singleton_key org () (ks_assistants st)) default_assistant in
      st\<lparr>ks_assistants := upsert_row singleton_key org now (patch_assistant p cur) (ks_assistants st)\<rparr>)"

definition audit_row ::
  "uuid \<Rightarrow> gotime \<Rightarrow> uuid option \<Rightarrow> string \<Rightarrow> string \<Rightarrow> kb_store \<Rightarrow> kb_store" where
  "audit_row org now actor action note st =
     st\<lparr>ks_audit := ks_audit st @ [\<lparr>au_org = org, au_action = action, au_actor = actor, au_note = note,
        au_created = db_time now\<rparr>]\<rparr>"

definition apply_delete :: "uuid \<Rightarrow> draft_delete \<Rightarrow> kb_store \<Rightarrow> kb_store" where
  "apply_delete org d st =
     (if dd_kind d = ''topic'' then st\<lparr>ks_topics := delete_row dt_slug org (dd_key d) (ks_topics st)\<rparr>
      else if dd_kind d = ''tariff'' then st\<lparr>ks_tariffs := delete_row da_ref org (dd_key d) (ks_tariffs st)\<rparr>
      else if dd_kind d = ''product'' then st\<lparr>ks_products := delete_row dp_ref org (dd_key d) (ks_products st)\<rparr>
      else if dd_kind d = ''contact'' then st\<lparr>ks_contacts := delete_row singleton_key org () (ks_contacts st)\<rparr>
      else if dd_kind d = ''policy'' then st\<lparr>ks_policies := delete_row singleton_key org () (ks_policies st)\<rparr>
      else if dd_kind d = ''tariff_info''
      then st\<lparr>ks_tariff_info := delete_row singleton_key org () (ks_tariff_info st)\<rparr>
      else if dd_kind d = ''delivery_zone'' then st\<lparr>ks_zones := delete_row dn_ref org (dd_key d) (ks_zones st)\<rparr>
      else if dd_kind d = ''specialist''
      then st\<lparr>ks_specialists := delete_row ds_ref org (dd_key d) (ks_specialists st)\<rparr>
      else if dd_kind d = ''service'' then st\<lparr>ks_services := delete_row dv_ref org (dd_key d) (ks_services st)\<rparr>
      else st)"

end
