(* ===== verification/Kb_Media.thy ===== *)
theory Kb_Media
  imports Kb_Rows Ai_Catalog Json_Print
begin

text \<open>
  Materials and media references: the attachment registry and its checks, two-phase uploads and
  provenance (\<open>mcp_media.go\<close>), the media half of every edit (\<open>media_apply.go\<close>), and the materials and
  requests of the ingest queue (\<open>materials.go\<close>).
\<close>

section \<open>The registry\<close>

record attachment_field =
  at_field :: string
  at_kind :: string
  at_multiple :: bool

definition att :: "string \<Rightarrow> string \<Rightarrow> bool \<Rightarrow> attachment_field" where
  "att f k m = \<lparr>at_field = f, at_kind = k, at_multiple = m\<rparr>"

definition media_attachment_fields :: "(string \<times> attachment_field list) list" where
  "media_attachment_fields =
     [(''topic'', [att ''illustration_images'' ''image'' True, att ''explainer_videos'' ''video'' True,
        att ''reference_documents'' ''document'' True]),
      (''product'', [att ''gallery_images'' ''image'' True, att ''demo_videos'' ''video'' True,
        att ''certificate_documents'' ''document'' True, att ''guarantee_documents'' ''document'' True]),
      (''tariff'', [att ''pricing_images'' ''image'' True, att ''explainer_videos'' ''video'' True,
        att ''terms_documents'' ''document'' True]),
      (''contacts'', [att ''contact_card_image'' ''image'' False, att ''location_map_image'' ''image'' False,
        att ''company_legal_documents'' ''document'' True]),
      (''policies'', [att ''commerce_policy_documents'' ''document'' True]),
      (''specialist'', [att ''portfolio_images'' ''image'' True])]"

definition derived_media_kind :: "(string \<times> string) list" where
  "derived_media_kind = [(''featured_image'', ''image'')]"

text \<open>\<open>buildMediaColumnKind\<close>: a Go map; a field on two types has the same kind on both.\<close>

definition media_column_kind :: "(string \<times> string) list" where
  "media_column_kind =
     derived_media_kind @ concat (map (\<lambda>(t, fs). map (\<lambda>f. (at_field f, at_kind f)) fs) media_attachment_fields)"

definition media_field_kind :: "string \<Rightarrow> string" where
  "media_field_kind field = (case map_of media_column_kind field of None \<Rightarrow> '''' | Some k \<Rightarrow> k)"

definition lookup_attachment_field :: "string \<Rightarrow> string \<Rightarrow> attachment_field option" where
  "lookup_attachment_field kb_type field =
     (case map_of media_attachment_fields kb_type of
        None \<Rightarrow> None
      | Some fs \<Rightarrow> find_by at_field field fs)"

definition mime_matches_kind :: "string \<Rightarrow> string \<Rightarrow> bool" where
  "mime_matches_kind mime kind =
     (if kind = ''image'' then prefix ''image/'' mime
      else if kind = ''video'' then prefix ''video/'' mime
      else if kind = ''audio'' then prefix ''audio/'' mime
      else if kind = ''document'' then prefix ''application/'' mime \<or> prefix ''text/'' mime
      else False)"

definition kind_of_mime :: "string \<Rightarrow> string" where
  "kind_of_mime mime =
     (if prefix ''image/'' mime then ''image''
      else if prefix ''video/'' mime then ''video''
      else if prefix ''audio/'' mime then ''audio''
      else if prefix ''application/'' mime \<or> prefix ''text/'' mime then ''document''
      else '''')"

section \<open>References\<close>

definition lookup_material :: "kb_store \<Rightarrow> uuid \<Rightarrow> material_row option" where
  "lookup_material st i = find_by mr_id i (ks_materials st)"

definition validate_media_ref :: "kb_store \<Rightarrow> uuid \<Rightarrow> string \<Rightarrow> uuid \<Rightarrow> kb_error + unit" where
  "validate_media_ref st org field i =
     (case map_of media_column_kind field of
        None \<Rightarrow> Inl (BadMediaRef i field ''not a recognized media field'')
      | Some kind \<Rightarrow>
        (case lookup_material st i of
           None \<Rightarrow> Inl (BadMediaRef i field ''material not found'')
         | Some m \<Rightarrow>
             if mr_org m \<noteq> org then Inl (BadMediaRef i field ''belongs to a different organization'')
             else if mr_storage_key m = '''' then Inl (BadMediaRef i field ''upload has not completed'')
             else if mr_visibility m = ''invisible'' then Inl (BadMediaRef i field ''marked invisible'')
             else if mr_mime m \<noteq> '''' \<and> \<not> mime_matches_kind (mr_mime m) kind
             then Inl (BadMediaRef i field ''mime type does not match'')
             else Inr ()))"

text \<open>
  The references an edit names, field by field. The code keeps them in a Go map, so which of several
  bad references it reports depends on the iteration; here it is the first of the list.
\<close>

type_synonym media_refs = "(string \<times> uuid list) list"

definition validate_media_refs :: "kb_store \<Rightarrow> uuid \<Rightarrow> media_refs \<Rightarrow> kb_error + unit" where
  "validate_media_refs st org refs =
     check_all (\<lambda>(field, i). validate_media_ref st org field i)
       (concat (map (\<lambda>(field, is). map (Pair field) is) refs))"

text \<open>
  A singular edit is \<open>None\<close> for "leave", \<open>Some None\<close> for "clear" and \<open>Some (Some i)\<close>; a plural edit
  is \<open>None\<close> or the new list.
\<close>

definition singular_ref :: "string \<Rightarrow> uuid option option \<Rightarrow> media_refs" where
  "singular_ref field p = (case p of Some (Some i) \<Rightarrow> [(field, [i])] | _ \<Rightarrow> [])"

definition plural_ref :: "string \<Rightarrow> uuid list option \<Rightarrow> media_refs" where
  "plural_ref field p = (case p of Some (i # is) \<Rightarrow> [(field, i # is)] | _ \<Rightarrow> [])"

section \<open>Media edits\<close>

record topic_media_edit =
  tm_featured :: "uuid option option"
  tm_illustrations :: "uuid list option"
  tm_videos :: "uuid list option"
  tm_documents :: "uuid list option"

definition apply_topic_media :: "draft_topic \<Rightarrow> topic_media_edit \<Rightarrow> draft_topic \<times> media_refs" where
  "apply_topic_media cur m =
     (cur\<lparr>dt_featured := coalesce (tm_featured m) (dt_featured cur),
          dt_illustrations := coalesce (tm_illustrations m) (dt_illustrations cur),
          dt_videos := coalesce (tm_videos m) (dt_videos cur),
          dt_documents := coalesce (tm_documents m) (dt_documents cur)\<rparr>,
      singular_ref ''featured_image'' (tm_featured m)
      @ plural_ref ''illustration_images'' (tm_illustrations m)
      @ plural_ref ''explainer_videos'' (tm_videos m)
      @ plural_ref ''reference_documents'' (tm_documents m))"

record product_media_edit =
  pm_featured :: "uuid option option"
  pm_gallery :: "uuid list option"
  pm_videos :: "uuid list option"
  pm_certificates :: "uuid list option"
  pm_guarantees :: "uuid list option"

definition apply_product_media :: "draft_product \<Rightarrow> product_media_edit \<Rightarrow> draft_product \<times> media_refs" where
  "apply_product_media cur m =
     (cur\<lparr>dp_featured := coalesce (pm_featured m) (dp_featured cur),
          dp_gallery := coalesce (pm_gallery m) (dp_gallery cur),
          dp_videos := coalesce (pm_videos m) (dp_videos cur),
          dp_certificates := coalesce (pm_certificates m) (dp_certificates cur),
          dp_guarantees := coalesce (pm_guarantees m) (dp_guarantees cur)\<rparr>,
      singular_ref ''featured_image'' (pm_featured m)
      @ plural_ref ''gallery_images'' (pm_gallery m)
      @ plural_ref ''demo_videos'' (pm_videos m)
      @ plural_ref ''certificate_documents'' (pm_certificates m)
      @ plural_ref ''guarantee_documents'' (pm_guarantees m))"

record tariff_media_edit =
  fm_featured :: "uuid option option"
  fm_pricing_images :: "uuid list option"
  fm_videos :: "uuid list option"
  fm_terms :: "uuid list option"

definition apply_tariff_media :: "draft_tariff \<Rightarrow> tariff_media_edit \<Rightarrow> draft_tariff \<times> media_refs" where
  "apply_tariff_media cur m =
     (cur\<lparr>da_featured := coalesce (fm_featured m) (da_featured cur),
          da_pricing_images := coalesce (fm_pricing_images m) (da_pricing_images cur),
          da_videos := coalesce (fm_videos m) (da_videos cur),
          da_terms := coalesce (fm_terms m) (da_terms cur)\<rparr>,
      singular_ref ''featured_image'' (fm_featured m)
      @ plural_ref ''pricing_images'' (fm_pricing_images m)
      @ plural_ref ''explainer_videos'' (fm_videos m)
      @ plural_ref ''terms_documents'' (fm_terms m))"

record contacts_media_edit =
  km_card_image :: "uuid option option"
  km_map_image :: "uuid option option"
  km_legal_documents :: "uuid list option"

definition apply_contacts_media :: "draft_contact \<Rightarrow> contacts_media_edit \<Rightarrow> draft_contact \<times> media_refs" where
  "apply_contacts_media cur m =
     (cur\<lparr>dc_card_image := coalesce (km_card_image m) (dc_card_image cur),
          dc_map_image := coalesce (km_map_image m) (dc_map_image cur),
          dc_legal_documents := coalesce (km_legal_documents m) (dc_legal_documents cur)\<rparr>,
      singular_ref ''contact_card_image'' (km_card_image m)
      @ singular_ref ''location_map_image'' (km_map_image m)
      @ plural_ref ''company_legal_documents'' (km_legal_documents m))"

text \<open>\<open>PoliciesMedia\<close> and \<open>SpecialistMedia\<close> have one field each and are that field.\<close>

definition apply_policies_media :: "draft_policy \<Rightarrow> uuid list option \<Rightarrow> draft_policy \<times> media_refs" where
  "apply_policies_media cur m =
     (cur\<lparr>dl_documents := coalesce m (dl_documents cur)\<rparr>, plural_ref ''commerce_policy_documents'' m)"

definition apply_specialist_media ::
  "draft_specialist \<Rightarrow> uuid list option \<Rightarrow> draft_specialist \<times> media_refs" where
  "apply_specialist_media cur m =
     (cur\<lparr>ds_portfolio := coalesce m (ds_portfolio cur)\<rparr>, plural_ref ''portfolio_images'' m)"

section \<open>Uploads\<close>

definition blank_material :: "uuid \<Rightarrow> uuid \<Rightarrow> string \<Rightarrow> gotime \<Rightarrow> material_row" where
  "blank_material i org source now =
     \<lparr>mr_id = i, mr_org = org, mr_source_type = source, mr_source_ref = '''', mr_blob_id = '''',
      mr_text = '''', mr_media_kind = '''', mr_status = ''pending'', mr_extraction = ''{}'',
      mr_storage_backend = '''', mr_storage_key = '''', mr_filename = '''', mr_mime = '''', mr_size = None,
      mr_checksum = '''', mr_metadata = ''{}'', mr_processing = ''uploaded'', mr_visibility = '''',
      mr_visual_summary = '''', mr_transcript = '''', mr_operator_note = '''',
      mr_created = db_time now, mr_updated = db_time now\<rparr>"

text \<open>An \<open>INSERT\<close> fails on a key that is taken; \<open>uuid.New()\<close> is the argument \<open>i\<close>.\<close>

definition insert_material :: "material_row \<Rightarrow> kb_store \<Rightarrow> kb_error + kb_store" where
  "insert_material m st =
     (if mr_id m \<in> mr_id ` set (ks_materials st) then Inl DbConstraint
      else Inr (st\<lparr>ks_materials := ks_materials st @ [m]\<rparr>))"

record upload_input =
  up_filename :: string
  up_mime :: string
  up_size :: int
  up_checksum :: string
  up_visibility :: string

definition create_upload_material ::
  "uuid \<Rightarrow> uuid \<Rightarrow> upload_input \<Rightarrow> gotime \<Rightarrow> kb_store \<Rightarrow> kb_error + kb_store" where
  "create_upload_material i org inp now st =
     insert_material ((blank_material i org ''file'' now)\<lparr>mr_filename := up_filename inp,
       mr_mime := up_mime inp, mr_size := Some (up_size inp), mr_checksum := up_checksum inp,
       mr_visibility := or_default (up_visibility inp) ''auto''\<rparr>) st"

definition get_upload_material :: "kb_store \<Rightarrow> uuid \<Rightarrow> kb_error + material_row" where
  "get_upload_material st i = (case lookup_material st i of None \<Rightarrow> Inl UnknownKind | Some m \<Rightarrow> Inr m)"

definition finish_upload :: "string \<Rightarrow> string \<Rightarrow> int \<Rightarrow> string \<Rightarrow> gotime \<Rightarrow> material_row \<Rightarrow> material_row" where
  "finish_upload backend key sz cksum now m =
     m\<lparr>mr_storage_backend := backend, mr_storage_key := key, mr_size := Some sz, mr_checksum := cksum,
       mr_processing := ''parsed'', mr_updated := db_time now\<rparr>"

definition complete_material_upload ::
  "uuid \<Rightarrow> string \<Rightarrow> string \<Rightarrow> int \<Rightarrow> string \<Rightarrow> gotime \<Rightarrow> kb_store \<Rightarrow> kb_error + kb_store" where
  "complete_material_upload i backend key sz cksum now st =
     (let hit = (\<lambda>m. mr_id m = i \<and> mr_processing m = ''uploaded'') in
      if affected hit (ks_materials st) = 0 then Inl UploadDone
      else Inr (st\<lparr>ks_materials := update_where hit (finish_upload backend key sz cksum now) (ks_materials st)\<rparr>))"

record material_preview =
  mp_id :: uuid
  mp_filename :: string
  mp_mime :: string
  mp_size :: int
  mp_kind :: string
  mp_status :: string

definition preview_of :: "material_row \<Rightarrow> material_preview" where
  "preview_of m = \<lparr>mp_id = mr_id m, mp_filename = mr_filename m, mp_mime = mr_mime m,
     mp_size = coalesce (mr_size m) 0, mp_kind = kind_of_mime (mr_mime m), mp_status = mr_processing m\<rparr>"

definition material_previews :: "kb_store \<Rightarrow> uuid \<Rightarrow> uuid list \<Rightarrow> material_preview list" where
  "material_previews st org ids =
     map preview_of (filter (\<lambda>m. mr_org m = org \<and> mr_id m \<in> set ids \<and> mr_storage_key m \<noteq> '''') (ks_materials st))"

section \<open>Provenance\<close>

record provenance =
  pv_source_url :: string
  pv_materials :: "uuid list"

text \<open>
  \<open>jsonShallowMerge\<close>. Members are printed from their values, where the code copies the bytes it read;
  a document that is no object fails.
\<close>

definition object_of :: "string \<Rightarrow> (string \<times> json) list option" where
  "object_of s =
     (if s = '''' then Some []
      else case parse_json s of
        Some (JObject ms) \<Rightarrow> Some ms
      | Some JNull \<Rightarrow> Some []
      | _ \<Rightarrow> None)"

definition json_shallow_merge :: "string \<Rightarrow> string \<Rightarrow> string option" where
  "json_shallow_merge base patch =
     (case object_of base of
        None \<Rightarrow> None
      | Some bs \<Rightarrow> (case object_of patch of
          None \<Rightarrow> None
        | Some ps \<Rightarrow> Some (print_json (sorted_object (foldl (\<lambda>ms p. upsert_by fst p ms) [] (bs @ ps))))))"

definition provenance_target :: "string \<Rightarrow> string \<Rightarrow> string" where
  "provenance_target kb_type key =
     print_json (JObject [(''mcp_target'', JObject [(''key'', JString key), (''type'', JString kb_type)])])"

text \<open>
  The compare-and-swap of \<open>tagMaterialProvenance\<close> reads, merges and writes in the transaction of the
  edit; with no writer in between the first attempt succeeds.
\<close>

definition tag_material :: "uuid \<Rightarrow> string \<Rightarrow> uuid \<Rightarrow> kb_store \<Rightarrow> kb_error + kb_store" where
  "tag_material org target i st =
     (let hit = (\<lambda>m. mr_id m = i \<and> mr_org m = org) in
      case find hit (ks_materials st) of
        None \<Rightarrow> Inl (BadMediaRef i ''provenance.material_ids'' ''not found'')
      | Some m \<Rightarrow>
        (case json_shallow_merge (mr_metadata m) target of
           None \<Rightarrow> Inl DbConstraint
         | Some merged \<Rightarrow>
             Inr (st\<lparr>ks_materials := update_where hit (\<lambda>m. m\<lparr>mr_metadata := merged\<rparr>) (ks_materials st)\<rparr>)))"

definition record_provenance ::
  "uuid \<Rightarrow> uuid \<Rightarrow> string \<Rightarrow> string \<Rightarrow> provenance \<Rightarrow> gotime \<Rightarrow> kb_store \<Rightarrow> kb_error + kb_store" where
  "record_provenance i org kb_type key prov now st =
     (let target = provenance_target kb_type key in
      bindE (if pv_source_url prov = '''' then Inr st
             else insert_material ((blank_material i org ''url'' now)\<lparr>mr_source_ref := pv_source_url prov,
                    mr_metadata := target, mr_processing := ''parsed'', mr_visibility := ''invisible''\<rparr>) st)
        (foldE (tag_material org target) (pv_materials prov)))"

section \<open>Materials of the ingest queue\<close>

record material_input =
  mi_source_type :: string
  mi_source_ref :: string
  mi_blob_id :: string
  mi_media_kind :: string
  mi_text :: string
  mi_description :: string

definition operator_comment_json :: "string \<Rightarrow> string" where
  "operator_comment_json c = print_json (JObject [(''operator_comment'', JString c)])"

text \<open>
  \<open>json.Unmarshal\<close> into a map of texts: a member that is no text stops nothing, so the comment is the
  last member of that name that is a text.
\<close>

definition operator_comment :: "string \<Rightarrow> string" where
  "operator_comment extraction =
     (case object_of extraction of
        None \<Rightarrow> ''''
      | Some ms \<Rightarrow>
        (case find_by fst ''operator_comment'' (rev ms) of
           Some (k, JString c) \<Rightarrow> c
         | _ \<Rightarrow> ''''))"

definition create_material :: "uuid \<Rightarrow> uuid \<Rightarrow> material_input \<Rightarrow> gotime \<Rightarrow> kb_store \<Rightarrow> kb_error + kb_store" where
  "create_material i org inp now st =
     (let desc = trim_space (mi_description inp);
          base = (blank_material i org (mi_source_type inp) now)\<lparr>mr_source_ref := mi_source_ref inp,
            mr_blob_id := mi_blob_id inp, mr_text := mi_text inp, mr_media_kind := mi_media_kind inp\<rparr> in
      insert_material
        (if mi_source_type inp = ''text'' then base\<lparr>mr_status := ''ready''\<rparr>
         else if mi_source_type inp = ''url'' then
           (if desc \<noteq> '''' then base\<lparr>mr_extraction := operator_comment_json desc\<rparr> else base)
         else if desc \<noteq> '''' then
           base\<lparr>mr_status := ''ready'', mr_text := desc, mr_extraction := print_json (JObject [(''method'', JString ''operator'')])\<rparr>
         else base) st)"

definition get_material :: "kb_store \<Rightarrow> uuid \<Rightarrow> kb_error + material_row" where
  "get_material st i = (case lookup_material st i of None \<Rightarrow> Inl UnknownKind | Some m \<Rightarrow> Inr m)"

record extraction_result =
  ex_status :: string
  ex_text :: string
  ex_media_kind :: string
  ex_extraction :: string

definition update_material_extraction ::
  "uuid \<Rightarrow> extraction_result \<Rightarrow> gotime \<Rightarrow> kb_store \<Rightarrow> kb_store" where
  "update_material_extraction i ex now st =
     st\<lparr>ks_materials := update_where (\<lambda>m. mr_id m = i)
       (\<lambda>m. m\<lparr>mr_status := ex_status ex, mr_text := ex_text ex,
          mr_media_kind := or_default (ex_media_kind ex) (mr_media_kind m),
          mr_extraction := or_default (ex_extraction ex) ''{}'', mr_updated := db_time now\<rparr>) (ks_materials st)\<rparr>"

definition list_materials :: "kb_store \<Rightarrow> uuid \<Rightarrow> material_row list" where
  "list_materials st org = sort_key mr_created (filter (\<lambda>m. mr_org m = org) (ks_materials st))"

definition ready_materials :: "kb_store \<Rightarrow> uuid \<Rightarrow> material_row list" where
  "ready_materials st org = filter (\<lambda>m. mr_status m = ''ready'') (list_materials st org)"

text \<open>The chunks of the \<open>IN\<close> list touch the rows of one list of ids.\<close>

definition mark_materials_built :: "uuid list \<Rightarrow> gotime \<Rightarrow> kb_store \<Rightarrow> kb_store" where
  "mark_materials_built ids now st =
     st\<lparr>ks_materials := update_where (\<lambda>m. mr_id m \<in> set ids \<and> mr_status m = ''ready'')
       (\<lambda>m. m\<lparr>mr_status := ''built'', mr_updated := db_time now\<rparr>) (ks_materials st)\<rparr>"

record content_ref =
  cf_storage_key :: string
  cf_mime :: string
  cf_filename :: string
  cf_checksum :: string

definition get_material_content_ref :: "kb_store \<Rightarrow> uuid \<Rightarrow> uuid \<Rightarrow> kb_error + content_ref" where
  "get_material_content_ref st org i =
     (case find (\<lambda>m. mr_id m = i \<and> mr_org m = org) (ks_materials st) of
        None \<Rightarrow> Inl UnknownKind
      | Some m \<Rightarrow> Inr \<lparr>cf_storage_key = mr_storage_key m, cf_mime = mr_mime m, cf_filename = mr_filename m,
          cf_checksum = mr_checksum m\<rparr>)"

section \<open>Requests\<close>

record request_input =
  ri_material :: "uuid option"
  ri_type :: string
  ri_prompt :: string
  ri_context :: string
  ri_target :: string

definition create_request :: "uuid \<Rightarrow> uuid \<Rightarrow> request_input \<Rightarrow> gotime \<Rightarrow> kb_store \<Rightarrow> kb_error + kb_store" where
  "create_request i org inp now st =
     (if i \<in> rq_id ` set (ks_requests st) \<or> \<not> material_exists st (ri_material inp) then Inl DbConstraint
      else Inr (st\<lparr>ks_requests := ks_requests st @ [\<lparr>rq_id = i, rq_org = org, rq_material = ri_material inp,
        rq_type = ri_type inp, rq_prompt = ri_prompt inp, rq_context = or_default (ri_context inp) ''{}'',
        rq_target = or_default (ri_target inp) ''{}'', rq_state = ''pending'', rq_resolution = None,
        rq_created = db_time now, rq_resolved = None\<rparr>]\<rparr>))"

definition get_request :: "kb_store \<Rightarrow> uuid \<Rightarrow> kb_error + request_row" where
  "get_request st i = (case find_by rq_id i (ks_requests st) of None \<Rightarrow> Inl UnknownKind | Some r \<Rightarrow> Inr r)"

definition resolve_request :: "uuid \<Rightarrow> string \<Rightarrow> string \<Rightarrow> gotime \<Rightarrow> kb_store \<Rightarrow> kb_store" where
  "resolve_request i state resolution now st =
     st\<lparr>ks_requests := update_where (\<lambda>r. rq_id r = i)
       (\<lambda>r. r\<lparr>rq_state := or_default state ''resolved'', rq_resolution := Some (or_default resolution ''{}''),
          rq_resolved := Some (db_time now)\<rparr>) (ks_requests st)\<rparr>"

definition list_requests :: "kb_store \<Rightarrow> uuid \<Rightarrow> request_row list" where
  "list_requests st org = sort_key rq_created (filter (\<lambda>r. rq_org r = org) (ks_requests st))"

end
