(* ===== verification/Kb_Draft.thy ===== *)
theory Kb_Draft
  imports Kb_Media
begin

text \<open>
  The draft of an organization (\<open>draft.go\<close>, \<open>salon_validate.go\<close>, \<open>facts_validate.go\<close>): its one row with a
  version, the transaction every edit runs in, the current shape an edit starts from, the rules an
  edited entry is held to, and the edits of the Playground.

  A transaction is a function from the store to an error or the store it commits: the error of a
  rolled-back transaction carries no store, and its caller keeps the one it had.
\<close>

section \<open>Reading and writing the draft row\<close>

definition nil_uuid :: uuid where "nil_uuid = 0"

definition null_if_nil :: "uuid \<Rightarrow> uuid option" where
  "null_if_nil i = (if i = nil_uuid then None else Some i)"

definition read_draft :: "kb_store \<Rightarrow> uuid \<Rightarrow> draft_blob \<times> int \<times> gotime" where
  "read_draft st org =
     (case find_by dr_org org (ks_drafts st) of
        None \<Rightarrow> (empty_blob, 0, zero_time)
      | Some r \<Rightarrow> (dr_blob r, dr_version r, dr_updated r))"

definition draft_base_version :: "kb_store \<Rightarrow> uuid \<Rightarrow> int" where
  "draft_base_version st org = fst (snd (read_draft st org))"

definition lock_draft :: "kb_store \<Rightarrow> uuid \<Rightarrow> draft_blob \<times> int" where
  "lock_draft st org =
     (case find_by dr_org org (ks_drafts st) of
        None \<Rightarrow> (empty_blob, 0)
      | Some r \<Rightarrow> (dr_blob r, dr_version r))"

definition bump_draft :: "uuid \<Rightarrow> gotime \<Rightarrow> draft_blob \<Rightarrow> draft_row \<Rightarrow> draft_row" where
  "bump_draft actor now b r = r\<lparr>dr_blob := b, dr_version := dr_version r + 1, dr_updated := db_time now,
     dr_by := null_if_nil actor\<rparr>"

definition persist_draft :: "uuid \<Rightarrow> uuid \<Rightarrow> gotime \<Rightarrow> draft_blob \<Rightarrow> kb_store \<Rightarrow> int \<times> kb_store" where
  "persist_draft org actor now b st =
     (case find_by dr_org org (ks_drafts st) of
        None \<Rightarrow> (1, st\<lparr>ks_drafts := ks_drafts st @ [\<lparr>dr_org = org, dr_blob = b, dr_version = 1,
                    dr_updated = db_time now, dr_by = null_if_nil actor\<rparr>]\<rparr>)
      | Some r \<Rightarrow> (dr_version r + 1,
          st\<lparr>ks_drafts := update_where (\<lambda>r. dr_org r = org) (bump_draft actor now b) (ks_drafts st)\<rparr>))"

text \<open>
  A mutation yields what its closure captures beside the draft and the store; \<open>unit\<close> where it captures
  nothing.
\<close>

type_synonym 'r mutation = "draft_blob \<Rightarrow> kb_store \<Rightarrow> kb_error + 'r \<times> draft_blob \<times> kb_store"

definition write_draft_versioned ::
  "uuid \<Rightarrow> int option \<Rightarrow> uuid \<Rightarrow> gotime \<Rightarrow> 'r mutation \<Rightarrow> kb_store \<Rightarrow> kb_error + ('r \<times> int) \<times> kb_store" where
  "write_draft_versioned org expected actor now mutate st =
     (let (b, version) = lock_draft st org in
      if expected \<noteq> None \<and> the expected \<noteq> version then Inl StaleDraft
      else bindE (mutate b st) (\<lambda>(r, b', st').
        let (version', st'') = persist_draft org actor now b' st' in Inr ((r, version'), st'')))"

definition write_draft :: "uuid \<Rightarrow> uuid \<Rightarrow> gotime \<Rightarrow> unit mutation \<Rightarrow> kb_store \<Rightarrow> kb_error + kb_store" where
  "write_draft org actor now mutate st =
     bindE (write_draft_versioned org None actor now mutate st) (\<lambda>(r, st'). Inr st')"

text \<open>A mutation that only reads the store.\<close>

definition blob_only :: "(kb_store \<Rightarrow> draft_blob \<Rightarrow> kb_error + draft_blob) \<Rightarrow> unit mutation" where
  "blob_only f b st = bindE (f st b) (\<lambda>b'. Inr ((), b', st))"

definition clear_draft :: "uuid \<Rightarrow> uuid \<Rightarrow> gotime \<Rightarrow> kb_store \<Rightarrow> kb_error + kb_store" where
  "clear_draft org actor now st = write_draft org actor now (blob_only (\<lambda>st b. Inr empty_blob)) st"

section \<open>Cancelling one change\<close>

record cancel_result =
  cn_changed :: bool
  cn_version :: int

definition natural_key_main :: string where "natural_key_main = ''main''"
definition contact_slug :: string where "contact_slug = ''support''"
definition policy_slug :: string where "policy_slug = ''main''"

definition is_config_field :: "string \<Rightarrow> bool" where
  "is_config_field k \<longleftrightarrow>
     k \<in> {''persona'', ''mission'', ''guardrails'', ''language_policy'', ''reply_max_words''}"

definition config_field_pending :: "draft_config \<Rightarrow> string \<Rightarrow> bool" where
  "config_field_pending c k =
     (if k = natural_key_main then has_pending c
      else if k = ''persona'' then dg_persona c \<noteq> None
      else if k = ''mission'' then dg_mission c \<noteq> None
      else if k = ''guardrails'' then dg_guardrails c \<noteq> None
      else if k = ''language_policy'' then dg_language_policy c \<noteq> None
      else if k = ''reply_max_words'' then dg_reply_max_words c \<noteq> None
      else False)"

definition clear_config_field :: "string \<Rightarrow> draft_config \<Rightarrow> draft_config" where
  "clear_config_field k c =
     (if k = ''persona'' then c\<lparr>dg_persona := None\<rparr>
      else if k = ''mission'' then c\<lparr>dg_mission := None\<rparr>
      else if k = ''guardrails'' then c\<lparr>dg_guardrails := None\<rparr>
      else if k = ''language_policy'' then c\<lparr>dg_language_policy := None\<rparr>
      else if k = ''reply_max_words'' then c\<lparr>dg_reply_max_words := None\<rparr>
      else c)"

definition entry_present :: "draft_blob \<Rightarrow> string \<Rightarrow> string \<Rightarrow> bool" where
  "entry_present b s key =
     (if s = ''topic'' then list_ex (\<lambda>t. dt_slug t = key) (bl_topics b)
      else if s = ''tariff'' then list_ex (\<lambda>t. da_ref t = key) (bl_tariffs b)
      else if s = ''product'' then list_ex (\<lambda>p. dp_ref p = key) (bl_products b)
      else if s = ''delivery_zone'' then list_ex (\<lambda>z. dn_ref z = key) (bl_zones b)
      else if s = ''specialist'' then list_ex (\<lambda>p. ds_ref p = key) (bl_specialists b)
      else if s = ''service'' then list_ex (\<lambda>v. dv_ref v = key) (bl_services b)
      else if s = ''contact'' then length (bl_contacts b) > 0
      else if s = ''policy'' then length (bl_policies b) > 0
      else False)"

definition entity_change_present :: "draft_blob \<Rightarrow> string \<Rightarrow> string \<Rightarrow> bool" where
  "entity_change_present b s key \<longleftrightarrow>
     list_ex (\<lambda>d. delete_matches d s key) (bl_deletes b) \<or> entry_present b s key"

definition drop_entry :: "string \<Rightarrow> string \<Rightarrow> draft_blob \<Rightarrow> draft_blob" where
  "drop_entry s key b =
     (if s = ''topic'' then remove_topic key b
      else if s = ''tariff'' then remove_tariff key b
      else if s = ''product'' then remove_product key b
      else if s = ''delivery_zone'' then remove_zone key b
      else if s = ''specialist'' then remove_specialist key b
      else if s = ''service'' then remove_service key b
      else if s = ''contact'' then remove_contact b
      else if s = ''policy'' then remove_policy b
      else b)"

definition cancel_within_lock ::
  "uuid \<Rightarrow> uuid \<Rightarrow> int option \<Rightarrow> (draft_blob \<Rightarrow> bool) \<Rightarrow> (draft_blob \<Rightarrow> draft_blob) \<Rightarrow> gotime
     \<Rightarrow> kb_store \<Rightarrow> kb_error + cancel_result \<times> kb_store" where
  "cancel_within_lock org actor expected present app now st =
     (let (b, version) = lock_draft st org in
      if \<not> present b then Inr (\<lparr>cn_changed = False, cn_version = version\<rparr>, st)
      else if expected \<noteq> None \<and> the expected \<noteq> version then Inl StaleDraft
      else let (version', st') = persist_draft org actor now (app b) st in
           Inr (\<lparr>cn_changed = True, cn_version = version'\<rparr>, st'))"

definition cancel_change ::
  "uuid \<Rightarrow> uuid \<Rightarrow> string \<Rightarrow> string \<Rightarrow> int option \<Rightarrow> gotime \<Rightarrow> kb_store
     \<Rightarrow> kb_error + cancel_result \<times> kb_store" where
  "cancel_change org actor kind key expected now st =
     (if kind = ''config'' then
        (if key \<noteq> natural_key_main \<and> \<not> is_config_field key then Inl UnknownKind
         else cancel_within_lock org actor expected (\<lambda>b. config_field_pending (bl_config b) key)
           (\<lambda>b. b\<lparr>bl_config := (if key = natural_key_main then no_config
                               else clear_config_field key (bl_config b))\<rparr>) now st)
      else case singular_delete_kind kind of
        None \<Rightarrow> Inl UnknownKind
      | Some s \<Rightarrow> cancel_within_lock org actor expected (\<lambda>b. entity_change_present b s key)
           (\<lambda>b. remove_delete_matching s key (drop_entry s key b)) now st)"

section \<open>Current shapes\<close>

text \<open>The pending entry, else the live row.\<close>

definition current_if_any :: "('a \<Rightarrow> 'k) \<Rightarrow> uuid \<Rightarrow> 'k \<Rightarrow> 'a list \<Rightarrow> 'a kb_row list \<Rightarrow> 'a option" where
  "current_if_any key org k pend rows =
     (case find_by key k pend of Some x \<Rightarrow> Some x | None \<Rightarrow> row_at key org k rows)"

definition blank_topic :: "string \<Rightarrow> draft_topic" where
  "blank_topic slug = \<lparr>dt_slug = slug, dt_title = '''', dt_body = '''', dt_featured = None,
     dt_illustrations = [], dt_videos = [], dt_documents = []\<rparr>"

definition current_topic :: "kb_store \<Rightarrow> uuid \<Rightarrow> string \<Rightarrow> draft_blob \<Rightarrow> draft_topic" where
  "current_topic st org slug b =
     coalesce (current_if_any dt_slug org slug (bl_topics b) (ks_topics st)) (blank_topic slug)"

definition blank_tariff :: "string \<Rightarrow> draft_tariff" where
  "blank_tariff ref = \<lparr>da_ref = ref, da_name = '''', da_price = '''', da_limit_text = '''', da_fee = '''',
     da_summary = '''', da_pricing_type = ''fixed'', da_advantages = '''', da_disadvantages = '''',
     da_best_for = '''', da_not_for = '''', da_facts = [], da_sales_status = '''', da_featured = None,
     da_pricing_images = [], da_videos = [], da_terms = []\<rparr>"

definition current_tariff :: "kb_store \<Rightarrow> uuid \<Rightarrow> string \<Rightarrow> draft_blob \<Rightarrow> draft_tariff" where
  "current_tariff st org ref b =
     coalesce (current_if_any da_ref org ref (bl_tariffs b) (ks_tariffs st)) (blank_tariff ref)"

definition current_tariff_info :: "kb_store \<Rightarrow> uuid \<Rightarrow> draft_blob \<Rightarrow> draft_tariff_info" where
  "current_tariff_info st org b =
     coalesce (current_if_any singleton_key org () (bl_tariff_info b) (ks_tariff_info st)) \<lparr>di_facts = []\<rparr>"

definition blank_product :: "string \<Rightarrow> draft_product" where
  "blank_product ref = \<lparr>dp_ref = ref, dp_name = '''', dp_price = '''', dp_description = '''',
     dp_category = '''', dp_brand = '''', dp_advantages = '''', dp_disadvantages = '''', dp_best_for = '''',
     dp_not_for = '''', dp_availability = ''in_stock'', dp_availability_note = '''', dp_installation = '''',
     dp_warranty = '''', dp_facts = [], dp_sales_status = '''', dp_featured = None, dp_gallery = [],
     dp_videos = [], dp_certificates = [], dp_guarantees = []\<rparr>"

definition current_product :: "kb_store \<Rightarrow> uuid \<Rightarrow> string \<Rightarrow> draft_blob \<Rightarrow> draft_product" where
  "current_product st org ref b =
     coalesce (current_if_any dp_ref org ref (bl_products b) (ks_products st)) (blank_product ref)"

definition blank_zone :: "string \<Rightarrow> draft_zone" where
  "blank_zone ref = \<lparr>dn_ref = ref, dn_name = '''', dn_level = '''', dn_parent = '''', dn_available = False,
     dn_cost = '''', dn_days = '''', dn_notes = '''', dn_sales_status = ''''\<rparr>"

definition current_zone :: "kb_store \<Rightarrow> uuid \<Rightarrow> string \<Rightarrow> draft_blob \<Rightarrow> draft_zone" where
  "current_zone st org ref b =
     coalesce (current_if_any dn_ref org ref (bl_zones b) (ks_zones st)) (blank_zone ref)"

definition current_specialist_if_any :: "kb_store \<Rightarrow> uuid \<Rightarrow> string \<Rightarrow> draft_blob \<Rightarrow> draft_specialist option" where
  "current_specialist_if_any st org ref b = current_if_any ds_ref org ref (bl_specialists b) (ks_specialists st)"

definition blank_specialist :: "string \<Rightarrow> draft_specialist" where
  "blank_specialist ref = \<lparr>ds_ref = ref, ds_name = '''', ds_title = '''', ds_experience = '''',
     ds_schedule = [], ds_booking_url = '''', ds_portfolio = [], ds_sales_status = ''''\<rparr>"

definition current_specialist :: "kb_store \<Rightarrow> uuid \<Rightarrow> string \<Rightarrow> draft_blob \<Rightarrow> draft_specialist" where
  "current_specialist st org ref b = coalesce (current_specialist_if_any st org ref b) (blank_specialist ref)"

definition current_service_if_any :: "kb_store \<Rightarrow> uuid \<Rightarrow> string \<Rightarrow> draft_blob \<Rightarrow> draft_service option" where
  "current_service_if_any st org ref b = current_if_any dv_ref org ref (bl_services b) (ks_services st)"

definition blank_service :: "string \<Rightarrow> draft_service" where
  "blank_service ref = \<lparr>dv_ref = ref, dv_parent = '''', dv_type = '''', dv_category = '''', dv_name = '''',
     dv_price = '''', dv_duration = None, dv_description = '''', dv_specialists = [], dv_sales_status = ''''\<rparr>"

definition current_service :: "kb_store \<Rightarrow> uuid \<Rightarrow> string \<Rightarrow> draft_blob \<Rightarrow> draft_service" where
  "current_service st org ref b = coalesce (current_service_if_any st org ref b) (blank_service ref)"

definition blank_contact :: draft_contact where
  "blank_contact = \<lparr>dc_whatsapp = '''', dc_email = '''', dc_address = '''', dc_legal = '''',
     dc_callback_time = '''', dc_working_hours = '''', dc_phone = '''', dc_website = '''',
     dc_instagram = '''', dc_card_image = None, dc_map_image = None, dc_legal_documents = [],
     dc_booking_url = '''', dc_schedule = []\<rparr>"

definition current_contact :: "kb_store \<Rightarrow> uuid \<Rightarrow> draft_blob \<Rightarrow> draft_contact" where
  "current_contact st org b =
     coalesce (current_if_any singleton_key org () (bl_contacts b) (ks_contacts st)) blank_contact"

definition blank_policy :: draft_policy where
  "blank_policy = \<lparr>dl_delivery_cost = '''', dl_delivery_in_days = '''', dl_free_delivery_from = '''',
     dl_min_order = '''', dl_prepayment = '''', dl_installment = '''', dl_return_period = '''',
     dl_warranty = '''', dl_outside_zones_note = '''', dl_documents = []\<rparr>"

definition current_policy :: "kb_store \<Rightarrow> uuid \<Rightarrow> draft_blob \<Rightarrow> draft_policy" where
  "current_policy st org b =
     coalesce (current_if_any singleton_key org () (bl_policies b) (ks_policies st)) blank_policy"

section \<open>Rules for one entry\<close>

text \<open>A blank value passes: it stands for the default.\<close>

definition validate_enum :: "string \<Rightarrow> string \<Rightarrow> string list \<Rightarrow> kb_error + unit" where
  "validate_enum field v allowed =
     (if v = '''' \<or> v \<in> set allowed then Inr () else Inl (BadEnum field v allowed))"

definition map_error :: "('e \<Rightarrow> 'f) \<Rightarrow> 'e + 'a \<Rightarrow> 'f + 'a" where
  "map_error f r = (case r of Inl e \<Rightarrow> Inl (f e) | Inr x \<Rightarrow> Inr x)"

definition validate_product_facts :: "draft_product \<Rightarrow> kb_error + unit" where
  "validate_product_facts p =
     map_error (BadFactList ''product'' (dp_ref p)) (validate_facts (dp_facts p) [''price'']
       [(''description'', dp_description p), (''advantages'', dp_advantages p),
        (''disadvantages'', dp_disadvantages p), (''best_for'', dp_best_for p),
        (''not_for'', dp_not_for p), (''availability_note'', dp_availability_note p),
        (''installation_terms'', dp_installation p), (''warranty_terms'', dp_warranty p)])"

definition validate_tariff_facts :: "draft_tariff \<Rightarrow> kb_error + unit" where
  "validate_tariff_facts t =
     map_error (BadFactList ''tariff'' (da_ref t)) (validate_facts (da_facts t) [''price'', ''fee'']
       [(''summary'', da_summary t), (''limit_text'', da_limit_text t), (''advantages'', da_advantages t),
        (''disadvantages'', da_disadvantages t), (''best_for'', da_best_for t), (''not_for'', da_not_for t)])"

definition validate_tariff_info_facts :: "draft_tariff_info \<Rightarrow> kb_error + unit" where
  "validate_tariff_info_facts ti = map_error (BadFactList ''tariff_info'' '''') (validate_facts (di_facts ti) [] [])"

definition valid_salon_ref :: "string \<Rightarrow> string \<Rightarrow> kb_error + unit" where
  "valid_salon_ref field ref = guardE (ref_ok ref) (Salon (BadSalonRef field ref))"

definition sales_statuses :: "string list" where "sales_statuses = [''active'', ''inactive'']"

definition validate_specialist :: "draft_specialist \<Rightarrow> kb_error + draft_specialist" where
  "validate_specialist s =
     bindE (valid_salon_ref ''specialist'' (ds_ref s)) (\<lambda>_.
     bindE (validate_enum ''sales_status'' (ds_sales_status s) sales_statuses) (\<lambda>_.
     bindE (map_error (\<lambda>e. Salon (SalonSchedule (ds_ref s) e)) (normalize_schedule (ds_schedule s))) (\<lambda>sch.
     Inr (s\<lparr>ds_schedule := sch\<rparr>))))"

definition has_service_children :: "kb_store \<Rightarrow> uuid \<Rightarrow> string \<Rightarrow> draft_blob \<Rightarrow> bool" where
  "has_service_children st org ref b =
     (let gone = map dd_key (filter (\<lambda>d. dd_kind d = ''service'') (bl_deletes b)) in
      list_ex (\<lambda>v. dv_parent v = ref \<and> dv_ref v \<notin> set gone) (bl_services b)
      \<or> list_ex (\<lambda>r. kr_org r = org \<and> dv_parent (kr_body r) = ref
            \<and> dv_ref (kr_body r) \<notin> dv_ref ` set (bl_services b) \<and> dv_ref (kr_body r) \<notin> set gone) (ks_services st))"

definition validate_parent :: "kb_store \<Rightarrow> uuid \<Rightarrow> draft_blob \<Rightarrow> draft_service \<Rightarrow> kb_error + unit" where
  "validate_parent st org b v =
     (if has_service_children st org (dv_ref v) b then Inl (Salon (HasChildren (dv_ref v) (dv_type v)))
      else if dv_parent v = '''' then Inl (Salon (NeedsParent (dv_type v) (dv_ref v)))
      else case current_service_if_any st org (dv_parent v) b of
        None \<Rightarrow> Inl (Salon (UnknownParent (dv_ref v) (dv_parent v)))
      | Some p \<Rightarrow>
          if dv_type p \<noteq> ''base'' then Inl (Salon (ParentNotABase (dv_ref v) (dv_parent v)))
          else if or_default (dv_sales_status v) ''active'' = ''active''
                \<and> or_default (dv_sales_status p) ''active'' \<noteq> ''active''
          then Inl (Salon (ParentNotActive (dv_ref v) (dv_parent v)))
          else Inr ())"

definition validate_service :: "kb_store \<Rightarrow> uuid \<Rightarrow> draft_blob \<Rightarrow> draft_service \<Rightarrow> kb_error + draft_service" where
  "validate_service st org b v =
     bindE (valid_salon_ref ''service'' (dv_ref v)) (\<lambda>_.
     bindE (validate_enum ''service_type'' (dv_type v) [''base'', ''variant'', ''addon'']) (\<lambda>_.
     bindE (validate_enum ''sales_status'' (dv_sales_status v) sales_statuses) (\<lambda>_.
     bindE (if dv_type v = ''base''
            then guardE (dv_parent v = '''') (Salon (BaseWithParent (dv_ref v)))
            else validate_parent st org b v) (\<lambda>_.
     bindE (guardE (case dv_duration v of None \<Rightarrow> True | Some n \<Rightarrow> n > 0) (Salon (DurationNotPositive (dv_ref v)))) (\<lambda>_.
     bindE (check_all (\<lambda>ref. guardE (current_specialist_if_any st org ref b \<noteq> None)
              (Salon (UnknownSpecialist (dv_ref v) ref))) (dv_specialists v)) (\<lambda>_.
     Inr v))))))"

end
