(* ===== verification/Kb_Playground.thy ===== *)
theory Kb_Playground
  imports Kb_Draft
begin

text \<open>
  The edits of the Playground (\<open>draft.go\<close>, the draft CRUD): each starts from the current shape of its
  entry, validates the result and stages it in the draft; a delete drops the pending entry and leaves a
  marker for the live row. None of the upserts looks at the markers.
\<close>

section \<open>Configuration\<close>

text \<open>\<open>ConfigPatch\<close> has the fields of \<open>DraftConfigPatch\<close> and is modelled by the same record.\<close>

definition over :: "'a option \<Rightarrow> 'a option \<Rightarrow> 'a option" where
  "over p c = (case p of None \<Rightarrow> c | Some v \<Rightarrow> Some v)"

definition merge_config :: "draft_config \<Rightarrow> draft_config \<Rightarrow> draft_config" where
  "merge_config p c =
     \<lparr>dg_persona = over (dg_persona p) (dg_persona c), dg_mission = over (dg_mission p) (dg_mission c),
      dg_guardrails = over (dg_guardrails p) (dg_guardrails c),
      dg_language_policy = over (dg_language_policy p) (dg_language_policy c),
      dg_reply_max_words = over (dg_reply_max_words p) (dg_reply_max_words c)\<rparr>"

definition patch_config :: "uuid \<Rightarrow> uuid \<Rightarrow> draft_config \<Rightarrow> gotime \<Rightarrow> kb_store \<Rightarrow> kb_error + kb_store" where
  "patch_config org actor p now st =
     write_draft org actor now (blob_only (\<lambda>st b. Inr (b\<lparr>bl_config := merge_config p (bl_config b)\<rparr>))) st"

section \<open>Topics\<close>

record topic_input =
  ti_slug :: string
  ti_title :: string
  ti_body :: string
  ti_media :: topic_media_edit

definition stage_topic :: "uuid \<Rightarrow> topic_input \<Rightarrow> kb_store \<Rightarrow> draft_blob \<Rightarrow> kb_error + draft_blob" where
  "stage_topic org inp st b =
     (let cur = (current_topic st org (ti_slug inp) b)\<lparr>dt_title := ti_title inp, dt_body := ti_body inp\<rparr>;
          (cur', refs) = apply_topic_media cur (ti_media inp) in
      bindE (validate_media_refs st org refs) (\<lambda>_. Inr (upsert_topic cur' b)))"

definition upsert_topic_draft :: "uuid \<Rightarrow> uuid \<Rightarrow> topic_input \<Rightarrow> gotime \<Rightarrow> kb_store \<Rightarrow> kb_error + kb_store" where
  "upsert_topic_draft org actor inp now st = write_draft org actor now (blob_only (stage_topic org inp)) st"

definition delete_topic_draft :: "uuid \<Rightarrow> uuid \<Rightarrow> string \<Rightarrow> gotime \<Rightarrow> kb_store \<Rightarrow> kb_error + kb_store" where
  "delete_topic_draft org actor slug now st =
     write_draft org actor now (blob_only (\<lambda>st b. Inr (add_delete ''topic'' slug (remove_topic slug b)))) st"

section \<open>Tariffs and products\<close>

record tariff_input =
  fi_ref :: string
  fi_name :: string
  fi_price :: string
  fi_limit_text :: string
  fi_fee :: string
  fi_summary :: string
  fi_pricing_type :: string
  fi_advantages :: string
  fi_disadvantages :: string
  fi_best_for :: string
  fi_not_for :: string
  fi_sales_status :: string
  fi_facts :: "additional_fact list option"
  fi_media :: tariff_media_edit

definition set_tariff :: "tariff_input \<Rightarrow> draft_tariff \<Rightarrow> draft_tariff" where
  "set_tariff inp cur =
     cur\<lparr>da_name := fi_name inp, da_price := fi_price inp, da_limit_text := fi_limit_text inp,
         da_fee := fi_fee inp, da_summary := fi_summary inp,
         da_pricing_type := fi_pricing_type inp,
         da_advantages := fi_advantages inp, da_disadvantages := fi_disadvantages inp,
         da_best_for := fi_best_for inp, da_not_for := fi_not_for inp,
         da_facts := coalesce (fi_facts inp) (da_facts cur),
         da_sales_status := or_default (fi_sales_status inp) ''active''\<rparr>"

definition stage_tariff :: "uuid \<Rightarrow> tariff_input \<Rightarrow> kb_store \<Rightarrow> draft_blob \<Rightarrow> kb_error + draft_blob" where
  "stage_tariff org inp st b =
     (let cur = (set_tariff inp (current_tariff st org (fi_ref inp) b))
                  \<lparr>da_pricing_type := or_default (fi_pricing_type inp) ''fixed''\<rparr> in
      bindE (validate_tariff_facts cur) (\<lambda>_.
        let (cur', refs) = apply_tariff_media cur (fi_media inp) in
        bindE (validate_media_refs st org refs) (\<lambda>_. Inr (upsert_tariff cur' b))))"

definition upsert_tariff_draft :: "uuid \<Rightarrow> uuid \<Rightarrow> tariff_input \<Rightarrow> gotime \<Rightarrow> kb_store \<Rightarrow> kb_error + kb_store" where
  "upsert_tariff_draft org actor inp now st = write_draft org actor now (blob_only (stage_tariff org inp)) st"

definition delete_tariff_draft :: "uuid \<Rightarrow> uuid \<Rightarrow> string \<Rightarrow> gotime \<Rightarrow> kb_store \<Rightarrow> kb_error + kb_store" where
  "delete_tariff_draft org actor ref now st =
     write_draft org actor now (blob_only (\<lambda>st b. Inr (add_delete ''tariff'' ref (remove_tariff ref b)))) st"

record product_input =
  qi_ref :: string
  qi_name :: string
  qi_price :: string
  qi_description :: string
  qi_category :: string
  qi_brand :: string
  qi_advantages :: string
  qi_disadvantages :: string
  qi_best_for :: string
  qi_not_for :: string
  qi_availability :: "string option"
  qi_availability_note :: string
  qi_installation :: string
  qi_warranty :: string
  qi_facts :: "additional_fact list option"
  qi_sales_status :: string
  qi_media :: product_media_edit

definition availability_statuses :: "string list" where
  "availability_statuses = [''in_stock'', ''preorder'', ''on_demand'', ''unavailable'']"

definition set_product :: "product_input \<Rightarrow> draft_product \<Rightarrow> draft_product" where
  "set_product inp cur =
     cur\<lparr>dp_name := qi_name inp, dp_price := qi_price inp, dp_description := qi_description inp,
         dp_category := qi_category inp, dp_brand := qi_brand inp, dp_advantages := qi_advantages inp,
         dp_disadvantages := qi_disadvantages inp, dp_best_for := qi_best_for inp,
         dp_not_for := qi_not_for inp, dp_availability_note := qi_availability_note inp,
         dp_installation := qi_installation inp, dp_warranty := qi_warranty inp,
         dp_sales_status := or_default (qi_sales_status inp) ''active'',
         dp_availability := coalesce (qi_availability inp) (dp_availability cur),
         dp_facts := coalesce (qi_facts inp) (dp_facts cur)\<rparr>"

text \<open>The checks of a product edit, shared by the Playground and the live editor.\<close>

definition edited_product :: "uuid \<Rightarrow> product_input \<Rightarrow> kb_store \<Rightarrow> draft_product \<Rightarrow> kb_error + draft_product" where
  "edited_product org inp st cur0 =
     bindE (case qi_availability inp of
              None \<Rightarrow> Inr ()
            | Some v \<Rightarrow> validate_enum ''availability_status'' v availability_statuses) (\<lambda>_.
       let cur = set_product inp cur0 in
       bindE (validate_product_facts cur) (\<lambda>_.
         let (cur', refs) = apply_product_media cur (qi_media inp) in
         bindE (validate_media_refs st org refs) (\<lambda>_. Inr cur')))"

definition stage_product :: "uuid \<Rightarrow> product_input \<Rightarrow> kb_store \<Rightarrow> draft_blob \<Rightarrow> kb_error + draft_blob" where
  "stage_product org inp st b =
     bindE (edited_product org inp st (current_product st org (qi_ref inp) b)) (\<lambda>p. Inr (upsert_product p b))"

definition upsert_product_draft :: "uuid \<Rightarrow> uuid \<Rightarrow> product_input \<Rightarrow> gotime \<Rightarrow> kb_store \<Rightarrow> kb_error + kb_store" where
  "upsert_product_draft org actor inp now st = write_draft org actor now (blob_only (stage_product org inp)) st"

definition delete_product_draft :: "uuid \<Rightarrow> uuid \<Rightarrow> string \<Rightarrow> gotime \<Rightarrow> kb_store \<Rightarrow> kb_error + kb_store" where
  "delete_product_draft org actor ref now st =
     write_draft org actor now (blob_only (\<lambda>st b. Inr (add_delete ''product'' ref (remove_product ref b)))) st"

section \<open>Delivery zones, specialists and services\<close>

text \<open>\<open>DeliveryZoneInput\<close> has the fields of a zone and is modelled by \<open>draft_zone\<close>.\<close>

definition stage_zone :: "uuid \<Rightarrow> draft_zone \<Rightarrow> kb_store \<Rightarrow> draft_blob \<Rightarrow> kb_error + draft_blob" where
  "stage_zone org inp st b =
     Inr (upsert_zone ((current_zone st org (dn_ref inp) b)
       \<lparr>dn_name := dn_name inp, dn_level := dn_level inp, dn_parent := dn_parent inp,
        dn_available := dn_available inp, dn_cost := dn_cost inp, dn_days := dn_days inp,
        dn_notes := dn_notes inp, dn_sales_status := or_default (dn_sales_status inp) ''active''\<rparr>) b)"

definition upsert_zone_draft :: "uuid \<Rightarrow> uuid \<Rightarrow> draft_zone \<Rightarrow> gotime \<Rightarrow> kb_store \<Rightarrow> kb_error + kb_store" where
  "upsert_zone_draft org actor inp now st = write_draft org actor now (blob_only (stage_zone org inp)) st"

definition delete_zone_draft :: "uuid \<Rightarrow> uuid \<Rightarrow> string \<Rightarrow> gotime \<Rightarrow> kb_store \<Rightarrow> kb_error + kb_store" where
  "delete_zone_draft org actor ref now st =
     write_draft org actor now (blob_only (\<lambda>st b. Inr (add_delete ''delivery_zone'' ref (remove_zone ref b)))) st"

record specialist_input =
  si_ref :: string
  si_name :: string
  si_title :: string
  si_experience :: string
  si_booking_url :: string
  si_sales_status :: string
  si_schedule :: schedule
  si_portfolio :: "uuid list option"

definition edited_specialist ::
  "uuid \<Rightarrow> specialist_input \<Rightarrow> kb_store \<Rightarrow> draft_specialist \<Rightarrow> kb_error + draft_specialist" where
  "edited_specialist org inp st cur =
     bindE (validate_specialist (cur\<lparr>ds_ref := si_ref inp, ds_name := si_name inp, ds_title := si_title inp,
              ds_experience := si_experience inp, ds_schedule := si_schedule inp,
              ds_booking_url := si_booking_url inp,
              ds_sales_status := or_default (si_sales_status inp) ''active''\<rparr>)) (\<lambda>cur'.
       let (cur'', refs) = apply_specialist_media cur' (si_portfolio inp) in
       bindE (validate_media_refs st org refs) (\<lambda>_. Inr cur''))"

definition stage_specialist :: "uuid \<Rightarrow> specialist_input \<Rightarrow> kb_store \<Rightarrow> draft_blob \<Rightarrow> kb_error + draft_blob" where
  "stage_specialist org inp st b =
     bindE (edited_specialist org inp st (current_specialist st org (si_ref inp) b)) (\<lambda>s. Inr (upsert_specialist s b))"

definition upsert_specialist_draft ::
  "uuid \<Rightarrow> uuid \<Rightarrow> specialist_input \<Rightarrow> gotime \<Rightarrow> kb_store \<Rightarrow> kb_error + kb_store" where
  "upsert_specialist_draft org actor inp now st = write_draft org actor now (blob_only (stage_specialist org inp)) st"

definition delete_specialist_draft :: "uuid \<Rightarrow> uuid \<Rightarrow> string \<Rightarrow> gotime \<Rightarrow> kb_store \<Rightarrow> kb_error + kb_store" where
  "delete_specialist_draft org actor ref now st =
     write_draft org actor now (blob_only (\<lambda>st b. Inr (add_delete ''specialist'' ref (remove_specialist ref b)))) st"

text \<open>
  \<open>ServiceInput\<close> has the fields of a service and every one of them is written, so the current shape of
  the service, which the code reads first, leaves no trace.
\<close>

definition service_of_input :: "draft_service \<Rightarrow> draft_service" where
  "service_of_input inp = inp\<lparr>dv_type := or_default (dv_type inp) ''base'',
     dv_sales_status := or_default (dv_sales_status inp) ''active''\<rparr>"

definition stage_service :: "uuid \<Rightarrow> draft_service \<Rightarrow> kb_store \<Rightarrow> draft_blob \<Rightarrow> kb_error + draft_blob" where
  "stage_service org inp st b =
     bindE (validate_service st org b (service_of_input inp)) (\<lambda>v. Inr (upsert_service v b))"

definition upsert_service_draft :: "uuid \<Rightarrow> uuid \<Rightarrow> draft_service \<Rightarrow> gotime \<Rightarrow> kb_store \<Rightarrow> kb_error + kb_store" where
  "upsert_service_draft org actor inp now st = write_draft org actor now (blob_only (stage_service org inp)) st"

definition delete_service_draft :: "uuid \<Rightarrow> uuid \<Rightarrow> string \<Rightarrow> gotime \<Rightarrow> kb_store \<Rightarrow> kb_error + kb_store" where
  "delete_service_draft org actor ref now st =
     write_draft org actor now (blob_only (\<lambda>st b. Inr (add_delete ''service'' ref (remove_service ref b)))) st"

section \<open>Singletons\<close>

record contact_patch =
  kp_whatsapp :: "string option"
  kp_email :: "string option"
  kp_address :: "string option"
  kp_legal :: "string option"
  kp_callback_time :: "string option"
  kp_working_hours :: "string option"
  kp_phone :: "string option"
  kp_website :: "string option"
  kp_instagram :: "string option"
  kp_booking_url :: "string option"
  kp_schedule :: "schedule option"
  kp_media :: contacts_media_edit

definition no_contact_patch :: contact_patch where
  "no_contact_patch = \<lparr>kp_whatsapp = None, kp_email = None, kp_address = None, kp_legal = None,
     kp_callback_time = None, kp_working_hours = None, kp_phone = None, kp_website = None,
     kp_instagram = None, kp_booking_url = None, kp_schedule = None,
     kp_media = \<lparr>km_card_image = None, km_map_image = None, km_legal_documents = None\<rparr>\<rparr>"

text \<open>
  The edit itself, shared with the live editor; \<open>bad\<close> is how the caller reports a bad schedule.
\<close>

definition edited_contact ::
  "(schedule_error \<Rightarrow> kb_error) \<Rightarrow> uuid \<Rightarrow> contact_patch \<Rightarrow> kb_store \<Rightarrow> draft_contact \<Rightarrow> kb_error + draft_contact" where
  "edited_contact bad org p st cur =
     bindE (case kp_schedule p of
              None \<Rightarrow> Inr (dc_schedule cur)
            | Some s \<Rightarrow> map_error bad (normalize_schedule s)) (\<lambda>sch.
       let cur1 = cur\<lparr>dc_whatsapp := coalesce (kp_whatsapp p) (dc_whatsapp cur),
             dc_email := coalesce (kp_email p) (dc_email cur),
             dc_address := coalesce (kp_address p) (dc_address cur),
             dc_legal := coalesce (kp_legal p) (dc_legal cur),
             dc_callback_time := coalesce (kp_callback_time p) (dc_callback_time cur),
             dc_working_hours := coalesce (kp_working_hours p) (dc_working_hours cur),
             dc_phone := coalesce (kp_phone p) (dc_phone cur),
             dc_website := coalesce (kp_website p) (dc_website cur),
             dc_instagram := coalesce (kp_instagram p) (dc_instagram cur),
             dc_booking_url := coalesce (kp_booking_url p) (dc_booking_url cur),
             dc_schedule := sch\<rparr>;
           (cur2, refs) = apply_contacts_media cur1 (kp_media p) in
       bindE (validate_media_refs st org refs) (\<lambda>_. Inr cur2))"

definition patch_contacts :: "uuid \<Rightarrow> uuid \<Rightarrow> contact_patch \<Rightarrow> gotime \<Rightarrow> kb_store \<Rightarrow> kb_error + kb_store" where
  "patch_contacts org actor p now st =
     write_draft org actor now (blob_only (\<lambda>st b.
       bindE (edited_contact BadContactSchedule org p st (current_contact st org b)) (\<lambda>c. Inr (upsert_contact c b)))) st"

record policy_patch =
  lp_delivery_cost :: "string option"
  lp_delivery_in_days :: "string option"
  lp_free_delivery_from :: "string option"
  lp_min_order :: "string option"
  lp_prepayment :: "string option"
  lp_installment :: "string option"
  lp_return_period :: "string option"
  lp_warranty :: "string option"
  lp_outside_zones_note :: "string option"
  lp_documents :: "uuid list option"

definition no_policy_patch :: policy_patch where
  "no_policy_patch = \<lparr>lp_delivery_cost = None, lp_delivery_in_days = None, lp_free_delivery_from = None,
     lp_min_order = None, lp_prepayment = None, lp_installment = None, lp_return_period = None,
     lp_warranty = None, lp_outside_zones_note = None, lp_documents = None\<rparr>"

definition edited_policy :: "uuid \<Rightarrow> policy_patch \<Rightarrow> kb_store \<Rightarrow> draft_policy \<Rightarrow> kb_error + draft_policy" where
  "edited_policy org p st cur =
     (let cur1 = cur\<lparr>dl_delivery_cost := coalesce (lp_delivery_cost p) (dl_delivery_cost cur),
            dl_delivery_in_days := coalesce (lp_delivery_in_days p) (dl_delivery_in_days cur),
            dl_free_delivery_from := coalesce (lp_free_delivery_from p) (dl_free_delivery_from cur),
            dl_min_order := coalesce (lp_min_order p) (dl_min_order cur),
            dl_prepayment := coalesce (lp_prepayment p) (dl_prepayment cur),
            dl_installment := coalesce (lp_installment p) (dl_installment cur),
            dl_return_period := coalesce (lp_return_period p) (dl_return_period cur),
            dl_warranty := coalesce (lp_warranty p) (dl_warranty cur),
            dl_outside_zones_note := coalesce (lp_outside_zones_note p) (dl_outside_zones_note cur)\<rparr>;
          (cur2, refs) = apply_policies_media cur1 (lp_documents p) in
      bindE (validate_media_refs st org refs) (\<lambda>_. Inr cur2))"

definition patch_policies :: "uuid \<Rightarrow> uuid \<Rightarrow> policy_patch \<Rightarrow> gotime \<Rightarrow> kb_store \<Rightarrow> kb_error + kb_store" where
  "patch_policies org actor p now st =
     write_draft org actor now (blob_only (\<lambda>st b.
       bindE (edited_policy org p st (current_policy st org b)) (\<lambda>c. Inr (upsert_policy c b)))) st"

text \<open>\<open>TariffInfoPatch\<close> has the one field \<open>AdditionalFacts\<close>.\<close>

definition edited_tariff_info :: "additional_fact list option \<Rightarrow> draft_tariff_info \<Rightarrow> kb_error + draft_tariff_info" where
  "edited_tariff_info p cur =
     (let cur' = cur\<lparr>di_facts := coalesce p (di_facts cur)\<rparr> in
      bindE (validate_tariff_info_facts cur') (\<lambda>_. Inr cur'))"

definition patch_tariff_info ::
  "uuid \<Rightarrow> uuid \<Rightarrow> additional_fact list option \<Rightarrow> gotime \<Rightarrow> kb_store \<Rightarrow> kb_error + kb_store" where
  "patch_tariff_info org actor p now st =
     write_draft org actor now (blob_only (\<lambda>st b.
       bindE (edited_tariff_info p (current_tariff_info st org b)) (\<lambda>ti. Inr (upsert_tariff_info ti b)))) st"

section \<open>One field of a typed fact\<close>

definition set_tariff_field :: "string \<Rightarrow> string \<Rightarrow> draft_tariff \<Rightarrow> draft_tariff option" where
  "set_tariff_field field v t =
     (if field = ''name'' then Some (t\<lparr>da_name := v\<rparr>)
      else if field = ''price'' then Some (t\<lparr>da_price := v\<rparr>)
      else if field = ''limit_text'' then Some (t\<lparr>da_limit_text := v\<rparr>)
      else if field = ''fee'' then Some (t\<lparr>da_fee := v\<rparr>)
      else if field = ''summary'' then Some (t\<lparr>da_summary := v\<rparr>)
      else None)"

definition set_product_field :: "string \<Rightarrow> string \<Rightarrow> draft_product \<Rightarrow> draft_product option" where
  "set_product_field field v p =
     (if field = ''name'' then Some (p\<lparr>dp_name := v\<rparr>)
      else if field = ''price'' then Some (p\<lparr>dp_price := v\<rparr>)
      else if field = ''description'' then Some (p\<lparr>dp_description := v\<rparr>)
      else if field = ''category'' then Some (p\<lparr>dp_category := v\<rparr>)
      else None)"

definition set_contact_patch_field :: "string \<Rightarrow> string \<Rightarrow> contact_patch \<Rightarrow> contact_patch option" where
  "set_contact_patch_field field v p =
     (if field = ''whatsapp'' then Some (p\<lparr>kp_whatsapp := Some v\<rparr>)
      else if field = ''email'' then Some (p\<lparr>kp_email := Some v\<rparr>)
      else if field = ''address'' then Some (p\<lparr>kp_address := Some v\<rparr>)
      else if field = ''legal_information'' then Some (p\<lparr>kp_legal := Some v\<rparr>)
      else if field = ''callback_time'' then Some (p\<lparr>kp_callback_time := Some v\<rparr>)
      else if field = ''working_hours'' then Some (p\<lparr>kp_working_hours := Some v\<rparr>)
      else if field = ''phone'' then Some (p\<lparr>kp_phone := Some v\<rparr>)
      else if field = ''website'' then Some (p\<lparr>kp_website := Some v\<rparr>)
      else if field = ''instagram'' then Some (p\<lparr>kp_instagram := Some v\<rparr>)
      else None)"

definition set_policy_patch_field :: "string \<Rightarrow> string \<Rightarrow> policy_patch \<Rightarrow> policy_patch option" where
  "set_policy_patch_field field v p =
     (if field = ''delivery_cost'' then Some (p\<lparr>lp_delivery_cost := Some v\<rparr>)
      else if field = ''delivery_in_days'' then Some (p\<lparr>lp_delivery_in_days := Some v\<rparr>)
      else if field = ''free_delivery_from'' then Some (p\<lparr>lp_free_delivery_from := Some v\<rparr>)
      else if field = ''min_order'' then Some (p\<lparr>lp_min_order := Some v\<rparr>)
      else if field = ''prepayment'' then Some (p\<lparr>lp_prepayment := Some v\<rparr>)
      else if field = ''installment'' then Some (p\<lparr>lp_installment := Some v\<rparr>)
      else if field = ''return_period_in_days'' then Some (p\<lparr>lp_return_period := Some v\<rparr>)
      else if field = ''warranty'' then Some (p\<lparr>lp_warranty := Some v\<rparr>)
      else None)"

definition known_field :: "('a \<Rightarrow> 'b) \<Rightarrow> 'a option \<Rightarrow> kb_error + 'b" where
  "known_field f r = (case r of None \<Rightarrow> Inl UnknownKind | Some x \<Rightarrow> Inr (f x))"

definition set_fact_field ::
  "uuid \<Rightarrow> uuid \<Rightarrow> string \<Rightarrow> string \<Rightarrow> string \<Rightarrow> string \<Rightarrow> gotime \<Rightarrow> kb_store \<Rightarrow> kb_error + kb_store" where
  "set_fact_field org actor table slug field v now st =
     (if table = ''tariff'' then
        write_draft org actor now (blob_only (\<lambda>st b.
          known_field (\<lambda>t. upsert_tariff t b) (set_tariff_field field v (current_tariff st org slug b)))) st
      else if table = ''product'' then
        write_draft org actor now (blob_only (\<lambda>st b.
          known_field (\<lambda>p. upsert_product p b) (set_product_field field v (current_product st org slug b)))) st
      else if table = ''contact'' then
        (case set_contact_patch_field field v no_contact_patch of
           None \<Rightarrow> Inl UnknownKind
         | Some p \<Rightarrow> patch_contacts org actor p now st)
      else if table = ''policy'' then
        (case set_policy_patch_field field v no_policy_patch of
           None \<Rightarrow> Inl UnknownKind
         | Some p \<Rightarrow> patch_policies org actor p now st)
      else Inl UnknownKind)"

end
