(* ===== verification/Kb_Gate.thy ===== *)
theory Kb_Gate
  imports Kb_Rows Text_Regex
begin

text \<open>
  The deterministic gate of the knowledge base: what a topic body may hold, which worlds of delivery
  zones and policies and which trees of services may be live (\<open>kbstore.go\<close>, \<open>zones.go\<close>), and the
  resulting sets an approval is checked against.
\<close>

section \<open>Topic bodies\<close>

definition amount_digits :: rune_class where "amount_digits = In [(0x30, 0x39)]"
definition amount_rest :: rune_class where
  "amount_rest = In [(0x30, 0x39), (0x20, 0x20), (0xA0, 0xA0), (0x2E, 0x2E), (0x2C, 0x2C)]"
definition amount_space :: rune_class where "amount_space = In [(9, 10), (12, 13), (32, 32)]"
definition currency_sign :: rune_class where
  "currency_sign = In [(0x24, 0x24), (0x20AC, 0x20AC), (0xA3, 0xA3)]"

fun rune_word :: "int list \<Rightarrow> pattern" where
  "rune_word [] = Many (In [])"
| "rune_word [r] = One (In [(r, r)])"
| "rune_word (r # rs) = Seq (One (In [(r, r)])) (rune_word rs)"

fun any_word :: "int list list \<Rightarrow> pattern" where
  "any_word [] = One (In [])"
| "any_word [w] = rune_word w"
| "any_word (w # ws) = Alt (rune_word w) (any_word ws)"

definition raw_currency :: pattern where
  "raw_currency =
     Alt (Seq (One amount_digits) (Seq (Many amount_rest) (Seq (Many amount_space)
            (any_word [[0x20B8], [0x20BD], [0x20AC], [0xA3], [0x0442, 0x0433], [0x0442, 0x0435, 0x043D, 0x0433, 0x0435], [0x0440, 0x0443, 0x0431]]))))
         (Seq (One currency_sign) (Seq (Many amount_space) (One amount_digits)))"

text \<open>\<open>FindString\<close>; the empty text when there is no match.\<close>

definition find_amount :: "string \<Rightarrow> string" where
  "find_amount s =
     (case search raw_currency None (runes s) of
        None \<Rightarrow> ''''
      | Some (at, q, rest) \<Rightarrow> of_runes (take (length at - length rest) at))"

definition gate_topic_body :: "string \<Rightarrow> string \<Rightarrow> gate_reason list" where
  "gate_topic_body slug body =
     (if contains_str body ''{{'' then [BodyHasToken slug] else [])
     @ (let lit = find_amount body in
        if lit \<noteq> '''' then [BodyHasAmount slug (trim_space lit)] else [])"

definition gate :: "draft_topic list \<Rightarrow> nat \<Rightarrow> gate_reason list" where
  "gate topics pending =
     concat (map (\<lambda>t. gate_topic_body (dt_slug t) (dt_body t)) topics)
     @ (if pending > 0 then [RequestsPending pending] else [])"

text \<open>
  \<open>mergeForGate\<close>. The code projects a topic to its slug, title and body, of which the gate reads slug
  and body; entries that are not live are appended without entering the index.
\<close>

definition merge_for_gate :: "draft_topic list \<Rightarrow> draft_topic list \<Rightarrow> draft_delete list \<Rightarrow> draft_topic list" where
  "merge_for_gate live topics deletes =
     (let kept = filter (\<lambda>t. tag_of ''topic'' (dt_slug t) \<notin> set (deleted_tags deletes)) live in
      foldl (\<lambda>out t. if dt_slug t \<in> dt_slug ` set kept then upsert_by dt_slug t out else out @ [t])
        kept topics)"

definition pending_request_count :: "kb_store \<Rightarrow> uuid \<Rightarrow> nat" where
  "pending_request_count st org =
     length (filter (\<lambda>r. rq_org r = org \<and> rq_state r = ''pending'') (ks_requests st))"

section \<open>Delivery zones and policies\<close>

text \<open>A Go map built by a loop over rows: a later row wins.\<close>

definition last_by :: "('a \<Rightarrow> 'k) \<Rightarrow> 'k \<Rightarrow> 'a list \<Rightarrow> 'a option" where
  "last_by key k xs = find_by key k (rev xs)"

text \<open>
  The walk up the parents: every step enters a parent that was not visited before and has a row, so
  the rows not yet visited bound it.
\<close>

lemma last_by_Some: "last_by key k xs = Some x \<Longrightarrow> x \<in> set xs \<and> key x = k"
  by (auto simp: last_by_def dest: find_by_Some)

function cycle_from :: "draft_zone list \<Rightarrow> string list \<Rightarrow> string \<Rightarrow> bool" where
  "cycle_from zs visited cur =
     (if cur = '''' then False
      else if cur \<in> set visited then True
      else case last_by dn_ref cur zs of
        None \<Rightarrow> False
      | Some z \<Rightarrow> cycle_from zs (cur # visited) (dn_parent z))"
  by pat_completeness auto
termination
proof (relation "measure (\<lambda>(zs, visited, cur). card (dn_ref ` set zs - set visited))")
  show "wf (measure (\<lambda>(zs, visited, cur :: string). card (dn_ref ` set zs - set visited)))" by simp
next
  fix zs :: "draft_zone list" and visited cur z
  assume fresh: "cur \<notin> set visited" and "last_by dn_ref cur zs = Some z"
  then have "cur \<in> dn_ref ` set zs" by (auto dest: last_by_Some)
  with fresh have "dn_ref ` set zs - set (cur # visited) \<subset> dn_ref ` set zs - set visited" by auto
  then show "((zs, cur # visited, dn_parent z), (zs, visited, cur))
      \<in> measure (\<lambda>(zs, visited, cur). card (dn_ref ` set zs - set visited))"
    by (simp add: psubset_card_mono)
qed

declare cycle_from.simps [simp del]

definition zone_parent_cycle :: "draft_zone list \<Rightarrow> string \<Rightarrow> bool" where
  "zone_parent_cycle zs ref =
     cycle_from zs [ref] (case last_by dn_ref ref zs of None \<Rightarrow> '''' | Some z \<Rightarrow> dn_parent z)"

definition blank :: "string \<Rightarrow> bool" where
  "blank s \<longleftrightarrow> trim_space s = ''''"

definition zone_terms_reasons :: "draft_zone \<Rightarrow> gate_reason list" where
  "zone_terms_reasons z =
     (if dn_available z then
        (if blank (dn_cost z) \<or> blank (dn_days z) then [TermsRequired (dn_ref z)] else [])
      else if \<not> blank (dn_cost z) \<or> \<not> blank (dn_days z) then [TermsForbidden (dn_ref z)] else [])"

definition zone_parent_reasons :: "draft_zone list \<Rightarrow> draft_zone \<Rightarrow> gate_reason list" where
  "zone_parent_reasons zs z =
     (if dn_parent z = '''' then []
      else if dn_parent z = dn_ref z then [ParentIsSelf (dn_ref z)]
      else if last_by dn_ref (dn_parent z) zs = None then [ParentUnresolved (dn_ref z) (dn_parent z)]
      else if zone_parent_cycle zs (dn_ref z) then [ParentCycle (dn_ref z)]
      else [])"

definition policy_reasons :: "draft_policy \<Rightarrow> gate_reason list" where
  "policy_reasons p =
     (if \<not> blank (dl_delivery_cost p) \<or> \<not> blank (dl_delivery_in_days p) then [FlatTermsPresent] else [])
     @ (if blank (dl_outside_zones_note p) then [OutsideNoteMissing] else [])"

definition zone_gate_reasons :: "draft_zone list \<Rightarrow> draft_policy list \<Rightarrow> gate_reason list" where
  "zone_gate_reasons zs ps =
     concat (map (\<lambda>z. zone_terms_reasons z @ zone_parent_reasons zs z) zs)
     @ (if length zs = 0 then []
        else (if length ps = 0 then [PolicyRowRequired] else []) @ concat (map policy_reasons ps))"

definition load_zone_rows :: "kb_store \<Rightarrow> uuid \<Rightarrow> draft_zone list" where
  "load_zone_rows st org = map kr_body (org_rows org (ks_zones st))"

definition load_policy_rows :: "kb_store \<Rightarrow> uuid \<Rightarrow> draft_policy list" where
  "load_policy_rows st org = map kr_body (org_rows org (ks_policies st))"

definition resulting_zones :: "draft_zone list \<Rightarrow> draft_zone list \<Rightarrow> draft_delete list \<Rightarrow> draft_zone list" where
  "resulting_zones live upserts deletes =
     foldl (\<lambda>out u. upsert_by dn_ref (stored_zone u) out)
       (filter (\<lambda>z. \<not> list_ex (\<lambda>d. dd_kind d = ''delivery_zone'' \<and> dd_key d = dn_ref z) deletes) live)
       upserts"

definition resulting_policy :: "kb_store \<Rightarrow> uuid \<Rightarrow> draft_policy list \<Rightarrow> draft_policy list" where
  "resulting_policy st org upserts =
     (case upserts of p # ps \<Rightarrow> [p] | [] \<Rightarrow> load_policy_rows st org)"

definition validate_zone_world :: "uuid \<Rightarrow> kb_store \<Rightarrow> kb_error + unit" where
  "validate_zone_world org st =
     (let reasons = zone_gate_reasons (load_zone_rows st org) (load_policy_rows st org) in
      if length reasons > 0 then Inl (GateFailed reasons) else Inr ())"

section \<open>Services and specialists\<close>

definition load_service_rows :: "kb_store \<Rightarrow> uuid \<Rightarrow> draft_service list" where
  "load_service_rows st org = map kr_body (org_rows org (ks_services st))"

definition load_specialist_rows :: "kb_store \<Rightarrow> uuid \<Rightarrow> draft_specialist list" where
  "load_specialist_rows st org = map kr_body (org_rows org (ks_specialists st))"

definition resulting_services ::
  "draft_service list \<Rightarrow> draft_service list \<Rightarrow> draft_delete list \<Rightarrow> draft_service list" where
  "resulting_services live upserts deletes =
     foldl (\<lambda>out u. upsert_by dv_ref (stored_service u) out)
       (filter (\<lambda>s. \<not> list_ex (\<lambda>d. dd_kind d = ''service'' \<and> dd_key d = dv_ref s) deletes) live)
       upserts"

definition resulting_specialists ::
  "draft_specialist list \<Rightarrow> draft_specialist list \<Rightarrow> draft_delete list \<Rightarrow> draft_specialist list" where
  "resulting_specialists live upserts deletes =
     foldl (\<lambda>out u. upsert_by ds_ref (stored_specialist u) out)
       (filter (\<lambda>s. \<not> list_ex (\<lambda>d. dd_kind d = ''specialist'' \<and> dd_key d = ds_ref s) deletes) live)
       upserts"

definition service_reasons :: "draft_service list \<Rightarrow> draft_service \<Rightarrow> gate_reason list" where
  "service_reasons svs sv =
     (if dv_type sv = ''base'' \<or> dv_parent sv = '''' then []
      else case last_by dv_ref (dv_parent sv) svs of
        None \<Rightarrow> [BaseMissing (dv_ref sv) (dv_parent sv)]
      | Some parent \<Rightarrow>
          if dv_type parent \<noteq> ''base'' then [BaseNotBase (dv_ref sv) (dv_parent sv)]
          else if dv_sales_status sv = ''active'' \<and> dv_sales_status parent \<noteq> ''active''
          then [BaseArchived (dv_ref sv) (dv_parent sv)]
          else [])"

definition service_gate_reasons :: "draft_service list \<Rightarrow> gate_reason list" where
  "service_gate_reasons svs = concat (map (service_reasons svs) svs)"

definition specialist_gate_reasons :: "draft_service list \<Rightarrow> draft_specialist list \<Rightarrow> gate_reason list" where
  "specialist_gate_reasons approving resulting =
     concat (map (\<lambda>sv. map (SpecialistNotLive (dv_ref sv))
         (filter (\<lambda>ref. ref \<notin> ds_ref ` set resulting) (dv_specialists sv))) approving)"

end
