(* ===== verification/Kb_Approve.thy ===== *)
theory Kb_Approve
  imports Kb_Playground Kb_Gate
begin

text \<open>
  The views of the knowledge base and the approval of its draft (\<open>draft.go\<close>): live rows overlaid by
  pending entries, the pending entries alone, the set an approval selects, the gate it is checked
  against, and the transaction that writes it to the live tables and clears it from the draft.
\<close>

section \<open>Views\<close>

text \<open>
  A row of a view is its entry, whether it is pending, and its timestamp; its \<open>id\<close> is the natural key
  of the entry, or a constant for a singleton.
\<close>

record 'a view_row =
  vr_body :: 'a
  vr_draft :: bool
  vr_updated :: gotime

definition live_row :: "'a kb_row \<Rightarrow> 'a view_row" where
  "live_row r = \<lparr>vr_body = kr_body r, vr_draft = False, vr_updated = kr_updated r\<rparr>"

definition pending_row :: "gotime \<Rightarrow> 'a \<Rightarrow> 'a view_row" where
  "pending_row updated x = \<lparr>vr_body = x, vr_draft = True, vr_updated = updated\<rparr>"

record config_view =
  cv_assistant :: assistant_row
  cv_draft :: bool
  cv_version :: int
  cv_updated :: gotime

record draft_view =
  vw_config :: config_view
  vw_topics :: "draft_topic view_row list"
  vw_tariffs :: "draft_tariff view_row list"
  vw_products :: "draft_product view_row list"
  vw_contacts :: "draft_contact view_row list"
  vw_policies :: "draft_policy view_row list"
  vw_tariff_info :: "draft_tariff_info view_row list"
  vw_zones :: "draft_zone view_row list"
  vw_specialists :: "draft_specialist view_row list"
  vw_services :: "draft_service view_row list"
  vw_materials :: "material_row list"
  vw_requests :: "request_row list"

definition overlay_config :: "draft_config \<Rightarrow> assistant_row \<Rightarrow> int \<Rightarrow> gotime \<Rightarrow> config_view" where
  "overlay_config c a version updated =
     \<lparr>cv_assistant = patch_assistant c a, cv_draft = has_pending c, cv_version = version, cv_updated = updated\<rparr>"

text \<open>The loops over \<open>topicIdx\<close>, \<open>tariffIdx\<close> and so on: replace the row of the key, else append.\<close>

definition overlay :: "('a \<Rightarrow> 'k) \<Rightarrow> gotime \<Rightarrow> 'a list \<Rightarrow> 'a view_row list \<Rightarrow> 'a view_row list" where
  "overlay key updated pend rows =
     foldl (\<lambda>vs x. upsert_by (\<lambda>v. key (vr_body v)) (pending_row updated x) vs) rows pend"

definition not_deleted :: "string \<Rightarrow> ('a \<Rightarrow> string) \<Rightarrow> draft_delete list \<Rightarrow> 'a view_row list \<Rightarrow> 'a view_row list" where
  "not_deleted kind key deletes rows =
     filter (\<lambda>v. tag_of kind (key (vr_body v)) \<notin> set (deleted_tags deletes)) rows"

definition merge_rows ::
  "string \<Rightarrow> ('a \<Rightarrow> string) \<Rightarrow> gotime \<Rightarrow> 'a list \<Rightarrow> draft_delete list \<Rightarrow> 'a kb_row list \<Rightarrow> 'a view_row list" where
  "merge_rows kind key updated pend deletes rows =
     not_deleted kind key deletes (overlay key updated pend (map live_row rows))"

definition merge_singleton ::
  "string \<Rightarrow> gotime \<Rightarrow> 'a list \<Rightarrow> draft_blob \<Rightarrow> 'a view_row list \<Rightarrow> 'a view_row list" where
  "merge_singleton kind updated pend b rows =
     (if deleted_singleton b kind then []
      else case pend of [] \<Rightarrow> rows
      | p # ps \<Rightarrow> (case rows of [] \<Rightarrow> [pending_row updated p] | r # rs \<Rightarrow> pending_row updated p # rs))"

definition merged_view :: "kb_store \<Rightarrow> uuid \<Rightarrow> draft_blob \<Rightarrow> int \<Rightarrow> gotime \<Rightarrow> draft_view" where
  "merged_view st org b version updated =
     (let ds = bl_deletes b in
      \<lparr>vw_config = overlay_config (bl_config b)
         (coalesce (row_at singleton_key org () (ks_assistants st)) default_assistant) version updated,
       vw_topics = merge_rows ''topic'' dt_slug updated (bl_topics b) ds (org_rows org (ks_topics st)),
       vw_tariffs = merge_rows ''tariff'' da_ref updated (bl_tariffs b) ds (org_rows org (ks_tariffs st)),
       vw_products = merge_rows ''product'' dp_ref updated (bl_products b) ds (org_rows org (ks_products st)),
       vw_contacts = merge_singleton ''contact'' updated (bl_contacts b) b (map live_row (org_rows org (ks_contacts st))),
       vw_policies = merge_singleton ''policy'' updated (bl_policies b) b (map live_row (org_rows org (ks_policies st))),
       vw_tariff_info = merge_singleton ''tariff_info'' updated (bl_tariff_info b) b
         (case row_at singleton_key org () (ks_tariff_info st) of
            None \<Rightarrow> []
          | Some ti \<Rightarrow> [\<lparr>vr_body = ti, vr_draft = False, vr_updated = zero_time\<rparr>]),
       vw_zones = merge_rows ''delivery_zone'' dn_ref updated (map stored_zone (bl_zones b)) ds (org_rows org (ks_zones st)),
       vw_specialists = merge_rows ''specialist'' ds_ref updated (map stored_specialist (bl_specialists b)) ds
         (org_rows org (ks_specialists st)),
       vw_services = merge_rows ''service'' dv_ref updated (map stored_service (bl_services b)) ds
         (org_rows org (ks_services st)),
       vw_materials = [], vw_requests = []\<rparr>)"

definition draft_view_of :: "kb_store \<Rightarrow> uuid \<Rightarrow> draft_view" where
  "draft_view_of st org =
     (let (b, version, updated) = read_draft st org in
      (merged_view st org b version updated)
        \<lparr>vw_materials := list_materials st org, vw_requests := list_requests st org\<rparr>)"

definition live_view :: "kb_store \<Rightarrow> uuid \<Rightarrow> draft_view" where
  "live_view st org = (merged_view st org empty_blob 0 zero_time)\<lparr>vw_materials := list_materials st org\<rparr>"

definition pending_rows :: "string \<Rightarrow> ('a \<Rightarrow> string) \<Rightarrow> gotime \<Rightarrow> 'a list \<Rightarrow> draft_delete list \<Rightarrow> 'a view_row list" where
  "pending_rows kind key updated pend deletes = not_deleted kind key deletes (map (pending_row updated) pend)"

definition pending_singleton :: "string \<Rightarrow> gotime \<Rightarrow> 'a list \<Rightarrow> draft_blob \<Rightarrow> 'a view_row list" where
  "pending_singleton kind updated pend b =
     (case pend of [] \<Rightarrow> [] | p # ps \<Rightarrow> if deleted_singleton b kind then [] else [pending_row updated p])"

definition empty_assistant :: assistant_row where
  "empty_assistant = \<lparr>ar_persona = '''', ar_mission = '''', ar_guardrails = '''', ar_language_policy = '''',
     ar_reply_max_words = 0\<rparr>"

definition draft_rows_from_blob :: "draft_blob \<Rightarrow> int \<Rightarrow> gotime \<Rightarrow> draft_view" where
  "draft_rows_from_blob b version updated =
     (let ds = bl_deletes b in
      \<lparr>vw_config = overlay_config (bl_config b) empty_assistant version updated,
       vw_topics = pending_rows ''topic'' dt_slug updated (bl_topics b) ds,
       vw_tariffs = pending_rows ''tariff'' da_ref updated (bl_tariffs b) ds,
       vw_products = pending_rows ''product'' dp_ref updated (bl_products b) ds,
       vw_contacts = pending_singleton ''contact'' updated (bl_contacts b) b,
       vw_policies = pending_singleton ''policy'' updated (bl_policies b) b,
       vw_tariff_info = pending_singleton ''tariff_info'' updated (bl_tariff_info b) b,
       vw_zones = pending_rows ''delivery_zone'' dn_ref updated (map stored_zone (bl_zones b)) ds,
       vw_specialists = pending_rows ''specialist'' ds_ref updated (map stored_specialist (bl_specialists b)) ds,
       vw_services = pending_rows ''service'' dv_ref updated (map stored_service (bl_services b)) ds,
       vw_materials = [], vw_requests = []\<rparr>)"

definition draft_only :: "kb_store \<Rightarrow> uuid \<Rightarrow> draft_view" where
  "draft_only st org = (let (b, version, updated) = read_draft st org in draft_rows_from_blob b version updated)"

record change_set =
  cs_version :: int
  cs_updated :: gotime
  cs_config :: "draft_config option"
  cs_rows :: draft_view
  cs_deletes :: "(string \<times> string) list"

definition draft_changes :: "kb_store \<Rightarrow> uuid \<Rightarrow> change_set" where
  "draft_changes st org =
     (let (b, version, updated) = read_draft st org in
      \<lparr>cs_version = version, cs_updated = updated,
       cs_config = (if has_pending (bl_config b) then Some (bl_config b) else None),
       cs_rows = draft_rows_from_blob b version updated,
       cs_deletes = map (\<lambda>d. (plural_change_kind (dd_kind d), dd_key d)) (bl_deletes b)\<rparr>)"

section \<open>What an approval selects\<close>

record approve_selector =
  ap_kind :: string
  ap_key :: string

text \<open>
  The selected entries are themselves a draft document: \<open>approveSet\<close> has its sections, and the flag for
  the configuration stands for the pending configuration or none.
\<close>

record approve_set =
  as_topics :: "draft_topic list"
  as_tariffs :: "draft_tariff list"
  as_products :: "draft_product list"
  as_contacts :: "draft_contact list"
  as_policies :: "draft_policy list"
  as_tariff_info :: "draft_tariff_info list"
  as_zones :: "draft_zone list"
  as_specialists :: "draft_specialist list"
  as_services :: "draft_service list"
  as_config :: bool
  as_deletes :: "draft_delete list"

definition nothing_selected :: approve_set where
  "nothing_selected = \<lparr>as_topics = [], as_tariffs = [], as_products = [], as_contacts = [], as_policies = [],
     as_tariff_info = [], as_zones = [], as_specialists = [], as_services = [], as_config = False, as_deletes = []\<rparr>"

definition approve_set_empty :: "approve_set \<Rightarrow> bool" where
  "approve_set_empty a \<longleftrightarrow>
     length (as_topics a) + length (as_tariffs a) + length (as_products a) + length (as_contacts a)
       + length (as_policies a) + length (as_tariff_info a) + length (as_zones a) + length (as_specialists a)
       + length (as_services a) + length (as_deletes a) = 0 \<and> \<not> as_config a"

definition whole_draft :: "draft_blob \<Rightarrow> approve_set" where
  "whole_draft b = \<lparr>as_topics = bl_topics b, as_tariffs = bl_tariffs b, as_products = bl_products b,
     as_contacts = bl_contacts b, as_policies = bl_policies b, as_tariff_info = bl_tariff_info b,
     as_zones = bl_zones b, as_specialists = bl_specialists b, as_services = bl_services b,
     as_config = has_pending (bl_config b), as_deletes = bl_deletes b\<rparr>"

definition select_approved :: "draft_blob \<Rightarrow> approve_selector \<Rightarrow> approve_set" where
  "select_approved b sel =
     (if ap_kind sel = '''' then whole_draft b
      else
        let key = ap_key sel;
            base = nothing_selected\<lparr>as_deletes :=
              (case singular_delete_kind (ap_kind sel) of
                 None \<Rightarrow> []
               | Some s \<Rightarrow> filter (\<lambda>d. delete_matches d s key) (bl_deletes b))\<rparr> in
        if ap_kind sel = ''topics'' then base\<lparr>as_topics := filter (\<lambda>t. dt_slug t = key) (bl_topics b)\<rparr>
        else if ap_kind sel = ''tariffs'' then base\<lparr>as_tariffs := filter (\<lambda>t. da_ref t = key) (bl_tariffs b)\<rparr>
        else if ap_kind sel = ''products'' then base\<lparr>as_products := filter (\<lambda>p. dp_ref p = key) (bl_products b)\<rparr>
        else if ap_kind sel = ''contacts'' then
          (if key = contact_slug \<or> key = natural_key_main then base\<lparr>as_contacts := bl_contacts b\<rparr> else base)
        else if ap_kind sel = ''policies'' then
          (if key = policy_slug \<or> key = natural_key_main then base\<lparr>as_policies := bl_policies b\<rparr> else base)
        else if ap_kind sel = ''tariff_info'' then
          (if key = natural_key_main then base\<lparr>as_tariff_info := bl_tariff_info b\<rparr> else base)
        else if ap_kind sel = ''delivery_zones'' then base\<lparr>as_zones := filter (\<lambda>z. dn_ref z = key) (bl_zones b)\<rparr>
        else if ap_kind sel = ''specialists''
        then base\<lparr>as_specialists := filter (\<lambda>s. ds_ref s = key) (bl_specialists b)\<rparr>
        else if ap_kind sel = ''services'' then base\<lparr>as_services := filter (\<lambda>v. dv_ref v = key) (bl_services b)\<rparr>
        else if ap_kind sel = ''config'' then
          (if key = natural_key_main then base\<lparr>as_config := has_pending (bl_config b)\<rparr> else base)
        else base)"

definition approve_note :: "approve_selector \<Rightarrow> approve_set \<Rightarrow> string" where
  "approve_note sel a =
     (if ap_kind sel \<noteq> '''' then
        ''approved '' @ coalesce (singular_delete_kind (ap_kind sel)) (ap_kind sel) @ '' '' @ ap_key sel
      else ''approved '' @ nat_text (length (as_topics a)) @ '' topic(s), ''
        @ nat_text (length (as_tariffs a)) @ '' tariff(s), '' @ nat_text (length (as_products a)) @ '' product(s), ''
        @ nat_text (length (as_contacts a)) @ '' contact(s), '' @ nat_text (length (as_policies a)) @ '' policy(-ies), ''
        @ nat_text (length (as_tariff_info a)) @ '' tariff_info, '' @ nat_text (length (as_zones a)) @ '' zone(s), ''
        @ nat_text (length (as_specialists a)) @ '' specialist(s), '' @ nat_text (length (as_services a)) @ '' service(s), ''
        @ nat_text (length (as_deletes a)) @ '' deletion(s)'')"

section \<open>Approval\<close>

definition load_topic_rows :: "kb_store \<Rightarrow> uuid \<Rightarrow> draft_topic list" where
  "load_topic_rows st org = map kr_body (org_rows org (ks_topics st))"

definition approve_reasons :: "kb_store \<Rightarrow> uuid \<Rightarrow> approve_selector \<Rightarrow> approve_set \<Rightarrow> gate_reason list" where
  "approve_reasons st org sel a =
     gate (merge_for_gate (load_topic_rows st org) (as_topics a) (as_deletes a))
        (if ap_kind sel = '''' then pending_request_count st org else 0)
     @ zone_gate_reasons (resulting_zones (load_zone_rows st org) (as_zones a) (as_deletes a))
         (resulting_policy st org (as_policies a))
     @ service_gate_reasons (resulting_services (load_service_rows st org) (as_services a) (as_deletes a))
     @ specialist_gate_reasons (as_services a)
         (resulting_specialists (load_specialist_rows st org) (as_specialists a) (as_deletes a))"

definition materialize :: "uuid \<Rightarrow> gotime \<Rightarrow> draft_config \<Rightarrow> approve_set \<Rightarrow> kb_store \<Rightarrow> kb_error + kb_store" where
  "materialize org now c a st =
     bindE (foldE (upsert_topic_row org now) (as_topics a) st) (\<lambda>st.
     bindE (foldE (upsert_tariff_row org now) (as_tariffs a) st) (\<lambda>st.
     bindE (foldE (upsert_product_row org now) (as_products a) st) (\<lambda>st.
     bindE (foldE (upsert_contact_row org now) (as_contacts a) st) (\<lambda>st.
     bindE (foldE (upsert_policy_row org now) (as_policies a) st) (\<lambda>st.
     bindE (foldE (upsert_tariff_info_row org now) (as_tariff_info a) st) (\<lambda>st.
     bindE (foldE (upsert_zone_row org now) (as_zones a) st) (\<lambda>st.
     bindE (foldE (upsert_specialist_row org now) (as_specialists a) st) (\<lambda>st.
     bindE (foldE (upsert_service_row org now) (as_services a) st) (\<lambda>st.
     Inr (fold (apply_delete org) (as_deletes a)
            (if as_config a then upsert_config_row org now c st else st)))))))))))"

definition clear_approved :: "approve_selector \<Rightarrow> approve_set \<Rightarrow> draft_blob \<Rightarrow> draft_blob" where
  "clear_approved sel a b =
     (if ap_kind sel = '''' then empty_blob
      else
        let b = fold (\<lambda>t. remove_topic (dt_slug t)) (as_topics a) b;
            b = fold (\<lambda>t. remove_tariff (da_ref t)) (as_tariffs a) b;
            b = fold (\<lambda>p. remove_product (dp_ref p)) (as_products a) b;
            b = (if length (as_contacts a) > 0 then remove_contact b else b);
            b = (if length (as_policies a) > 0 then remove_policy b else b);
            b = (if length (as_tariff_info a) > 0 then remove_tariff_info b else b);
            b = fold (\<lambda>z. remove_zone (dn_ref z)) (as_zones a) b;
            b = fold (\<lambda>s. remove_specialist (ds_ref s)) (as_specialists a) b;
            b = fold (\<lambda>v. remove_service (dv_ref v)) (as_services a) b;
            b = fold (\<lambda>d. remove_delete (dd_kind d) (dd_key d)) (as_deletes a) b in
        if as_config a then b\<lparr>bl_config := no_config\<rparr> else b)"

definition approve_mutation :: "uuid \<Rightarrow> uuid \<Rightarrow> approve_selector \<Rightarrow> gotime \<Rightarrow> unit mutation" where
  "approve_mutation org actor sel now b st =
     (let a = select_approved b sel in
      if approve_set_empty a \<and> ap_kind sel \<noteq> '''' then Inl NothingPending
      else
        let reasons = approve_reasons st org sel a in
        if length reasons > 0 then Inl (GateFailed reasons)
        else bindE (materialize org now (bl_config b) a st) (\<lambda>st'.
          Inr ((), clear_approved sel a b,
               audit_row org now (null_if_nil actor) ''approve'' (approve_note sel a) st')))"

definition approve_versioned ::
  "uuid \<Rightarrow> approve_selector \<Rightarrow> int option \<Rightarrow> uuid \<Rightarrow> gotime \<Rightarrow> kb_store \<Rightarrow> kb_error + kb_store" where
  "approve_versioned org sel expected actor now st =
     (case write_draft_versioned org expected actor now (approve_mutation org actor sel now) st of
        Inl e \<Rightarrow> (if e = NothingPending then Inr st else Inl e)
      | Inr (r, st') \<Rightarrow> Inr st')"

definition approve :: "uuid \<Rightarrow> approve_selector \<Rightarrow> gotime \<Rightarrow> kb_store \<Rightarrow> kb_error + kb_store" where
  "approve org sel now st = approve_versioned org sel None nil_uuid now st"

end
