(* ===== verification/Kb_Identity.thy ===== *)
theory Kb_Identity
  imports Kb_Approve
begin

text \<open>
  Identities of the knowledge base and reads of it (\<open>mcp_types.go\<close>, \<open>mcp_read.go\<close>, and the key
  resolution of \<open>mcp_write.go\<close>): which records exist live and in the draft, when a title names an
  existing record, how a key is derived from a title, and the pages of \<open>kb_read\<close>.
\<close>

section \<open>Titles\<close>

definition normalize_title :: "string \<Rightarrow> string" where
  "normalize_title s = join_str '' '' (Prelude.fields (to_lower (trim_space s)))"

text \<open>
  The Jaccard overlap of the words. The quotient of two small integers rounds to at least 0.5 exactly
  when it is at least one half.
\<close>

definition similar_titles :: "string \<Rightarrow> string \<Rightarrow> bool" where
  "similar_titles a b \<longleftrightarrow>
     (if a = '''' \<or> b = '''' \<or> a = b then False
      else
        let wa = remdups (Prelude.fields a); wb = remdups (Prelude.fields b);
            shared = length (filter (\<lambda>w. w \<in> set wb) wa);
            union = length wa + length wb - shared in
        union \<noteq> 0 \<and> 2 * shared \<ge> union)"

section \<open>The identity index\<close>

definition all_kb_types :: "string list" where
  "all_kb_types = [''assistant'', ''topic'', ''product'', ''tariff'', ''contacts'', ''policies'', ''tariff_info'',
     ''delivery_zone'', ''specialist'', ''service'']"

definition delete_kind_for :: "string \<Rightarrow> string" where
  "delete_kind_for t = (if t = ''contacts'' then ''contact'' else if t = ''policies'' then ''policy'' else t)"

definition type_wanted :: "string list \<Rightarrow> string \<Rightarrow> bool" where
  "type_wanted types t \<longleftrightarrow> length types = 0 \<or> t \<in> set types"

text \<open>\<open>get\<close>, and the update of the entry it returns.\<close>

definition touch ::
  "draft_delete list \<Rightarrow> string \<Rightarrow> string \<Rightarrow> (identity_entry \<Rightarrow> identity_entry) \<Rightarrow> identity_entry list \<Rightarrow> identity_entry list" where
  "touch deletes typ key f es =
     (let gone = tag_of (delete_kind_for typ) key \<in> set (deleted_tags deletes);
          hit = (\<lambda>e. ie_type e = typ \<and> ie_key e = key);
          mark = (\<lambda>e. f (e\<lparr>ie_delete := ie_delete e \<or> gone\<rparr>)) in
      if list_ex hit es then update_where hit mark es
      else es @ [mark \<lparr>ie_type = typ, ie_key = key, ie_title = '''', ie_live = False, ie_draft = False,
                       ie_delete = False\<rparr>])"

definition index_type ::
  "draft_delete list \<Rightarrow> string \<Rightarrow> (string \<times> string) list \<Rightarrow> (string \<times> string) list \<Rightarrow> identity_entry list \<Rightarrow> identity_entry list" where
  "index_type deletes typ live pend es =
     fold (\<lambda>(key, title). touch deletes typ key (\<lambda>e. e\<lparr>ie_title := title, ie_draft := True\<rparr>)) pend
       (fold (\<lambda>(key, title). touch deletes typ key (\<lambda>e. e\<lparr>ie_title := title, ie_live := True\<rparr>)) live es)"

definition titles :: "('a \<Rightarrow> string) \<Rightarrow> ('a \<Rightarrow> string) \<Rightarrow> 'a view_row list \<Rightarrow> (string \<times> string) list" where
  "titles key title rows = map (\<lambda>r. (key (vr_body r), title (vr_body r))) rows"

definition singleton_titles :: "string \<Rightarrow> 'a list \<Rightarrow> (string \<times> string) list" where
  "singleton_titles title rows = map (\<lambda>r. (natural_key_main, title)) rows"

definition assistant_title :: string where "assistant_title = (of_runes [0x0410, 0x0441, 0x0441, 0x0438, 0x0441, 0x0442, 0x0435, 0x043D, 0x0442])"
definition contacts_title :: string where "contacts_title = (of_runes [0x041A, 0x043E, 0x043D, 0x0442, 0x0430, 0x043A, 0x0442, 0x044B])"
definition policies_title :: string where "policies_title = (of_runes [0x041F, 0x043E, 0x043B, 0x0438, 0x0442, 0x0438, 0x043A, 0x0438])"
definition tariff_info_title :: string where "tariff_info_title = (of_runes [0x0422, 0x0430, 0x0440, 0x0438, 0x0444, 0x043D, 0x0430, 0x044F, 0x0020, 0x0438, 0x043D, 0x0444, 0x043E, 0x0440, 0x043C, 0x0430, 0x0446, 0x0438, 0x044F])"

definition type_titles :: "draft_view \<Rightarrow> string \<Rightarrow> (string \<times> string) list" where
  "type_titles v t =
     (if t = ''topic'' then titles dt_slug dt_title (vw_topics v)
      else if t = ''product'' then titles dp_ref dp_name (vw_products v)
      else if t = ''tariff'' then titles da_ref da_name (vw_tariffs v)
      else if t = ''contacts'' then singleton_titles contacts_title (vw_contacts v)
      else if t = ''policies'' then singleton_titles policies_title (vw_policies v)
      else if t = ''tariff_info'' then singleton_titles tariff_info_title (vw_tariff_info v)
      else if t = ''delivery_zone'' then titles dn_ref dn_name (vw_zones v)
      else if t = ''specialist'' then titles ds_ref ds_name (vw_specialists v)
      else if t = ''service'' then titles dv_ref dv_name (vw_services v)
      else [])"

definition index_assistant :: "draft_delete list \<Rightarrow> bool \<Rightarrow> bool \<Rightarrow> identity_entry list \<Rightarrow> identity_entry list" where
  "index_assistant deletes live pend =
     touch deletes ''assistant'' natural_key_main
       (\<lambda>e. e\<lparr>ie_title := assistant_title, ie_live := live, ie_draft := pend\<rparr>)"

definition full_index :: "kb_store \<Rightarrow> uuid \<Rightarrow> string list \<Rightarrow> identity_entry list" where
  "full_index st org types =
     (let lv = live_view st org; pd = draft_only st org; ds = bl_deletes (fst (read_draft st org)) in
      fold (\<lambda>t es.
          if \<not> type_wanted types t then es
          else if t = ''assistant''
          then index_assistant ds (row_at singleton_key org () (ks_assistants st) \<noteq> None) (cv_draft (vw_config pd)) es
          else index_type ds t (type_titles lv t) (type_titles pd t) es)
        all_kb_types [])"

definition identity_index :: "kb_store \<Rightarrow> uuid \<Rightarrow> string list \<Rightarrow> string \<Rightarrow> string \<Rightarrow> identity_entry list" where
  "identity_index st org types source query =
     (let q = normalize_title query in
      filter (\<lambda>e. \<not> (source = ''live'' \<and> \<not> ie_live e) \<and> \<not> (source = ''draft'' \<and> \<not> ie_draft e)
                \<and> (q = '''' \<or> contains_str (normalize_title (ie_title e)) q))
        (full_index st org types))"

definition identity_state :: "identity_entry \<Rightarrow> string" where
  "identity_state e =
     (if ie_delete e then ''to_delete''
      else if ie_live e \<and> ie_draft e then ''changed''
      else if ie_draft e then ''new''
      else ''published'')"

section \<open>Duplicates and keys\<close>

record duplicate_verdict =
  dup_conflict :: "identity_entry option"
  dup_candidates :: "identity_entry list"

definition check_duplicate :: "string \<Rightarrow> string \<Rightarrow> string \<Rightarrow> identity_entry list \<Rightarrow> duplicate_verdict" where
  "check_duplicate typ key title index =
     (let norm = normalize_title title;
          others = filter (\<lambda>e. ie_type e = typ \<and> ie_key e \<noteq> key) index in
      if norm = '''' then \<lparr>dup_conflict = None, dup_candidates = []\<rparr>
      else case find (\<lambda>e. normalize_title (ie_title e) = norm) others of
        Some e \<Rightarrow> \<lparr>dup_conflict = Some e, dup_candidates = []\<rparr>
      | None \<Rightarrow> \<lparr>dup_conflict = None,
                 dup_candidates = filter (\<lambda>e. similar_titles norm (normalize_title (ie_title e))) others\<rparr>)"

definition cyrillic_translit :: "(int \<times> string) list" where
  "cyrillic_translit = [(0x0430, ''a''), (0x0431, ''b''), (0x0432, ''v''), (0x0433, ''g''), (0x0434, ''d''), (0x0435, ''e''),
     (0x0451, ''e''), (0x0436, ''zh''), (0x0437, ''z''), (0x0438, ''i''), (0x0439, ''i''), (0x043A, ''k''),
     (0x043B, ''l''), (0x043C, ''m''), (0x043D, ''n''), (0x043E, ''o''), (0x043F, ''p''), (0x0440, ''r''),
     (0x0441, ''s''), (0x0442, ''t''), (0x0443, ''u''), (0x0444, ''f''), (0x0445, ''h''), (0x0446, ''ts''),
     (0x0447, ''ch''), (0x0448, ''sh''), (0x0449, ''shch''), (0x044A, ''''), (0x044B, ''y''), (0x044C, ''''),
     (0x044D, ''e''), (0x044E, ''yu''), (0x044F, ''ya'')]"

definition slug_rune :: "int \<Rightarrow> string" where
  "slug_rune r =
     (case map_of cyrillic_translit r of
        Some s \<Rightarrow> s
      | None \<Rightarrow> if 0x61 \<le> r \<and> r \<le> 0x7A \<or> 0x30 \<le> r \<and> r \<le> 0x39 then [char_of (nat r)] else ''-'')"

fun collapse_dashes :: "string \<Rightarrow> string" where
  "collapse_dashes (c # d # s) =
     (if c = CHR ''-'' \<and> d = CHR ''-'' then collapse_dashes (d # s) else c # collapse_dashes (d # s))"
| "collapse_dashes s = s"

definition trim_dashes :: "string \<Rightarrow> string" where
  "trim_dashes s = rev (dropWhile (\<lambda>c. c = CHR ''-'') (rev (dropWhile (\<lambda>c. c = CHR ''-'') s)))"

definition slugify :: "string \<Rightarrow> string" where
  "slugify title = trim_dashes (collapse_dashes (concat (map slug_rune (runes (to_lower (trim_space title))))))"

text \<open>\<open>randomID(6)\<close> is the argument \<open>rnd\<close>.\<close>

definition slugify_or_fallback :: "string \<Rightarrow> string \<Rightarrow> string" where
  "slugify_or_fallback rnd title = (if slugify title \<noteq> '''' then slugify title else ''item-'' @ rnd)"

lemma digit_char_inj: "m < 10 \<Longrightarrow> n < 10 \<Longrightarrow> digit_char m = digit_char n \<longleftrightarrow> m = n"
proof -
  assume "m < 10" and "n < 10"
  moreover have "of_char (digit_char k) = 48 + k" if "k < 10" for k
    using that by (simp add: digit_char_def of_char_of take_bit_nat_eq_self)
  ultimately show ?thesis by (metis add_left_cancel)
qed

lemma nat_text_inj: "nat_text m = nat_text n \<Longrightarrow> m = n"
proof (induction m arbitrary: n rule: nat_text.induct)
  case (1 m)
  have ne: "nat_text k \<noteq> []" for k by (subst nat_text.simps) simp
  show ?case
  proof (cases "m < 10")
    case True
    then have "nat_text n = [digit_char m]" using "1.prems" by (simp add: nat_text.simps)
    then have "n < 10" using ne [of "n div 10"] by (subst (asm) nat_text.simps) (auto split: if_splits)
    with True \<open>nat_text n = [digit_char m]\<close> show ?thesis by (simp add: nat_text.simps digit_char_inj)
  next
    case False
    then have m: "nat_text m = nat_text (m div 10) @ [digit_char (m mod 10)]" by (simp add: nat_text.simps)
    have "\<not> n < 10"
    proof
      assume "n < 10"
      then have "nat_text n = [digit_char n]" by (simp add: nat_text.simps)
      with m "1.prems" ne [of "m div 10"] show False by simp
    qed
    then have n: "nat_text n = nat_text (n div 10) @ [digit_char (n mod 10)]" by (simp add: nat_text.simps)
    have "m div 10 = n div 10" using "1.IH" [OF False, of "n div 10"] m n "1.prems" by simp
    moreover have "m mod 10 = n mod 10" using m n "1.prems" by (simp add: digit_char_inj)
    ultimately show ?thesis by (metis div_mult_mod_eq)
  qed
qed

text \<open>The loop ends: the candidates are distinct and only finitely many keys are taken.\<close>

definition key_candidate :: "string \<Rightarrow> nat \<Rightarrow> string" where
  "key_candidate base i = base @ ''-'' @ nat_text i"

function unique_from :: "string \<Rightarrow> string list \<Rightarrow> nat \<Rightarrow> string" where
  "unique_from base taken i =
     (if key_candidate base i \<notin> set taken then key_candidate base i else unique_from base taken (i + 1))"
  by pat_completeness auto
termination
proof (relation "measure (\<lambda>(base, taken, i). card {j. i \<le> j \<and> key_candidate base j \<in> set taken})")
  show "wf (measure (\<lambda>(base, taken, i). card {j. i \<le> j \<and> key_candidate base j \<in> set taken}))" by simp
next
  fix base :: string and taken :: "string list" and i :: nat
  let ?J = "\<lambda>i. {j. i \<le> j \<and> key_candidate base j \<in> set taken}"
  assume "\<not> key_candidate base i \<notin> set taken"
  then have "i \<in> ?J i" and "i \<notin> ?J (i + 1)" and "?J (i + 1) \<subseteq> ?J i" by auto
  then have "?J (i + 1) \<subset> ?J i" by (metis psubsetI)
  moreover have "finite (?J i)"
  proof (rule finite_imageD)
    show "finite (key_candidate base ` ?J i)" by (rule finite_subset [of _ "set taken"]) auto
    show "inj_on (key_candidate base) (?J i)" by (auto simp: inj_on_def key_candidate_def dest: nat_text_inj)
  qed
  ultimately have "card (?J (i + 1)) < card (?J i)" by (rule psubset_card_mono [rotated])
  then show "((base, taken, i + 1), (base, taken, i))
      \<in> measure (\<lambda>(base, taken, i). card {j. i \<le> j \<and> key_candidate base j \<in> set taken})"
    unfolding in_measure prod.case .
qed

declare unique_from.simps [simp del]

definition unique_key :: "string \<Rightarrow> string list \<Rightarrow> string" where
  "unique_key base taken = (if base \<notin> set taken then base else unique_from base taken 2)"

definition conflict_error :: "string \<Rightarrow> identity_entry \<Rightarrow> kb_error" where
  "conflict_error typ e = DuplicateTitle typ (ie_key e) (ie_title e)"

text \<open>The key and whether the record is created.\<close>

definition resolve_upsert_key ::
  "string \<Rightarrow> string \<Rightarrow> string \<Rightarrow> string \<Rightarrow> identity_entry list \<Rightarrow> kb_error + string \<times> bool" where
  "resolve_upsert_key rnd typ key title index =
     (let v = check_duplicate typ key title index in
      if key \<noteq> '''' \<and> key \<in> ie_key ` set index then
        (case dup_conflict v of
           Some e \<Rightarrow> if blank title then Inr (key, False) else Inl (conflict_error typ e)
         | None \<Rightarrow> Inr (key, False))
      else if blank title then
        (if key = '''' then Inl (RequiredField ''a title/name (to derive a key) or an explicit key'')
         else Inr (key, True))
      else case dup_conflict v of
        Some e \<Rightarrow> Inl (conflict_error typ e)
      | None \<Rightarrow>
          if length (dup_candidates v) > 0 then Inl (AmbiguousTitle typ (dup_candidates v))
          else if key \<noteq> '''' then Inr (key, True)
          else Inr (unique_key (slugify_or_fallback rnd title) (map ie_key index), True))"

section \<open>Reading records\<close>

datatype record_data =
    AssistantData config_view
  | TopicData "draft_topic view_row"
  | ProductData "draft_product view_row"
  | TariffData "draft_tariff view_row"
  | ContactData "draft_contact view_row"
  | PolicyData "draft_policy view_row"
  | TariffInfoData "draft_tariff_info view_row"
  | ZoneData "draft_zone view_row"
  | SpecialistData "draft_specialist view_row"
  | ServiceData "draft_service view_row"

record kb_record =
  re_type :: string
  re_source :: string
  re_data :: record_data

definition keyed_records ::
  "string \<Rightarrow> string \<Rightarrow> ('a view_row \<Rightarrow> record_data) \<Rightarrow> ('a \<Rightarrow> string) \<Rightarrow> ('a \<Rightarrow> string) \<Rightarrow> string list \<Rightarrow> string \<Rightarrow> string
     \<Rightarrow> 'a view_row list \<Rightarrow> kb_record list" where
  "keyed_records source typ con key title types k q rows =
     (if \<not> type_wanted types typ then []
      else map (\<lambda>r. \<lparr>re_type = typ, re_source = source, re_data = con r\<rparr>)
        (filter (\<lambda>r. (k = '''' \<or> k = key (vr_body r))
                   \<and> (q = '''' \<or> contains_str (normalize_title (title (vr_body r))) q)) rows))"

definition singleton_records ::
  "string \<Rightarrow> string \<Rightarrow> ('a \<Rightarrow> record_data) \<Rightarrow> string list \<Rightarrow> string \<Rightarrow> 'a list \<Rightarrow> kb_record list" where
  "singleton_records source typ con types k rows =
     (if type_wanted types typ \<and> (k = '''' \<or> k = natural_key_main)
      then map (\<lambda>r. \<lparr>re_type = typ, re_source = source, re_data = con r\<rparr>) rows
      else [])"

definition flatten_records :: "draft_view \<Rightarrow> string \<Rightarrow> string list \<Rightarrow> string \<Rightarrow> string \<Rightarrow> kb_record list" where
  "flatten_records v source types k q =
     singleton_records source ''assistant'' AssistantData types k [vw_config v]
     @ keyed_records source ''topic'' TopicData dt_slug dt_title types k q (vw_topics v)
     @ keyed_records source ''product'' ProductData dp_ref dp_name types k q (vw_products v)
     @ keyed_records source ''tariff'' TariffData da_ref da_name types k q (vw_tariffs v)
     @ singleton_records source ''contacts'' ContactData types k (vw_contacts v)
     @ singleton_records source ''policies'' PolicyData types k (vw_policies v)
     @ singleton_records source ''tariff_info'' TariffInfoData types k (vw_tariff_info v)
     @ keyed_records source ''delivery_zone'' ZoneData dn_ref dn_name types k q (vw_zones v)
     @ keyed_records source ''specialist'' SpecialistData ds_ref ds_name types k q (vw_specialists v)
     @ keyed_records source ''service'' ServiceData dv_ref dv_name types k q (vw_services v)"

definition parse_cursor :: "string \<Rightarrow> kb_error + nat" where
  "parse_cursor cursor =
     (if cursor = '''' then Inr 0
      else case parse_int64 cursor of
        None \<Rightarrow> Inl (BadCursor cursor)
      | Some n \<Rightarrow> if n < 0 then Inl (BadCursor cursor) else Inr (nat n))"

record read_page =
  rp_items :: "kb_record list"
  rp_next :: string

definition read_limit :: "int \<Rightarrow> nat" where
  "read_limit limit = nat (min (if limit \<le> 0 then 50 else limit) 100)"

definition all_records :: "kb_store \<Rightarrow> uuid \<Rightarrow> string list \<Rightarrow> string \<Rightarrow> string \<Rightarrow> string \<Rightarrow> kb_record list" where
  "all_records st org types source key query =
     (let q = normalize_title query in
      (if source = '''' \<or> source = ''live'' \<or> source = ''both''
       then flatten_records (live_view st org) ''live'' types key q else [])
      @ (if source = ''draft'' \<or> source = ''both''
         then flatten_records (draft_only st org) ''draft'' types key q else []))"

definition page_at :: "'a list \<Rightarrow> nat \<Rightarrow> nat \<Rightarrow> 'a list \<times> nat option" where
  "page_at xs offset limit =
     (let from_here = min offset (length xs); upto = min (from_here + limit) (length xs) in
      (take (upto - from_here) (drop from_here xs), if upto < length xs then Some upto else None))"

definition read_records ::
  "kb_store \<Rightarrow> uuid \<Rightarrow> string list \<Rightarrow> string \<Rightarrow> string \<Rightarrow> string \<Rightarrow> int \<Rightarrow> string \<Rightarrow> kb_error + read_page" where
  "read_records st org types source key query limit cursor =
     bindE (parse_cursor cursor) (\<lambda>offset.
       let (items, next_at) = page_at (all_records st org types source key query) offset (read_limit limit) in
       Inr \<lparr>rp_items = items, rp_next = (case next_at of None \<Rightarrow> '''' | Some n \<Rightarrow> nat_text n)\<rparr>)"

definition opt_list :: "'a option \<Rightarrow> 'a list" where
  "opt_list p = (case p of None \<Rightarrow> [] | Some x \<Rightarrow> [x])"

fun record_media :: "record_data \<Rightarrow> uuid list" where
  "record_media (TopicData r) = opt_list (dt_featured (vr_body r)) @ dt_illustrations (vr_body r)
     @ dt_videos (vr_body r) @ dt_documents (vr_body r)"
| "record_media (ProductData r) = opt_list (dp_featured (vr_body r)) @ dp_gallery (vr_body r)
     @ dp_videos (vr_body r) @ dp_certificates (vr_body r) @ dp_guarantees (vr_body r)"
| "record_media (TariffData r) = opt_list (da_featured (vr_body r)) @ da_pricing_images (vr_body r)
     @ da_videos (vr_body r) @ da_terms (vr_body r)"
| "record_media (ContactData r) = opt_list (dc_card_image (vr_body r)) @ opt_list (dc_map_image (vr_body r))
     @ dc_legal_documents (vr_body r)"
| "record_media (PolicyData r) = dl_documents (vr_body r)"
| "record_media (SpecialistData r) = ds_portfolio (vr_body r)"
| "record_media d = []"

definition add_new :: "uuid \<Rightarrow> uuid list \<Rightarrow> uuid list" where
  "add_new i out = (if i = nil_uuid \<or> i \<in> set out then out else out @ [i])"

definition media_ids_in :: "read_page \<Rightarrow> uuid list" where
  "media_ids_in page = fold add_new (concat (map (\<lambda>r. record_media (re_data r)) (rp_items page))) []"

end
