(* ===== verification/Kb_Mcp.thy ===== *)
theory Kb_Mcp
  imports Kb_Identity
begin

text \<open>
  The writes of the MCP tools (\<open>mcp_write.go\<close>, \<open>mcp_attach.go\<close>): every upsert resolves its key against
  the identity index, edits the current shape, records the provenance, stages the entry and drops a
  pending delete of it; a delete leaves a marker only for a live record; an attachment changes one media
  field of an existing record. All of them run in the transaction of the draft row.

  The random identifier of a new material is the argument \<open>i\<close>, the random suffix of a derived key \<open>rnd\<close>.
\<close>

section \<open>The two shapes of an upsert\<close>

record upsert_result =
  ur_type :: string
  ur_key :: string
  ur_created :: bool
  ur_version :: int

definition upserted ::
  "string \<Rightarrow> kb_error + ((string \<times> bool) \<times> int) \<times> kb_store \<Rightarrow> kb_error + upsert_result \<times> kb_store" where
  "upserted typ r =
     bindE r (\<lambda>(((key, created), version), st).
       Inr (\<lparr>ur_type = typ, ur_key = key, ur_created = created, ur_version = version\<rparr>, st))"

definition keyed_mutation ::
  "string \<Rightarrow> uuid \<Rightarrow> uuid \<Rightarrow> string \<Rightarrow> string \<Rightarrow> string option
     \<Rightarrow> (string \<Rightarrow> bool \<Rightarrow> kb_store \<Rightarrow> draft_blob \<Rightarrow> kb_error + 'a) \<Rightarrow> ('a \<Rightarrow> draft_blob \<Rightarrow> draft_blob)
     \<Rightarrow> provenance \<Rightarrow> gotime \<Rightarrow> (string \<times> bool) mutation" where
  "keyed_mutation rnd i org typ key0 title edit put prov now b st =
     bindE (resolve_upsert_key rnd typ key0 (coalesce title '''') (identity_index st org [typ] ''both'' ''''))
       (\<lambda>(key, creating).
       bindE (edit key creating st b) (\<lambda>x.
       bindE (record_provenance i org typ key prov now st) (\<lambda>st'.
       Inr ((key, creating), remove_delete (delete_kind_for typ) key (put x b), st'))))"

definition singleton_mutation ::
  "uuid \<Rightarrow> uuid \<Rightarrow> string \<Rightarrow> (kb_store \<Rightarrow> draft_blob \<Rightarrow> kb_error + 'a) \<Rightarrow> ('a \<Rightarrow> draft_blob \<Rightarrow> draft_blob)
     \<Rightarrow> provenance \<Rightarrow> gotime \<Rightarrow> (string \<times> bool) mutation" where
  "singleton_mutation i org typ edit put prov now b st =
     bindE (edit st b) (\<lambda>x.
     bindE (record_provenance i org typ natural_key_main prov now st) (\<lambda>st'.
     Inr ((natural_key_main, False), remove_delete (delete_kind_for typ) natural_key_main (put x b), st')))"

definition optional_enum :: "string \<Rightarrow> string option \<Rightarrow> string list \<Rightarrow> kb_error + unit" where
  "optional_enum field p allowed = (case p of None \<Rightarrow> Inr () | Some v \<Rightarrow> validate_enum field v allowed)"

definition required_on_create :: "bool \<Rightarrow> bool \<Rightarrow> string \<Rightarrow> kb_error + unit" where
  "required_on_create creating missing field = guardE (\<not> (creating \<and> missing)) (RequiredField field)"

section \<open>Assistant and topics\<close>

definition mcp_upsert_assistant ::
  "uuid \<Rightarrow> uuid \<Rightarrow> draft_config \<Rightarrow> int option \<Rightarrow> gotime \<Rightarrow> kb_store \<Rightarrow> kb_error + upsert_result \<times> kb_store" where
  "mcp_upsert_assistant org user ch expected now st =
     upserted ''assistant'' (write_draft_versioned org expected user now
       (\<lambda>b st. Inr ((natural_key_main, False), b\<lparr>bl_config := merge_config ch (bl_config b)\<rparr>, st)) st)"

record topic_changes =
  tc_title :: "string option"
  tc_body :: "string option"
  tc_media :: topic_media_edit

definition mcp_topic_edit ::
  "uuid \<Rightarrow> topic_changes \<Rightarrow> string \<Rightarrow> bool \<Rightarrow> kb_store \<Rightarrow> draft_blob \<Rightarrow> kb_error + draft_topic" where
  "mcp_topic_edit org ch key creating st b =
     (let cur = current_topic st org key b;
          cur1 = cur\<lparr>dt_slug := key, dt_title := coalesce (tc_title ch) (dt_title cur),
                     dt_body := coalesce (tc_body ch) (dt_body cur)\<rparr>;
          (cur2, refs) = apply_topic_media cur1 (tc_media ch);
          reasons = gate_topic_body key (dt_body cur2) in
      bindE (required_on_create creating (blank (dt_title cur2)) ''title'') (\<lambda>_.
      bindE (guardE (length reasons = 0) (GateFailed reasons)) (\<lambda>_.
      bindE (validate_media_refs st org refs) (\<lambda>_. Inr cur2))))"

definition mcp_upsert_topic ::
  "string \<Rightarrow> uuid \<Rightarrow> uuid \<Rightarrow> uuid \<Rightarrow> string \<Rightarrow> topic_changes \<Rightarrow> int option \<Rightarrow> provenance \<Rightarrow> gotime \<Rightarrow> kb_store
     \<Rightarrow> kb_error + upsert_result \<times> kb_store" where
  "mcp_upsert_topic rnd i org user slug ch expected prov now st =
     upserted ''topic'' (write_draft_versioned org expected user now
       (keyed_mutation rnd i org ''topic'' slug (tc_title ch) (mcp_topic_edit org ch) upsert_topic prov now) st)"

section \<open>Products and tariffs\<close>

record product_changes =
  pc_name :: "string option"
  pc_price :: "string option"
  pc_description :: "string option"
  pc_category :: "string option"
  pc_brand :: "string option"
  pc_advantages :: "string option"
  pc_disadvantages :: "string option"
  pc_best_for :: "string option"
  pc_not_for :: "string option"
  pc_availability :: "string option"
  pc_availability_note :: "string option"
  pc_installation :: "string option"
  pc_warranty :: "string option"
  pc_facts :: "additional_fact list option"
  pc_sales_status :: "string option"
  pc_media :: product_media_edit

definition patch_product :: "string \<Rightarrow> product_changes \<Rightarrow> draft_product \<Rightarrow> draft_product" where
  "patch_product key ch cur =
     cur\<lparr>dp_ref := key, dp_name := coalesce (pc_name ch) (dp_name cur),
         dp_price := coalesce (pc_price ch) (dp_price cur),
         dp_description := coalesce (pc_description ch) (dp_description cur),
         dp_category := coalesce (pc_category ch) (dp_category cur),
         dp_brand := coalesce (pc_brand ch) (dp_brand cur),
         dp_advantages := coalesce (pc_advantages ch) (dp_advantages cur),
         dp_disadvantages := coalesce (pc_disadvantages ch) (dp_disadvantages cur),
         dp_best_for := coalesce (pc_best_for ch) (dp_best_for cur),
         dp_not_for := coalesce (pc_not_for ch) (dp_not_for cur),
         dp_availability := coalesce (pc_availability ch) (dp_availability cur),
         dp_availability_note := coalesce (pc_availability_note ch) (dp_availability_note cur),
         dp_installation := coalesce (pc_installation ch) (dp_installation cur),
         dp_warranty := coalesce (pc_warranty ch) (dp_warranty cur),
         dp_facts := coalesce (pc_facts ch) (dp_facts cur),
         dp_sales_status := coalesce (pc_sales_status ch) (dp_sales_status cur)\<rparr>"

definition mcp_product_edit ::
  "uuid \<Rightarrow> product_changes \<Rightarrow> string \<Rightarrow> bool \<Rightarrow> kb_store \<Rightarrow> draft_blob \<Rightarrow> kb_error + draft_product" where
  "mcp_product_edit org ch key creating st b =
     (let cur1 = patch_product key ch (current_product st org key b);
          (cur2, refs) = apply_product_media cur1 (pc_media ch) in
      bindE (optional_enum ''sales_status'' (pc_sales_status ch) sales_statuses) (\<lambda>_.
      bindE (required_on_create creating (pc_availability ch = None) ''availability_status'') (\<lambda>_.
      bindE (optional_enum ''availability_status'' (pc_availability ch) availability_statuses) (\<lambda>_.
      bindE (validate_product_facts cur1) (\<lambda>_.
      bindE (required_on_create creating (blank (dp_name cur2)) ''name'') (\<lambda>_.
      bindE (validate_media_refs st org refs) (\<lambda>_. Inr cur2)))))))"

definition mcp_upsert_product ::
  "string \<Rightarrow> uuid \<Rightarrow> uuid \<Rightarrow> uuid \<Rightarrow> string \<Rightarrow> product_changes \<Rightarrow> int option \<Rightarrow> provenance \<Rightarrow> gotime \<Rightarrow> kb_store
     \<Rightarrow> kb_error + upsert_result \<times> kb_store" where
  "mcp_upsert_product rnd i org user ref ch expected prov now st =
     upserted ''product'' (write_draft_versioned org expected user now
       (keyed_mutation rnd i org ''product'' ref (pc_name ch) (mcp_product_edit org ch) upsert_product prov now) st)"

record tariff_changes =
  fc_name :: "string option"
  fc_price :: "string option"
  fc_limit_text :: "string option"
  fc_fee :: "string option"
  fc_summary :: "string option"
  fc_pricing_type :: "string option"
  fc_advantages :: "string option"
  fc_disadvantages :: "string option"
  fc_best_for :: "string option"
  fc_not_for :: "string option"
  fc_facts :: "additional_fact list option"
  fc_sales_status :: "string option"
  fc_media :: tariff_media_edit

definition patch_tariff :: "string \<Rightarrow> tariff_changes \<Rightarrow> draft_tariff \<Rightarrow> draft_tariff" where
  "patch_tariff key ch cur =
     cur\<lparr>da_ref := key, da_name := coalesce (fc_name ch) (da_name cur),
         da_price := coalesce (fc_price ch) (da_price cur),
         da_limit_text := coalesce (fc_limit_text ch) (da_limit_text cur),
         da_fee := coalesce (fc_fee ch) (da_fee cur), da_summary := coalesce (fc_summary ch) (da_summary cur),
         da_pricing_type := coalesce (fc_pricing_type ch) (da_pricing_type cur),
         da_advantages := coalesce (fc_advantages ch) (da_advantages cur),
         da_disadvantages := coalesce (fc_disadvantages ch) (da_disadvantages cur),
         da_best_for := coalesce (fc_best_for ch) (da_best_for cur),
         da_not_for := coalesce (fc_not_for ch) (da_not_for cur),
         da_facts := coalesce (fc_facts ch) (da_facts cur),
         da_sales_status := coalesce (fc_sales_status ch) (da_sales_status cur)\<rparr>"

definition pricing_types :: "string list" where
  "pricing_types = [''fixed'', ''percentage'', ''tiered'', ''hybrid'']"

definition mcp_tariff_edit ::
  "uuid \<Rightarrow> tariff_changes \<Rightarrow> string \<Rightarrow> bool \<Rightarrow> kb_store \<Rightarrow> draft_blob \<Rightarrow> kb_error + draft_tariff" where
  "mcp_tariff_edit org ch key creating st b =
     (let cur1 = patch_tariff key ch (current_tariff st org key b);
          (cur2, refs) = apply_tariff_media cur1 (fc_media ch) in
      bindE (required_on_create creating (case fc_pricing_type ch of None \<Rightarrow> True | Some v \<Rightarrow> blank v) ''pricing_type'') (\<lambda>_.
      bindE (optional_enum ''pricing_type'' (fc_pricing_type ch) pricing_types) (\<lambda>_.
      bindE (optional_enum ''sales_status'' (fc_sales_status ch) sales_statuses) (\<lambda>_.
      bindE (validate_tariff_facts cur1) (\<lambda>_.
      bindE (required_on_create creating (blank (da_name cur2)) ''name'') (\<lambda>_.
      bindE (validate_media_refs st org refs) (\<lambda>_. Inr cur2)))))))"

definition mcp_upsert_tariff ::
  "string \<Rightarrow> uuid \<Rightarrow> uuid \<Rightarrow> uuid \<Rightarrow> string \<Rightarrow> tariff_changes \<Rightarrow> int option \<Rightarrow> provenance \<Rightarrow> gotime \<Rightarrow> kb_store
     \<Rightarrow> kb_error + upsert_result \<times> kb_store" where
  "mcp_upsert_tariff rnd i org user ref ch expected prov now st =
     upserted ''tariff'' (write_draft_versioned org expected user now
       (keyed_mutation rnd i org ''tariff'' ref (fc_name ch) (mcp_tariff_edit org ch) upsert_tariff prov now) st)"

section \<open>Singletons\<close>

text \<open>\<open>ContactsChanges\<close>, \<open>PoliciesChanges\<close> and \<open>TariffInfoChanges\<close> have the fields of the Playground's patches.\<close>

definition mcp_upsert_contacts ::
  "uuid \<Rightarrow> uuid \<Rightarrow> uuid \<Rightarrow> contact_patch \<Rightarrow> int option \<Rightarrow> provenance \<Rightarrow> gotime \<Rightarrow> kb_store
     \<Rightarrow> kb_error + upsert_result \<times> kb_store" where
  "mcp_upsert_contacts i org user ch expected prov now st =
     upserted ''contacts'' (write_draft_versioned org expected user now
       (singleton_mutation i org ''contacts''
          (\<lambda>st b. edited_contact BadContactSchedule org ch st (current_contact st org b)) upsert_contact prov now) st)"

definition mcp_upsert_policies ::
  "uuid \<Rightarrow> uuid \<Rightarrow> uuid \<Rightarrow> policy_patch \<Rightarrow> int option \<Rightarrow> provenance \<Rightarrow> gotime \<Rightarrow> kb_store
     \<Rightarrow> kb_error + upsert_result \<times> kb_store" where
  "mcp_upsert_policies i org user ch expected prov now st =
     upserted ''policies'' (write_draft_versioned org expected user now
       (singleton_mutation i org ''policies''
          (\<lambda>st b. edited_policy org ch st (current_policy st org b)) upsert_policy prov now) st)"

definition mcp_upsert_tariff_info ::
  "uuid \<Rightarrow> uuid \<Rightarrow> uuid \<Rightarrow> additional_fact list option \<Rightarrow> int option \<Rightarrow> provenance \<Rightarrow> gotime \<Rightarrow> kb_store
     \<Rightarrow> kb_error + upsert_result \<times> kb_store" where
  "mcp_upsert_tariff_info i org user ch expected prov now st =
     upserted ''tariff_info'' (write_draft_versioned org expected user now
       (singleton_mutation i org ''tariff_info''
          (\<lambda>st b. edited_tariff_info ch (current_tariff_info st org b)) upsert_tariff_info prov now) st)"

section \<open>Delivery zones, specialists and services\<close>

record zone_changes =
  nc_name :: "string option"
  nc_level :: "string option"
  nc_parent :: "string option"
  nc_cost :: "string option"
  nc_days :: "string option"
  nc_notes :: "string option"
  nc_sales_status :: "string option"
  nc_available :: "bool option"

definition mcp_zone_edit ::
  "uuid \<Rightarrow> zone_changes \<Rightarrow> string \<Rightarrow> bool \<Rightarrow> kb_store \<Rightarrow> draft_blob \<Rightarrow> kb_error + draft_zone" where
  "mcp_zone_edit org ch key creating st b =
     (let cur = current_zone st org key b;
          cur1 = cur\<lparr>dn_ref := key, dn_name := coalesce (nc_name ch) (dn_name cur),
                     dn_level := coalesce (nc_level ch) (dn_level cur),
                     dn_parent := coalesce (nc_parent ch) (dn_parent cur),
                     dn_available := coalesce (nc_available ch) (dn_available cur),
                     dn_cost := coalesce (nc_cost ch) (dn_cost cur), dn_days := coalesce (nc_days ch) (dn_days cur),
                     dn_notes := coalesce (nc_notes ch) (dn_notes cur),
                     dn_sales_status := coalesce (nc_sales_status ch) (dn_sales_status cur)\<rparr> in
      bindE (optional_enum ''zone_level'' (nc_level ch) [''city'', ''region'', ''country'']) (\<lambda>_.
      bindE (required_on_create creating (nc_available ch = None) ''delivery_available'') (\<lambda>_.
      bindE (optional_enum ''sales_status'' (nc_sales_status ch) sales_statuses) (\<lambda>_.
      bindE (required_on_create creating (blank (dn_name cur1)) ''name'') (\<lambda>_.
      bindE (required_on_create creating (blank (dn_level cur1)) ''zone_level'') (\<lambda>_. Inr cur1))))))"

definition mcp_upsert_delivery_zone ::
  "string \<Rightarrow> uuid \<Rightarrow> uuid \<Rightarrow> uuid \<Rightarrow> string \<Rightarrow> zone_changes \<Rightarrow> int option \<Rightarrow> provenance \<Rightarrow> gotime \<Rightarrow> kb_store
     \<Rightarrow> kb_error + upsert_result \<times> kb_store" where
  "mcp_upsert_delivery_zone rnd i org user ref ch expected prov now st =
     upserted ''delivery_zone'' (write_draft_versioned org expected user now
       (keyed_mutation rnd i org ''delivery_zone'' ref (nc_name ch) (mcp_zone_edit org ch) upsert_zone prov now) st)"

record specialist_changes =
  ac_name :: "string option"
  ac_title :: "string option"
  ac_experience :: "string option"
  ac_booking_url :: "string option"
  ac_schedule :: "schedule option"
  ac_sales_status :: "string option"
  ac_portfolio :: "uuid list option"

definition mcp_specialist_edit ::
  "uuid \<Rightarrow> specialist_changes \<Rightarrow> string \<Rightarrow> bool \<Rightarrow> kb_store \<Rightarrow> draft_blob \<Rightarrow> kb_error + draft_specialist" where
  "mcp_specialist_edit org ch key creating st b =
     (let cur = current_specialist st org key b;
          cur1 = cur\<lparr>ds_ref := key, ds_name := coalesce (ac_name ch) (ds_name cur),
                     ds_title := coalesce (ac_title ch) (ds_title cur),
                     ds_experience := coalesce (ac_experience ch) (ds_experience cur),
                     ds_booking_url := coalesce (ac_booking_url ch) (ds_booking_url cur),
                     ds_schedule := coalesce (ac_schedule ch) (ds_schedule cur),
                     ds_sales_status := or_default (coalesce (ac_sales_status ch) (ds_sales_status cur)) ''active''\<rparr> in
      bindE (optional_enum ''sales_status'' (ac_sales_status ch) sales_statuses) (\<lambda>_.
      bindE (required_on_create creating (blank (ds_name cur1)) ''full_name'') (\<lambda>_.
      bindE (validate_specialist cur1) (\<lambda>cur2.
      let (cur3, refs) = apply_specialist_media cur2 (ac_portfolio ch) in
      bindE (validate_media_refs st org refs) (\<lambda>_. Inr cur3)))))"

definition mcp_upsert_specialist ::
  "string \<Rightarrow> uuid \<Rightarrow> uuid \<Rightarrow> uuid \<Rightarrow> string \<Rightarrow> specialist_changes \<Rightarrow> int option \<Rightarrow> provenance \<Rightarrow> gotime \<Rightarrow> kb_store
     \<Rightarrow> kb_error + upsert_result \<times> kb_store" where
  "mcp_upsert_specialist rnd i org user ref ch expected prov now st =
     upserted ''specialist'' (write_draft_versioned org expected user now
       (keyed_mutation rnd i org ''specialist'' ref (ac_name ch) (mcp_specialist_edit org ch) upsert_specialist prov now) st)"

record service_changes =
  vc_parent :: "string option"
  vc_type :: "string option"
  vc_category :: "string option"
  vc_name :: "string option"
  vc_price :: "string option"
  vc_description :: "string option"
  vc_sales_status :: "string option"
  vc_duration :: "int option option"
  vc_specialists :: "string list option"

definition mcp_service_edit ::
  "uuid \<Rightarrow> service_changes \<Rightarrow> string \<Rightarrow> bool \<Rightarrow> kb_store \<Rightarrow> draft_blob \<Rightarrow> kb_error + draft_service" where
  "mcp_service_edit org ch key creating st b =
     (let cur = current_service st org key b;
          cur1 = cur\<lparr>dv_ref := key, dv_parent := coalesce (vc_parent ch) (dv_parent cur),
                     dv_type := or_default (coalesce (vc_type ch) (dv_type cur)) ''base'',
                     dv_category := coalesce (vc_category ch) (dv_category cur),
                     dv_name := coalesce (vc_name ch) (dv_name cur),
                     dv_price := coalesce (vc_price ch) (dv_price cur),
                     dv_duration := coalesce (vc_duration ch) (dv_duration cur),
                     dv_description := coalesce (vc_description ch) (dv_description cur),
                     dv_specialists := coalesce (vc_specialists ch) (dv_specialists cur),
                     dv_sales_status := or_default (coalesce (vc_sales_status ch) (dv_sales_status cur)) ''active''\<rparr> in
      bindE (optional_enum ''sales_status'' (vc_sales_status ch) sales_statuses) (\<lambda>_.
      bindE (required_on_create creating (blank (dv_name cur1)) ''name'') (\<lambda>_.
      validate_service st org b cur1)))"

definition mcp_upsert_service ::
  "string \<Rightarrow> uuid \<Rightarrow> uuid \<Rightarrow> uuid \<Rightarrow> string \<Rightarrow> service_changes \<Rightarrow> int option \<Rightarrow> provenance \<Rightarrow> gotime \<Rightarrow> kb_store
     \<Rightarrow> kb_error + upsert_result \<times> kb_store" where
  "mcp_upsert_service rnd i org user ref ch expected prov now st =
     upserted ''service'' (write_draft_versioned org expected user now
       (keyed_mutation rnd i org ''service'' ref (vc_name ch) (mcp_service_edit org ch) upsert_service prov now) st)"

section \<open>Delete\<close>

definition check_delete :: "string \<Rightarrow> string \<Rightarrow> kb_error + unit" where
  "check_delete typ key =
     (if typ = ''assistant'' then Inl (CannotDelete ''the assistant configuration cannot be deleted'')
      else if typ \<in> {''contacts'', ''policies'', ''tariff_info''} then
        guardE (key = natural_key_main) (CannotDelete ''key must be main'')
      else if typ \<in> {''topic'', ''product'', ''tariff'', ''delivery_zone'', ''specialist'', ''service''} then
        guardE (\<not> blank key) (CannotDelete ''key is required'')
      else Inl (CannotDelete ''unknown type''))"

definition drop_typed :: "string \<Rightarrow> string \<Rightarrow> draft_blob \<Rightarrow> draft_blob" where
  "drop_typed typ key b =
     (if typ = ''topic'' then remove_topic key b
      else if typ = ''product'' then remove_product key b
      else if typ = ''tariff'' then remove_tariff key b
      else if typ = ''delivery_zone'' then remove_zone key b
      else if typ = ''specialist'' then remove_specialist key b
      else if typ = ''service'' then remove_service key b
      else if typ = ''contacts'' then remove_contact b
      else if typ = ''policies'' then remove_policy b
      else if typ = ''tariff_info'' then remove_tariff_info b
      else b)"

definition delete_mutation :: "uuid \<Rightarrow> string \<Rightarrow> string \<Rightarrow> unit mutation" where
  "delete_mutation org typ key b st =
     (case find_by ie_key key (identity_index st org [typ] ''both'' '''') of
        None \<Rightarrow> Inl (CannotDelete ''no such record'')
      | Some e \<Rightarrow>
          let b' = drop_typed typ key b in
          Inr ((), if ie_live e then add_delete (delete_kind_for typ) key b' else b', st))"

definition mcp_delete ::
  "uuid \<Rightarrow> uuid \<Rightarrow> string \<Rightarrow> string \<Rightarrow> int option \<Rightarrow> gotime \<Rightarrow> kb_store \<Rightarrow> kb_error + int \<times> kb_store" where
  "mcp_delete org user typ key expected now st =
     bindE (check_delete typ key) (\<lambda>_.
     bindE (write_draft_versioned org expected user now (delete_mutation org typ key) st) (\<lambda>((u, version), st').
     Inr (version, st')))"

section \<open>Attachments\<close>

record attach_input =
  aj_material :: uuid
  aj_type :: string
  aj_key :: string
  aj_field :: string

definition append_unique :: "uuid list \<Rightarrow> uuid \<Rightarrow> uuid list \<times> bool" where
  "append_unique ids i = (if i \<in> set ids then (ids, True) else (ids @ [i], False))"

text \<open>
  \<open>topicMediaFieldTarget\<close> and its siblings yield the slice to change; here they yield the entry with it
  changed.
\<close>

definition attach_list :: "('a \<Rightarrow> uuid list) \<Rightarrow> (uuid list \<Rightarrow> 'a \<Rightarrow> 'a) \<Rightarrow> uuid \<Rightarrow> 'a \<Rightarrow> ('a \<times> bool) option" where
  "attach_list get put i x = (let (ids, there) = append_unique (get x) i in Some (put ids x, there))"

definition attach_topic :: "string \<Rightarrow> uuid \<Rightarrow> draft_topic \<Rightarrow> (draft_topic \<times> bool) option" where
  "attach_topic field i t =
     (if field = ''illustration_images'' then attach_list dt_illustrations (\<lambda>v x. x\<lparr>dt_illustrations := v\<rparr>) i t
      else if field = ''explainer_videos'' then attach_list dt_videos (\<lambda>v x. x\<lparr>dt_videos := v\<rparr>) i t
      else if field = ''reference_documents'' then attach_list dt_documents (\<lambda>v x. x\<lparr>dt_documents := v\<rparr>) i t
      else None)"

definition attach_product :: "string \<Rightarrow> uuid \<Rightarrow> draft_product \<Rightarrow> (draft_product \<times> bool) option" where
  "attach_product field i p =
     (if field = ''gallery_images'' then attach_list dp_gallery (\<lambda>v x. x\<lparr>dp_gallery := v\<rparr>) i p
      else if field = ''demo_videos'' then attach_list dp_videos (\<lambda>v x. x\<lparr>dp_videos := v\<rparr>) i p
      else if field = ''certificate_documents'' then attach_list dp_certificates (\<lambda>v x. x\<lparr>dp_certificates := v\<rparr>) i p
      else if field = ''guarantee_documents'' then attach_list dp_guarantees (\<lambda>v x. x\<lparr>dp_guarantees := v\<rparr>) i p
      else None)"

definition attach_tariff :: "string \<Rightarrow> uuid \<Rightarrow> draft_tariff \<Rightarrow> (draft_tariff \<times> bool) option" where
  "attach_tariff field i t =
     (if field = ''pricing_images'' then attach_list da_pricing_images (\<lambda>v x. x\<lparr>da_pricing_images := v\<rparr>) i t
      else if field = ''explainer_videos'' then attach_list da_videos (\<lambda>v x. x\<lparr>da_videos := v\<rparr>) i t
      else if field = ''terms_documents'' then attach_list da_terms (\<lambda>v x. x\<lparr>da_terms := v\<rparr>) i t
      else None)"

definition attach_contact :: "string \<Rightarrow> uuid \<Rightarrow> draft_contact \<Rightarrow> (draft_contact \<times> bool) option" where
  "attach_contact field i c =
     (if field = ''contact_card_image'' then Some (c\<lparr>dc_card_image := Some i\<rparr>, dc_card_image c = Some i)
      else if field = ''location_map_image'' then Some (c\<lparr>dc_map_image := Some i\<rparr>, dc_map_image c = Some i)
      else if field = ''company_legal_documents''
      then attach_list dc_legal_documents (\<lambda>v x. x\<lparr>dc_legal_documents := v\<rparr>) i c
      else None)"

definition attach_policy :: "string \<Rightarrow> uuid \<Rightarrow> draft_policy \<Rightarrow> (draft_policy \<times> bool) option" where
  "attach_policy field i p =
     (if field = ''commerce_policy_documents'' then attach_list dl_documents (\<lambda>v x. x\<lparr>dl_documents := v\<rparr>) i p
      else None)"

definition attach_specialist :: "string \<Rightarrow> uuid \<Rightarrow> draft_specialist \<Rightarrow> (draft_specialist \<times> bool) option" where
  "attach_specialist field i s =
     (if field = ''portfolio_images'' then attach_list ds_portfolio (\<lambda>v x. x\<lparr>ds_portfolio := v\<rparr>) i s
      else None)"

definition attached_in ::
  "attach_input \<Rightarrow> ('a \<Rightarrow> draft_blob \<Rightarrow> draft_blob) \<Rightarrow> draft_blob \<Rightarrow> ('a \<times> bool) option \<Rightarrow> kb_error + bool \<times> draft_blob" where
  "attached_in inp put b r =
     (case r of
        None \<Rightarrow> Inl (CannotAttach (aj_type inp) (aj_key inp) (aj_field inp) ''unhandled attachment field'')
      | Some (x, there) \<Rightarrow> Inr (there, put x b))"

definition attach_entry :: "uuid \<Rightarrow> attach_input \<Rightarrow> string \<Rightarrow> kb_store \<Rightarrow> draft_blob \<Rightarrow> kb_error + bool \<times> draft_blob" where
  "attach_entry org inp key st b =
     (let typ = aj_type inp; f = aj_field inp; i = aj_material inp in
      if typ = ''topic'' then attached_in inp upsert_topic b (attach_topic f i (current_topic st org key b))
      else if typ = ''product'' then attached_in inp upsert_product b (attach_product f i (current_product st org key b))
      else if typ = ''tariff'' then attached_in inp upsert_tariff b (attach_tariff f i (current_tariff st org key b))
      else if typ = ''contacts'' then attached_in inp upsert_contact b (attach_contact f i (current_contact st org b))
      else if typ = ''policies'' then attached_in inp upsert_policy b (attach_policy f i (current_policy st org b))
      else if typ = ''specialist''
      then attached_in inp upsert_specialist b (attach_specialist f i (current_specialist st org key b))
      else Inl (CannotAttach typ key f ''unhandled attachment type''))"

definition attach_target :: "uuid \<Rightarrow> attach_input \<Rightarrow> kb_store \<Rightarrow> kb_error + string" where
  "attach_target org inp st =
     (if aj_type inp = ''contacts'' \<or> aj_type inp = ''policies'' then Inr natural_key_main
      else case find_by ie_key (aj_key inp) (identity_index st org [aj_type inp] ''both'' '''') of
        None \<Rightarrow> Inl (CannotAttach (aj_type inp) (aj_key inp) (aj_field inp) ''record does not exist in live or draft'')
      | Some e \<Rightarrow>
          if ie_delete e
          then Inl (CannotAttach (aj_type inp) (aj_key inp) (aj_field inp) ''record is staged for deletion'')
          else Inr (aj_key inp))"

definition attach_mutation :: "uuid \<Rightarrow> attach_input \<Rightarrow> (string \<times> bool) mutation" where
  "attach_mutation org inp b st =
     bindE (attach_target org inp st) (\<lambda>key.
     bindE (validate_media_ref st org (aj_field inp) (aj_material inp)) (\<lambda>_.
     bindE (attach_entry org inp key st b) (\<lambda>(there, b').
     Inr ((key, there), remove_delete (delete_kind_for (aj_type inp)) key b', st))))"

record attach_result =
  ah_type :: string
  ah_key :: string
  ah_field :: string
  ah_material :: uuid
  ah_version :: int
  ah_already :: bool

definition mcp_attach_media ::
  "uuid \<Rightarrow> uuid \<Rightarrow> attach_input \<Rightarrow> int option \<Rightarrow> gotime \<Rightarrow> kb_store \<Rightarrow> kb_error + attach_result \<times> kb_store" where
  "mcp_attach_media org user inp expected now st =
     (if lookup_attachment_field (aj_type inp) (aj_field inp) = None
      then Inl (CannotAttach (aj_type inp) (aj_key inp) (aj_field inp) ''not a valid attachment field for this type'')
      else bindE (write_draft_versioned org expected user now (attach_mutation org inp) st)
        (\<lambda>(((key, there), version), st').
          Inr (\<lparr>ah_type = aj_type inp, ah_key = key, ah_field = aj_field inp, ah_material = aj_material inp,
                ah_version = version, ah_already = there\<rparr>, st')))"

end
