(* ===== verification/Kb_Live.thy ===== *)
theory Kb_Live
  imports Kb_Approve
begin

text \<open>
  The live editor (\<open>live.go\<close>, \<open>zones.go\<close>): edits and deletes that go to the live tables at once, each
  one transaction that ends with an entry of the audit log; the first load of an organization and what
  the brain reads (\<open>kbstore.go\<close>).
\<close>

definition audited ::
  "uuid \<Rightarrow> gotime \<Rightarrow> uuid \<Rightarrow> string \<Rightarrow> string \<Rightarrow> kb_error + kb_store \<Rightarrow> kb_error + kb_store" where
  "audited org now actor action note r =
     bindE r (\<lambda>st. Inr (audit_row org now (null_if_nil actor) action note st))"

section \<open>Topics, tariffs and products\<close>

definition put_live_topic :: "uuid \<Rightarrow> uuid \<Rightarrow> topic_input \<Rightarrow> gotime \<Rightarrow> kb_store \<Rightarrow> kb_error + kb_store" where
  "put_live_topic org actor inp now st =
     (let reasons = gate_topic_body (ti_slug inp) (ti_body inp) in
      if length reasons > 0 then Inl (GateFailed reasons)
      else
        let cur = (coalesce (row_at dt_slug org (ti_slug inp) (ks_topics st)) (blank_topic (ti_slug inp)))
                    \<lparr>dt_title := ti_title inp, dt_body := ti_body inp\<rparr>;
            (cur', refs) = apply_topic_media cur (ti_media inp) in
        bindE (validate_media_refs st org refs) (\<lambda>_.
          audited org now actor ''edit'' (''topic:'' @ ti_slug inp) (upsert_topic_row org now cur' st)))"

definition delete_live_topic :: "uuid \<Rightarrow> uuid \<Rightarrow> string \<Rightarrow> gotime \<Rightarrow> kb_store \<Rightarrow> kb_error + kb_store" where
  "delete_live_topic org actor slug now st =
     audited org now actor ''delete'' (''topic:'' @ slug)
       (Inr (st\<lparr>ks_topics := delete_row dt_slug org slug (ks_topics st)\<rparr>))"

definition put_live_tariff :: "uuid \<Rightarrow> uuid \<Rightarrow> tariff_input \<Rightarrow> gotime \<Rightarrow> kb_store \<Rightarrow> kb_error + kb_store" where
  "put_live_tariff org actor inp now st =
     (let cur = set_tariff inp (coalesce (row_at da_ref org (fi_ref inp) (ks_tariffs st)) (blank_tariff (fi_ref inp))) in
      bindE (validate_tariff_facts cur) (\<lambda>_.
        let (cur', refs) = apply_tariff_media cur (fi_media inp) in
        bindE (validate_media_refs st org refs) (\<lambda>_.
          audited org now actor ''edit'' (''tariff:'' @ fi_ref inp) (upsert_tariff_row org now cur' st))))"

definition delete_live_tariff :: "uuid \<Rightarrow> uuid \<Rightarrow> string \<Rightarrow> gotime \<Rightarrow> kb_store \<Rightarrow> kb_error + kb_store" where
  "delete_live_tariff org actor ref now st =
     audited org now actor ''delete'' (''tariff:'' @ ref)
       (Inr (st\<lparr>ks_tariffs := delete_row da_ref org ref (ks_tariffs st)\<rparr>))"

definition put_live_product :: "uuid \<Rightarrow> uuid \<Rightarrow> product_input \<Rightarrow> gotime \<Rightarrow> kb_store \<Rightarrow> kb_error + kb_store" where
  "put_live_product org actor inp now st =
     bindE (edited_product org inp st
              (coalesce (row_at dp_ref org (qi_ref inp) (ks_products st)) (blank_product (qi_ref inp)))) (\<lambda>p.
       audited org now actor ''edit'' (''product:'' @ qi_ref inp) (upsert_product_row org now p st))"

definition delete_live_product :: "uuid \<Rightarrow> uuid \<Rightarrow> string \<Rightarrow> gotime \<Rightarrow> kb_store \<Rightarrow> kb_error + kb_store" where
  "delete_live_product org actor ref now st =
     audited org now actor ''delete'' (''product:'' @ ref)
       (Inr (st\<lparr>ks_products := delete_row dp_ref org ref (ks_products st)\<rparr>))"

section \<open>Specialists and services\<close>

definition put_live_specialist :: "uuid \<Rightarrow> uuid \<Rightarrow> specialist_input \<Rightarrow> gotime \<Rightarrow> kb_store \<Rightarrow> kb_error + kb_store" where
  "put_live_specialist org actor inp now st =
     bindE (edited_specialist org inp st
              (coalesce (row_at ds_ref org (si_ref inp) (ks_specialists st)) (blank_specialist (si_ref inp)))) (\<lambda>s.
       audited org now actor ''edit'' (''specialist:'' @ si_ref inp) (upsert_specialist_row org now s st))"

definition delete_live_specialist :: "uuid \<Rightarrow> uuid \<Rightarrow> string \<Rightarrow> gotime \<Rightarrow> kb_store \<Rightarrow> kb_error + kb_store" where
  "delete_live_specialist org actor ref now st =
     audited org now actor ''delete'' (''specialist:'' @ ref)
       (Inr (st\<lparr>ks_specialists := delete_row ds_ref org ref (ks_specialists st)\<rparr>))"

definition live_service :: "kb_store \<Rightarrow> uuid \<Rightarrow> string \<Rightarrow> draft_service option" where
  "live_service st org ref = row_at dv_ref org ref (ks_services st)"

text \<open>The cascade of an archived base service to its active children.\<close>

definition archive_children :: "uuid \<Rightarrow> string \<Rightarrow> gotime \<Rightarrow> kb_store \<Rightarrow> kb_store" where
  "archive_children org ref now st =
     st\<lparr>ks_services := update_where
       (\<lambda>r. kr_org r = org \<and> dv_parent (kr_body r) = ref \<and> dv_sales_status (kr_body r) = ''active'')
       (\<lambda>r. rewrite_row now ((kr_body r)\<lparr>dv_sales_status := ''inactive''\<rparr>) r) (ks_services st)\<rparr>"

definition put_live_service :: "uuid \<Rightarrow> uuid \<Rightarrow> draft_service \<Rightarrow> gotime \<Rightarrow> kb_store \<Rightarrow> kb_error + kb_store" where
  "put_live_service org actor inp now st =
     (let was_active = (case live_service st org (dv_ref inp) of
                          None \<Rightarrow> False | Some prev \<Rightarrow> dv_sales_status prev = ''active'') in
      bindE (validate_service st org empty_blob (service_of_input inp)) (\<lambda>cur.
      bindE (upsert_service_row org now cur st) (\<lambda>st'.
      audited org now actor ''edit'' (''service:'' @ dv_ref inp)
        (Inr (if dv_type cur = ''base'' \<and> was_active \<and> dv_sales_status cur = ''inactive''
              then archive_children org (dv_ref cur) now st' else st')))))"

definition delete_live_service :: "uuid \<Rightarrow> uuid \<Rightarrow> string \<Rightarrow> gotime \<Rightarrow> kb_store \<Rightarrow> kb_error + kb_store" where
  "delete_live_service org actor ref now st =
     (if list_ex (\<lambda>r. kr_org r = org \<and> dv_parent (kr_body r) = ref) (ks_services st)
      then Inl (Salon (CannotDeleteBase ref))
      else audited org now actor ''delete'' (''service:'' @ ref)
        (Inr (st\<lparr>ks_services := delete_row dv_ref org ref (ks_services st)\<rparr>)))"

definition set_specialist_status :: "uuid \<Rightarrow> string \<Rightarrow> string \<Rightarrow> gotime \<Rightarrow> kb_store \<Rightarrow> kb_store" where
  "set_specialist_status org ref status now st =
     st\<lparr>ks_specialists := update_where (row_hit ds_ref org ref)
       (\<lambda>r. rewrite_row now ((kr_body r)\<lparr>ds_sales_status := status\<rparr>) r) (ks_specialists st)\<rparr>"

definition set_live_specialist_sales_status ::
  "uuid \<Rightarrow> uuid \<Rightarrow> string \<Rightarrow> string \<Rightarrow> gotime \<Rightarrow> kb_store \<Rightarrow> kb_error + kb_store" where
  "set_live_specialist_sales_status org actor ref status now st =
     bindE (validate_enum ''sales_status'' status sales_statuses) (\<lambda>_.
       if row_at ds_ref org ref (ks_specialists st) = None then Inl (RowNotFound ''specialist'' ref)
       else audited org now actor ''edit'' (''specialist:'' @ ref)
         (Inr (set_specialist_status org ref (or_default status ''active'') now st)))"

definition set_service_status :: "uuid \<Rightarrow> string \<Rightarrow> string \<Rightarrow> gotime \<Rightarrow> kb_store \<Rightarrow> kb_store" where
  "set_service_status org ref status now st =
     st\<lparr>ks_services := update_where (row_hit dv_ref org ref)
       (\<lambda>r. rewrite_row now ((kr_body r)\<lparr>dv_sales_status := status\<rparr>) r) (ks_services st)\<rparr>"

definition set_live_service_sales_status ::
  "uuid \<Rightarrow> uuid \<Rightarrow> string \<Rightarrow> string \<Rightarrow> gotime \<Rightarrow> kb_store \<Rightarrow> kb_error + kb_store" where
  "set_live_service_sales_status org actor ref status0 now st =
     bindE (validate_enum ''sales_status'' status0 sales_statuses) (\<lambda>_.
       let status = or_default status0 ''active'' in
       case live_service st org ref of
         None \<Rightarrow> Inl (RowNotFound ''service'' ref)
       | Some cur \<Rightarrow>
           if status = ''active'' \<and> dv_type cur \<noteq> ''base'' \<and> dv_parent cur \<noteq> ''''
              \<and> (case live_service st org (dv_parent cur) of
                   None \<Rightarrow> True | Some p \<Rightarrow> dv_sales_status p \<noteq> ''active'')
           then Inl (Salon (ParentNotActive ref (dv_parent cur)))
           else
             let st' = set_service_status org ref status now st in
             audited org now actor ''edit'' (''service:'' @ ref)
               (Inr (if dv_type cur = ''base'' \<and> dv_sales_status cur = ''active'' \<and> status = ''inactive''
                     then archive_children org ref now st' else st')))"

section \<open>Delivery zones\<close>

text \<open>\<open>ZoneInput\<close> has the fields of a zone and is modelled by \<open>draft_zone\<close>.\<close>

definition in_zone_world :: "uuid \<Rightarrow> kb_error + kb_store \<Rightarrow> kb_error + kb_store" where
  "in_zone_world org r = bindE r (\<lambda>st. bindE (validate_zone_world org st) (\<lambda>_. Inr st))"

definition put_live_zone :: "uuid \<Rightarrow> uuid \<Rightarrow> draft_zone \<Rightarrow> gotime \<Rightarrow> kb_store \<Rightarrow> kb_error + kb_store" where
  "put_live_zone org actor inp now st =
     audited org now actor ''edit'' (''zone:'' @ dn_ref inp) (in_zone_world org (upsert_zone_row org now inp st))"

definition delete_live_zone :: "uuid \<Rightarrow> uuid \<Rightarrow> string \<Rightarrow> gotime \<Rightarrow> kb_store \<Rightarrow> kb_error + kb_store" where
  "delete_live_zone org actor ref now st =
     audited org now actor ''delete'' (''zone:'' @ ref)
       (in_zone_world org (Inr (st\<lparr>ks_zones := delete_row dn_ref org ref (ks_zones st)\<rparr>)))"

section \<open>Singletons\<close>

definition patch_live_contacts :: "uuid \<Rightarrow> uuid \<Rightarrow> contact_patch \<Rightarrow> gotime \<Rightarrow> kb_store \<Rightarrow> kb_error + kb_store" where
  "patch_live_contacts org actor p now st =
     bindE (edited_contact (\<lambda>e. Salon (SalonSchedule ''contact'' e)) org p st
              (coalesce (row_at singleton_key org () (ks_contacts st)) blank_contact)) (\<lambda>c.
       audited org now actor ''edit'' ''contacts'' (upsert_contact_row org now c st))"

definition patch_live_policies :: "uuid \<Rightarrow> uuid \<Rightarrow> policy_patch \<Rightarrow> gotime \<Rightarrow> kb_store \<Rightarrow> kb_error + kb_store" where
  "patch_live_policies org actor p now st =
     bindE (edited_policy org p st (coalesce (row_at singleton_key org () (ks_policies st)) blank_policy)) (\<lambda>c.
       audited org now actor ''edit'' ''policies'' (in_zone_world org (upsert_policy_row org now c st)))"

definition patch_live_tariff_info ::
  "uuid \<Rightarrow> uuid \<Rightarrow> additional_fact list option \<Rightarrow> gotime \<Rightarrow> kb_store \<Rightarrow> kb_error + kb_store" where
  "patch_live_tariff_info org actor p now st =
     bindE (edited_tariff_info p (coalesce (row_at singleton_key org () (ks_tariff_info st)) \<lparr>di_facts = []\<rparr>)) (\<lambda>ti.
       audited org now actor ''edit'' ''tariff_info'' (upsert_tariff_info_row org now ti st))"

definition patch_live_config :: "uuid \<Rightarrow> uuid \<Rightarrow> draft_config \<Rightarrow> gotime \<Rightarrow> kb_store \<Rightarrow> kb_error + kb_store" where
  "patch_live_config org actor p now st =
     audited org now actor ''edit'' ''config'' (Inr (upsert_config_row org now p st))"

definition delete_live_config :: "uuid \<Rightarrow> uuid \<Rightarrow> gotime \<Rightarrow> kb_store \<Rightarrow> kb_error + kb_store" where
  "delete_live_config org actor now st =
     audited org now actor ''delete'' ''config''
       (Inr (st\<lparr>ks_assistants := delete_row singleton_key org () (ks_assistants st)\<rparr>))"

definition delete_live_contacts :: "uuid \<Rightarrow> uuid \<Rightarrow> gotime \<Rightarrow> kb_store \<Rightarrow> kb_error + kb_store" where
  "delete_live_contacts org actor now st =
     audited org now actor ''delete'' ''contacts''
       (Inr (st\<lparr>ks_contacts := delete_row singleton_key org () (ks_contacts st)\<rparr>))"

definition delete_live_policies :: "uuid \<Rightarrow> uuid \<Rightarrow> gotime \<Rightarrow> kb_store \<Rightarrow> kb_error + kb_store" where
  "delete_live_policies org actor now st =
     audited org now actor ''delete'' ''policies''
       (Inr (st\<lparr>ks_policies := delete_row singleton_key org () (ks_policies st)\<rparr>))"

definition delete_live_tariff_info :: "uuid \<Rightarrow> uuid \<Rightarrow> gotime \<Rightarrow> kb_store \<Rightarrow> kb_error + kb_store" where
  "delete_live_tariff_info org actor now st =
     audited org now actor ''delete'' ''tariff_info''
       (Inr (st\<lparr>ks_tariff_info := delete_row singleton_key org () (ks_tariff_info st)\<rparr>))"

end
