(* ===== verification/Kb_Load.thy ===== *)
theory Kb_Load
  imports Kb_Live
begin

text \<open>
  The load of a live knowledge base for a reply (\<open>backend/internal/responsestore/kb.go\<close>): the rows of the
  tables as the rows of package \<open>aiprompt\<close>. \<open>google/uuid\<close> is no part of the repository: reading an
  identifier from its text and writing it are the parameters \<open>parse\<close> and \<open>show_id\<close>.
\<close>

definition opt_id :: "(uuid \<Rightarrow> string) \<Rightarrow> uuid option \<Rightarrow> string" where
  "opt_id show_id i = (case i of None \<Rightarrow> '''' | Some i \<Rightarrow> show_id i)"

definition media_array :: "(uuid \<Rightarrow> string) \<Rightarrow> uuid list \<Rightarrow> string list" where
  "media_array show_id ids = map show_id ids"

definition kb_assistant_of :: "assistant_row \<Rightarrow> assistant" where
  "kb_assistant_of a = \<lparr>an_persona = ar_persona a, an_mission = ar_mission a, an_guardrails = ar_guardrails a,
     an_language_policy = ar_language_policy a, an_reply_max_words = ar_reply_max_words a\<rparr>"

definition kb_topic_of :: "(uuid \<Rightarrow> string) \<Rightarrow> draft_topic \<Rightarrow> topic" where
  "kb_topic_of show_id t = \<lparr>tp_slug = dt_slug t, tp_title = dt_title t, tp_body = dt_body t,
     tp_featured_image = opt_id show_id (dt_featured t), tp_illustrations = media_array show_id (dt_illustrations t),
     tp_videos = media_array show_id (dt_videos t), tp_documents = media_array show_id (dt_documents t)\<rparr>"

definition kb_product_of :: "(uuid \<Rightarrow> string) \<Rightarrow> draft_product \<Rightarrow> product" where
  "kb_product_of show_id p = \<lparr>pr_ref = dp_ref p, pr_name = dp_name p, pr_price = dp_price p,
     pr_description = dp_description p, pr_category = dp_category p, pr_brand = dp_brand p,
     pr_advantages = dp_advantages p, pr_disadvantages = dp_disadvantages p, pr_best_for = dp_best_for p,
     pr_not_for = dp_not_for p, pr_availability = dp_availability p,
     pr_availability_note = dp_availability_note p, pr_installation = dp_installation p,
     pr_warranty = dp_warranty p, pr_facts = dp_facts p, pr_sales_status = dp_sales_status p,
     pr_featured_image = opt_id show_id (dp_featured p), pr_gallery = media_array show_id (dp_gallery p),
     pr_videos = media_array show_id (dp_videos p), pr_certificates = media_array show_id (dp_certificates p),
     pr_guarantees = media_array show_id (dp_guarantees p)\<rparr>"

definition kb_tariff_of :: "(uuid \<Rightarrow> string) \<Rightarrow> draft_tariff \<Rightarrow> tariff" where
  "kb_tariff_of show_id t = \<lparr>tf_ref = da_ref t, tf_name = da_name t, tf_price = da_price t,
     tf_limit_text = da_limit_text t, tf_fee = da_fee t, tf_summary = da_summary t,
     tf_pricing_type = da_pricing_type t, tf_advantages = da_advantages t,
     tf_disadvantages = da_disadvantages t, tf_best_for = da_best_for t, tf_not_for = da_not_for t,
     tf_facts = da_facts t, tf_sales_status = da_sales_status t,
     tf_featured_image = opt_id show_id (da_featured t),
     tf_pricing_images = media_array show_id (da_pricing_images t),
     tf_videos = media_array show_id (da_videos t), tf_terms = media_array show_id (da_terms t)\<rparr>"

definition kb_contacts_of :: "(uuid \<Rightarrow> string) \<Rightarrow> draft_contact \<Rightarrow> contacts" where
  "kb_contacts_of show_id c = \<lparr>ct_whatsapp = dc_whatsapp c, ct_email = dc_email c, ct_address = dc_address c,
     ct_legal = dc_legal c, ct_callback_time = dc_callback_time c, ct_working_hours = dc_working_hours c,
     ct_phone = dc_phone c, ct_website = dc_website c, ct_instagram = dc_instagram c,
     ct_card_image = opt_id show_id (dc_card_image c), ct_map_image = opt_id show_id (dc_map_image c),
     ct_legal_documents = media_array show_id (dc_legal_documents c), ct_booking_url = dc_booking_url c,
     ct_schedule = dc_schedule c\<rparr>"

definition kb_policies_of :: "(uuid \<Rightarrow> string) \<Rightarrow> draft_policy \<Rightarrow> policies" where
  "kb_policies_of show_id p = \<lparr>po_delivery_cost = dl_delivery_cost p,
     po_delivery_in_days = dl_delivery_in_days p, po_free_delivery_from = dl_free_delivery_from p,
     po_min_order = dl_min_order p, po_prepayment = dl_prepayment p, po_installment = dl_installment p,
     po_return_period = dl_return_period p, po_warranty = dl_warranty p,
     po_outside_zones_note = dl_outside_zones_note p, po_documents = media_array show_id (dl_documents p)\<rparr>"

definition kb_zone_of :: "draft_zone \<Rightarrow> delivery_zone" where
  "kb_zone_of z = \<lparr>dz_ref = dn_ref z, dz_name = dn_name z, dz_level = dn_level z, dz_parent = dn_parent z,
     dz_available = dn_available z, dz_cost = dn_cost z, dz_days = dn_days z, dz_notes = dn_notes z,
     dz_sales_status = dn_sales_status z\<rparr>"

definition kb_specialist_of :: "(uuid \<Rightarrow> string) \<Rightarrow> draft_specialist \<Rightarrow> specialist" where
  "kb_specialist_of show_id s = \<lparr>sp_ref = ds_ref s, sp_name = ds_name s, sp_title = ds_title s,
     sp_experience = ds_experience s, sp_schedule = ds_schedule s, sp_booking_url = ds_booking_url s,
     sp_portfolio = media_array show_id (ds_portfolio s), sp_sales_status = ds_sales_status s\<rparr>"

definition kb_service_of :: "draft_service \<Rightarrow> service" where
  "kb_service_of v = \<lparr>sv_ref = dv_ref v, sv_parent = dv_parent v, sv_type = dv_type v,
     sv_category = dv_category v, sv_name = dv_name v, sv_price = dv_price v, sv_duration = dv_duration v,
     sv_description = dv_description v, sv_specialists = dv_specialists v, sv_sales_status = dv_sales_status v\<rparr>"

definition kb_material_of :: "(uuid \<Rightarrow> string) \<Rightarrow> material_row \<Rightarrow> material" where
  "kb_material_of show_id m = \<lparr>mt_id = show_id (mr_id m), mt_organization = show_id (mr_org m),
     mt_source_type = mr_source_type m, mt_source_ref = mr_source_ref m, mt_filename = mr_filename m,
     mt_mime = mr_mime m, mt_size = coalesce (mr_size m) 0, mt_storage_backend = mr_storage_backend m,
     mt_storage_key = mr_storage_key m, mt_processing = mr_processing m, mt_visibility = mr_visibility m\<rparr>"

datatype load_error = BadOrganizationId string | KbNotConfigured

definition load_kb_rows :: "(uuid \<Rightarrow> string) \<Rightarrow> string \<Rightarrow> uuid \<Rightarrow> assistant_row \<Rightarrow> kb_store \<Rightarrow> kb" where
  "load_kb_rows show_id organization org a st =
     \<lparr>kb_organization = organization, kb_assistant = Some (kb_assistant_of a),
      kb_topics = map (kb_topic_of show_id) (load_topic_rows st org),
      kb_products = map (kb_product_of show_id) (map kr_body (org_rows org (ks_products st))),
      kb_tariffs = map (kb_tariff_of show_id) (map kr_body (org_rows org (ks_tariffs st))),
      kb_contacts = map_option (kb_contacts_of show_id) (row_at singleton_key org () (ks_contacts st)),
      kb_policies = map_option (kb_policies_of show_id) (row_at singleton_key org () (ks_policies st)),
      kb_tariff_info = map_option di_facts (row_at singleton_key org () (ks_tariff_info st)),
      kb_zones = map kb_zone_of (load_zone_rows st org),
      kb_specialists = map (kb_specialist_of show_id) (load_specialist_rows st org),
      kb_services = map kb_service_of (load_service_rows st org),
      kb_materials = map (kb_material_of show_id) (list_materials st org)\<rparr>"

definition load_kb ::
  "(string \<Rightarrow> uuid option) \<Rightarrow> (uuid \<Rightarrow> string) \<Rightarrow> string \<Rightarrow> kb_store \<Rightarrow> load_error + kb" where
  "load_kb parse show_id organization st =
     (case parse organization of
        None \<Rightarrow> Inl (BadOrganizationId organization)
      | Some org \<Rightarrow>
        (case row_at singleton_key org () (ks_assistants st) of
           None \<Rightarrow> Inl KbNotConfigured
         | Some a \<Rightarrow> Inr (load_kb_rows show_id organization org a st)))"

end
