(* ===== verification/Kb_Laws.thy ===== *)
theory Kb_Laws
  imports Kb_Mcp Kb_Load
begin

text \<open>
  The laws of the tables and of the draft's sections: what an upsert and a delete do to the entries of
  an organization, in the order they are read; one locale for the nine live tables and its
  interpretations; the well-formedness of a store.
\<close>

section \<open>Lists under a key\<close>

lemma upsert_by_new: "key x \<notin> key ` set ys \<Longrightarrow> upsert_by key x ys = ys @ [x]"
  by (induction ys) auto

lemma upsert_by_hit:
  "distinct (map key ys) \<Longrightarrow> key x \<in> key ` set ys
     \<Longrightarrow> upsert_by key x ys = map (\<lambda>y. if key y = key x then x else y) ys"
proof (induction ys)
  case (Cons y ys)
  show ?case
  proof (cases "key y = key x")
    case True
    then have "\<forall>z \<in> set ys. key z \<noteq> key x" using Cons.prems by (metis distinct.simps(2) image_eqI list.set_map list.simps(9))
    with True show ?thesis by (auto simp: map_idI)
  next
    case False
    with Cons show ?thesis by auto
  qed
qed simp

lemma keys_upsert_by: "key ` set (upsert_by key x ys) = insert (key x) (key ` set ys)"
  by (induction ys) auto

lemma set_upsert_by: "set (upsert_by key x ys) \<subseteq> insert x (set ys)"
  by (induction ys) auto

lemma distinct_upsert_by: "distinct (map key ys) \<Longrightarrow> distinct (map key (upsert_by key x ys))"
proof (induction ys)
  case (Cons y ys)
  have "set (map key (upsert_by key x ys)) = insert (key x) (set (map key ys))"
    using keys_upsert_by [of key x ys] by simp
  with Cons show ?case by auto
qed simp

lemma map_upsert_by:
  "(\<And>y. key' (f y) = key y) \<Longrightarrow> map f (upsert_by key x ys) = upsert_by key' (f x) (map f ys)"
  by (induction ys) auto

lemma distinct_remove_by: "distinct (map key ys) \<Longrightarrow> distinct (map key (remove_by key k ys))"
  by (simp add: remove_by_def distinct_map_filter)

section \<open>Rows of an organization\<close>

definition bodies :: "uuid \<Rightarrow> 'a kb_row list \<Rightarrow> 'a list" where
  "bodies org rows = map kr_body (org_rows org rows)"

definition row_key :: "('a \<Rightarrow> 'k) \<Rightarrow> 'a kb_row \<Rightarrow> uuid \<times> 'k" where
  "row_key key r = (kr_org r, key (kr_body r))"

text \<open>\<open>UNIQUE (organization_id, key)\<close>, and rows no younger than an instant.\<close>

definition unique_rows :: "('a \<Rightarrow> 'k) \<Rightarrow> 'a kb_row list \<Rightarrow> bool" where
  "unique_rows key rows \<longleftrightarrow> distinct (map (row_key key) rows)"

definition rows_until :: "gotime \<Rightarrow> 'a kb_row list \<Rightarrow> bool" where
  "rows_until t rows \<longleftrightarrow> (\<forall>r \<in> set rows. kr_created r \<le> db_time t)"

lemma insort_key_map: "(\<And>y. k (f y) = k y) \<Longrightarrow> insort_key k (f x) (map f xs) = map f (insort_key k x xs)"
  by (induction xs) auto

lemma sort_key_map: "(\<And>y. k (f y) = k y) \<Longrightarrow> sort_key k (map f xs) = map f (sort_key k xs)"
proof (induction xs)
  case (Cons x xs)
  have "sort_key k (map f (x # xs)) = insort_key k (f x) (map f (sort_key k xs))"
    using Cons.IH [OF Cons.prems] by simp
  also have "\<dots> = map f (sort_key k (x # xs))" 
    by (simp add: insort_key_map [where k = k and f = f, OF Cons.prems])
  finally show ?case .
qed simp

lemma insort_key_snoc: "k a \<le> k x \<Longrightarrow> insort_key k a (ys @ [x]) = insort_key k a ys @ [x]"
  by (induction ys) auto

lemma sort_key_snoc: "\<forall>y \<in> set xs. k y \<le> k x \<Longrightarrow> sort_key k (xs @ [x]) = sort_key k xs @ [x]"
proof (induction xs)
  case (Cons a xs)
  then have "sort_key k ((a # xs) @ [x]) = insort_key k a (sort_key k xs @ [x])" by simp
  also have "\<dots> = insort_key k a (sort_key k xs) @ [x]" using Cons.prems by (intro insort_key_snoc) simp
  finally show ?case by simp
qed simp

lemma set_bodies: "x \<in> set (bodies org rows) \<longleftrightarrow> (\<exists>r \<in> set rows. kr_org r = org \<and> kr_body r = x)"
  by (auto simp: bodies_def org_rows_def)

lemma row_hit_iff: "row_hit key org k r \<longleftrightarrow> row_key key r = (org, k)"
  by (auto simp: row_hit_def row_key_def)

lemma distinct_bodies:
  assumes "unique_rows key rows" shows "distinct (map key (bodies org rows))"
proof -
  have "distinct (map (row_key key) (filter (\<lambda>r. kr_org r = org) rows))"
    using assms by (simp add: unique_rows_def distinct_map_filter)
  then have "distinct (map (row_key key) (org_rows org rows))"
    by (simp add: org_rows_def distinct_map)
  then show ?thesis by (auto simp: bodies_def distinct_map row_key_def inj_on_def org_rows_def)
qed

lemma unique_upsert_row:
  assumes "unique_rows key rows" shows "unique_rows key (upsert_row key org now x rows)"
proof (cases "list_ex (row_hit key org (key x)) rows")
  case True
  have "map (row_key key) (update_where (row_hit key org (key x)) (rewrite_row now x) rows) = map (row_key key) rows"
    by (auto simp: update_where_def rewrite_row_def row_key_def row_hit_def)
  with True assms show ?thesis by (simp add: upsert_row_def unique_rows_def)
next
  case False
  then have "(org, key x) \<notin> row_key key ` set rows" by (auto simp: list_ex_iff row_hit_iff)
  with False assms show ?thesis by (auto simp: upsert_row_def unique_rows_def new_row_def row_key_def)
qed

lemma unique_delete_row: "unique_rows key rows \<Longrightarrow> unique_rows key (delete_row key org k rows)"
  by (simp add: unique_rows_def delete_row_def distinct_map_filter)

lemma rows_until_upsert: "rows_until now rows \<Longrightarrow> rows_until now (upsert_row key org now x rows)"
  by (auto simp: rows_until_def upsert_row_def new_row_def rewrite_row_def set_update_where)

lemma bodies_upsert_row:
  assumes u: "unique_rows key rows" and t: "rows_until now rows"
  shows "bodies org (upsert_row key org now x rows) = upsert_by key x (bodies org rows)"
proof (cases "list_ex (row_hit key org (key x)) rows")
  case True
  let ?f = "\<lambda>r. if row_hit key org (key x) r then rewrite_row now x r else r"
  have "filter (\<lambda>r. kr_org r = org) (map ?f rows) = map ?f (filter (\<lambda>r. kr_org r = org) rows)"
    by (induction rows) (auto simp: rewrite_row_def)
  then have "bodies org (upsert_row key org now x rows) = map kr_body (map ?f (org_rows org rows))"
    using True by (simp add: bodies_def upsert_row_def update_where_def org_rows_def rewrite_row_def sort_key_map)
  also have "\<dots> = map (\<lambda>b. if key b = key x then x else b) (bodies org rows)"
    by (auto simp: bodies_def org_rows_def row_hit_def rewrite_row_def)
  also have "\<dots> = upsert_by key x (bodies org rows)"
  proof (rule upsert_by_hit [symmetric])
    show "distinct (map key (bodies org rows))" by (rule distinct_bodies [OF u])
    obtain r where "r \<in> set rows" "kr_org r = org" "key (kr_body r) = key x"
      using True by (auto simp: list_ex_iff row_hit_def)
    then show "key x \<in> key ` set (bodies org rows)" by (metis image_eqI set_bodies)
  qed
  finally show ?thesis .
next
  case False
  then have "key x \<notin> key ` set (bodies org rows)" by (auto simp: set_bodies list_ex_iff row_hit_def)
  then have new: "upsert_by key x (bodies org rows) = bodies org rows @ [x]" by (rule upsert_by_new)
  have "\<forall>r \<in> set (filter (\<lambda>r. kr_org r = org) rows). kr_created r \<le> kr_created (new_row org now x)"
    using t by (auto simp: rows_until_def new_row_def)
  from sort_key_snoc [OF this] False new show ?thesis
    by (simp add: bodies_def org_rows_def upsert_row_def new_row_def)
qed

lemma bodies_delete_row: "bodies org (delete_row key org k rows) = filter (\<lambda>x. key x \<noteq> k) (bodies org rows)"
proof -
  have "filter (\<lambda>r. kr_org r = org) (delete_row key org k rows)
      = filter (\<lambda>r. key (kr_body r) \<noteq> k) (filter (\<lambda>r. kr_org r = org) rows)"
    by (auto simp: delete_row_def row_hit_def intro: filter_cong)
  then show ?thesis
    by (simp add: bodies_def org_rows_def filter_sort [symmetric] filter_map comp_def)
qed

lemma row_at_bodies:
  assumes "unique_rows key rows" shows "row_at key org k rows = find_by key k (bodies org rows)"
proof (cases "find (row_hit key org k) rows")
  case None
  then have "k \<notin> key ` set (bodies org rows)"
    by (auto simp: find_None_iff set_bodies row_hit_def)
  with None show ?thesis by (simp add: row_at_def find_by_None [symmetric])
next
  case (Some r)
  then have r: "r \<in> set rows" "kr_org r = org" "key (kr_body r) = k"
    by (auto simp: find_Some_iff row_hit_def in_set_conv_nth)
  then have "kr_body r \<in> set (bodies org rows)" by (auto simp: set_bodies)
  from find_by_unique [OF distinct_bodies [OF assms] this] Some r(3) show ?thesis by (simp add: row_at_def)
qed

section \<open>Writing a list of entries, applying a list of deletes\<close>

lemma fold_upsert_row:
  assumes "unique_rows key rows" and "rows_until now rows"
  shows "unique_rows key (fold (\<lambda>x. upsert_row key org now (norm x)) xs rows)
     \<and> rows_until now (fold (\<lambda>x. upsert_row key org now (norm x)) xs rows)
     \<and> bodies org (fold (\<lambda>x. upsert_row key org now (norm x)) xs rows)
         = fold (\<lambda>x. upsert_by key (norm x)) xs (bodies org rows)"
  using assms
proof (induction xs arbitrary: rows)
  case (Cons x xs)
  show ?case
    using Cons.IH [OF unique_upsert_row [OF Cons.prems(1)] rows_until_upsert [OF Cons.prems(2)]]
      bodies_upsert_row [OF Cons.prems] by (simp add: comp_def)
qed simp

lemma fold_upsert_norm:
  assumes "\<And>x. key (norm x) = key x" and "map norm ys = ys"
  shows "fold (\<lambda>x. upsert_by key (norm x)) xs ys = map norm (fold (upsert_by key) xs ys)"
proof (induction xs rule: rev_induct)
  case (snoc x xs)
  then show ?case by (simp add: map_upsert_by [where key' = key and f = norm, OF assms(1)])
qed (simp add: assms(2))

locale kb_table =
  fixes get :: "kb_store \<Rightarrow> 'a kb_row list"
    and put :: "'a kb_row list \<Rightarrow> kb_store \<Rightarrow> kb_store"
    and key :: "'a \<Rightarrow> 'k"
    and norm :: "'a \<Rightarrow> 'a"
    and wr :: "uuid \<Rightarrow> gotime \<Rightarrow> 'a \<Rightarrow> kb_store \<Rightarrow> kb_error + kb_store"
    and kind :: string
    and key_of :: "string \<Rightarrow> 'k"
  assumes get_put: "get (put rows st) = rows"
    and put_put: "put rows (put rows' st) = put rows st"
    and put_get: "put (get st) st = st"
    and write_ok: "wr org now x st = Inr st' \<Longrightarrow> st' = put (upsert_row key org now (norm x) (get st)) st"
    and norm_key: "key (norm x) = key x"
    and norm_norm: "norm (norm x) = norm x"
    and delete_hit: "get (apply_delete org d st)
       = (if dd_kind d = kind then delete_row key org (key_of (dd_key d)) (get st) else get st)"
begin

definition marked :: "draft_delete list \<Rightarrow> 'a \<Rightarrow> bool" where
  "marked ds x \<longleftrightarrow> (\<exists>d \<in> set ds. dd_kind d = kind \<and> key_of (dd_key d) = key x)"

lemma written_all:
  "foldE (wr org now) xs st = Inr st' \<Longrightarrow> st' = put (fold (\<lambda>x. upsert_row key org now (norm x)) xs (get st)) st"
proof (induction xs arbitrary: st)
  case Nil
  then show ?case by (simp add: put_get)
next
  case (Cons x xs)
  then obtain st1 where st1: "wr org now x st = Inr st1" and rest: "foldE (wr org now) xs st1 = Inr st'"
    by (auto simp: result_simps)
  have eq: "st1 = put (upsert_row key org now (norm x) (get st)) st" by (rule write_ok [OF st1])
  show ?case using Cons.IH [OF rest] by (simp add: eq get_put put_put)
qed

lemma deleted_all:
  "get (fold (apply_delete org) ds st) = filter (\<lambda>r. \<not> (kr_org r = org \<and> marked ds (kr_body r))) (get st)"
proof (induction ds arbitrary: st)
  case Nil
  then show ?case by (simp add: marked_def)
next
  case (Cons d ds)
  have "get (fold (apply_delete org) (d # ds) st)
      = filter (\<lambda>r. \<not> (kr_org r = org \<and> marked ds (kr_body r))) (get (apply_delete org d st))"
    using Cons.IH by simp
  also have "\<dots> = filter (\<lambda>r. \<not> (kr_org r = org \<and> marked (d # ds) (kr_body r))) (get st)"
    by (auto simp: delete_hit delete_row_def row_hit_def marked_def intro!: filter_cong)
  finally show ?case .
qed

lemma bodies_deleted:
  "bodies org (filter (\<lambda>r. \<not> (kr_org r = org \<and> marked ds (kr_body r))) rows)
     = filter (\<lambda>x. \<not> marked ds x) (bodies org rows)"
proof -
  have "filter (\<lambda>r. kr_org r = org) (filter (\<lambda>r. \<not> (kr_org r = org \<and> marked ds (kr_body r))) rows)
      = filter (\<lambda>r. \<not> marked ds (kr_body r)) (filter (\<lambda>r. kr_org r = org) rows)"
    by (auto intro: filter_cong)
  then show ?thesis by (simp add: bodies_def org_rows_def filter_sort [symmetric] filter_map comp_def)
qed

text \<open>What an approval leaves of the table: the pending entries over the live ones, less the deleted.\<close>

lemma approved_bodies:
  assumes "unique_rows key (get st)" and "rows_until now (get st)" and "map norm (bodies org (get st)) = bodies org (get st)"
  shows "bodies org (filter (\<lambda>r. \<not> (kr_org r = org \<and> marked ds (kr_body r)))
            (fold (\<lambda>x. upsert_row key org now (norm x)) xs (get st)))
       = map norm (filter (\<lambda>x. \<not> marked ds x) (fold (upsert_by key) xs (bodies org (get st))))"
proof -
  have m: "marked ds (norm x) = marked ds x" for x by (simp add: marked_def norm_key)
  show ?thesis
    unfolding bodies_deleted
    using fold_upsert_row [OF assms(1,2), where norm = norm and xs = xs] fold_upsert_norm [of key norm "bodies org (get st)" xs, OF norm_key assms(3)]
    by (simp add: filter_map comp_def m)
qed

end

section \<open>The nine live tables\<close>

lemmas row_writes = upsert_contact_row_def upsert_policy_row_def upsert_product_row_def upsert_service_row_def upsert_specialist_row_def upsert_tariff_info_row_def upsert_tariff_row_def upsert_topic_row_def upsert_zone_row_def

lemmas stored_defs = stored_tariff_def stored_product_def stored_zone_def stored_specialist_def stored_service_def
  or_default_def

interpretation topics_table: kb_table ks_topics "\<lambda>rows st. st\<lparr>ks_topics := rows\<rparr>" dt_slug "\<lambda>x. x" upsert_topic_row "''topic''" "\<lambda>k. k"
  by unfold_locales (auto simp: row_writes stored_defs apply_delete_def split: if_splits)

interpretation tariffs_table: kb_table ks_tariffs "\<lambda>rows st. st\<lparr>ks_tariffs := rows\<rparr>" da_ref stored_tariff upsert_tariff_row "''tariff''" "\<lambda>k. k"
  by unfold_locales (auto simp: row_writes stored_defs apply_delete_def split: if_splits)

interpretation products_table: kb_table ks_products "\<lambda>rows st. st\<lparr>ks_products := rows\<rparr>" dp_ref stored_product upsert_product_row "''product''" "\<lambda>k. k"
  by unfold_locales (auto simp: row_writes stored_defs apply_delete_def split: if_splits)

interpretation contacts_table: kb_table ks_contacts "\<lambda>rows st. st\<lparr>ks_contacts := rows\<rparr>" singleton_key "\<lambda>x. x" upsert_contact_row "''contact''" "\<lambda>k. ()"
  by unfold_locales (auto simp: row_writes stored_defs apply_delete_def split: if_splits)

interpretation policies_table: kb_table ks_policies "\<lambda>rows st. st\<lparr>ks_policies := rows\<rparr>" singleton_key "\<lambda>x. x" upsert_policy_row "''policy''" "\<lambda>k. ()"
  by unfold_locales (auto simp: row_writes stored_defs apply_delete_def split: if_splits)

interpretation tariff_info_table: kb_table ks_tariff_info "\<lambda>rows st. st\<lparr>ks_tariff_info := rows\<rparr>" singleton_key "\<lambda>x. x" upsert_tariff_info_row "''tariff_info''" "\<lambda>k. ()"
  by unfold_locales (auto simp: row_writes stored_defs apply_delete_def split: if_splits)

interpretation zones_table: kb_table ks_zones "\<lambda>rows st. st\<lparr>ks_zones := rows\<rparr>" dn_ref stored_zone upsert_zone_row "''delivery_zone''" "\<lambda>k. k"
  by unfold_locales (auto simp: row_writes stored_defs apply_delete_def split: if_splits)

interpretation specialists_table: kb_table ks_specialists "\<lambda>rows st. st\<lparr>ks_specialists := rows\<rparr>" ds_ref stored_specialist upsert_specialist_row "''specialist''" "\<lambda>k. k"
  by unfold_locales (auto simp: row_writes stored_defs apply_delete_def split: if_splits)

interpretation services_table: kb_table ks_services "\<lambda>rows st. st\<lparr>ks_services := rows\<rparr>" dv_ref stored_service upsert_service_row "''service''" "\<lambda>k. k"
  by unfold_locales (auto simp: row_writes stored_defs apply_delete_def split: if_splits)

end
