(* ===== verification/Kb_Samples.thy ===== *)
theory Kb_Samples
  imports Kb_Mcp
begin

text \<open>
  A small knowledge base on which the operations run: a topic staged, published, marked for deletion,
  then edited again in the Playground or through the MCP tool, and published once more.
\<close>

lemma ok_right: "is_ok r \<Longrightarrow> r = Inr (projr r)"
  by (cases r) simp_all

definition demo_time :: gotime where "demo_time = 1700000000000000000"

definition empty_kb :: kb_store where
  "empty_kb = \<lparr>ks_assistants = [], ks_topics = [], ks_tariffs = [], ks_products = [], ks_contacts = [],
     ks_policies = [], ks_tariff_info = [], ks_zones = [], ks_specialists = [], ks_services = [],
     ks_drafts = [], ks_materials = [], ks_requests = [], ks_audit = []\<rparr>"

definition no_topic_media :: topic_media_edit where
  "no_topic_media = \<lparr>tm_featured = None, tm_illustrations = None, tm_videos = None, tm_documents = None\<rparr>"

definition demo_topic :: topic_input where
  "demo_topic = \<lparr>ti_slug = ''faq'', ti_title = ''Faq'', ti_body = ''ask'', ti_media = no_topic_media\<rparr>"

definition demo_changes :: topic_changes where
  "demo_changes = \<lparr>tc_title = Some ''Questions'', tc_body = None, tc_media = no_topic_media\<rparr>"

definition no_provenance :: provenance where
  "no_provenance = \<lparr>pv_source_url = '''', pv_materials = []\<rparr>"

definition all_changes :: approve_selector where
  "all_changes = \<lparr>ap_kind = '''', ap_key = ''''\<rparr>"

section \<open>The runs\<close>

definition demo_staged where
  "demo_staged = upsert_topic_draft 1 2 demo_topic demo_time empty_kb"

definition demo_live where
  "demo_live = approve_versioned 1 all_changes (Some 1) 2 demo_time (projr demo_staged)"

definition demo_marked where
  "demo_marked = delete_topic_draft 1 2 ''faq'' demo_time (projr demo_live)"

definition demo_edited where
  "demo_edited = upsert_topic_draft 1 2 demo_topic demo_time (projr demo_marked)"

definition demo_lost where
  "demo_lost = approve_versioned 1 all_changes None 2 demo_time (projr demo_edited)"

definition demo_mcp where
  "demo_mcp = mcp_upsert_topic ''r'' 7 1 2 ''faq'' demo_changes (Some 3) no_provenance demo_time (projr demo_marked)"

definition demo_restored where
  "demo_restored = approve_versioned 1 all_changes None 2 demo_time (snd (projr demo_mcp))"

definition demo_cancelled where
  "demo_cancelled = cancel_change 1 2 ''topics'' ''faq'' None demo_time (projr demo_marked)"

lemma demo_ok: "is_ok demo_staged" "is_ok demo_live" "is_ok demo_marked" "is_ok demo_edited" "is_ok demo_lost"
  "is_ok demo_mcp" "is_ok demo_restored" "is_ok demo_cancelled"
  by code_simp+

lemmas demo_runs = demo_ok [THEN ok_right]

end
