(* ===== verification/Kb_Publish.thy ===== *)
theory Kb_Publish
  imports Kb_Laws Kb_Samples
begin

text \<open>
  Publishing the whole draft makes live exactly what the preview showed. The abstract state is the
  content of a view, its entries without flags and timestamps; the view of the draft and the live view
  after the approval have the same one.
\<close>

section \<open>Well-formed stores\<close>

definition blob_wf :: "draft_blob \<Rightarrow> bool" where
  "blob_wf b \<longleftrightarrow> (\<forall>d \<in> set (bl_deletes b). dd_kind d \<in> snd ` set change_kinds)
     \<and> length (bl_contacts b) \<le> 1 \<and> length (bl_policies b) \<le> 1 \<and> length (bl_tariff_info b) \<le> 1
     \<and> distinct (map dt_slug (bl_topics b)) \<and> distinct (map da_ref (bl_tariffs b))
     \<and> distinct (map dp_ref (bl_products b)) \<and> distinct (map dn_ref (bl_zones b))
     \<and> distinct (map ds_ref (bl_specialists b)) \<and> distinct (map dv_ref (bl_services b))"

definition stored_rows :: "('a \<Rightarrow> 'a) \<Rightarrow> 'a kb_row list \<Rightarrow> bool" where
  "stored_rows norm rows \<longleftrightarrow> (\<forall>r \<in> set rows. norm (kr_body r) = kr_body r)"

definition tables_wf :: "kb_store \<Rightarrow> bool" where
  "tables_wf st \<longleftrightarrow> unique_rows singleton_key (ks_assistants st) \<and> unique_rows dt_slug (ks_topics st)
     \<and> unique_rows da_ref (ks_tariffs st) \<and> unique_rows dp_ref (ks_products st)
     \<and> unique_rows singleton_key (ks_contacts st) \<and> unique_rows singleton_key (ks_policies st)
     \<and> unique_rows singleton_key (ks_tariff_info st) \<and> unique_rows dn_ref (ks_zones st)
     \<and> unique_rows ds_ref (ks_specialists st) \<and> unique_rows dv_ref (ks_services st)
     \<and> stored_rows stored_tariff (ks_tariffs st) \<and> stored_rows stored_product (ks_products st)
     \<and> stored_rows stored_zone (ks_zones st) \<and> stored_rows stored_specialist (ks_specialists st)
     \<and> stored_rows stored_service (ks_services st)"

definition drafts_wf :: "kb_store \<Rightarrow> bool" where
  "drafts_wf st \<longleftrightarrow> distinct (map dr_org (ks_drafts st)) \<and> (\<forall>r \<in> set (ks_drafts st). blob_wf (dr_blob r))"

definition kb_wf :: "kb_store \<Rightarrow> bool" where
  "kb_wf st \<longleftrightarrow> tables_wf st \<and> drafts_wf st"

definition kb_until :: "gotime \<Rightarrow> kb_store \<Rightarrow> bool" where
  "kb_until t st \<longleftrightarrow> rows_until t (ks_topics st) \<and> rows_until t (ks_tariffs st)
     \<and> rows_until t (ks_products st) \<and> rows_until t (ks_contacts st) \<and> rows_until t (ks_policies st)
     \<and> rows_until t (ks_tariff_info st) \<and> rows_until t (ks_zones st) \<and> rows_until t (ks_specialists st)
     \<and> rows_until t (ks_services st) \<and> rows_until t (ks_assistants st)"

section \<open>Content of a view\<close>

record kb_content =
  ko_assistant :: assistant_row
  ko_topics :: "draft_topic list"
  ko_tariffs :: "draft_tariff list"
  ko_products :: "draft_product list"
  ko_contacts :: "draft_contact list"
  ko_policies :: "draft_policy list"
  ko_tariff_info :: "draft_tariff_info list"
  ko_zones :: "draft_zone list"
  ko_specialists :: "draft_specialist list"
  ko_services :: "draft_service list"

text \<open>The columns a statement defaults are compared after the default.\<close>

definition view_content :: "draft_view \<Rightarrow> kb_content" where
  "view_content v = \<lparr>ko_assistant = cv_assistant (vw_config v), ko_topics = map vr_body (vw_topics v),
     ko_tariffs = map stored_tariff (map vr_body (vw_tariffs v)),
     ko_products = map stored_product (map vr_body (vw_products v)),
     ko_contacts = map vr_body (vw_contacts v), ko_policies = map vr_body (vw_policies v),
     ko_tariff_info = map vr_body (vw_tariff_info v), ko_zones = map vr_body (vw_zones v),
     ko_specialists = map vr_body (vw_specialists v), ko_services = map vr_body (vw_services v)\<rparr>"

lemma fold_overlay:
  "map vr_body (foldl (\<lambda>vs x. upsert_by (\<lambda>v. key (vr_body v)) (pending_row u x) vs) vs pend)
     = fold (upsert_by key) pend (map vr_body vs)"
proof (induction pend arbitrary: vs)
  case (Cons x pend)
  have "map vr_body (upsert_by (\<lambda>v. key (vr_body v)) (pending_row u x) vs) = upsert_by key x (map vr_body vs)"
    by (subst map_upsert_by [where key' = key]) (simp_all add: pending_row_def)
  with Cons.IH show ?case by simp
qed simp

lemma bodies_not_deleted:
  "map vr_body (not_deleted kind key ds rows)
     = filter (\<lambda>x. tag_of kind (key x) \<notin> set (deleted_tags ds)) (map vr_body rows)"
  by (simp add: not_deleted_def filter_map comp_def)

lemma merged_bodies:
  "map vr_body (merge_rows kind key u pend ds (org_rows org rows))
     = filter (\<lambda>x. tag_of kind (key x) \<notin> set (deleted_tags ds)) (fold (upsert_by key) pend (bodies org rows))"
proof -
  have "map vr_body (map live_row (org_rows org rows)) = bodies org rows"
    by (simp add: live_row_def bodies_def)
  then show ?thesis
    unfolding merge_rows_def bodies_not_deleted overlay_def fold_overlay by simp
qed

text \<open>The singular kinds hold no colon, so a tag determines its kind and its key.\<close>

lemma colon_split:
  "CHR '':'' \<notin> set a \<Longrightarrow> CHR '':'' \<notin> set b \<Longrightarrow> a @ CHR '':'' # x = b @ CHR '':'' # y \<longleftrightarrow> a = b \<and> x = y"
proof (induction a arbitrary: b)
  case Nil
  then show ?case by (cases b) auto
next
  case (Cons c a)
  then show ?case by (cases b) auto
qed

lemma kinds_no_colon: "k \<in> snd ` set change_kinds \<Longrightarrow> CHR '':'' \<notin> set k"
  by (auto simp: change_kinds_def)

lemma tag_deleted_iff:
  assumes "kind \<in> snd ` set change_kinds" and "\<forall>d \<in> set ds. dd_kind d \<in> snd ` set change_kinds"
  shows "tag_of kind k \<in> set (deleted_tags ds) \<longleftrightarrow> (\<exists>d \<in> set ds. dd_kind d = kind \<and> dd_key d = k)"
proof -
  have "tag_of kind k = tag_of (dd_kind d) (dd_key d) \<longleftrightarrow> dd_kind d = kind \<and> dd_key d = k" if "d \<in> set ds" for d
  proof -
    have "CHR '':'' \<notin> set kind" and "CHR '':'' \<notin> set (dd_kind d)"
      using assms that by (simp_all add: kinds_no_colon)
    from colon_split [OF this, of k "dd_key d"] show ?thesis by (auto simp: tag_of_def)
  qed
  then show ?thesis by (auto simp: deleted_tags_def image_iff)
qed

section \<open>What an approval writes\<close>

lemma apply_delete_frame [simp]:
  "ks_assistants (apply_delete org d st) = ks_assistants st"
  "ks_drafts (apply_delete org d st) = ks_drafts st"
  "ks_materials (apply_delete org d st) = ks_materials st"
  "ks_requests (apply_delete org d st) = ks_requests st"
  "ks_audit (apply_delete org d st) = ks_audit st"
  by (simp_all add: apply_delete_def)

lemma apply_deletes_frame [simp]:
  "ks_assistants (fold (apply_delete org) ds st) = ks_assistants st"
  "ks_drafts (fold (apply_delete org) ds st) = ks_drafts st"
  "ks_materials (fold (apply_delete org) ds st) = ks_materials st"
  "ks_requests (fold (apply_delete org) ds st) = ks_requests st"
  "ks_audit (fold (apply_delete org) ds st) = ks_audit st"
  by (induction ds arbitrary: st) simp_all

definition written_rows ::
  "('a \<Rightarrow> 'k) \<Rightarrow> ('a \<Rightarrow> 'a) \<Rightarrow> uuid \<Rightarrow> gotime \<Rightarrow> 'a list \<Rightarrow> 'a kb_row list \<Rightarrow> 'a kb_row list" where
  "written_rows key norm org now xs rows = fold (\<lambda>x. upsert_row key org now (norm x)) xs rows"

definition configured :: "uuid \<Rightarrow> gotime \<Rightarrow> draft_config \<Rightarrow> bool \<Rightarrow> kb_store \<Rightarrow> kb_store" where
  "configured org now c pend st = (if pend then upsert_config_row org now c st else st)"

lemma materialize_eq:
  assumes "materialize org now c a st = Inr st'"
  shows "st' = fold (apply_delete org) (as_deletes a) (configured org now c (as_config a)
    (st\<lparr>ks_topics := written_rows dt_slug (\<lambda>x. x) org now (as_topics a) (ks_topics st),
        ks_tariffs := written_rows da_ref stored_tariff org now (as_tariffs a) (ks_tariffs st),
        ks_products := written_rows dp_ref stored_product org now (as_products a) (ks_products st),
        ks_contacts := written_rows singleton_key (\<lambda>x. x) org now (as_contacts a) (ks_contacts st),
        ks_policies := written_rows singleton_key (\<lambda>x. x) org now (as_policies a) (ks_policies st),
        ks_tariff_info := written_rows singleton_key (\<lambda>x. x) org now (as_tariff_info a) (ks_tariff_info st),
        ks_zones := written_rows dn_ref stored_zone org now (as_zones a) (ks_zones st),
        ks_specialists := written_rows ds_ref stored_specialist org now (as_specialists a) (ks_specialists st),
        ks_services := written_rows dv_ref stored_service org now (as_services a) (ks_services st)\<rparr>))"
proof -
  from assms obtain s1 s2 s3 s4 s5 s6 s7 s8 s9 where
    w: "foldE (upsert_topic_row org now) (as_topics a) st = Inr s1"
    "foldE (upsert_tariff_row org now) (as_tariffs a) s1 = Inr s2"
    "foldE (upsert_product_row org now) (as_products a) s2 = Inr s3"
    "foldE (upsert_contact_row org now) (as_contacts a) s3 = Inr s4"
    "foldE (upsert_policy_row org now) (as_policies a) s4 = Inr s5"
    "foldE (upsert_tariff_info_row org now) (as_tariff_info a) s5 = Inr s6"
    "foldE (upsert_zone_row org now) (as_zones a) s6 = Inr s7"
    "foldE (upsert_specialist_row org now) (as_specialists a) s7 = Inr s8"
    "foldE (upsert_service_row org now) (as_services a) s8 = Inr s9"
    and st': "st' = fold (apply_delete org) (as_deletes a) (configured org now c (as_config a) s9)"
    unfolding materialize_def configured_def by (auto simp: bindE_Inr)
  note eqs = topics_table.written_all [OF w(1)] tariffs_table.written_all [OF w(2)]
    products_table.written_all [OF w(3)] contacts_table.written_all [OF w(4)]
    policies_table.written_all [OF w(5)] tariff_info_table.written_all [OF w(6)]
    zones_table.written_all [OF w(7)] specialists_table.written_all [OF w(8)]
    services_table.written_all [OF w(9)]
  have "s9 = st\<lparr>ks_topics := written_rows dt_slug (\<lambda>x. x) org now (as_topics a) (ks_topics st),
        ks_tariffs := written_rows da_ref stored_tariff org now (as_tariffs a) (ks_tariffs st),
        ks_products := written_rows dp_ref stored_product org now (as_products a) (ks_products st),
        ks_contacts := written_rows singleton_key (\<lambda>x. x) org now (as_contacts a) (ks_contacts st),
        ks_policies := written_rows singleton_key (\<lambda>x. x) org now (as_policies a) (ks_policies st),
        ks_tariff_info := written_rows singleton_key (\<lambda>x. x) org now (as_tariff_info a) (ks_tariff_info st),
        ks_zones := written_rows dn_ref stored_zone org now (as_zones a) (ks_zones st),
        ks_specialists := written_rows ds_ref stored_specialist org now (as_specialists a) (ks_specialists st),
        ks_services := written_rows dv_ref stored_service org now (as_services a) (ks_services st)\<rparr>"
    by (simp add: eqs written_rows_def)
  with st' show ?thesis by simp
qed

lemma configured_frame [simp]:
  "ks_topics (configured org now c p st) = ks_topics st"
  "ks_tariffs (configured org now c p st) = ks_tariffs st"
  "ks_products (configured org now c p st) = ks_products st"
  "ks_contacts (configured org now c p st) = ks_contacts st"
  "ks_policies (configured org now c p st) = ks_policies st"
  "ks_tariff_info (configured org now c p st) = ks_tariff_info st"
  "ks_zones (configured org now c p st) = ks_zones st"
  "ks_specialists (configured org now c p st) = ks_specialists st"
  "ks_services (configured org now c p st) = ks_services st"
  "ks_drafts (configured org now c p st) = ks_drafts st"
  "ks_materials (configured org now c p st) = ks_materials st"
  "ks_requests (configured org now c p st) = ks_requests st"
  "ks_audit (configured org now c p st) = ks_audit st"
  by (simp_all add: configured_def upsert_config_row_def Let_def)

text \<open>The tables after the writes and the deletes of an approval.\<close>

definition left_rows :: "uuid \<Rightarrow> ('a \<Rightarrow> bool) \<Rightarrow> 'a kb_row list \<Rightarrow> 'a kb_row list" where
  "left_rows org gone rows = filter (\<lambda>r. \<not> (kr_org r = org \<and> gone (kr_body r))) rows"

lemma materialize_tables:
  assumes "materialize org now c a st = Inr st'"
  shows "ks_topics st' = left_rows org (topics_table.marked (as_deletes a))
      (written_rows dt_slug (\<lambda>x. x) org now (as_topics a) (ks_topics st))"
    and "ks_tariffs st' = left_rows org (tariffs_table.marked (as_deletes a))
      (written_rows da_ref stored_tariff org now (as_tariffs a) (ks_tariffs st))"
    and "ks_products st' = left_rows org (products_table.marked (as_deletes a))
      (written_rows dp_ref stored_product org now (as_products a) (ks_products st))"
    and "ks_contacts st' = left_rows org (contacts_table.marked (as_deletes a))
      (written_rows singleton_key (\<lambda>x. x) org now (as_contacts a) (ks_contacts st))"
    and "ks_policies st' = left_rows org (policies_table.marked (as_deletes a))
      (written_rows singleton_key (\<lambda>x. x) org now (as_policies a) (ks_policies st))"
    and "ks_tariff_info st' = left_rows org (tariff_info_table.marked (as_deletes a))
      (written_rows singleton_key (\<lambda>x. x) org now (as_tariff_info a) (ks_tariff_info st))"
    and "ks_zones st' = left_rows org (zones_table.marked (as_deletes a))
      (written_rows dn_ref stored_zone org now (as_zones a) (ks_zones st))"
    and "ks_specialists st' = left_rows org (specialists_table.marked (as_deletes a))
      (written_rows ds_ref stored_specialist org now (as_specialists a) (ks_specialists st))"
    and "ks_services st' = left_rows org (services_table.marked (as_deletes a))
      (written_rows dv_ref stored_service org now (as_services a) (ks_services st))"
    and "ks_assistants st' = ks_assistants (configured org now c (as_config a) st)"
    and "ks_drafts st' = ks_drafts st" and "ks_materials st' = ks_materials st"
    and "ks_requests st' = ks_requests st"
  by (simp_all add: materialize_eq [OF assms] left_rows_def topics_table.deleted_all
      tariffs_table.deleted_all products_table.deleted_all contacts_table.deleted_all
      policies_table.deleted_all tariff_info_table.deleted_all zones_table.deleted_all
      specialists_table.deleted_all services_table.deleted_all)
    (simp add: configured_def upsert_config_row_def Let_def)

lemma persist_frame [simp]:
  "ks_topics (snd (persist_draft org actor now b st)) = ks_topics st"
  "ks_tariffs (snd (persist_draft org actor now b st)) = ks_tariffs st"
  "ks_products (snd (persist_draft org actor now b st)) = ks_products st"
  "ks_contacts (snd (persist_draft org actor now b st)) = ks_contacts st"
  "ks_policies (snd (persist_draft org actor now b st)) = ks_policies st"
  "ks_tariff_info (snd (persist_draft org actor now b st)) = ks_tariff_info st"
  "ks_zones (snd (persist_draft org actor now b st)) = ks_zones st"
  "ks_specialists (snd (persist_draft org actor now b st)) = ks_specialists st"
  "ks_services (snd (persist_draft org actor now b st)) = ks_services st"
  "ks_assistants (snd (persist_draft org actor now b st)) = ks_assistants st"
  "ks_materials (snd (persist_draft org actor now b st)) = ks_materials st"
  "ks_requests (snd (persist_draft org actor now b st)) = ks_requests st"
  "ks_audit (snd (persist_draft org actor now b st)) = ks_audit st"
  by (simp_all add: persist_draft_def split: option.split)

lemma audit_frame [simp]:
  "ks_topics (audit_row org now actor ac note st) = ks_topics st"
  "ks_tariffs (audit_row org now actor ac note st) = ks_tariffs st"
  "ks_products (audit_row org now actor ac note st) = ks_products st"
  "ks_contacts (audit_row org now actor ac note st) = ks_contacts st"
  "ks_policies (audit_row org now actor ac note st) = ks_policies st"
  "ks_tariff_info (audit_row org now actor ac note st) = ks_tariff_info st"
  "ks_zones (audit_row org now actor ac note st) = ks_zones st"
  "ks_specialists (audit_row org now actor ac note st) = ks_specialists st"
  "ks_services (audit_row org now actor ac note st) = ks_services st"
  "ks_assistants (audit_row org now actor ac note st) = ks_assistants st"
  "ks_drafts (audit_row org now actor ac note st) = ks_drafts st"
  "ks_materials (audit_row org now actor ac note st) = ks_materials st"
  "ks_requests (audit_row org now actor ac note st) = ks_requests st"
  by (simp_all add: audit_row_def)

text \<open>A successful approval did nothing, or it passed the gate and committed its writes.\<close>

definition approved_store ::
  "uuid \<Rightarrow> uuid \<Rightarrow> approve_selector \<Rightarrow> gotime \<Rightarrow> draft_blob \<Rightarrow> kb_store \<Rightarrow> kb_store" where
  "approved_store org actor sel now b st1 =
     snd (persist_draft org actor now (clear_approved sel (select_approved b sel) b)
       (audit_row org now (null_if_nil actor) ''approve'' (approve_note sel (select_approved b sel)) st1))"

lemma foldE_other: "(\<And>x s. f x s \<noteq> Inl e) \<Longrightarrow> foldE f xs s \<noteq> Inl e"
  by (induction xs arbitrary: s) (auto simp: bindE_Inl)

lemma materialize_error: "materialize org now c a st = Inl e \<Longrightarrow> e = DbConstraint"
proof (rule ccontr)
  assume "materialize org now c a st = Inl e" and ne: "e \<noteq> DbConstraint"
  moreover have "foldE (upsert_topic_row org now) xs s \<noteq> Inl e" "foldE (upsert_tariff_row org now) ts s \<noteq> Inl e"
    "foldE (upsert_product_row org now) ps s \<noteq> Inl e" "foldE (upsert_contact_row org now) cs s \<noteq> Inl e"
    "foldE (upsert_policy_row org now) ls s \<noteq> Inl e" "foldE (upsert_tariff_info_row org now) is s \<noteq> Inl e"
    "foldE (upsert_zone_row org now) zs s \<noteq> Inl e" "foldE (upsert_specialist_row org now) ss s \<noteq> Inl e"
    "foldE (upsert_service_row org now) vs s \<noteq> Inl e" for xs ts ps cs ls "is" zs ss vs s
    using ne by (auto intro!: foldE_other simp: row_writes split: if_splits)
  ultimately show False by (simp add: materialize_def bindE_Inl)
qed

lemma approve_cases:
  assumes ok: "approve_versioned org sel expected actor now st = Inr st'"
  obtains (nothing) "st' = st" and "ap_kind sel \<noteq> ''''"
  | (written) b v st1 where "lock_draft st org = (b, v)"
      and "approve_reasons st org sel (select_approved b sel) = []"
      and "materialize org now (bl_config b) (select_approved b sel) st = Inr st1"
      and "st' = approved_store org actor sel now b st1"
proof -
  obtain b v where l: "lock_draft st org = (b, v)" by (cases "lock_draft st org")
  let ?a = "select_approved b sel"
  show thesis
  proof (cases "approve_set_empty ?a \<and> ap_kind sel \<noteq> ''''")
    case True
    then have "st' = st" using ok
      by (auto simp: approve_versioned_def write_draft_versioned_def l approve_mutation_def split: if_splits)
    then show thesis by (rule nothing) (use True in blast)
  next
    case False
    then have m: "approve_mutation org actor sel now b st =
        (if length (approve_reasons st org sel ?a) > 0 then Inl (GateFailed (approve_reasons st org sel ?a))
         else bindE (materialize org now (bl_config b) ?a st) (\<lambda>s. Inr ((), clear_approved sel ?a b,
           audit_row org now (null_if_nil actor) ''approve'' (approve_note sel ?a) s)))"
      by (auto simp: approve_mutation_def Let_def)
    have "approve_reasons st org sel ?a = [] \<and> (\<exists>s. materialize org now (bl_config b) ?a st = Inr s
        \<and> st' = approved_store org actor sel now b s)"
    proof (cases "materialize org now (bl_config b) ?a st")
      case (Inl e)
      with materialize_error [OF Inl] ok show ?thesis
        by (auto simp: approve_versioned_def write_draft_versioned_def l m split: if_splits)
    next
      case (Inr s)
      with ok show ?thesis
        by (auto simp: approve_versioned_def write_draft_versioned_def l m approved_store_def
            split: if_splits prod.splits)
    qed
    with l show thesis by (auto intro: written)
  qed
qed

section \<open>Preview and publication\<close>

lemma read_of_lock: "lock_draft st org = (b, v) \<Longrightarrow> \<exists>u. read_draft st org = (b, v, u)"
  by (auto simp: lock_draft_def read_draft_def split: option.splits)

lemma read_after_persist:
  "read_draft (snd (persist_draft org actor now b st)) org
     = (b, (case find_by dr_org org (ks_drafts st) of None \<Rightarrow> 1 | Some r \<Rightarrow> dr_version r + 1), db_time now)"
proof (cases "find_by dr_org org (ks_drafts st)")
  case None
  then show ?thesis by (simp add: persist_draft_def read_draft_def find_by_append) (simp add: find_by_def)
next
  case (Some r)
  have "keyed_update dr_org (bump_draft actor now b)" by unfold_locales (simp add: bump_draft_def)
  from keyed_update.lookup_after [OF this, of org "\<lambda>r. dr_org r = org" "ks_drafts st"] Some find_by_Some [OF Some]
  show ?thesis by (simp add: persist_draft_def read_draft_def bump_draft_def)
qed

lemma singleton_le_1: "unique_rows singleton_key rows \<Longrightarrow> length (bodies org rows) \<le> 1"
proof -
  assume "unique_rows singleton_key rows"
  then have "distinct (map singleton_key (bodies org rows))" by (rule distinct_bodies)
  then show ?thesis
    by (cases "bodies org rows"; cases "tl (bodies org rows)") (auto simp: singleton_key_def)
qed

lemma find_singleton: "find_by singleton_key () xs = (case xs of [] \<Rightarrow> None | x # ys \<Rightarrow> Some x)"
  by (cases xs) (simp_all add: find_by_def singleton_key_def)

lemma fold_upsert_singleton:
  "length xs \<le> 1 \<Longrightarrow> length ys \<le> 1 \<Longrightarrow> fold (upsert_by singleton_key) xs ys = (case xs of [] \<Rightarrow> ys | x # xs' \<Rightarrow> [x])"
  by (cases xs; cases ys) (auto simp: singleton_key_def)

lemma merged_singleton_bodies:
  "map vr_body (merge_singleton kind u pend b rows)
     = (if deleted_singleton b kind then []
        else case pend of [] \<Rightarrow> map vr_body rows | p # ps \<Rightarrow> p # tl (map vr_body rows))"
  by (auto simp: merge_singleton_def pending_row_def split: list.split)

text \<open>One law for a keyed table and one for a singleton: what is left after an approval is the preview.\<close>

lemma keyed_preview:
  assumes left: "bodies org (left_rows org gone (written_rows key norm org now xs rows))
      = map norm (filter (\<lambda>x. \<not> gone x) (fold (upsert_by key) xs (bodies org rows)))"
    and gone: "\<And>x. gone x \<longleftrightarrow> (\<exists>d \<in> set ds. dd_kind d = kind \<and> dd_key d = key x)"
    and kinds: "kind \<in> snd ` set change_kinds" "\<forall>d \<in> set ds. dd_kind d \<in> snd ` set change_kinds"
  shows "bodies org (left_rows org gone (written_rows key norm org now xs rows))
      = map norm (map vr_body (merge_rows kind key u xs ds (org_rows org rows)))"
  unfolding left merged_bodies by (simp add: gone tag_deleted_iff [OF kinds])

lemma map_stored_preview:
  assumes "\<And>x. key (norm x) = key x" and "map norm (bodies org rows) = bodies org rows"
    and "\<And>x. norm (norm x) = norm x"
  shows "map vr_body (merge_rows kind key u (map norm xs) ds (org_rows org rows))
      = map norm (map vr_body (merge_rows kind key u xs ds (org_rows org rows)))"
proof -
  have "fold (upsert_by key) (map norm xs) (bodies org rows) = map norm (fold (upsert_by key) xs (bodies org rows))"
    using fold_upsert_norm [where key = key and norm = norm and xs = xs, OF assms(1,2)]
    by (simp add: fold_map comp_def)
  then show ?thesis unfolding merged_bodies by (simp add: filter_map comp_def assms(1))
qed

lemma singleton_preview:
  assumes left: "bodies org (left_rows org gone (written_rows singleton_key (\<lambda>x. x) org now xs rows))
      = map (\<lambda>x. x) (filter (\<lambda>x. \<not> gone x) (fold (upsert_by singleton_key) xs (bodies org rows)))"
    and gone: "\<And>x. gone x \<longleftrightarrow> (\<exists>d \<in> set (bl_deletes b). dd_kind d = kind \<and> () = singleton_key x)"
    and small: "length xs \<le> 1" "unique_rows singleton_key rows"
    and live: "map vr_body vs = bodies org rows"
  shows "bodies org (left_rows org gone (written_rows singleton_key (\<lambda>x. x) org now xs rows))
      = map vr_body (merge_singleton kind u xs b vs)"
proof -
  have g: "gone x \<longleftrightarrow> deleted_singleton b kind" for x by (simp add: gone deleted_singleton_def list_ex_iff)
  have "tl (bodies org rows) = []" using singleton_le_1 [OF small(2), where org = org] by (cases "bodies org rows") auto
  then show ?thesis
    unfolding left merged_singleton_bodies live
    using fold_upsert_singleton [OF small(1) singleton_le_1 [OF small(2), where org = org]]
    by (simp add: g split: list.split)
qed

lemma live_rows_bodies: "map vr_body (map live_row (org_rows org rows)) = bodies org rows"
  by (simp add: live_row_def bodies_def)

lemma tariff_info_rows:
  assumes "unique_rows singleton_key rows"
  shows "map vr_body (case row_at singleton_key org () rows of None \<Rightarrow> []
      | Some ti \<Rightarrow> [\<lparr>vr_body = ti, vr_draft = False, vr_updated = u\<rparr>]) = bodies org rows"
  using singleton_le_1 [OF assms, where org = org]
  by (cases "bodies org rows") (auto simp: row_at_bodies [OF assms] find_singleton)

lemma live_content:
  assumes "unique_rows singleton_key (ks_tariff_info st)"
  shows "view_content (live_view st org) =
    \<lparr>ko_assistant = coalesce (row_at singleton_key org () (ks_assistants st)) default_assistant,
     ko_topics = bodies org (ks_topics st), ko_tariffs = map stored_tariff (bodies org (ks_tariffs st)),
     ko_products = map stored_product (bodies org (ks_products st)), ko_contacts = bodies org (ks_contacts st),
     ko_policies = bodies org (ks_policies st), ko_tariff_info = bodies org (ks_tariff_info st),
     ko_zones = bodies org (ks_zones st), ko_specialists = bodies org (ks_specialists st),
     ko_services = bodies org (ks_services st)\<rparr>"
  using tariff_info_rows [OF assms, where org = org and u = zero_time]
  by (simp add: view_content_def live_view_def merged_view_def Let_def empty_blob_def merged_bodies
      deleted_tags_def merged_singleton_bodies deleted_singleton_def live_rows_bodies overlay_config_def
      no_config_def patch_assistant_def coalesce_def split: option.split del: map_map)

lemma stored_bodies: "stored_rows norm rows \<Longrightarrow> map norm (bodies org rows) = bodies org rows"
  by (rule map_idI) (auto simp: stored_rows_def set_bodies)

lemma no_norm: "map (\<lambda>x. x) xs = xs" by simp

lemma stored_again [simp]:
  "stored_tariff (stored_tariff t) = stored_tariff t" "stored_product (stored_product p) = stored_product p"
  "da_ref (stored_tariff t) = da_ref t" "dp_ref (stored_product p) = dp_ref p" "dn_ref (stored_zone z) = dn_ref z"
  "ds_ref (stored_specialist s) = ds_ref s" "dv_ref (stored_service v) = dv_ref v"
  "stored_zone (stored_zone z) = stored_zone z" "stored_specialist (stored_specialist s) = stored_specialist s"
  "stored_service (stored_service v) = stored_service v"
  by (simp_all add: stored_defs)

lemma config_after:
  assumes "unique_rows singleton_key (ks_assistants st)" and "rows_until now (ks_assistants st)"
  shows "coalesce (row_at singleton_key org () (ks_assistants (configured org now c (has_pending c) st))) default_assistant
     = patch_assistant c (coalesce (row_at singleton_key org () (ks_assistants st)) default_assistant)"
proof (cases "has_pending c")
  case False
  then show ?thesis by (simp add: configured_def has_pending_def patch_assistant_def coalesce_def)
next
  case True
  let ?x = "patch_assistant c (coalesce (row_at singleton_key org () (ks_assistants st)) default_assistant)"
  have "row_at singleton_key org () (upsert_row singleton_key org now ?x (ks_assistants st)) = Some ?x"
    unfolding row_at_bodies [OF unique_upsert_row [OF assms(1)]] bodies_upsert_row [OF assms]
    by (cases "bodies org (ks_assistants st)") (simp_all add: find_singleton singleton_key_def)
  with True show ?thesis by (simp add: configured_def upsert_config_row_def coalesce_def Let_def)
qed

definition preview_holds :: "uuid \<Rightarrow> kb_store \<Rightarrow> draft_blob \<Rightarrow> gotime \<Rightarrow> kb_store \<Rightarrow> bool" where
  "preview_holds org st b u st1 \<longleftrightarrow>
     bodies org (ks_topics st1) = map vr_body (merge_rows ''topic'' dt_slug u (bl_topics b) (bl_deletes b) (org_rows org (ks_topics st)))
     \<and> bodies org (ks_tariffs st1) = map stored_tariff (map vr_body (merge_rows ''tariff'' da_ref u (bl_tariffs b) (bl_deletes b) (org_rows org (ks_tariffs st))))
     \<and> bodies org (ks_products st1) = map stored_product (map vr_body (merge_rows ''product'' dp_ref u (bl_products b) (bl_deletes b) (org_rows org (ks_products st))))
     \<and> bodies org (ks_zones st1) = map stored_zone (map vr_body (merge_rows ''delivery_zone'' dn_ref u (bl_zones b) (bl_deletes b) (org_rows org (ks_zones st))))
     \<and> bodies org (ks_specialists st1) = map stored_specialist (map vr_body (merge_rows ''specialist'' ds_ref u (bl_specialists b) (bl_deletes b) (org_rows org (ks_specialists st))))
     \<and> bodies org (ks_services st1) = map stored_service (map vr_body (merge_rows ''service'' dv_ref u (bl_services b) (bl_deletes b) (org_rows org (ks_services st))))"

lemma kind_members:
  "''topic'' \<in> snd ` set change_kinds" "''tariff'' \<in> snd ` set change_kinds" "''product'' \<in> snd ` set change_kinds"
  "''delivery_zone'' \<in> snd ` set change_kinds" "''specialist'' \<in> snd ` set change_kinds"
  "''service'' \<in> snd ` set change_kinds"
  by (simp_all add: change_kinds_def)

lemma published_keyed:
  assumes m: "materialize org now c (whole_draft b) st = Inr st1"
    and wf: "tables_wf st" and t: "kb_until now st" and bw: "blob_wf b"
  shows "preview_holds org st b u st1"
proof -
  note M = materialize_tables [OF m, unfolded whole_draft_def approve_set.simps]
  have ds: "\<forall>d \<in> set (bl_deletes b). dd_kind d \<in> snd ` set change_kinds" using bw by (simp add: blob_wf_def)
  note W = wf [unfolded tables_wf_def] and T = t [unfolded kb_until_def]
  have S: "map stored_tariff (bodies org (ks_tariffs st)) = bodies org (ks_tariffs st)"
    "map stored_product (bodies org (ks_products st)) = bodies org (ks_products st)"
    "map stored_zone (bodies org (ks_zones st)) = bodies org (ks_zones st)"
    "map stored_specialist (bodies org (ks_specialists st)) = bodies org (ks_specialists st)"
    "map stored_service (bodies org (ks_services st)) = bodies org (ks_services st)"
    using W by (simp_all add: stored_bodies)
  note A = topics_table.approved_bodies [folded left_rows_def written_rows_def]
    tariffs_table.approved_bodies [folded left_rows_def written_rows_def]
    products_table.approved_bodies [folded left_rows_def written_rows_def]
    zones_table.approved_bodies [folded left_rows_def written_rows_def]
    specialists_table.approved_bodies [folded left_rows_def written_rows_def]
    services_table.approved_bodies [folded left_rows_def written_rows_def]
  have "bodies org (ks_topics st1) = map (\<lambda>x. x) (map vr_body (merge_rows ''topic'' dt_slug u (bl_topics b) (bl_deletes b) (org_rows org (ks_topics st))))"
    unfolding M by (rule keyed_preview [OF A(1) _ kind_members(1) ds]) (use W T in \<open>simp_all add: topics_table.marked_def\<close>)
  moreover have "bodies org (ks_tariffs st1) = map stored_tariff (map vr_body (merge_rows ''tariff'' da_ref u (bl_tariffs b) (bl_deletes b) (org_rows org (ks_tariffs st))))"
    unfolding M by (rule keyed_preview [OF A(2) _ kind_members(2) ds]) (use W T S in \<open>simp_all add: tariffs_table.marked_def\<close>)
  moreover have "bodies org (ks_products st1) = map stored_product (map vr_body (merge_rows ''product'' dp_ref u (bl_products b) (bl_deletes b) (org_rows org (ks_products st))))"
    unfolding M by (rule keyed_preview [OF A(3) _ kind_members(3) ds]) (use W T S in \<open>simp_all add: products_table.marked_def\<close>)
  moreover have "bodies org (ks_zones st1) = map stored_zone (map vr_body (merge_rows ''delivery_zone'' dn_ref u (bl_zones b) (bl_deletes b) (org_rows org (ks_zones st))))"
    unfolding M by (rule keyed_preview [OF A(4) _ kind_members(4) ds]) (use W T S in \<open>simp_all add: zones_table.marked_def\<close>)
  moreover have "bodies org (ks_specialists st1) = map stored_specialist (map vr_body (merge_rows ''specialist'' ds_ref u (bl_specialists b) (bl_deletes b) (org_rows org (ks_specialists st))))"
    unfolding M by (rule keyed_preview [OF A(5) _ kind_members(5) ds]) (use W T S in \<open>simp_all add: specialists_table.marked_def\<close>)
  moreover have "bodies org (ks_services st1) = map stored_service (map vr_body (merge_rows ''service'' dv_ref u (bl_services b) (bl_deletes b) (org_rows org (ks_services st))))"
    unfolding M by (rule keyed_preview [OF A(6) _ kind_members(6) ds]) (use W T S in \<open>simp_all add: services_table.marked_def\<close>)
  ultimately show ?thesis by (simp add: preview_holds_def)
qed

lemma blob_wf_empty: "blob_wf empty_blob"
  by (simp add: blob_wf_def empty_blob_def)

lemma locked_wf: "drafts_wf st \<Longrightarrow> lock_draft st org = (b, v) \<Longrightarrow> blob_wf b"
  by (auto simp: lock_draft_def drafts_wf_def blob_wf_empty split: option.splits dest: find_by_Some)

lemma unique_written: "unique_rows key rows \<Longrightarrow> unique_rows key (written_rows key norm org now xs rows)"
  unfolding written_rows_def by (induction xs arbitrary: rows) (simp_all add: unique_upsert_row)

lemma unique_left: "unique_rows key rows \<Longrightarrow> unique_rows key (left_rows org gone rows)"
  by (simp add: unique_rows_def left_rows_def distinct_map_filter)

lemma published_singletons:
  assumes m: "materialize org now c (whole_draft b) st = Inr st1"
    and wf: "tables_wf st" and t: "kb_until now st" and bw: "blob_wf b"
  shows "bodies org (ks_contacts st1) = map vr_body (merge_singleton ''contact'' u (bl_contacts b) b
      (map live_row (org_rows org (ks_contacts st))))"
    and "bodies org (ks_policies st1) = map vr_body (merge_singleton ''policy'' u (bl_policies b) b
      (map live_row (org_rows org (ks_policies st))))"
    and "bodies org (ks_tariff_info st1) = map vr_body (merge_singleton ''tariff_info'' u (bl_tariff_info b) b
      (case row_at singleton_key org () (ks_tariff_info st) of None \<Rightarrow> []
       | Some ti \<Rightarrow> [\<lparr>vr_body = ti, vr_draft = False, vr_updated = zero_time\<rparr>]))"
proof -
  note M = materialize_tables [OF m, unfolded whole_draft_def approve_set.simps]
  note W = wf [unfolded tables_wf_def] and T = t [unfolded kb_until_def] and B = bw [unfolded blob_wf_def]
  note A = contacts_table.approved_bodies [folded left_rows_def written_rows_def]
    policies_table.approved_bodies [folded left_rows_def written_rows_def]
    tariff_info_table.approved_bodies [folded left_rows_def written_rows_def]
  show "bodies org (ks_contacts st1) = map vr_body (merge_singleton ''contact'' u (bl_contacts b) b
      (map live_row (org_rows org (ks_contacts st))))"
    unfolding M by (rule singleton_preview [OF A(1)])
      (use W T B in \<open>simp_all add: contacts_table.marked_def live_rows_bodies del: map_map\<close>)
  show "bodies org (ks_policies st1) = map vr_body (merge_singleton ''policy'' u (bl_policies b) b
      (map live_row (org_rows org (ks_policies st))))"
    unfolding M by (rule singleton_preview [OF A(2)])
      (use W T B in \<open>simp_all add: policies_table.marked_def live_rows_bodies del: map_map\<close>)
  show "bodies org (ks_tariff_info st1) = map vr_body (merge_singleton ''tariff_info'' u (bl_tariff_info b) b
      (case row_at singleton_key org () (ks_tariff_info st) of None \<Rightarrow> []
       | Some ti \<Rightarrow> [\<lparr>vr_body = ti, vr_draft = False, vr_updated = zero_time\<rparr>]))"
    unfolding M by (rule singleton_preview [OF A(3)])
      (use W T B tariff_info_rows [where rows = "ks_tariff_info st"] in \<open>simp_all add: tariff_info_table.marked_def\<close>)
qed

lemma draft_content:
  assumes r: "read_draft st org = (b, v, u)" and wf: "tables_wf st" and m: "preview_holds org st b u st1"
  shows "view_content (draft_view_of st org) =
    \<lparr>ko_assistant = patch_assistant (bl_config b) (coalesce (row_at singleton_key org () (ks_assistants st)) default_assistant),
     ko_topics = bodies org (ks_topics st1), ko_tariffs = bodies org (ks_tariffs st1),
     ko_products = bodies org (ks_products st1),
     ko_contacts = map vr_body (merge_singleton ''contact'' u (bl_contacts b) b (map live_row (org_rows org (ks_contacts st)))),
     ko_policies = map vr_body (merge_singleton ''policy'' u (bl_policies b) b (map live_row (org_rows org (ks_policies st)))),
     ko_tariff_info = map vr_body (merge_singleton ''tariff_info'' u (bl_tariff_info b) b
       (case row_at singleton_key org () (ks_tariff_info st) of None \<Rightarrow> []
        | Some ti \<Rightarrow> [\<lparr>vr_body = ti, vr_draft = False, vr_updated = zero_time\<rparr>])),
     ko_zones = bodies org (ks_zones st1), ko_specialists = bodies org (ks_specialists st1),
     ko_services = bodies org (ks_services st1)\<rparr>"
proof -
  have S: "map stored_zone (bodies org (ks_zones st)) = bodies org (ks_zones st)"
    "map stored_specialist (bodies org (ks_specialists st)) = bodies org (ks_specialists st)"
    "map stored_service (bodies org (ks_services st)) = bodies org (ks_services st)"
    using wf by (simp_all add: tables_wf_def stored_bodies)
  note P = map_stored_preview [where key = dn_ref and norm = stored_zone, OF _ S(1)]
    map_stored_preview [where key = ds_ref and norm = stored_specialist, OF _ S(2)]
    map_stored_preview [where key = dv_ref and norm = stored_service, OF _ S(3)]
  show ?thesis
    using m by (simp add: view_content_def draft_view_of_def r merged_view_def Let_def overlay_config_def
        preview_holds_def P del: map_map)
qed

text \<open>
  C4: Publishing the whole draft makes live exactly what the preview showed. If the approval of
  everything pending succeeds, the live view afterwards has the content of the Draft view before it,
  entry for entry and in the same order: the assistant's configuration, every entity and singleton with
  pending edits, additions and deletes applied, up to the defaults the columns supply. And the draft is
  empty: nothing pending was lost or left behind.
\<close>

theorem publish_is_preview:
  assumes ok: "approve_versioned org \<lparr>ap_kind = '''', ap_key = k\<rparr> expected actor now st = Inr st'"
    and wf: "kb_wf st" and t: "kb_until now st"
  shows "view_content (live_view st' org) = view_content (draft_view_of st org)
     \<and> fst (read_draft st' org) = empty_blob"
  using ok
proof (cases rule: approve_cases)
  case (written b v st1)
  have m: "materialize org now (bl_config b) (whole_draft b) st = Inr st1"
    using written(3) by (simp add: select_approved_def)
  have T: "tables_wf st" and D: "drafts_wf st" using wf by (simp_all add: kb_wf_def)
  have bw: "blob_wf b" by (rule locked_wf [OF D written(1)])
  obtain u where r: "read_draft st org = (b, v, u)" using read_of_lock [OF written(1)] by blast
  note keyed = published_keyed [OF m T t bw] and single = published_singletons [OF m T t bw]
  have S: "map stored_tariff (bodies org (ks_tariffs st1)) = bodies org (ks_tariffs st1)"
    "map stored_product (bodies org (ks_products st1)) = bodies org (ks_products st1)"
    using keyed [of u] by (simp_all add: preview_holds_def comp_def)
  have A: "ks_assistants st1 = ks_assistants (configured org now (bl_config b) (has_pending (bl_config b)) st)"
    using materialize_tables(10) [OF m] by (simp add: whole_draft_def)
  have "unique_rows singleton_key (ks_tariff_info st1)"
    using T by (simp add: materialize_tables(6) [OF m] unique_left unique_written tables_wf_def)
  with live_content [of st' org] show ?thesis
    using written(4) config_after [of st now org "bl_config b"] T t single S A
    by (simp add: approved_store_def select_approved_def draft_content [OF r T keyed] tables_wf_def kb_until_def
        read_after_persist clear_approved_def)
qed simp


lemma demo_staged_wf: "kb_wf (projr demo_staged) \<and> kb_until demo_time (projr demo_staged)"
  by code_simp

lemma publish_is_preview_witness:
  "view_content (live_view (projr demo_live) 1) = view_content (draft_view_of (projr demo_staged) 1)
     \<and> fst (read_draft (projr demo_live) 1) = empty_blob
     \<and> ko_topics (view_content (live_view (projr demo_live) 1)) \<noteq> []"
proof -
  have "approve_versioned 1 \<lparr>ap_kind = '''', ap_key = ''''\<rparr> (Some 1) 2 demo_time (projr demo_staged) = Inr (projr demo_live)"
    using demo_runs(2) by (simp only: demo_live_def all_changes_def)
  moreover have "ko_topics (view_content (live_view (projr demo_live) 1)) \<noteq> []" by code_simp
  ultimately show ?thesis using publish_is_preview [of 1 "''''"] demo_staged_wf by blast
qed

end
