(* ===== verification/Kb_Invariant.thy ===== *)
theory Kb_Invariant
  imports Kb_Publish Kb_Mcp
begin

text \<open>
  The operations of the knowledge base as relations, and what every one of them keeps: the store stays
  well-formed (one row per organization and key in every table, columns with their defaults, one draft per
  organization with at most one pending entry per entity and known delete markers), other organizations'
  rows stay as they are, and a write of the draft persists it over an otherwise equal set of drafts.
\<close>

section \<open>Tables\<close>

lemma stored_upsert_row:
  "stored_rows norm rows \<Longrightarrow> norm (norm x) = norm x \<Longrightarrow> stored_rows norm (upsert_row key org now (norm x) rows)"
  by (auto simp: stored_rows_def upsert_row_def new_row_def rewrite_row_def set_update_where)

lemma stored_left: "stored_rows norm rows \<Longrightarrow> stored_rows norm (left_rows org gone rows)"
  by (auto simp: stored_rows_def left_rows_def)

lemma stored_delete_row: "stored_rows norm rows \<Longrightarrow> stored_rows norm (delete_row key org k rows)"
  by (auto simp: stored_rows_def delete_row_def)

lemma stored_written:
  "stored_rows norm rows \<Longrightarrow> (\<And>x. norm (norm x) = norm x) \<Longrightarrow> stored_rows norm (written_rows key norm org now xs rows)"
  unfolding written_rows_def by (induction xs arbitrary: rows) (simp_all add: stored_upsert_row)

lemmas row_wf = unique_upsert_row unique_delete_row unique_left unique_written stored_delete_row stored_left
  stored_written stored_upsert_row

lemma upsert_config_wf: "tables_wf st \<Longrightarrow> tables_wf (upsert_config_row org now p st)"
  by (simp add: tables_wf_def upsert_config_row_def Let_def row_wf)

lemma written_wf:
  "tables_wf st \<Longrightarrow> upsert_topic_row org now t st = Inr st' \<Longrightarrow> tables_wf st'"
  "tables_wf st \<Longrightarrow> upsert_tariff_row org now ta st = Inr st' \<Longrightarrow> tables_wf st'"
  "tables_wf st \<Longrightarrow> upsert_product_row org now p st = Inr st' \<Longrightarrow> tables_wf st'"
  "tables_wf st \<Longrightarrow> upsert_contact_row org now c st = Inr st' \<Longrightarrow> tables_wf st'"
  "tables_wf st \<Longrightarrow> upsert_policy_row org now l st = Inr st' \<Longrightarrow> tables_wf st'"
  "tables_wf st \<Longrightarrow> upsert_tariff_info_row org now ti st = Inr st' \<Longrightarrow> tables_wf st'"
  "tables_wf st \<Longrightarrow> upsert_zone_row org now z st = Inr st' \<Longrightarrow> tables_wf st'"
  "tables_wf st \<Longrightarrow> upsert_specialist_row org now s st = Inr st' \<Longrightarrow> tables_wf st'"
  "tables_wf st \<Longrightarrow> upsert_service_row org now v st = Inr st' \<Longrightarrow> tables_wf st'"
  by (auto simp: tables_wf_def row_writes row_wf split: if_splits)

lemma deleted_wf:
  assumes "tables_wf st"
  shows "tables_wf (st\<lparr>ks_topics := delete_row dt_slug org k (ks_topics st)\<rparr>)"
    "tables_wf (st\<lparr>ks_tariffs := delete_row da_ref org k (ks_tariffs st)\<rparr>)"
    "tables_wf (st\<lparr>ks_products := delete_row dp_ref org k (ks_products st)\<rparr>)"
    "tables_wf (st\<lparr>ks_zones := delete_row dn_ref org k (ks_zones st)\<rparr>)"
    "tables_wf (st\<lparr>ks_specialists := delete_row ds_ref org k (ks_specialists st)\<rparr>)"
    "tables_wf (st\<lparr>ks_services := delete_row dv_ref org k (ks_services st)\<rparr>)"
    "tables_wf (st\<lparr>ks_assistants := delete_row singleton_key org () (ks_assistants st)\<rparr>)"
    "tables_wf (st\<lparr>ks_contacts := delete_row singleton_key org () (ks_contacts st)\<rparr>)"
    "tables_wf (st\<lparr>ks_policies := delete_row singleton_key org () (ks_policies st)\<rparr>)"
    "tables_wf (st\<lparr>ks_tariff_info := delete_row singleton_key org () (ks_tariff_info st)\<rparr>)"
  using assms by (simp_all add: tables_wf_def row_wf)

lemma audit_wf [simp]: "tables_wf (audit_row org now actor ac note st) \<longleftrightarrow> tables_wf st"
  by (simp add: tables_wf_def)

lemma audited_wf: "audited org now actor ac note r = Inr st' \<Longrightarrow> (\<And>st. r = Inr st \<Longrightarrow> tables_wf st) \<Longrightarrow> tables_wf st'"
  by (auto simp: audited_def result_simps)

text \<open>A change of one column of the rows that satisfy a condition.\<close>

lemma unique_update_body:
  assumes "unique_rows key rows" and "\<And>x. key (f x) = key x"
  shows "unique_rows key (update_where p (\<lambda>r. rewrite_row now (f (kr_body r)) r) rows)"
proof -
  have "map (row_key key) (update_where p (\<lambda>r. rewrite_row now (f (kr_body r)) r) rows) = map (row_key key) rows"
    by (auto simp: update_where_def rewrite_row_def row_key_def assms(2))
  with assms(1) show ?thesis by (simp add: unique_rows_def)
qed

lemma stored_update_body:
  assumes "stored_rows norm rows" and "\<And>x. norm x = x \<Longrightarrow> norm (f x) = f x"
  shows "stored_rows norm (update_where p (\<lambda>r. rewrite_row now (f (kr_body r)) r) rows)"
  using assms by (auto simp: stored_rows_def set_update_where rewrite_row_def)

lemma stored_service_status: "stored_service v = v \<Longrightarrow> s \<noteq> '''' \<Longrightarrow> stored_service (v\<lparr>dv_sales_status := s\<rparr>) = v\<lparr>dv_sales_status := s\<rparr>"
  by (cases v) (auto simp: stored_service_def or_default_def split: if_splits)

lemma archive_children_wf: "tables_wf st \<Longrightarrow> tables_wf (archive_children org ref now st)"
  unfolding tables_wf_def archive_children_def
  by (auto intro!: unique_update_body stored_update_body stored_service_status)

lemma set_service_status_wf: "tables_wf st \<Longrightarrow> s \<noteq> '''' \<Longrightarrow> tables_wf (set_service_status org ref s now st)"
  unfolding tables_wf_def set_service_status_def
  by (auto intro!: unique_update_body stored_update_body stored_service_status)

lemma set_specialist_status_wf: "tables_wf st \<Longrightarrow> s \<noteq> '''' \<Longrightarrow> tables_wf (set_specialist_status org ref s now st)"
  unfolding tables_wf_def set_specialist_status_def
  by (auto intro!: unique_update_body stored_update_body simp: stored_specialist_def or_default_def)

lemma materialize_wf: "tables_wf st \<Longrightarrow> materialize org now c a st = Inr st' \<Longrightarrow> tables_wf st'"
proof -
  assume wf: "tables_wf st" and m: "materialize org now c a st = Inr st'"
  have "unique_rows singleton_key (ks_assistants (configured org now c (as_config a) st))"
    using wf by (simp add: configured_def tables_wf_def upsert_config_row_def Let_def row_wf)
  with wf show "tables_wf st'" by (simp add: tables_wf_def materialize_tables [OF m] row_wf)
qed

section \<open>The share of one organization, and the rest\<close>

definition share :: "(uuid \<Rightarrow> bool) \<Rightarrow> kb_store \<Rightarrow> kb_store" where
  "share own st =
     \<lparr>ks_assistants = filter (\<lambda>r. own (kr_org r)) (ks_assistants st),
      ks_topics = filter (\<lambda>r. own (kr_org r)) (ks_topics st),
      ks_tariffs = filter (\<lambda>r. own (kr_org r)) (ks_tariffs st),
      ks_products = filter (\<lambda>r. own (kr_org r)) (ks_products st),
      ks_contacts = filter (\<lambda>r. own (kr_org r)) (ks_contacts st),
      ks_policies = filter (\<lambda>r. own (kr_org r)) (ks_policies st),
      ks_tariff_info = filter (\<lambda>r. own (kr_org r)) (ks_tariff_info st),
      ks_zones = filter (\<lambda>r. own (kr_org r)) (ks_zones st),
      ks_specialists = filter (\<lambda>r. own (kr_org r)) (ks_specialists st),
      ks_services = filter (\<lambda>r. own (kr_org r)) (ks_services st),
      ks_drafts = filter (\<lambda>r. own (dr_org r)) (ks_drafts st),
      ks_materials = filter (\<lambda>m. own (mr_org m)) (ks_materials st),
      ks_requests = filter (\<lambda>r. own (rq_org r)) (ks_requests st),
      ks_audit = filter (\<lambda>a. own (au_org a)) (ks_audit st)\<rparr>"

abbreviation tenant :: "uuid \<Rightarrow> kb_store \<Rightarrow> kb_store" where
  "tenant org \<equiv> share (\<lambda>o'. o' = org)"

abbreviation elsewhere :: "uuid \<Rightarrow> kb_store \<Rightarrow> kb_store" where
  "elsewhere org \<equiv> share (\<lambda>o'. o' \<noteq> org)"

lemma tenant_elsewhere: "org' \<noteq> org \<Longrightarrow> tenant org' (elsewhere org st) = tenant org' st"
  by (simp add: share_def filter_filter) (auto intro!: filter_cong)

lemma kb_filter_update_where:
  assumes "\<And>x. p x \<Longrightarrow> \<not> q x \<and> \<not> q (f x)"
  shows "filter q (update_where p f xs) = filter q xs"
  by (induction xs) (use assms in \<open>auto simp: update_where_def\<close>)

lemma others_rewritten:
  assumes "\<And>r. p r \<Longrightarrow> kr_org r = org"
  shows "filter (\<lambda>r. kr_org r \<noteq> org) (update_where p (\<lambda>r. rewrite_row now (f r) r) rows)
    = filter (\<lambda>r. kr_org r \<noteq> org) rows"
  by (rule kb_filter_update_where) (simp add: assms rewrite_row_def)

lemma others_hit:
  "filter (\<lambda>r. kr_org r \<noteq> org) (update_where (row_hit key org k) (\<lambda>r. rewrite_row now (f r) r) rows)
    = filter (\<lambda>r. kr_org r \<noteq> org) rows"
  by (rule others_rewritten) (simp add: row_hit_def)

lemma others_upsert_row [simp]:
  "filter (\<lambda>r. kr_org r \<noteq> org) (upsert_row key org now x rows) = filter (\<lambda>r. kr_org r \<noteq> org) rows"
  by (simp add: upsert_row_def new_row_def others_hit [where f = "\<lambda>r. x"])

lemma others_delete_row [simp]:
  "filter (\<lambda>r. kr_org r \<noteq> org) (delete_row key org k rows) = filter (\<lambda>r. kr_org r \<noteq> org) rows"
  by (auto simp: delete_row_def row_hit_def intro!: filter_cong)

lemma others_left [simp]:
  "filter (\<lambda>r. kr_org r \<noteq> org) (left_rows org gone rows) = filter (\<lambda>r. kr_org r \<noteq> org) rows"
  by (auto simp: left_rows_def intro!: filter_cong)

lemma others_written [simp]:
  "filter (\<lambda>r. kr_org r \<noteq> org) (written_rows key norm org now xs rows) = filter (\<lambda>r. kr_org r \<noteq> org) rows"
  unfolding written_rows_def by (induction xs arbitrary: rows) simp_all

section \<open>Primitive writes\<close>

lemma persist_elsewhere [simp]: "elsewhere org (snd (persist_draft org actor now b st)) = elsewhere org st"
proof -
  have "filter (\<lambda>r. dr_org r \<noteq> org) (ks_drafts (snd (persist_draft org actor now b st)))
      = filter (\<lambda>r. dr_org r \<noteq> org) (ks_drafts st)"
    by (simp add: persist_draft_def kb_filter_update_where bump_draft_def split: option.split)
  then show ?thesis by (simp add: share_def)
qed

lemma audit_elsewhere [simp]: "elsewhere org (audit_row org now actor ac note st) = elsewhere org st"
  by (simp add: share_def audit_row_def)

lemma written_elsewhere:
  "upsert_topic_row org now t st = Inr st' \<Longrightarrow> elsewhere org st' = elsewhere org st"
  "upsert_tariff_row org now ta st = Inr st' \<Longrightarrow> elsewhere org st' = elsewhere org st"
  "upsert_product_row org now p st = Inr st' \<Longrightarrow> elsewhere org st' = elsewhere org st"
  "upsert_contact_row org now c st = Inr st' \<Longrightarrow> elsewhere org st' = elsewhere org st"
  "upsert_policy_row org now l st = Inr st' \<Longrightarrow> elsewhere org st' = elsewhere org st"
  "upsert_tariff_info_row org now ti st = Inr st' \<Longrightarrow> elsewhere org st' = elsewhere org st"
  "upsert_zone_row org now z st = Inr st' \<Longrightarrow> elsewhere org st' = elsewhere org st"
  "upsert_specialist_row org now s st = Inr st' \<Longrightarrow> elsewhere org st' = elsewhere org st"
  "upsert_service_row org now v st = Inr st' \<Longrightarrow> elsewhere org st' = elsewhere org st"
  by (auto simp: share_def row_writes split: if_splits)

lemma config_elsewhere: "elsewhere org (upsert_config_row org now cf st) = elsewhere org st"
  by (simp add: share_def upsert_config_row_def Let_def)

lemma status_elsewhere:
  "elsewhere org (archive_children org ref now st) = elsewhere org st"
  "elsewhere org (set_specialist_status org ref s now st) = elsewhere org st"
  "elsewhere org (set_service_status org ref s now st) = elsewhere org st"
  by (simp_all add: share_def archive_children_def set_specialist_status_def set_service_status_def
      others_hit others_rewritten [where p = "\<lambda>r. kr_org r = org \<and> q r" for q, OF conjunct1])

lemma kb_deleted_elsewhere:
  "elsewhere org (st\<lparr>ks_topics := delete_row dt_slug org k (ks_topics st)\<rparr>) = elsewhere org st"
  "elsewhere org (st\<lparr>ks_tariffs := delete_row da_ref org k (ks_tariffs st)\<rparr>) = elsewhere org st"
  "elsewhere org (st\<lparr>ks_products := delete_row dp_ref org k (ks_products st)\<rparr>) = elsewhere org st"
  "elsewhere org (st\<lparr>ks_zones := delete_row dn_ref org k (ks_zones st)\<rparr>) = elsewhere org st"
  "elsewhere org (st\<lparr>ks_specialists := delete_row ds_ref org k (ks_specialists st)\<rparr>) = elsewhere org st"
  "elsewhere org (st\<lparr>ks_services := delete_row dv_ref org k (ks_services st)\<rparr>) = elsewhere org st"
  "elsewhere org (st\<lparr>ks_assistants := delete_row singleton_key org () (ks_assistants st)\<rparr>) = elsewhere org st"
  "elsewhere org (st\<lparr>ks_contacts := delete_row singleton_key org () (ks_contacts st)\<rparr>) = elsewhere org st"
  "elsewhere org (st\<lparr>ks_policies := delete_row singleton_key org () (ks_policies st)\<rparr>) = elsewhere org st"
  "elsewhere org (st\<lparr>ks_tariff_info := delete_row singleton_key org () (ks_tariff_info st)\<rparr>) = elsewhere org st"
  by (simp_all add: share_def)

lemma materialize_elsewhere:
  assumes "materialize org now c a st = Inr st'"
  shows "elsewhere org st' = elsewhere org st"
proof -
  have "ks_audit st' = ks_audit st" by (simp add: materialize_eq [OF assms])
  moreover have "filter (\<lambda>r. kr_org r \<noteq> org) (ks_assistants (configured org now c (as_config a) st))
      = filter (\<lambda>r. kr_org r \<noteq> org) (ks_assistants st)"
    by (simp add: configured_def upsert_config_row_def Let_def)
  ultimately show ?thesis by (simp add: share_def materialize_tables [OF assms])
qed

section \<open>Drafts\<close>

lemma blob_wf_ops:
  "blob_wf b \<Longrightarrow> blob_wf (upsert_topic t b)" "blob_wf b \<Longrightarrow> blob_wf (remove_topic k b)"
  "blob_wf b \<Longrightarrow> blob_wf (upsert_tariff ta b)" "blob_wf b \<Longrightarrow> blob_wf (remove_tariff k b)"
  "blob_wf b \<Longrightarrow> blob_wf (upsert_product p b)" "blob_wf b \<Longrightarrow> blob_wf (remove_product k b)"
  "blob_wf b \<Longrightarrow> blob_wf (upsert_contact c b)" "blob_wf b \<Longrightarrow> blob_wf (remove_contact b)"
  "blob_wf b \<Longrightarrow> blob_wf (upsert_policy l b)" "blob_wf b \<Longrightarrow> blob_wf (remove_policy b)"
  "blob_wf b \<Longrightarrow> blob_wf (upsert_tariff_info ti b)" "blob_wf b \<Longrightarrow> blob_wf (remove_tariff_info b)"
  "blob_wf b \<Longrightarrow> blob_wf (upsert_zone z b)" "blob_wf b \<Longrightarrow> blob_wf (remove_zone k b)"
  "blob_wf b \<Longrightarrow> blob_wf (upsert_specialist s b)" "blob_wf b \<Longrightarrow> blob_wf (remove_specialist k b)"
  "blob_wf b \<Longrightarrow> blob_wf (upsert_service v b)" "blob_wf b \<Longrightarrow> blob_wf (remove_service k b)"
  "blob_wf b \<Longrightarrow> blob_wf (remove_delete kd k b)" "blob_wf b \<Longrightarrow> blob_wf (remove_delete_matching kd k b)"
  "blob_wf b \<Longrightarrow> blob_wf (b\<lparr>bl_config := cf\<rparr>)"
  by (simp_all add: blob_wf_def distinct_upsert_by distinct_remove_by upsert_topic_def remove_topic_def
      upsert_tariff_def remove_tariff_def upsert_product_def remove_product_def upsert_contact_def
      remove_contact_def upsert_policy_def remove_policy_def upsert_tariff_info_def remove_tariff_info_def
      upsert_zone_def remove_zone_def upsert_specialist_def remove_specialist_def upsert_service_def
      remove_service_def remove_delete_def remove_delete_matching_def)

lemma blob_wf_add_delete: "blob_wf b \<Longrightarrow> kd \<in> snd ` set change_kinds \<Longrightarrow> blob_wf (add_delete kd k b)"
  by (simp add: blob_wf_def add_delete_def marker_def)

lemma persist_drafts_wf:
  assumes d: "drafts_wf st" and b: "blob_wf b"
  shows "drafts_wf (snd (persist_draft org actor now b st))"
proof (cases "find_by dr_org org (ks_drafts st)")
  case None
  then have "org \<notin> dr_org ` set (ks_drafts st)" by (simp add: find_by_None)
  with None d b show ?thesis by (auto simp: drafts_wf_def persist_draft_def)
next
  case (Some r)
  have "keyed_update dr_org (bump_draft actor now b)" by unfold_locales (simp add: bump_draft_def)
  from keyed_update.keys_kept [OF this] Some d b show ?thesis
    by (auto simp: drafts_wf_def persist_draft_def set_update_where bump_draft_def)
qed

lemma persist_tables_wf [simp]: "tables_wf (snd (persist_draft org actor now b st)) \<longleftrightarrow> tables_wf st"
  by (simp add: tables_wf_def)

text \<open>A versioned write succeeds when the expected version is the draft's own, and then it is the mutation
  followed by the write of the new draft.\<close>

lemma write_versioned_Inr:
  "write_draft_versioned org expected actor now mutate st = Inr ((r, v'), st') \<longleftrightarrow>
     (expected = None \<or> expected = Some (snd (lock_draft st org))) \<and>
     (\<exists>b' st1. mutate (fst (lock_draft st org)) st = Inr (r, b', st1) \<and> persist_draft org actor now b' st1 = (v', st'))"
proof (cases "lock_draft st org")
  case (Pair b v)
  show ?thesis
  proof (cases "mutate b st")
    case (Inl e) with Pair show ?thesis by (simp add: write_draft_versioned_def)
  next
    case (Inr x)
    obtain r1 b1 st1 where x: "x = (r1, b1, st1)" by (cases x)
    obtain v2 st2 where "persist_draft org actor now b1 st1 = (v2, st2)" by (cases "persist_draft org actor now b1 st1")
    with Inr Pair x show ?thesis by (cases expected) (auto simp: write_draft_versioned_def)
  qed
qed

section \<open>Steps\<close>

text \<open>A write of the draft: the new draft is persisted over a store that other organizations still own alike.\<close>

definition draft_write :: "uuid \<Rightarrow> kb_store \<Rightarrow> kb_store \<Rightarrow> bool" where
  "draft_write org st st' \<longleftrightarrow> (\<exists>b' st1 actor now. st' = snd (persist_draft org actor now b' st1)
     \<and> ks_drafts st1 = ks_drafts st \<and> elsewhere org st1 = elsewhere org st
     \<and> (blob_wf (fst (lock_draft st org)) \<longrightarrow> blob_wf b') \<and> (tables_wf st \<longrightarrow> tables_wf st1))"

definition live_write :: "uuid \<Rightarrow> kb_store \<Rightarrow> kb_store \<Rightarrow> bool" where
  "live_write org st st' \<longleftrightarrow> ks_drafts st' = ks_drafts st \<and> elsewhere org st' = elsewhere org st
     \<and> (tables_wf st \<longrightarrow> tables_wf st')"

definition draft_step :: "uuid \<Rightarrow> kb_store \<Rightarrow> kb_store \<Rightarrow> bool" where
  "draft_step org st st' \<longleftrightarrow> st' = st \<or> draft_write org st st'"

text \<open>What a mutation owes.\<close>

definition minds :: "uuid \<Rightarrow> 'r mutation \<Rightarrow> kb_store \<Rightarrow> bool" where
  "minds org mutate st \<longleftrightarrow> (\<forall>b r b' st1. mutate b st = Inr (r, b', st1)
     \<longrightarrow> live_write org st st1 \<and> (blob_wf b \<longrightarrow> blob_wf b'))"

lemma live_refl [simp]: "live_write org st st"
  by (simp add: live_write_def)

lemma live_trans: "live_write org s1 s2 \<Longrightarrow> live_write org s2 s3 \<Longrightarrow> live_write org s1 s3"
  by (simp add: live_write_def)

lemma write_versioned_step:
  assumes w: "write_draft_versioned org expected actor now mutate st = Inr (r, st')" and m: "minds org mutate st"
  shows "draft_write org st st'"
proof -
  obtain q v' where r: "r = (q, v')" by (cases r)
  from w [unfolded r write_versioned_Inr] obtain b' st1 where "mutate (fst (lock_draft st org)) st = Inr (q, b', st1)"
    and p: "persist_draft org actor now b' st1 = (v', st')" by blast
  with m have "live_write org st st1" "blob_wf (fst (lock_draft st org)) \<longrightarrow> blob_wf b'"
    unfolding minds_def by blast+
  moreover have "st' = snd (persist_draft org actor now b' st1)" by (simp add: p)
  ultimately show ?thesis unfolding draft_write_def live_write_def by blast
qed

lemma write_draft_Inr:
  "write_draft org actor now mutate st = Inr st' \<Longrightarrow> \<exists>r. write_draft_versioned org None actor now mutate st = Inr (r, st')"
  unfolding write_draft_def bindE_Inr by (metis (no_types, lifting) Inr_inject case_prod_conv surj_pair)

lemma staged_step:
  assumes "write_draft org actor now (blob_only f) st = Inr st'"
    and "\<And>b b'. blob_wf b \<Longrightarrow> f st b = Inr b' \<Longrightarrow> blob_wf b'"
  shows "draft_step org st st'"
proof -
  have "minds org (blob_only f) st" using assms(2) by (auto simp: minds_def blob_only_def result_simps)
  then show ?thesis using write_draft_Inr [OF assms(1)] write_versioned_step unfolding draft_step_def by blast
qed

lemma draft_step_wf:
  assumes "draft_step org st st'" and wf: "kb_wf st"
  shows "kb_wf st'"
proof -
  from wf have t: "tables_wf st" and d: "drafts_wf st" by (simp_all add: kb_wf_def)
  have b: "blob_wf (fst (lock_draft st org))" by (cases "lock_draft st org") (simp add: locked_wf [OF d])
  have "kb_wf st'" if "draft_write org st st'"
  proof -
    from that t b obtain b' st1 actor now where s: "st' = snd (persist_draft org actor now b' st1)"
      and k: "ks_drafts st1 = ks_drafts st" "blob_wf b'" "tables_wf st1" unfolding draft_write_def by blast
    have "drafts_wf st1" using d k(1) by (simp add: drafts_wf_def)
    from persist_drafts_wf [OF this k(2)] k(3) show ?thesis by (simp add: s kb_wf_def)
  qed
  with assms show ?thesis by (auto simp: draft_step_def)
qed

lemma draft_step_elsewhere: "draft_step org st st' \<Longrightarrow> elsewhere org st' = elsewhere org st"
  by (auto simp: draft_step_def draft_write_def)

lemma live_write_wf: "live_write org st st' \<Longrightarrow> kb_wf st \<Longrightarrow> kb_wf st'"
  by (simp add: live_write_def kb_wf_def drafts_wf_def)

section \<open>The Playground\<close>

lemmas blob_ops_wf = blob_wf_ops blob_wf_add_delete

lemma known_kinds:
  "''topic'' \<in> snd ` set change_kinds" "''tariff'' \<in> snd ` set change_kinds" "''product'' \<in> snd ` set change_kinds"
  "''delivery_zone'' \<in> snd ` set change_kinds" "''specialist'' \<in> snd ` set change_kinds"
  "''service'' \<in> snd ` set change_kinds" "''contact'' \<in> snd ` set change_kinds"
  "''policy'' \<in> snd ` set change_kinds" "''tariff_info'' \<in> snd ` set change_kinds"
  by (simp_all add: change_kinds_def)

lemma staged_blobs:
  "blob_wf b \<Longrightarrow> stage_topic org ti st b = Inr b' \<Longrightarrow> blob_wf b'"
  "blob_wf b \<Longrightarrow> stage_tariff org fi st b = Inr b' \<Longrightarrow> blob_wf b'"
  "blob_wf b \<Longrightarrow> stage_product org qi st b = Inr b' \<Longrightarrow> blob_wf b'"
  "blob_wf b \<Longrightarrow> stage_zone org z st b = Inr b' \<Longrightarrow> blob_wf b'"
  "blob_wf b \<Longrightarrow> stage_specialist org si st b = Inr b' \<Longrightarrow> blob_wf b'"
  "blob_wf b \<Longrightarrow> stage_service org v st b = Inr b' \<Longrightarrow> blob_wf b'"
  by (auto simp: stage_topic_def stage_tariff_def stage_product_def stage_zone_def stage_specialist_def
      stage_service_def result_simps Let_def blob_ops_wf split: prod.splits)

text \<open>The Playground stages edits of one organization's draft; its operations as one relation.\<close>

inductive playground :: "uuid \<Rightarrow> kb_store \<Rightarrow> kb_store \<Rightarrow> bool" where
  pg_config: "patch_config org actor p now st = Inr st' \<Longrightarrow> playground org st st'"
| pg_topic: "upsert_topic_draft org actor ti now st = Inr st' \<Longrightarrow> playground org st st'"
| pg_topic_del: "delete_topic_draft org actor k now st = Inr st' \<Longrightarrow> playground org st st'"
| pg_tariff: "upsert_tariff_draft org actor fi now st = Inr st' \<Longrightarrow> playground org st st'"
| pg_tariff_del: "delete_tariff_draft org actor k now st = Inr st' \<Longrightarrow> playground org st st'"
| pg_product: "upsert_product_draft org actor qi now st = Inr st' \<Longrightarrow> playground org st st'"
| pg_product_del: "delete_product_draft org actor k now st = Inr st' \<Longrightarrow> playground org st st'"
| pg_zone: "upsert_zone_draft org actor z now st = Inr st' \<Longrightarrow> playground org st st'"
| pg_zone_del: "delete_zone_draft org actor k now st = Inr st' \<Longrightarrow> playground org st st'"
| pg_specialist: "upsert_specialist_draft org actor si now st = Inr st' \<Longrightarrow> playground org st st'"
| pg_specialist_del: "delete_specialist_draft org actor k now st = Inr st' \<Longrightarrow> playground org st st'"
| pg_service: "upsert_service_draft org actor v now st = Inr st' \<Longrightarrow> playground org st st'"
| pg_service_del: "delete_service_draft org actor k now st = Inr st' \<Longrightarrow> playground org st st'"
| pg_contacts: "patch_contacts org actor cp now st = Inr st' \<Longrightarrow> playground org st st'"
| pg_policies: "patch_policies org actor lp now st = Inr st' \<Longrightarrow> playground org st st'"
| pg_tariff_info: "patch_tariff_info org actor facts now st = Inr st' \<Longrightarrow> playground org st st'"
| pg_field: "set_fact_field org actor table slug field v now st = Inr st' \<Longrightarrow> playground org st st'"
| pg_clear: "clear_draft org actor now st = Inr st' \<Longrightarrow> playground org st st'"
| pg_cancel: "cancel_change org actor kind key expected now st = Inr (res, st') \<Longrightarrow> playground org st st'"

lemma known_field_Inr: "known_field f r = Inr y \<longleftrightarrow> (\<exists>x. r = Some x \<and> y = f x)"
  by (cases r) (auto simp: known_field_def)

lemma staged_drafts:
  "upsert_topic_draft org actor ti now st = Inr st' \<Longrightarrow> draft_step org st st'"
  "upsert_tariff_draft org actor fi now st = Inr st' \<Longrightarrow> draft_step org st st'"
  "upsert_product_draft org actor qi now st = Inr st' \<Longrightarrow> draft_step org st st'"
  "upsert_zone_draft org actor z now st = Inr st' \<Longrightarrow> draft_step org st st'"
  "upsert_specialist_draft org actor si now st = Inr st' \<Longrightarrow> draft_step org st st'"
  "upsert_service_draft org actor v now st = Inr st' \<Longrightarrow> draft_step org st st'"
  unfolding upsert_topic_draft_def upsert_tariff_draft_def upsert_product_draft_def upsert_zone_draft_def
    upsert_specialist_draft_def upsert_service_draft_def
  by (erule staged_step, erule staged_blobs, assumption)+

lemma deleted_drafts:
  "delete_topic_draft org actor k now st = Inr st' \<Longrightarrow> draft_step org st st'"
  "delete_tariff_draft org actor k now st = Inr st' \<Longrightarrow> draft_step org st st'"
  "delete_product_draft org actor k now st = Inr st' \<Longrightarrow> draft_step org st st'"
  "delete_zone_draft org actor k now st = Inr st' \<Longrightarrow> draft_step org st st'"
  "delete_specialist_draft org actor k now st = Inr st' \<Longrightarrow> draft_step org st st'"
  "delete_service_draft org actor k now st = Inr st' \<Longrightarrow> draft_step org st st'"
  unfolding delete_topic_draft_def delete_tariff_draft_def delete_product_draft_def delete_zone_draft_def
    delete_specialist_draft_def delete_service_draft_def
  by (erule staged_step, auto simp: blob_ops_wf known_kinds)+

lemma patched_drafts:
  "patch_config org actor cf now st = Inr st' \<Longrightarrow> draft_step org st st'"
  "patch_contacts org actor cp now st = Inr st' \<Longrightarrow> draft_step org st st'"
  "patch_policies org actor lp now st = Inr st' \<Longrightarrow> draft_step org st st'"
  "patch_tariff_info org actor facts now st = Inr st' \<Longrightarrow> draft_step org st st'"
  "clear_draft org actor now st = Inr st' \<Longrightarrow> draft_step org st st'"
  unfolding patch_config_def patch_contacts_def patch_policies_def patch_tariff_info_def clear_draft_def
  by (erule staged_step, auto simp: result_simps blob_ops_wf blob_wf_empty)+

lemma set_fact_field_step:
  assumes "set_fact_field org actor table slug field v now st = Inr st'"
  shows "draft_step org st st'"
proof -
  have f: "draft_step org st st'"
    if "write_draft org actor now (blob_only (\<lambda>st b. known_field (\<lambda>t. put t b) (g st b))) st = Inr st'"
    and "\<And>b t. blob_wf b \<Longrightarrow> blob_wf (put t b)" for put :: "'a \<Rightarrow> draft_blob \<Rightarrow> draft_blob" and g
    using that(1) by (rule staged_step) (auto simp: known_field_Inr that(2))
  show ?thesis using assms
    by (auto simp: set_fact_field_def blob_ops_wf split: if_splits option.splits elim!: f patched_drafts)
qed

lemma cancel_step:
  assumes "cancel_within_lock org actor expected present app now st = Inr (res, st')"
    and "\<And>b. blob_wf b \<Longrightarrow> blob_wf (app b)"
  shows "draft_step org st st'"
proof -
  obtain b v where l: "lock_draft st org = (b, v)" by (cases "lock_draft st org")
  have "st' = st \<or> st' = snd (persist_draft org actor now (app b) st)"
    using assms(1) l by (auto simp: cancel_within_lock_def split: if_splits prod.splits)
  moreover have "draft_write org st (snd (persist_draft org actor now (app b) st))"
    unfolding draft_write_def by (intro exI conjI impI) (rule refl | assumption | simp add: l assms(2))+
  ultimately show ?thesis by (auto simp: draft_step_def)
qed

lemma drop_entry_wf: "blob_wf b \<Longrightarrow> blob_wf (drop_entry s key b)"
  by (simp add: drop_entry_def blob_ops_wf)

lemma cancel_change_step: "cancel_change org actor kind key expected now st = Inr (res, st') \<Longrightarrow> draft_step org st st'"
  by (auto simp: cancel_change_def blob_ops_wf drop_entry_wf split: if_splits option.splits elim!: cancel_step)

lemma playground_step: "playground org st st' \<Longrightarrow> draft_step org st st'"
  by (induction rule: playground.induct)
     (erule staged_drafts deleted_drafts patched_drafts set_fact_field_step cancel_change_step)+

section \<open>Live writes\<close>

lemma written_drafts:
  "upsert_topic_row org now t st = Inr st' \<Longrightarrow> ks_drafts st' = ks_drafts st"
  "upsert_tariff_row org now ta st = Inr st' \<Longrightarrow> ks_drafts st' = ks_drafts st"
  "upsert_product_row org now p st = Inr st' \<Longrightarrow> ks_drafts st' = ks_drafts st"
  "upsert_contact_row org now c st = Inr st' \<Longrightarrow> ks_drafts st' = ks_drafts st"
  "upsert_policy_row org now l st = Inr st' \<Longrightarrow> ks_drafts st' = ks_drafts st"
  "upsert_tariff_info_row org now ti st = Inr st' \<Longrightarrow> ks_drafts st' = ks_drafts st"
  "upsert_zone_row org now z st = Inr st' \<Longrightarrow> ks_drafts st' = ks_drafts st"
  "upsert_specialist_row org now s st = Inr st' \<Longrightarrow> ks_drafts st' = ks_drafts st"
  "upsert_service_row org now v st = Inr st' \<Longrightarrow> ks_drafts st' = ks_drafts st"
  by (auto simp: row_writes split: if_splits)

lemma row_step:
  "upsert_topic_row org now t st = Inr st' \<Longrightarrow> live_write org st st'"
  "upsert_tariff_row org now ta st = Inr st' \<Longrightarrow> live_write org st st'"
  "upsert_product_row org now p st = Inr st' \<Longrightarrow> live_write org st st'"
  "upsert_contact_row org now c st = Inr st' \<Longrightarrow> live_write org st st'"
  "upsert_policy_row org now l st = Inr st' \<Longrightarrow> live_write org st st'"
  "upsert_tariff_info_row org now ti st = Inr st' \<Longrightarrow> live_write org st st'"
  "upsert_zone_row org now z st = Inr st' \<Longrightarrow> live_write org st st'"
  "upsert_specialist_row org now s st = Inr st' \<Longrightarrow> live_write org st st'"
  "upsert_service_row org now v st = Inr st' \<Longrightarrow> live_write org st st'"
  unfolding live_write_def by (blast intro: written_wf written_drafts written_elsewhere)+

lemma delete_step:
  "live_write org st (st\<lparr>ks_topics := delete_row dt_slug org k (ks_topics st)\<rparr>)"
  "live_write org st (st\<lparr>ks_tariffs := delete_row da_ref org k (ks_tariffs st)\<rparr>)"
  "live_write org st (st\<lparr>ks_products := delete_row dp_ref org k (ks_products st)\<rparr>)"
  "live_write org st (st\<lparr>ks_zones := delete_row dn_ref org k (ks_zones st)\<rparr>)"
  "live_write org st (st\<lparr>ks_specialists := delete_row ds_ref org k (ks_specialists st)\<rparr>)"
  "live_write org st (st\<lparr>ks_services := delete_row dv_ref org k (ks_services st)\<rparr>)"
  "live_write org st (st\<lparr>ks_assistants := delete_row singleton_key org () (ks_assistants st)\<rparr>)"
  "live_write org st (st\<lparr>ks_contacts := delete_row singleton_key org () (ks_contacts st)\<rparr>)"
  "live_write org st (st\<lparr>ks_policies := delete_row singleton_key org () (ks_policies st)\<rparr>)"
  "live_write org st (st\<lparr>ks_tariff_info := delete_row singleton_key org () (ks_tariff_info st)\<rparr>)"
  by (simp_all add: live_write_def kb_deleted_elsewhere deleted_wf)

lemma status_step:
  "live_write org st (archive_children org ref now st)"
  "s \<noteq> '''' \<Longrightarrow> live_write org st (set_specialist_status org ref s now st)"
  "s \<noteq> '''' \<Longrightarrow> live_write org st (set_service_status org ref s now st)"
  "live_write org st (upsert_config_row org now cf st)"
  "live_write org st (audit_row org now who ac note st)"
  by (simp_all add: live_write_def status_elsewhere config_elsewhere archive_children_wf set_specialist_status_wf
      set_service_status_wf upsert_config_wf)
     (simp_all add: archive_children_def set_specialist_status_def set_service_status_def upsert_config_row_def Let_def)

lemma audited_step:
  "audited org now actor ac note r = Inr st' \<Longrightarrow> (\<And>st1. r = Inr st1 \<Longrightarrow> live_write org st st1) \<Longrightarrow> live_write org st st'"
  by (auto simp: audited_def result_simps intro: live_trans [OF _ status_step(5)])

text \<open>The live editor's operations as one relation.\<close>

inductive live_edit :: "uuid \<Rightarrow> kb_store \<Rightarrow> kb_store \<Rightarrow> bool" where
  lv_topic: "put_live_topic org actor ti now st = Inr st' \<Longrightarrow> live_edit org st st'"
| lv_topic_del: "delete_live_topic org actor k now st = Inr st' \<Longrightarrow> live_edit org st st'"
| lv_tariff: "put_live_tariff org actor fi now st = Inr st' \<Longrightarrow> live_edit org st st'"
| lv_tariff_del: "delete_live_tariff org actor k now st = Inr st' \<Longrightarrow> live_edit org st st'"
| lv_product: "put_live_product org actor qi now st = Inr st' \<Longrightarrow> live_edit org st st'"
| lv_product_del: "delete_live_product org actor k now st = Inr st' \<Longrightarrow> live_edit org st st'"
| lv_specialist: "put_live_specialist org actor si now st = Inr st' \<Longrightarrow> live_edit org st st'"
| lv_specialist_del: "delete_live_specialist org actor k now st = Inr st' \<Longrightarrow> live_edit org st st'"
| lv_specialist_status: "set_live_specialist_sales_status org actor k s now st = Inr st' \<Longrightarrow> live_edit org st st'"
| lv_service: "put_live_service org actor v now st = Inr st' \<Longrightarrow> live_edit org st st'"
| lv_service_del: "delete_live_service org actor k now st = Inr st' \<Longrightarrow> live_edit org st st'"
| lv_service_status: "set_live_service_sales_status org actor k s now st = Inr st' \<Longrightarrow> live_edit org st st'"
| lv_zone: "put_live_zone org actor z now st = Inr st' \<Longrightarrow> live_edit org st st'"
| lv_zone_del: "delete_live_zone org actor k now st = Inr st' \<Longrightarrow> live_edit org st st'"
| lv_contacts: "patch_live_contacts org actor cp now st = Inr st' \<Longrightarrow> live_edit org st st'"
| lv_contacts_del: "delete_live_contacts org actor now st = Inr st' \<Longrightarrow> live_edit org st st'"
| lv_policies: "patch_live_policies org actor lp now st = Inr st' \<Longrightarrow> live_edit org st st'"
| lv_policies_del: "delete_live_policies org actor now st = Inr st' \<Longrightarrow> live_edit org st st'"
| lv_tariff_info: "patch_live_tariff_info org actor facts now st = Inr st' \<Longrightarrow> live_edit org st st'"
| lv_tariff_info_del: "delete_live_tariff_info org actor now st = Inr st' \<Longrightarrow> live_edit org st st'"
| lv_config: "patch_live_config org actor cf now st = Inr st' \<Longrightarrow> live_edit org st st'"
| lv_config_del: "delete_live_config org actor now st = Inr st' \<Longrightarrow> live_edit org st st'"

lemma live_deletes_step:
  "delete_live_topic org actor k now st = Inr st' \<Longrightarrow> live_write org st st'"
  "delete_live_tariff org actor k now st = Inr st' \<Longrightarrow> live_write org st st'"
  "delete_live_product org actor k now st = Inr st' \<Longrightarrow> live_write org st st'"
  "delete_live_specialist org actor k now st = Inr st' \<Longrightarrow> live_write org st st'"
  "delete_live_service org actor k now st = Inr st' \<Longrightarrow> live_write org st st'"
  "delete_live_zone org actor k now st = Inr st' \<Longrightarrow> live_write org st st'"
  "delete_live_contacts org actor now st = Inr st' \<Longrightarrow> live_write org st st'"
  "delete_live_policies org actor now st = Inr st' \<Longrightarrow> live_write org st st'"
  "delete_live_tariff_info org actor now st = Inr st' \<Longrightarrow> live_write org st st'"
  "delete_live_config org actor now st = Inr st' \<Longrightarrow> live_write org st st'"
  unfolding delete_live_topic_def delete_live_tariff_def delete_live_product_def delete_live_specialist_def
    delete_live_service_def delete_live_zone_def delete_live_contacts_def delete_live_policies_def
    delete_live_tariff_info_def delete_live_config_def
  by (auto simp: delete_step in_zone_world_def result_simps split: if_splits elim!: audited_step)

lemma live_writes_step:
  "put_live_topic org actor ti now st = Inr st' \<Longrightarrow> live_write org st st'"
  "put_live_tariff org actor fi now st = Inr st' \<Longrightarrow> live_write org st st'"
  "put_live_product org actor qi now st = Inr st' \<Longrightarrow> live_write org st st'"
  "put_live_specialist org actor si now st = Inr st' \<Longrightarrow> live_write org st st'"
  "put_live_zone org actor z now st = Inr st' \<Longrightarrow> live_write org st st'"
  "patch_live_contacts org actor cp now st = Inr st' \<Longrightarrow> live_write org st st'"
  "patch_live_policies org actor lp now st = Inr st' \<Longrightarrow> live_write org st st'"
  "patch_live_tariff_info org actor facts now st = Inr st' \<Longrightarrow> live_write org st st'"
  unfolding put_live_topic_def put_live_tariff_def put_live_product_def put_live_specialist_def
    put_live_zone_def patch_live_contacts_def patch_live_policies_def patch_live_tariff_info_def
  by (auto simp: in_zone_world_def Let_def result_simps split: if_splits prod.splits elim!: audited_step
      intro: row_step)

lemma live_services_step:
  "put_live_service org actor v now st = Inr st' \<Longrightarrow> live_write org st st'"
  "set_live_specialist_sales_status org actor k s now st = Inr st' \<Longrightarrow> live_write org st st'"
  "set_live_service_sales_status org actor k s now st = Inr st' \<Longrightarrow> live_write org st st'"
  "patch_live_config org actor cf now st = Inr st' \<Longrightarrow> live_write org st st'"
  unfolding put_live_service_def set_live_specialist_sales_status_def set_live_service_sales_status_def
    patch_live_config_def
  by (auto simp: Let_def result_simps or_default_def split: if_splits option.splits elim!: audited_step
      intro: status_step row_step live_trans [OF row_step(9) status_step(1)] live_trans [OF status_step(3) status_step(1)])

lemma live_edit_step: "live_edit org st st' \<Longrightarrow> live_write org st st'"
  by (induction rule: live_edit.induct) (erule live_deletes_step live_writes_step live_services_step)+

section \<open>Approval\<close>

lemma fold_wf: "blob_wf b \<Longrightarrow> (\<And>x b. blob_wf b \<Longrightarrow> blob_wf (f x b)) \<Longrightarrow> blob_wf (fold f xs b)"
  by (induction xs arbitrary: b) simp_all

lemma clear_approved_wf: "blob_wf b \<Longrightarrow> blob_wf (clear_approved sel a b)"
  by (simp add: clear_approved_def Let_def blob_wf_empty blob_ops_wf fold_wf)

lemma materialize_drafts: "materialize org now c a st = Inr st' \<Longrightarrow> ks_drafts st' = ks_drafts st"
  by (simp add: materialize_tables)

lemma minds_approve: "minds org (approve_mutation org actor sel now) st"
  unfolding minds_def approve_mutation_def Let_def live_write_def
  by (auto simp: result_simps clear_approved_wf materialize_elsewhere split: if_splits
      dest: materialize_wf materialize_drafts)

lemma approve_step: "approve_versioned org sel expected actor now st = Inr st' \<Longrightarrow> draft_step org st st'"
  by (auto simp: approve_versioned_def draft_step_def split: sum.splits prod.splits if_splits
      intro: write_versioned_step [OF _ minds_approve])

section \<open>The MCP writes\<close>

lemma record_provenance_frame:
  assumes "record_provenance i org typ key prov now st = Inr st'"
  obtains ms where "st' = st\<lparr>ks_materials := ms\<rparr>"
proof -
  define mine where "mine t \<longleftrightarrow> (\<exists>ms. t = st\<lparr>ks_materials := ms\<rparr>)" for t
  have m0: "mine st" unfolding mine_def by (rule exI [of _ "ks_materials st"]) simp
  have ins: "mine t'" if "insert_material m st = Inr t'" for m t'
    using that by (auto simp: insert_material_def mine_def split: if_splits)
  have tag: "mine t'" if "mine t" "tag_material org g i' t = Inr t'" for g i' t t'
    using that by (auto simp: tag_material_def mine_def Let_def split: option.splits)
  from assms obtain s1 where s1: "mine s1"
    and f: "foldE (tag_material org (provenance_target typ key)) (pv_materials prov) s1 = Inr st'"
    using m0 ins by (auto simp: record_provenance_def Let_def result_simps split: if_splits)
  have "mine st'" using f s1 by (rule foldE_invariant [where P = mine]) (rule tag)
  with that show thesis by (auto simp: mine_def)
qed

lemma materials_wf [simp]: "tables_wf (st\<lparr>ks_materials := ms\<rparr>) \<longleftrightarrow> tables_wf st"
  by (simp add: tables_wf_def)

lemma provenance_elsewhere:
  assumes "record_provenance i org typ key prov now st = Inr st'"
  shows "elsewhere org st' = elsewhere org st"
proof -
  define same where "same t \<longleftrightarrow> elsewhere org t = elsewhere org st" for t
  have ins: "same t'" if "insert_material m st = Inr t'" and "mr_org m = org" for m t'
    using that by (auto simp: insert_material_def same_def share_def split: if_splits)
  have tag: "same t'" if t: "same t" "tag_material org g i' t = Inr t'" for g i' t t'
  proof -
    obtain mg where "t' = t\<lparr>ks_materials := update_where (\<lambda>m. mr_id m = i' \<and> mr_org m = org)
        (\<lambda>m. m\<lparr>mr_metadata := mg\<rparr>) (ks_materials t)\<rparr>"
      using t(2) by (auto simp: tag_material_def Let_def split: option.splits)
    moreover have "filter (\<lambda>m. mr_org m \<noteq> org) (update_where (\<lambda>m. mr_id m = i' \<and> mr_org m = org)
        (\<lambda>m. m\<lparr>mr_metadata := mg\<rparr>) ms) = filter (\<lambda>m. mr_org m \<noteq> org) ms" for ms
      by (rule kb_filter_update_where) simp
    ultimately have "elsewhere org t' = elsewhere org t" by (simp add: share_def)
    with t(1) show ?thesis by (simp add: same_def)
  qed
  from assms obtain s1 where s1: "same s1"
    and f: "foldE (tag_material org (provenance_target typ key)) (pv_materials prov) s1 = Inr st'"
    by (auto simp: record_provenance_def Let_def result_simps blank_material_def same_def split: if_splits
        dest!: ins [unfolded same_def])
  have "same st'" using f s1 by (rule foldE_invariant [where P = same]) (rule tag)
  then show ?thesis by (simp add: same_def)
qed

lemma provenance_step: "record_provenance i org kb_type key prov now st = Inr st' \<Longrightarrow> live_write org st st'"
  unfolding live_write_def by (frule provenance_elsewhere, erule record_provenance_frame) simp

lemma minds_keyed:
  assumes "\<And>x b. blob_wf b \<Longrightarrow> blob_wf (put x b)"
  shows "minds org (keyed_mutation rnd i org ty key0 title edit put prov now) st"
  unfolding minds_def keyed_mutation_def
  by (auto simp: result_simps assms blob_ops_wf dest: provenance_step)

lemma minds_singleton:
  assumes "\<And>x b. blob_wf b \<Longrightarrow> blob_wf (put x b)"
  shows "minds org (singleton_mutation i org ty edit put prov now) st"
  unfolding minds_def singleton_mutation_def
  by (auto simp: result_simps assms blob_ops_wf dest: provenance_step)

lemma upserted_step:
  assumes "upserted ty (write_draft_versioned org expected user now mutate st) = Inr (res, st')"
    and "minds org mutate st"
  shows "draft_step org st st'"
  using assms(1) by (auto simp: upserted_def draft_step_def result_simps intro: write_versioned_step [OF _ assms(2)])

lemma drop_typed_wf: "blob_wf b \<Longrightarrow> blob_wf (drop_typed typ key b)"
  by (simp add: drop_typed_def blob_ops_wf)

lemma minds_delete:
  assumes "check_delete typ key = Inr ()"
  shows "minds org (delete_mutation org typ key) st"
proof -
  have "typ \<in> {''topic'', ''product'', ''tariff'', ''delivery_zone'', ''specialist'', ''service'', ''contacts'',
      ''policies'', ''tariff_info''}"
    using assms unfolding check_delete_def by (metis Inl_Inr_False insertCI insertE empty_iff)
  then have "delete_kind_for typ \<in> snd ` set change_kinds"
    by (elim insertE emptyE) (simp_all add: delete_kind_for_def known_kinds)
  then show ?thesis
    by (auto simp: minds_def delete_mutation_def Let_def drop_typed_wf blob_ops_wf split: option.splits)
qed

lemma attached_in_wf:
  "attached_in inp put b r = Inr (there, b') \<Longrightarrow> (\<And>x. blob_wf (put x b)) \<Longrightarrow> blob_wf b'"
  by (auto simp: attached_in_def split: option.splits)

lemma if_both: "(if c then x else y) = z \<Longrightarrow> (x = z \<Longrightarrow> P) \<Longrightarrow> (y = z \<Longrightarrow> P) \<Longrightarrow> P"
  by (simp split: if_splits)

lemma attach_entry_wf:
  assumes "attach_entry org inp key st b = Inr (there, b')" and b: "blob_wf b"
  shows "blob_wf b'"
  using assms(1) unfolding attach_entry_def Let_def
  by (elim if_both) (simp_all, (erule attached_in_wf, rule blob_ops_wf, rule b)+)

lemma minds_attach: "minds org (attach_mutation org inp) st"
  unfolding minds_def attach_mutation_def by (auto simp: result_simps blob_ops_wf dest: attach_entry_wf)

inductive mcp_write :: "uuid \<Rightarrow> kb_store \<Rightarrow> kb_store \<Rightarrow> bool" where
  mw_assistant: "mcp_upsert_assistant org user cf expected now st = Inr (res, st') \<Longrightarrow> mcp_write org st st'"
| mw_topic: "mcp_upsert_topic rnd i org user k tc expected prov now st = Inr (res, st') \<Longrightarrow> mcp_write org st st'"
| mw_product: "mcp_upsert_product rnd i org user k pc expected prov now st = Inr (res, st') \<Longrightarrow> mcp_write org st st'"
| mw_tariff: "mcp_upsert_tariff rnd i org user k fc expected prov now st = Inr (res, st') \<Longrightarrow> mcp_write org st st'"
| mw_contacts: "mcp_upsert_contacts i org user cc expected prov now st = Inr (res, st') \<Longrightarrow> mcp_write org st st'"
| mw_policies: "mcp_upsert_policies i org user lc expected prov now st = Inr (res, st') \<Longrightarrow> mcp_write org st st'"
| mw_tariff_info: "mcp_upsert_tariff_info i org user ic expected prov now st = Inr (res, st') \<Longrightarrow> mcp_write org st st'"
| mw_zone: "mcp_upsert_delivery_zone rnd i org user k nc expected prov now st = Inr (res, st') \<Longrightarrow> mcp_write org st st'"
| mw_specialist: "mcp_upsert_specialist rnd i org user k ac expected prov now st = Inr (res, st') \<Longrightarrow> mcp_write org st st'"
| mw_service: "mcp_upsert_service rnd i org user k vc expected prov now st = Inr (res, st') \<Longrightarrow> mcp_write org st st'"
| mw_delete: "mcp_delete org user typ k expected now st = Inr (v, st') \<Longrightarrow> mcp_write org st st'"
| mw_attach: "mcp_attach_media org user inp expected now st = Inr (ar, st') \<Longrightarrow> mcp_write org st st'"

lemma mcp_upserts_step:
  "mcp_upsert_assistant org user cf expected now st = Inr (res, st') \<Longrightarrow> draft_step org st st'"
  "mcp_upsert_topic rnd i org user k tc expected prov now st = Inr (res, st') \<Longrightarrow> draft_step org st st'"
  "mcp_upsert_product rnd i org user k pc expected prov now st = Inr (res, st') \<Longrightarrow> draft_step org st st'"
  "mcp_upsert_tariff rnd i org user k fc expected prov now st = Inr (res, st') \<Longrightarrow> draft_step org st st'"
  "mcp_upsert_contacts i org user cc expected prov now st = Inr (res, st') \<Longrightarrow> draft_step org st st'"
  "mcp_upsert_policies i org user lc expected prov now st = Inr (res, st') \<Longrightarrow> draft_step org st st'"
  "mcp_upsert_tariff_info i org user ic expected prov now st = Inr (res, st') \<Longrightarrow> draft_step org st st'"
  "mcp_upsert_delivery_zone rnd i org user k nc expected prov now st = Inr (res, st') \<Longrightarrow> draft_step org st st'"
  "mcp_upsert_specialist rnd i org user k ac expected prov now st = Inr (res, st') \<Longrightarrow> draft_step org st st'"
  "mcp_upsert_service rnd i org user k vc expected prov now st = Inr (res, st') \<Longrightarrow> draft_step org st st'"
  unfolding mcp_upsert_assistant_def mcp_upsert_topic_def mcp_upsert_product_def mcp_upsert_tariff_def
    mcp_upsert_contacts_def mcp_upsert_policies_def mcp_upsert_tariff_info_def mcp_upsert_delivery_zone_def
    mcp_upsert_specialist_def mcp_upsert_service_def
  by (erule upserted_step, (rule minds_keyed minds_singleton, erule blob_ops_wf | simp add: minds_def blob_ops_wf))+

lemma mcp_changes_step:
  "mcp_delete org user ty k expected now st = Inr (v, st') \<Longrightarrow> draft_step org st st'"
  "mcp_attach_media org user inp expected now st = Inr (ar, st') \<Longrightarrow> draft_step org st st'"
  by (auto simp: mcp_delete_def mcp_attach_media_def draft_step_def result_simps split: if_splits
      intro: write_versioned_step [OF _ minds_delete] write_versioned_step [OF _ minds_attach])

lemma mcp_write_step: "mcp_write org st st' \<Longrightarrow> draft_step org st st'"
  by (induction rule: mcp_write.induct) (erule mcp_upserts_step mcp_changes_step)+

section \<open>Reachable stores\<close>

text \<open>Materials and requests: the operations that touch no table of the knowledge base and no draft.\<close>

inductive side_write :: "kb_store \<Rightarrow> kb_store \<Rightarrow> bool" where
  sw_upload: "create_upload_material i org up now st = Inr st' \<Longrightarrow> side_write st st'"
| sw_complete: "complete_material_upload i backend key sz cksum now st = Inr st' \<Longrightarrow> side_write st st'"
| sw_material: "create_material i org mi now st = Inr st' \<Longrightarrow> side_write st st'"
| sw_extraction: "side_write st (update_material_extraction i ex now st)"
| sw_built: "side_write st (mark_materials_built ids now st)"
| sw_request: "create_request i org ri now st = Inr st' \<Longrightarrow> side_write st st'"
| sw_resolve: "side_write st (resolve_request i state resolution now st)"

lemma side_write_wf: "side_write st st' \<Longrightarrow> kb_wf st \<Longrightarrow> kb_wf st'"
  by (induction rule: side_write.induct)
     (auto simp: create_upload_material_def complete_material_upload_def create_material_def insert_material_def
        update_material_extraction_def mark_materials_built_def create_request_def resolve_request_def
        kb_wf_def drafts_wf_def tables_wf_def Let_def split: if_splits)

text \<open>A write of one organization: an edit of its draft, a publication or a live edit.\<close>

inductive kb_write :: "uuid \<Rightarrow> kb_store \<Rightarrow> kb_store \<Rightarrow> bool" where
  kw_playground: "playground org st st' \<Longrightarrow> kb_write org st st'"
| kw_mcp: "mcp_write org st st' \<Longrightarrow> kb_write org st st'"
| kw_live: "live_edit org st st' \<Longrightarrow> kb_write org st st'"
| kw_approve: "approve_versioned org sel expected actor now st = Inr st' \<Longrightarrow> kb_write org st st'"

inductive kb_step :: "kb_store \<Rightarrow> kb_store \<Rightarrow> bool" where
  ks_write: "kb_write org st st' \<Longrightarrow> kb_step st st'"
| ks_side: "side_write st st' \<Longrightarrow> kb_step st st'"

abbreviation kb_run :: "kb_store \<Rightarrow> kb_store \<Rightarrow> bool" where
  "kb_run \<equiv> rtranclp kb_step"

lemma kb_write_step: "kb_write org st st' \<Longrightarrow> draft_step org st st' \<or> live_write org st st'"
  by (induction rule: kb_write.induct) (blast dest: playground_step mcp_write_step live_edit_step approve_step)+

lemma kb_write_wf: "kb_write org st st' \<Longrightarrow> kb_wf st \<Longrightarrow> kb_wf st'"
  by (blast dest: kb_write_step intro: draft_step_wf live_write_wf)

lemma kb_write_elsewhere: "kb_write org st st' \<Longrightarrow> elsewhere org st' = elsewhere org st"
  by (drule kb_write_step) (auto simp: draft_step_elsewhere live_write_def)

lemma empty_kb_wf: "kb_wf empty_kb"
  by (simp add: kb_wf_def tables_wf_def drafts_wf_def empty_kb_def unique_rows_def stored_rows_def)

lemma kb_step_wf: "kb_step st st' \<Longrightarrow> kb_wf st \<Longrightarrow> kb_wf st'"
  by (erule kb_step.cases) (simp_all only: kb_write_wf side_write_wf)

lemma kb_run_wf: "kb_run st st' \<Longrightarrow> kb_wf st \<Longrightarrow> kb_wf st'"
  by (induction rule: rtranclp_induct) (simp_all only: kb_step_wf)


text \<open>
  C5: The store of the knowledge base is always well-formed. From the empty store, after any number of
  edits, cancelled changes, MCP writes, publications, live edits and deletes, uploads, materials and
  requests of any organizations: every table has at most one row per organization and key (one per
  organization for the singletons) with its columns' defaults in place, and every organization has at most
  one draft, with at most one pending entry per entity and delete markers of known kinds only.
\<close>

theorem kb_stays_well_formed:
  assumes "kb_run empty_kb st"
  shows "kb_wf st"
  using assms empty_kb_wf by (rule kb_run_wf)

lemma kb_stays_well_formed_witness: "kb_wf (projr demo_staged) \<and> ks_drafts (projr demo_staged) \<noteq> []"
proof -
  have "kb_run empty_kb (projr demo_staged)"
    using demo_runs(1) unfolding demo_staged_def by (blast intro: kw_playground pg_topic ks_write)
  moreover have "ks_drafts (projr demo_staged) \<noteq> []" by code_simp
  ultimately show ?thesis using kb_stays_well_formed by blast
qed

end
