(* ===== verification/Kb_Versions.thy ===== *)
theory Kb_Versions
  imports Kb_Invariant
begin

text \<open>
  Optimistic concurrency of the draft: its version only grows, and it grows whenever the draft changes, so
  a write that expects a version applies to exactly the draft that was read at it.
\<close>

section \<open>The version over steps\<close>

lemma find_after_bump:
  "find_by dr_org org (update_where (\<lambda>r. dr_org r = org) (bump_draft actor now b) rows)
     = map_option (bump_draft actor now b) (find_by dr_org org rows)"
proof -
  have "keyed_update dr_org (bump_draft actor now b)" by unfold_locales (simp add: bump_draft_def)
  from keyed_update.lookup_after [OF this, of org "\<lambda>r. dr_org r = org" rows] show ?thesis
    by (cases "find_by dr_org org rows") (auto dest: find_by_Some)
qed

lemma lock_after_persist:
  "lock_draft (snd (persist_draft org actor now b st)) org = (b, snd (lock_draft st org) + 1)"
  by (cases "find_by dr_org org (ks_drafts st)")
     (simp_all add: persist_draft_def lock_draft_def find_by_append find_after_bump bump_draft_def,
      simp add: find_by_def)

lemma persist_version: "fst (persist_draft org actor now b st) = snd (lock_draft st org) + 1"
  by (simp add: persist_draft_def lock_draft_def split: option.split)

lemma lock_draft_cong: "ks_drafts st' = ks_drafts st \<Longrightarrow> lock_draft st' org = lock_draft st org"
  by (simp add: lock_draft_def)

lemma lock_elsewhere:
  assumes "elsewhere org st' = elsewhere org st" and "org' \<noteq> org"
  shows "lock_draft st' org' = lock_draft st org'"
proof -
  have own: "find_by dr_org org' (ks_drafts (elsewhere org s)) = find_by dr_org org' (ks_drafts s)" for s
  proof -
    have "find (\<lambda>r. dr_org r = org') (filter (\<lambda>r. dr_org r \<noteq> org) xs) = find (\<lambda>r. dr_org r = org') xs" for xs
      using assms(2) by (induction xs) auto
    then show ?thesis by (simp add: share_def find_by_def)
  qed
  show ?thesis unfolding lock_draft_def using own [of st'] own [of st] assms(1) by simp
qed

lemma draft_write_lock: "draft_write org st st' \<Longrightarrow> snd (lock_draft st' org) = snd (lock_draft st org) + 1"
  unfolding draft_write_def using lock_draft_cong by (metis lock_after_persist snd_conv)

lemma side_write_drafts: "side_write st st' \<Longrightarrow> ks_drafts st' = ks_drafts st"
  by (induction rule: side_write.induct)
     (auto simp: create_upload_material_def complete_material_upload_def create_material_def insert_material_def
        update_material_extraction_def mark_materials_built_def create_request_def resolve_request_def
        Let_def split: if_splits)

lemma kb_step_version:
  assumes "kb_step st st'"
  shows "lock_draft st' org = lock_draft st org \<or> snd (lock_draft st org) < snd (lock_draft st' org)"
  using assms
proof cases
  case (ks_write o')
  then consider "draft_step o' st st'" | "live_write o' st st'" using kb_write_step by blast
  then show ?thesis
  proof cases
    case 1
    then have same: "o' \<noteq> org \<Longrightarrow> lock_draft st' org = lock_draft st org"
      by (metis draft_step_elsewhere lock_elsewhere)
    from 1 consider "st' = st" | "draft_write o' st st'" unfolding draft_step_def by blast
    then show ?thesis
    proof cases
      case 2
      show ?thesis
      proof (cases "o' = org")
        case True
        with draft_write_lock [of org st st'] 2 show ?thesis by simp
      next
        case False
        then show ?thesis by (rule same [THEN disjI1])
      qed
    qed simp
  next
    case 2
    then have "ks_drafts st' = ks_drafts st" by (simp add: live_write_def)
    then show ?thesis by (intro disjI1) (rule lock_draft_cong)
  qed
next
  case ks_side
  then show ?thesis by (intro disjI1 lock_draft_cong) (rule side_write_drafts)
qed

lemma kb_run_version:
  assumes "kb_run st st'"
  shows "lock_draft st' org = lock_draft st org \<or> snd (lock_draft st org) < snd (lock_draft st' org)"
  using assms
proof (induction rule: rtranclp_induct)
  case (step y z)
  from kb_step_version [OF step.hyps(2), of org] step.IH show ?case by auto
qed simp

text \<open>
  C6: No update is lost. A client reads the draft at some version; then the knowledge base runs through any
  number of steps (edits, publications and live edits of any organization, uploads, requests); then the
  client submits a change with the version it read. If the change is accepted, it was applied to exactly
  the draft the client read, and the version it returns is the next one; otherwise the draft has moved on
  and the answer is \<open>ErrStaleDraft\<close>, with no change made.
\<close>

theorem no_update_is_lost:
  assumes run: "kb_run st0 st" and read: "read_draft st0 org = (b, v, u)"
  shows "(case write_draft_versioned org (Some v) actor now mutate st of
            Inr ((r, v'), st') \<Rightarrow>
              \<exists>b' st1. mutate b st = Inr (r, b', st1) \<and> persist_draft org actor now b' st1 = (v', st')
          | Inl e \<Rightarrow> mutate b st = Inl e \<or> e = StaleDraft \<and> v < draft_base_version st org)"
proof -
  have l: "lock_draft st0 org = (b, v)" using read by (simp add: read_draft_def lock_draft_def split: option.splits)
  have base: "draft_base_version st org = snd (lock_draft st org)"
    by (simp add: draft_base_version_def read_draft_def lock_draft_def split: option.split)
  obtain b2 v2 where l2: "lock_draft st org = (b2, v2)" by (cases "lock_draft st org")
  from kb_run_version [OF run, of org] consider "b2 = b" "v2 = v" | "v < v2" by (auto simp: l l2)
  then show ?thesis
  proof cases
    case 1
    show ?thesis
    proof (cases "mutate b st")
      case (Inl e)
      with 1 l2 show ?thesis by (simp add: write_draft_versioned_def)
    next
      case (Inr x)
      obtain r b' st1 where "x = (r, b', st1)" by (cases x)
      moreover obtain v' st' where "persist_draft org actor now b' st1 = (v', st')"
        by (cases "persist_draft org actor now b' st1")
      ultimately show ?thesis using Inr 1 l2 by (simp add: write_draft_versioned_def)
    qed
  next
    case 2
    then show ?thesis by (simp add: write_draft_versioned_def l2 base)
  qed
qed


text \<open>The sample client read the draft before another one edited it.\<close>

lemma no_update_is_lost_witness:
  "write_draft_versioned 1 (Some 0) 2 demo_time (approve_mutation 1 2 all_changes demo_time) (projr demo_staged) = Inl StaleDraft
     \<and> 0 < draft_base_version (projr demo_staged) 1"
proof -
  let ?approve = "approve_mutation 1 2 all_changes demo_time"
  have run: "kb_run empty_kb (projr demo_staged)"
    using demo_runs(1) unfolding demo_staged_def by (blast intro: kw_playground pg_topic ks_write)
  have read: "read_draft empty_kb 1 = (empty_blob, 0, zero_time)" by (simp add: read_draft_def empty_kb_def find_by_def)
  have "write_draft_versioned 1 (Some 0) 2 demo_time ?approve (projr demo_staged) = Inl StaleDraft"
    and "is_ok (?approve empty_blob (projr demo_staged))" by code_simp+
  with no_update_is_lost [OF run read, where actor = 2 and now = demo_time and mutate = ?approve]
  show ?thesis by auto
qed

end
