(* ===== verification/Kb_Tenants.thy ===== *)
theory Kb_Tenants
  imports Kb_Invariant
begin

text \<open>
  Organizations share the tables of the knowledge base: what one of them sees, and that no other changes it.
\<close>

lemma org_rows_share [simp]: "org_rows org (filter (\<lambda>r. kr_org r = org) rows) = org_rows org rows"
  by (simp add: org_rows_def)

lemma find_filter_idem: "find (\<lambda>x. p x \<and> q x) (filter p xs) = find (\<lambda>x. p x \<and> q x) xs"
  by (induction xs) auto

lemma row_at_share [simp]: "row_at key org k (filter (\<lambda>r. kr_org r = org) rows) = row_at key org k rows"
  using find_filter_idem [of "\<lambda>r. kr_org r = org" "\<lambda>r. key (kr_body r) = k" rows]
  by (simp add: row_at_def row_hit_def [abs_def])

lemma read_draft_share [simp]: "read_draft (tenant org st) org = read_draft st org"
  by (simp add: read_draft_def share_def find_by_def find_filter_idem [where q = "\<lambda>r. True", simplified])

lemma views_share:
  "live_view (tenant org st) org = live_view st org"
  "draft_view_of (tenant org st) org = draft_view_of st org"
  by (simp_all add: live_view_def draft_view_of_def merged_view_def)
     (simp_all add: share_def list_materials_def list_requests_def)

text \<open>
  Every operation with the organization it acts for: the writes of its draft and its live rows, and the
  operations on materials and requests. Four of the latter find their row by its identifier alone, without
  the organization in the condition of the statement; what keeps them inside is that their callers pass
  identifiers of their own organization (of a material they have just created, or of an upload slot that is
  bound to one material), which is the premise here.
\<close>

definition own_materials :: "uuid \<Rightarrow> uuid set \<Rightarrow> kb_store \<Rightarrow> bool" where
  "own_materials org is st \<longleftrightarrow> (\<forall>m\<in>set (ks_materials st). mr_id m \<in> is \<longrightarrow> mr_org m = org)"

definition own_request :: "uuid \<Rightarrow> uuid \<Rightarrow> kb_store \<Rightarrow> bool" where
  "own_request org i st \<longleftrightarrow> (\<forall>r\<in>set (ks_requests st). rq_id r = i \<longrightarrow> rq_org r = org)"

inductive org_write :: "uuid \<Rightarrow> kb_store \<Rightarrow> kb_store \<Rightarrow> bool" where
  ow_write: "kb_write org st st' \<Longrightarrow> org_write org st st'"
| ow_upload: "create_upload_material i org up now st = Inr st' \<Longrightarrow> org_write org st st'"
| ow_complete: "complete_material_upload i backend key sz cksum now st = Inr st' \<Longrightarrow> own_materials org {i} st
    \<Longrightarrow> org_write org st st'"
| ow_material: "create_material i org mi now st = Inr st' \<Longrightarrow> org_write org st st'"
| ow_extraction: "own_materials org {i} st \<Longrightarrow> org_write org st (update_material_extraction i ex now st)"
| ow_built: "own_materials org (set ids) st \<Longrightarrow> org_write org st (mark_materials_built ids now st)"
| ow_request: "create_request i org ri now st = Inr st' \<Longrightarrow> org_write org st st'"
| ow_resolve: "own_request org i st \<Longrightarrow> org_write org st (resolve_request i state resolution now st)"

lemma filter_update_own:
  "(\<And>x. x \<in> set xs \<Longrightarrow> p x \<Longrightarrow> \<not> q x \<and> \<not> q (f x)) \<Longrightarrow> filter q (update_where p f xs) = filter q xs"
  by (induction xs) (auto simp: update_where_def)

lemma share_materials:
  "filter (\<lambda>m. own (mr_org m)) ms = filter (\<lambda>m. own (mr_org m)) (ks_materials st)
     \<Longrightarrow> share own (st\<lparr>ks_materials := ms\<rparr>) = share own st"
  by (simp add: share_def)

lemma share_requests:
  "filter (\<lambda>r. own (rq_org r)) rs = filter (\<lambda>r. own (rq_org r)) (ks_requests st)
     \<Longrightarrow> share own (st\<lparr>ks_requests := rs\<rparr>) = share own st"
  by (simp add: share_def)

lemma org_write_elsewhere: "org_write org st st' \<Longrightarrow> elsewhere org st' = elsewhere org st"
proof (induction rule: org_write.induct)
  case (ow_write org st st')
  then show ?case by (rule kb_write_elsewhere)
next
  case (ow_upload i org up now st st')
  then show ?case
    by (auto simp: create_upload_material_def insert_material_def blank_material_def Let_def split: if_splits
        intro!: share_materials)
next
  case (ow_complete i backend key sz cksum now st st' org)
  then show ?case
    by (auto simp: complete_material_upload_def own_materials_def finish_upload_def Let_def split: if_splits
        intro!: share_materials filter_update_own)
next
  case (ow_material i org mi now st st')
  then show ?case
    by (auto simp: create_material_def insert_material_def blank_material_def Let_def split: if_splits
        intro!: share_materials)
next
  case (ow_extraction org i st ex now)
  then show ?case
    by (auto simp: update_material_extraction_def own_materials_def intro!: share_materials filter_update_own)
next
  case (ow_built org ids st now)
  then show ?case
    by (auto simp: mark_materials_built_def own_materials_def intro!: share_materials filter_update_own)
next
  case (ow_request i org ri now st st')
  then show ?case by (auto simp: create_request_def split: if_splits intro!: share_requests)
next
  case (ow_resolve org i st state resolution now)
  then show ?case
    by (auto simp: resolve_request_def own_request_def intro!: share_requests filter_update_own)
qed

text \<open>
  C7: Organizations are isolated. Whatever is done for one organization (an edit of the draft, a cancelled
  change, an MCP write or attachment, a publication, a live edit or delete, a material or a request
  created, an upload completed, an extraction stored, materials marked as built, a request resolved, the
  last four under identifiers of rows it owns), the rows, the draft, the materials, the requests and the
  audit log of every other organization stay exactly as they were, and so do the live page and the
  preview it sees.
\<close>

theorem tenants_are_isolated:
  assumes "org_write org st st'" and other: "org' \<noteq> org"
  shows "tenant org' st' = tenant org' st
     \<and> live_view st' org' = live_view st org' \<and> draft_view_of st' org' = draft_view_of st org'"
proof -
  have "tenant org' st' = tenant org' st"
    using org_write_elsewhere [OF assms(1)] tenant_elsewhere [OF other] by metis
  then show ?thesis by (metis views_share)
qed

lemma demo_tenant_write: "org_write 1 empty_kb (projr demo_staged)"
  using demo_runs(1) unfolding demo_staged_def by (blast intro: ow_write kw_playground pg_topic)

lemma tenants_are_isolated_witness:
  "tenant 3 (projr demo_staged) = tenant 3 empty_kb \<and> live_view (projr demo_staged) 3 = live_view empty_kb 3
     \<and> draft_view_of (projr demo_staged) 3 = draft_view_of empty_kb 3"
  by (rule tenants_are_isolated [OF demo_tenant_write]) simp

end
