(* ===== verification/Kb_Cancel.thy ===== *)
theory Kb_Cancel
  imports Kb_Versions Kb_Tenants
begin

text \<open>
  Cancelling one pending change (\<open>CancelChange\<close>): what it removes, what it leaves alone, and the kind it
  forgets.
\<close>

definition same_entity :: "string \<Rightarrow> string \<Rightarrow> string \<Rightarrow> string \<Rightarrow> bool" where
  "same_entity s key s' key' \<longleftrightarrow> s' = s \<and> (is_singleton_kind s \<or> key' = key)"

text \<open>The part of a draft that is about one entity: its entry and its delete marker.\<close>

definition entity_part :: "string \<Rightarrow> string \<Rightarrow> draft_blob \<Rightarrow> draft_blob" where
  "entity_part s key b = empty_blob
     \<lparr>bl_topics := (if s = ''topic'' then filter (\<lambda>t. dt_slug t = key) (bl_topics b) else []),
      bl_tariffs := (if s = ''tariff'' then filter (\<lambda>t. da_ref t = key) (bl_tariffs b) else []),
      bl_products := (if s = ''product'' then filter (\<lambda>p. dp_ref p = key) (bl_products b) else []),
      bl_zones := (if s = ''delivery_zone'' then filter (\<lambda>z. dn_ref z = key) (bl_zones b) else []),
      bl_specialists := (if s = ''specialist'' then filter (\<lambda>p. ds_ref p = key) (bl_specialists b) else []),
      bl_services := (if s = ''service'' then filter (\<lambda>v. dv_ref v = key) (bl_services b) else []),
      bl_contacts := (if s = ''contact'' then bl_contacts b else []),
      bl_policies := (if s = ''policy'' then bl_policies b else []),
      bl_tariff_info := (if s = ''tariff_info'' then bl_tariff_info b else []),
      bl_deletes := filter (\<lambda>d. delete_matches d s key) (bl_deletes b)\<rparr>"

definition without_change :: "string \<Rightarrow> string \<Rightarrow> draft_blob \<Rightarrow> draft_blob" where
  "without_change s key b = remove_delete_matching s key (drop_entry s key b)"

lemmas remove_defs = remove_topic_def remove_tariff_def remove_product_def remove_zone_def remove_specialist_def
  remove_service_def remove_contact_def remove_policy_def remove_delete_matching_def remove_by_def

lemma without_change_parts:
  "bl_topics (without_change s key b) = (if s = ''topic'' then filter (\<lambda>t. dt_slug t \<noteq> key) (bl_topics b) else bl_topics b)"
  "bl_tariffs (without_change s key b) = (if s = ''tariff'' then filter (\<lambda>t. da_ref t \<noteq> key) (bl_tariffs b) else bl_tariffs b)"
  "bl_products (without_change s key b) = (if s = ''product'' then filter (\<lambda>p. dp_ref p \<noteq> key) (bl_products b) else bl_products b)"
  "bl_zones (without_change s key b) = (if s = ''delivery_zone'' then filter (\<lambda>z. dn_ref z \<noteq> key) (bl_zones b) else bl_zones b)"
  "bl_specialists (without_change s key b)
     = (if s = ''specialist'' then filter (\<lambda>p. ds_ref p \<noteq> key) (bl_specialists b) else bl_specialists b)"
  "bl_services (without_change s key b) = (if s = ''service'' then filter (\<lambda>v. dv_ref v \<noteq> key) (bl_services b) else bl_services b)"
  "bl_contacts (without_change s key b) = (if s = ''contact'' then [] else bl_contacts b)"
  "bl_policies (without_change s key b) = (if s = ''policy'' then [] else bl_policies b)"
  "bl_tariff_info (without_change s key b) = bl_tariff_info b"
  "bl_config (without_change s key b) = bl_config b"
  "bl_deletes (without_change s key b) = filter (\<lambda>d. \<not> delete_matches d s key) (bl_deletes b)"
  by (simp_all add: without_change_def drop_entry_def remove_defs)

lemma change_cancelled:
  assumes "s \<noteq> ''tariff_info''"
  shows "entity_part s key (without_change s key b) = empty_blob"
  using assms unfolding entity_part_def without_change_parts
  by (simp add: filter_filter empty_blob_def cong: if_cong split del: if_split)

lemma kb_filter_other: "key' \<noteq> key \<Longrightarrow> filter (\<lambda>x. k x \<noteq> key \<and> k x = key') xs = filter (\<lambda>x. k x = key') xs"
  by (rule filter_cong) auto

lemma change_kept:
  assumes "\<not> same_entity s key s' key'"
  shows "entity_part s' key' (without_change s key b) = entity_part s' key' b"
proof -
  have d: "filter (\<lambda>d. \<not> delete_matches d s key \<and> delete_matches d s' key') ds = filter (\<lambda>d. delete_matches d s' key') ds" for ds
    using assms by (intro filter_cong) (auto simp: delete_matches_def same_entity_def)
  show ?thesis
  proof (cases "s' = s")
    case True
    with assms have "key' \<noteq> key" and "s \<noteq> ''contact''" "s \<noteq> ''policy''" "s \<noteq> ''tariff_info''"
      by (auto simp: same_entity_def is_singleton_kind_def)
    with True d show ?thesis unfolding entity_part_def without_change_parts
      by (simp add: filter_filter kb_filter_other cong: if_cong split del: if_split)
  next
    case False
    note other = this
    have p: "filter (\<lambda>d. delete_matches d s' key') (filter (\<lambda>d. \<not> delete_matches d s key) ds)
        = filter (\<lambda>d. delete_matches d s' key') ds" for ds using d by (simp add: filter_filter)
    show ?thesis
    proof (cases "s' \<in> {''topic'', ''tariff'', ''product'', ''delivery_zone'', ''specialist'', ''service'', ''contact'', ''policy''}")
      case True
      then show ?thesis using other unfolding entity_part_def without_change_parts p
        by (elim insertE emptyE) (simp_all add: not_sym)
    next
      case False
      then show ?thesis unfolding entity_part_def without_change_parts p by simp
    qed
  qed
qed

lemma filter_Nil: "(\<exists>x \<in> set xs. p x) \<longleftrightarrow> filter p xs \<noteq> []"
  by (induction xs) auto

lemma present_iff:
  assumes "s \<noteq> ''tariff_info''"
  shows "entity_change_present b s key \<longleftrightarrow> entity_part s key b \<noteq> empty_blob"
proof (cases "s \<in> {''topic'', ''tariff'', ''product'', ''delivery_zone'', ''specialist'', ''service'', ''contact'', ''policy''}")
  case True
  then show ?thesis
    unfolding entity_change_present_def entry_present_def entity_part_def empty_blob_def list_ex_iff filter_Nil
    by (elim insertE emptyE) (simp_all add: disj_commute)
next
  case False
  with assms show ?thesis
    unfolding entity_change_present_def entry_present_def entity_part_def empty_blob_def list_ex_iff filter_Nil by simp
qed

lemma cancel_change_eq:
  assumes "singular_delete_kind kind = Some s"
  shows "cancel_change org actor kind key expected now st
    = cancel_within_lock org actor expected (\<lambda>b. entity_change_present b s key)
        (without_change s key) now st"
proof -
  have "kind \<noteq> ''config''" using assms by (auto simp: singular_delete_kind_def change_kinds_def)
  with assms show ?thesis by (simp add: cancel_change_def without_change_def [abs_def])
qed

lemma cancel_cases:
  assumes ok: "cancel_within_lock org actor expected present app now st = Inr (res, st')"
  obtains (absent) "st' = st" and "\<not> present (fst (lock_draft st org))" and "\<not> cn_changed res"
  | (present) "st' = snd (persist_draft org actor now (app (fst (lock_draft st org))) st)"
      and "present (fst (lock_draft st org))" and "cn_changed res" and "cn_version res = snd (lock_draft st org) + 1"
  using ok
  by (cases "lock_draft st org"; cases "persist_draft org actor now (app (fst (lock_draft st org))) st")
     (use persist_version [of org actor now "app (fst (lock_draft st org))" st] in
        \<open>auto simp: cancel_within_lock_def split: if_splits\<close>)

text \<open>
  C23: Cancelling a pending change removes that change and nothing else. When \<open>CancelChange\<close> of an entity
  (of any kind but the tariff information) succeeds, nothing of the entity is left in the draft, neither
  its entry nor its delete marker; the pending configuration and every other entity's entry and marker are
  what they were; nothing live has changed; and the reported version is the draft's. It reports a change
  just when something was pending, and the same call again changes nothing, whatever version it expects.
\<close>

theorem cancel_removes_one_change:
  assumes ok: "cancel_change org actor kind key expected now st = Inr (res, st')"
    and kind: "singular_delete_kind kind = Some s" and known: "s \<noteq> ''tariff_info''"
  defines "b \<equiv> fst (lock_draft st org)" and "b' \<equiv> fst (lock_draft st' org)"
  shows "entity_part s key b' = empty_blob \<and> (cn_changed res \<longleftrightarrow> entity_part s key b \<noteq> empty_blob)
    \<and> (\<forall>s' key'. \<not> same_entity s key s' key' \<longrightarrow> entity_part s' key' b' = entity_part s' key' b)
    \<and> bl_config b' = bl_config b \<and> live_view st' org = live_view st org \<and> cn_version res = snd (lock_draft st' org)
    \<and> cancel_change org actor2 kind key expected2 now2 st'
        = Inr (\<lparr>cn_changed = False, cn_version = cn_version res\<rparr>, st')"
proof -
  note c = ok [unfolded cancel_change_eq [OF kind]]
  have again: "cancel_change org actor2 kind key expected2 now2 st'
      = Inr (\<lparr>cn_changed = False, cn_version = snd (lock_draft st' org)\<rparr>, st')" if "entity_part s key b' = empty_blob"
    using that by (cases "lock_draft st' org") (simp add: cancel_change_eq [OF kind] cancel_within_lock_def b'_def present_iff [OF known])
  show ?thesis
  proof (cases rule: cancel_cases [OF c])
    case 1
    have "cn_version res = snd (lock_draft st org)" using c 1(2)
      by (cases "lock_draft st org") (auto simp: cancel_within_lock_def split: if_splits prod.splits)
    with 1 again show ?thesis by (simp add: b_def b'_def present_iff [OF known])
  next
    case 2
    have "b' = without_change s key b" and v: "snd (lock_draft st' org) = snd (lock_draft st org) + 1"
      by (simp_all add: b'_def b_def 2(1) lock_after_persist)
    moreover have "live_view st' org = live_view st org" by (simp add: 2(1) live_view_def merged_view_def list_materials_def)
    ultimately show ?thesis using again 2(2-4)
      by (simp add: change_cancelled [OF known] change_kept without_change_parts(10) present_iff [OF known] b_def)
  qed
qed

text \<open>
  C26: A pending edit of the tariff information cannot be cancelled. \<open>CancelChange\<close> accepts the kind
  \<open>tariff_info\<close>, but no branch of it looks at the pending entry: with no delete marker it reports that
  nothing was pending and leaves the edit in the draft; with one it removes the marker and still leaves the
  edit, and in both cases a later publication writes it.
\<close>

theorem tariff_info_edit_survives_cancel:
  "\<exists>res st'. cancel_change org actor ''tariff_info'' key None now st = Inr (res, st')
     \<and> bl_tariff_info (fst (lock_draft st' org)) = bl_tariff_info (fst (lock_draft st org))
     \<and> (cn_changed res \<longleftrightarrow> list_ex (\<lambda>d. dd_kind d = ''tariff_info'') (bl_deletes (fst (lock_draft st org))))"
proof -
  have k: "singular_delete_kind ''tariff_info'' = Some ''tariff_info''" by (simp add: singular_delete_kind_def change_kinds_def)
  have p: "entity_change_present b ''tariff_info'' key \<longleftrightarrow> list_ex (\<lambda>d. dd_kind d = ''tariff_info'') (bl_deletes b)" for b
    by (simp add: entity_change_present_def entry_present_def delete_matches_def is_singleton_kind_def)
  obtain b v where l: "lock_draft st org = (b, v)" by (cases "lock_draft st org")
  obtain v' st' where pd: "persist_draft org actor now (without_change ''tariff_info'' key b) st = (v', st')"
    by (cases "persist_draft org actor now (without_change ''tariff_info'' key b) st")
  from lock_after_persist [of org actor now "without_change ''tariff_info'' key b" st]
  have "fst (lock_draft st' org) = without_change ''tariff_info'' key b" by (simp add: pd)
  then show ?thesis using l pd by (simp add: cancel_change_eq [OF k] cancel_within_lock_def p without_change_parts)
qed


lemma cancel_removes_one_change_witness:
  "entity_part ''topic'' ''faq'' (fst (lock_draft (projr demo_marked) 1)) \<noteq> empty_blob
     \<and> entity_part ''topic'' ''faq'' (fst (lock_draft (snd (projr demo_cancelled)) 1)) = empty_blob
     \<and> live_view (snd (projr demo_cancelled)) 1 = live_view (projr demo_marked) 1"
proof -
  have ok: "cancel_change 1 2 ''topics'' ''faq'' None demo_time (projr demo_marked)
      = Inr (fst (projr demo_cancelled), snd (projr demo_cancelled))"
    using demo_runs(8) by (simp only: demo_cancelled_def prod.collapse)
  have s: "singular_delete_kind ''topics'' = Some ''topic''" "''topic'' \<noteq> ''tariff_info''" by (simp_all add: singular_delete_kind_def change_kinds_def)
  have "cn_changed (fst (projr demo_cancelled))" by code_simp
  with cancel_removes_one_change [OF ok s, of 2 None demo_time] show ?thesis by blast
qed

end
