(* ===== verification/Kb_Edits.thy ===== *)
theory Kb_Edits
  imports Kb_Cancel
begin

text \<open>
  From an edit to the live page: what becomes of one staged entry when the draft is published, with and
  without a pending delete of the same entity.
\<close>

section \<open>One row through an approval\<close>

lemma find_update_hit:
  "find (row_hit key org k) (update_where (row_hit key org (key x)) (rewrite_row now x) rows)
    = (if k = key x then map_option (rewrite_row now x) (find (row_hit key org k) rows) else find (row_hit key org k) rows)"
  unfolding row_hit_def [abs_def] rewrite_row_def [abs_def] update_where_def by (induction rows) auto

lemma find_append: "find p (xs @ ys) = (case find p xs of None \<Rightarrow> find p ys | Some x \<Rightarrow> Some x)"
  by (induction xs) auto

lemma row_at_upsert:
  "row_at key org k (upsert_row key org now x rows) = (if k = key x then Some x else row_at key org k rows)"
proof (cases "list_ex (row_hit key org (key x)) rows")
  case True
  then obtain r where "find (row_hit key org (key x)) rows = Some r"
    by (cases "find (row_hit key org (key x)) rows") (auto simp: list_ex_iff find_None_iff)
  with True show ?thesis
    by (simp add: row_at_def upsert_row_def find_update_hit rewrite_row_def)
next
  case False
  then have "find (row_hit key org (key x)) rows = None" by (auto simp: list_ex_iff find_None_iff)
  with False show ?thesis
    by (auto simp: row_at_def upsert_row_def find_append new_row_def row_hit_def split: option.splits)
qed

lemma row_at_written:
  assumes norm: "\<And>x. key (norm x) = key x"
  shows "row_at key org k (written_rows key norm org now xs rows)
    = (case find_by key k (rev xs) of None \<Rightarrow> row_at key org k rows | Some x \<Rightarrow> Some (norm x))"
  unfolding written_rows_def
  by (induction xs arbitrary: rows) (simp_all add: row_at_upsert norm find_by_def find_append split: option.split)

lemma row_at_left:
  assumes same: "\<And>x y. key x = key y \<Longrightarrow> gone x = gone y"
  shows "row_at key org k (left_rows org gone rows)
    = (case row_at key org k rows of None \<Rightarrow> None | Some x \<Rightarrow> if gone x then None else Some x)"
proof (induction rows)
  case (Cons r rows)
  show ?case
  proof (cases "row_hit key org k r")
    case hit: True
    then have org: "kr_org r = org" by (simp add: row_hit_def)
    show ?thesis
    proof (cases "gone (kr_body r)")
      case True
      have "\<not> row_hit key org k r'" if "r' \<in> set (left_rows org gone rows)" for r'
      proof
        assume h: "row_hit key org k r'"
        then have "gone (kr_body r')" using hit True same [of "kr_body r'" "kr_body r"] by (simp add: row_hit_def)
        with that h show False by (simp add: left_rows_def row_hit_def)
      qed
      then have "row_at key org k (left_rows org gone rows) = None" by (simp add: row_at_def find_None_iff)
      with hit org True show ?thesis by (simp add: row_at_def left_rows_def)
    next
      case False
      with hit org show ?thesis by (simp add: row_at_def left_rows_def)
    qed
  next
    case False
    then show ?thesis using Cons.IH by (simp add: row_at_def left_rows_def)
  qed
qed (simp add: row_at_def left_rows_def)

text \<open>A topic after the publication of the whole draft.\<close>

lemma published_topic:
  assumes ok: "approve_versioned org \<lparr>ap_kind = '''', ap_key = key\<rparr> expected actor now st = Inr st'"
    and d: "drafts_wf st"
  defines "b \<equiv> fst (lock_draft st org)"
  shows "row_at dt_slug org k (ks_topics st')
    = (if \<lparr>dd_kind = ''topic'', dd_key = k\<rparr> \<in> set (bl_deletes b) then None
       else case find_by dt_slug k (bl_topics b) of None \<Rightarrow> row_at dt_slug org k (ks_topics st) | Some t \<Rightarrow> Some t)
     \<and> fst (lock_draft st' org) = empty_blob"
  using ok
proof (cases rule: approve_cases)
  case (written b' v st1)
  have b: "b' = b" using written(1) by (simp add: b_def)
  have m: "materialize org now (bl_config b) (whole_draft b) st = Inr st1"
    using written(3) b by (simp add: select_approved_def)
  have bw: "blob_wf b" using locked_wf [OF d written(1)] b by simp
  have marked: "topics_table.marked (bl_deletes b) t \<longleftrightarrow> \<lparr>dd_kind = ''topic'', dd_key = dt_slug t\<rparr> \<in> set (bl_deletes b)" for t
  proof -
    have "dd_kind d = ''topic'' \<and> dd_key d = dt_slug t \<longleftrightarrow> d = \<lparr>dd_kind = ''topic'', dd_key = dt_slug t\<rparr>" for d
      by (cases d) simp
    then show ?thesis unfolding topics_table.marked_def by simp
  qed
  have rev: "find_by dt_slug k (rev (bl_topics b)) = find_by dt_slug k (bl_topics b)"
  proof (cases "find_by dt_slug k (bl_topics b)")
    case None
    then have "find_by dt_slug k (rev (bl_topics b)) = None" by (simp add: find_by_None)
    with None show ?thesis by simp
  next
    case (Some t)
    then have "t \<in> set (rev (bl_topics b))" "dt_slug t = k" by (auto dest: find_by_Some)
    with find_by_unique [of dt_slug "rev (bl_topics b)" t] bw Some show ?thesis by (simp add: blob_wf_def rev_map [symmetric])
  qed
  let ?r = "case find_by dt_slug k (bl_topics b) of None \<Rightarrow> row_at dt_slug org k (ks_topics st) | Some t \<Rightarrow> Some t"
  have r: "dt_slug t = k" if "?r = Some t" for t
    using that by (auto simp: row_at_def find_Some_iff row_hit_def split: option.splits dest: find_by_Some)
  have "row_at dt_slug org k (ks_topics st')
      = (case ?r of None \<Rightarrow> None | Some x \<Rightarrow> if topics_table.marked (bl_deletes b) x then None else Some x)"
    using written(4)
    by (simp add: approved_store_def materialize_tables(1) [OF m] b whole_draft_def row_at_left marked row_at_written rev)
  then have "row_at dt_slug org k (ks_topics st')
    = (if \<lparr>dd_kind = ''topic'', dd_key = k\<rparr> \<in> set (bl_deletes b) then None else ?r)"
    using r marked by (cases "?r") simp_all
  moreover have "fst (lock_draft st' org) = empty_blob"
    by (simp add: written(4) approved_store_def lock_after_persist clear_approved_def)
  ultimately show ?thesis by simp
qed simp_all

section \<open>An edit of an entity that is to be deleted\<close>

lemma upserted_versioned:
  assumes "upserted ty (write_draft_versioned org expected user now mutate st) = Inr (res, st')"
  obtains b' st1 where "mutate (fst (lock_draft st org)) st = Inr ((ur_key res, ur_created res), b', st1)"
    and "st' = snd (persist_draft org user now b' st1)"
proof -
  from assms obtain key created version where
    w: "write_draft_versioned org expected user now mutate st = Inr (((key, created), version), st')"
    and r: "ur_key res = key" "ur_created res = created" by (auto simp: upserted_def result_simps)
  from w [unfolded write_versioned_Inr] obtain b' st1 where
    "mutate (fst (lock_draft st org)) st = Inr ((key, created), b', st1)"
    and p: "persist_draft org user now b' st1 = (version, st')" by blast
  with that [of b' st1] r show thesis by simp
qed

lemma find_upsert_by: "find_by key (key x) (upsert_by key x xs) = Some x"
  by (induction xs) (simp_all add: find_by_def)

lemma topic_edit_result:
  assumes "mcp_topic_edit org ch key creating st b = Inr t"
  shows "dt_slug t = key" and "\<forall>v. tc_title ch = Some v \<longrightarrow> dt_title t = v" and "\<forall>v. tc_body ch = Some v \<longrightarrow> dt_body t = v"
  using assms by (auto simp: mcp_topic_edit_def apply_topic_media_def coalesce_def Let_def result_simps)

text \<open>
  C24: An MCP edit reaches the live page. When \<open>MCPUpsertTopic\<close> accepts an edit, whatever was pending for
  that topic before, a delete included, the next publication of the draft makes the topic live under the
  key the tool reported, with the title and the body the caller sent.
\<close>

theorem mcp_edit_goes_live:
  assumes edit: "mcp_upsert_topic rnd i org user slug ch expected prov now st = Inr (res, st1)"
    and publish: "approve_versioned org \<lparr>ap_kind = '''', ap_key = k\<rparr> expected2 actor now2 st1 = Inr st2"
    and wf: "kb_wf st"
  shows "\<exists>t. row_at dt_slug org (ur_key res) (ks_topics st2) = Some t \<and> dt_slug t = ur_key res
    \<and> (\<forall>v. tc_title ch = Some v \<longrightarrow> dt_title t = v) \<and> (\<forall>v. tc_body ch = Some v \<longrightarrow> dt_body t = v)"
proof -
  have "draft_step org st st1" using edit by (rule mcp_upserts_step)
  then have d: "drafts_wf st1" using draft_step_wf wf by (auto simp: kb_wf_def)
  obtain b' s1 where m: "keyed_mutation rnd i org ''topic'' slug (tc_title ch) (mcp_topic_edit org ch) upsert_topic prov now
      (fst (lock_draft st org)) st = Inr ((ur_key res, ur_created res), b', s1)"
    and st1: "st1 = snd (persist_draft org user now b' s1)"
    using edit unfolding mcp_upsert_topic_def by (rule upserted_versioned)
  from m obtain t where t: "mcp_topic_edit org ch (ur_key res) (ur_created res) st (fst (lock_draft st org)) = Inr t"
    and b': "b' = remove_delete ''topic'' (ur_key res) (upsert_topic t (fst (lock_draft st org)))"
    by (auto simp: keyed_mutation_def result_simps delete_kind_for_def)
  note r = topic_edit_result [OF t]
  have "row_at dt_slug org (ur_key res) (ks_topics st2) = Some t"
    using published_topic [OF publish d, of "ur_key res"] find_upsert_by [of dt_slug t] r(1)
    by (simp add: st1 lock_after_persist b' remove_delete_def upsert_topic_def)
  with r show ?thesis by blast
qed

text \<open>
  C25: A Playground edit of a topic that is to be deleted is lost. \<open>UpsertTopic\<close> of the Playground stages
  the edit and leaves the delete marker in the draft; the publication of the draft then removes the topic
  from the live page, and the draft, emptied, no longer holds the edit either.
\<close>

theorem playground_edit_of_deleted_topic_is_lost:
  assumes marked: "\<lparr>dd_kind = ''topic'', dd_key = ti_slug inp\<rparr> \<in> set (bl_deletes (fst (lock_draft st org)))"
    and edit: "upsert_topic_draft org actor inp now st = Inr st1"
    and publish: "approve_versioned org \<lparr>ap_kind = '''', ap_key = k\<rparr> expected actor2 now2 st1 = Inr st2"
    and wf: "kb_wf st"
  shows "row_at dt_slug org (ti_slug inp) (ks_topics st2) = None \<and> fst (lock_draft st2 org) = empty_blob"
proof -
  have "draft_step org st st1" using edit by (rule staged_drafts)
  then have d: "drafts_wf st1" using draft_step_wf wf by (auto simp: kb_wf_def)
  obtain r where "write_draft_versioned org None actor now (blob_only (stage_topic org inp)) st = Inr (r, st1)"
    using edit write_draft_Inr unfolding upsert_topic_draft_def by blast
  then obtain b' where b': "stage_topic org inp st (fst (lock_draft st org)) = Inr b'"
    and st1: "st1 = snd (persist_draft org actor now b' st)"
    by (cases r) (auto simp: write_versioned_Inr blob_only_def result_simps)
  have "bl_deletes b' = bl_deletes (fst (lock_draft st org))"
    using b' by (auto simp: stage_topic_def Let_def result_simps upsert_topic_def split: prod.splits)
  then have "bl_deletes (fst (lock_draft st1 org)) = bl_deletes (fst (lock_draft st org))" by (simp add: st1 lock_after_persist)
  with marked published_topic [OF publish d] show ?thesis by simp
qed


lemma demo_marked_wf: "kb_wf (projr demo_marked)"
  by code_simp

lemma mcp_edit_goes_live_witness:
  "\<exists>t. row_at dt_slug 1 (ur_key (fst (projr demo_mcp))) (ks_topics (projr demo_restored)) = Some t \<and> dt_title t = ''Questions''"
proof -
  have edit: "mcp_upsert_topic ''r'' 7 1 2 ''faq'' demo_changes (Some 3) no_provenance demo_time (projr demo_marked)
      = Inr (fst (projr demo_mcp), snd (projr demo_mcp))"
    using demo_runs(6) by (simp only: demo_mcp_def prod.collapse)
  have publish: "approve_versioned 1 \<lparr>ap_kind = '''', ap_key = ''''\<rparr> None 2 demo_time (snd (projr demo_mcp)) = Inr (projr demo_restored)"
    using demo_runs(7) by (simp only: demo_restored_def all_changes_def)
  have "tc_title demo_changes = Some ''Questions''" by (simp add: demo_changes_def)
  with mcp_edit_goes_live [OF edit publish demo_marked_wf] show ?thesis by blast
qed

lemma playground_edit_of_deleted_topic_is_lost_witness:
  "row_at dt_slug 1 ''faq'' (ks_topics (projr demo_lost)) = None \<and> row_at dt_slug 1 ''faq'' (ks_topics (projr demo_marked)) \<noteq> None"
proof -
  have marked: "\<lparr>dd_kind = ''topic'', dd_key = ti_slug demo_topic\<rparr> \<in> set (bl_deletes (fst (lock_draft (projr demo_marked) 1)))"
    by code_simp
  have edit: "upsert_topic_draft 1 2 demo_topic demo_time (projr demo_marked) = Inr (projr demo_edited)"
    using demo_runs(4) by (simp only: demo_edited_def)
  have publish: "approve_versioned 1 \<lparr>ap_kind = '''', ap_key = ''''\<rparr> None 2 demo_time (projr demo_edited) = Inr (projr demo_lost)"
    using demo_runs(5) by (simp only: demo_lost_def all_changes_def)
  have "ti_slug demo_topic = ''faq''" by (simp add: demo_topic_def)
  moreover have "row_at dt_slug 1 ''faq'' (ks_topics (projr demo_marked)) \<noteq> None" by code_simp
  ultimately show ?thesis using playground_edit_of_deleted_topic_is_lost [OF marked edit publish demo_marked_wf] by simp
qed

end
