(* ===== verification/Spec2Isabelle.thy ===== *)
theory Spec2Isabelle
  imports Campaign_Recipients Campaign_Scheduler Automation_Safety Ai_Zones Ai_Engine Crm_Promises Kb_Edits
begin

text \<open>
  A verification development for xchats, a service that answers customers over messengers and sends
  campaigns (the Go code under \<open>src/backend\<close>). Five parts are modelled. They share one SQL database
  and are driven by timers, by a queue, by inbound messages and by the operators.

  \<^bold>\<open>Campaigns.\<close> A campaign has recipients, pacing limits and sending windows. A scheduler ticks per
  account, claims the next recipient in a transaction that checks status, windows, rolling tiers and the
  minimum interval, sends through a delivery service, and finalizes the outcome.
  \<^item> \<open>Campaign_Domain\<close>: \<open>campaign/campaign.go\<close>, \<open>retry.go\<close>, \<open>validate.go\<close>: statuses, transitions, backoff,
    validation.
  \<^item> \<open>Campaign_Budget\<close>, \<open>Campaign_Forecast\<close>: \<open>campaign/budget.go\<close>: the budget of a history, the next
    slot, the completion forecast. Optimised searches are compared with their specifications.
  \<^item> \<open>Campaign_Recipients\<close>, \<open>Campaign_Render\<close>: \<open>campaign/recipients.go\<close>, \<open>render.go\<close>: recipient lists and
    message templates.
  \<^item> \<open>Campaign_Store\<close>, \<open>Campaign_Roster\<close>, \<open>Campaign_Claim\<close>: \<open>internal/store/campaigns.go\<close>, tables as
    lists of rows in a state record, each method a function on the state.
  \<^item> \<open>Campaign_Safety\<close>, \<open>Campaign_Runs\<close>, \<open>Campaign_Cap\<close>: what a claim guarantees; a step relation over
    operations, sends, lost outcomes, sends that were accepted although an error was reported, and
    crashes, with at-most-once delivery and the rolling cap.
  \<^item> \<open>Outbound\<close>: \<open>internal/outbound/outbound.go\<close>, the delivery core, whose error does not tell whether the
    provider accepted the message.
  \<^item> \<open>Campaign_Runner\<close>, \<open>Campaign_Scheduler\<close>: \<open>internal/campaign/runner.go\<close>, \<open>scheduler.go\<close>; the runner
    refines the step relation, with other goroutines running between its transactions.

  \<^bold>\<open>Automation.\<close> Inbound messages arm a debounce per chat; due bursts become jobs; a job generates an
  answer outside any transaction, which is written and sent only if nothing happened meanwhile.
  \<^item> \<open>Automation_Domain\<close>: \<open>automation/automation.go\<close>. \<open>Automation_Store\<close>: \<open>internal/store/automation.go\<close>.
    \<open>Automation_Runner\<close>: \<open>internal/automation/runner.go\<close> in its two halves, before and after the
    generation, because other operations run in between; the second half is a sequence of transactions,
    each of which can fail, with what others commit before each as a parameter (\<open>run_env\<close>).
  \<^item> \<open>Automation_Events\<close>: the operations as steps of a run, labelled where a property asks what happened.
    \<open>Automation_Safety\<close>: the properties, and three situations in which they break down.

  \<^bold>\<open>Answers.\<close> A request builds a catalog of tokens from the knowledge base. The model answers with
  tokens in the place of exact values and files; code substitutes the values of the current rows.
  \<^item> \<open>Unicode_Tables\<close>, \<open>Unicode_Text\<close>: UTF-8, letter classes and case mapping of Go's standard library
    (Unicode 15.0), with the round trip of the encoding.
  \<^item> \<open>Ai_Schedule\<close>, \<open>Ai_Facts\<close>, \<open>Ai_Kb\<close>: \<open>aiprompt/schedule.go\<close>, \<open>facts.go\<close>, \<open>types.go\<close>, \<open>registry.go\<close>.
  \<^item> \<open>Ai_Catalog\<close>, \<open>Ai_Zones\<close>: \<open>aiprompt/catalog.go\<close>, and the termination of its zone walk.
  \<^item> \<open>Ai_Resolve\<close>: the substitution and media half of \<open>aiprompt/contract.go\<close>; a fresh catalog offers
    only what resolves.
  \<^item> \<open>Ai_Prompt\<close>, \<open>Ai_Prompt_Gates\<close>: \<open>aiprompt/prompt.go\<close>, \<open>leak.go\<close> and the response schema: the slots
    of a frame, the gates; what is not on offer cannot change the prompt.
  \<^item> \<open>Text_Regex\<close>, \<open>Json\<close>, \<open>Json_Print\<close>: what the program uses of Go's \<open>regexp\<close> and \<open>encoding/json\<close>, an
    executable matcher with its denotation and a parser whose call bound is never used up.
  \<^item> \<open>Ai_Final\<close>: \<open>aiprompt/finaljson.go\<close>; \<open>Ai_Guards\<close>, \<open>Ai_Gap\<close>: the salon guards of \<open>contract.go\<close> and
    \<open>kbgap.go\<close>; \<open>Ai_Contract\<close>: validation of answers (\<open>contract.go\<close>) and retries (\<open>retry.go\<close>).
  \<^item> \<open>Ai_Engine\<close>: \<open>response/engine.go\<close>, \<open>service.go\<close>, \<open>aiprompt/customer.go\<close>, \<open>tail.go\<close>: a run from the
    knowledge base to the draft. The model is a parameter that may answer anything; every draft is the
    holding text or grounded in the knowledge base.

  \<^bold>\<open>Customers.\<close> An inbound message finds or creates the customer behind its channel identity;
  operators tag, annotate, schedule, edit and merge customers, within their organization but for the
  references to statuses, which nothing confines to it.
  \<^item> \<open>Crm_Tables\<close>, \<open>Crm_Customers\<close>, \<open>Crm_Activity\<close>, \<open>Crm_Merge\<close>: \<open>internal/store/crm.go\<close>,
    \<open>crm_timeline.go\<close>, \<open>crm_notes.go\<close>, \<open>crm_followups.go\<close>, \<open>crm_merge.go\<close>.
  \<^item> \<open>Crm_Schema\<close>, \<open>Crm_Writes\<close>, \<open>Crm_Safety\<close>: the schema as an invariant kept by every method, the
    steps labelled with the acting organization, the chains of merges, the isolation of organizations.
    \<open>Crm_Promises\<close>: the properties, and four places where the code falls short of its comments.

  \<^bold>\<open>Knowledge base.\<close> What the answers are built from. Operators edit a draft (one document per organization,
  with a version) in the Playground, agents edit it through MCP tools, and an approval publishes it into
  the live tables; a live editor writes to those tables directly; a reply loads them.
  \<^item> \<open>Kb_Rows\<close>, \<open>Kb_Gate\<close>, \<open>Kb_Media\<close>: entries, tables and delete markers (\<open>internal/kbstore/draft.go\<close>,
    \<open>changes.go\<close>, \<open>kbstore.go\<close>, \<open>zones.go\<close>), the checks before publication, and media references, uploads,
    provenance and materials (\<open>mcp_media.go\<close>, \<open>media_apply.go\<close>, \<open>materials.go\<close>).
  \<^item> \<open>Kb_Draft\<close>, \<open>Kb_Playground\<close>, \<open>Kb_Approve\<close>: the versioned write under the row lock, \<open>CancelChange\<close>,
    validation (\<open>salon_validate.go\<close>, \<open>facts_validate.go\<close>), the draft CRUD, the views and the approval.
  \<^item> \<open>Kb_Live\<close>: \<open>live.go\<close> and the zone writes. \<open>Kb_Identity\<close>, \<open>Kb_Mcp\<close>: \<open>mcp_types.go\<close>, \<open>mcp_read.go\<close>,
    \<open>mcp_write.go\<close>, \<open>mcp_attach.go\<close>. \<open>Kb_Load\<close>: \<open>internal/responsestore/kb.go\<close>.
  \<^item> \<open>Kb_Laws\<close>: the laws of a table as a locale, interpreted on the nine live tables. \<open>Kb_Publish\<close>: an
    approval makes live what the preview showed. \<open>Kb_Invariant\<close>: the operations as relations and the
    invariant of the store; \<open>Kb_Tenants\<close>, \<open>Kb_Versions\<close>: isolation of organizations, no lost updates;
    \<open>Kb_Cancel\<close>, \<open>Kb_Edits\<close>: cancelled changes, and edits of entities that are to be deleted.
    \<open>Kb_Samples\<close>: the runs on which the hypotheses are seen to hold.

  \<^bold>\<open>Conventions.\<close> A Go string is a list of bytes (\<open>char list\<close>); a Go error is the left side of a sum; an
  instant is an integer of nanoseconds; a table is a list of rows and \<open>find_by\<close> reads it by key. Errors
  carry constructors instead of formatted texts. \<open>Prelude\<close> holds the collections \<open>trim_simps\<close>,
  \<open>result_simps\<close> and \<open>table_simps\<close>, and the locale of key-preserving updates.

  \<^bold>\<open>Bounds.\<close> Loops without a structural measure take a step budget that a theorem shows is never used
  up: the scheduler's drain stops after 20 claims because the code says so; the minute scan of windows
  covers the days the code scans; the parent walk of zones gets two steps more than there are zones. The
  search for a free key and the gate's walk up the zones end by a measure.

  \<^bold>\<open>Not modelled.\<close> SQL itself (isolation below serializable; a failing connection, except where a property
  depends on it: the delivery, the finalizing of a send and the second half of an automation run), tickers,
  the worker pool, HTTP routing, channel adapters, model and speech providers, the desktop shell, and
  the evaluation harness: they are I/O or calls of third-party services. Import runs and the
  demo data of the knowledge base, the remaining stores and the ingest of inbound messages are not modelled
  yet.
\<close>

end
